(* ===== verification/Prelude.thy ===== *)
theory Prelude
  imports Complex_Main "HOL-Library.AList" "HOL-Library.Sublist" "HOL-Library.Char_ord"
    "HOL-Library.List_Lexorder"
begin

section \<open>Prelude: Python values, strings, dictionaries and errors\<close>

text \<open>
  What every component of the model shares.  A Python \<open>str\<close> is a HOL \<open>string\<close>, read as its
  UTF-8 bytes; the text operations below are Python's on ASCII text (white space and line
  breaks outside ASCII are not recognised).  A \<open>dict\<close> whose keys are not fixed by the code is
  an association list in insertion order: \<open>AList.update\<close> overwrites in place or appends,
  \<open>AList.delete\<close> is \<open>pop(key, None)\<close>, \<open>map_of\<close> is \<open>get\<close>.  An exception is a value
  \<open>Exn cls msg lines\<close>: its class name, its \<open>str()\<close> and its \<open>lines\<close> attribute (empty for the
  classes that have none); a function that may raise returns \<open>exn + 'a\<close>.
\<close>

named_theorems text_simps \<open>characteristic equations of the string operations\<close>
named_theorems dict_simps \<open>lookups after dictionary updates\<close>

subsection \<open>Errors\<close>

datatype exn = Exn (exn_class: string) (exn_str: string) (exn_lines: "string list")

type_synonym 'a res = "exn + 'a"

abbreviation raise :: "string \<Rightarrow> string \<Rightarrow> 'a res" where
  "raise cls msg \<equiv> Inl (Exn cls msg [])"

definition res_bind :: "'a res \<Rightarrow> ('a \<Rightarrow> 'b res) \<Rightarrow> 'b res" where
  "res_bind m f = (case m of Inl e \<Rightarrow> Inl e | Inr x \<Rightarrow> f x)"

lemma res_bind_simps [simp]:
  "res_bind (Inl e) f = Inl e"
  "res_bind (Inr x) f = f x"
  by (simp_all add: res_bind_def)

lemma res_bind_Inr_iff: "res_bind m f = Inr y \<longleftrightarrow> (\<exists>x. m = Inr x \<and> f x = Inr y)"
  by (cases m) auto

subsection \<open>Truthiness of optional values\<close>

text \<open>\<open>truthy_s\<close> is Python's truth value of a \<open>str | None\<close>, \<open>or_s\<close> is \<open>x or d\<close>.\<close>

fun truthy_s :: "string option \<Rightarrow> bool" where
  "truthy_s None = False"
| "truthy_s (Some s) = (s \<noteq> [])"

definition or_s :: "string option \<Rightarrow> string \<Rightarrow> string" where
  "or_s x d = (if truthy_s x then the x else d)"

definition get_or :: "'a option \<Rightarrow> 'a \<Rightarrow> 'a" where
  "get_or x d = (case x of None \<Rightarrow> d | Some y \<Rightarrow> y)"

lemma get_or_simps [simp]: "get_or None d = d" "get_or (Some y) d = y"
  by (simp_all add: get_or_def)

lemma truthy_s_iff: "truthy_s x \<longleftrightarrow> (\<exists>s. x = Some s \<and> s \<noteq> [])"
  by (cases x) auto

lemma or_s_simps [simp]:
  "or_s None d = d" "or_s (Some []) d = d" "or_s (Some (c # s)) d = c # s"
  by (simp_all add: or_s_def)

subsection \<open>Dictionaries as association lists\<close>

abbreviation dict_get :: "('k \<times> 'v) list \<Rightarrow> 'k \<Rightarrow> 'v option" where
  "dict_get \<equiv> map_of"

abbreviation dict_set :: "'k \<Rightarrow> 'v \<Rightarrow> ('k \<times> 'v) list \<Rightarrow> ('k \<times> 'v) list" where
  "dict_set \<equiv> AList.update"

abbreviation dict_pop :: "'k \<Rightarrow> ('k \<times> 'v) list \<Rightarrow> ('k \<times> 'v) list" where
  "dict_pop \<equiv> AList.delete"

abbreviation dict_ok :: "('k \<times> 'v) list \<Rightarrow> bool" where
  "dict_ok d \<equiv> distinct (map fst d)"

lemma dict_get_set [dict_simps]:
  "dict_get (dict_set k v d) k' = (if k = k' then Some v else dict_get d k')"
  by (simp add: update_conv')

lemma dict_get_pop [dict_simps]:
  "dict_get (dict_pop k d) k' = (if k = k' then None else dict_get d k')"
  by (simp add: delete_conv')

lemma dict_ok_set [simp, intro]: "dict_ok d \<Longrightarrow> dict_ok (dict_set k v d)"
  by (rule distinct_update)

lemma dict_ok_pop [simp, intro]: "dict_ok d \<Longrightarrow> dict_ok (dict_pop k d)"
  by (rule distinct_delete)

subsection \<open>Characters\<close>

abbreviation code_point :: "char \<Rightarrow> nat" where
  "code_point c \<equiv> of_char c"

definition NL :: char where "NL = CHR 0x0A"
definition CR :: char where "CR = CHR 0x0D"
definition TAB :: char where "TAB = CHR 0x09"
definition QUOTE :: char where "QUOTE = CHR 0x27"
definition DQUOTE :: char where "DQUOTE = CHR 0x22"

definition is_space :: "char \<Rightarrow> bool" where
  "is_space c \<longleftrightarrow> c \<in> set [CHR 0x20, CHR 0x09, CHR 0x0A, CHR 0x0B, CHR 0x0C, CHR 0x0D,
     CHR 0x1C, CHR 0x1D, CHR 0x1E, CHR 0x1F]"

definition is_linebreak :: "char \<Rightarrow> bool" where
  "is_linebreak c \<longleftrightarrow> c \<in> set [CHR 0x0A, CHR 0x0D, CHR 0x0B, CHR 0x0C, CHR 0x1C, CHR 0x1D, CHR 0x1E]"

definition is_digit :: "char \<Rightarrow> bool" where
  "is_digit c \<longleftrightarrow> 48 \<le> code_point c \<and> code_point c \<le> 57"

definition is_lower :: "char \<Rightarrow> bool" where
  "is_lower c \<longleftrightarrow> 97 \<le> code_point c \<and> code_point c \<le> 122"

definition is_upper :: "char \<Rightarrow> bool" where
  "is_upper c \<longleftrightarrow> 65 \<le> code_point c \<and> code_point c \<le> 90"

definition is_hex :: "char \<Rightarrow> bool" where
  "is_hex c \<longleftrightarrow> is_digit c \<or> (97 \<le> code_point c \<and> code_point c \<le> 102)"

definition lower_char :: "char \<Rightarrow> char" where
  "lower_char c = (if is_upper c then char_of (code_point c + 32) else c)"

definition py_lower :: "string \<Rightarrow> string" where
  "py_lower s = map lower_char s"

definition upper_char :: "char \<Rightarrow> char" where
  "upper_char c = (if is_lower c then char_of (code_point c - 32) else c)"

definition py_upper :: "string \<Rightarrow> string" where
  "py_upper s = map upper_char s"

lemma linebreak_is_space: "is_linebreak c \<Longrightarrow> is_space c"
  by (auto simp: is_linebreak_def is_space_def)

lemma is_space_NL [simp]: "is_space NL" "is_linebreak NL"
  by (simp_all add: is_space_def is_linebreak_def NL_def)

subsection \<open>Stripping\<close>

definition py_lstrip :: "string \<Rightarrow> string" where
  "py_lstrip s = dropWhile is_space s"

definition py_rstrip :: "string \<Rightarrow> string" where
  "py_rstrip s = rev (dropWhile is_space (rev s))"

definition py_strip :: "string \<Rightarrow> string" where
  "py_strip s = py_rstrip (py_lstrip s)"

text \<open>\<open>s.lstrip(c)\<close>, \<open>s.rstrip(c)\<close> and \<open>s.strip(c)\<close> for a single character \<open>c\<close>.\<close>

definition lstrip_char :: "char \<Rightarrow> string \<Rightarrow> string" where
  "lstrip_char c s = dropWhile (\<lambda>x. x = c) s"

definition rstrip_char :: "char \<Rightarrow> string \<Rightarrow> string" where
  "rstrip_char c s = rev (dropWhile (\<lambda>x. x = c) (rev s))"

definition strip_char :: "char \<Rightarrow> string \<Rightarrow> string" where
  "strip_char c s = rstrip_char c (lstrip_char c s)"

subsection \<open>Prefixes and substrings\<close>

abbreviation starts_with :: "string \<Rightarrow> string \<Rightarrow> bool" where
  "starts_with s p \<equiv> prefix p s"

definition ends_with :: "string \<Rightarrow> string \<Rightarrow> bool" where
  "ends_with s p = prefix (rev p) (rev s)"

text \<open>The first occurrence of a separator: \<open>s.split(sep, 1)\<close>, \<open>s.partition(sep)\<close>.\<close>

fun split_once :: "string \<Rightarrow> string \<Rightarrow> (string \<times> string) option" where
  "split_once sep [] = (if sep = [] then Some ([], []) else None)"
| "split_once sep (c # s) =
     (if prefix sep (c # s) then Some ([], drop (length sep) (c # s))
      else map_option (\<lambda>(a, b). (c # a, b)) (split_once sep s))"

definition contains :: "string \<Rightarrow> string \<Rightarrow> bool" where
  "contains s sub \<longleftrightarrow> split_once sub s \<noteq> None"

text \<open>\<open>s.split(sep)\<close> for a separator string; an empty separator (a \<open>ValueError\<close> in Python)
  is never passed by the code.\<close>

lemma split_once_append: "split_once sep s = Some (a, b) \<Longrightarrow> s = a @ sep @ b"
proof (induction s arbitrary: a b)
  case Nil
  then show ?case by (auto split: if_splits)
next
  case (Cons c s)
  show ?case
  proof (cases "prefix sep (c # s)")
    case True
    then have "sep @ drop (length sep) (c # s) = c # s"
      by (metis append_take_drop_id append_eq_conv_conj prefix_def)
    with Cons.prems True show ?thesis by simp
  next
    case False
    then show ?thesis using Cons by auto
  qed
qed

lemma split_once_length:
  "split_once sep s = Some (a, b) \<Longrightarrow> length s = length a + length sep + length b"
  by (drule split_once_append) simp

function py_split :: "string \<Rightarrow> string \<Rightarrow> string list" where
  "py_split sep s =
     (if sep = [] then [s]
      else case split_once sep s of None \<Rightarrow> [s] | Some (a, b) \<Rightarrow> a # py_split sep b)"
  by pat_completeness auto
termination
  by (relation "measure (\<lambda>(sep, s). length s)") (auto dest: split_once_length)

declare py_split.simps [simp del]

fun py_join :: "string \<Rightarrow> string list \<Rightarrow> string" where
  "py_join sep [] = []"
| "py_join sep [x] = x"
| "py_join sep (x # y # ys) = x @ sep @ py_join sep (y # ys)"

definition py_replace :: "string \<Rightarrow> string \<Rightarrow> string \<Rightarrow> string" where
  "py_replace old new s = py_join new (py_split old s)"

text \<open>\<open>s.rsplit(c, 1)\<close> for a single character: the part before and after the last \<open>c\<close>.\<close>

definition rsplit_once :: "char \<Rightarrow> string \<Rightarrow> (string \<times> string) option" where
  "rsplit_once c s =
     (if c \<in> set s
      then Some (rev (tl (dropWhile (\<lambda>x. x \<noteq> c) (rev s))), rev (takeWhile (\<lambda>x. x \<noteq> c) (rev s)))
      else None)"

text \<open>\<open>s.split(c)\<close> for a single character, as a structural recursion.\<close>

fun split_pred :: "(char \<Rightarrow> bool) \<Rightarrow> string \<Rightarrow> string list" where
  "split_pred P [] = [[]]"
| "split_pred P (c # s) =
     (if P c then [] # split_pred P s
      else case split_pred P s of [] \<Rightarrow> [[c]] | w # ws \<Rightarrow> (c # w) # ws)"

definition split_char :: "char \<Rightarrow> string \<Rightarrow> string list" where
  "split_char c s = split_pred (\<lambda>x. x = c) s"

text \<open>\<open>s.split()\<close>: the maximal runs of non-space characters.\<close>

definition py_words :: "string \<Rightarrow> string list" where
  "py_words s = filter (\<lambda>w. w \<noteq> []) (split_pred is_space s)"

text \<open>\<open>s.split(None, 1)\<close>: the first word and the left-stripped rest, where there is a rest.\<close>

definition split_first_word :: "string \<Rightarrow> string list" where
  "split_first_word s =
     (let t = py_lstrip s; w = takeWhile (\<lambda>c. \<not> is_space c) t;
          r = py_lstrip (dropWhile (\<lambda>c. \<not> is_space c) t)
      in if t = [] then [] else if r = [] then [w] else [w, r])"

text \<open>\<open>s.splitlines()\<close>; \<open>\r\n\<close> is one break, a final break opens no line.\<close>

fun lines_from :: "string \<Rightarrow> string \<Rightarrow> string list" where
  "lines_from acc [] = (if acc = [] then [] else [rev acc])"
| "lines_from acc (c # s) =
     (if is_linebreak c
      then rev acc # lines_from [] (if c = CR \<and> s \<noteq> [] \<and> hd s = NL then tl s else s)
      else lines_from (c # acc) s)"

definition py_lines :: "string \<Rightarrow> string list" where
  "py_lines s = lines_from [] s"

subsection \<open>JSON values\<close>

text \<open>What \<open>json.loads\<close> returns.  Numbers the code reads are integers; an object is a dictionary
  in insertion order.  \<open>json_item j k\<close> is \<open>j[k]\<close> and \<open>json_get j k\<close> is \<open>j.get(k)\<close>; both raise on a
  value that is not an object, which is \<open>None\<close> here.\<close>

datatype json = JNull | JBool bool | JNum int | JStr string | JList "json list"
  | JObj "(string \<times> json) list"

fun json_truthy :: "json \<Rightarrow> bool" where
  "json_truthy JNull = False"
| "json_truthy (JBool b) = b"
| "json_truthy (JNum n) = (n \<noteq> 0)"
| "json_truthy (JStr s) = (s \<noteq> [])"
| "json_truthy (JList l) = (l \<noteq> [])"
| "json_truthy (JObj d) = (d \<noteq> [])"

fun json_item :: "json \<Rightarrow> string \<Rightarrow> json option" where
  "json_item (JObj d) k = dict_get d k"
| "json_item _ k = None"

fun json_get :: "json \<Rightarrow> string \<Rightarrow> json option" where
  "json_get (JObj d) k = Some (get_or (dict_get d k) JNull)"
| "json_get _ k = None"

subsection \<open>Computations that send requests\<close>

text \<open>A computation that talks to the outside takes the list of requests sent so far and returns a result or
  an exception with the extended list; what is answered may depend on everything sent before.\<close>

type_synonym ('h, 'a) steps = "'h list \<Rightarrow> 'a res \<times> 'h list"

definition ses_return :: "'a \<Rightarrow> ('h, 'a) steps" where
  "ses_return x hs = (Inr x, hs)"

definition ses_fail :: "exn \<Rightarrow> ('h, 'a) steps" where
  "ses_fail e hs = (Inl e, hs)"

definition ses_lift :: "'a res \<Rightarrow> ('h, 'a) steps" where
  "ses_lift r hs = (r, hs)"

definition ses_bind :: "('h, 'a) steps \<Rightarrow> ('a \<Rightarrow> ('h, 'b) steps) \<Rightarrow> ('h, 'b) steps" where
  "ses_bind m f hs = (case m hs of (Inl e, h) \<Rightarrow> (Inl e, h) | (Inr x, h) \<Rightarrow> f x h)"

lemma ses_bind_Inr:
  "ses_bind m f hs = (Inr y, hs') \<longleftrightarrow> (\<exists>x h. m hs = (Inr x, h) \<and> f x h = (Inr y, hs'))"
  by (auto simp: ses_bind_def split: prod.splits sum.splits)

lemma ses_return_Inr [simp]: "ses_return x hs = (Inr y, hs') \<longleftrightarrow> y = x \<and> hs' = hs"
  by (auto simp: ses_return_def)

lemma ses_lift_Inr [simp]: "ses_lift r hs = (Inr y, hs') \<longleftrightarrow> r = Inr y \<and> hs' = hs"
  by (auto simp: ses_lift_def)

lemma ses_fail_eq: "ses_fail e hs = (r, calls) \<longleftrightarrow> r = Inl e \<and> calls = hs"
  by (auto simp: ses_fail_def)

lemma lift_then:
  assumes "ses_bind (ses_lift m) f hs = (r, calls)"
  obtains x where "m = Inr x" "f x hs = (r, calls)" | e where "m = Inl e" "r = Inl e" "calls = hs"
  using assms by (cases m) (auto simp: ses_bind_def ses_lift_def)

end
