(* ===== verification/PyText.thy ===== *)
theory PyText
  imports Prelude
begin

section \<open>Facts about the string operations\<close>

text \<open>
  The algebra of stripping, splitting, joining and searching that the parsers and printers of
  the components share, and decimal numerals (\<open>str(n)\<close>, \<open>int(s)\<close>).
\<close>

subsection \<open>Stripping\<close>

lemma dropWhile_idem [simp]: "dropWhile P (dropWhile P xs) = dropWhile P xs"
  by (induction xs) auto

lemma py_lstrip_id: "s = [] \<or> \<not> is_space (hd s) \<Longrightarrow> py_lstrip s = s"
  by (cases s) (auto simp: py_lstrip_def)

lemma py_rstrip_id: "s = [] \<or> \<not> is_space (last s) \<Longrightarrow> py_rstrip s = s"
  by (cases s rule: rev_cases) (auto simp: py_rstrip_def)

lemma py_strip_id:
  "s = [] \<or> (\<not> is_space (hd s) \<and> \<not> is_space (last s)) \<Longrightarrow> py_strip s = s"
  by (auto simp: py_strip_def py_lstrip_id py_rstrip_id)

lemma py_strip_Nil [simp]: "py_strip [] = []"
  by (simp add: py_strip_def py_lstrip_def py_rstrip_def)

lemma py_strip_no_space: "\<forall>c \<in> set s. \<not> is_space c \<Longrightarrow> py_strip s = s"
  by (rule py_strip_id) (cases s, auto)

lemma py_lstrip_hd: "py_lstrip s \<noteq> [] \<Longrightarrow> \<not> is_space (hd (py_lstrip s))"
  by (simp add: py_lstrip_def hd_dropWhile)

lemma py_rstrip_last: "py_rstrip s \<noteq> [] \<Longrightarrow> \<not> is_space (last (py_rstrip s))"
  unfolding py_rstrip_def by (metis hd_dropWhile last_rev rev_is_Nil_conv)

lemma py_rstrip_prefix: "\<exists>r. s = py_rstrip s @ r"
  unfolding py_rstrip_def
  by (metis rev_append rev_rev_ident takeWhile_dropWhile_id)

lemma py_strip_hd: "py_strip s \<noteq> [] \<Longrightarrow> \<not> is_space (hd (py_strip s))"
proof -
  assume ne: "py_strip s \<noteq> []"
  obtain r where r: "py_lstrip s = py_strip s @ r"
    using py_rstrip_prefix [of "py_lstrip s"] by (auto simp: py_strip_def)
  then have "hd (py_lstrip s) = hd (py_strip s)" and "py_lstrip s \<noteq> []"
    using ne by auto
  then show ?thesis using py_lstrip_hd by metis
qed

lemma py_strip_last: "py_strip s \<noteq> [] \<Longrightarrow> \<not> is_space (last (py_strip s))"
  by (simp add: py_strip_def py_rstrip_last)

lemma py_strip_idem [simp]: "py_strip (py_strip s) = py_strip s"
  by (rule py_strip_id) (auto simp: py_strip_hd py_strip_last)

lemma set_py_lstrip: "set (py_lstrip s) \<subseteq> set s"
  by (auto simp: py_lstrip_def dest: set_dropWhileD)

lemma set_py_rstrip: "set (py_rstrip s) \<subseteq> set s"
  by (auto simp: py_rstrip_def dest: set_dropWhileD)

lemma set_py_strip: "set (py_strip s) \<subseteq> set s"
  using set_py_rstrip set_py_lstrip by (auto simp: py_strip_def)

lemma rstrip_char_snoc [simp]: "x \<noteq> c \<Longrightarrow> rstrip_char c (s @ [x]) = s @ [x]"
  by (simp add: rstrip_char_def)

lemma rstrip_char_id: "c \<notin> set s \<Longrightarrow> rstrip_char c s = s"
  by (cases s rule: rev_cases) (auto simp: rstrip_char_def)

lemma rstrip_char_drop: "c \<notin> set s \<Longrightarrow> rstrip_char c (s @ [c]) = s"
  using rstrip_char_id [of c s] by (simp add: rstrip_char_def)

lemma rstrip_char_idem [simp]: "rstrip_char c (rstrip_char c s) = rstrip_char c s"
  by (simp add: rstrip_char_def)

lemma last_rstrip_char: "rstrip_char c s \<noteq> [] \<Longrightarrow> last (rstrip_char c s) \<noteq> c"
  unfolding rstrip_char_def
  by (metis (mono_tags, lifting) hd_dropWhile last_rev rev_is_Nil_conv)

lemma hd_lstrip_char: "lstrip_char c s \<noteq> [] \<Longrightarrow> hd (lstrip_char c s) \<noteq> c"
  unfolding lstrip_char_def by (metis (mono_tags, lifting) hd_dropWhile)

lemma rstrip_char_prefix: "\<exists>r. s = rstrip_char c s @ r"
  unfolding rstrip_char_def
  by (metis rev_append rev_rev_ident takeWhile_dropWhile_id)

lemma hd_strip_char: "strip_char c s \<noteq> [] \<Longrightarrow> hd (strip_char c s) \<noteq> c"
proof -
  assume ne: "strip_char c s \<noteq> []"
  obtain r where r: "lstrip_char c s = strip_char c s @ r"
    using rstrip_char_prefix [of "lstrip_char c s"] by (auto simp: strip_char_def)
  with ne have "hd (lstrip_char c s) = hd (strip_char c s)" and "lstrip_char c s \<noteq> []"
    by auto
  then show ?thesis using hd_lstrip_char by metis
qed

lemma last_strip_char: "strip_char c s \<noteq> [] \<Longrightarrow> last (strip_char c s) \<noteq> c"
  by (simp add: strip_char_def last_rstrip_char)

subsection \<open>Splitting at a predicate, and joining\<close>

lemma split_pred_not_Nil [simp]: "split_pred P s \<noteq> []"
  by (induction s) (auto split: list.splits)

lemma split_pred_Cons_no:
  "\<not> P c \<Longrightarrow> split_pred P (c # s) = (c # hd (split_pred P s)) # tl (split_pred P s)"
  by (cases "split_pred P s") auto

lemma split_pred_none: "\<forall>c \<in> set s. \<not> P c \<Longrightarrow> split_pred P s = [s]"
  by (induction s) auto

lemma split_pred_append:
  "\<forall>c \<in> set w. \<not> P c \<Longrightarrow> P d \<Longrightarrow> split_pred P (w @ d # s) = w # split_pred P s"
  by (induction w) auto

lemma split_pred_parts: "w \<in> set (split_pred P s) \<Longrightarrow> \<forall>c \<in> set w. \<not> P c"
proof (induction s arbitrary: w)
  case Nil
  then show ?case by simp
next
  case (Cons c s)
  obtain u us where u: "split_pred P s = u # us"
    by (cases "split_pred P s") auto
  with Cons.IH have "\<forall>v \<in> set (u # us). \<forall>c \<in> set v. \<not> P c" by auto
  with Cons.prems u show ?case by (auto split: if_splits)
qed

lemma split_pred_chars: "w \<in> set (split_pred P s) \<Longrightarrow> set w \<subseteq> set s"
proof (induction s arbitrary: w)
  case Nil
  then show ?case by simp
next
  case (Cons c s)
  obtain u us where u: "split_pred P s = u # us"
    by (cases "split_pred P s") auto
  with Cons.IH have "set u \<subseteq> set s" and "\<forall>v \<in> set us. set v \<subseteq> set s" by auto
  with Cons.prems u show ?case by (auto split: if_splits)
qed

lemma py_join_Cons: "ys \<noteq> [] \<Longrightarrow> py_join sep (x # ys) = x @ sep @ py_join sep ys"
  by (cases ys) auto

lemma set_py_join: "set (py_join sep ws) \<subseteq> set sep \<union> (\<Union>w \<in> set ws. set w)"
proof (induction sep ws rule: py_join.induct)
  case (3 sep x y ys)
  then show ?case by (simp only: py_join.simps set_append list.set) blast
qed simp_all

lemma join_split_char: "py_join [c] (split_char c s) = s"
  unfolding split_char_def
proof (induction s)
  case Nil
  then show ?case by simp
next
  case (Cons d s)
  obtain w ws where w: "split_pred (\<lambda>x. x = c) s = w # ws"
    by (cases "split_pred (\<lambda>x. x = c) s") auto
  show ?case
  proof (cases "d = c")
    case True
    then show ?thesis using Cons.IH by (simp add: py_join_Cons)
  next
    case False
    then show ?thesis using Cons.IH w by (cases ws) auto
  qed
qed

lemma split_char_join:
  "ws \<noteq> [] \<Longrightarrow> \<forall>w \<in> set ws. c \<notin> set w \<Longrightarrow> split_char c (py_join [c] ws) = ws"
  unfolding split_char_def
proof (induction ws)
  case Nil
  then show ?case by simp
next
  case (Cons w ws)
  show ?case
  proof (cases "ws = []")
    case True
    with Cons.prems show ?thesis by (auto intro: split_pred_none)
  next
    case False
    with Cons have "split_pred (\<lambda>x. x = c) (py_join [c] ws) = ws" and "c \<notin> set w"
      by auto
    moreover have "split_pred (\<lambda>x. x = c) (w @ c # s) = w # split_pred (\<lambda>x. x = c) s" for s
      using \<open>c \<notin> set w\<close> split_pred_append [of w "\<lambda>x. x = c" c s] by auto
    ultimately show ?thesis using False by (simp add: py_join_Cons)
  qed
qed

lemma split_char_no [simp]: "c \<notin> set s \<Longrightarrow> split_char c s = [s]"
  by (auto simp: split_char_def intro: split_pred_none)

lemma split_char_sep: "c \<notin> set w \<Longrightarrow> split_char c (w @ c # s) = w # split_char c s"
  by (auto simp: split_char_def intro: split_pred_append)

lemma split_char_not_Nil [simp]: "split_char c s \<noteq> []"
  by (simp add: split_char_def)

subsection \<open>Words\<close>

lemma py_words_Nil [simp]: "py_words [] = []"
  by (simp add: py_words_def)

lemma py_words_parts: "w \<in> set (py_words s) \<Longrightarrow> w \<noteq> [] \<and> (\<forall>c \<in> set w. \<not> is_space c)"
  by (auto simp: py_words_def dest: split_pred_parts)

lemma py_words_single: "w \<noteq> [] \<Longrightarrow> \<forall>c \<in> set w. \<not> is_space c \<Longrightarrow> py_words w = [w]"
  by (simp add: py_words_def split_pred_none)

lemma py_words_Cons:
  "w \<noteq> [] \<Longrightarrow> \<forall>c \<in> set w. \<not> is_space c \<Longrightarrow> is_space d \<Longrightarrow>
   py_words (w @ d # s) = w # py_words s"
  by (simp add: py_words_def split_pred_append)

lemma py_words_space [simp]: "is_space d \<Longrightarrow> py_words (d # s) = py_words s"
  by (simp add: py_words_def)

definition is_word :: "string \<Rightarrow> bool" where
  "is_word w \<longleftrightarrow> w \<noteq> [] \<and> (\<forall>c \<in> set w. \<not> is_space c)"

lemma py_words_join:
  "\<forall>w \<in> set ws. is_word w \<Longrightarrow> py_words (py_join '' '' ws) = ws"
proof (induction ws)
  case Nil
  then show ?case by simp
next
  case (Cons w ws)
  show ?case
  proof (cases "ws = []")
    case True
    with Cons.prems show ?thesis by (simp add: is_word_def py_words_single)
  next
    case False
    moreover have "is_space CHR '' ''" by (simp add: is_space_def)
    ultimately show ?thesis using Cons
      by (simp add: is_word_def py_join_Cons py_words_Cons)
  qed
qed

subsection \<open>Lines\<close>

lemma lines_from_no_break:
  "\<forall>c \<in> set l. \<not> is_linebreak c \<Longrightarrow> lines_from acc (l @ s) = lines_from (rev l @ acc) s"
  by (induction l arbitrary: acc) auto

lemma NL_neq_CR [simp]: "NL \<noteq> CR" "CR \<noteq> NL"
  by (simp_all add: NL_def CR_def)

lemma lines_from_NL [simp]: "lines_from acc (NL # s) = rev acc # lines_from [] s"
  by (simp add: NL_def CR_def is_linebreak_def)

text \<open>A text of newline-terminated lines splits into exactly these lines.\<close>

definition one_line :: "string \<Rightarrow> bool" where
  "one_line l \<longleftrightarrow> (\<forall>c \<in> set l. \<not> is_linebreak c)"

definition unlines :: "string list \<Rightarrow> string" where
  "unlines ls = concat (map (\<lambda>l. l @ [NL]) ls)"

lemma py_lines_unlines: "\<forall>l \<in> set ls. one_line l \<Longrightarrow> py_lines (unlines ls) = ls"
  unfolding py_lines_def unlines_def
  by (induction ls) (auto simp: lines_from_no_break one_line_def)

lemma py_lines_Nil [simp]: "py_lines [] = []"
  by (simp add: py_lines_def)

lemma lines_from_one_line:
  "\<forall>c \<in> set acc. \<not> is_linebreak c \<Longrightarrow> l \<in> set (lines_from acc s) \<Longrightarrow> one_line l"
proof (induction acc s arbitrary: l rule: lines_from.induct)
  case (1 acc)
  then show ?case by (auto simp: one_line_def split: if_splits)
next
  case (2 acc c s)
  show ?case
  proof (cases "is_linebreak c")
    case True
    with "2.prems" have "l = rev acc \<or>
        l \<in> set (lines_from [] (if c = CR \<and> s \<noteq> [] \<and> hd s = NL then tl s else s))"
      by auto
    then show ?thesis using "2.IH"(1) [OF True] "2.prems"(1)
      by (auto simp: one_line_def)
  next
    case False
    with "2.prems" have "l \<in> set (lines_from (c # acc) s)" by simp
    then show ?thesis using "2.IH"(2) [OF False] "2.prems"(1) False by auto
  qed
qed

lemma py_lines_one_line: "l \<in> set (py_lines s) \<Longrightarrow> one_line l"
  unfolding py_lines_def by (rule lines_from_one_line [of "[]"]) auto

subsection \<open>Searching\<close>

lemma split_once_prefix:
  "prefix sep s \<Longrightarrow> split_once sep s = Some ([], drop (length sep) s)"
  by (cases s) auto

lemma contains_iff: "contains s sub \<longleftrightarrow> sublist sub s"
proof (induction s)
  case Nil
  then show ?case by (simp add: contains_def)
next
  case (Cons c s)
  then show ?case
    by (cases "prefix sub (c # s)")
      (auto simp: contains_def sublist_Cons_right simp del: split_once.simps
        simp: split_once.simps(2) [of sub c s])
qed

lemma split_once_None: "split_once sep s = None \<longleftrightarrow> \<not> sublist sep s"
  by (metis contains_def contains_iff)

lemma contains_append1 [simp]: "contains (a @ sub @ b) sub"
  by (auto simp: contains_iff sublist_def)

lemma contains_empty_text [simp]: "contains [] sub \<longleftrightarrow> sub = []"
  by (simp add: contains_def)

lemma contains_single: "contains s [c] \<longleftrightarrow> c \<in> set s"
  by (induction s) (auto simp: contains_def)

text \<open>The separator is found where it stands if it does not occur earlier.\<close>

lemma split_once_first:
  assumes "\<And>i. i < length a \<Longrightarrow> \<not> prefix sep (drop i (a @ sep @ b))"
  shows "split_once sep (a @ sep @ b) = Some (a, b)"
  using assms
proof (induction a)
  case Nil
  then show ?case by (simp add: split_once_prefix)
next
  case (Cons c a)
  have "\<not> prefix sep (drop i (a @ sep @ b))" if "i < length a" for i
    using Cons.prems [of "Suc i"] that by simp
  then have "split_once sep (a @ sep @ b) = Some (a, b)" by (rule Cons.IH)
  moreover have "\<not> prefix sep (c # a @ sep @ b)" using Cons.prems [of 0] by simp
  ultimately show ?case by simp
qed

lemma split_once_char: "c \<notin> set a \<Longrightarrow> split_once [c] (a @ c # b) = Some (a, b)"
  by (induction a) auto

lemma split_once_char_None: "c \<notin> set s \<Longrightarrow> split_once [c] s = None"
  by (induction s) auto

lemma split_once_fst_no: "split_once [c] s = Some (a, b) \<Longrightarrow> c \<notin> set a"
  by (induction s arbitrary: a b) (auto split: if_splits)

text \<open>A separator whose first character does not occur in the text before it.\<close>

lemma split_once_fresh:
  assumes "d \<notin> set a"
  shows "split_once (d # sep) (a @ (d # sep) @ b) = Some (a, b)"
proof (rule split_once_first)
  fix i assume i: "i < length a"
  then have "drop i (a @ (d # sep) @ b) = a ! i # drop (Suc i) a @ (d # sep) @ b"
    by (metis Cons_nth_drop_Suc append_Cons drop_append diff_is_0_eq' drop0 less_imp_le)
  moreover have "a ! i \<noteq> d" using assms i by (metis nth_mem)
  ultimately show "\<not> prefix (d # sep) (drop i (a @ (d # sep) @ b))" by simp
qed

lemma split_once_fresh_None: "d \<notin> set s \<Longrightarrow> split_once (d # sep) s = None"
  by (induction s) auto

lemma split_once_skip:
  "d \<notin> set a \<Longrightarrow> split_once (d # sep) (a @ s) =
     map_option (\<lambda>(x, y). (a @ x, y)) (split_once (d # sep) s)"
  by (induction a) (auto simp: option.map_comp comp_def case_prod_beta' option.map_ident)

lemma contains_fresh_None: "d \<notin> set s \<Longrightarrow> \<not> contains s (d # sep)"
  by (simp add: contains_def split_once_fresh_None)

lemma rsplit_once_last:
  "c \<notin> set b \<Longrightarrow> rsplit_once c (a @ c # b) = Some (a, b)"
proof -
  assume b: "c \<notin> set b"
  have "dropWhile (\<lambda>x. x \<noteq> c) (rev (a @ c # b)) = c # rev a"
    using b by (subst rev_append) (simp add: dropWhile_append)
  moreover have "takeWhile (\<lambda>x. x \<noteq> c) (rev (a @ c # b)) = rev b"
    using b by (subst rev_append) (simp add: takeWhile_append)
  ultimately show ?thesis by (simp add: rsplit_once_def)
qed

lemma rsplit_once_None: "rsplit_once c s = None \<longleftrightarrow> c \<notin> set s"
  by (simp add: rsplit_once_def)

lemma rsplit_once_Some_iff: "(\<exists>p. rsplit_once c s = Some p) \<longleftrightarrow> c \<in> set s"
  by (simp add: rsplit_once_def)

lemma rsplit_once_append:
  "rsplit_once c s = Some (a, b) \<Longrightarrow> s = a @ c # b \<and> c \<notin> set b"
proof -
  assume r: "rsplit_once c s = Some (a, b)"
  then have "c \<in> set s" by (auto simp: rsplit_once_def split: if_splits)
  then obtain a' b' where "s = a' @ c # b'" and "c \<notin> set b'"
    by (metis split_list_last)
  with r show ?thesis by (simp add: rsplit_once_last)
qed

lemma py_split_nonempty [simp]: "py_split sep s \<noteq> []"
  by (subst py_split.simps) (auto split: option.splits)

lemma py_split_Some:
  "split_once sep s = Some (a, b) \<Longrightarrow> sep \<noteq> [] \<Longrightarrow> py_split sep s = a # py_split sep b"
  by (subst py_split.simps) simp

lemma py_split_None: "split_once sep s = None \<Longrightarrow> py_split sep s = [s]"
  by (subst py_split.simps) simp

subsection \<open>Sections of a text made of lines\<close>

lemma unlines_append [simp]: "unlines (ls @ ms) = unlines ls @ unlines ms"
  by (simp add: unlines_def)

lemma unlines_Cons: "unlines (l # ls) = l @ NL # unlines ls"
  by (simp add: unlines_def)

lemma unlines_Nil [simp]: "unlines [] = []"
  by (simp add: unlines_def)

lemma last_unlines: "ls \<noteq> [] \<Longrightarrow> last (unlines ls) = NL"
  by (cases ls rule: rev_cases) (auto simp: unlines_Cons)

lemma sublist_unlines:
  assumes "NL \<notin> set sep" and "sep \<noteq> []"
  shows "sublist sep (unlines ls) \<Longrightarrow> \<exists>l \<in> set ls. sublist sep l"
proof (induction ls)
  case Nil
  then show ?case using assms by simp
next
  case (Cons l ls)
  then have "sublist sep ((l @ [NL]) @ unlines ls)" by (simp add: unlines_Cons)
  then consider "sublist sep (l @ [NL])" | "sublist sep (unlines ls)"
    | xs ys where "sep = xs @ ys" "suffix xs (l @ [NL])" "prefix ys (unlines ls)"
    using sublist_append [of sep "l @ [NL]" "unlines ls"] by blast
  then show ?case
  proof cases
    case 1
    then obtain p q where pq: "l @ [NL] = p @ sep @ q" by (auto simp: sublist_def)
    with assms have "q \<noteq> []" by (cases sep rule: rev_cases) auto
    then obtain q' where "q = q' @ [NL]" using pq by (cases q rule: rev_cases) auto
    with pq have "l = p @ sep @ q'" by simp
    then show ?thesis by (auto simp: sublist_def)
  next
    case 2
    then show ?thesis using Cons.IH by auto
  next
    case 3
    have "NL \<notin> set xs" using 3 assms(1) by auto
    with 3(2) have "xs = []" by (cases xs rule: rev_cases) (auto simp: suffix_def)
    with 3 have "sublist sep (unlines ls)" by auto
    then show ?thesis using Cons.IH by auto
  qed
qed

lemma split_once_clean:
  assumes "\<not> sublist sep a" and "a = [] \<or> last a \<notin> set sep"
  shows "split_once sep (a @ sep @ b) = Some (a, b)"
proof (rule split_once_first)
  fix i assume i: "i < length a"
  show "\<not> prefix sep (drop i (a @ sep @ b))"
  proof
    assume p: "prefix sep (drop i (a @ sep @ b))"
    then have pr: "prefix sep (drop i a @ (sep @ b))" using i by simp
    show False
    proof (cases "length sep \<le> length (drop i a)")
      case True
      have "prefix (drop i a) (drop i a @ sep @ b)" by simp
      with pr True have "prefix sep (drop i a)" using prefix_length_prefix by blast
      then obtain r where "drop i a = sep @ r" by (auto simp: prefix_def)
      then have "a = take i a @ sep @ r" by (metis append_take_drop_id)
      then have "sublist sep a" unfolding sublist_def by blast
      with assms(1) show False by simp
    next
      case False
      have "prefix (drop i a) (drop i a @ sep @ b)" by simp
      with pr False have "prefix (drop i a) sep"
        using prefix_length_prefix nat_le_linear by blast
      then have "set (drop i a) \<subseteq> set sep" by (rule set_mono_prefix)
      moreover have "last a \<in> set (drop i a)" using i
        by (metis drop_eq_Nil last_drop last_in_set leD)
      ultimately show False using assms(2) i by auto
    qed
  qed
qed

lemma split_section:
  assumes "\<forall>l \<in> set ls. \<not> sublist sep l" and "NL \<notin> set sep" and "sep \<noteq> []"
  shows "split_once sep (unlines ls @ sep @ b) = Some (unlines ls, b)"
proof (rule split_once_clean)
  show "\<not> sublist sep (unlines ls)" using sublist_unlines [OF assms(2,3)] assms(1) by blast
  show "unlines ls = [] \<or> last (unlines ls) \<notin> set sep"
    using last_unlines assms(2) by (cases "ls = []") auto
qed

lemma split_section_None:
  assumes "\<forall>l \<in> set ls. \<not> sublist sep l" and "NL \<notin> set sep" and "sep \<noteq> []"
  shows "split_once sep (unlines ls) = None"
  using sublist_unlines [OF assms(2,3)] assms(1) split_once_None by blast

lemma prefix_before:
  "prefix p (n @ c # r) \<Longrightarrow> c \<notin> set p \<Longrightarrow> prefix p n"
proof (induction p arbitrary: n)
  case (Cons d p)
  show ?case
  proof (cases n)
    case Nil
    with Cons.prems show ?thesis by simp
  next
    case (Cons x xs)
    with Cons.prems have "d = x" and "prefix p (xs @ c # r)" and "c \<notin> set p" by simp_all
    with Cons.IH [of xs] Cons show ?thesis by (simp del: append.simps)
  qed
qed simp

subsection \<open>Mapping with failures\<close>

lemmas map_filter_eqs [simp] = map_filter_simps

lemma map_filter_append [simp]:
  "List.map_filter f (xs @ ys) = List.map_filter f xs @ List.map_filter f ys"
  by (induction xs) (auto split: option.splits)

lemma map_filter_all:
  "\<forall>x \<in> set xs. f (g x) = Some (h x) \<Longrightarrow> List.map_filter f (map g xs) = map h xs"
  by (induction xs) auto

lemma set_map_filter: "set (List.map_filter f xs) = {y. \<exists>x \<in> set xs. f x = Some y}"
  by (induction xs) (auto split: option.splits)

subsection \<open>Decimal numerals\<close>

definition digit_char :: "nat \<Rightarrow> char" where
  "digit_char d = char_of (48 + d)"

fun show_nat :: "nat \<Rightarrow> string" where
  "show_nat n = (if n < 10 then [digit_char n] else show_nat (n div 10) @ [digit_char (n mod 10)])"

declare show_nat.simps [simp del]

definition show_int :: "int \<Rightarrow> string" where
  "show_int i = (if i < 0 then CHR ''-'' # show_nat (nat (- i)) else show_nat (nat i))"

text \<open>\<open>int(s)\<close>: surrounding space, one sign, digits with single underscores between them;
  anything else is a \<open>ValueError\<close> (\<open>None\<close> here).\<close>

fun int_body :: "nat \<Rightarrow> bool \<Rightarrow> string \<Rightarrow> nat option" where
  "int_body acc d [] = (if d then Some acc else None)"
| "int_body acc d (c # s) =
     (if is_digit c then int_body (10 * acc + (code_point c - 48)) True s
      else if c = CHR ''_'' \<and> d then int_body acc False s
      else None)"

definition py_int :: "string \<Rightarrow> int option" where
  "py_int s =
     (let t = py_strip s in
      if t \<noteq> [] \<and> hd t = CHR ''-'' then map_option (\<lambda>n. - int n) (int_body 0 False (tl t))
      else if t \<noteq> [] \<and> hd t = CHR ''+'' then map_option int (int_body 0 False (tl t))
      else map_option int (int_body 0 False t))"

lemma digit_char_code: "d < 10 \<Longrightarrow> code_point (digit_char d) = 48 + d"
  by (simp add: digit_char_def)

lemma digit_chars:
  "digit_char 0 = CHR ''0''" "digit_char 1 = CHR ''1''" "digit_char 2 = CHR ''2''"
  "digit_char 3 = CHR ''3''" "digit_char 4 = CHR ''4''" "digit_char 5 = CHR ''5''"
  "digit_char 6 = CHR ''6''" "digit_char 7 = CHR ''7''" "digit_char 8 = CHR ''8''"
  "digit_char 9 = CHR ''9''" "digit_char (Suc 0) = CHR ''1''"
  by code_simp+

lemma is_digit_digit_char [simp]: "d < 10 \<Longrightarrow> is_digit (digit_char d)"
  by (simp add: is_digit_def digit_char_code)

lemma show_nat_digits: "\<forall>c \<in> set (show_nat n). is_digit c"
proof (induction n rule: show_nat.induct)
  case (1 n)
  then show ?case by (subst show_nat.simps) auto
qed

lemma show_nat_not_Nil [simp]: "show_nat n \<noteq> []"
  by (subst show_nat.simps) simp

lemma int_body_append:
  "s \<noteq> [] \<Longrightarrow> \<forall>c \<in> set s. is_digit c \<Longrightarrow> int_body acc d s = Some n \<Longrightarrow>
   int_body acc d (s @ t) = int_body n True t"
proof (induction s arbitrary: acc d)
  case Nil
  then show ?case by simp
next
  case (Cons c s)
  have c: "is_digit c" and ds: "\<forall>c \<in> set s. is_digit c" using Cons.prems by simp_all
  show ?case
  proof (cases "s = []")
    case True
    with Cons.prems(3) c show ?thesis by simp
  next
    case False
    from Cons.prems(3) c have "int_body (10 * acc + (code_point c - 48)) True s = Some n" by simp
    then have "int_body (10 * acc + (code_point c - 48)) True (s @ t) = int_body n True t"
      by (rule Cons.IH [OF False ds])
    with c show ?thesis by simp
  qed
qed

lemma int_body_show_nat: "int_body 0 d (show_nat n) = Some n"
proof (induction n arbitrary: d rule: show_nat.induct)
  case (1 n)
  show ?case
  proof (cases "n < 10")
    case True
    then show ?thesis by (simp add: show_nat.simps [of n] digit_char_code)
  next
    case False
    then have "int_body 0 d (show_nat (n div 10)) = Some (n div 10)"
      using "1.IH" by blast
    then have "int_body 0 d (show_nat (n div 10) @ [digit_char (n mod 10)]) =
        int_body (n div 10) True [digit_char (n mod 10)]"
      using int_body_append [OF show_nat_not_Nil show_nat_digits] by blast
    then show ?thesis using False
      by (simp add: show_nat.simps [of n] digit_char_code)
  qed
qed

lemma digit_not_space: "is_digit c \<Longrightarrow> \<not> is_space c"
  by (auto simp: is_digit_def is_space_def)

lemma digit_not_sign: "is_digit c \<Longrightarrow> c \<noteq> CHR ''-'' \<and> c \<noteq> CHR ''+''"
  by (auto simp: is_digit_def)

lemma hd_show_nat: "is_digit (hd (show_nat n))"
  by (meson hd_in_set show_nat_digits show_nat_not_Nil)

theorem py_int_show_int: "py_int (show_int i) = Some i"
proof (cases "i < 0")
  case True
  have "\<not> is_space CHR ''-''" by (simp add: is_space_def)
  then have "\<forall>c \<in> set (CHR ''-'' # show_nat (nat (- i))). \<not> is_space c"
    using show_nat_digits digit_not_space by auto
  then have "py_strip (CHR ''-'' # show_nat (nat (- i))) = CHR ''-'' # show_nat (nat (- i))"
    by (rule py_strip_no_space)
  then show ?thesis using True by (simp add: py_int_def show_int_def Let_def int_body_show_nat)
next
  case False
  have "py_strip (show_nat (nat i)) = show_nat (nat i)"
    by (rule py_strip_no_space) (use show_nat_digits digit_not_space in auto)
  moreover have "hd (show_nat (nat i)) \<noteq> CHR ''-''" and "hd (show_nat (nat i)) \<noteq> CHR ''+''"
    using digit_not_sign [OF hd_show_nat] by blast+
  ultimately have "py_int (show_nat (nat i)) = Some (int (nat i))"
    by (simp only: py_int_def Let_def int_body_show_nat option.map show_nat_not_Nil
      if_False simp_thms)
  then show ?thesis using False by (simp add: show_int_def)
qed

lemma show_nat_inj: "show_nat m = show_nat n \<Longrightarrow> m = n"
  by (metis int_body_show_nat option.inject)

end
