(* ===== verification/PackageManagers.thy ===== *)
theory PackageManagers
  imports PyText
begin

section \<open>Package managers (app/package_managers.py)\<close>

text \<open>
  The six package managers and the fallback: the commands they run, the parsers of their
  output and the kernel heuristic.  The classes are the constructors of \<open>pm\<close>, a method is a
  function on \<open>pm\<close>.  A parsed package is the dictionary the code builds; the two keys only
  apt sets are options (\<open>None\<close>: the key is absent).
\<close>

record package =
  pk_name :: string
  pk_current :: string
  pk_available :: string
  pk_held_back :: "bool option"
  pk_held_back_reason :: "string option option"

definition plain_package :: "string \<Rightarrow> string \<Rightarrow> string \<Rightarrow> package" where
  "plain_package n c a =
     \<lparr>pk_name = n, pk_current = c, pk_available = a, pk_held_back = None,
      pk_held_back_reason = None\<rparr>"

definition APT_CONFFILE_OPTS :: string where
  "APT_CONFFILE_OPTS =
     ''-o Dpkg::Options::=--force-confdef -o Dpkg::Options::=--force-confold''"

subsection \<open>The kernel heuristic\<close>

definition is_kernel_package :: "string \<Rightarrow> bool" where
  "is_kernel_package n \<longleftrightarrow>
     n \<in> set [''linux'', ''linux-lts'', ''linux-zen'', ''linux-hardened'']
     \<or> starts_with n ''kernel''
     \<or> starts_with n ''linux-image''
     \<or> starts_with n ''linux-headers''"

definition kernel_update_in :: "package list \<Rightarrow> bool" where
  "kernel_update_in ps \<longleftrightarrow> list_ex (\<lambda>p. is_kernel_package (pk_name p)) ps"

text \<open>The names \<open>apt-get -s\<close> plans to install, as the set of the list below.\<close>

definition inst_name :: "string \<Rightarrow> string option" where
  "inst_name line =
     (let l = py_strip line in
      if starts_with l ''Inst ''
      then case py_words l of _ # n # _ \<Rightarrow> Some n | _ \<Rightarrow> None
      else None)"

definition apt_applicable_names :: "string \<Rightarrow> string list" where
  "apt_applicable_names out = List.map_filter inst_name (py_lines out)"

subsection \<open>Detection and the registry\<close>

datatype pm = Apt | Dnf | Yum | Zypper | Pacman | Apk | Unknown string

definition DETECT_CMD :: string where
  "DETECT_CMD =
     ''command -v apt-get >/dev/null 2>&1 && echo apt && exit; ''
     @ ''command -v dnf    >/dev/null 2>&1 && echo dnf && exit; ''
     @ ''command -v yum    >/dev/null 2>&1 && echo yum && exit; ''
     @ ''command -v zypper >/dev/null 2>&1 && echo zypper && exit; ''
     @ ''command -v pacman >/dev/null 2>&1 && echo pacman && exit; ''
     @ ''command -v apk    >/dev/null 2>&1 && echo apk && exit; ''
     @ ''echo unknown''"

definition REGISTRY :: "(string \<times> pm) list" where
  "REGISTRY = [(''apt'', Apt), (''dnf'', Dnf), (''yum'', Yum), (''zypper'', Zypper),
     (''pacman'', Pacman), (''apk'', Apk)]"

definition get_package_manager :: "string \<Rightarrow> pm" where
  "get_package_manager n = get_or (dict_get REGISTRY (py_strip n)) (Unknown (py_strip n))"

fun pm_name :: "pm \<Rightarrow> string" where
  "pm_name Apt = ''apt''"
| "pm_name Dnf = ''dnf''"
| "pm_name Yum = ''yum''"
| "pm_name Zypper = ''zypper''"
| "pm_name Pacman = ''pacman''"
| "pm_name Apk = ''apk''"
| "pm_name (Unknown n) = n"

text \<open>The exit statuses of the upgrade command that mean it worked.\<close>

fun upgrade_ok_codes :: "pm \<Rightarrow> int list" where
  "upgrade_ok_codes Zypper = [0, 102, 103]"
| "upgrade_ok_codes _ = [0]"

subsection \<open>apt\<close>

definition apt_list_cmd :: "bool \<Rightarrow> string" where
  "apt_list_cmd refresh =
     (if refresh then ''apt-get update -qq 2>/dev/null; '' else [])
     @ ''apt list --upgradable 2>/dev/null; ''
     @ ''echo __APPLY__; ''
     @ ''apt-get -s upgrade 2>/dev/null; ''
     @ ''echo __FULL__; ''
     @ ''apt-get -s full-upgrade 2>/dev/null; ''
     @ ''echo __REBOOT__; ''
     @ ''[ -f /var/run/reboot-required ] && echo yes || echo no''"

definition apt_upgrade_cmd :: string where
  "apt_upgrade_cmd =
     ''DEBIAN_FRONTEND=noninteractive apt-get '' @ APT_CONFFILE_OPTS @ '' upgrade -y 2>&1''"

definition apt_recovery_hint :: string where
  "apt_recovery_hint =
     ''SSH into the host and run `sudo dpkg --configure -a` to finish any ''
     @ ''interrupted package configuration, then re-run the upgrade.''"

text \<open>
  The sections of the output: the part before \<open>__REBOOT__\<close> with the reboot flag, then the
  listing, the simulated upgrade and the simulated full upgrade, the last two where their
  separator is present (\<open>have_apply\<close> and \<open>have_full\<close> are "not \<open>None\<close>").
\<close>

definition apt_reboot_part :: "string \<Rightarrow> string \<times> bool" where
  "apt_reboot_part out =
     (case split_once ''__REBOOT__'' out of
        Some (body, rest) \<Rightarrow> (body, starts_with (py_strip rest) ''yes'')
      | None \<Rightarrow> (out, False))"

definition apt_sections :: "string \<Rightarrow> string \<times> string list option \<times> string list option" where
  "apt_sections body =
     (case split_once ''__APPLY__'' body of
        None \<Rightarrow> (body, None, None)
      | Some (list_part, apply_part) \<Rightarrow>
          (case split_once ''__FULL__'' apply_part of
             None \<Rightarrow> (list_part, Some (apt_applicable_names apply_part), None)
           | Some (apply_part', full_part) \<Rightarrow>
               (list_part, Some (apt_applicable_names apply_part'),
                Some (apt_applicable_names full_part))))"

text \<open>Why a package is held back: nothing when it is applicable or when there is no
  full-upgrade simulation to tell the causes apart.\<close>

definition held_reason :: "bool \<Rightarrow> string list option \<Rightarrow> string \<Rightarrow> string option" where
  "held_reason held full n =
     (case full of
        None \<Rightarrow> None
      | Some names \<Rightarrow>
          if \<not> held then None
          else if n \<in> set names then Some ''needs_full_upgrade'' else Some ''phased'')"

definition apt_is_held :: "string list option \<Rightarrow> string \<Rightarrow> bool" where
  "apt_is_held applicable n =
     (case applicable of None \<Rightarrow> False | Some names \<Rightarrow> n \<notin> set names)"

definition apt_parse_line ::
  "string list option \<Rightarrow> string list option \<Rightarrow> string \<Rightarrow> package option" where
  "apt_parse_line applicable full line =
     (if \<not> contains line ''[upgradable from:'' then None
      else
        let n = hd (split_char CHR ''/'' line);
            parts = py_words line;
            avail = (if length parts > 1 then parts ! 1 else ''?'');
            cur = (if length parts > 3 then rstrip_char CHR '']'' (last parts) else ''?'');
            held = apt_is_held applicable n
        in Some \<lparr>pk_name = n, pk_current = cur, pk_available = avail, pk_held_back = Some held,
                 pk_held_back_reason = Some (held_reason held full n)\<rparr>)"

definition apt_parse :: "string \<Rightarrow> package list \<times> bool" where
  "apt_parse out =
     (let (body, reboot) = apt_reboot_part out;
          (list_part, applicable, full) = apt_sections body;
          packages = List.map_filter (apt_parse_line applicable full) (py_lines list_part);
          applicable_packages = filter (\<lambda>p. pk_held_back p \<noteq> Some True) packages
      in (packages, reboot \<or> kernel_update_in applicable_packages))"

subsection \<open>dnf and yum\<close>

definition dnf_list_cmd :: "bool \<Rightarrow> string" where
  "dnf_list_cmd refresh =
     ''dnf check-update -q 2>/dev/null; echo __EXIT__$?; ''
     @ ''echo __REBOOT__; ''
     @ ''needs-restarting -r >/dev/null 2>&1; echo $?''"

definition dnf_upgrade_cmd :: string where
  "dnf_upgrade_cmd = ''dnf upgrade -y 2>&1''"

definition dnf_recovery_hint :: string where
  "dnf_recovery_hint =
     ''SSH into the host and run `dnf history` to inspect the interrupted ''
     @ ''transaction; complete or undo it before re-running the upgrade.''"

text \<open>\<open>after_exit.split("__REBOOT__", 1)[-1].strip()\<close>, empty without the separator.\<close>

definition dnf_reboot :: "string list \<Rightarrow> bool" where
  "dnf_reboot parts =
     (case parts of
        _ # after_exit # _ \<Rightarrow>
          (case split_once ''__REBOOT__'' after_exit of
             Some (_, rest) \<Rightarrow> starts_with (py_strip (py_strip rest)) ''1''
           | None \<Rightarrow> starts_with (py_strip []) ''1'')
      | _ \<Rightarrow> False)"

definition dnf_parse_line :: "string \<Rightarrow> package option" where
  "dnf_parse_line line0 =
     (let line = py_strip line0 in
      if line = [] \<or> starts_with line ''Last metadata'' \<or> starts_with line ''Obsoleting'' then None
      else let cols = py_words line in
        if length cols < 3 then None
        else let name_arch = cols ! 0;
                 n = (case rsplit_once CHR ''.'' name_arch of Some (a, _) \<Rightarrow> a | None \<Rightarrow> name_arch)
             in Some (plain_package n ''installed'' (cols ! 1)))"

definition dnf_parse :: "string \<Rightarrow> package list \<times> bool" where
  "dnf_parse out =
     (let parts = py_split ''__EXIT__'' out;
          reboot = dnf_reboot parts;
          packages = List.map_filter dnf_parse_line (py_lines (hd parts))
      in (packages, reboot \<or> kernel_update_in packages))"

definition yum_list_cmd :: "bool \<Rightarrow> string" where
  "yum_list_cmd refresh =
     ''yum check-update -q 2>/dev/null; echo __EXIT__$?; ''
     @ ''echo __REBOOT__; ''
     @ ''needs-restarting -r >/dev/null 2>&1; echo $?''"

definition yum_upgrade_cmd :: string where
  "yum_upgrade_cmd = ''yum upgrade -y 2>&1''"

definition yum_parse :: "string \<Rightarrow> package list \<times> bool" where
  "yum_parse out = dnf_parse out"

definition yum_recovery_hint :: string where
  "yum_recovery_hint =
     ''SSH into the host and run `yum history` to inspect the interrupted ''
     @ ''transaction; complete or undo it before re-running the upgrade.''"

subsection \<open>zypper\<close>

definition zypper_list_cmd :: "bool \<Rightarrow> string" where
  "zypper_list_cmd refresh =
     (if refresh then ''zypper -q refresh 2>/dev/null; '' else [])
     @ ''zypper -q lu 2>/dev/null; ''
     @ ''echo __REBOOT__; ''
     @ ''zypper needs-rebooting >/dev/null 2>&1 && echo yes || echo no''"

definition zypper_upgrade_cmd :: string where
  "zypper_upgrade_cmd =
     ''if grep -qiE 'tumbleweed|slowroll' /etc/os-release 2>/dev/null; ''
     @ ''then zypper --non-interactive dup 2>&1; ''
     @ ''else zypper --non-interactive up 2>&1; fi''"

definition zypper_recovery_hint :: string where
  "zypper_recovery_hint =
     ''SSH into the host and run `zypper verify` to check for broken ''
     @ ''dependencies before re-running the upgrade.''"

definition zypper_parse_line :: "string \<Rightarrow> package option" where
  "zypper_parse_line line =
     (if CHR ''|'' \<notin> set line then None
      else let cols = map py_strip (split_char CHR ''|'' line) in
        if length cols < 6 then None
        else if cols ! 0 \<notin> set [''v'', ''i'', ''>''] then None
        else if cols ! 2 \<noteq> [] \<and> cols ! 4 \<noteq> []
             then Some (plain_package (cols ! 2) (cols ! 3) (cols ! 4))
             else None)"

definition zypper_parse :: "string \<Rightarrow> package list \<times> bool" where
  "zypper_parse out =
     (let (zypper_part, reboot) =
            (case split_once ''__REBOOT__'' out of
               Some (z, r) \<Rightarrow> (z, starts_with (py_strip r) ''yes'')
             | None \<Rightarrow> (out, False));
          packages = List.map_filter zypper_parse_line (py_lines zypper_part)
      in (packages, reboot \<or> kernel_update_in packages))"

subsection \<open>pacman\<close>

definition pacman_list_cmd :: "bool \<Rightarrow> string" where
  "pacman_list_cmd refresh =
     (if refresh then ''pacman -Sy -q 2>/dev/null; '' else []) @ ''pacman -Qu 2>/dev/null''"

definition pacman_upgrade_cmd :: string where
  "pacman_upgrade_cmd = ''pacman -Syu --noconfirm 2>&1''"

definition pacman_recovery_hint :: string where
  "pacman_recovery_hint =
     ''SSH into the host; if `/var/lib/pacman/db.lck` remains, remove it, ''
     @ ''then run `pacman -Su` to complete the partial upgrade.''"

definition pacman_parse_line :: "string \<Rightarrow> package option" where
  "pacman_parse_line line0 =
     (let line = py_strip line0 in
      if line = [] \<or> starts_with line ''::'' \<or> \<not> contains line ''->'' then None
      else let parts = py_words line in
        if length parts < 4 then None
        else Some (plain_package (parts ! 0) (parts ! 1) (parts ! 3)))"

definition pacman_parse :: "string \<Rightarrow> package list \<times> bool" where
  "pacman_parse out =
     (let packages = List.map_filter pacman_parse_line (py_lines out)
      in (packages, kernel_update_in packages))"

subsection \<open>apk\<close>

definition apk_list_cmd :: "bool \<Rightarrow> string" where
  "apk_list_cmd refresh =
     (if refresh then ''apk update -q 2>/dev/null; '' else [])
     @ ''apk version -q -l '<' 2>/dev/null''"

definition apk_upgrade_cmd :: string where
  "apk_upgrade_cmd = ''apk upgrade 2>&1''"

definition apk_recovery_hint :: string where
  "apk_recovery_hint =
     ''SSH into the host and run `apk fix` to repair any partially ''
     @ ''installed packages before re-running the upgrade.''"

text \<open>
  The match of \<open>^(.+?)-(\d.*)$\<close> on a word: the shortest non-empty prefix that is followed by
  a hyphen and a digit.
\<close>

fun apk_match_from :: "string \<Rightarrow> string \<Rightarrow> (string \<times> string) option" where
  "apk_match_from acc (c # d # s) =
     (if acc \<noteq> [] \<and> c = CHR ''-'' \<and> is_digit d then Some (rev acc, d # s)
      else apk_match_from (c # acc) (d # s))"
| "apk_match_from acc _ = None"

definition apk_match :: "string \<Rightarrow> (string \<times> string) option" where
  "apk_match pkg_ver = apk_match_from [] pkg_ver"

definition apk_parse_line :: "string \<Rightarrow> package option" where
  "apk_parse_line line0 =
     (let line = py_strip line0 in
      if CHR ''<'' \<notin> set line \<or> starts_with line ''fetch'' \<or> starts_with line ''OK'' then None
      else let parts = py_words line in
        if length parts < 3 \<or> parts ! 1 \<noteq> ''<'' then None
        else let pkg_ver = parts ! 0;
                 (n, cur) = (case apk_match pkg_ver of Some m \<Rightarrow> m | None \<Rightarrow> (pkg_ver, ''?''))
             in Some (plain_package n cur (parts ! 2)))"

definition apk_parse :: "string \<Rightarrow> package list \<times> bool" where
  "apk_parse out =
     (let packages = List.map_filter apk_parse_line (py_lines out)
      in (packages, kernel_update_in packages))"

subsection \<open>The fallback and the dispatch on the class\<close>

definition unknown_cmd :: string where
  "unknown_cmd = ''echo '' @ QUOTE # ''Package manager not supported'' @ [QUOTE]"

definition base_recovery_hint :: string where
  "base_recovery_hint = ''SSH into the host and check the package database before retrying.''"

definition unknown_parse :: "string \<Rightarrow> package list \<times> bool" where
  "unknown_parse out = ([], False)"

fun list_cmd :: "pm \<Rightarrow> bool \<Rightarrow> string" where
  "list_cmd Apt r = apt_list_cmd r"
| "list_cmd Dnf r = dnf_list_cmd r"
| "list_cmd Yum r = yum_list_cmd r"
| "list_cmd Zypper r = zypper_list_cmd r"
| "list_cmd Pacman r = pacman_list_cmd r"
| "list_cmd Apk r = apk_list_cmd r"
| "list_cmd (Unknown n) r = unknown_cmd"

fun upgrade_cmd :: "pm \<Rightarrow> string" where
  "upgrade_cmd Apt = apt_upgrade_cmd"
| "upgrade_cmd Dnf = dnf_upgrade_cmd"
| "upgrade_cmd Yum = yum_upgrade_cmd"
| "upgrade_cmd Zypper = zypper_upgrade_cmd"
| "upgrade_cmd Pacman = pacman_upgrade_cmd"
| "upgrade_cmd Apk = apk_upgrade_cmd"
| "upgrade_cmd (Unknown n) = unknown_cmd"

fun recovery_hint :: "pm \<Rightarrow> string" where
  "recovery_hint Apt = apt_recovery_hint"
| "recovery_hint Dnf = dnf_recovery_hint"
| "recovery_hint Yum = yum_recovery_hint"
| "recovery_hint Zypper = zypper_recovery_hint"
| "recovery_hint Pacman = pacman_recovery_hint"
| "recovery_hint Apk = apk_recovery_hint"
| "recovery_hint (Unknown n) = base_recovery_hint"

fun pm_parse :: "pm \<Rightarrow> string \<Rightarrow> package list \<times> bool" where
  "pm_parse Apt out = apt_parse out"
| "pm_parse Dnf out = dnf_parse out"
| "pm_parse Yum out = yum_parse out"
| "pm_parse Zypper out = zypper_parse out"
| "pm_parse Pacman out = pacman_parse out"
| "pm_parse Apk out = apk_parse out"
| "pm_parse (Unknown n) out = unknown_parse out"


subsection \<open>The interface every manager provides\<close>

definition applicable :: "package \<Rightarrow> bool" where
  "applicable p \<longleftrightarrow> pk_held_back p \<noteq> Some True"

text \<open>
  What the checks rely on: no output means no packages and no reboot, and a kernel package
  that the upgrade would install always raises the reboot flag.
\<close>

locale package_manager =
  fixes parse :: "string \<Rightarrow> package list \<times> bool"
  assumes silent: "parse [] = ([], False)"
    and kernel_flag: "kernel_update_in (filter applicable (fst (parse out))) \<Longrightarrow> snd (parse out)"
begin

lemma no_reboot_no_kernel:
  "parse out = (ps, False) \<Longrightarrow> p \<in> set ps \<Longrightarrow> applicable p \<Longrightarrow> \<not> is_kernel_package (pk_name p)"
  using kernel_flag [of out] by (auto simp: kernel_update_in_def list_ex_iff)

lemma silent_packages: "fst (parse []) = []"
  by (simp add: silent)

end

lemma filter_applicable_plain:
  "\<forall>p \<in> set ps. pk_held_back p = None \<Longrightarrow> filter applicable ps = ps"
  by (induction ps) (auto simp: applicable_def)

lemma kernel_update_in_mono:
  "kernel_update_in (filter P ps) \<Longrightarrow> kernel_update_in ps"
  by (auto simp: kernel_update_in_def list_ex_iff)

lemma kernel_update_in_Nil [simp]: "\<not> kernel_update_in []"
  by (simp add: kernel_update_in_def)

lemma pm_parse_empty: "pm_parse m [] = ([], False)"
  by (cases m) (simp_all add: apt_parse_def apt_reboot_part_def apt_sections_def dnf_parse_def
    dnf_reboot_def yum_parse_def zypper_parse_def pacman_parse_def apk_parse_def
    unknown_parse_def py_split.simps)

lemma pm_parse_kernel:
  "kernel_update_in (filter applicable (fst (pm_parse m out))) \<Longrightarrow> snd (pm_parse m out)"
  by (cases m) (auto simp: apt_parse_def dnf_parse_def yum_parse_def zypper_parse_def
    pacman_parse_def apk_parse_def unknown_parse_def Let_def applicable_def [abs_def]
    split: prod.splits dest: kernel_update_in_mono)

interpretation pms: package_manager "pm_parse m" for m
  by unfold_locales (auto simp: pm_parse_empty intro: pm_parse_kernel)

end
