(* ===== verification/PackageParsing.thy ===== *)
theory PackageParsing
  imports PackageManagers
begin

section \<open>What the package parsers read\<close>

text \<open>
  The outputs the package managers document, printed from a list of pending updates, and the
  proofs that the parsers of \<open>PackageManagers\<close> read back exactly that list: the listing lines
  of pacman, dnf, zypper, apk and apt, and for apt the whole output of the check command with
  its simulated upgrades and its reboot flag.
\<close>

lemma is_word_no_break: "is_word w \<Longrightarrow> one_line w"
  unfolding is_word_def one_line_def using linebreak_is_space by blast

lemma one_line_join:
  "\<forall>w \<in> set ws. one_line w \<Longrightarrow> one_line sep \<Longrightarrow> one_line (py_join sep ws)"
  using set_py_join [of sep ws] unfolding one_line_def by blast

lemma one_line_space [simp]: "one_line '' ''"
  by (simp add: one_line_def is_linebreak_def)

lemma join_words_line: "\<forall>w \<in> set ws. is_word w \<Longrightarrow> one_line (py_join '' '' ws)"
  by (auto intro!: one_line_join simp: is_word_no_break)

lemma hd_join: "ws \<noteq> [] \<Longrightarrow> hd ws \<noteq> [] \<Longrightarrow> hd (py_join sep ws) = hd (hd ws)"
  by (cases "(sep, ws)" rule: py_join.cases) auto

lemma join_not_Nil: "ws \<noteq> [] \<Longrightarrow> hd ws \<noteq> [] \<Longrightarrow> py_join sep ws \<noteq> []"
  by (cases "(sep, ws)" rule: py_join.cases) auto

lemma join_Nil_parts: "py_join sep ws = [] \<Longrightarrow> w \<in> set ws \<Longrightarrow> w = []"
  by (induction sep ws rule: py_join.induct) auto

lemma last_join: "ws \<noteq> [] \<Longrightarrow> last ws \<noteq> [] \<Longrightarrow> last (py_join sep ws) = last (last ws)"
proof (induction sep ws rule: py_join.induct)
  case (3 sep x y ys)
  have "last (y # ys) \<in> set (y # ys)" by (rule last_in_set) simp
  with 3 have "py_join sep (y # ys) \<noteq> []" by (metis join_Nil_parts last_ConsR list.distinct(1))
  with 3 show ?case by simp
qed auto

lemma strip_join_words:
  assumes "\<forall>w \<in> set ws. is_word w"
  shows "py_strip (py_join '' '' ws) = py_join '' '' ws"
proof (cases "ws = []")
  case True
  then show ?thesis by simp
next
  case False
  then have "is_word (hd ws)" and "is_word (last ws)" using assms by auto
  then have "\<not> is_space (hd (hd ws))" and "\<not> is_space (last (last ws))"
    and "hd ws \<noteq> []" and "last ws \<noteq> []"
    by (auto simp: is_word_def)
  then show ?thesis using False
    by (intro py_strip_id disjI2) (simp add: hd_join last_join)
qed

subsection \<open>pacman\<close>

type_synonym update = "string \<times> string \<times> string"

fun update_ok :: "update \<Rightarrow> bool" where
  "update_ok (n, c, a) \<longleftrightarrow> is_word n \<and> is_word c \<and> is_word a \<and> \<not> starts_with n ''::''"

fun pacman_line :: "update \<Rightarrow> string" where
  "pacman_line (n, c, a) = py_join '' '' [n, c, ''->'', a]"

fun update_package :: "update \<Rightarrow> package" where
  "update_package (n, c, a) = plain_package n c a"

lemma arrow_word: "is_word ''->''"
  by (simp add: is_word_def is_space_def)

lemma pacman_parse_line_print:
  "update_ok u \<Longrightarrow> pacman_parse_line (pacman_line u) = Some (update_package u)"
proof -
  assume ok: "update_ok u"
  obtain n c a where u: "u = (n, c, a)" by (cases u)
  let ?ws = "[n, c, ''->'', a]"
  let ?l = "py_join '' '' ?ws"
  have ws: "\<forall>w \<in> set ?ws. is_word w" using ok u arrow_word by auto
  have "?l = (n @ '' '' @ c @ '' '') @ ''->'' @ ('' '' @ a)" by simp
  then have arrow: "contains ?l ''->''" by (metis contains_append1)
  have n: "n \<noteq> []" "\<not> prefix ''::'' n" using ok u by (auto simp: is_word_def)
  have colons: "\<not> prefix ''::'' ?l"
  proof
    assume "prefix ''::'' ?l"
    then have pre: "prefix ''::'' (n @ '' '' @ c @ '' '' @ ''->'' @ '' '' @ a)" by simp
    show False
    proof (cases n rule: list.exhaust)
      case (Cons x xs)
      with pre n show False by (cases xs) auto
    qed (use n in simp)
  qed
  show ?thesis
    using u n colons arrow strip_join_words [OF ws] py_words_join [OF ws]
    by (simp add: pacman_parse_line_def Let_def del: py_join.simps)
      (simp add: is_word_def)
qed

lemma pacman_line_one_line: "update_ok u \<Longrightarrow> one_line (pacman_line u)"
  by (cases u) (simp add: join_words_line arrow_word del: py_join.simps)

text \<open>The pacman parser reads back exactly the pending updates that `pacman -Qu` lists.\<close>
theorem pacman_parse_print:
  assumes "\<forall>u \<in> set us. update_ok u"
  shows "pacman_parse (unlines (map pacman_line us)) =
    (map update_package us, kernel_update_in (map update_package us))"
proof -
  have "py_lines (unlines (map pacman_line us)) = map pacman_line us"
    using assms by (intro py_lines_unlines) (auto intro: pacman_line_one_line)
  moreover have "List.map_filter pacman_parse_line (map pacman_line us) = map update_package us"
    using assms by (intro map_filter_all) (simp add: pacman_parse_line_print)
  ultimately show ?thesis by (simp add: pacman_parse_def Let_def)
qed

theorem pacman_parse_print_witness:
  "pacman_parse (unlines [pacman_line (''bash'', ''5.2.021-2'', ''5.2.026-1'')]) =
     ([plain_package ''bash'' ''5.2.021-2'' ''5.2.026-1''], False)"
  using pacman_parse_print [of "[(''bash'', ''5.2.021-2'', ''5.2.026-1'')]"]
  by (simp add: is_word_def is_space_def kernel_update_in_def is_kernel_package_def
    plain_package_def)

subsection \<open>apk\<close>

text \<open>No hyphen before a digit: the names the split of \<open>name-version\<close> keeps whole.\<close>

fun no_version_mark :: "string \<Rightarrow> bool" where
  "no_version_mark (c # d # s) = (\<not> (c = CHR ''-'' \<and> is_digit d) \<and> no_version_mark (d # s))"
| "no_version_mark _ = True"

lemma apk_match_from_split:
  "no_version_mark (n @ ''-'') \<Longrightarrow> is_digit d \<Longrightarrow> n \<noteq> [] \<or> acc \<noteq> [] \<Longrightarrow>
   apk_match_from acc (n @ CHR ''-'' # d # v) = Some (rev acc @ n, d # v)"
proof (induction n arbitrary: acc)
  case Nil
  then show ?case by simp
next
  case (Cons c n)
  show ?case
  proof (cases n)
    case Nil
    have "\<not> is_digit CHR ''-''" by (simp add: is_digit_def)
    then show ?thesis using Nil Cons.prems Cons.IH [of "c # acc"] by simp
  next
    case (Cons e n')
    then show ?thesis using Cons.prems Cons.IH [of "c # acc"] by simp
  qed
qed

text \<open>The apk parser splits \<open>name-version\<close> at the first hyphen that a digit follows: a name with
  no such hyphen and a version that starts with a digit are recovered.\<close>
theorem apk_match_split:
  assumes "n \<noteq> []" and "no_version_mark (n @ ''-'')" and "is_digit d"
  shows "apk_match (n @ CHR ''-'' # d # v) = Some (n, d # v)"
  using apk_match_from_split [OF assms(2,3), of "[]" v] assms(1) by (simp add: apk_match_def)

theorem apk_match_split_witness:
  "apk_match (''py3-idna'' @ CHR ''-'' # CHR ''3'' # ''.7-r0'') = Some (''py3-idna'', ''3.7-r0'')"
  using apk_match_split [of "''py3-idna''" "CHR ''3''" "''.7-r0''"] by (simp add: is_digit_def)

text \<open>The comment beside the expression announces the last such hyphen; a package whose name has
  one (\<open>font-3270-nerd\<close>) is cut at the first.\<close>

lemma apk_match_first_not_last:
  "apk_match ''font-3270-nerd-3.0-r0'' = Some (''font'', ''3270-nerd-3.0-r0'')"
  by (simp add: apk_match_def is_digit_def)

subsection \<open>dnf\<close>

fun dnf_line :: "string \<times> string \<times> string \<times> string \<Rightarrow> string" where
  "dnf_line (n, arch, a, repo) = py_join '' '' [n @ CHR ''.'' # arch, a, repo]"

fun dnf_row_ok :: "string \<times> string \<times> string \<times> string \<Rightarrow> bool" where
  "dnf_row_ok (n, arch, a, repo) \<longleftrightarrow>
     is_word n \<and> is_word arch \<and> is_word a \<and> is_word repo \<and> CHR ''.'' \<notin> set arch
     \<and> \<not> starts_with n ''Obsoleting'' \<and> \<not> contains (dnf_line (n, arch, a, repo)) ''__EXIT__''"

fun dnf_package :: "string \<times> string \<times> string \<times> string \<Rightarrow> package" where
  "dnf_package (n, arch, a, repo) = plain_package n ''installed'' a"

lemma prefix_space_word:
  "is_word w \<Longrightarrow> is_word p \<Longrightarrow> prefix (p @ CHR '' '' # q) (w @ CHR '' '' # r) \<Longrightarrow> w = p"
proof (induction p arbitrary: w)
  case Nil
  then show ?case by (simp add: is_word_def)
next
  case (Cons c p)
  have sp: "is_space CHR '' ''" by (simp add: is_space_def)
  from Cons.prems obtain w' where w: "w = c # w'"
    by (cases w) (auto simp: is_word_def)
  show ?case
  proof (cases "p = []")
    case True
    with Cons.prems w sp show ?thesis
      by (cases w') (auto simp: is_word_def)
  next
    case False
    moreover have "w' \<noteq> []"
      using Cons.prems w False sp by (cases p) (auto simp: is_word_def)
    ultimately show ?thesis using Cons w by (auto simp: is_word_def)
  qed
qed

lemma dnf_parse_line_print:
  assumes "dnf_row_ok r"
  shows "dnf_parse_line (dnf_line r) = Some (dnf_package r)"
proof -
  obtain n arch a repo where r: "r = (n, arch, a, repo)" by (cases r)
  let ?na = "n @ CHR ''.'' # arch"
  let ?ws = "[?na, a, repo]"
  have dot: "\<not> is_space CHR ''.''" by (simp add: is_space_def)
  have na: "is_word ?na" using assms r dot by (auto simp: is_word_def)
  then have ws: "\<forall>w \<in> set ?ws. is_word w" using assms r by auto
  have join: "py_join '' '' ?ws = ?na @ CHR '' '' # a @ '' '' @ repo" by simp
  have last: "\<not> prefix ''Last metadata'' (py_join '' '' ?ws)"
  proof
    assume "prefix ''Last metadata'' (py_join '' '' ?ws)"
    then have "prefix (''Last'' @ CHR '' '' # ''metadata'') (?na @ CHR '' '' # a @ '' '' @ repo)"
      by (simp only: join append.simps)
    moreover have "is_word ''Last''" by (simp add: is_word_def is_space_def)
    ultimately have "?na = ''Last''" using na prefix_space_word by blast
    then have "CHR ''.'' \<in> set ''Last''" by (metis in_set_conv_decomp)
    then show False by simp
  qed
  have obs: "\<not> prefix ''Obsoleting'' (py_join '' '' ?ws)"
  proof
    assume "prefix ''Obsoleting'' (py_join '' '' ?ws)"
    then have "prefix ''Obsoleting'' (n @ CHR ''.'' # arch @ CHR '' '' # a @ '' '' @ repo)"
      by simp
    then have "prefix ''Obsoleting'' n" by (rule prefix_before) simp
    then show False using assms r by simp
  qed
  have "CHR ''.'' \<notin> set arch" using assms r by simp
  then have split: "rsplit_once CHR ''.'' ?na = Some (n, arch)" by (rule rsplit_once_last)
  have ne: "py_join '' '' ?ws \<noteq> []" by simp
  have line: "dnf_line r = py_join '' '' ?ws" using r by simp
  show ?thesis
    unfolding line dnf_parse_line_def Let_def strip_join_words [OF ws] py_words_join [OF ws]
    using ne last obs split r by simp
qed

text \<open>The output of the check command: the listing, the exit status of \<open>check-update\<close> and that of
  \<open>needs-restarting -r\<close>.\<close>

definition dnf_output :: "(string \<times> string \<times> string \<times> string) list \<Rightarrow> nat \<Rightarrow> nat \<Rightarrow> string" where
  "dnf_output rows exit_code restart_code =
     unlines (map dnf_line rows)
     @ ''__EXIT__'' @ show_nat exit_code @ [NL] @ ''__REBOOT__'' @ [NL] @ show_nat restart_code @ [NL]"

lemma dnf_row_one_line: "dnf_row_ok r \<Longrightarrow> one_line (dnf_line r)"
proof -
  assume ok: "dnf_row_ok r"
  obtain n arch a repo where r: "r = (n, arch, a, repo)" by (cases r)
  have "\<not> is_space CHR ''.''" by (simp add: is_space_def)
  then have "\<forall>w \<in> set [n @ CHR ''.'' # arch, a, repo]. is_word w"
    using ok r by (auto simp: is_word_def)
  then show ?thesis unfolding r dnf_line.simps by (rule join_words_line)
qed

lemma digits_fresh: "\<not> is_digit c \<Longrightarrow> c \<notin> set (show_nat n)"
  using show_nat_digits by blast

lemma strip_digits: "py_strip (NL # show_nat n @ [NL]) = show_nat n"
proof -
  have "\<not> is_space (hd (show_nat n))" using hd_show_nat digit_not_space by blast
  moreover have "\<not> is_space (last (show_nat n))"
    using show_nat_digits digit_not_space by (meson last_in_set show_nat_not_Nil)
  moreover have "py_lstrip (NL # show_nat n @ [NL]) = show_nat n @ [NL]"
    using calculation(1) by (cases "show_nat n") (auto simp: py_lstrip_def)
  ultimately show ?thesis
    by (simp add: py_strip_def py_rstrip_def py_rstrip_id [unfolded py_rstrip_def])
qed

lemma prefix_single: "s \<noteq> [] \<Longrightarrow> prefix [c] s \<longleftrightarrow> hd s = c"
  by (cases s) auto

lemma dnf_output_sections:
  assumes "\<forall>r \<in> set rows. dnf_row_ok r"
  shows "py_split ''__EXIT__'' (dnf_output rows e k) =
    [unlines (map dnf_line rows),
     show_nat e @ [NL] @ ''__REBOOT__'' @ [NL] @ show_nat k @ [NL]]"
proof -
  let ?rest = "show_nat e @ [NL] @ ''__REBOOT__'' @ [NL] @ show_nat k @ [NL]"
  have "\<forall>l \<in> set (map dnf_line rows). \<not> sublist ''__EXIT__'' l"
  proof
    fix l assume "l \<in> set (map dnf_line rows)"
    then obtain r where "r \<in> set rows" and l: "l = dnf_line r" by auto
    with assms have "dnf_row_ok r" by blast
    with l show "\<not> sublist ''__EXIT__'' l" by (cases r) (simp add: contains_iff del: dnf_line.simps)
  qed
  then have "split_once ''__EXIT__'' (unlines (map dnf_line rows) @ ''__EXIT__'' @ ?rest) =
      Some (unlines (map dnf_line rows), ?rest)"
    by (rule split_section) (simp_all add: NL_def)
  moreover have "CHR ''X'' \<notin> set ?rest" using digits_fresh by (simp add: NL_def is_digit_def)
  then have "\<not> sublist ''__EXIT__'' ?rest"
    using set_mono_sublist [of "''__EXIT__''" ?rest] by auto
  then have "split_once ''__EXIT__'' ?rest = None" by (simp only: split_once_None not_False_eq_True)
  ultimately show ?thesis
    unfolding dnf_output_def by (simp only: py_split_Some py_split_None list.distinct simp_thms)
qed

lemma dnf_parse_rows:
  assumes "\<forall>r \<in> set rows. dnf_row_ok r"
  shows "dnf_parse (dnf_output rows e k) =
    (map dnf_package rows,
     hd (show_nat k) = CHR ''1'' \<or> kernel_update_in (map dnf_package rows))"
proof -
  let ?rest = "show_nat e @ [NL] @ ''__REBOOT__'' @ [NL] @ show_nat k @ [NL]"
  have "CHR ''_'' \<notin> set (show_nat e @ [NL])"
    using digits_fresh by (simp add: NL_def is_digit_def)
  then have "split_once ''__REBOOT__'' ((show_nat e @ [NL]) @ ''__REBOOT__'' @ NL # show_nat k @ [NL])
      = Some (show_nat e @ [NL], NL # show_nat k @ [NL])"
    by (rule split_once_fresh)
  then have reboot: "dnf_reboot [unlines (map dnf_line rows), ?rest] = (hd (show_nat k) = CHR ''1'')"
    using prefix_single [of "show_nat k" "CHR ''1''"]
      py_strip_no_space [of "show_nat k"] show_nat_digits [of k] digit_not_space
    by (simp add: dnf_reboot_def strip_digits)
  have "py_lines (unlines (map dnf_line rows)) = map dnf_line rows"
    using assms by (intro py_lines_unlines) (auto intro: dnf_row_one_line)
  moreover have "List.map_filter dnf_parse_line (map dnf_line rows) = map dnf_package rows"
    using assms by (intro map_filter_all) (simp add: dnf_parse_line_print)
  ultimately show ?thesis
    unfolding dnf_parse_def dnf_output_sections [OF assms] Let_def reboot list.sel by simp
qed
text \<open>The dnf parser reads back the listed updates; the reboot flag is set exactly when the
  printed exit status of \<open>needs-restarting\<close> begins with the digit 1, or a kernel is listed.\<close>
theorem dnf_parse_output:
  assumes "\<forall>r \<in> set rows. dnf_row_ok r"
  shows "dnf_parse (dnf_output rows e k) =
    (map dnf_package rows,
     hd (show_nat k) = CHR ''1'' \<or> kernel_update_in (map dnf_package rows))"
  using assms by (rule dnf_parse_rows)

theorem dnf_parse_output_witness:
  "dnf_parse (dnf_output [(''bash'', ''x86_64'', ''5.2.26-3.fc40'', ''updates'')] 100 0) =
     ([plain_package ''bash'' ''installed'' ''5.2.26-3.fc40''], False)"
proof -
  have "dnf_row_ok (''bash'', ''x86_64'', ''5.2.26-3.fc40'', ''updates'')"
    by (simp add: is_word_def is_space_def contains_def)
  then show ?thesis
    using dnf_parse_output [of "[(''bash'', ''x86_64'', ''5.2.26-3.fc40'', ''updates'')]" 100 0]
    by (simp add: kernel_update_in_def is_kernel_package_def plain_package_def show_nat.simps
      digit_chars)
qed

text \<open>A host without \<open>needs-restarting\<close> (the shell prints the status 127) is reported as needing
  a reboot.\<close>
theorem dnf_missing_needs_restarting: "snd (dnf_parse (dnf_output [] 0 127))"
proof -
  have "hd (show_nat 127) = CHR ''1''"
    by (simp add: show_nat.simps digit_chars)
  then show ?thesis by (simp add: dnf_parse_rows)
qed

subsection \<open>apt\<close>

text \<open>
  One upgradable package as apt lists it (name, suite, candidate version, architecture,
  installed version).  Debian names and versions hold no underscore and no slash.
\<close>

record apt_row =
  ar_name :: string
  ar_suite :: string
  ar_candidate :: string
  ar_arch :: string
  ar_installed :: string

definition debian_word :: "string \<Rightarrow> bool" where
  "debian_word w \<longleftrightarrow> is_word w \<and> set w \<inter> set ''_/[]'' = {}"

definition apt_row_ok :: "apt_row \<Rightarrow> bool" where
  "apt_row_ok r \<longleftrightarrow> (\<forall>w \<in> set [ar_name r, ar_suite r, ar_candidate r, ar_arch r, ar_installed r].
     debian_word w)"

definition apt_row_words :: "apt_row \<Rightarrow> string list" where
  "apt_row_words r = [ar_name r @ CHR ''/'' # ar_suite r, ar_candidate r, ar_arch r,
     ''[upgradable'', ''from:'', ar_installed r @ '']'']"

definition apt_row_line :: "apt_row \<Rightarrow> string" where
  "apt_row_line r = py_join '' '' (apt_row_words r)"

text \<open>
  What \<open>apt-get -s\<close> prints: the packages it would unpack, with the version they replace unless they are
  new and the version and archives they come from, those it would configure and remove, and its own
  messages (\<open>Reading package lists...\<close>, the list of packages kept back, the counts).
\<close>

datatype sim_line = Inst string "string option" string
  | Conf string string
  | Remv string string
  | Message string

definition bracketed :: "string option \<Rightarrow> string" where
  "bracketed old = (case old of None \<Rightarrow> [] | Some v \<Rightarrow> ''['' @ v @ ''] '')"

fun sim_text :: "sim_line \<Rightarrow> string" where
  "sim_text (Inst n old src) = ''Inst '' @ n @ '' '' @ bracketed old @ ''('' @ src @ '')''"
| "sim_text (Conf n src) = ''Conf '' @ n @ '' ('' @ src @ '')''"
| "sim_text (Remv n old) = ''Remv '' @ n @ '' ['' @ old @ '']''"
| "sim_text (Message t) = t"

text \<open>A message is any line that does not begin like an announced package; no line holds the marks that
  separate the sections.\<close>

fun sim_sound :: "sim_line \<Rightarrow> bool" where
  "sim_sound (Inst n old src) = is_word n"
| "sim_sound (Message t) = (\<not> starts_with (py_strip t) ''Inst '')"
| "sim_sound _ = True"

definition sim_ok :: "sim_line \<Rightarrow> bool" where
  "sim_ok l \<longleftrightarrow> sim_sound l \<and> one_line (sim_text l) \<and> \<not> contains (sim_text l) ''__''"

fun unpacks :: "sim_line \<Rightarrow> string option" where
  "unpacks (Inst n old src) = Some n"
| "unpacks _ = None"

abbreviation unpacked :: "sim_line list \<Rightarrow> string list" where
  "unpacked sim \<equiv> List.map_filter unpacks sim"

text \<open>The output of the check command: listing, plain simulation, full simulation, reboot flag.\<close>

definition sim_section :: "sim_line list \<Rightarrow> string" where
  "sim_section sim = unlines ([] # map sim_text sim)"

definition apt_output :: "apt_row list \<Rightarrow> sim_line list \<Rightarrow> sim_line list \<Rightarrow> bool \<Rightarrow> string" where
  "apt_output rows plan full rb =
     unlines (''Listing...'' # map apt_row_line rows) @ ''__APPLY__'' @
     sim_section plan @ ''__FULL__'' @ sim_section full @ ''__REBOOT__'' @
     unlines [[], if rb then ''yes'' else ''no'']"

text \<open>What the parser should report for one row: not held back when the plain upgrade installs
  it, otherwise deferred to a full upgrade or phased.\<close>

definition apt_row_package :: "string list \<Rightarrow> string list \<Rightarrow> apt_row \<Rightarrow> package" where
  "apt_row_package plan full r =
     \<lparr>pk_name = ar_name r, pk_current = ar_installed r, pk_available = ar_candidate r,
      pk_held_back = Some (ar_name r \<notin> set plan),
      pk_held_back_reason = Some
        (if ar_name r \<in> set plan then None
         else if ar_name r \<in> set full then Some ''needs_full_upgrade'' else Some ''phased'')\<rparr>"

lemma debian_word_word [simp]: "debian_word w \<Longrightarrow> is_word w"
  by (simp add: debian_word_def)

lemma debian_word_chars:
  "debian_word w \<Longrightarrow> CHR ''_'' \<notin> set w \<and> CHR ''/'' \<notin> set w \<and> CHR ''['' \<notin> set w \<and> CHR '']'' \<notin> set w"
  by (auto simp: debian_word_def)

lemma is_word_append: "is_word v \<Longrightarrow> is_word w \<Longrightarrow> is_word (v @ w)"
  unfolding is_word_def set_append by blast

lemma is_word_Cons: "\<not> is_space c \<Longrightarrow> is_word w \<Longrightarrow> is_word (c # w)"
  by (simp add: is_word_def)

lemma is_word_literals: "is_word ''[upgradable'' \<and> is_word ''from:'' \<and> is_word '']''"
  by code_simp

lemma apt_row_words_ok: "apt_row_ok r \<Longrightarrow> \<forall>w \<in> set (apt_row_words r). is_word w"
proof -
  assume "apt_row_ok r"
  then have w: "is_word (ar_name r)" "is_word (ar_suite r)" "is_word (ar_candidate r)"
      "is_word (ar_arch r)" "is_word (ar_installed r)"
    by (simp_all add: apt_row_ok_def debian_word_def)
  have "\<not> is_space CHR ''/''" by (simp add: is_space_def)
  then have "is_word (ar_name r @ CHR ''/'' # ar_suite r)"
    using w by (intro is_word_append is_word_Cons)
  moreover have "is_word (ar_installed r @ '']'')"
    using w is_word_literals by (intro is_word_append) blast+
  ultimately show ?thesis
    unfolding apt_row_words_def list.set using w is_word_literals by blast
qed

lemma words_apt_row: "apt_row_ok r \<Longrightarrow> py_words (apt_row_line r) = apt_row_words r"
  unfolding apt_row_line_def by (rule py_words_join) (rule apt_row_words_ok)

lemma contains_apt_row: "contains (apt_row_line r) ''[upgradable from:''"
proof -
  have "apt_row_line r = (ar_name r @ CHR ''/'' # ar_suite r @ '' '' @ ar_candidate r @ '' ''
      @ ar_arch r @ '' '') @ ''[upgradable from:'' @ ('' '' @ ar_installed r @ '']'')"
    by (simp add: apt_row_line_def apt_row_words_def)
  then show ?thesis by (metis contains_append1)
qed

lemma split_slash_apt_row: "apt_row_ok r \<Longrightarrow> hd (split_char CHR ''/'' (apt_row_line r)) = ar_name r"
proof -
  assume "apt_row_ok r"
  then have "CHR ''/'' \<notin> set (ar_name r)" by (simp add: apt_row_ok_def debian_word_chars)
  moreover have "apt_row_line r = ar_name r @ CHR ''/'' # (ar_suite r @ '' '' @ ar_candidate r @ '' ''
      @ ar_arch r @ '' [upgradable from: '' @ ar_installed r @ '']'')"
    by (simp add: apt_row_line_def apt_row_words_def)
  ultimately show ?thesis using split_char_sep by (metis list.sel(1))
qed

lemma apt_parse_row:
  assumes "apt_row_ok r"
  shows "apt_parse_line (Some plan) (Some full) (apt_row_line r) = Some (apt_row_package plan full r)"
proof -
  have "CHR '']'' \<notin> set (ar_installed r)" using assms by (simp add: apt_row_ok_def debian_word_chars)
  then have "rstrip_char CHR '']'' (ar_installed r @ '']'') = ar_installed r"
    by (rule rstrip_char_drop)
  then show ?thesis
    unfolding apt_parse_line_def words_apt_row [OF assms] split_slash_apt_row [OF assms] Let_def
    by (auto simp: contains_apt_row apt_row_words_def apt_row_package_def apt_is_held_def
        held_reason_def)
qed

lemma py_strip_Cons: "\<not> is_space c \<Longrightarrow> \<exists>t. py_strip (c # s) = c # t"
proof -
  assume c: "\<not> is_space c"
  then have l: "py_lstrip (c # s) = c # s" by (simp add: py_lstrip_id)
  obtain r where r: "c # s = py_rstrip (c # s) @ r" using py_rstrip_prefix by blast
  have "py_rstrip (c # s) \<noteq> []" using c by (auto simp: py_rstrip_def dest: arg_cong [of _ _ length])
  with r have "hd (py_rstrip (c # s)) = c" by (metis hd_append2 list.sel(1))
  with \<open>py_rstrip (c # s) \<noteq> []\<close> show ?thesis unfolding py_strip_def l by (metis list.exhaust_sel)
qed

lemma inst_name_sim: "sim_ok l \<Longrightarrow> inst_name (sim_text l) = unpacks l"
proof (cases l)
  case (Inst n old src)
  assume "sim_ok l"
  then have n: "n \<noteq> []" "\<forall>c \<in> set n. \<not> is_space c" using Inst by (simp_all add: sim_ok_def is_word_def)
  let ?t = "bracketed old @ ''('' @ src @ '')''"
  have "is_space CHR '' ''" "\<not> is_space CHR '')''" "\<not> is_space CHR ''I''" by (simp_all add: is_space_def)
  then have strip: "py_strip (sim_text l) = sim_text l" using Inst by (intro py_strip_id) simp
  have "py_words (n @ CHR '' '' # ?t) = n # py_words ?t"
    using n by (rule py_words_Cons) (simp add: is_space_def)
  moreover have "py_words (''Inst'' @ CHR '' '' # n @ CHR '' '' # ?t) = ''Inst'' # py_words (n @ CHR '' '' # ?t)"
    by (rule py_words_Cons) (simp_all add: is_space_def)
  moreover have "''Inst'' @ CHR '' '' # n @ CHR '' '' # ?t = sim_text l" using Inst by simp
  ultimately have words: "py_words (sim_text l) = ''Inst'' # n # py_words ?t" by metis
  have "starts_with (sim_text l) ''Inst ''" using Inst by simp
  then show ?thesis unfolding inst_name_def Let_def strip words using Inst by simp
next
  case (Conf n src)
  obtain t where "py_strip (sim_text l) = CHR ''C'' # t"
    using py_strip_Cons [of "CHR ''C''"] Conf by (fastforce simp: is_space_def)
  then show ?thesis using Conf by (simp add: inst_name_def)
next
  case (Remv n old)
  obtain t where "py_strip (sim_text l) = CHR ''R'' # t"
    using py_strip_Cons [of "CHR ''R''"] Remv by (fastforce simp: is_space_def)
  then show ?thesis using Remv by (simp add: inst_name_def)
next
  case (Message t)
  moreover assume "sim_ok l"
  ultimately show ?thesis by (simp add: inst_name_def sim_ok_def Let_def)
qed

lemma one_line_Nil [simp]: "one_line []"
  by (simp add: one_line_def)

lemma map_filter_map: "(\<And>x. x \<in> set xs \<Longrightarrow> f (g x) = h x) \<Longrightarrow> List.map_filter f (map g xs) = List.map_filter h xs"
  by (induction xs) (auto split: option.splits)

lemma applicable_names_print:
  assumes "\<forall>l \<in> set sim. sim_ok l"
  shows "apt_applicable_names (sim_section sim) = unpacked sim"
proof -
  have "\<forall>l \<in> set ([] # map sim_text sim). one_line l" using assms by (simp add: sim_ok_def)
  then have "py_lines (sim_section sim) = [] # map sim_text sim"
    unfolding sim_section_def by (rule py_lines_unlines)
  moreover have "List.map_filter inst_name (map sim_text sim) = unpacked sim"
    using assms by (intro map_filter_map) (simp add: inst_name_sim)
  moreover have "inst_name [] = None" by (simp add: inst_name_def)
  ultimately show ?thesis by (simp add: apt_applicable_names_def)
qed

lemma no_underscore_section: "CHR ''_'' \<notin> set l \<Longrightarrow> \<not> sublist (CHR ''_'' # sep) l"
  using set_mono_sublist [of "CHR ''_'' # sep" l] by auto

lemma apt_row_no_underscore: "apt_row_ok r \<Longrightarrow> CHR ''_'' \<notin> set (apt_row_line r)"
  by (simp add: apt_row_ok_def apt_row_line_def apt_row_words_def debian_word_chars)

lemma sim_no_section: "sim_ok l \<Longrightarrow> sublist ''__'' sep \<Longrightarrow> \<not> sublist sep (sim_text l)"
  unfolding sim_ok_def contains_iff using sublist_order.order.trans by blast

text \<open>The output read as the lines it is made of, and its four sections.\<close>

lemma apt_output_lines:
  "apt_output rows plan full rb =
     unlines ((''Listing...'' # map apt_row_line rows) @ [''__APPLY__''] @ map sim_text plan
       @ [''__FULL__''] @ map sim_text full) @ ''__REBOOT__'' @ unlines [[], if rb then ''yes'' else ''no'']"
  by (simp add: apt_output_def sim_section_def unlines_Cons)

definition apt_printable :: "apt_row list \<Rightarrow> sim_line list \<Rightarrow> sim_line list \<Rightarrow> bool" where
  "apt_printable rows plan full \<longleftrightarrow>
     (\<forall>r \<in> set rows. apt_row_ok r) \<and> (\<forall>l \<in> set plan. sim_ok l) \<and> (\<forall>l \<in> set full. sim_ok l)"

lemma apt_output_reboot:
  assumes "apt_printable rows plan full"
  shows "apt_reboot_part (apt_output rows plan full rb) =
    (unlines (''Listing...'' # map apt_row_line rows) @ ''__APPLY__'' @
     sim_section plan @ ''__FULL__'' @ sim_section full, rb)"
proof -
  let ?ls = "(''Listing...'' # map apt_row_line rows) @ [''__APPLY__''] @ map sim_text plan
       @ [''__FULL__''] @ map sim_text full"
  have rest: "starts_with (py_strip (unlines [[], if rb then ''yes'' else ''no''])) ''yes'' = rb"
    by (cases rb) (simp_all add: unlines_Cons py_strip_def py_lstrip_def py_rstrip_def is_space_def
      NL_def)
  have rows: "\<forall>l \<in> set (map apt_row_line rows). \<not> sublist ''__REBOOT__'' l"
    using assms by (auto simp: apt_printable_def apt_row_no_underscore no_underscore_section)
  have mark: "sublist ''__'' ''__REBOOT__''" by code_simp
  have insts: "\<forall>l \<in> set (map sim_text plan) \<union> set (map sim_text full). \<not> sublist ''__REBOOT__'' l"
    using assms mark by (auto simp: apt_printable_def sim_no_section)
  have marks: "\<not> sublist ''__REBOOT__'' ''__APPLY__'' \<and> \<not> sublist ''__REBOOT__'' ''__FULL__''
      \<and> \<not> sublist ''__REBOOT__'' ''Listing...''"
    by code_simp
  have "\<forall>l \<in> set ?ls. \<not> sublist ''__REBOOT__'' l"
    unfolding set_append list.set using rows insts marks by blast
  then have "split_once ''__REBOOT__'' (apt_output rows plan full rb) =
      Some (unlines ?ls, unlines [[], if rb then ''yes'' else ''no''])"
    unfolding apt_output_lines by (rule split_section) (simp_all add: NL_def)
  then show ?thesis unfolding apt_reboot_part_def using rest by (simp add: sim_section_def unlines_Cons)
qed

lemma apt_output_sections:
  assumes "apt_printable rows plan full"
  shows "apt_sections (unlines (''Listing...'' # map apt_row_line rows) @ ''__APPLY__'' @
     sim_section plan @ ''__FULL__'' @ sim_section full) =
    (unlines (''Listing...'' # map apt_row_line rows), Some (unpacked plan), Some (unpacked full))"
proof -
  have l: "\<forall>l \<in> set (''Listing...'' # map apt_row_line rows). \<not> sublist ''__APPLY__'' l"
    using assms by (auto simp: apt_printable_def apt_row_no_underscore no_underscore_section)
  have "sublist ''__'' ''__FULL__''" by code_simp
  then have f: "\<forall>l \<in> set ([] # map sim_text plan). \<not> sublist ''__FULL__'' l"
    using assms by (auto simp: apt_printable_def sim_no_section)
  have "split_once ''__APPLY__'' (unlines (''Listing...'' # map apt_row_line rows) @ ''__APPLY__'' @
      sim_section plan @ ''__FULL__'' @ sim_section full) =
      Some (unlines (''Listing...'' # map apt_row_line rows),
            sim_section plan @ ''__FULL__'' @ sim_section full)"
    using l by (rule split_section) (simp_all add: NL_def)
  moreover have "split_once ''__FULL__'' (sim_section plan @ ''__FULL__'' @
      sim_section full) =
      Some (sim_section plan, sim_section full)"
    using f unfolding sim_section_def by (rule split_section) (simp_all add: NL_def)
  ultimately show ?thesis
    using assms by (simp add: apt_sections_def apt_printable_def applicable_names_print)
qed

lemma apt_row_one_line: "apt_row_ok r \<Longrightarrow> one_line (apt_row_line r)"
  unfolding apt_row_line_def by (rule join_words_line) (rule apt_row_words_ok)

lemma apt_parse_rows:
  assumes "apt_printable rows plan full"
  shows "apt_parse (apt_output rows plan full rb) =
    (map (apt_row_package (unpacked plan) (unpacked full)) rows,
     rb \<or> (\<exists>r \<in> set rows. ar_name r \<in> set (unpacked plan) \<and> is_kernel_package (ar_name r)))"
proof -
  have rows: "\<forall>r \<in> set rows. apt_row_ok r" using assms by (simp add: apt_printable_def)
  have "one_line ''Listing...''" by (simp add: one_line_def is_linebreak_def)
  then have "py_lines (unlines (''Listing...'' # map apt_row_line rows)) =
      ''Listing...'' # map apt_row_line rows"
    using rows by (intro py_lines_unlines) (auto intro: apt_row_one_line)
  moreover have "apt_parse_line (Some (unpacked plan)) (Some (unpacked full)) ''Listing...'' = None"
    by (simp add: apt_parse_line_def contains_def)
  moreover have "List.map_filter (apt_parse_line (Some (unpacked plan)) (Some (unpacked full))) (map apt_row_line rows) =
      map (apt_row_package (unpacked plan) (unpacked full)) rows"
    using rows by (intro map_filter_all) (simp add: apt_parse_row)
  ultimately show ?thesis
    unfolding apt_parse_def apt_output_reboot [OF assms] Let_def prod.case
      apt_output_sections [OF assms]
    by (auto simp: kernel_update_in_def list_ex_iff apt_row_package_def)
qed

text \<open>C38. The apt parser reads the whole check output: every listed package with its versions, held
  back exactly when the plain simulation unpacks nothing for it, with the cause told by the full
  simulation, whatever else the simulations announce and print (packages to configure, to remove or
  kept back, messages); the reboot flag is the host's own or a listed kernel among the packages to be
  installed.\<close>
theorem apt_parse_output:
  assumes "apt_printable rows plan full"
  shows "apt_parse (apt_output rows plan full rb) =
    (map (apt_row_package (unpacked plan) (unpacked full)) rows,
     rb \<or> (\<exists>r \<in> set rows. ar_name r \<in> set (unpacked plan) \<and> is_kernel_package (ar_name r)))"
  using assms by (rule apt_parse_rows)

definition plain_sim :: "sim_line list" where
  "plain_sim = [Message ''Reading package lists...'', Message ''The following packages have been kept back:'',
     Message ''  linux-image-amd64'', Inst ''curl'' (Some ''7.88.1'') ''7.88.2 Debian:12.5/stable [amd64]'',
     Conf ''curl'' ''7.88.2 Debian:12.5/stable [amd64]'']"

definition full_sim :: "sim_line list" where
  "full_sim = [Message ''Reading package lists...'', Remv ''old-dep'' ''1.0'',
     Inst ''linux-image-6.1.0-2'' None ''6.1.2 Debian:12.5/stable [amd64]'',
     Inst ''linux-image-amd64'' (Some ''6.1.1'') ''6.1.2 Debian:12.5/stable [amd64]'']"

lemma sims_ok: "\<forall>l \<in> set plain_sim \<union> set full_sim. sim_ok l"
  by code_simp

theorem apt_parse_output_witness:
  "apt_parse (apt_output
      [\<lparr>ar_name = ''curl'', ar_suite = ''stable'', ar_candidate = ''7.88.2'', ar_arch = ''amd64'', ar_installed = ''7.88.1''\<rparr>,
       \<lparr>ar_name = ''linux-image-amd64'', ar_suite = ''stable'', ar_candidate = ''6.1.2'',
        ar_arch = ''amd64'', ar_installed = ''6.1.1''\<rparr>] plain_sim full_sim False) =
    ([\<lparr>pk_name = ''curl'', pk_current = ''7.88.1'', pk_available = ''7.88.2'',
       pk_held_back = Some False, pk_held_back_reason = Some None\<rparr>,
      \<lparr>pk_name = ''linux-image-amd64'', pk_current = ''6.1.1'', pk_available = ''6.1.2'',
       pk_held_back = Some True, pk_held_back_reason = Some (Some ''needs_full_upgrade'')\<rparr>], False)"
proof -
  let ?rows = "[\<lparr>ar_name = ''curl'', ar_suite = ''stable'', ar_candidate = ''7.88.2'', ar_arch = ''amd64'', ar_installed = ''7.88.1''\<rparr>,
       \<lparr>ar_name = ''linux-image-amd64'', ar_suite = ''stable'', ar_candidate = ''6.1.2'',
        ar_arch = ''amd64'', ar_installed = ''6.1.1''\<rparr>]"
  have "\<forall>r \<in> set ?rows. apt_row_ok r"
    by (simp add: apt_row_ok_def debian_word_def is_word_def is_space_def)
  then have "apt_printable ?rows plain_sim full_sim" using sims_ok by (simp add: apt_printable_def)
  moreover have "unpacked plain_sim = [''curl'']" "unpacked full_sim = [''linux-image-6.1.0-2'', ''linux-image-amd64'']"
    by (simp_all add: plain_sim_def full_sim_def)
  moreover have "\<not> is_kernel_package ''curl''" by code_simp
  ultimately show ?thesis using apt_parse_output [of ?rows plain_sim full_sim False]
    by (simp add: apt_row_package_def)
qed

end
