(* ===== verification/Credentials.thy ===== *)
theory Credentials
  imports PyText
begin

section \<open>The encrypted credential store (app/credentials.py)\<close>

text \<open>
  The store is one JSON object, keyed by host slug or \<open>__integration_<key>__\<close>, encrypted in one
  file.  Fernet and the JSON codec are the record \<open>crypto\<close>, over
  any type \<open>'b\<close> of encrypted texts: \<open>cr_decrypt key bytes\<close> is the decoded
  object (\<open>None\<close> when decryption or decoding raises), \<open>cr_encrypt\<close> its inverse.  The state \<open>cred_disk\<close>
  holds the environment variables and the files the module reads and writes.
\<close>

type_synonym entry = "(string \<times> json) list"
type_synonym store = "(string \<times> entry) list"

record 'b crypto =
  cr_valid :: "string \<Rightarrow> bool"
  cr_error :: "string \<Rightarrow> string"
  cr_new_key :: string
  cr_decrypt :: "string \<Rightarrow> 'b \<Rightarrow> store option"
  cr_encrypt :: "string \<Rightarrow> store \<Rightarrow> 'b"

record 'b cred_disk =
  cd_env_key :: "string option"
  cd_env_key_file :: "string option"
  cd_key_file :: "string option"
  cd_secret :: "string option"
  cd_creds :: "'b option"

subsection \<open>Representations in messages\<close>

text \<open>\<open>repr\<close> of an ASCII string.\<close>

definition hex_digit :: "nat \<Rightarrow> char" where
  "hex_digit d = (if d < 10 then char_of (48 + d) else char_of (87 + d))"

definition repr_char :: "char \<Rightarrow> char \<Rightarrow> string" where
  "repr_char q c =
     (if c = q \<or> c = CHR 0x5C then [CHR 0x5C, c]
      else if c = NL then [CHR 0x5C, CHR ''n'']
      else if c = CR then [CHR 0x5C, CHR ''r'']
      else if c = TAB then [CHR 0x5C, CHR ''t'']
      else if code_point c < (32::nat) \<or> code_point c = (127::nat)
           then [CHR 0x5C, CHR ''x'', hex_digit (code_point c div 16), hex_digit (code_point c mod 16)]
      else [c])"

definition py_repr :: "string \<Rightarrow> string" where
  "py_repr s =
     (let q = (if QUOTE \<in> set s \<and> DQUOTE \<notin> set s then DQUOTE else QUOTE)
      in q # concat (map (repr_char q) s) @ [q])"

subsection \<open>Key file names\<close>

text \<open>\<open>resolve\<close> is \<open>Path.resolve\<close> on the file system, which follows symbolic links.\<close>

definition path_parts :: "string \<Rightarrow> string list" where
  "path_parts p = filter (\<lambda>x. x \<noteq> [] \<and> x \<noteq> ''.'') (split_char CHR ''/'' p)"

definition is_relative_to :: "string \<Rightarrow> string \<Rightarrow> bool" where
  "is_relative_to p d \<longleftrightarrow> prefix (path_parts d) (path_parts p)"

definition resolve_key_path :: "string \<Rightarrow> (string \<Rightarrow> string) \<Rightarrow> string \<Rightarrow> string res" where
  "resolve_key_path keys_dir resolve n =
     (let err = raise ''ValueError'' (''SSH key path escapes keys directory: '' @ py_repr n) in
      if contains n ''..'' \<or> starts_with n ''/'' then err
      else let r = resolve (keys_dir @ ''/'' @ n) in
        if \<not> is_relative_to r (resolve keys_dir) then err else Inr r)"

subsection \<open>The encryption key\<close>

definition validate_key :: "'b crypto \<Rightarrow> string \<Rightarrow> string \<Rightarrow> string res" where
  "validate_key c key source =
     (if cr_valid c key then Inr key
      else raise ''ValueError'' (source @ '' is not a valid Fernet key (expected 32 url-safe ''
        @ ''base64-encoded bytes): '' @ cr_error c key))"

definition resolve_key_bytes :: "'b crypto \<Rightarrow> 'b cred_disk \<Rightarrow> string res \<times> 'b cred_disk" where
  "resolve_key_bytes c d =
     (if truthy_s (cd_env_key d)
      then (validate_key c (the (cd_env_key d)) ''KEEPUP_SECRET_KEY'', d)
      else if truthy_s (cd_env_key_file d)
      then (case cd_key_file d of
              None \<Rightarrow> (raise ''ValueError'' (''KEEPUP_SECRET_KEY_FILE='' @ py_repr (the (cd_env_key_file d))
                        @ '' could not be read: ''), d)
            | Some raw \<Rightarrow> (validate_key c (py_strip raw) ''KEEPUP_SECRET_KEY_FILE'', d))
      else (case cd_secret d of
              Some k \<Rightarrow> (Inr k, d)
            | None \<Rightarrow> (Inr (cr_new_key c), d\<lparr>cd_secret := Some (cr_new_key c)\<rparr>)))"

text \<open>\<open>Fernet(key)\<close> rejects an invalid key with a \<open>ValueError\<close>.\<close>

definition get_fernet :: "'b crypto \<Rightarrow> 'b cred_disk \<Rightarrow> string res \<times> 'b cred_disk" where
  "get_fernet c d =
     (case resolve_key_bytes c d of
        (Inl e, d') \<Rightarrow> (Inl e, d')
      | (Inr k, d') \<Rightarrow> (if cr_valid c k then Inr k else raise ''ValueError'' (cr_error c k), d'))"

definition load_store :: "'b crypto \<Rightarrow> 'b cred_disk \<Rightarrow> store \<times> 'b cred_disk" where
  "load_store c d =
     (case cd_creds d of
        None \<Rightarrow> ([], d)
      | Some bytes \<Rightarrow>
          (case get_fernet c d of
             (Inl e, d') \<Rightarrow> ([], d')
           | (Inr k, d') \<Rightarrow> (get_or (cr_decrypt c k bytes) [], d')))"

definition save_store :: "'b crypto \<Rightarrow> store \<Rightarrow> 'b cred_disk \<Rightarrow> unit res \<times> 'b cred_disk" where
  "save_store c s d =
     (case get_fernet c d of
        (Inl e, d') \<Rightarrow> (Inl e, d')
      | (Inr k, d') \<Rightarrow> (Inr (), d'\<lparr>cd_creds := Some (cr_encrypt c k s)\<rparr>))"

subsection \<open>Host credentials\<close>

definition get_credentials :: "'b crypto \<Rightarrow> string \<Rightarrow> 'b cred_disk \<Rightarrow> entry \<times> 'b cred_disk" where
  "get_credentials c slug d =
     (let (s, d') = load_store c d in (get_or (dict_get s slug) [], d'))"

text \<open>One field of an update: \<open>None\<close> leaves it, the empty string clears it.\<close>

definition put_field :: "string \<times> json option \<Rightarrow> entry \<Rightarrow> entry" where
  "put_field fv e =
     (case snd fv of
        None \<Rightarrow> e
      | Some v \<Rightarrow> if v = JStr [] then dict_pop (fst fv) e else dict_set (fst fv) v e)"

definition put_fields :: "(string \<times> json option) list \<Rightarrow> entry \<Rightarrow> entry" where
  "put_fields fs e = fold put_field fs e"

definition put_entry :: "string \<Rightarrow> (string \<times> json option) list \<Rightarrow> store \<Rightarrow> store" where
  "put_entry k fs s = dict_set k (put_fields fs (get_or (dict_get s k) [])) s"

definition save_credentials ::
  "'b crypto \<Rightarrow> string \<Rightarrow> string option \<Rightarrow> string option \<Rightarrow> string option \<Rightarrow> 'b cred_disk
     \<Rightarrow> unit res \<times> 'b cred_disk" where
  "save_credentials c slug ssh_password ssh_key sudo_password d =
     (let (s, d') = load_store c d
      in save_store c (put_entry slug
           [(''ssh_password'', map_option JStr ssh_password), (''ssh_key'', map_option JStr ssh_key),
            (''sudo_password'', map_option JStr sudo_password)] s) d')"

definition save_sudo_password ::
  "'b crypto \<Rightarrow> string \<Rightarrow> string \<Rightarrow> 'b cred_disk \<Rightarrow> unit res \<times> 'b cred_disk" where
  "save_sudo_password c slug password d = save_credentials c slug None None (Some password) d"

definition delete_credentials :: "'b crypto \<Rightarrow> string \<Rightarrow> 'b cred_disk \<Rightarrow> unit res \<times> 'b cred_disk" where
  "delete_credentials c slug d =
     (let (s, d') = load_store c d in save_store c (dict_pop slug s) d')"

definition move_entry :: "string \<Rightarrow> string \<Rightarrow> store \<Rightarrow> store" where
  "move_entry old new s =
     (case dict_get s old of None \<Rightarrow> s | Some e \<Rightarrow> dict_set new e (dict_pop old s))"

definition rename_key ::
  "'b crypto \<Rightarrow> string \<Rightarrow> string \<Rightarrow> 'b cred_disk \<Rightarrow> unit res \<times> 'b cred_disk" where
  "rename_key c old new d =
     (let (s, d') = load_store c d in
      case dict_get s old of
        None \<Rightarrow> (Inr (), d')
      | Some e \<Rightarrow> save_store c (move_entry old new s) d')"

definition rename_credentials ::
  "'b crypto \<Rightarrow> string \<Rightarrow> string \<Rightarrow> 'b cred_disk \<Rightarrow> unit res \<times> 'b cred_disk" where
  "rename_credentials c old new d = (if old = new then (Inr (), d) else rename_key c old new d)"

subsection \<open>Integration credentials\<close>

definition integration_key :: "string \<Rightarrow> string" where
  "integration_key key = ''__integration_'' @ key @ ''__''"

text \<open>\<open>first_server\<close> is the id of the first configured Proxmox server, which the compatibility
  lookup of \<open>proxmox\<close> falls back to.\<close>

definition get_integration_credentials ::
  "'b crypto \<Rightarrow> string option \<Rightarrow> string \<Rightarrow> 'b cred_disk \<Rightarrow> entry \<times> 'b cred_disk" where
  "get_integration_credentials c first_server key d =
     (let (s, d') = load_store c d in
      (case dict_get s (integration_key key) of
         Some e \<Rightarrow> e
       | None \<Rightarrow>
           if key = ''proxmox''
           then (case first_server of
                   Some sid \<Rightarrow> get_or (dict_get s (integration_key (''proxmox_'' @ sid))) []
                 | None \<Rightarrow> [])
           else [],
       d'))"

definition rename_integration_credentials ::
  "'b crypto \<Rightarrow> string \<Rightarrow> string \<Rightarrow> 'b cred_disk \<Rightarrow> unit res \<times> 'b cred_disk" where
  "rename_integration_credentials c old new d =
     (if old = new then (Inr (), d) else rename_key c (integration_key old) (integration_key new) d)"

definition save_integration_credentials ::
  "'b crypto \<Rightarrow> string \<Rightarrow> (string \<times> json option) list \<Rightarrow> 'b cred_disk \<Rightarrow> unit res \<times> 'b cred_disk" where
  "save_integration_credentials c key kwargs d =
     (let (s, d') = load_store c d in save_store c (put_entry (integration_key key) kwargs s) d')"

definition delete_integration_credentials ::
  "'b crypto \<Rightarrow> string \<Rightarrow> 'b cred_disk \<Rightarrow> unit res \<times> 'b cred_disk" where
  "delete_integration_credentials c key d =
     (let (s, d') = load_store c d in save_store c (dict_pop (integration_key key) s) d')"

definition wipe_credential_store :: "'b crypto \<Rightarrow> 'b cred_disk \<Rightarrow> unit res \<times> 'b cred_disk" where
  "wipe_credential_store c d = save_store c [] d"

definition field_truthy :: "entry \<Rightarrow> string \<Rightarrow> bool" where
  "field_truthy e k = (case dict_get e k of None \<Rightarrow> False | Some v \<Rightarrow> json_truthy v)"

record cred_status =
  has_ssh_password :: bool
  has_ssh_key :: bool
  has_sudo_password :: bool

definition credential_status :: "'b crypto \<Rightarrow> string \<Rightarrow> 'b cred_disk \<Rightarrow> cred_status \<times> 'b cred_disk" where
  "credential_status c slug d =
     (let (e, d') = get_credentials c slug d in
      (\<lparr>has_ssh_password = field_truthy e ''ssh_password'', has_ssh_key = field_truthy e ''ssh_key'',
        has_sudo_password = field_truthy e ''sudo_password''\<rparr>, d'))"

subsection \<open>A store that can be read and written\<close>

text \<open>
  \<open>crypto_ok\<close> is what the code relies on: what was encrypted under a valid key decrypts to it, and
  generated keys are valid.  \<open>ready\<close> says the key resolves to a valid one (after generating
  \<open>.secret\<close> when there is none), and \<open>view\<close> is the store the next read returns.
\<close>

definition crypto_ok :: "'b crypto \<Rightarrow> bool" where
  "crypto_ok c \<longleftrightarrow> cr_valid c (cr_new_key c)
     \<and> (\<forall>k s. cr_valid c k \<longrightarrow> cr_decrypt c k (cr_encrypt c k s) = Some s)"

definition ready :: "'b crypto \<Rightarrow> 'b cred_disk \<Rightarrow> bool" where
  "ready c d \<longleftrightarrow> crypto_ok c \<and> (case fst (get_fernet c d) of Inl e \<Rightarrow> False | Inr k \<Rightarrow> True)"

definition view :: "'b crypto \<Rightarrow> 'b cred_disk \<Rightarrow> store" where
  "view c d = fst (load_store c d)"

lemma get_fernet_stable:
  assumes "get_fernet c d = (Inr k, d')"
  shows "get_fernet c (d'\<lparr>cd_creds := b\<rparr>) = (Inr k, d'\<lparr>cd_creds := b\<rparr>)" and "cr_valid c k"
    and "cd_creds d' = cd_creds d"
  using assms
  by (auto simp: get_fernet_def resolve_key_bytes_def validate_key_def split: if_splits option.splits)

lemma get_fernet_again:
  assumes "get_fernet c d = (Inr k, d')"
  shows "get_fernet c d' = (Inr k, d')"
  using get_fernet_stable(1) [OF assms, of "cd_creds d'"] by simp

lemma readyE:
  assumes "ready c d"
  obtains k d' where "crypto_ok c" and "get_fernet c d = (Inr k, d')"
  using assms by (cases "get_fernet c d") (auto simp: ready_def split: sum.splits)

lemma load_store_ready:
  assumes "ready c d"
  shows "ready c (snd (load_store c d))" and "view c (snd (load_store c d)) = view c d"
    and "fst (load_store c d) = view c d"
proof -
  obtain k d' where c: "crypto_ok c" and k: "get_fernet c d = (Inr k, d')"
    using assms by (rule readyE)
  have r: "ready c d'" using c get_fernet_again [OF k] by (simp add: ready_def)
  have creds: "cd_creds d' = cd_creds d" using k by (rule get_fernet_stable)
  show "ready c (snd (load_store c d))"
    using r assms k by (simp add: load_store_def split: option.splits)
  show "view c (snd (load_store c d)) = view c d"
    using get_fernet_again [OF k] creds k
    by (auto simp: view_def load_store_def split: option.splits)
  show "fst (load_store c d) = view c d" by (simp add: view_def)
qed

lemma save_store_ready:
  assumes "ready c d"
  shows "\<exists>d'. save_store c s d = (Inr (), d') \<and> ready c d' \<and> view c d' = s"
proof -
  obtain k d1 where c: "crypto_ok c" and k: "get_fernet c d = (Inr k, d1)"
    using assms by (rule readyE)
  let ?d = "d1\<lparr>cd_creds := Some (cr_encrypt c k s)\<rparr>"
  have f: "get_fernet c ?d = (Inr k, ?d)" and v: "cr_valid c k"
    using get_fernet_stable [OF k] by blast+
  have "save_store c s d = (Inr (), ?d)" using k by (simp add: save_store_def)
  moreover have "ready c ?d" using f c by (simp add: ready_def)
  moreover have "view c ?d = s"
    using f c v by (simp add: view_def load_store_def crypto_ok_def)
  ultimately show ?thesis by blast
qed

text \<open>A read followed by a write of what the read suggests: the shape of every mutation.\<close>

lemma load_save_ready:
  assumes "ready c d"
  shows "\<exists>d'. (let (s, d1) = load_store c d in save_store c (f s) d1) = (Inr (), d')
    \<and> ready c d' \<and> view c d' = f (view c d)"
  using save_store_ready [OF load_store_ready(1) [OF assms], of "f (view c d)"]
    load_store_ready(3) [OF assms]
  by (cases "load_store c d") (simp add: Let_def)

subsection \<open>Fields after an update\<close>

lemma put_fields_other:
  "k \<notin> set (map fst fs) \<Longrightarrow> dict_get (put_fields fs e) k = dict_get e k"
  unfolding put_fields_def
  by (induction fs arbitrary: e) (auto simp: put_field_def dict_simps split: option.splits)

lemma put_fields_get:
  assumes "distinct (map fst fs)" and "(k, v) \<in> set fs"
  shows "dict_get (put_fields fs e) k =
    (case v of None \<Rightarrow> dict_get e k | Some j \<Rightarrow> if j = JStr [] then None else Some j)"
  using assms
proof (induction fs arbitrary: e)
  case (Cons f fs)
  have step: "put_fields (f # fs) e = put_fields fs (put_field f e)"
    by (simp add: put_fields_def)
  show ?case
  proof (cases "f = (k, v)")
    case True
    then have "dict_get (put_fields fs (put_field f e)) k = dict_get (put_field f e) k"
      using Cons.prems by (intro put_fields_other) auto
    then show ?thesis
      unfolding step using True by (auto simp: put_field_def dict_simps split: option.splits)
  next
    case False
    then have fk: "fst f \<noteq> k" using Cons.prems by (force simp: image_iff)
    have "dict_get (put_fields fs (put_field f e)) k =
        (case v of None \<Rightarrow> dict_get (put_field f e) k | Some j \<Rightarrow> if j = JStr [] then None else Some j)"
      using Cons.prems False by (intro Cons.IH) auto
    moreover have "dict_get (put_field f e) k = dict_get e k"
      using fk by (auto simp: put_field_def dict_simps split: option.splits)
    ultimately show ?thesis unfolding step by (simp only:)
  qed
qed simp

lemma put_entry_get [dict_simps]:
  "dict_get (put_entry k fs s) k' =
     (if k = k' then Some (put_fields fs (get_or (dict_get s k) [])) else dict_get s k')"
  by (simp add: put_entry_def dict_simps)

lemma integration_key_inj [simp]: "integration_key a = integration_key b \<longleftrightarrow> a = b"
  by (simp add: integration_key_def)

text \<open>Host slugs never collide with the keys of integrations: a slug holds no underscore.\<close>

lemma integration_key_underscore: "CHR ''_'' \<notin> set slug \<Longrightarrow> integration_key k \<noteq> slug"
  by (auto simp: integration_key_def)

subsection \<open>The interface the clients rely on\<close>

locale integration_store =
  fixes store_ready :: "'d \<Rightarrow> bool"
    and entries :: "'d \<Rightarrow> store"
    and get :: "string \<Rightarrow> 'd \<Rightarrow> entry \<times> 'd"
    and put :: "string \<Rightarrow> (string \<times> json option) list \<Rightarrow> 'd \<Rightarrow> unit res \<times> 'd"
  assumes get_entry: "store_ready d \<Longrightarrow> key \<noteq> ''proxmox'' \<Longrightarrow>
      fst (get key d) = get_or (dict_get (entries d) (integration_key key)) []"
    and get_keeps: "store_ready d \<Longrightarrow> store_ready (snd (get key d)) \<and> entries (snd (get key d)) = entries d"
    and put_works: "store_ready d \<Longrightarrow> \<exists>d'. put key fs d = (Inr (), d') \<and> store_ready d'
      \<and> entries d' = put_entry (integration_key key) fs (entries d)"
begin

lemma put_ok: "store_ready d \<Longrightarrow> fst (put key fs d) = Inr () \<and> store_ready (snd (put key fs d))"
  using put_works [of d key fs] by auto

lemma get_after_put:
  "store_ready d \<Longrightarrow> key \<noteq> ''proxmox'' \<Longrightarrow>
     fst (get key (snd (put key' fs d))) =
       (if key = key' then put_fields fs (fst (get key d)) else fst (get key d))"
  using put_works [of d key' fs] get_entry [of d key] get_entry [of "snd (put key' fs d)" key]
  by (auto simp: dict_simps)

lemma get_after_get:
  "store_ready d \<Longrightarrow> key \<noteq> ''proxmox'' \<Longrightarrow> fst (get key (snd (get key' d))) = fst (get key d)"
  using get_keeps [of d key'] get_entry [of d key] get_entry [of "snd (get key' d)" key] by simp

lemma get_ready: "store_ready d \<Longrightarrow> store_ready (snd (get key d))"
  using get_keeps by blast

end

lemma save_integration_ready:
  "ready c d \<Longrightarrow> \<exists>d'. save_integration_credentials c key fs d = (Inr (), d') \<and> ready c d'
     \<and> view c d' = put_entry (integration_key key) fs (view c d)"
  unfolding save_integration_credentials_def by (rule load_save_ready)

lemma get_integration_ready:
  assumes "ready c d"
  shows "key \<noteq> ''proxmox'' \<Longrightarrow> fst (get_integration_credentials c srv key d) =
      get_or (dict_get (view c d) (integration_key key)) []"
    and "ready c (snd (get_integration_credentials c srv key d))"
    and "view c (snd (get_integration_credentials c srv key d)) = view c d"
  using load_store_ready [OF assms]
  by (auto simp: get_integration_credentials_def get_or_def split: prod.splits option.splits)

interpretation cs: integration_store "ready c" "view c" "get_integration_credentials c srv"
  "save_integration_credentials c" for c srv
  by unfold_locales (simp_all add: get_integration_ready save_integration_ready)

subsection \<open>Reading back what was saved\<close>

definition updated :: "json option \<Rightarrow> string option \<Rightarrow> json option" where
  "updated old v = (case v of None \<Rightarrow> old | Some s \<Rightarrow> if s = [] then None else Some (JStr s))"

lemma get_credentials_ready:
  "ready c d \<Longrightarrow> fst (get_credentials c slug d) = get_or (dict_get (view c d) slug) []"
  using load_store_ready(3) [of c d] by (auto simp: get_credentials_def split: prod.splits)

text \<open>Saving host credentials sets the fields given, clears those given as the empty string, leaves
  those not given, and touches no other host and no other field; the store can be read again
  afterwards.\<close>
theorem save_credentials_get:
  assumes "ready c d"
  shows "\<exists>d'. save_credentials c slug pw key sudo d = (Inr (), d') \<and> ready c d' \<and>
    (let old = fst (get_credentials c slug d); new = fst (get_credentials c slug d') in
       dict_get new ''ssh_password'' = updated (dict_get old ''ssh_password'') pw
       \<and> dict_get new ''ssh_key'' = updated (dict_get old ''ssh_key'') key
       \<and> dict_get new ''sudo_password'' = updated (dict_get old ''sudo_password'') sudo
       \<and> (\<forall>f. f \<in> {''ssh_password'', ''ssh_key'', ''sudo_password''} \<or> dict_get new f = dict_get old f))
    \<and> (\<forall>other. other = slug \<or> fst (get_credentials c other d') = fst (get_credentials c other d))"
proof -
  let ?fs = "[(''ssh_password'', map_option JStr pw), (''ssh_key'', map_option JStr key),
      (''sudo_password'', map_option JStr sudo)]"
  obtain d' where d': "save_credentials c slug pw key sudo d = (Inr (), d')" and r: "ready c d'"
    and v: "view c d' = put_entry slug ?fs (view c d)"
    using load_save_ready [OF assms, of "put_entry slug ?fs"] unfolding save_credentials_def by blast
  have new: "fst (get_credentials c slug d') = put_fields ?fs (fst (get_credentials c slug d))"
    by (simp add: get_credentials_ready r assms v dict_simps)
  have "dict_get (put_fields ?fs e) ''ssh_password'' = updated (dict_get e ''ssh_password'') pw"
    and "dict_get (put_fields ?fs e) ''ssh_key'' = updated (dict_get e ''ssh_key'') key"
    and "dict_get (put_fields ?fs e) ''sudo_password'' = updated (dict_get e ''sudo_password'') sudo"
    for e
    by (simp_all add: put_fields_get [where v = "map_option JStr pw"] put_fields_get [where v = "map_option JStr key"]
      put_fields_get [where v = "map_option JStr sudo"] updated_def split: option.splits)
  moreover have "f \<in> {''ssh_password'', ''ssh_key'', ''sudo_password''} \<or>
      dict_get (put_fields ?fs e) f = dict_get e f" for f e
    using put_fields_other [of f ?fs e] by auto
  moreover have "other = slug \<or> fst (get_credentials c other d') = fst (get_credentials c other d)" for other
    by (simp add: get_credentials_ready r assms v dict_simps)
  ultimately show ?thesis using d' r new by (auto simp: Let_def)
qed

text \<open>A crypto that keeps the key beside the store, for concrete runs.\<close>

definition plain_crypto :: "(string \<times> store) crypto" where
  "plain_crypto = \<lparr>cr_valid = (\<lambda>k. k \<noteq> []), cr_error = (\<lambda>_. ''bad key''), cr_new_key = ''k0'',
     cr_decrypt = (\<lambda>k (k', s). if k = k' then Some s else None), cr_encrypt = Pair\<rparr>"

definition fresh_disk :: "(string \<times> store) cred_disk" where
  "fresh_disk = \<lparr>cd_env_key = None, cd_env_key_file = None, cd_key_file = None, cd_secret = None,
     cd_creds = None\<rparr>"

lemma plain_ready: "ready plain_crypto fresh_disk"
  by (simp add: ready_def crypto_ok_def plain_crypto_def fresh_disk_def get_fernet_def
    resolve_key_bytes_def)

theorem save_credentials_get_witness:
  "\<exists>d'. save_credentials plain_crypto ''nas'' (Some ''pw'') None (Some []) fresh_disk = (Inr (), d')
     \<and> dict_get (fst (get_credentials plain_crypto ''nas'' d')) ''ssh_password'' = Some (JStr ''pw'')"
  using save_credentials_get [OF plain_ready, of "''nas''" "Some ''pw''" None "Some []"]
  by (auto simp: Let_def updated_def)

text \<open>A store that does not decrypt under the resolved key reads as empty, and the next save
  replaces it: only the saved entry is left, whatever the file held.\<close>
theorem save_over_undecryptable:
  assumes "ready c d" and "cd_creds d = Some b"
    and "\<And>k. fst (get_fernet c d) = Inr k \<Longrightarrow> cr_decrypt c k b = None"
  shows "\<exists>d'. save_credentials c slug pw key sudo d = (Inr (), d') \<and> map fst (view c d') = [slug]"
proof -
  obtain k d1 where k: "get_fernet c d = (Inr k, d1)" using assms(1) by (rule readyE)
  have "view c d = []" using assms(2,3) k by (simp add: view_def load_store_def)
  then show ?thesis
    using load_save_ready [OF assms(1), of "put_entry slug
      [(''ssh_password'', map_option JStr pw), (''ssh_key'', map_option JStr key),
       (''sudo_password'', map_option JStr sudo)]"]
    unfolding save_credentials_def by (auto simp: put_entry_def)
qed

theorem save_over_undecryptable_witness:
  "\<exists>d'. save_credentials plain_crypto ''nas'' (Some ''pw'') None None
     (fresh_disk\<lparr>cd_env_key := Some ''k2'', cd_creds := Some (''k1'', [(''pi'', []), (''db'', [])])\<rparr>) =
       (Inr (), d') \<and> map fst (view plain_crypto d') = [''nas'']"
proof -
  let ?d = "fresh_disk\<lparr>cd_env_key := Some ''k2'', cd_creds := Some (''k1'', [(''pi'', []), (''db'', [])])\<rparr>"
  have f: "get_fernet plain_crypto ?d = (Inr ''k2'', ?d)"
    by (simp add: plain_crypto_def fresh_disk_def get_fernet_def resolve_key_bytes_def validate_key_def)
  then have "ready plain_crypto ?d" using plain_ready by (simp add: ready_def)
  then show ?thesis
    by (rule save_over_undecryptable [where b = "(''k1'', [(''pi'', []), (''db'', [])])"])
      (use f in \<open>auto simp: plain_crypto_def\<close>)
qed

subsection \<open>Renaming and deleting\<close>

text \<open>Renaming moves a host's credentials to the new slug and removes the old one; every other
  entry stays.\<close>
theorem rename_credentials_moves:
  assumes "ready c d" and "old \<noteq> new" and "dict_get (view c d) old = Some e"
  shows "\<exists>d'. rename_credentials c old new d = (Inr (), d') \<and> ready c d' \<and>
    (\<forall>k. dict_get (view c d') k =
       (if k = new then Some e else if k = old then None else dict_get (view c d) k))"
proof -
  have load: "fst (load_store c d) = view c d" and r: "ready c (snd (load_store c d))"
    using load_store_ready [OF assms(1)] by auto
  obtain d' where "save_store c (move_entry old new (view c d)) (snd (load_store c d)) = (Inr (), d')"
    and "ready c d'" and "view c d' = move_entry old new (view c d)"
    using save_store_ready [OF r] by blast
  then show ?thesis
    using assms(2,3) load
    by (auto simp: rename_credentials_def rename_key_def move_entry_def dict_simps split: prod.splits)
qed

theorem rename_credentials_moves_witness:
  "\<exists>d'. rename_credentials plain_crypto ''a'' ''b''
      (fresh_disk\<lparr>cd_env_key := Some ''k'', cd_creds := Some (''k'', [(''a'', [(''x'', JNum 1)])])\<rparr>) =
      (Inr (), d') \<and> dict_get (view plain_crypto d') ''b'' = Some [(''x'', JNum 1)]
    \<and> dict_get (view plain_crypto d') ''a'' = None"
proof -
  let ?d = "fresh_disk\<lparr>cd_env_key := Some ''k'', cd_creds := Some (''k'', [(''a'', [(''x'', JNum 1)])])\<rparr>"
  have f: "get_fernet plain_crypto ?d = (Inr ''k'', ?d)"
    by (simp add: plain_crypto_def fresh_disk_def get_fernet_def resolve_key_bytes_def validate_key_def)
  then have r: "ready plain_crypto ?d" using plain_ready by (simp add: ready_def)
  have "dict_get (view plain_crypto ?d) ''a'' = Some [(''x'', JNum 1)]"
    using f by (simp add: view_def load_store_def plain_crypto_def)
  from rename_credentials_moves [OF r _ this, of "''b''"] show ?thesis by auto
qed

lemma operator_key_not_written:
  "truthy_s (cd_env_key d) \<or> truthy_s (cd_env_key_file d) \<Longrightarrow> snd (resolve_key_bytes c d) = d"
  by (auto simp: resolve_key_bytes_def split: option.splits)

lemma resolve_key_path_inside:
  "resolve_key_path keys resolve n = Inr r \<Longrightarrow>
     r = resolve (keys @ ''/'' @ n) \<and> is_relative_to r (resolve keys) \<and> \<not> contains n ''..''
     \<and> \<not> starts_with n ''/''"
  by (auto simp: resolve_key_path_def Let_def split: if_splits)

end
