(* ===== verification/PyUrl.thy ===== *)
theory PyUrl
  imports PyText
begin

section \<open>URL parsing (urllib.parse.urlsplit)\<close>

text \<open>
  The standard library's \<open>urlsplit\<close> on ASCII text, with the attributes the program reads.  An
  unbalanced bracket in the network location is a \<open>ValueError\<close>; the check of the address between
  brackets is not modelled.
\<close>

record split_url =
  su_scheme :: string
  su_netloc :: string
  su_path :: string
  su_query :: string
  su_fragment :: string

definition is_alpha :: "char \<Rightarrow> bool" where
  "is_alpha c \<longleftrightarrow> is_lower c \<or> is_upper c"

definition scheme_char :: "char \<Rightarrow> bool" where
  "scheme_char c \<longleftrightarrow> is_alpha c \<or> is_digit c \<or> c \<in> set ''+-.''"

definition url_clean :: "string \<Rightarrow> string" where
  "url_clean u = filter (\<lambda>c. c \<notin> {TAB, NL, CR}) (dropWhile (\<lambda>c. code_point c \<le> (32::nat)) u)"

text \<open>The scheme in front of the first colon, when it is well formed, and the rest.\<close>

definition url_scheme :: "string \<Rightarrow> string \<times> string" where
  "url_scheme u =
     (case split_once '':'' u of
        Some (s, rest) \<Rightarrow>
          if s \<noteq> [] \<and> is_alpha (hd s) \<and> list_all scheme_char s then (py_lower s, rest) else ([], u)
      | None \<Rightarrow> ([], u))"

definition url_netloc :: "string \<Rightarrow> string \<times> string" where
  "url_netloc u =
     (if starts_with u ''//''
      then (takeWhile (\<lambda>c. c \<notin> set ''/?#'') (drop 2 u), dropWhile (\<lambda>c. c \<notin> set ''/?#'') (drop 2 u))
      else ([], u))"

definition cut_at :: "char \<Rightarrow> string \<Rightarrow> string \<times> string" where
  "cut_at c u = (case split_once [c] u of Some p \<Rightarrow> p | None \<Rightarrow> (u, []))"

definition urlsplit :: "string \<Rightarrow> split_url res" where
  "urlsplit url =
     (let (scheme, u1) = url_scheme (url_clean url);
          (netloc, u2) = url_netloc u1;
          (u3, fragment) = cut_at CHR ''#'' u2;
          (path, query) = cut_at CHR ''?'' u3
      in if (CHR ''['' \<in> set netloc) \<noteq> (CHR '']'' \<in> set netloc)
         then raise ''ValueError'' ''Invalid IPv6 URL''
         else Inr \<lparr>su_scheme = scheme, su_netloc = netloc, su_path = path, su_query = query,
                   su_fragment = fragment\<rparr>)"

text \<open>The host of a network location: without user information, port and brackets, in lower case
  up to a zone mark; \<open>None\<close> when it is empty.\<close>

definition netloc_host :: "string \<Rightarrow> string option" where
  "netloc_host netloc =
     (let hostinfo = (case rsplit_once CHR ''@'' netloc of Some (_, h) \<Rightarrow> h | None \<Rightarrow> netloc);
          h = (case split_once ''['' hostinfo of
                 Some (_, br) \<Rightarrow> fst (cut_at CHR '']'' br)
               | None \<Rightarrow> fst (cut_at CHR '':'' hostinfo))
      in if h = [] then None
         else case split_once ''%'' h of
                Some (a, z) \<Rightarrow> Some (py_lower a @ CHR ''%'' # z)
              | None \<Rightarrow> Some (py_lower h))"

definition url_hostname :: "string \<Rightarrow> string option res" where
  "url_hostname url = res_bind (urlsplit url) (\<lambda>u. Inr (netloc_host (su_netloc u)))"

end
