(* ===== verification/ConfigManager.thy ===== *)
theory ConfigManager
  imports Credentials PyUrl
begin

section \<open>The configuration file (app/config_manager.py)\<close>

text \<open>
  \<open>config.yml\<close> as the dictionary \<open>yaml.safe_load\<close> makes of it.  The keys the code uses are fields
  of the record \<open>config\<close>, \<open>None\<close> for an absent key; a host, a server and a service block are
  records in the same way.  The disk is \<open>None\<close> when the file does not exist.  The lock and the
  order of the keys are not modelled; a key whose value is null is read as absent.
\<close>

subsection \<open>The data\<close>

record host_auto =
  au_os_enabled :: bool
  au_os_schedule :: string
  au_auto_reboot :: bool

record host =
  h_name :: string
  h_host :: "string option"
  h_user :: "string option"
  h_port :: "int option"
  h_key :: "string option"
  h_docker_mode :: "string option"
  h_docker_containers :: "string list option"
  h_docker_stacks :: "string list option"
  h_proxmox_node :: "string option"
  h_proxmox_vmid :: "int option"
  h_proxmox_type :: "string option"
  h_proxmox_server :: "string option"
  h_auto_update :: "host_auto option"

record service =
  sv_url :: "string option"
  sv_verify :: "bool option"
  sv_pem :: "string option"
  sv_fp :: "string option"

record server =
  srv_id :: string
  srv_block :: service

record ssh_block =
  sb_default_port :: "int option"
  sb_other :: "(string \<times> json) list"

record email =
  em_sender_name :: string
  em_sender_address :: string
  em_recipient_address :: string
  em_smtp_host :: string
  em_smtp_port :: int
  em_tls :: bool

record stack_auto =
  sa_enabled :: bool
  sa_schedule :: string
  sa_name :: string

record config =
  c_hosts :: "host list option"
  c_ssh :: "ssh_block option"
  c_portainer :: "service option"
  c_pushover :: "bool option"
  c_email :: "email option"
  c_timezone :: "string option"
  c_update_checks :: "json option"
  c_update_check_schedule :: "string option"
  c_dockerhub :: "string option"
  c_proxmox :: "service option"
  c_proxmox_servers :: "server list option"
  c_proxmox_backup :: "service option"
  c_opnsense :: "service option"
  c_pfsense :: "service option"
  c_tofu_migrated :: "bool option"
  c_homeassistant :: "service option"
  c_stack_auto_update :: "(string \<times> stack_auto) list option"
  c_update_check :: "json option"
  c_ssl :: "(string \<times> string) option"

type_synonym disk = "config option"

definition empty_service :: service where
  "empty_service = \<lparr>sv_url = None, sv_verify = None, sv_pem = None, sv_fp = None\<rparr>"

definition empty_config :: config where
  "empty_config =
     \<lparr>c_hosts = None, c_ssh = None, c_portainer = None, c_pushover = None, c_email = None,
      c_timezone = None, c_update_checks = None, c_update_check_schedule = None,
      c_dockerhub = None, c_proxmox = None, c_proxmox_servers = None, c_proxmox_backup = None,
      c_opnsense = None, c_pfsense = None, c_tofu_migrated = None, c_homeassistant = None,
      c_stack_auto_update = None, c_update_check = None, c_ssl = None\<rparr>"

definition load_config :: "disk \<Rightarrow> config" where
  "load_config d = (case d of None \<Rightarrow> empty_config\<lparr>c_hosts := Some []\<rparr> | Some c \<Rightarrow> c)"

definition save_config :: "config \<Rightarrow> disk \<Rightarrow> disk" where
  "save_config c d = Some c"

abbreviation hosts_of :: "config \<Rightarrow> host list" where
  "hosts_of c \<equiv> get_or (c_hosts c) []"

abbreviation servers_of :: "config \<Rightarrow> server list" where
  "servers_of c \<equiv> get_or (c_proxmox_servers c) []"

subsection \<open>Slugs\<close>

definition derive_api_user :: "string \<Rightarrow> string" where
  "derive_api_user token_id =
     (if CHR ''!'' \<in> set token_id then hd (split_char CHR ''!'' token_id) else token_id)"

definition slug_char :: "char \<Rightarrow> bool" where
  "slug_char c \<longleftrightarrow> is_lower c \<or> is_digit c \<or> c = CHR ''-''"

text \<open>\<open>re.sub("-+", "-", s)\<close>.\<close>

fun squeeze_hyphens :: "string \<Rightarrow> string" where
  "squeeze_hyphens (c # d # s) =
     (if c = CHR ''-'' \<and> d = CHR ''-'' then squeeze_hyphens (d # s) else c # squeeze_hyphens (d # s))"
| "squeeze_hyphens s = s"

definition hyphen_for :: "string \<Rightarrow> string \<Rightarrow> string" where
  "hyphen_for cs s = map (\<lambda>c. if c \<in> set cs then CHR ''-'' else c) s"

definition slugify :: "string \<Rightarrow> string" where
  "slugify name =
     strip_char CHR ''-''
       (squeeze_hyphens (filter slug_char (hyphen_for '' _'' (py_lower name))))"

subsection \<open>Hosts\<close>

definition get_hosts :: "disk \<Rightarrow> (string \<times> host) list" where
  "get_hosts d =
     map (\<lambda>h. (slugify (h_name h), h))
       (filter (\<lambda>h. \<not> contains (get_or (h_host h) []) ''XXX'') (hosts_of (load_config d)))"

definition nonempty :: "string option \<Rightarrow> string option" where
  "nonempty x = (if truthy_s x then x else None)"

definition build_host_entry ::
  "string \<Rightarrow> string \<Rightarrow> string option \<Rightarrow> int option \<Rightarrow> string option \<Rightarrow> string option \<Rightarrow> string option
     \<Rightarrow> int option \<Rightarrow> string option \<Rightarrow> string option \<Rightarrow> host" where
  "build_host_entry name hst user port key_path docker_mode node vmid ptype pserver =
     \<lparr>h_name = name, h_host = Some hst, h_user = nonempty user,
      h_port = (if port = Some 0 then None else port), h_key = nonempty key_path,
      h_docker_mode = (if truthy_s docker_mode \<and> docker_mode \<noteq> Some ''none'' then docker_mode else None),
      h_docker_containers = None, h_docker_stacks = None,
      h_proxmox_node = nonempty node, h_proxmox_vmid = vmid,
      h_proxmox_type = nonempty ptype, h_proxmox_server = nonempty pserver,
      h_auto_update = None\<rparr>"

definition add_host ::
  "string \<Rightarrow> string \<Rightarrow> string option \<Rightarrow> int option \<Rightarrow> string option \<Rightarrow> string option \<Rightarrow> string option
     \<Rightarrow> int option \<Rightarrow> string option \<Rightarrow> string option \<Rightarrow> disk \<Rightarrow> string \<times> disk" where
  "add_host name hst user port key_path docker_mode node vmid ptype pserver d =
     (let c = load_config d;
          e = build_host_entry name hst user port key_path docker_mode node vmid ptype pserver
      in (slugify name, save_config (c\<lparr>c_hosts := Some (hosts_of c @ [e])\<rparr>) d))"

text \<open>The loops that change the first host with a slug and stop.\<close>

fun update_first :: "('a \<Rightarrow> bool) \<Rightarrow> ('a \<Rightarrow> 'a) \<Rightarrow> 'a list \<Rightarrow> 'a list" where
  "update_first P f [] = []"
| "update_first P f (x # xs) = (if P x then f x # xs else x # update_first P f xs)"

definition has_slug :: "string \<Rightarrow> host \<Rightarrow> bool" where
  "has_slug slug h \<longleftrightarrow> slugify (h_name h) = slug"

definition change_host :: "string \<Rightarrow> (host \<Rightarrow> host) \<Rightarrow> disk \<Rightarrow> disk" where
  "change_host slug f d =
     (let c = load_config d
      in save_config (c\<lparr>c_hosts := map_option (update_first (has_slug slug) f) (c_hosts c)\<rparr>) d)"

definition updated_host ::
  "string \<Rightarrow> string \<Rightarrow> string option \<Rightarrow> int option \<Rightarrow> host \<Rightarrow> host" where
  "updated_host name hst user port h =
     (build_host_entry name hst user port None None None None None None)
       \<lparr>h_docker_mode := h_docker_mode h, h_docker_stacks := h_docker_stacks h\<rparr>"

definition update_host ::
  "string \<Rightarrow> string \<Rightarrow> string \<Rightarrow> string option \<Rightarrow> int option \<Rightarrow> disk \<Rightarrow> string \<times> disk" where
  "update_host slug name hst user port d =
     (slugify name, change_host slug (updated_host name hst user port) d)"

definition delete_host :: "string \<Rightarrow> disk \<Rightarrow> disk" where
  "delete_host slug d =
     (let c = load_config d
      in save_config (c\<lparr>c_hosts := Some (filter (\<lambda>h. \<not> has_slug slug h) (hosts_of c))\<rparr>) d)"

subsection \<open>Container monitoring\<close>

definition monitored :: "string \<Rightarrow> string list option \<Rightarrow> host \<Rightarrow> host" where
  "monitored mode containers h =
     (if mode = ''none''
      then h\<lparr>h_docker_mode := None, h_docker_containers := None, h_docker_stacks := None\<rparr>
      else h\<lparr>h_docker_mode := Some mode,
             h_docker_containers := (if mode = ''selected'' then containers else None),
             h_docker_stacks := None\<rparr>)"

definition set_docker_monitoring :: "string \<Rightarrow> string \<Rightarrow> string list option \<Rightarrow> disk \<Rightarrow> disk" where
  "set_docker_monitoring slug mode containers d = change_host slug (monitored mode containers) d"

definition group_selection :: "string \<Rightarrow> (string \<times> string list) list \<Rightarrow> (string \<times> string list) list" where
  "group_selection item by_slug =
     (case split_once '':'' item of
        Some (slug, container) \<Rightarrow>
          dict_set slug (get_or (dict_get by_slug slug) [] @ [container]) by_slug
      | None \<Rightarrow> by_slug)"

definition save_wizard_container_selection :: "string list \<Rightarrow> disk \<Rightarrow> disk" where
  "save_wizard_container_selection selections d =
     (let by_slug = fold group_selection selections [];
          c = load_config d;
          f = (\<lambda>h. case dict_get by_slug (slugify (h_name h)) of
                 Some cs \<Rightarrow> h\<lparr>h_docker_mode := Some ''selected'', h_docker_containers := Some cs,
                              h_docker_stacks := None\<rparr>
               | None \<Rightarrow> h)
      in save_config (c\<lparr>c_hosts := map_option (map f) (c_hosts c)\<rparr>) d)"

subsection \<open>Migration of the global SSH block\<close>

definition ssh_empty :: "ssh_block option \<Rightarrow> bool" where
  "ssh_empty b = (case b of None \<Rightarrow> True | Some s \<Rightarrow> sb_default_port s = None \<and> sb_other s = [])"

definition count_userless :: "config \<Rightarrow> nat" where
  "count_userless c = length (filter (\<lambda>h. \<not> truthy_s (h_user h)) (hosts_of c))"

definition truthy_i :: "int option \<Rightarrow> bool" where
  "truthy_i x \<longleftrightarrow> x \<noteq> None \<and> x \<noteq> Some 0"

definition migrate_ssh_config :: "disk \<Rightarrow> nat \<times> disk" where
  "migrate_ssh_config d =
     (let c = load_config d in
      if ssh_empty (c_ssh c) then (count_userless c, d)
      else let default_port = sb_default_port (the (c_ssh c));
               needs = (\<lambda>h. truthy_i default_port \<and> \<not> truthy_i (h_port h));
               changed = list_ex needs (hosts_of c);
               c1 = c\<lparr>c_hosts := map_option (map (\<lambda>h. if needs h then h\<lparr>h_port := default_port\<rparr> else h)) (c_hosts c)\<rparr>;
               c2 = c1\<lparr>c_ssh := None\<rparr>
           in (count_userless c2, if changed \<or> c_ssh c2 \<noteq> None then save_config c2 d else d))"

subsection \<open>Service blocks\<close>

text \<open>The five \<open>save_*_config\<close> functions share one body: an empty URL removes the block, another
  replaces it, keeping the pinned certificate when none is given.  \<open>verify\<close> is absent for
  Portainer.\<close>

definition service_entry :: "service option \<Rightarrow> string \<Rightarrow> string \<Rightarrow> string \<Rightarrow> bool option \<Rightarrow> service" where
  "service_entry old url pem fp verify =
     (let existing = get_or old empty_service;
          pem' = (if pem \<noteq> [] then pem else get_or (sv_pem existing) []);
          fp' = (if fp \<noteq> [] then fp else get_or (sv_fp existing) [])
      in \<lparr>sv_url = Some (rstrip_char CHR ''/'' url), sv_verify = verify,
          sv_pem = (if pem' \<noteq> [] then Some pem' else None),
          sv_fp = (if pem' \<noteq> [] then Some fp' else None)\<rparr>)"

definition save_service ::
  "(config \<Rightarrow> service option) \<Rightarrow> (service option \<Rightarrow> config \<Rightarrow> config)
     \<Rightarrow> string \<Rightarrow> string \<Rightarrow> string \<Rightarrow> bool option \<Rightarrow> disk \<Rightarrow> disk" where
  "save_service get put url pem fp verify d =
     (let c = load_config d
      in save_config (put (if url \<noteq> [] then Some (service_entry (get c) url pem fp verify) else None) c) d)"

definition put_portainer :: "service option \<Rightarrow> config \<Rightarrow> config" where
  "put_portainer s c = c\<lparr>c_portainer := s\<rparr>"
definition put_proxmox :: "service option \<Rightarrow> config \<Rightarrow> config" where
  "put_proxmox s c = c\<lparr>c_proxmox := s\<rparr>"
definition put_pbs :: "service option \<Rightarrow> config \<Rightarrow> config" where
  "put_pbs s c = c\<lparr>c_proxmox_backup := s\<rparr>"
definition put_opnsense :: "service option \<Rightarrow> config \<Rightarrow> config" where
  "put_opnsense s c = c\<lparr>c_opnsense := s\<rparr>"
definition put_pfsense :: "service option \<Rightarrow> config \<Rightarrow> config" where
  "put_pfsense s c = c\<lparr>c_pfsense := s\<rparr>"

definition get_portainer_config :: "disk \<Rightarrow> service" where
  "get_portainer_config d = get_or (c_portainer (load_config d)) empty_service"

definition save_portainer_config :: "string \<Rightarrow> string \<Rightarrow> string \<Rightarrow> disk \<Rightarrow> disk" where
  "save_portainer_config url pem fp d = save_service c_portainer put_portainer url pem fp None d"

definition get_pbs_config :: "disk \<Rightarrow> service" where
  "get_pbs_config d = get_or (c_proxmox_backup (load_config d)) empty_service"

definition save_pbs_config :: "string \<Rightarrow> string \<Rightarrow> string \<Rightarrow> bool \<Rightarrow> disk \<Rightarrow> disk" where
  "save_pbs_config url pem fp verify d = save_service c_proxmox_backup put_pbs url pem fp (Some verify) d"

definition get_opnsense_config :: "disk \<Rightarrow> service" where
  "get_opnsense_config d = get_or (c_opnsense (load_config d)) empty_service"

definition save_opnsense_config :: "string \<Rightarrow> string \<Rightarrow> string \<Rightarrow> bool \<Rightarrow> disk \<Rightarrow> disk" where
  "save_opnsense_config url pem fp verify d = save_service c_opnsense put_opnsense url pem fp (Some verify) d"

definition get_pfsense_config :: "disk \<Rightarrow> service" where
  "get_pfsense_config d = get_or (c_pfsense (load_config d)) empty_service"

definition save_pfsense_config :: "string \<Rightarrow> string \<Rightarrow> string \<Rightarrow> bool \<Rightarrow> disk \<Rightarrow> disk" where
  "save_pfsense_config url pem fp verify d = save_service c_pfsense put_pfsense url pem fp (Some verify) d"

definition get_homeassistant_config :: "disk \<Rightarrow> service" where
  "get_homeassistant_config d = get_or (c_homeassistant (load_config d)) empty_service"

definition save_homeassistant_config :: "string \<Rightarrow> bool \<Rightarrow> disk \<Rightarrow> disk" where
  "save_homeassistant_config url verify d =
     (let c = load_config d
      in save_config (c\<lparr>c_homeassistant := (if url \<noteq> []
           then Some \<lparr>sv_url = Some (rstrip_char CHR ''/'' url), sv_verify = Some verify, sv_pem = None, sv_fp = None\<rparr>
           else None)\<rparr>) d)"

subsection \<open>Plain settings\<close>

definition get_pushover_config :: "disk \<Rightarrow> bool option" where
  "get_pushover_config d = c_pushover (load_config d)"

definition save_pushover_config :: "bool \<Rightarrow> disk \<Rightarrow> disk" where
  "save_pushover_config enabled d = save_config ((load_config d)\<lparr>c_pushover := Some enabled\<rparr>) d"

definition get_email_config :: "disk \<Rightarrow> email option" where
  "get_email_config d = c_email (load_config d)"

definition save_email_config ::
  "string \<Rightarrow> string \<Rightarrow> string \<Rightarrow> string \<Rightarrow> int \<Rightarrow> bool \<Rightarrow> disk \<Rightarrow> disk" where
  "save_email_config sname saddr raddr shost sport tls d =
     save_config ((load_config d)\<lparr>c_email := Some
       \<lparr>em_sender_name = sname, em_sender_address = saddr, em_recipient_address = raddr,
        em_smtp_host = shost, em_smtp_port = sport, em_tls = tls\<rparr>\<rparr>) d"

definition get_timezone :: "disk \<Rightarrow> string" where
  "get_timezone d = get_or (c_timezone (load_config d)) ''UTC''"

definition save_timezone :: "string \<Rightarrow> disk \<Rightarrow> disk" where
  "save_timezone tz d = save_config ((load_config d)\<lparr>c_timezone := Some tz\<rparr>) d"

definition get_dockerhub_config :: "disk \<Rightarrow> string option" where
  "get_dockerhub_config d = c_dockerhub (load_config d)"

definition save_dockerhub_config :: "string \<Rightarrow> disk \<Rightarrow> disk" where
  "save_dockerhub_config username d =
     save_config ((load_config d)\<lparr>c_dockerhub := (if username \<noteq> [] then Some username else None)\<rparr>) d"

definition get_tofu_migrated :: "disk \<Rightarrow> bool" where
  "get_tofu_migrated d = get_or (c_tofu_migrated (load_config d)) False"

definition mark_tofu_migrated :: "disk \<Rightarrow> disk" where
  "mark_tofu_migrated d = save_config ((load_config d)\<lparr>c_tofu_migrated := Some True\<rparr>) d"

definition get_ssl_config :: "disk \<Rightarrow> (string \<times> string) option" where
  "get_ssl_config d = c_ssl (load_config d)"

definition save_ssl_config :: "string \<Rightarrow> string \<Rightarrow> disk \<Rightarrow> disk" where
  "save_ssl_config mode hostname d = save_config ((load_config d)\<lparr>c_ssl := Some (mode, hostname)\<rparr>) d"

definition clear_ssl_config :: "disk \<Rightarrow> disk" where
  "clear_ssl_config d = save_config ((load_config d)\<lparr>c_ssl := None\<rparr>) d"

text \<open>\<open>int(v)\<close> of the stored minutes; \<open>None\<close> where it raises.\<close>

fun stored_int :: "json \<Rightarrow> int option" where
  "stored_int (JNum n) = Some n"
| "stored_int (JBool b) = Some (if b then 1 else 0)"
| "stored_int (JStr s) = py_int s"
| "stored_int _ = None"

definition get_update_check_config :: "disk \<Rightarrow> json option" where
  "get_update_check_config d = c_update_check (load_config d)"

definition save_update_check_config :: "int \<Rightarrow> disk \<Rightarrow> disk" where
  "save_update_check_config minutes d =
     save_config ((load_config d)\<lparr>c_update_check := Some (JNum minutes)\<rparr>) d"

definition get_update_check_ttl_minutes :: "disk \<Rightarrow> int" where
  "get_update_check_ttl_minutes d =
     (case stored_int (get_or (get_update_check_config d) (JNum 15)) of
        Some v \<Rightarrow> if v \<ge> 0 then v else 15
      | None \<Rightarrow> 15)"

subsection \<open>The check interval\<close>

definition UPDATE_CHECK_INTERVALS :: "int list" where
  "UPDATE_CHECK_INTERVALS = [0, 1, 6, 12, 24]"

definition DEFAULT_UPDATE_CHECK_HOURS :: int where
  "DEFAULT_UPDATE_CHECK_HOURS = 6"

definition LEGACY_SCHEDULE_HOURS :: "(string \<times> int) list" where
  "LEGACY_SCHEDULE_HOURS = [(''0 */6 * * *'', 6), (''0 */12 * * *'', 12), (''0 2 * * *'', 24)]"

definition UPDATE_CHECK_SCHEDULES :: "(string \<times> int) list" where
  "UPDATE_CHECK_SCHEDULES = [(''manual'', 0), (''1h'', 1), (''6h'', 6), (''12h'', 12), (''24h'', 24)]"

fun valid_interval :: "json \<Rightarrow> int option" where
  "valid_interval (JNum n) = (if n \<in> set UPDATE_CHECK_INTERVALS then Some n else None)"
| "valid_interval _ = None"

definition get_update_check_interval_hours :: "disk \<Rightarrow> int \<times> disk" where
  "get_update_check_interval_hours d =
     (let c = load_config d;
          hours = valid_interval (get_or (c_update_checks c) JNull)
      in case c_update_check_schedule c of
           None \<Rightarrow> (get_or hours DEFAULT_UPDATE_CHECK_HOURS, d)
         | Some cron \<Rightarrow>
             let h = (case hours of
                        Some v \<Rightarrow> v
                      | None \<Rightarrow> get_or (dict_get LEGACY_SCHEDULE_HOURS cron) DEFAULT_UPDATE_CHECK_HOURS)
             in (h, save_config (c\<lparr>c_update_check_schedule := None, c_update_checks := Some (JNum h)\<rparr>) d))"

definition save_update_check_interval_hours :: "json \<Rightarrow> disk \<Rightarrow> disk" where
  "save_update_check_interval_hours hours d =
     save_config ((load_config d)
       \<lparr>c_update_checks := Some (JNum (get_or (valid_interval hours) DEFAULT_UPDATE_CHECK_HOURS)),
        c_update_check_schedule := None\<rparr>) d"

definition get_update_check_schedule :: "disk \<Rightarrow> string \<times> disk" where
  "get_update_check_schedule d =
     (let (hours, d') = get_update_check_interval_hours d
      in (case find (\<lambda>(k, v). v = hours) UPDATE_CHECK_SCHEDULES of
            Some (k, _) \<Rightarrow> k
          | None \<Rightarrow> ''manual'', d'))"

definition save_update_check_schedule :: "string \<Rightarrow> disk \<Rightarrow> disk" where
  "save_update_check_schedule key d =
     save_update_check_interval_hours
       (JNum (get_or (dict_get UPDATE_CHECK_SCHEDULES key) DEFAULT_UPDATE_CHECK_HOURS)) d"

subsection \<open>Proxmox servers\<close>

definition get_proxmox_servers :: "disk \<Rightarrow> server list" where
  "get_proxmox_servers d = servers_of (load_config d)"

definition get_proxmox_server :: "string \<Rightarrow> disk \<Rightarrow> server option" where
  "get_proxmox_server server_id d = find (\<lambda>s. srv_id s = server_id) (get_proxmox_servers d)"

definition service_truthy :: "service option \<Rightarrow> bool" where
  "service_truthy s \<longleftrightarrow> s \<noteq> None \<and> s \<noteq> Some empty_service"

definition get_proxmox_config :: "disk \<Rightarrow> service" where
  "get_proxmox_config d =
     (let c = load_config d in
      if service_truthy (c_proxmox c) then the (c_proxmox c)
      else case servers_of c of s # _ \<Rightarrow> srv_block s | [] \<Rightarrow> empty_service)"

definition slugify_server_id :: "string \<Rightarrow> string res" where
  "slugify_server_id url =
     (case url_hostname url of
        Inl e \<Rightarrow> Inl e
      | Inr h \<Rightarrow>
          let s = slugify (hyphen_for ''.:'' (or_s h url))
          in Inr (if s = [] then ''proxmox'' else s))"

definition RESERVED_SERVER_IDS :: "string list" where
  "RESERVED_SERVER_IDS = [''new'']"

definition suffixed :: "string \<Rightarrow> nat \<Rightarrow> string" where
  "suffixed base n = base @ CHR ''-'' # show_nat n"

lemma suffixed_inj: "suffixed base m = suffixed base n \<Longrightarrow> m = n"
  by (simp add: suffixed_def show_nat_inj)

lemma finite_suffixes: "finite {n. suffixed base n \<in> set taken}"
proof -
  have "inj_on (suffixed base) {n. suffixed base n \<in> set taken}"
    by (auto intro: inj_onI dest: suffixed_inj)
  moreover have "suffixed base ` {n. suffixed base n \<in> set taken} \<subseteq> set taken" by auto
  ultimately show ?thesis by (meson List.finite_set inj_on_finite)
qed

text \<open>The loop over suffixes ends because only finitely many suffixed ids are taken.\<close>

function free_suffix :: "string \<Rightarrow> string list \<Rightarrow> nat \<Rightarrow> nat" where
  "free_suffix base taken n =
     (if suffixed base n \<in> set taken then free_suffix base taken (n + 1) else n)"
  by pat_completeness auto
termination
proof (relation "measure (\<lambda>(base, taken, n). card {m. n \<le> m \<and> suffixed base m \<in> set taken})")
  fix base :: string and taken :: "string list" and n :: nat
  assume mem: "suffixed base n \<in> set taken"
  have fin: "finite {m. n \<le> m \<and> suffixed base m \<in> set taken}"
    using finite_suffixes [of base taken] by (rule rev_finite_subset) auto
  have "{m. n + 1 \<le> m \<and> suffixed base m \<in> set taken} \<subset> {m. n \<le> m \<and> suffixed base m \<in> set taken}"
  proof (rule psubsetI)
    have "n \<in> {m. n \<le> m \<and> suffixed base m \<in> set taken}"
      and "n \<notin> {m. n + 1 \<le> m \<and> suffixed base m \<in> set taken}"
      using mem by simp_all
    then show "{m. n + 1 \<le> m \<and> suffixed base m \<in> set taken} \<noteq> {m. n \<le> m \<and> suffixed base m \<in> set taken}"
      by blast
  qed auto
  then show "((base, taken, n + 1), base, taken, n)
      \<in> measure (\<lambda>(base, taken, n). card {m. n \<le> m \<and> suffixed base m \<in> set taken})"
    using psubset_card_mono [OF fin] by simp
qed simp

declare free_suffix.simps [simp del]

definition unique_server_id :: "string \<Rightarrow> string list \<Rightarrow> string" where
  "unique_server_id base taken =
     (if base \<notin> set taken \<and> base \<notin> set RESERVED_SERVER_IDS then base
      else suffixed base (free_suffix base taken 2))"

definition add_proxmox_server ::
  "string \<Rightarrow> bool \<Rightarrow> string \<Rightarrow> string \<Rightarrow> disk \<Rightarrow> string res \<times> disk" where
  "add_proxmox_server url verify pem fp d =
     (let c = load_config d; servers = servers_of c in
      case slugify_server_id url of
        Inl e \<Rightarrow> (Inl e, d)
      | Inr base \<Rightarrow>
          let server_id = unique_server_id base (map srv_id servers);
              entry = \<lparr>srv_id = server_id,
                       srv_block = \<lparr>sv_url = Some (rstrip_char CHR ''/'' url), sv_verify = Some verify,
                         sv_pem = (if pem \<noteq> [] then Some pem else None),
                         sv_fp = (if pem \<noteq> [] then Some fp else None)\<rparr>\<rparr>
          in (Inr server_id, save_config (c\<lparr>c_proxmox_servers := Some (servers @ [entry])\<rparr>) d))"

definition or_old :: "'a option \<Rightarrow> 'a option \<Rightarrow> 'a option" where
  "or_old v old = (case v of None \<Rightarrow> old | Some x \<Rightarrow> Some x)"

definition updated_server ::
  "string option \<Rightarrow> bool option \<Rightarrow> string option \<Rightarrow> string option \<Rightarrow> server \<Rightarrow> server" where
  "updated_server url verify pem fp s =
     s\<lparr>srv_block := \<lparr>sv_url = or_old (map_option (rstrip_char CHR ''/'') url) (sv_url (srv_block s)),
        sv_verify = or_old verify (sv_verify (srv_block s)),
        sv_pem = or_old pem (sv_pem (srv_block s)),
        sv_fp = or_old fp (sv_fp (srv_block s))\<rparr>\<rparr>"

text \<open>An unknown id returns without saving.\<close>

definition update_proxmox_server ::
  "string \<Rightarrow> string option \<Rightarrow> bool option \<Rightarrow> string option \<Rightarrow> string option \<Rightarrow> disk \<Rightarrow> disk" where
  "update_proxmox_server server_id url verify pem fp d =
     (let c = load_config d in
      if server_id \<in> set (map srv_id (servers_of c))
      then save_config (c\<lparr>c_proxmox_servers :=
             Some (update_first (\<lambda>s. srv_id s = server_id) (updated_server url verify pem fp) (servers_of c))\<rparr>) d
      else d)"

definition is_vm_host :: "host \<Rightarrow> bool" where
  "is_vm_host h \<longleftrightarrow> h_proxmox_vmid h \<noteq> None \<and> h_proxmox_type h = Some ''vm''"

definition strip_proxmox :: "host \<Rightarrow> host" where
  "strip_proxmox h =
     h\<lparr>h_proxmox_node := None, h_proxmox_vmid := None, h_proxmox_type := None, h_proxmox_server := None\<rparr>"

definition kept_host :: "string \<Rightarrow> host \<Rightarrow> host option" where
  "kept_host server_id h =
     (if h_proxmox_server h \<noteq> Some server_id then Some h
      else if is_vm_host h then Some (strip_proxmox h) else None)"

definition dropped_slugs :: "string \<Rightarrow> host list \<Rightarrow> string list" where
  "dropped_slugs server_id hs =
     map (\<lambda>h. slugify (h_name h)) (filter (\<lambda>h. kept_host server_id h = None) hs)"

text \<open>The credentials of several slugs, deleted one after the other; an error ends the loop.\<close>

fun delete_all_credentials ::
  "'b crypto \<Rightarrow> string list \<Rightarrow> 'b cred_disk \<Rightarrow> unit res \<times> 'b cred_disk" where
  "delete_all_credentials c [] d = (Inr (), d)"
| "delete_all_credentials c (slug # ss) d =
     (if slug = [] then delete_all_credentials c ss d
      else case delete_credentials c slug d of
             (Inl e, d') \<Rightarrow> (Inl e, d')
           | (Inr _, d') \<Rightarrow> delete_all_credentials c ss d')"

definition delete_proxmox_server ::
  "'b crypto \<Rightarrow> string \<Rightarrow> disk \<times> 'b cred_disk \<Rightarrow> unit res \<times> (disk \<times> 'b cred_disk)" where
  "delete_proxmox_server cr server_id w =
     (let (d, creds) = w; c = load_config d in
      if server_id \<notin> set (map srv_id (servers_of c)) then (Inr (), w)
      else let d' = save_config
                 (c\<lparr>c_proxmox_servers := Some (filter (\<lambda>s. srv_id s \<noteq> server_id) (servers_of c)),
                    c_hosts := Some (List.map_filter (kept_host server_id) (hosts_of c))\<rparr>) d
        in case delete_integration_credentials cr (''proxmox_'' @ server_id) creds of
             (Inl e, creds') \<Rightarrow> (Inl e, (d', creds'))
           | (Inr _, creds') \<Rightarrow>
               let (r, creds2) = delete_all_credentials cr (dropped_slugs server_id (hosts_of c)) creds'
               in (r, (d', creds2)))"

text \<open>The compatibility writer of the singleton block.\<close>

definition save_first_server ::
  "'b crypto \<Rightarrow> string \<Rightarrow> string \<Rightarrow> string \<Rightarrow> bool \<Rightarrow> disk \<times> 'b cred_disk
     \<Rightarrow> unit res \<times> (disk \<times> 'b cred_disk)" where
  "save_first_server cr url pem fp verify w =
     (let (d, creds) = w in
      case servers_of (load_config d) of
        [] \<Rightarrow>
          if url = [] then (Inr (), w)
          else (case add_proxmox_server url verify pem fp d of
                  (Inl e, d') \<Rightarrow> (Inl e, (d', creds))
                | (Inr _, d') \<Rightarrow> (Inr (), (d', creds)))
      | s # _ \<Rightarrow>
          if url = [] then delete_proxmox_server cr (srv_id s) w
          else (Inr (), (update_proxmox_server (srv_id s) (Some url) (Some verify)
                 (if pem \<noteq> [] then Some pem else None) (if fp \<noteq> [] then Some fp else None) d, creds)))"

definition save_proxmox_config ::
  "'b crypto \<Rightarrow> string \<Rightarrow> string \<Rightarrow> string \<Rightarrow> bool \<Rightarrow> disk \<times> 'b cred_disk
     \<Rightarrow> unit res \<times> (disk \<times> 'b cred_disk)" where
  "save_proxmox_config cr url pem fp verify w =
     (let (d, creds) = w; c = load_config d in
      if c_proxmox_servers c \<noteq> None \<and> \<not> service_truthy (c_proxmox c)
      then save_first_server cr url pem fp verify w
      else (Inr (), (save_service c_proxmox put_proxmox url pem fp (Some verify) d, creds)))"

definition migrate_proxmox_servers ::
  "'b crypto \<Rightarrow> disk \<times> 'b cred_disk \<Rightarrow> string res \<times> (disk \<times> 'b cred_disk)" where
  "migrate_proxmox_servers cr w =
     (let (d, creds) = w; c = load_config d in
      if \<not> service_truthy (c_proxmox c) then (Inr [], w)
      else if servers_of c \<noteq> []
      then (Inr [], (save_config (c\<lparr>c_proxmox := None\<rparr>) d, creds))
      else let legacy = the (c_proxmox c); url = get_or (sv_url legacy) [] in
        case slugify_server_id url of
          Inl e \<Rightarrow> (Inl e, w)
        | Inr server_id \<Rightarrow>
            let entry = \<lparr>srv_id = server_id,
                  srv_block = \<lparr>sv_url = Some url, sv_verify = Some (get_or (sv_verify legacy) True),
                    sv_pem = nonempty (sv_pem legacy),
                    sv_fp = (if truthy_s (sv_pem legacy) then Some (get_or (sv_fp legacy) []) else None)\<rparr>\<rparr>;
                hs = map_option (map (\<lambda>h. if truthy_s (h_proxmox_node h)
                                         then h\<lparr>h_proxmox_server := Some server_id\<rparr> else h)) (c_hosts c);
                d' = save_config (c\<lparr>c_proxmox_servers := Some [entry], c_hosts := hs, c_proxmox := None\<rparr>) d
            in case rename_integration_credentials cr ''proxmox'' (''proxmox_'' @ server_id) creds of
                 (Inl e, creds') \<Rightarrow> (Inl e, (d', creds'))
               | (Inr _, creds') \<Rightarrow> (Inr server_id, (d', creds')))"

subsection \<open>Automatic updates\<close>

definition set_host_auto_update :: "string \<Rightarrow> bool \<Rightarrow> string \<Rightarrow> bool \<Rightarrow> disk \<Rightarrow> disk" where
  "set_host_auto_update slug os_enabled os_schedule auto_reboot d =
     change_host slug (\<lambda>h. h\<lparr>h_auto_update :=
       (if os_enabled
        then Some \<lparr>au_os_enabled = True, au_os_schedule = os_schedule, au_auto_reboot = auto_reboot\<rparr>
        else None)\<rparr>) d"

definition set_stack_auto_update :: "string \<Rightarrow> string \<Rightarrow> bool \<Rightarrow> string \<Rightarrow> disk \<Rightarrow> disk" where
  "set_stack_auto_update update_path stack_name enabled schedule d =
     (let c = load_config d;
          sau = get_or (c_stack_auto_update c) [];
          sau' = (if enabled
                  then dict_set update_path \<lparr>sa_enabled = True, sa_schedule = schedule, sa_name = stack_name\<rparr> sau
                  else dict_pop update_path sau)
      in save_config (c\<lparr>c_stack_auto_update := (if sau' = [] then None else Some sau')\<rparr>) d)"

definition get_all_stack_auto_updates :: "disk \<Rightarrow> (string \<times> stack_auto) list" where
  "get_all_stack_auto_updates d = get_or (c_stack_auto_update (load_config d)) []"

text \<open>The files of the keys directory as name and \<open>is_file\<close>; \<open>None\<close> when it does not exist.\<close>

definition get_available_ssh_keys :: "(string \<times> bool) list option \<Rightarrow> string list" where
  "get_available_ssh_keys dir =
     (case dir of
        None \<Rightarrow> []
      | Some fs \<Rightarrow> sort (map fst (filter (\<lambda>(n, is_file). is_file \<and> \<not> starts_with n ''.'') fs)))"

definition reset_config :: "disk \<Rightarrow> disk" where
  "reset_config d =
     save_config ((load_config d)
       \<lparr>c_hosts := None, c_portainer := None, c_dockerhub := None, c_stack_auto_update := None,
        c_proxmox := None, c_proxmox_backup := None, c_opnsense := None, c_pfsense := None,
        c_homeassistant := None\<rparr>) d"

end
