(* ===== verification/ConfigFacts.thy ===== *)
theory ConfigFacts
  imports ConfigManager
begin

section \<open>What the configuration operations keep\<close>

text \<open>
  Slugs, the ids of Proxmox servers, the references between hosts and servers, the migrations,
  the pinned certificates of the service blocks and the check interval.
\<close>

lemma load_save [simp]: "load_config (save_config c d) = c"
  by (simp add: load_config_def save_config_def)

subsection \<open>Slugs\<close>

fun no_double :: "string \<Rightarrow> bool" where
  "no_double (c # d # s) = (\<not> (c = CHR ''-'' \<and> d = CHR ''-'') \<and> no_double (d # s))"
| "no_double s = True"

definition slug_ok :: "string \<Rightarrow> bool" where
  "slug_ok s \<longleftrightarrow> list_all slug_char s \<and> no_double s \<and> (s = [] \<or> hd s \<noteq> CHR ''-'' \<and> last s \<noteq> CHR ''-'')"

lemma no_double_Cons: "no_double (c # s) \<Longrightarrow> no_double s"
  by (cases s) auto

lemma no_double_append: "no_double (a @ b) \<Longrightarrow> no_double a \<and> no_double b"
proof (induction a)
  case (Cons c a)
  then have "no_double a \<and> no_double b" by (metis append_Cons no_double_Cons)
  with Cons.prems show ?case by (cases a) auto
qed simp

lemma hd_squeeze: "s \<noteq> [] \<Longrightarrow> squeeze_hyphens s \<noteq> [] \<and> hd (squeeze_hyphens s) = hd s"
  by (induction s rule: squeeze_hyphens.induct) auto

lemma no_double_squeeze: "no_double (squeeze_hyphens s)"
proof (induction s rule: squeeze_hyphens.induct)
  case (1 c d s)
  have "hd (squeeze_hyphens (d # s)) = d" and "squeeze_hyphens (d # s) \<noteq> []"
    using hd_squeeze [of "d # s"] by auto
  then obtain t where t: "squeeze_hyphens (d # s) = d # t"
    by (cases "squeeze_hyphens (d # s)") auto
  show ?case using 1 t by (cases "c = CHR ''-'' \<and> d = CHR ''-''") auto
qed auto

lemma squeeze_id: "no_double s \<Longrightarrow> squeeze_hyphens s = s"
  by (induction s rule: squeeze_hyphens.induct) auto

lemma set_squeeze: "set (squeeze_hyphens s) \<subseteq> set s"
  by (induction s rule: squeeze_hyphens.induct) auto

lemma strip_char_part: "\<exists>a b. s = a @ strip_char c s @ b"
proof -
  obtain r where "lstrip_char c s = strip_char c s @ r"
    using rstrip_char_prefix [of "lstrip_char c s" c] by (auto simp: strip_char_def)
  moreover have "s = takeWhile (\<lambda>x. x = c) s @ lstrip_char c s" by (simp add: lstrip_char_def)
  ultimately show ?thesis by metis
qed

lemma slugify_ok: "slug_ok (slugify n)"
proof -
  let ?q = "squeeze_hyphens (filter slug_char (hyphen_for '' _'' (py_lower n)))"
  obtain a b where part: "?q = a @ slugify n @ b"
    using strip_char_part unfolding slugify_def by blast
  have "no_double (slugify n)"
    using no_double_squeeze part no_double_append by metis
  moreover have "set (slugify n) \<subseteq> set ?q" using part by auto
  then have "list_all slug_char (slugify n)"
    using set_squeeze by (fastforce simp: list_all_iff)
  moreover have "slugify n = [] \<or> hd (slugify n) \<noteq> CHR ''-'' \<and> last (slugify n) \<noteq> CHR ''-''"
    using hd_strip_char last_strip_char unfolding slugify_def by blast
  ultimately show ?thesis by (simp add: slug_ok_def)
qed

lemma slug_char_lower: "slug_char c \<Longrightarrow> lower_char c = c"
  by (auto simp: slug_char_def lower_char_def is_upper_def is_lower_def is_digit_def)

lemma slug_char_kept: "slug_char c \<Longrightarrow> c \<notin> set '' _''"
  by (auto simp: slug_char_def is_lower_def is_digit_def)

lemma strip_char_id: "s = [] \<or> hd s \<noteq> c \<and> last s \<noteq> c \<Longrightarrow> strip_char c s = s"
proof -
  assume s: "s = [] \<or> hd s \<noteq> c \<and> last s \<noteq> c"
  then have "lstrip_char c s = s" by (cases s) (auto simp: lstrip_char_def)
  moreover have "rstrip_char c s = s"
    using s by (cases s rule: rev_cases) (auto simp: rstrip_char_def)
  ultimately show ?thesis by (simp add: strip_char_def)
qed

lemma slug_id: "slug_ok s \<Longrightarrow> slugify s = s"
proof -
  assume ok: "slug_ok s"
  then have cs: "\<forall>c \<in> set s. slug_char c" by (simp add: slug_ok_def list_all_iff)
  then have "py_lower s = s" by (simp add: py_lower_def slug_char_lower map_idI)
  moreover have "hyphen_for '' _'' s = s"
    unfolding hyphen_for_def by (rule map_idI) (use cs slug_char_kept in auto)
  ultimately show ?thesis
    using ok cs by (simp add: slugify_def squeeze_id strip_char_id slug_ok_def)
qed

text \<open>A slug holds only lower-case letters, digits and single hyphens inside, and slugs are fixed
  points: taking the slug of a slug changes nothing.\<close>
theorem slugify_normal_form: "slug_ok (slugify n) \<and> slugify (slugify n) = slugify n"
  using slugify_ok slug_id by blast

lemma slug_no_underscore: "CHR ''_'' \<notin> set (slugify n)"
proof
  assume "CHR ''_'' \<in> set (slugify n)"
  then have "slug_char CHR ''_''" using slugify_ok by (auto simp: slug_ok_def list_all_iff)
  then show False by (simp add: slug_char_def is_lower_def is_digit_def)
qed

text \<open>No host slug is the key of an integration, so host credentials and integration credentials
  never overwrite each other in the shared store.\<close>
theorem host_and_integration_keys_disjoint: "slugify n \<noteq> integration_key k"
  using integration_key_underscore [OF slug_no_underscore] by metis

subsection \<open>Server ids\<close>

lemma free_suffix_free: "suffixed base (free_suffix base taken n) \<notin> set taken"
  by (induction base taken n rule: free_suffix.induct) (subst free_suffix.simps, simp)

lemma suffixed_not_reserved: "suffixed base n \<notin> set RESERVED_SERVER_IDS"
proof
  assume "suffixed base n \<in> set RESERVED_SERVER_IDS"
  then have "suffixed base n = ''new''" by (simp add: RESERVED_SERVER_IDS_def)
  moreover have "CHR ''-'' \<in> set (suffixed base n)" by (simp add: suffixed_def)
  ultimately have "CHR ''-'' \<in> set ''new''" by simp
  then show False by simp
qed

lemma unique_server_id_new:
  "unique_server_id base taken \<notin> set taken \<and> unique_server_id base taken \<notin> set RESERVED_SERVER_IDS"
  using free_suffix_free suffixed_not_reserved by (simp add: unique_server_id_def)

definition server_ids :: "disk \<Rightarrow> string list" where
  "server_ids d = map srv_id (get_proxmox_servers d)"

text \<open>What one operation makes of the ids: they stay distinct, and a reserved one was there before or is
  among \<open>new\<close>.\<close>

definition ids_kept :: "string set \<Rightarrow> disk \<Rightarrow> disk \<Rightarrow> bool" where
  "ids_kept new d d' \<longleftrightarrow> (distinct (server_ids d) \<longrightarrow> distinct (server_ids d'))
     \<and> set (server_ids d') \<inter> set RESERVED_SERVER_IDS \<subseteq> set (server_ids d) \<union> new"

lemma ids_kept_same: "server_ids d' = server_ids d \<Longrightarrow> ids_kept new d d'"
  by (auto simp: ids_kept_def)

lemma map_update_first: "(\<And>x. g (f x) = g x) \<Longrightarrow> map g (update_first P f xs) = map g xs"
  by (induction xs) auto

lemma updated_server_id [simp]: "srv_id (updated_server u v p f s) = srv_id s"
  by (simp add: updated_server_def)

lemma add_keeps_ids: "ids_kept new d (snd (add_proxmox_server url verify pem fp d))"
proof (cases "slugify_server_id url")
  case (Inr base)
  then show ?thesis
    using unique_server_id_new [of base "map srv_id (get_proxmox_servers d)"]
    by (auto simp: add_proxmox_server_def ids_kept_def server_ids_def get_proxmox_servers_def Let_def)
qed (simp add: add_proxmox_server_def Let_def ids_kept_same)

lemma update_keeps_ids: "ids_kept new d (update_proxmox_server sid url verify pem fp d)"
  by (rule ids_kept_same)
    (simp add: update_proxmox_server_def server_ids_def get_proxmox_servers_def Let_def map_update_first
      del: set_map list.set_map)

lemma delete_keeps_ids: "ids_kept new d (fst (snd (delete_proxmox_server cr sid (d, creds))))"
proof -
  have "distinct (map srv_id (filter P xs))" if "distinct (map srv_id xs)" for P and xs :: "server list"
    using that by (induction xs) auto
  then show ?thesis
    by (auto simp: delete_proxmox_server_def ids_kept_def server_ids_def get_proxmox_servers_def Let_def
        split: prod.splits sum.splits)
qed

lemma save_keeps_ids: "ids_kept new d (fst (snd (save_proxmox_config cr url pem fp verify (d, creds))))"
proof (cases "c_proxmox_servers (load_config d) \<noteq> None \<and> \<not> service_truthy (c_proxmox (load_config d))")
  case True
  then have "save_proxmox_config cr url pem fp verify (d, creds) =
      save_first_server cr url pem fp verify (d, creds)"
    by (simp add: save_proxmox_config_def Let_def)
  then show ?thesis
    using add_keeps_ids [of new d url verify pem fp] update_keeps_ids [of new d]
    by (auto simp: save_first_server_def delete_keeps_ids ids_kept_same Let_def
        split: list.splits sum.splits prod.splits)
next
  case False
  then have "fst (snd (save_proxmox_config cr url pem fp verify (d, creds))) =
      save_service c_proxmox put_proxmox url pem fp (Some verify) d"
    unfolding save_proxmox_config_def Let_def prod.case if_not_P [OF False] by simp
  then show ?thesis
    by (simp add: ids_kept_same server_ids_def get_proxmox_servers_def save_service_def put_proxmox_def Let_def)
qed

text \<open>The id the migration of the singleton block gives its server: the slug of the block's address,
  where the migration runs, which the code does not check against the reserved ids.\<close>

definition migrated_ids :: "disk \<Rightarrow> string set" where
  "migrated_ids d =
     (let c = load_config d in
      if service_truthy (c_proxmox c) \<and> servers_of c = []
      then set_option (case slugify_server_id (get_or (sv_url (the (c_proxmox c))) []) of
             Inr sid \<Rightarrow> Some sid | Inl e \<Rightarrow> None)
      else {})"

lemma migrate_keeps_ids: "ids_kept (migrated_ids d) d (fst (snd (migrate_proxmox_servers cr (d, creds))))"
  by (auto simp: migrate_proxmox_servers_def migrated_ids_def ids_kept_def server_ids_def
      get_proxmox_servers_def Let_def split: sum.splits prod.splits)

text \<open>Every operation of the program that changes the list of servers, run in any order: those of the
  admin pages and of the wizard, the writer of the singleton block, the migration of that block at
  startup, and the factory reset.\<close>

datatype server_op = AddServer string bool string string
  | UpdateServer string "string option" "bool option" "string option" "string option"
  | DeleteServer string
  | SaveProxmox string string string bool
  | MigrateServers
  | ResetConfig

fun run_server_op :: "'b crypto \<Rightarrow> server_op \<Rightarrow> disk \<times> 'b cred_disk \<Rightarrow> disk \<times> 'b cred_disk" where
  "run_server_op cr (AddServer url v pem fp) (d, k) = (snd (add_proxmox_server url v pem fp d), k)"
| "run_server_op cr (UpdateServer sid url v pem fp) (d, k) = (update_proxmox_server sid url v pem fp d, k)"
| "run_server_op cr (DeleteServer sid) (d, k) = snd (delete_proxmox_server cr sid (d, k))"
| "run_server_op cr (SaveProxmox url pem fp v) (d, k) = snd (save_proxmox_config cr url pem fp v (d, k))"
| "run_server_op cr MigrateServers (d, k) = snd (migrate_proxmox_servers cr (d, k))"
| "run_server_op cr ResetConfig (d, k) = (reset_config d, k)"

lemma server_op_keeps_ids:
  "ids_kept (if op = MigrateServers then migrated_ids (fst w) else {}) (fst w) (fst (run_server_op cr op w))"
proof -
  have "ids_kept {} d (reset_config d)" for d
    by (simp add: ids_kept_same server_ids_def reset_config_def get_proxmox_servers_def)
  then show ?thesis
    by (cases "(cr, op, w)" rule: run_server_op.cases)
      (simp_all add: add_keeps_ids update_keeps_ids delete_keeps_ids save_keeps_ids migrate_keeps_ids)
qed

text \<open>C35. Under any sequence of the operations that change the list of Proxmox servers, the migration of the
  singleton block included, the ids of the servers stay distinct.  An id the pages reserve is among
  them only if it was there before the sequence, or if it is the slug of the address of the singleton
  block that a migration in the sequence turned into a server.\<close>
theorem server_ids_invariant:
  assumes "distinct (server_ids (fst w))"
  shows "distinct (server_ids (fst (fold (run_server_op cr) ops w)))
    \<and> (\<forall>sid. sid \<in> set (server_ids (fst (fold (run_server_op cr) ops w))) \<and> sid \<in> set RESERVED_SERVER_IDS
        \<longrightarrow> sid \<in> set (server_ids (fst w))
          \<or> (\<exists>before after. ops = before @ MigrateServers # after
               \<and> sid \<in> migrated_ids (fst (fold (run_server_op cr) before w))))"
proof (induction ops rule: rev_induct)
  case Nil
  then show ?case using assms by simp
next
  case (snoc op ops)
  let ?w = "fold (run_server_op cr) ops w"
  have step: "ids_kept (if op = MigrateServers then migrated_ids (fst ?w) else {}) (fst ?w)
      (fst (fold (run_server_op cr) (ops @ [op]) w))"
    using server_op_keeps_ids [of op ?w cr] by simp
  have "sid \<in> set (server_ids (fst w)) \<or> (\<exists>before after. ops @ [op] = before @ MigrateServers # after
      \<and> sid \<in> migrated_ids (fst (fold (run_server_op cr) before w)))"
    if "sid \<in> set (server_ids (fst (fold (run_server_op cr) (ops @ [op]) w)))" "sid \<in> set RESERVED_SERVER_IDS"
    for sid
  proof (cases "sid \<in> set (server_ids (fst ?w))")
    case True
    with snoc.IH that(2) show ?thesis by (metis append_Cons append_assoc)
  next
    case False
    with step that have "op = MigrateServers \<and> sid \<in> migrated_ids (fst ?w)"
      by (auto simp: ids_kept_def split: if_splits)
    then show ?thesis by blast
  qed
  with step snoc.IH show ?case unfolding ids_kept_def by blast
qed

theorem server_ids_invariant_witness:
  "distinct (server_ids (fst (fold (run_server_op plain_crypto)
     [SaveProxmox ''https://10.0.0.5:8006/'' [] [] True, MigrateServers,
      AddServer ''https://10.0.0.5:8006/'' True [] [], AddServer ''https://10.0.0.5:8007/'' True [] []]
     (None, fresh_disk))))"
proof -
  have "distinct (server_ids (fst (None, fresh_disk)))"
    by (simp add: server_ids_def get_proxmox_servers_def load_config_def empty_config_def)
  then show ?thesis by (rule server_ids_invariant [THEN conjunct1])
qed

subsection \<open>Deleting a server\<close>

lemma kept_host_spec:
  assumes "kept_host sid h = Some h'"
  shows "h_proxmox_server h' \<noteq> Some sid" and "h_name h' = h_name h"
  using assms by (auto simp: kept_host_def strip_proxmox_def split: if_splits)

text \<open>Deleting a server removes it and leaves no host that refers to it: its VMs stay as plain hosts
  under their names, its other hosts go, and hosts of other servers stay as they were.\<close>
theorem delete_server_references:
  assumes "sid \<in> set (map srv_id (get_proxmox_servers d))"
  shows "let d' = fst (snd (delete_proxmox_server cr sid (d, creds))) in
    sid \<notin> set (map srv_id (get_proxmox_servers d'))
    \<and> (\<forall>h. h \<in> set (hosts_of (load_config d')) \<longrightarrow> h_proxmox_server h \<noteq> Some sid)
    \<and> (\<forall>h. h_proxmox_server h \<noteq> Some sid \<and> h \<in> set (hosts_of (load_config d))
          \<longrightarrow> h \<in> set (hosts_of (load_config d')))
    \<and> (\<forall>h. h_proxmox_server h = Some sid \<and> is_vm_host h \<and> h \<in> set (hosts_of (load_config d))
          \<longrightarrow> strip_proxmox h \<in> set (hosts_of (load_config d')))"
proof -
  let ?c = "load_config d"
  let ?d' = "fst (snd (delete_proxmox_server cr sid (d, creds)))"
  have mem: "sid \<in> set (map srv_id (servers_of ?c))" using assms by (simp add: get_proxmox_servers_def)
  then have hosts: "hosts_of (load_config ?d') = List.map_filter (kept_host sid) (hosts_of ?c)"
    and servers: "get_proxmox_servers ?d' = filter (\<lambda>s. srv_id s \<noteq> sid) (servers_of ?c)"
    unfolding delete_proxmox_server_def
    by (auto simp: Let_def get_proxmox_servers_def simp del: set_map split: prod.splits sum.splits)
  have "h_proxmox_server h \<noteq> Some sid" if "h \<in> set (hosts_of (load_config ?d'))" for h
    using that kept_host_spec(1) by (auto simp: hosts set_map_filter)
  moreover have "h \<in> set (hosts_of (load_config ?d'))"
    if "h_proxmox_server h \<noteq> Some sid" "h \<in> set (hosts_of ?c)" for h
    using that by (auto simp: hosts set_map_filter kept_host_def)
  moreover have "strip_proxmox h \<in> set (hosts_of (load_config ?d'))"
    if "h_proxmox_server h = Some sid" "is_vm_host h" "h \<in> set (hosts_of ?c)" for h
    using that by (auto simp: hosts set_map_filter kept_host_def)
  ultimately show ?thesis using servers by (auto simp: Let_def)
qed

definition demo_server :: server where
  "demo_server = \<lparr>srv_id = ''pve'', srv_block = empty_service\<rparr>"

theorem delete_server_references_witness:
  "''pve'' \<notin> set (map srv_id (get_proxmox_servers (fst (snd (delete_proxmox_server plain_crypto ''pve''
     (Some (empty_config\<lparr>c_proxmox_servers := Some [demo_server]\<rparr>), fresh_disk))))))"
proof -
  have "''pve'' \<in> set (map srv_id (get_proxmox_servers
      (Some (empty_config\<lparr>c_proxmox_servers := Some [demo_server]\<rparr>))))"
    by (simp add: get_proxmox_servers_def load_config_def demo_server_def)
  from delete_server_references [OF this, of plain_crypto fresh_disk] show ?thesis
    by (simp add: Let_def)
qed

subsection \<open>Migrations\<close>

lemma empty_not_truthy [simp]: "\<not> service_truthy None"
  by (simp add: service_truthy_def)

text \<open>The migration off the singleton Proxmox block runs once: after it has succeeded the block is
  gone, and running it again migrates nothing and changes nothing.\<close>
theorem migrate_proxmox_idempotent:
  assumes "migrate_proxmox_servers cr w = (Inr sid, w')"
  shows "\<not> service_truthy (c_proxmox (load_config (fst w')))
    \<and> migrate_proxmox_servers cr w' = (Inr [], w')"
proof -
  obtain d k where w: "w = (d, k)" by (cases w)
  have gone: "\<not> service_truthy (c_proxmox (load_config (fst w')))"
    using assms unfolding w
    by (auto simp: migrate_proxmox_servers_def Let_def split: if_splits sum.splits prod.splits)
  then show ?thesis by (cases w') (simp add: migrate_proxmox_servers_def)
qed

definition legacy_disk :: disk where
  "legacy_disk = Some (empty_config\<lparr>c_proxmox := Some (empty_service\<lparr>sv_url := Some ''https://pve.lan:8006''\<rparr>)\<rparr>)"

lemma legacy_server_id: "slugify_server_id ''https://pve.lan:8006'' = Inr ''pve-lan''"
  by code_simp

theorem migrate_proxmox_idempotent_witness:
  "\<exists>w'. migrate_proxmox_servers plain_crypto (legacy_disk, fresh_disk) = (Inr ''pve-lan'', w')
     \<and> migrate_proxmox_servers plain_crypto w' = (Inr [], w')"
proof -
  have "rename_integration_credentials plain_crypto ''proxmox'' ''proxmox_pve-lan'' fresh_disk = (Inr (), fresh_disk)"
    by (simp add: rename_integration_credentials_def rename_key_def load_store_def fresh_disk_def)
  then obtain w' where w': "migrate_proxmox_servers plain_crypto (legacy_disk, fresh_disk) = (Inr ''pve-lan'', w')"
    by (simp add: migrate_proxmox_servers_def legacy_disk_def load_config_def empty_config_def
        service_truthy_def empty_service_def legacy_server_id Let_def)
  from migrate_proxmox_idempotent [OF this] w' show ?thesis by blast
qed

text \<open>The server the migration makes is not checked against the reserved ids.\<close>

lemma migrate_takes_reserved_id: "slugify_server_id ''https://new:8006'' = Inr ''new''"
  by code_simp

text \<open>The migration of the global SSH block copies the default port to hosts without one, but when
  there is no such host the block stays in the file: the disk is unchanged.\<close>
theorem migrate_ssh_block_stays:
  assumes "c_ssh (load_config d) = Some b" and "list_all (\<lambda>h. truthy_i (h_port h)) (hosts_of (load_config d))"
  shows "snd (migrate_ssh_config d) = d"
  using assms by (auto simp: migrate_ssh_config_def Let_def list_ex_iff list_all_iff)

theorem migrate_ssh_block_stays_witness:
  "snd (migrate_ssh_config (Some (empty_config\<lparr>c_ssh := Some \<lparr>sb_default_port = Some 2222, sb_other = []\<rparr>\<rparr>))) =
     Some (empty_config\<lparr>c_ssh := Some \<lparr>sb_default_port = Some 2222, sb_other = []\<rparr>\<rparr>)"
  by (rule migrate_ssh_block_stays [where b = "\<lparr>sb_default_port = Some 2222, sb_other = []\<rparr>"])
    (simp_all add: load_config_def empty_config_def)

text \<open>Where the migration does save, the block is gone and every host has a port.\<close>

lemma migrate_ssh_saved:
  assumes "snd (migrate_ssh_config d) \<noteq> d"
  shows "c_ssh (load_config (snd (migrate_ssh_config d))) = None
    \<and> list_all (\<lambda>h. truthy_i (h_port h)) (hosts_of (load_config (snd (migrate_ssh_config d))))"
proof -
  let ?c = "load_config d"
  let ?p = "sb_default_port (the (c_ssh ?c))"
  have p: "truthy_i ?p" and saved: "snd (migrate_ssh_config d) = save_config (?c\<lparr>c_hosts :=
      map_option (map (\<lambda>h. if truthy_i ?p \<and> \<not> truthy_i (h_port h) then h\<lparr>h_port := ?p\<rparr> else h)) (c_hosts ?c),
      c_ssh := None\<rparr>) d"
    using assms by (auto simp: migrate_ssh_config_def Let_def list_ex_iff split: if_splits)
  then show ?thesis by (cases "c_hosts ?c") (auto simp: list_all_iff)
qed

subsection \<open>Losing settings\<close>

text \<open>Editing a host keeps its monitoring mode and drops its list of selected containers, so a host in
  mode \<open>selected\<close> has no selected container left.\<close>
theorem update_host_drops_containers:
  "h_docker_mode (updated_host name hst user port h) = h_docker_mode h
   \<and> h_docker_containers (updated_host name hst user port h) = None
   \<and> h_auto_update (updated_host name hst user port h) = None
   \<and> h_key (updated_host name hst user port h) = None"
  by (simp add: updated_host_def build_host_entry_def nonempty_def)

text \<open>A factory reset removes the hosts and the legacy Proxmox block and keeps every Proxmox server.\<close>
theorem reset_config_keeps_servers:
  "get_proxmox_servers (reset_config d) = get_proxmox_servers d \<and> get_hosts (reset_config d) = []"
  by (simp add: reset_config_def get_proxmox_servers_def get_hosts_def)

subsection \<open>Service blocks\<close>

text \<open>What the pages rely on for each block of the file that holds a pinned certificate.\<close>

locale service_setting =
  fixes get :: "config \<Rightarrow> service option"
    and put :: "service option \<Rightarrow> config \<Rightarrow> config"
  assumes get_put: "get (put s c) = s"
begin

lemma saved: "url \<noteq> [] \<Longrightarrow>
  get (load_config (save_service get put url pem fp verify d)) =
    Some (service_entry (get (load_config d)) url pem fp verify)"
  by (simp add: save_service_def Let_def get_put)

lemma removed: "get (load_config (save_service get put [] pem fp verify d)) = None"
  by (simp add: save_service_def Let_def get_put)

text \<open>A save without a certificate keeps the pinned one.\<close>

lemma pin_kept:
  assumes "url \<noteq> []" and "pem \<noteq> []" and "sv_pem (get_or (get (load_config d)) empty_service) = Some pem"
  shows "sv_pem (get_or (get (load_config (save_service get put url [] [] verify d))) empty_service) = Some pem"
  using assms by (simp add: saved service_entry_def)

text \<open>The certificate after a save is the given one, the one before, or none.\<close>

lemma pin_source:
  fixes url pem fp verify d
  defines "pin \<equiv> (\<lambda>d. get_or (sv_pem (get_or (get (load_config d)) empty_service)) [])"
  shows "pin (save_service get put url pem fp verify d) \<in> {[], pem, pin d}"
proof (cases "url = []")
  case True
  then show ?thesis by (simp add: pin_def removed empty_service_def)
next
  case False
  then show ?thesis
    by (cases "get (load_config d)") (auto simp: pin_def saved service_entry_def empty_service_def Let_def)
qed

end

interpretation portainer_setting: service_setting c_portainer put_portainer
  by unfold_locales (simp add: put_portainer_def)

interpretation proxmox_setting: service_setting c_proxmox put_proxmox
  by unfold_locales (simp add: put_proxmox_def)

interpretation pbs_setting: service_setting c_proxmox_backup put_pbs
  by unfold_locales (simp add: put_pbs_def)

interpretation opnsense_setting: service_setting c_opnsense put_opnsense
  by unfold_locales (simp add: put_opnsense_def)

interpretation pfsense_setting: service_setting c_pfsense put_pfsense
  by unfold_locales (simp add: put_pfsense_def)

text \<open>Saving the URL of an integration without a certificate keeps the certificate pinned before, for
  Portainer, Proxmox Backup Server, OPNsense and pfSense alike.\<close>
theorem pinned_certificate_kept:
  assumes "url \<noteq> []" and "pem \<noteq> []"
    and "sv_pem (get_portainer_config d) = Some pem" and "sv_pem (get_pbs_config d) = Some pem"
    and "sv_pem (get_opnsense_config d) = Some pem" and "sv_pem (get_pfsense_config d) = Some pem"
  shows "sv_pem (get_portainer_config (save_portainer_config url [] [] d)) = Some pem
    \<and> sv_pem (get_pbs_config (save_pbs_config url [] [] v d)) = Some pem
    \<and> sv_pem (get_opnsense_config (save_opnsense_config url [] [] v d)) = Some pem
    \<and> sv_pem (get_pfsense_config (save_pfsense_config url [] [] v d)) = Some pem"
  using assms
  unfolding get_portainer_config_def save_portainer_config_def get_pbs_config_def save_pbs_config_def
    get_opnsense_config_def save_opnsense_config_def get_pfsense_config_def save_pfsense_config_def
  by (intro conjI portainer_setting.pin_kept pbs_setting.pin_kept opnsense_setting.pin_kept
    pfsense_setting.pin_kept)

theorem pinned_certificate_kept_witness:
  "\<exists>d. sv_pem (get_portainer_config (save_portainer_config ''https://p'' [] [] d)) = Some ''PEM''"
proof -
  let ?s = "Some \<lparr>sv_url = Some ''https://old'', sv_verify = None, sv_pem = Some ''PEM'', sv_fp = Some ''fp''\<rparr>"
  let ?d = "Some (empty_config\<lparr>c_portainer := ?s, c_proxmox_backup := ?s, c_opnsense := ?s, c_pfsense := ?s\<rparr>)"
  have "sv_pem (get_portainer_config (save_portainer_config ''https://p'' [] [] ?d)) = Some ''PEM''"
    using pinned_certificate_kept [of "''https://p''" "''PEM''" ?d]
    by (simp add: get_portainer_config_def get_pbs_config_def get_opnsense_config_def
        get_pfsense_config_def load_config_def)
  then show ?thesis by blast
qed

subsection \<open>The check interval\<close>

lemma valid_interval_range: "valid_interval j = Some n \<Longrightarrow> n \<in> set UPDATE_CHECK_INTERVALS"
  by (cases j) (auto split: if_splits)

lemma legacy_hours_range:
  "get_or (dict_get LEGACY_SCHEDULE_HOURS cron) DEFAULT_UPDATE_CHECK_HOURS \<in> set UPDATE_CHECK_INTERVALS"
  by (auto simp: LEGACY_SCHEDULE_HOURS_def DEFAULT_UPDATE_CHECK_HOURS_def UPDATE_CHECK_INTERVALS_def)

text \<open>Whatever the file holds, the check interval read from it is one of the offered ones; reading it
  migrates the old cron setting away, and a second read gives the same hours without writing.\<close>
theorem check_interval_offered:
  "let (hours, d') = get_update_check_interval_hours d in
     hours \<in> set UPDATE_CHECK_INTERVALS \<and> get_update_check_interval_hours d' = (hours, d')"
proof -
  have default: "DEFAULT_UPDATE_CHECK_HOURS \<in> set UPDATE_CHECK_INTERVALS"
    by (simp add: DEFAULT_UPDATE_CHECK_HOURS_def UPDATE_CHECK_INTERVALS_def)
  show ?thesis
  proof (cases "c_update_check_schedule (load_config d)")
    case None
    then show ?thesis
      using default valid_interval_range
      by (auto simp: get_update_check_interval_hours_def Let_def get_or_def split: option.splits)
  next
    case (Some cron)
    have "valid_interval (JNum h) = Some h" if "h \<in> set UPDATE_CHECK_INTERVALS" for h
      using that by simp
    then show ?thesis
      using Some valid_interval_range legacy_hours_range [of cron]
      by (auto simp: get_update_check_interval_hours_def Let_def simp del: valid_interval.simps
          split: option.splits)
  qed
qed

text \<open>The setup wizard's schedule keys round-trip through the stored hours, and an unknown key
  falls back to six hours instead of switching checks off.\<close>
theorem schedule_key_roundtrip:
  "fst (get_update_check_schedule (save_update_check_schedule key d)) =
     (if key \<in> set (map fst UPDATE_CHECK_SCHEDULES) then key else ''6h'')"
  by (simp add: get_update_check_schedule_def save_update_check_schedule_def
      save_update_check_interval_hours_def get_update_check_interval_hours_def Let_def
      UPDATE_CHECK_SCHEDULES_def UPDATE_CHECK_INTERVALS_def DEFAULT_UPDATE_CHECK_HOURS_def)

lemma ttl_not_negative: "get_update_check_ttl_minutes d \<ge> 0"
  by (simp add: get_update_check_ttl_minutes_def split: option.splits)

subsection \<open>Hosts by slug\<close>

lemma hosts_have_slugs: "(s, h) \<in> set (get_hosts d) \<Longrightarrow> s = slugify (h_name h)"
  by (auto simp: get_hosts_def)

lemma delete_host_gone: "(slug, h) \<notin> set (get_hosts (delete_host slug d))"
  by (auto simp: get_hosts_def delete_host_def has_slug_def Let_def)

lemma add_host_listed:
  assumes "\<not> contains hst ''XXX''"
  shows "let (slug, d') = add_host n hst u p k m node vmid t s d in
    (slug, build_host_entry n hst u p k m node vmid t s) \<in> set (get_hosts d')"
proof -
  let ?e = "build_host_entry n hst u p k m node vmid t s"
  have "h_name ?e = n" and "h_host ?e = Some hst" by (simp_all add: build_host_entry_def)
  then show ?thesis using assms by (force simp: add_host_def get_hosts_def Let_def)
qed

end
