(* ===== verification/RegistryClient.thy ===== *)
theory RegistryClient
  imports PyText
begin

section \<open>Registry checks (app/registry_client.py)\<close>

text \<open>
  Image references, local digests and the comparison of a local digest with the registry's.
  The HTTP client (httpx) is the parameter \<open>http\<close>, a function from requests to outcomes: within
  one check no request is sent twice, so a function is as general as a server with state.
  Logging is not modelled.
\<close>

subsection \<open>Reasons\<close>

definition REASON_UNRESOLVABLE_IMAGE :: string where "REASON_UNRESOLVABLE_IMAGE = ''unresolvable_image''"
definition REASON_NO_LOCAL_DIGEST :: string where "REASON_NO_LOCAL_DIGEST = ''no_local_digest''"
definition REASON_RATE_LIMITED :: string where "REASON_RATE_LIMITED = ''rate_limited''"
definition REASON_AUTH_FAILED :: string where "REASON_AUTH_FAILED = ''auth_failed''"
definition REASON_NOT_FOUND :: string where "REASON_NOT_FOUND = ''not_found''"
definition REASON_UNSUPPORTED_REGISTRY :: string where "REASON_UNSUPPORTED_REGISTRY = ''unsupported_registry''"
definition REASON_REGISTRY_ERROR :: string where "REASON_REGISTRY_ERROR = ''registry_error''"
definition REASON_UNREACHABLE :: string where "REASON_UNREACHABLE = ''unreachable''"
definition REASON_NO_CONTAINERS :: string where "REASON_NO_CONTAINERS = ''no_containers''"
definition REASON_ENDPOINT_UNREACHABLE :: string where "REASON_ENDPOINT_UNREACHABLE = ''endpoint_unreachable''"

lemmas reason_defs = REASON_UNRESOLVABLE_IMAGE_def REASON_NO_LOCAL_DIGEST_def
  REASON_RATE_LIMITED_def REASON_AUTH_FAILED_def REASON_NOT_FOUND_def
  REASON_UNSUPPORTED_REGISTRY_def REASON_REGISTRY_ERROR_def REASON_UNREACHABLE_def
  REASON_NO_CONTAINERS_def REASON_ENDPOINT_UNREACHABLE_def

definition REASON_LABELS :: "(string \<times> string) list" where
  "REASON_LABELS =
    [(REASON_UNRESOLVABLE_IMAGE, ''Image not resolvable''),
     (REASON_NO_LOCAL_DIGEST, ''Nothing to compare''),
     (REASON_RATE_LIMITED, ''Rate limited''),
     (REASON_AUTH_FAILED, ''Auth failed''),
     (REASON_NOT_FOUND, ''Tag not found''),
     (REASON_UNSUPPORTED_REGISTRY, ''Unsupported registry''),
     (REASON_REGISTRY_ERROR, ''Registry error''),
     (REASON_UNREACHABLE, ''Registry unreachable''),
     (REASON_NO_CONTAINERS, ''No containers running''),
     (REASON_ENDPOINT_UNREACHABLE, ''Docker host unreachable'')]"

definition reason_label :: "string option \<Rightarrow> string" where
  "reason_label reason = get_or (dict_get REASON_LABELS (or_s reason [])) ''Unknown''"

record digest_result =
  dr_digest :: "string option"
  dr_reason :: "string option"

record image_check =
  ic_status :: string
  ic_reason :: "string option"

subsection \<open>Image references\<close>

definition parse_image_ref :: "string \<Rightarrow> string \<times> string \<times> string" where
  "parse_image_ref image0 =
     (let last_segment = (case rsplit_once CHR ''/'' image0 of Some (_, b) \<Rightarrow> b | None \<Rightarrow> image0);
          (img, tag) =
            (if CHR '':'' \<in> set last_segment
             then (case rsplit_once CHR '':'' image0 of Some p \<Rightarrow> p | None \<Rightarrow> (image0, []))
             else (image0, ''latest''));
          parts = split_char CHR ''/'' img;
          first = hd parts
      in if CHR ''.'' \<in> set first \<or> CHR '':'' \<in> set first \<or> first = ''localhost''
         then (first, py_join ''/'' (tl parts), tag)
         else (''registry-1.docker.io'',
               if length parts = 1 then ''library/'' @ hd parts else py_join ''/'' parts,
               tag))"

definition extract_local_digest :: "string list \<Rightarrow> string \<Rightarrow> string option" where
  "extract_local_digest repo_digests image_name =
     (case find (\<lambda>e. contains e ''@sha256:'') repo_digests of
        Some e \<Rightarrow> Some (''sha256:'' @ last (py_split ''@sha256:'' e))
      | None \<Rightarrow> None)"

definition is_bare_image_id :: "string \<Rightarrow> bool" where
  "is_bare_image_id img \<longleftrightarrow>
     starts_with img ''sha256:''
     \<or> (12 \<le> length img \<and> length img \<le> 64 \<and> list_all is_hex img)"

definition digest_repo :: "string \<Rightarrow> string option" where
  "digest_repo e =
     (if contains e ''@sha256:''
      then let repo = hd (py_split ''@sha256:'' e)
           in if repo \<noteq> [] \<and> \<not> contains repo ''<none>'' then Some (repo @ '':latest'') else None
      else None)"

definition resolve_image_ref :: "string \<Rightarrow> string list option \<Rightarrow> string list option \<Rightarrow> string option" where
  "resolve_image_ref img repo_tags repo_digests =
     (if \<not> is_bare_image_id img then Some img
      else case find (\<lambda>e. e \<noteq> [] \<and> \<not> contains e ''<none>'') (get_or repo_tags []) of
             Some e \<Rightarrow> Some e
           | None \<Rightarrow>
               (case List.map_filter digest_repo (get_or repo_digests []) of
                  r # _ \<Rightarrow> Some r
                | [] \<Rightarrow> None))"

subsection \<open>The HTTP client\<close>

text \<open>A request: method, URL, query parameters, the \<open>auth\<close> pair, the \<open>Accept\<close> header and the token
  of \<open>Authorization: Bearer\<close>.  A response: status, whether \<open>raise_for_status\<close> accepts it, the
  two headers the code reads and the JSON body (\<open>None\<close>: not JSON).  \<open>NetFail\<close> is an
  \<open>httpx.HTTPError\<close> or \<open>OSError\<close>, \<open>OtherFail\<close> any other exception.\<close>

datatype http_method = GET | HEAD

record request =
  rq_method :: http_method
  rq_url :: string
  rq_params :: "(string \<times> string) list"
  rq_auth :: "(string \<times> string) option"
  rq_accept :: "string option"
  rq_bearer :: "json option"

record response =
  rs_status :: nat
  rs_success :: bool
  rs_www_auth :: "string option"
  rs_digest :: "string option"
  rs_json :: "json option"

datatype http_out = Resp response | NetFail | OtherFail

type_synonym http_client = "request \<Rightarrow> http_out"

definition MANIFEST_ACCEPT :: string where
  "MANIFEST_ACCEPT =
     ''application/vnd.docker.distribution.manifest.list.v2+json,''
     @ ''application/vnd.docker.distribution.manifest.v2+json,''
     @ ''application/vnd.oci.image.index.v1+json,''
     @ ''application/vnd.oci.image.manifest.v1+json''"

definition hub_request :: "string \<Rightarrow> (string \<times> string) option \<Rightarrow> request" where
  "hub_request repo auth =
     \<lparr>rq_method = GET, rq_url = ''https://auth.docker.io/token'',
      rq_params = [(''service'', ''registry.docker.io''), (''scope'', ''repository:'' @ repo @ '':pull'')],
      rq_auth = auth, rq_accept = None, rq_bearer = None\<rparr>"

text \<open>How a token fetch ends: the token, an HTTP error status, a network failure, another exception.\<close>

datatype token_out = Token json | TokenStatus nat | TokenNet | TokenOther

text \<open>\<open>creds["username"], creds["token"]\<close>: \<open>None\<close> when a key is missing (a \<open>KeyError\<close>).\<close>

definition creds_pair :: "(string \<times> string) list option \<Rightarrow> (string \<times> string) option option" where
  "creds_pair creds =
     (case creds of
        None \<Rightarrow> Some None
      | Some d \<Rightarrow>
          if d = [] then Some None
          else (case (dict_get d ''username'', dict_get d ''token'') of
                  (Some u, Some t) \<Rightarrow> Some (Some (u, t))
                | _ \<Rightarrow> None))"

definition get_dockerhub_token ::
  "http_client \<Rightarrow> string \<Rightarrow> (string \<times> string) list option \<Rightarrow> token_out" where
  "get_dockerhub_token http repo creds =
     (case creds_pair creds of
        None \<Rightarrow> TokenOther
      | Some auth \<Rightarrow>
          (case http (hub_request repo auth) of
             NetFail \<Rightarrow> TokenNet
           | OtherFail \<Rightarrow> TokenOther
           | Resp r \<Rightarrow>
               if \<not> rs_success r then TokenStatus (rs_status r)
               else case rs_json r of
                      None \<Rightarrow> TokenOther
                    | Some j \<Rightarrow> (case json_item j ''token'' of Some t \<Rightarrow> Token t | None \<Rightarrow> TokenOther)))"

text \<open>\<open>re.search(key + '"([^"]+)"', s)\<close>: the quoted text after the first place where a closed,
  non-empty one follows \<open>key="\<close>.\<close>

fun search_quoted :: "string \<Rightarrow> string \<Rightarrow> string option" where
  "search_quoted key [] = None"
| "search_quoted key (c # s) =
     (let body = drop (length key) (c # s);
          v = takeWhile (\<lambda>x. x \<noteq> DQUOTE) body
      in if prefix key (c # s) \<and> v \<noteq> [] \<and> DQUOTE \<in> set body then Some v
         else search_quoted key s)"

definition challenge_request :: "string \<Rightarrow> string option \<Rightarrow> string option \<Rightarrow> request" where
  "challenge_request realm service scope =
     \<lparr>rq_method = GET, rq_url = realm,
      rq_params = (case service of Some v \<Rightarrow> [(''service'', v)] | None \<Rightarrow> [])
        @ (case scope of Some v \<Rightarrow> [(''scope'', v)] | None \<Rightarrow> []),
      rq_auth = None, rq_accept = None, rq_bearer = None\<rparr>"

definition json_or :: "json option \<Rightarrow> json option \<Rightarrow> json option" where
  "json_or a b = (case a of Some x \<Rightarrow> if json_truthy x then a else b | None \<Rightarrow> b)"

text \<open>Any exception of the fetch is swallowed; a falsy token is as good as none for the caller.\<close>

definition get_bearer_token_from_challenge :: "http_client \<Rightarrow> string \<Rightarrow> json option" where
  "get_bearer_token_from_challenge http www_authenticate =
     (case search_quoted (''realm='' @ [DQUOTE]) www_authenticate of
        None \<Rightarrow> None
      | Some realm \<Rightarrow>
          (case http (challenge_request realm (search_quoted (''service='' @ [DQUOTE]) www_authenticate)
                        (search_quoted (''scope='' @ [DQUOTE]) www_authenticate)) of
             Resp r \<Rightarrow>
               if rs_status r = 200
               then (case rs_json r of
                       Some (JObj d) \<Rightarrow>
                         json_or (dict_get d ''token'') (dict_get d ''access_token'')
                     | _ \<Rightarrow> None)
               else None
           | _ \<Rightarrow> None))"

definition reason_for_status :: "nat \<Rightarrow> string" where
  "reason_for_status status =
     (if status = 429 then REASON_RATE_LIMITED
      else if status = 401 \<or> status = 403 then REASON_AUTH_FAILED
      else if status = 404 then REASON_NOT_FOUND
      else REASON_REGISTRY_ERROR)"

definition failed :: "string \<Rightarrow> digest_result" where
  "failed reason = \<lparr>dr_digest = None, dr_reason = Some reason\<rparr>"

definition head_request :: "string \<Rightarrow> json option \<Rightarrow> request" where
  "head_request url bearer =
     \<lparr>rq_method = HEAD, rq_url = url, rq_params = [], rq_auth = None,
      rq_accept = Some MANIFEST_ACCEPT, rq_bearer = bearer\<rparr>"

definition digest_of_response :: "response \<Rightarrow> digest_result" where
  "digest_of_response r =
     (if rs_status r = 200
      then (if truthy_s (rs_digest r) then \<lparr>dr_digest = rs_digest r, dr_reason = None\<rparr>
            else failed REASON_REGISTRY_ERROR)
      else failed (reason_for_status (rs_status r)))"

text \<open>The \<open>HEAD\<close> request, repeated once with a token when the registry challenges.\<close>

definition head_manifest :: "http_client \<Rightarrow> string \<Rightarrow> json option \<Rightarrow> digest_result" where
  "head_manifest http url bearer =
     (case http (head_request url bearer) of
        NetFail \<Rightarrow> failed REASON_UNREACHABLE
      | OtherFail \<Rightarrow> failed REASON_REGISTRY_ERROR
      | Resp r \<Rightarrow>
          if rs_status r = 401
          then (case get_bearer_token_from_challenge http (get_or (rs_www_auth r) []) of
                  None \<Rightarrow> failed REASON_AUTH_FAILED
                | Some token \<Rightarrow>
                    if \<not> json_truthy token then failed REASON_AUTH_FAILED
                    else (case http (head_request url (Some token)) of
                            NetFail \<Rightarrow> failed REASON_UNREACHABLE
                          | OtherFail \<Rightarrow> failed REASON_REGISTRY_ERROR
                          | Resp r2 \<Rightarrow> digest_of_response r2))
          else digest_of_response r)"

definition manifest_url :: "string \<Rightarrow> string \<Rightarrow> string \<Rightarrow> string" where
  "manifest_url registry repo tag =
     ''https://'' @ registry @ ''/v2/'' @ repo @ ''/manifests/'' @ tag"

definition get_remote_digest ::
  "http_client \<Rightarrow> string \<Rightarrow> (string \<times> string) list option \<Rightarrow> digest_result" where
  "get_remote_digest http img creds =
     (let (registry, repo, tag) = parse_image_ref img in
      if registry = ''registry-1.docker.io''
      then (case get_dockerhub_token http repo creds of
              TokenStatus st \<Rightarrow> failed (reason_for_status st)
            | TokenNet \<Rightarrow> failed REASON_UNREACHABLE
            | TokenOther \<Rightarrow> failed REASON_REGISTRY_ERROR
            | Token t \<Rightarrow> head_manifest http (manifest_url registry repo tag) (Some t))
      else if CHR ''.'' \<in> set registry
      then head_manifest http (manifest_url registry repo tag) None
      else failed REASON_UNSUPPORTED_REGISTRY)"

definition check_image_update ::
  "http_client \<Rightarrow> string option \<Rightarrow> string option \<Rightarrow> (string \<times> string) list option \<Rightarrow> image_check" where
  "check_image_update http img local_digest creds =
     (if \<not> truthy_s img
      then \<lparr>ic_status = ''unknown'', ic_reason = Some REASON_UNRESOLVABLE_IMAGE\<rparr>
      else if \<not> truthy_s local_digest
      then \<lparr>ic_status = ''unknown'', ic_reason = Some REASON_NO_LOCAL_DIGEST\<rparr>
      else let remote = get_remote_digest http (the img) creds in
        case dr_digest remote of
          None \<Rightarrow> \<lparr>ic_status = ''unknown'', ic_reason = Some (or_s (dr_reason remote) REASON_REGISTRY_ERROR)\<rparr>
        | Some d \<Rightarrow> \<lparr>ic_status = (if d \<noteq> the local_digest then ''update_available'' else ''up_to_date''),
                     ic_reason = None\<rparr>)"

subsection \<open>What the references parse to\<close>

text \<open>A reference printed from its parts: an optional registry host, the path components and an
  optional tag.\<close>

definition host_like :: "string \<Rightarrow> bool" where
  "host_like h \<longleftrightarrow> CHR ''.'' \<in> set h \<or> CHR '':'' \<in> set h \<or> h = ''localhost''"

definition ref_parts :: "string option \<Rightarrow> string list \<Rightarrow> string list" where
  "ref_parts host path = (case host of None \<Rightarrow> path | Some h \<Rightarrow> h # path)"

definition tag_text :: "string option \<Rightarrow> string" where
  "tag_text tag = (case tag of None \<Rightarrow> [] | Some t \<Rightarrow> CHR '':'' # t)"

definition image_text :: "string option \<Rightarrow> string list \<Rightarrow> string option \<Rightarrow> string" where
  "image_text host path tag = py_join ''/'' (ref_parts host path) @ tag_text tag"

definition ref_ok :: "string option \<Rightarrow> string list \<Rightarrow> string option \<Rightarrow> bool" where
  "ref_ok host path tag \<longleftrightarrow>
     path \<noteq> [] \<and> list_all (\<lambda>c. CHR ''/'' \<notin> set c) path \<and> CHR '':'' \<notin> set (last path)
     \<and> (case tag of None \<Rightarrow> True | Some t \<Rightarrow> CHR ''/'' \<notin> set t \<and> CHR '':'' \<notin> set t)
     \<and> (case host of None \<Rightarrow> \<not> host_like (hd path) | Some h \<Rightarrow> host_like h \<and> CHR ''/'' \<notin> set h)"

lemma py_join_snoc: "ws \<noteq> [] \<Longrightarrow> py_join sep ws @ t = py_join sep (butlast ws @ [last ws @ t])"
proof (induction sep ws rule: py_join.induct)
  case (3 sep x y ys)
  then show ?case by (cases ys) (auto simp: py_join_Cons)
qed auto

lemma last_split_char: "last (split_char c s) = rev (takeWhile (\<lambda>x. x \<noteq> c) (rev s))"
proof (cases "c \<in> set s")
  case True
  then obtain a b where s: "s = a @ c # b" and b: "c \<notin> set b" by (meson split_list_last)
  have "split_char c (a @ c # b) = split_char c a @ [b]" for a
  proof (induction a)
    case Nil
    have "split_char c ([] @ c # b) = [] # split_char c b"
      by (rule split_char_sep) simp
    then show ?case using b by simp
  next
    case (Cons x a)
    show ?case
    proof (cases "x = c")
      case True
      with Cons show ?thesis by (simp add: split_char_def)
    next
      case False
      obtain w ws where w: "split_char c a = w # ws"
        by (cases "split_char c a") simp
      with Cons False show ?thesis by (simp add: split_char_def)
    qed
  qed
  moreover have "rev (takeWhile (\<lambda>x. x \<noteq> c) (rev (a @ c # b))) = b"
  proof -
    have "takeWhile (\<lambda>x. x \<noteq> c) (rev b @ c # rev a) = rev b"
      using b by (subst takeWhile_append2) auto
    then show ?thesis by simp
  qed
  ultimately show ?thesis using s by simp
next
  case False
  then have "takeWhile (\<lambda>x. x \<noteq> c) (rev s) = rev s"
    by (subst takeWhile_eq_all_conv) auto
  with False show ?thesis by (metis last.simps rev_rev_ident split_char_no)
qed

lemma last_segment_split:
  "(case rsplit_once c s of Some (_, b) \<Rightarrow> b | None \<Rightarrow> s) = last (split_char c s)"
proof (cases "c \<in> set s")
  case True
  then show ?thesis by (simp add: rsplit_once_def last_split_char)
next
  case False
  then show ?thesis by (simp add: rsplit_once_def)
qed

lemma ref_parts_ok:
  assumes "ref_ok host path tag"
  shows "ref_parts host path \<noteq> []" and "\<forall>c \<in> set (ref_parts host path). CHR ''/'' \<notin> set c"
    and "last (ref_parts host path) = last path"
  using assms by (auto simp: ref_ok_def ref_parts_def list_all_iff split: option.splits)

lemma image_text_segment:
  assumes "ref_ok host path tag"
  shows "last (split_char CHR ''/'' (image_text host path tag)) = last path @ tag_text tag"
proof -
  let ?ps = "ref_parts host path"
  note ps = ref_parts_ok [OF assms]
  have tag: "CHR ''/'' \<notin> set (tag_text tag)"
    using assms by (auto simp: ref_ok_def tag_text_def split: option.splits)
  have "image_text host path tag = py_join ''/'' (butlast ?ps @ [last ?ps @ tag_text tag])"
    unfolding image_text_def by (rule py_join_snoc) (rule ps)
  moreover have "split_char CHR ''/'' (py_join [CHR ''/''] (butlast ?ps @ [last ?ps @ tag_text tag])) =
      butlast ?ps @ [last ?ps @ tag_text tag]"
    using ps tag last_in_set [OF ps(1)] by (intro split_char_join) (auto dest: in_set_butlastD)
  ultimately show ?thesis using ps by simp
qed

lemma image_text_tag:
  assumes "ref_ok host path tag"
  shows "(if CHR '':'' \<in> set (last (split_char CHR ''/'' (image_text host path tag)))
      then (case rsplit_once CHR '':'' (image_text host path tag) of Some p \<Rightarrow> p
            | None \<Rightarrow> (image_text host path tag, []))
      else (image_text host path tag, ''latest'')) =
    (py_join ''/'' (ref_parts host path), get_or tag ''latest'')"
proof (cases tag)
  case None
  then show ?thesis
    using assms image_text_segment [OF assms] by (simp add: ref_ok_def tag_text_def image_text_def)
next
  case (Some t)
  then have "CHR '':'' \<notin> set t" using assms by (simp add: ref_ok_def)
  then have "rsplit_once CHR '':'' (py_join ''/'' (ref_parts host path) @ CHR '':'' # t) =
      Some (py_join ''/'' (ref_parts host path), t)"
    by (rule rsplit_once_last)
  then show ?thesis
    using image_text_segment [OF assms] Some by (simp add: tag_text_def image_text_def)
qed

text \<open>A reference printed from its parts parses back to them, with Docker Hub, its \<open>library/\<close>
  namespace and the tag \<open>latest\<close> filled in where they are left out.\<close>
theorem parse_image_ref_print:
  assumes "ref_ok host path tag"
  shows "parse_image_ref (image_text host path tag) =
    (case host of
       Some h \<Rightarrow> (h, py_join ''/'' path, get_or tag ''latest'')
     | None \<Rightarrow> (''registry-1.docker.io'',
                if length path = 1 then ''library/'' @ hd path else py_join ''/'' path,
                get_or tag ''latest''))"
proof -
  have "split_char CHR ''/'' (py_join [CHR ''/''] (ref_parts host path)) = ref_parts host path"
    using ref_parts_ok [OF assms] by (intro split_char_join) auto
  then show ?thesis
    unfolding parse_image_ref_def Let_def last_segment_split image_text_tag [OF assms] prod.case
    using assms by (auto simp: ref_ok_def ref_parts_def host_like_def split: option.splits)
qed

theorem parse_image_ref_print_witness:
  "parse_image_ref ''ghcr.io/linuxserver/sonarr:4.0'' = (''ghcr.io'', ''linuxserver/sonarr'', ''4.0'')"
  using parse_image_ref_print [of "Some ''ghcr.io''" "[''linuxserver'', ''sonarr'']" "Some ''4.0''"]
  by (simp add: ref_ok_def host_like_def image_text_def ref_parts_def tag_text_def)

text \<open>A name with a dot and no slash is taken for a registry host, unlike Docker's own reading.\<close>

lemma parse_image_ref_dotted_name: "parse_image_ref ''my.app:1'' = (''my.app'', [], ''1'')"
  by code_simp

subsection \<open>The outcome of a check\<close>

lemma failed_simps [simp]: "dr_digest (failed r) = None" "dr_reason (failed r) = Some r"
  by (simp_all add: failed_def)

definition lookup_ok :: "digest_result \<Rightarrow> bool" where
  "lookup_ok d \<longleftrightarrow> (case dr_digest d of
     None \<Rightarrow> (\<exists>r. dr_reason d = Some r \<and> r \<in> set [REASON_RATE_LIMITED, REASON_AUTH_FAILED,
       REASON_NOT_FOUND, REASON_UNSUPPORTED_REGISTRY, REASON_REGISTRY_ERROR, REASON_UNREACHABLE])
   | Some v \<Rightarrow> v \<noteq> [] \<and> dr_reason d = None)"

lemma failed_ok [intro]:
  "r \<in> set [REASON_RATE_LIMITED, REASON_AUTH_FAILED, REASON_NOT_FOUND,
     REASON_UNSUPPORTED_REGISTRY, REASON_REGISTRY_ERROR, REASON_UNREACHABLE] \<Longrightarrow> lookup_ok (failed r)"
  by (simp add: lookup_ok_def)

lemma failed_reasons [simp]:
  "lookup_ok (failed (reason_for_status s))" "lookup_ok (failed REASON_REGISTRY_ERROR)"
  "lookup_ok (failed REASON_UNREACHABLE)" "lookup_ok (failed REASON_AUTH_FAILED)"
  "lookup_ok (failed REASON_UNSUPPORTED_REGISTRY)"
  by (auto simp: reason_for_status_def intro!: failed_ok)

lemma digest_of_response_ok [simp]: "lookup_ok (digest_of_response r)"
proof (cases "rs_status r = 200 \<and> truthy_s (rs_digest r)")
  case True
  then show ?thesis by (auto simp: digest_of_response_def lookup_ok_def truthy_s_iff)
qed (auto simp: digest_of_response_def)

lemma head_manifest_ok [simp]: "lookup_ok (head_manifest http url b)"
  by (simp add: head_manifest_def split: http_out.splits option.splits)

lemma get_remote_digest_ok: "lookup_ok (get_remote_digest http img creds)"
  by (simp add: get_remote_digest_def Let_def split: prod.splits token_out.splits)

text \<open>A check has one of three statuses; it gives a reason, with display text of its own,
  exactly when the status is unknown, and tells update from no update by comparing the local
  digest with a registry digest that is not empty.\<close>
theorem check_image_update_outcome:
  "let c = check_image_update http img loc creds in
     (ic_status c = ''unknown'' \<and> (\<exists>w. ic_reason c = Some w \<and> reason_label (Some w) \<noteq> ''Unknown''))
     \<or> (ic_reason c = None \<and> truthy_s img \<and> truthy_s loc
         \<and> (\<exists>d. d \<noteq> [] \<and> dr_digest (get_remote_digest http (the img) creds) = Some d
             \<and> ic_status c = (if Some d = loc then ''up_to_date'' else ''update_available'')))"
proof -
  let ?d = "get_remote_digest http (the img) creds"
  have labels: "reason_label (Some r) \<noteq> ''Unknown''"
    if "r \<in> set (map fst REASON_LABELS)" for r
    using that by (auto simp: reason_label_def REASON_LABELS_def or_s_def reason_defs)
  show ?thesis
  proof (cases "truthy_s img \<and> truthy_s loc")
    case False
    then show ?thesis
      using labels by (auto simp: check_image_update_def REASON_LABELS_def)
  next
    case True
    then obtain l where l: "loc = Some l" by (cases loc) auto
    show ?thesis
    proof (cases "dr_digest ?d")
      case None
      then obtain r where r: "dr_reason ?d = Some r" and mem: "r \<in> set (map fst REASON_LABELS)"
        using get_remote_digest_ok [of http "the img" creds]
        by (auto simp: lookup_ok_def REASON_LABELS_def)
      moreover have "or_s (Some r) REASON_REGISTRY_ERROR = r"
        using mem by (auto simp: or_s_def REASON_LABELS_def reason_defs)
      ultimately show ?thesis
        using None True labels [OF mem] by (simp add: check_image_update_def)
    next
      case (Some d)
      then have "d \<noteq> []" using get_remote_digest_ok [of http "the img" creds]
        by (simp add: lookup_ok_def)
      then show ?thesis using Some True l by (simp add: check_image_update_def)
    qed
  qed
qed

text \<open>A bare image id never reaches the registry as a name: the reference the check uses is the
  container's own reference, a tag of the image, or the repository of one of its digests.\<close>
theorem resolve_image_ref_cases:
  "resolve_image_ref img tags digests = Some r \<Longrightarrow>
     (\<not> is_bare_image_id img \<and> r = img)
     \<or> (r \<in> set (get_or tags []) \<and> r \<noteq> [] \<and> \<not> contains r ''<none>'')
     \<or> (\<exists>repo e. e \<in> set (get_or digests []) \<and> prefix repo e \<and> repo \<noteq> [] \<and> r = repo @ '':latest'')"
proof -
  assume r: "resolve_image_ref img tags digests = Some r"
  have repo: "\<exists>repo. prefix repo e \<and> repo \<noteq> [] \<and> r = repo @ '':latest''" if "digest_repo e = Some r" for e
  proof -
    have "prefix (hd (py_split ''@sha256:'' e)) e"
      by (subst py_split.simps) (auto split: option.splits dest: split_once_append)
    then show ?thesis using that by (auto simp: digest_repo_def Let_def split: if_splits)
  qed
  show ?thesis
  proof (cases "is_bare_image_id img")
    case True
    show ?thesis
    proof (cases "find (\<lambda>e. e \<noteq> [] \<and> \<not> contains e ''<none>'') (get_or tags [])")
      case None
      with r True obtain rs where "List.map_filter digest_repo (get_or digests []) = r # rs"
        by (auto simp: resolve_image_ref_def split: list.splits)
      then have "r \<in> set (List.map_filter digest_repo (get_or digests []))" by simp
      then obtain e where "e \<in> set (get_or digests [])" "digest_repo e = Some r"
        by (auto simp: set_map_filter)
      with repo show ?thesis by blast
    next
      case (Some e)
      then have "r = e" using r True by (simp add: resolve_image_ref_def)
      moreover have "e \<in> set (get_or tags []) \<and> e \<noteq> [] \<and> \<not> contains e ''<none>''"
        using Some by (auto simp: find_Some_iff)
      ultimately show ?thesis by blast
    qed
  qed (use r in \<open>simp add: resolve_image_ref_def\<close>)
qed

theorem resolve_image_ref_cases_witness:
  "resolve_image_ref ''sha256:ab'' (Some [''<none>:<none>'']) (Some [''ghcr.io/a/b@sha256:cd'']) =
     Some ''ghcr.io/a/b:latest''
   \<and> (\<exists>repo e. e \<in> set [''ghcr.io/a/b@sha256:cd''] \<and> prefix repo e \<and> repo \<noteq> []
        \<and> ''ghcr.io/a/b:latest'' = repo @ '':latest'')"
proof -
  have r: "resolve_image_ref ''sha256:ab'' (Some [''<none>:<none>'']) (Some [''ghcr.io/a/b@sha256:cd'']) =
      Some ''ghcr.io/a/b:latest''"
    by code_simp
  show ?thesis using resolve_image_ref_cases [OF r] r by (simp add: is_bare_image_id_def)
qed

end
