(* ===== verification/Notifications.thy ===== *)
theory Notifications
  imports ConfigManager RegistryClient
begin

section \<open>Notifications (app/notifications.py, app/pushover.py, app/update_notifier.py)\<close>

text \<open>
  The stored notifications, the push that goes with each, and the store that keeps the
  notifier from repeating itself.  A file is what \<open>json.loads\<close> makes of it: missing, unreadable or
  data.  Time is a rational number of seconds; ids and clock readings are arguments.  The
  dispatch of a push to a task or a thread is the event \<open>ns_pushes\<close>; what the push itself does is
  \<open>send_pushover\<close>.
\<close>

datatype 'a json_file = Missing | Corrupt | Data 'a

type_synonym time = rat

subsection \<open>The bell\<close>

record notif =
  nt_id :: string
  nt_title :: string
  nt_message :: string
  nt_level :: string
  nt_created_at :: time
  nt_read :: bool
  nt_url :: "string option"

record notif_state =
  ns_file :: "notif list json_file"
  ns_pushes :: "(string \<times> string) list"

definition NOTIF_MAX :: nat where "NOTIF_MAX = 50"

definition load_notifs :: "notif_state \<Rightarrow> notif list" where
  "load_notifs s = (case ns_file s of Data es \<Rightarrow> es | _ \<Rightarrow> [])"

definition save_notifs :: "notif list \<Rightarrow> notif_state \<Rightarrow> notif_state" where
  "save_notifs es s = s\<lparr>ns_file := Data es\<rparr>"

definition dispatch_push :: "disk \<Rightarrow> string \<Rightarrow> string \<Rightarrow> notif_state \<Rightarrow> notif_state" where
  "dispatch_push cfg title message s =
     (if get_or (get_pushover_config cfg) False
      then s\<lparr>ns_pushes := ns_pushes s @ [(title, message)]\<rparr> else s)"

definition notify ::
  "disk \<Rightarrow> string \<Rightarrow> time \<Rightarrow> string \<Rightarrow> string \<Rightarrow> string \<Rightarrow> string \<Rightarrow> notif_state \<Rightarrow> notif_state" where
  "notify cfg nid now title message level url s =
     (let entry = \<lparr>nt_id = nid, nt_title = title, nt_message = message, nt_level = level,
                   nt_created_at = now, nt_read = False,
                   nt_url = (if url \<noteq> [] then Some url else None)\<rparr>
      in dispatch_push cfg title message
           (save_notifs (take NOTIF_MAX (entry # load_notifs s)) s))"

definition get_unread_count :: "notif_state \<Rightarrow> nat" where
  "get_unread_count s = length (filter (\<lambda>e. \<not> nt_read e) (load_notifs s))"

definition get_notifications :: "nat \<Rightarrow> notif_state \<Rightarrow> notif list" where
  "get_notifications limit s = take limit (load_notifs s)"

definition mark_all_read :: "notif_state \<Rightarrow> notif_state" where
  "mark_all_read s = save_notifs (map (\<lambda>e. e\<lparr>nt_read := True\<rparr>) (load_notifs s)) s"

subsection \<open>Pushover\<close>

text \<open>\<open>post\<close> is the POST of the form data: the status, or \<open>None\<close> when it raises.\<close>

definition PUSHOVER_API :: string where
  "PUSHOVER_API = ''https://api.pushover.net/1/messages.json''"

definition send_pushover ::
  "(string \<Rightarrow> (string \<times> string) list \<Rightarrow> nat option) \<Rightarrow> entry \<Rightarrow> string \<Rightarrow> string \<Rightarrow> bool" where
  "send_pushover post creds title message =
     (case (dict_get creds ''api_token'', dict_get creds ''user_key'') of
        (Some (JStr token), Some (JStr user_key)) \<Rightarrow>
          token \<noteq> [] \<and> user_key \<noteq> [] \<and>
          post PUSHOVER_API [(''token'', token), (''user'', user_key), (''title'', title),
            (''message'', message)] = Some 200
      | _ \<Rightarrow> False)"

subsection \<open>The store of the update notifier\<close>

record stack =
  st_update_path :: "string option"
  st_update_status :: "string option"
  st_name :: "string option"
  st_unknown_reason :: "string option"

record nstate =
  us_notified :: "string list"
  us_unknown_since :: "(string \<times> time) list"
  us_unknown_notified :: "string list"
  us_notified_hosts :: "string list"

text \<open>The stored value: the old bare list, an object whose keys may be absent, or another value.\<close>

record nstored =
  uf_notified :: "string list option"
  uf_unknown_since :: "(string \<times> time) list option"
  uf_unknown_notified :: "string list option"
  uf_notified_hosts :: "string list option"

datatype ndata = BareList "string list" | Obj nstored | OtherJson

type_synonym nfile = "ndata json_file"

definition UNKNOWN_STALE_SECONDS :: time where "UNKNOWN_STALE_SECONDS = 86400"

definition empty_state :: nstate where
  "empty_state = \<lparr>us_notified = [], us_unknown_since = [], us_unknown_notified = [], us_notified_hosts = []\<rparr>"

definition load_state :: "nfile \<Rightarrow> nstate" where
  "load_state f =
     (case f of
        Data (BareList l) \<Rightarrow> empty_state\<lparr>us_notified := l\<rparr>
      | Data (Obj o1) \<Rightarrow>
          \<lparr>us_notified = get_or (uf_notified o1) [],
           us_unknown_since = get_or (uf_unknown_since o1) [],
           us_unknown_notified = get_or (uf_unknown_notified o1) [],
           us_notified_hosts = get_or (uf_notified_hosts o1) []\<rparr>
      | _ \<Rightarrow> empty_state)"

definition save_state :: "nstate \<Rightarrow> nfile" where
  "save_state s =
     Data (Obj \<lparr>uf_notified = Some (sort (us_notified s)),
                uf_unknown_since = Some (us_unknown_since s),
                uf_unknown_notified = Some (sort (us_unknown_notified s)),
                uf_notified_hosts = Some (sort (us_notified_hosts s))\<rparr>)"

text \<open>Python sets of strings are lists here; \<open>sorted(set)\<close> is \<open>sort_set\<close>.\<close>

definition sort_set :: "string list \<Rightarrow> string list" where
  "sort_set xs = sort (remdups xs)"

definition set_add :: "string \<Rightarrow> string list \<Rightarrow> string list" where
  "set_add x xs = (if x \<in> set xs then xs else xs @ [x])"

definition set_discard :: "string \<Rightarrow> string list \<Rightarrow> string list" where
  "set_discard x xs = filter (\<lambda>y. y \<noteq> x) xs"

definition should_notify_host :: "string \<Rightarrow> bool \<Rightarrow> nfile \<Rightarrow> bool \<times> nfile" where
  "should_notify_host slug has_updates f =
     (let s = load_state f; notified = us_notified_hosts s in
      if \<not> has_updates
      then (False,
            if slug \<in> set notified
            then save_state (s\<lparr>us_notified_hosts := sort_set (set_discard slug notified)\<rparr>) else f)
      else if slug \<in> set notified then (False, f)
      else (True, save_state (s\<lparr>us_notified_hosts := sort_set (set_add slug notified)\<rparr>)))"

subsection \<open>Checks of containers\<close>

text \<open>A notification the check asks for: title, message and level.\<close>

type_synonym announcement = "string \<times> string \<times> string"

text \<open>\<open>Counter(xs).most_common(1)[0][0]\<close>: the first of the most frequent elements.\<close>

definition most_common :: "string list \<Rightarrow> string" where
  "most_common xs =
     (case filter (\<lambda>x. list_all (\<lambda>y. count_list xs y \<le> count_list xs x) xs) xs of
        x # _ \<Rightarrow> x | [] \<Rightarrow> [])"

definition stack_at :: "string \<Rightarrow> 'z stack_scheme list \<Rightarrow> 'z stack_scheme option" where
  "stack_at p stacks = find (\<lambda>s. get_or (st_update_path s) [] = p) (rev stacks)"

definition stack_label :: "'z stack_scheme list \<Rightarrow> string \<Rightarrow> string" where
  "stack_label stacks p = (case stack_at p stacks of Some s \<Rightarrow> or_s (st_name s) p | None \<Rightarrow> p)"

definition stack_reason :: "'z stack_scheme list \<Rightarrow> string \<Rightarrow> string option" where
  "stack_reason stacks p =
     (case stack_at p stacks of
        Some s \<Rightarrow> if truthy_s (st_unknown_reason s) then st_unknown_reason s else None
      | None \<Rightarrow> None)"

text \<open>\<open>stale\<close> is the set in its iteration order.\<close>

definition stale_note :: "string list \<Rightarrow> 'z stack_scheme list \<Rightarrow> announcement" where
  "stale_note stale stacks =
     (let names = sort (map (stack_label stacks) stale);
          reasons = List.map_filter (stack_reason stacks) stale;
          plural = (length names \<noteq> 1);
          message = show_nat (length names) @ '' container'' @ (if plural then ''s'' else [])
            @ '' ha'' @ (if plural then ''ve'' else ''s'') @ '' not been checked for over 24h: ''
            @ py_join '', '' names @ ''.'';
          message' = (if reasons = [] then message
            else message @ '' Most common reason: ''
              @ py_lower (reason_label (Some (most_common reasons))) @ ''.'')
      in (''Container update checks failing'', message', ''warning''))"

definition available_note :: "string \<Rightarrow> announcement" where
  "available_note name =
     (''Image update available: '' @ name,
      ''A newer image is available for '' @ name @ ''. Open the dashboard to update.'', ''info'')"

text \<open>The state of the loop over the stacks.\<close>

record nloop =
  nl_notified :: "string list"
  nl_unknown_since :: "(string \<times> time) list"
  nl_changed :: bool
  nl_seen_unknown :: "string list"
  nl_notes :: "announcement list"

definition note_status :: "'z stack_scheme \<Rightarrow> nloop \<Rightarrow> nloop" where
  "note_status stack l =
     (let path = get_or (st_update_path stack) []; status = get_or (st_update_status stack) [];
          name = get_or (st_name stack) path
      in if status = ''update_available''
         then (if path \<noteq> [] \<and> path \<notin> set (nl_notified l)
               then l\<lparr>nl_notes := nl_notes l @ [available_note name],
                      nl_notified := set_add path (nl_notified l), nl_changed := True\<rparr>
               else l)
         else if status \<in> set [''up_to_date'', ''mixed'']
         then (if path \<in> set (nl_notified l)
               then l\<lparr>nl_notified := set_discard path (nl_notified l), nl_changed := True\<rparr> else l)
         else l)"

definition note_unknown :: "time \<Rightarrow> 'z stack_scheme \<Rightarrow> nloop \<Rightarrow> nloop" where
  "note_unknown now stack l =
     (let path = get_or (st_update_path stack) []; status = get_or (st_update_status stack) [] in
      if status = ''unknown'' \<and> path \<noteq> []
      then let l1 = l\<lparr>nl_seen_unknown := set_add path (nl_seen_unknown l)\<rparr> in
        if dict_get (nl_unknown_since l1) path = None
        then l1\<lparr>nl_unknown_since := dict_set path now (nl_unknown_since l1), nl_changed := True\<rparr>
        else l1
      else l)"

definition check_stack :: "time \<Rightarrow> 'z stack_scheme \<Rightarrow> nloop \<Rightarrow> nloop" where
  "check_stack now stack l = note_unknown now stack (note_status stack l)"

definition check_and_notify ::
  "(string list \<Rightarrow> string list) \<Rightarrow> time \<Rightarrow> 'z stack_scheme list \<Rightarrow> nfile \<Rightarrow> announcement list \<times> nfile" where
  "check_and_notify set_order now stacks f =
     (let s = load_state f;
          l = fold (check_stack now) stacks
                \<lparr>nl_notified = us_notified s, nl_unknown_since = us_unknown_since s,
                 nl_changed = False, nl_seen_unknown = [], nl_notes = []\<rparr>;
          since = filter (\<lambda>(p, t). p \<in> set (nl_seen_unknown l)) (nl_unknown_since l);
          changed1 = (nl_changed l \<or> length since \<noteq> length (nl_unknown_since l));
          stale = map fst (filter (\<lambda>(p, t). now - t \<ge> UNKNOWN_STALE_SECONDS) since);
          already = us_unknown_notified s;
          notes = nl_notes l
            @ (if set stale - set already \<noteq> {} then [stale_note (set_order stale) stacks] else []);
          differs = (set stale \<noteq> set already);
          s' = \<lparr>us_notified = sort_set (nl_notified l), us_unknown_since = since,
                us_unknown_notified = (if differs then sort_set stale else us_unknown_notified s),
                us_notified_hosts = us_notified_hosts s\<rparr>
      in (notes, if changed1 \<or> differs then save_state s' else f))"

subsection \<open>The bell keeps the newest notifications\<close>

text \<open>A notification is stored first, unread, and at most fifty are kept, the older ones in their
  order; the push goes out exactly when Pushover is enabled, after the entry is stored.\<close>
theorem notify_newest_first:
  "\<exists>e. load_notifs (notify cfg nid now title msg level url s) = e # take 49 (load_notifs s)
     \<and> nt_id e = nid \<and> nt_title e = title \<and> nt_message e = msg \<and> \<not> nt_read e
     \<and> ns_pushes (notify cfg nid now title msg level url s) =
         ns_pushes s @ (if get_pushover_config cfg = Some True then [(title, msg)] else [])"
  by (auto simp: notify_def dispatch_push_def save_notifs_def load_notifs_def NOTIF_MAX_def Let_def
      get_or_def split: option.splits)

lemma notify_bounded: "length (load_notifs (notify cfg nid now title msg level url s)) \<le> 50"
  by (simp add: notify_def dispatch_push_def save_notifs_def load_notifs_def NOTIF_MAX_def Let_def)

lemma mark_all_read_count: "get_unread_count (mark_all_read s) = 0"
  by (simp add: get_unread_count_def mark_all_read_def save_notifs_def load_notifs_def)

subsection \<open>Host notifications fire on edges\<close>

definition pending :: "nfile \<Rightarrow> string set" where
  "pending f = set (us_notified_hosts (load_state f))"

lemma load_save_state:
  "us_notified_hosts (load_state (save_state s)) = sort (us_notified_hosts s)"
  "us_notified (load_state (save_state s)) = sort (us_notified s)"
  "us_unknown_since (load_state (save_state s)) = us_unknown_since s"
  "us_unknown_notified (load_state (save_state s)) = sort (us_unknown_notified s)"
  by (simp_all add: load_state_def save_state_def)

lemma set_ops [simp]:
  "set (sort_set xs) = set xs" "set (set_add x xs) = insert x (set xs)"
  "set (set_discard x xs) = set xs - {x}"
  by (auto simp: sort_set_def set_add_def set_discard_def)

text \<open>The store refines a set of hosts with announced updates.\<close>

lemma should_notify_refines:
  "should_notify_host slug u f = (r, f') \<Longrightarrow>
     r = (u \<and> slug \<notin> pending f) \<and> pending f' = (if u then insert slug (pending f) else pending f - {slug})"
  by (auto simp: should_notify_host_def pending_def Let_def load_save_state split: if_splits)

fun run_host_checks :: "(string \<times> bool) list \<Rightarrow> nfile \<Rightarrow> bool list \<times> nfile" where
  "run_host_checks [] f = ([], f)"
| "run_host_checks ((slug, u) # cs) f =
     (let (r, f1) = should_notify_host slug u f; (rs, f2) = run_host_checks cs f1 in (r # rs, f2))"

text \<open>The last answer the earlier checks gave for a host.\<close>

fun last_answer :: "string \<Rightarrow> (string \<times> bool) list \<Rightarrow> bool \<Rightarrow> bool" where
  "last_answer slug [] start = start"
| "last_answer slug ((s, u) # cs) start = last_answer slug cs (if s = slug then u else start)"

lemma run_host_checks_at:
  "i < length cs \<Longrightarrow>
     fst (run_host_checks cs f) ! i =
       (snd (cs ! i) \<and> \<not> last_answer (fst (cs ! i)) (take i cs) (fst (cs ! i) \<in> pending f))"
proof (induction cs arbitrary: f i)
  case (Cons c cs)
  obtain slug u where c: "c = (slug, u)" by (cases c)
  obtain r f1 where step: "should_notify_host slug u f = (r, f1)" by (cases "should_notify_host slug u f")
  note ref = should_notify_refines [OF step]
  show ?case
  proof (cases i)
    case 0
    then show ?thesis using c step ref by (simp add: case_prod_beta)
  next
    case (Suc j)
    then have "fst (run_host_checks cs f1) ! j =
        (snd (cs ! j) \<and> \<not> last_answer (fst (cs ! j)) (take j cs) (fst (cs ! j) \<in> pending f1))"
      using Cons by simp
    moreover have "(fst (cs ! j) \<in> pending f1) =
        (if slug = fst (cs ! j) then u else fst (cs ! j) \<in> pending f)"
      using ref by auto
    ultimately show ?thesis using c step Suc by (simp add: case_prod_beta)
  qed
qed simp

text \<open>Over any sequence of host checks, a check asks for a notification exactly on the edge from up to
  date to pending: the host has updates now, and its previous check had none (for the first
  check: the store does not list it).\<close>
theorem host_notification_on_edge:
  assumes "i < length checks"
  shows "fst (run_host_checks checks f) ! i \<longleftrightarrow>
    snd (checks ! i) \<and> \<not> last_answer (fst (checks ! i)) (take i checks) (fst (checks ! i) \<in> pending f)"
  using assms by (rule run_host_checks_at)

theorem host_notification_on_edge_witness:
  "fst (run_host_checks [(''nas'', True), (''nas'', True), (''nas'', False), (''nas'', True)] Missing) ! 3"
  using host_notification_on_edge [of 3 "[(''nas'', True), (''nas'', True), (''nas'', False), (''nas'', True)]" Missing]
  by simp

subsection \<open>Container notifications are not repeated\<close>

definition path_of :: "'z stack_scheme \<Rightarrow> string" where
  "path_of s = get_or (st_update_path s) []"

definition status_of :: "'z stack_scheme \<Rightarrow> string" where
  "status_of s = get_or (st_update_status s) []"

definition quiet :: "nloop \<Rightarrow> 'z stack_scheme \<Rightarrow> bool" where
  "quiet l s \<longleftrightarrow>
     (status_of s = ''update_available'' \<and> path_of s \<noteq> [] \<longrightarrow> path_of s \<in> set (nl_notified l))
     \<and> (status_of s \<in> {''up_to_date'', ''mixed''} \<longrightarrow> path_of s \<notin> set (nl_notified l))
     \<and> (status_of s = ''unknown'' \<and> path_of s \<noteq> [] \<longrightarrow> dict_get (nl_unknown_since l) (path_of s) \<noteq> None)"

lemmas loop_defs = check_stack_def note_status_def note_unknown_def path_of_def [symmetric]
  status_of_def [symmetric]

lemma quiet_after: "quiet (check_stack now s l) s"
  unfolding quiet_def loop_defs Let_def
  by (cases "status_of s = ''update_available''"; cases "status_of s = ''unknown''")
    (auto simp: dict_simps)

lemma check_stack_other:
  assumes "path_of s \<noteq> path_of t"
  shows "path_of s \<in> set (nl_notified (check_stack now t l)) \<longleftrightarrow> path_of s \<in> set (nl_notified l)"
    and "dict_get (nl_unknown_since (check_stack now t l)) (path_of s) = dict_get (nl_unknown_since l) (path_of s)"
  using assms unfolding loop_defs Let_def by (auto simp: dict_simps)

lemma quiet_kept: "path_of s \<noteq> path_of t \<Longrightarrow> quiet l s \<Longrightarrow> quiet (check_stack now t l) s"
  by (simp add: quiet_def check_stack_other)

lemma quiet_fold_other:
  "path_of s \<notin> set (map path_of ts) \<Longrightarrow> quiet l s \<Longrightarrow> quiet (fold (check_stack now) ts l) s"
  by (induction ts arbitrary: l) (auto simp: quiet_kept)

lemma quiet_fold:
  "distinct (map path_of ts) \<Longrightarrow> s \<in> set ts \<Longrightarrow> quiet (fold (check_stack now) ts l) s"
proof (induction ts arbitrary: l)
  case (Cons t ts)
  show ?case
  proof (cases "s = t")
    case True
    have "quiet (fold (check_stack now) ts (check_stack now t l)) t"
      using Cons.prems by (intro quiet_fold_other quiet_after) simp
    then show ?thesis using True by simp
  qed (use Cons in auto)
qed simp

text \<open>A loop over quiet stacks only records which of them are unknown.\<close>

definition see_unknown :: "'z stack_scheme \<Rightarrow> string list \<Rightarrow> string list" where
  "see_unknown s seen = (if status_of s = ''unknown'' \<and> path_of s \<noteq> [] then set_add (path_of s) seen else seen)"

lemma check_quiet: "quiet l s \<Longrightarrow> check_stack now s l = l\<lparr>nl_seen_unknown := see_unknown s (nl_seen_unknown l)\<rparr>"
  unfolding loop_defs Let_def quiet_def see_unknown_def
  by (cases "status_of s = ''update_available''"; cases "status_of s = ''unknown''") auto

lemma quiet_seen [simp]: "quiet (l\<lparr>nl_seen_unknown := x\<rparr>) s = quiet l s"
  by (simp add: quiet_def)

lemma fold_quiet:
  "\<forall>s \<in> set ts. quiet l s \<Longrightarrow>
     fold (check_stack now) ts l = l\<lparr>nl_seen_unknown := fold see_unknown ts (nl_seen_unknown l)\<rparr>"
  by (induction ts arbitrary: l) (simp_all add: check_quiet)

lemma seen_check: "nl_seen_unknown (check_stack now s l) = see_unknown s (nl_seen_unknown l)"
  unfolding loop_defs Let_def see_unknown_def by auto

lemma seen_fold: "nl_seen_unknown (fold (check_stack now) ts l) = fold see_unknown ts (nl_seen_unknown l)"
  by (induction ts arbitrary: l) (simp_all add: seen_check)

lemma seen_unknown_paths:
  "set (fold see_unknown ts seen) = set seen \<union> {path_of s |s. s \<in> set ts \<and> status_of s = ''unknown'' \<and> path_of s \<noteq> []}"
  by (induction ts arbitrary: seen) (auto simp: see_unknown_def)

text \<open>What the first run leaves in the store, whether or not it wrote the file.\<close>

definition start_loop :: "nstate \<Rightarrow> nloop" where
  "start_loop s = \<lparr>nl_notified = us_notified s, nl_unknown_since = us_unknown_since s,
     nl_changed = False, nl_seen_unknown = [], nl_notes = []\<rparr>"

definition kept_since :: "nloop \<Rightarrow> (string \<times> time) list" where
  "kept_since l = filter (\<lambda>(p, t). p \<in> set (nl_seen_unknown l)) (nl_unknown_since l)"

definition stale_paths :: "time \<Rightarrow> (string \<times> time) list \<Rightarrow> string list" where
  "stale_paths now since = map fst (filter (\<lambda>(p, t). now - t \<ge> UNKNOWN_STALE_SECONDS) since)"

lemma filter_length_same: "length (filter P xs) = length xs \<Longrightarrow> filter P xs = xs"
  by (metis filter_True length_filter_less less_irrefl)

lemma map_of_filter_key: "p \<in> A \<Longrightarrow> map_of (filter (\<lambda>(q, t). q \<in> A) xs) p = map_of xs p"
  by (induction xs) auto

lemma check_stack_unchanged:
  "\<not> nl_changed (check_stack now s l) \<Longrightarrow>
     \<not> nl_changed l \<and> nl_notified (check_stack now s l) = nl_notified l
     \<and> nl_unknown_since (check_stack now s l) = nl_unknown_since l"
  unfolding loop_defs Let_def by (auto split: if_splits)

lemma fold_unchanged:
  "\<not> nl_changed (fold (check_stack now) ts l) \<Longrightarrow>
     \<not> nl_changed l \<and> nl_notified (fold (check_stack now) ts l) = nl_notified l
     \<and> nl_unknown_since (fold (check_stack now) ts l) = nl_unknown_since l"
proof (induction ts arbitrary: l)
  case (Cons t ts)
  from Cons.IH [of "check_stack now t l"] Cons.prems check_stack_unchanged [of now t l]
  show ?case by simp
qed simp

lemma check_result:
  fixes now set_order stacks f
  defines "l \<equiv> fold (check_stack now) stacks (start_loop (load_state f))"
  assumes run: "check_and_notify set_order now stacks f = (ns, f')"
  shows "set (us_notified (load_state f')) = set (nl_notified l)"
    and "us_unknown_since (load_state f') = kept_since l"
    and "set (us_unknown_notified (load_state f')) = set (stale_paths now (kept_since l))"
proof -
  let ?s = "load_state f"
  let ?w = "nl_changed l \<or> length (kept_since l) \<noteq> length (nl_unknown_since l)"
  let ?d = "set (stale_paths now (kept_since l)) \<noteq> set (us_unknown_notified ?s)"
  have f': "f' = (if ?w \<or> ?d
      then save_state \<lparr>us_notified = sort_set (nl_notified l), us_unknown_since = kept_since l,
        us_unknown_notified = (if ?d then sort_set (stale_paths now (kept_since l)) else us_unknown_notified ?s),
        us_notified_hosts = us_notified_hosts ?s\<rparr>
      else f)"
    using run unfolding check_and_notify_def l_def kept_since_def stale_paths_def start_loop_def Let_def
    by (simp only: prod.inject)
  have quiet_case: "nl_notified l = us_notified ?s \<and> kept_since l = us_unknown_since ?s" if "\<not> ?w"
  proof -
    have "nl_notified l = us_notified ?s" and since: "nl_unknown_since l = us_unknown_since ?s"
      using fold_unchanged [of now stacks "start_loop ?s"] that by (auto simp: l_def start_loop_def)
    moreover have "kept_since l = nl_unknown_since l"
      using that unfolding kept_since_def by (intro filter_length_same) simp
    ultimately show ?thesis by simp
  qed
  show "set (us_notified (load_state f')) = set (nl_notified l)"
    using f' quiet_case by (cases "?w \<or> ?d") (auto simp: load_save_state)
  show "us_unknown_since (load_state f') = kept_since l"
    using f' quiet_case by (cases "?w \<or> ?d") (auto simp: load_save_state)
  show "set (us_unknown_notified (load_state f')) = set (stale_paths now (kept_since l))"
    using f' by (cases "?w \<or> ?d"; cases ?d) (auto simp: load_save_state)
qed

text \<open>Checking the same container states again notifies nobody and leaves the store as it is, whatever the
  store held before: every notification is sent once per transition.\<close>
theorem check_again_silent:
  assumes "distinct (map path_of stacks)"
    and "check_and_notify set_order now stacks f = (ns, f')"
  shows "check_and_notify set_order now stacks f' = ([], f')"
proof -
  define l where "l = fold (check_stack now) stacks (start_loop (load_state f))"
  note res = check_result [OF assms(2), folded l_def]
  let ?l0 = "start_loop (load_state f')"
  have seen_l: "nl_seen_unknown l = fold see_unknown stacks []"
    by (simp add: l_def seen_fold start_loop_def)
  have key: "dict_get (kept_since l) p = dict_get (nl_unknown_since l) p" if "p \<in> set (nl_seen_unknown l)" for p
    using that unfolding kept_since_def by (rule map_of_filter_key)
  have "quiet ?l0 s" if s: "s \<in> set stacks" for s
  proof -
    have q: "quiet l s" unfolding l_def using assms(1) s by (rule quiet_fold)
    have "path_of s \<in> set (nl_seen_unknown l)" if "status_of s = ''unknown''" "path_of s \<noteq> []"
      using that s by (auto simp: seen_l seen_unknown_paths)
    with q key show ?thesis by (auto simp: quiet_def start_loop_def res)
  qed
  then have fold2: "fold (check_stack now) stacks ?l0 =
      ?l0\<lparr>nl_seen_unknown := fold see_unknown stacks []\<rparr>"
    by (subst fold_quiet) (auto simp: start_loop_def)
  have kept: "filter (\<lambda>(p, t). p \<in> set (fold see_unknown stacks [])) (kept_since l) = kept_since l"
    unfolding kept_since_def seen_l by (simp add: filter_filter case_prod_beta')
  show ?thesis
    unfolding check_and_notify_def Let_def start_loop_def [symmetric] fold2
    by (simp add: start_loop_def res kept stale_paths_def [symmetric])
qed

theorem check_again_silent_witness:
  "check_and_notify id 5 [\<lparr>st_update_path = Some ''1:web'', st_update_status = Some ''update_available'',
      st_name = Some ''web'', st_unknown_reason = None\<rparr>]
    (snd (check_and_notify id 5 [\<lparr>st_update_path = Some ''1:web'', st_update_status = Some ''update_available'',
      st_name = Some ''web'', st_unknown_reason = None\<rparr>] Missing)) =
   ([], snd (check_and_notify id 5 [\<lparr>st_update_path = Some ''1:web'', st_update_status = Some ''update_available'',
      st_name = Some ''web'', st_unknown_reason = None\<rparr>] Missing))"
  by (rule check_again_silent [where f = Missing and ns = "fst (check_and_notify id 5
      [\<lparr>st_update_path = Some ''1:web'', st_update_status = Some ''update_available'',
        st_name = Some ''web'', st_unknown_reason = None\<rparr>] Missing)"]) simp_all

end
