(* ===== verification/ActivityLog.thy ===== *)
theory ActivityLog
  imports Notifications
begin

section \<open>The activity log (app/activity_log.py)\<close>

text \<open>
  The index of finished runs and one output file per run.  An ISO time stamp in a file is what
  \<open>datetime.fromisoformat\<close> makes of it: aware, naive or unusable.  Run ids (\<open>uuid4\<close>), clock
  readings and the order in which a set is iterated are arguments.  The flags of the state say
  whether the index and the output directory can be written (an \<open>OSError\<close> otherwise).  The
  locks make each recording one step.
\<close>

datatype stamp = Aware time | Naive time | BadStamp

record activity =
  ac_id :: string
  ac_kind :: string
  ac_target :: string
  ac_target_name :: string
  ac_trigger :: string
  ac_status :: string
  ac_started_at :: stamp
  ac_finished_at :: stamp
  ac_duration_s :: rat
  ac_error :: string
  ac_line_count :: nat

record legacy_entry =
  le_type :: string
  le_target :: string
  le_target_name :: string
  le_status :: "string option"
  le_ran_at :: stamp
  le_lines :: "string list"

text \<open>The index file: a list with \<open>None\<close> for elements that are not objects; \<open>NotList\<close> is any other
  JSON value.  The legacy log likewise.\<close>

datatype 'a listing = Listing "'a option list" | NotList

record log_state =
  lg_index :: "activity listing json_file"
  lg_corrupt_kept :: bool
  lg_runs :: "(string \<times> (string \<times> time)) list"
  lg_legacy :: "legacy_entry listing json_file"
  lg_index_writable :: bool
  lg_runs_writable :: bool

definition MAX_ENTRIES :: nat where "MAX_ENTRIES = 500"
definition MAX_AGE_DAYS :: time where "MAX_AGE_DAYS = 90"
definition REDACTED :: string where "REDACTED = ''***''"
definition MIN_SECRET_LEN :: nat where "MIN_SECRET_LEN = 8"
definition SECRET_KEY_HINTS :: "string list" where
  "SECRET_KEY_HINTS = [''password'', ''token'', ''secret'', ''api_key'', ''user_key'', ''passphrase'']"
definition LEGACY_KINDS :: "(string \<times> string) list" where
  "LEGACY_KINDS = [(''os'', ''os_upgrade''), (''docker'', ''container_redeploy'')]"
definition OUTPUT_UNAVAILABLE :: string where
  "OUTPUT_UNAVAILABLE = ''Output unavailable '' @ [CHR 0xE2, CHR 0x80, CHR 0x94]
     @ '' it was not written to disk.''"

subsection \<open>Redaction\<close>

text \<open>\<open>str(exc) or exc.__class__.__name__\<close>.\<close>

definition exc_text :: "exn \<Rightarrow> string" where
  "exc_text e = (if exn_str e \<noteq> [] then exn_str e else exn_class e)"

definition secret_field :: "string \<times> json \<Rightarrow> string option" where
  "secret_field kv =
     (case snd kv of
        JStr v \<Rightarrow> if length v < MIN_SECRET_LEN then None
                  else if list_ex (\<lambda>hint. contains (py_lower (fst kv)) hint) SECRET_KEY_HINTS then Some v
                  else None
      | _ \<Rightarrow> None)"

definition secret_values :: "store \<Rightarrow> string list" where
  "secret_values st = remdups (concat (map (\<lambda>(k, e). List.map_filter secret_field e) st))"

text \<open>\<open>sorted(secrets, key=len, reverse=True)\<close> keeps the iteration order among equal lengths.\<close>

definition longest_first :: "string list \<Rightarrow> string list" where
  "longest_first xs = rev (sort_key length (rev xs))"

definition mask :: "string list \<Rightarrow> string \<Rightarrow> string" where
  "mask ordered line = fold (\<lambda>secret l. py_replace secret REDACTED l) ordered line"

definition redact :: "string list \<Rightarrow> string list \<Rightarrow> string list" where
  "redact secrets output =
     (if secrets = [] then output else map (mask (longest_first secrets)) output)"

subsection \<open>Output files\<close>

definition flat_lines :: "string list \<Rightarrow> string list" where
  "flat_lines output = concat (map (split_char NL) output)"

definition write_output :: "time \<Rightarrow> string \<Rightarrow> string list \<Rightarrow> log_state \<Rightarrow> nat \<times> log_state" where
  "write_output now run_id output s =
     (if lg_runs_writable s
      then (length (flat_lines output),
            s\<lparr>lg_runs := dict_set run_id (py_join [NL] (flat_lines output), now) (lg_runs s)\<rparr>)
      else (0, s))"

definition delete_output_files :: "string list \<Rightarrow> log_state \<Rightarrow> log_state" where
  "delete_output_files ids s = s\<lparr>lg_runs := filter (\<lambda>(r, _). r \<notin> set ids \<or> r = []) (lg_runs s)\<rparr>"

definition sweep_aged_orphans :: "time \<Rightarrow> string list \<Rightarrow> log_state \<Rightarrow> log_state" where
  "sweep_aged_orphans now keep s =
     (let cutoff = now - MAX_AGE_DAYS * 86400
      in s\<lparr>lg_runs := filter (\<lambda>(r, (_, mtime)). r \<in> set keep \<or> \<not> (mtime < cutoff)) (lg_runs s)\<rparr>)"

subsection \<open>The index\<close>

fun parse_ts :: "stamp \<Rightarrow> time \<Rightarrow> time" where
  "parse_ts (Aware t) d = t"
| "parse_ts (Naive t) d = t"
| "parse_ts BadStamp d = d"

text \<open>An unreadable index is renamed to \<open>index.json.corrupt\<close>.\<close>

definition read_index_file :: "log_state \<Rightarrow> activity list \<times> log_state" where
  "read_index_file s =
     (case lg_index s of
        Missing \<Rightarrow> ([], s)
      | Data (Listing es) \<Rightarrow> (List.map_filter id es, s)
      | _ \<Rightarrow> ([], s\<lparr>lg_index := Missing, lg_corrupt_kept := True\<rparr>))"

definition save_index :: "activity list \<Rightarrow> log_state \<Rightarrow> unit res \<times> log_state" where
  "save_index es s =
     (if lg_index_writable s then (Inr (), s\<lparr>lg_index := Data (Listing (map Some es))\<rparr>)
      else (raise ''OSError'' ''index not writable'', s))"

definition legacy_record :: "string \<Rightarrow> legacy_entry \<Rightarrow> nat \<Rightarrow> activity" where
  "legacy_record run_id e line_count =
     \<lparr>ac_id = run_id, ac_kind = get_or (dict_get LEGACY_KINDS (le_type e)) ''os_upgrade'',
      ac_target = le_target e, ac_target_name = le_target_name e, ac_trigger = ''scheduled'',
      ac_status = get_or (le_status e) ''error'', ac_started_at = le_ran_at e,
      ac_finished_at = le_ran_at e, ac_duration_s = 0,
      ac_error = (if le_status e = Some ''error'' \<and> le_lines e \<noteq> [] then last (le_lines e) else []),
      ac_line_count = line_count\<rparr>"

fun import_legacy ::
  "time \<Rightarrow> string list \<Rightarrow> (nat \<Rightarrow> string) \<Rightarrow> nat \<Rightarrow> legacy_entry list \<Rightarrow> log_state
     \<Rightarrow> activity list \<times> log_state" where
  "import_legacy now secrets ids n [] s = ([], s)"
| "import_legacy now secrets ids n (e # es) s =
     (let (count, s1) = write_output now (ids n) (redact secrets (le_lines e)) s;
          (rs, s2) = import_legacy now secrets ids (n + 1) es s1
      in (legacy_record (ids n) e count # rs, s2))"

text \<open>\<open>merged.sort(key=..., reverse=True)\<close>, stable.\<close>

definition newest_first :: "time \<Rightarrow> activity list \<Rightarrow> activity list" where
  "newest_first now es = rev (sort_key (\<lambda>e. parse_ts (ac_started_at e) now) (rev es))"

definition migrate_legacy_log ::
  "time \<Rightarrow> string list \<Rightarrow> (nat \<Rightarrow> string) \<Rightarrow> log_state \<Rightarrow> log_state" where
  "migrate_legacy_log now secrets ids s =
     (if lg_legacy s = Missing then s
      else let legacy = (case lg_legacy s of Data (Listing es) \<Rightarrow> List.map_filter id es | _ \<Rightarrow> []);
               (records, s1) = import_legacy now secrets ids 0 legacy s
           in if records = [] then s1\<lparr>lg_legacy := Missing\<rparr>
              else let (old, s2) = read_index_file s1 in
                case save_index (newest_first now (records @ old)) s2 of
                  (Inl _, s3) \<Rightarrow> s3
                | (Inr _, s3) \<Rightarrow> s3\<lparr>lg_legacy := Missing\<rparr>)"

definition load_index ::
  "time \<Rightarrow> string list \<Rightarrow> (nat \<Rightarrow> string) \<Rightarrow> log_state \<Rightarrow> activity list \<times> log_state" where
  "load_index now secrets ids s = read_index_file (migrate_legacy_log now secrets ids s)"

subsection \<open>Pruning\<close>

definition keeps :: "time \<Rightarrow> string \<Rightarrow> activity \<Rightarrow> bool" where
  "keeps now protect e \<longleftrightarrow>
     ac_id e = protect \<or> parse_ts (ac_started_at e) now \<ge> now - MAX_AGE_DAYS * 86400"

definition select_kept :: "time \<Rightarrow> activity list \<Rightarrow> string \<Rightarrow> activity list \<times> activity list" where
  "select_kept now es protect =
     (filter (keeps now protect) (take MAX_ENTRIES es),
      drop MAX_ENTRIES es @ filter (\<lambda>e. \<not> keeps now protect e) (take MAX_ENTRIES es))"

subsection \<open>Recording and reading runs\<close>

text \<open>\<open>round(x, 1)\<close> for a non-negative number, ties to even.\<close>

definition round1 :: "rat \<Rightarrow> rat" where
  "round1 x =
     (let y = 10 * x; f = \<lfloor>y\<rfloor>; r = y - of_int f
      in of_int (if r < 1/2 \<or> (r = 1/2 \<and> even f) then f else f + 1) / 10)"

definition record_run ::
  "time \<Rightarrow> string list \<Rightarrow> (nat \<Rightarrow> string) \<Rightarrow> string
     \<Rightarrow> string \<Rightarrow> string \<Rightarrow> string \<Rightarrow> string \<Rightarrow> string \<Rightarrow> string list \<Rightarrow> stamp \<Rightarrow> string
     \<Rightarrow> log_state \<Rightarrow> string \<times> log_state" where
  "record_run now secrets ids run_id kind target target_name trigger status output started_at err s =
     (let started = parse_ts started_at now;
          (count, s1) = write_output now run_id (redact secrets output) s;
          record = \<lparr>ac_id = run_id, ac_kind = kind, ac_target = target, ac_target_name = target_name,
                    ac_trigger = trigger, ac_status = status, ac_started_at = Aware started,
                    ac_finished_at = Aware now, ac_duration_s = round1 (max (now - started) 0),
                    ac_error = err, ac_line_count = count\<rparr>;
          (es, s2) = load_index now secrets ids s1;
          (kept, dropped) = select_kept now (record # es) run_id
      in case save_index kept s2 of
           (Inl _, s3) \<Rightarrow> ([], s3)
         | (Inr _, s3) \<Rightarrow>
             (run_id, sweep_aged_orphans now (map ac_id kept) (delete_output_files (map ac_id dropped) s3)))"

definition matches :: "string \<Rightarrow> string \<Rightarrow> bool" where
  "matches wanted value \<longleftrightarrow> wanted = [] \<or> value = wanted"

definition get_recent ::
  "time \<Rightarrow> string list \<Rightarrow> (nat \<Rightarrow> string) \<Rightarrow> nat \<Rightarrow> string \<Rightarrow> string \<Rightarrow> string \<Rightarrow> log_state
     \<Rightarrow> activity list \<times> log_state" where
  "get_recent now secrets ids limit status trigger kind s =
     (let (es, s') = load_index now secrets ids s
      in (take limit (filter (\<lambda>e. matches kind (ac_kind e))
            (filter (\<lambda>e. matches trigger (ac_trigger e))
              (filter (\<lambda>e. matches status (ac_status e)) es))), s'))"

definition get_run ::
  "time \<Rightarrow> string list \<Rightarrow> (nat \<Rightarrow> string) \<Rightarrow> string \<Rightarrow> log_state \<Rightarrow> activity option \<times> log_state" where
  "get_run now secrets ids run_id s =
     (let (es, s') = load_index now secrets ids s in (find (\<lambda>e. ac_id e = run_id) es, s'))"

text \<open>The expression \<open>^[0-9a-f]{8}$\<close>, which also matches before a final line break.\<close>

definition run_id_ok :: "string \<Rightarrow> bool" where
  "run_id_ok r \<longleftrightarrow>
     (let h = (if length r = 9 \<and> last r = NL then butlast r else r)
      in length h = 8 \<and> list_all is_hex h)"

definition get_run_output :: "string \<Rightarrow> log_state \<Rightarrow> string list" where
  "get_run_output run_id s =
     (if \<not> run_id_ok run_id then []
      else case dict_get (lg_runs s) run_id of
             None \<Rightarrow> [OUTPUT_UNAVAILABLE]
           | Some (text, _) \<Rightarrow> if text \<noteq> [] then split_char NL text else [])"

subsection \<open>No secret is left in the output\<close>

lemma split_once_fst_clean:
  "split_once sep s = Some (a, b) \<Longrightarrow> sep \<noteq> [] \<Longrightarrow> \<not> sublist sep a"
proof (induction s arbitrary: a)
  case Nil
  then show ?case by (auto split: if_splits)
next
  case (Cons c s)
  show ?case
  proof (cases "prefix sep (c # s)")
    case True
    then show ?thesis using Cons.prems by auto
  next
    case False
    then obtain a' where a: "a = c # a'" and rec: "split_once sep s = Some (a', b)"
      using Cons.prems by auto
    then have "\<not> sublist sep a'" using Cons.IH Cons.prems by blast
    moreover have "c # s = a @ sep @ b" using split_once_append [OF rec] a by simp
    then have "\<not> prefix sep a" using False by (metis prefix_append)
    ultimately show ?thesis using a by (simp add: sublist_Cons_right)
  qed
qed

lemma py_split_parts_clean:
  "t \<noteq> [] \<Longrightarrow> p \<in> set (py_split t l) \<Longrightarrow> \<not> sublist t p"
proof (induction t l rule: py_split.induct)
  case (1 sep s)
  show ?case
  proof (cases "split_once sep s")
    case None
    then show ?thesis using 1 by (simp add: py_split_None split_once_None)
  next
    case (Some ab)
    obtain a b where ab: "ab = (a, b)" by (cases ab)
    have "\<not> sublist sep a" using Some ab "1.prems"(1) by (intro split_once_fst_clean) auto
    moreover have "py_split sep s = a # py_split sep b"
      using Some ab "1.prems"(1) by (simp add: py_split_Some)
    ultimately show ?thesis using 1 Some ab by auto
  qed
qed

lemma py_split_parts_sub: "p \<in> set (py_split t l) \<Longrightarrow> sublist p l"
proof (induction t l rule: py_split.induct)
  case (1 sep s)
  show ?case
  proof (cases "sep = [] \<or> split_once sep s = None")
    case True
    then show ?thesis using "1.prems" by (auto simp: py_split.simps [of sep s] split: if_splits)
  next
    case False
    then obtain a b where ab: "split_once sep s = Some (a, b)" by auto
    then have s: "s = a @ sep @ b" by (rule split_once_append)
    have "p = a \<or> p \<in> set (py_split sep b)"
      using "1.prems" False ab by (simp add: py_split_Some)
    then show ?thesis
    proof
      assume "p \<in> set (py_split sep b)"
      then have "sublist p b" using "1.IH" False ab by blast
      then show ?thesis using s by (metis sublist_appendI sublist_order.order_trans append.right_neutral append.assoc)
    qed (use s in \<open>auto simp: sublist_def intro: exI [where x = "[]"]\<close>)
  qed
qed

text \<open>A text without the letters of the separator lies inside one part.\<close>

lemma sublist_sep:
  assumes "set s \<inter> set sep = {}" and "s \<noteq> []" and "sublist s (a @ sep @ b)" and "sep \<noteq> []"
  shows "sublist s a \<or> sublist s b"
proof -
  obtain u v where e: "a @ sep @ b = u @ s @ v" using assms(3) by (auto simp: sublist_def)
  show ?thesis
  proof (cases "length u + length s \<le> length a")
    case True
    moreover have "prefix (u @ s) (a @ sep @ b)" using e by simp
    moreover have "prefix a (a @ sep @ b)" by simp
    ultimately have "prefix (u @ s) a" by (metis length_append prefix_length_prefix)
    then show ?thesis by (auto simp: prefix_def sublist_def)
  next
    case f1: False
    show ?thesis
    proof (cases "length a + length sep \<le> length u")
      case True
      have "drop (length a + length sep) (a @ sep @ b) = b" by simp
      moreover have "drop (length a + length sep) (u @ s @ v) = drop (length a + length sep) u @ s @ v"
        using True by simp
      ultimately have "b = drop (length a + length sep) u @ s @ v" using e by simp
      then show ?thesis by (metis sublist_appendI)
    next
      case False
      let ?i = "max (length a) (length u)"
      have i: "length a \<le> ?i" "length u \<le> ?i" "?i - length a < length sep" "?i - length u < length s"
        using False f1 assms(2,4) by (auto simp: max_def)
      have "(a @ sep @ b) ! ?i = sep ! (?i - length a)" using i by (simp add: nth_append)
      then have "(a @ sep @ b) ! ?i \<in> set sep" using i by (metis nth_mem)
      moreover have "(u @ s @ v) ! ?i = s ! (?i - length u)" using i by (simp add: nth_append)
      then have "(u @ s @ v) ! ?i \<in> set s" using i by (metis nth_mem)
      ultimately show ?thesis using e assms(1) by auto
    qed
  qed
qed

lemma sublist_join:
  "set s \<inter> set sep = {} \<Longrightarrow> s \<noteq> [] \<Longrightarrow> sep \<noteq> [] \<Longrightarrow> ps \<noteq> [] \<Longrightarrow> sublist s (py_join sep ps) \<Longrightarrow>
   \<exists>p \<in> set ps. sublist s p"
proof (induction sep ps rule: py_join.induct)
  case (3 sep x y ys)
  then have "sublist s x \<or> sublist s (py_join sep (y # ys))"
    using sublist_sep [of s sep x "py_join sep (y # ys)"] by simp
  with 3 show ?case by auto
qed auto

definition star_free :: "string \<Rightarrow> bool" where
  "star_free s \<longleftrightarrow> s \<noteq> [] \<and> CHR ''*'' \<notin> set s"

lemma replace_removes: "star_free s \<Longrightarrow> \<not> sublist s (py_replace s REDACTED l)"
  using sublist_join [of s REDACTED "py_split s l"] py_split_parts_clean [of s _ l]
  by (auto simp: star_free_def py_replace_def REDACTED_def)

lemma replace_adds_nothing:
  "star_free s \<Longrightarrow> sublist s (py_replace t REDACTED l) \<Longrightarrow> sublist s l"
  using sublist_join [of s REDACTED "py_split t l"] py_split_parts_sub [of _ t l]
  by (auto simp: star_free_def py_replace_def REDACTED_def dest: sublist_order.order_trans)

lemma mask_adds_nothing: "star_free s \<Longrightarrow> sublist s (mask ts l) \<Longrightarrow> sublist s l"
  unfolding mask_def by (induction ts arbitrary: l) (auto dest: replace_adds_nothing)

lemma mask_removes: "star_free s \<Longrightarrow> s \<in> set ts \<Longrightarrow> \<not> sublist s (mask ts l)"
proof (induction ts arbitrary: l)
  case (Cons t ts)
  show ?case
  proof (cases "t = s")
    case True
    then show ?thesis
      using mask_adds_nothing [of s ts "py_replace s REDACTED l"] replace_removes [of s l] Cons.prems
      by (auto simp: mask_def)
  next
    case False
    then show ?thesis using Cons by (simp add: mask_def)
  qed
qed simp

lemma longest_first_set [simp]: "set (longest_first xs) = set xs"
  by (simp add: longest_first_def)

lemma redact_clean: "star_free s \<Longrightarrow> s \<in> set secrets \<Longrightarrow> l \<in> set (redact secrets output) \<Longrightarrow> \<not> sublist s l"
  by (auto simp: redact_def mask_removes split: if_splits)

text \<open>C5. Redaction removes every stored value it covers: a text of at least eight characters without an asterisk,
  stored in any entry under a name that hints at a secret, is not left anywhere in a redacted line, whatever else is
  stored and however the stored values contain or overlap one another.  Shorter values, values with an asterisk and
  values under other names are not masked for their own sake.\<close>
theorem redact_removes_secrets:
  assumes "(owner, entry) \<in> set st" and "(key, JStr s) \<in> set entry"
    and "list_ex (contains (py_lower key)) SECRET_KEY_HINTS" and "8 \<le> length s" and "CHR ''*'' \<notin> set s"
  shows "\<not> list_ex (\<lambda>l. contains l s) (redact (secret_values st) output)"
proof -
  have "secret_field (key, JStr s) = Some s" using assms(3,4) by (simp add: secret_field_def MIN_SECRET_LEN_def)
  then have "s \<in> set (secret_values st)" using assms(1,2) by (force simp: secret_values_def set_map_filter)
  moreover have "star_free s" using assms(4,5) by (auto simp: star_free_def)
  ultimately show ?thesis using redact_clean by (auto simp: list_ex_iff contains_iff)
qed

theorem redact_removes_secrets_witness:
  "\<not> list_ex (\<lambda>l. contains l ''hunter2222'')
     (redact (secret_values [(''nas'', [(''ssh_password'', JStr ''hunter2222'')])]) [''sudo: hunter2222''])"
  by (rule redact_removes_secrets [of "''nas''" "[(''ssh_password'', JStr ''hunter2222'')]" _ "''ssh_password''"]) code_simp+

text \<open>The error text of a record is not redacted: it is stored as it is given.\<close>

subsection \<open>Recording a run\<close>

lemma map_of_filter_keep: "(\<And>v. Q (k, v)) \<Longrightarrow> map_of (filter Q xs) k = map_of xs k"
  by (induction xs) auto

lemma map_of_filter_drop: "(\<And>v. \<not> Q (k, v)) \<Longrightarrow> map_of (filter Q xs) k = None"
  by (induction xs) auto

lemma flat_lines_no_break: "l \<in> set (flat_lines output) \<Longrightarrow> NL \<notin> set l"
  using split_pred_parts [of l "\<lambda>x. x = NL"] by (auto simp: flat_lines_def split_char_def)

text \<open>The stored text read back: the lines written, except that a single empty line reads as none.\<close>

definition lines_read :: "string list \<Rightarrow> string list" where
  "lines_read ls = (if ls = [[]] then [] else ls)"

lemma stored_lines:
  "(if py_join [NL] (flat_lines out) \<noteq> [] then split_char NL (py_join [NL] (flat_lines out)) else []) =
     lines_read (flat_lines out)"
proof (cases "flat_lines out")
  case (Cons x xs)
  moreover have "\<forall>w \<in> set (flat_lines out). NL \<notin> set w" using flat_lines_no_break by blast
  ultimately have "split_char NL (py_join [NL] (flat_lines out)) = flat_lines out"
    by (intro split_char_join) simp_all
  moreover have "py_join [NL] (flat_lines out) = [] \<longleftrightarrow> flat_lines out = [[]]"
    using Cons by (cases xs) auto
  ultimately show ?thesis by (simp add: lines_read_def)
qed (simp add: lines_read_def)

definition run_record ::
  "time \<Rightarrow> string list \<Rightarrow> string \<Rightarrow> string \<Rightarrow> string \<Rightarrow> string \<Rightarrow> string \<Rightarrow> string \<Rightarrow> string list \<Rightarrow> stamp
     \<Rightarrow> string \<Rightarrow> activity" where
  "run_record now secrets run_id kind target tname trigger status output started_at err =
     \<lparr>ac_id = run_id, ac_kind = kind, ac_target = target, ac_target_name = tname,
      ac_trigger = trigger, ac_status = status, ac_started_at = Aware (parse_ts started_at now),
      ac_finished_at = Aware now, ac_duration_s = round1 (max (now - parse_ts started_at now) 0),
      ac_error = err, ac_line_count = length (flat_lines (redact secrets output))\<rparr>"

lemma read_index_fields:
  "lg_index_writable (snd (read_index_file s)) = lg_index_writable s"
  "lg_runs (snd (read_index_file s)) = lg_runs s"
  "lg_legacy (snd (read_index_file s)) = lg_legacy s"
  "fst (read_index_file (s\<lparr>lg_runs := r\<rparr>)) = fst (read_index_file s)"
  by (auto simp: read_index_file_def split: json_file.splits listing.splits)

lemma map_filter_id_Some [simp]: "List.map_filter id (map Some xs) = xs"
  by (induction xs) auto

lemma take_head: "0 < n \<Longrightarrow> take n (x # xs) = x # take (n - 1) xs"
  by (cases n) auto

lemma select_kept_protected:
  assumes "select_kept now (e # es) (ac_id e) = (kept, dropped)"
  shows "\<exists>rest. kept = e # rest \<and> length kept \<le> MAX_ENTRIES \<and> set rest \<subseteq> set es
    \<and> set (e # es) \<subseteq> set kept \<union> set dropped \<and> set dropped \<subseteq> set es
    \<and> (\<forall>x \<in> set rest. keeps now (ac_id e) x)"
proof -
  have n: "take MAX_ENTRIES (e # es) = e # take 499 es" "drop MAX_ENTRIES (e # es) = drop 499 es"
    by (simp_all add: MAX_ENTRIES_def take_head)
  have k: "keeps now (ac_id e) e" by (simp add: keeps_def)
  have kept: "kept = e # filter (keeps now (ac_id e)) (take 499 es)"
    and dropped: "dropped = drop 499 es @ filter (\<lambda>x. \<not> keeps now (ac_id e) x) (take 499 es)"
    using assms k by (simp_all add: select_kept_def n)
  have "length (filter (keeps now (ac_id e)) (take 499 es)) \<le> 499"
    by (rule order_trans [OF length_filter_le]) simp
  then have "length kept \<le> MAX_ENTRIES" by (simp add: MAX_ENTRIES_def kept)
  moreover have "set es = set (take 499 es) \<union> set (drop 499 es)" by (metis append_take_drop_id set_append)
  ultimately show ?thesis using kept dropped by (auto dest: in_set_takeD in_set_dropD)
qed

text \<open>What a recorded run leaves: the index is what \<open>select_kept\<close> keeps of the new record and the old index, and of the output
  files, with the new one, those of dropped records and old files that no record names are gone.\<close>

lemma record_run_state:
  assumes "lg_index_writable s" and "lg_runs_writable s" and "lg_legacy s = Missing"
    and "record_run now secrets ids run_id kind target tname trigger status output started_at err s = (r, s')"
    and "select_kept now (run_record now secrets run_id kind target tname trigger status output started_at err # fst (read_index_file s)) run_id
       = (kept, dropped)"
  shows "r = run_id \<and> fst (read_index_file s') = kept
    \<and> lg_runs s' = filter (\<lambda>(r, (_, mtime)). r \<in> set (map ac_id kept) \<or> \<not> (mtime < now - MAX_AGE_DAYS * 86400))
        (filter (\<lambda>(r, _). r \<notin> set (map ac_id dropped) \<or> r = [])
          (dict_set run_id (py_join [NL] (flat_lines (redact secrets output)), now) (lg_runs s)))"
proof -
  let ?out = "redact secrets output" and ?es = "fst (read_index_file s)"
  let ?runs = "dict_set run_id (py_join [NL] (flat_lines ?out), now) (lg_runs s)"
  have wr: "write_output now run_id ?out s = (length (flat_lines ?out), s\<lparr>lg_runs := ?runs\<rparr>)"
    using assms(2) by (simp add: write_output_def)
  obtain s2 where load: "load_index now secrets ids (s\<lparr>lg_runs := ?runs\<rparr>) = (?es, s2)"
      and s2: "lg_index_writable s2" "lg_runs s2 = ?runs"
    using read_index_fields(1-3) [of "s\<lparr>lg_runs := ?runs\<rparr>"] read_index_fields(4) [where s = s and r = ?runs] assms(1,3)
    by (cases "read_index_file (s\<lparr>lg_runs := ?runs\<rparr>)") (auto simp: load_index_def migrate_legacy_log_def)
  let ?s3 = "s2\<lparr>lg_index := Data (Listing (map Some kept))\<rparr>"
  have s': "s' = sweep_aged_orphans now (map ac_id kept) (delete_output_files (map ac_id dropped) ?s3)"
    and r: "r = run_id"
    using assms(4) unfolding record_run_def Let_def wr prod.case load run_record_def [symmetric] assms(5)
    by (simp_all add: save_index_def s2)
  have index: "fst (read_index_file s') = kept"
    by (simp add: s' read_index_file_def sweep_aged_orphans_def delete_output_files_def Let_def)
  have runs: "lg_runs s' = filter (\<lambda>(r, (_, mtime)). r \<in> set (map ac_id kept) \<or> \<not> (mtime < now - MAX_AGE_DAYS * 86400))
      (filter (\<lambda>(r, _). r \<notin> set (map ac_id dropped) \<or> r = []) ?runs)"
    by (simp add: s' sweep_aged_orphans_def delete_output_files_def Let_def s2)
  from r index runs show ?thesis by blast
qed

lemma dropped_file_gone:
  assumes "ac_id e \<in> set dropped_ids" and "ac_id e \<noteq> []"
  shows "dict_get (filter P (filter (\<lambda>(r, _). r \<notin> set dropped_ids \<or> r = []) runs)) (ac_id e) = None"
proof -
  have "dict_get (filter (\<lambda>(r, _). r \<notin> set dropped_ids \<or> r = []) runs) (ac_id e) = None"
    using assms by (intro map_of_filter_drop) simp
  then show ?thesis by (auto simp: map_of_eq_None_iff)
qed

text \<open>C34. Recording a run returns its id and puts its record first in the index; the index holds at most
  500 records, no other record older than 90 days; the run's output reads back as the redacted
  lines, and the output file of every record that left the index is gone.\<close>
theorem record_run_stored:
  assumes "lg_index_writable s" and "lg_runs_writable s" and "lg_legacy s = Missing"
    and "run_id_ok run_id" and "run_id \<notin> ac_id ` set (fst (read_index_file s))"
    and "record_run now secrets ids run_id kind target tname trigger status output started_at err s = (r, s')"
  shows "r = run_id
    \<and> (\<exists>rest. fst (read_index_file s') =
          run_record now secrets run_id kind target tname trigger status output started_at err # rest
        \<and> length rest < 500 \<and> set rest \<subseteq> set (fst (read_index_file s))
        \<and> list_all (\<lambda>e. parse_ts (ac_started_at e) now \<ge> now - 90 * 86400) rest)
    \<and> get_run_output run_id s' = lines_read (flat_lines (redact secrets output))
    \<and> list_all (\<lambda>e. e \<in> set (fst (read_index_file s')) \<or> ac_id e \<in> ac_id ` set (fst (read_index_file s'))
          \<or> ac_id e = [] \<or> dict_get (lg_runs s') (ac_id e) = None) (fst (read_index_file s))"
proof -
  let ?out = "redact secrets output" and ?es = "fst (read_index_file s)"
  let ?rec = "run_record now secrets run_id kind target tname trigger status output started_at err"
  obtain kept dropped where sel: "select_kept now (?rec # ?es) run_id = (kept, dropped)"
    by (cases "select_kept now (?rec # ?es) run_id")
  have id: "ac_id ?rec = run_id" by (simp add: run_record_def)
  obtain rest where rest: "kept = ?rec # rest" "length kept \<le> 500" "set rest \<subseteq> set ?es"
      "set (?rec # ?es) \<subseteq> set kept \<union> set dropped" "set dropped \<subseteq> set ?es"
      "\<forall>x \<in> set rest. keeps now run_id x"
    using select_kept_protected [of now ?rec ?es kept dropped] sel id by (auto simp: MAX_ENTRIES_def)
  note state = record_run_state [OF assms(1-3,6) sel]
  have "run_id \<notin> set (map ac_id dropped)" using rest(5) assms(5) by auto
  moreover have "run_id \<in> set (map ac_id kept)" using rest(1) id by simp
  ultimately have "dict_get (lg_runs s') run_id = Some (py_join [NL] (flat_lines ?out), now)"
    unfolding conjunct2 [OF conjunct2 [OF state]] by (simp add: map_of_filter_keep dict_simps)
  then have read: "get_run_output run_id s' = lines_read (flat_lines ?out)"
    using assms(4) stored_lines [of ?out] by (simp add: get_run_output_def)
  have "keeps now run_id e \<Longrightarrow> e \<in> set rest \<Longrightarrow> parse_ts (ac_started_at e) now \<ge> now - 90 * 86400" for e
    using rest(3) assms(5) by (auto simp: keeps_def MAX_AGE_DAYS_def)
  then have young: "list_all (\<lambda>e. parse_ts (ac_started_at e) now \<ge> now - 90 * 86400) rest"
    using rest(6) by (auto simp: list_all_iff)
  have gone: "e \<in> set kept \<or> ac_id e \<in> ac_id ` set kept \<or> ac_id e = [] \<or> dict_get (lg_runs s') (ac_id e) = None"
    if "e \<in> set ?es" for e
  proof (cases "e \<in> set kept \<or> ac_id e = []")
    case False
    then have "ac_id e \<in> set (map ac_id dropped)" using that rest(4) by auto
    from dropped_file_gone [OF this] False have "dict_get (lg_runs s') (ac_id e) = None"
      unfolding conjunct2 [OF conjunct2 [OF state]] by blast
    then show ?thesis by blast
  qed (elim disjE, simp_all)
  have removed: "list_all (\<lambda>e. e \<in> set kept \<or> ac_id e \<in> ac_id ` set kept \<or> ac_id e = []
      \<or> dict_get (lg_runs s') (ac_id e) = None) ?es"
    unfolding list_all_iff by (rule ballI) (rule gone)
  have short: "length rest < 500" using rest(1,2) by simp
  show ?thesis unfolding conjunct1 [OF conjunct2 [OF state]]
    by (intro conjI exI [of _ rest]) (fact conjunct1 [OF state] rest(1) short rest(3) young read removed)+
qed

definition empty_log :: log_state where
  "empty_log = \<lparr>lg_index = Missing, lg_corrupt_kept = False, lg_runs = [], lg_legacy = Missing,
     lg_index_writable = True, lg_runs_writable = True\<rparr>"

theorem record_run_stored_witness:
  "get_run_output ''0badcafe'' (snd (record_run 100 [''hunter2222''] (\<lambda>_. []) ''0badcafe'' ''os_upgrade'' ''nas''
     ''NAS'' ''manual'' ''success'' [''pw hunter2222''] BadStamp [] empty_log)) = [''pw ***'']"
proof -
  have "run_id_ok ''0badcafe''" by code_simp
  moreover have "lines_read (flat_lines (redact [''hunter2222''] [''pw hunter2222''])) = [''pw ***'']"
    by code_simp
  ultimately show ?thesis
    using record_run_stored [of empty_log "''0badcafe''" 100 "[''hunter2222'']" "\<lambda>_. []" "''os_upgrade''"
        "''nas''" "''NAS''" "''manual''" "''success''" "[''pw hunter2222'']" BadStamp "[]"]
    by (cases "record_run 100 [''hunter2222''] (\<lambda>_. []) ''0badcafe'' ''os_upgrade'' ''nas''
     ''NAS'' ''manual'' ''success'' [''pw hunter2222''] BadStamp [] empty_log")
      (simp add: empty_log_def read_index_file_def)
qed

text \<open>A record that cannot be written to the index is reported with the empty id, and the index is not
  touched; nothing is raised.\<close>
theorem record_run_failure:
  assumes "\<not> lg_index_writable s" and "lg_legacy s = Missing"
  shows "fst (record_run now secrets ids run_id kind target tname trigger status output started_at err s) = []
    \<and> fst (read_index_file (snd (record_run now secrets ids run_id kind target tname trigger status output
        started_at err s))) = fst (read_index_file s)"
proof -
  obtain n s1 where w: "write_output now run_id (redact secrets output) s = (n, s1)"
    by (cases "write_output now run_id (redact secrets output) s")
  then have s1: "lg_index s1 = lg_index s" "\<not> lg_index_writable s1" "lg_legacy s1 = Missing"
    using assms by (auto simp: write_output_def split: if_splits)
  obtain es s2 where l: "load_index now secrets ids s1 = (es, s2)" by (cases "load_index now secrets ids s1")
  then have s2: "\<not> lg_index_writable s2" and idx: "fst (read_index_file s2) = fst (read_index_file s)"
    using s1 by (auto simp: load_index_def migrate_legacy_log_def read_index_file_def
        split: json_file.splits listing.splits)
  show ?thesis
    unfolding record_run_def w Let_def prod.case l
    using s2 idx by (simp add: save_index_def split: prod.splits)
qed

theorem record_run_failure_witness:
  "fst (record_run 100 [] (\<lambda>_. []) ''0badcafe'' ''os_upgrade'' ''nas'' ''NAS'' ''manual'' ''success'' [''x''] BadStamp []
     (empty_log\<lparr>lg_index_writable := False\<rparr>)) = []"
  using record_run_failure [of "empty_log\<lparr>lg_index_writable := False\<rparr>"] by (simp add: empty_log_def)

end
