(* ===== verification/Timekeeping.thy ===== *)
theory Timekeeping
  imports ActivityLog
begin

section \<open>Last checks, the refresh cache and the log buffer\<close>

text \<open>
  app/last_check.py, app/update_check_cache.py and app/log_buffer.py.  The clock is an argument;
  \<open>writable\<close> is false when writing the store raises, which \<open>_record\<close> swallows.
\<close>

subsection \<open>Last checks\<close>

text \<open>The stored object: the value of \<open>hosts\<close> when it is an object, and the container stamp.\<close>

record checks =
  ck_hosts :: "(string \<times> stamp) list"
  ck_containers :: "stamp option"

record stored_checks =
  sc_hosts :: "(string \<times> stamp) list option"
  sc_containers :: "stamp option"

datatype checks_json = ChecksObj stored_checks | NotObj

type_synonym checks_file = "checks_json json_file"

definition no_checks :: checks where
  "no_checks = \<lparr>ck_hosts = [], ck_containers = None\<rparr>"

definition load_checks :: "checks_file \<Rightarrow> checks" where
  "load_checks f =
     (case f of
        Data (ChecksObj o1) \<Rightarrow> \<lparr>ck_hosts = get_or (sc_hosts o1) [], ck_containers = sc_containers o1\<rparr>
      | _ \<Rightarrow> no_checks)"

definition save_checks :: "checks \<Rightarrow> checks_file" where
  "save_checks c = Data (ChecksObj \<lparr>sc_hosts = Some (ck_hosts c), sc_containers = ck_containers c\<rparr>)"

fun parse_stamp :: "stamp \<Rightarrow> time option" where
  "parse_stamp (Aware t) = Some t"
| "parse_stamp (Naive t) = Some t"
| "parse_stamp BadStamp = None"

definition parse_opt :: "stamp option \<Rightarrow> time option" where
  "parse_opt s = (case s of None \<Rightarrow> None | Some x \<Rightarrow> parse_stamp x)"

definition record_check :: "bool \<Rightarrow> (checks \<Rightarrow> checks) \<Rightarrow> checks_file \<Rightarrow> checks_file" where
  "record_check writable mutate f = (if writable then save_checks (mutate (load_checks f)) else f)"

definition record_host_check :: "bool \<Rightarrow> time \<Rightarrow> string \<Rightarrow> checks_file \<Rightarrow> checks_file" where
  "record_host_check writable now slug f =
     record_check writable (\<lambda>c. c\<lparr>ck_hosts := dict_set slug (Aware now) (ck_hosts c)\<rparr>) f"

definition record_container_check :: "bool \<Rightarrow> time \<Rightarrow> checks_file \<Rightarrow> checks_file" where
  "record_container_check writable now f =
     record_check writable (\<lambda>c. c\<lparr>ck_containers := Some (Aware now)\<rparr>) f"

definition min_opt :: "time list \<Rightarrow> time option" where
  "min_opt ts = (case ts of [] \<Rightarrow> None | t # r \<Rightarrow> Some (fold min r t))"

definition max_opt :: "time list \<Rightarrow> time option" where
  "max_opt ts = (case ts of [] \<Rightarrow> None | t # r \<Rightarrow> Some (fold max r t))"

definition oldest_host_check :: "string list \<Rightarrow> checks_file \<Rightarrow> time option" where
  "oldest_host_check slugs f =
     min_opt (List.map_filter (\<lambda>s. parse_opt (dict_get (ck_hosts (load_checks f)) s)) slugs)"

definition container_check :: "checks_file \<Rightarrow> time option" where
  "container_check f = parse_opt (ck_containers (load_checks f))"

definition last_scan :: "checks_file \<Rightarrow> time option" where
  "last_scan f =
     (let c = load_checks f
      in max_opt (List.map_filter (\<lambda>(k, v). parse_stamp v) (ck_hosts c)
           @ (case parse_opt (ck_containers c) of None \<Rightarrow> [] | Some t \<Rightarrow> [t])))"

text \<open>\<open>f"{int(x // d)}u ago"\<close> of a number of seconds.\<close>

definition ago :: "time \<Rightarrow> time \<Rightarrow> string \<Rightarrow> string" where
  "ago seconds d u = show_int \<lfloor>seconds / d\<rfloor> @ u @ '' ago''"

definition relative :: "time \<Rightarrow> time option \<Rightarrow> string" where
  "relative now whn =
     (case whn of
        None \<Rightarrow> ''never checked''
      | Some t \<Rightarrow>
          let seconds = now - t in
          if seconds < 60 then ''just now''
          else if seconds < 3600 then ago seconds 60 ''m''
          else if seconds < 86400 then ago seconds 3600 ''h''
          else ago seconds 86400 ''d'')"

subsection \<open>The refresh cache\<close>

type_synonym refreshes = "(string \<times> time) list"

definition is_cache_fresh :: "time \<Rightarrow> string \<Rightarrow> int \<Rightarrow> refreshes \<Rightarrow> bool" where
  "is_cache_fresh now key ttl_minutes c =
     (if ttl_minutes \<le> 0 then False
      else case dict_get c key of
             None \<Rightarrow> False
           | Some t \<Rightarrow> now - t < of_int (ttl_minutes * 60))"

definition mark_refreshed :: "time \<Rightarrow> string \<Rightarrow> refreshes \<Rightarrow> refreshes" where
  "mark_refreshed now key c = dict_set key now c"

definition clear_refreshes :: "refreshes \<Rightarrow> refreshes" where
  "clear_refreshes c = []"

subsection \<open>The log buffer\<close>

record log_line =
  ll_ts :: time
  ll_level :: string
  ll_msg :: string
  ll_css :: string

definition MAX_LINES :: nat where "MAX_LINES = 500"

definition LEVEL_CLASS :: "(string \<times> string) list" where
  "LEVEL_CLASS = [(''DEBUG'', ''text-slate-500''), (''INFO'', ''text-slate-300''),
     (''WARNING'', ''text-amber-400''), (''ERROR'', ''text-red-400''),
     (''CRITICAL'', ''text-red-300''), (''ACCESS'', ''text-slate-400'')]"

text \<open>Appending to a \<open>deque(maxlen=500)\<close> drops the oldest line.\<close>

definition emit_line :: "time \<Rightarrow> string \<Rightarrow> string \<Rightarrow> log_line list \<Rightarrow> log_line list" where
  "emit_line created level msg buf =
     (let buf' = buf @ [\<lparr>ll_ts = created, ll_level = level, ll_msg = msg,
                        ll_css = get_or (dict_get LEVEL_CLASS level) ''text-slate-300''\<rparr>]
      in drop (length buf' - MAX_LINES) buf')"

text \<open>\<open>lines[-limit:]\<close>, which is the whole list for a limit of zero.\<close>

definition get_log_lines :: "nat \<Rightarrow> log_line list \<Rightarrow> log_line list" where
  "get_log_lines limit buf = (if limit = 0 then buf else drop (length buf - limit) buf)"

subsection \<open>What the readers return\<close>

lemma min_opt_spec:
  "min_opt ts = Some t \<longleftrightarrow> t \<in> set ts \<and> (\<forall>u \<in> set ts. t \<le> u)"
proof (cases ts)
  case (Cons x xs)
  then have "min_opt ts = Some (Min (set ts))"
    by (simp add: min_opt_def Min.set_eq_fold del: list.set)
  moreover have "Min (set ts) = t \<longleftrightarrow> t \<in> set ts \<and> (\<forall>u \<in> set ts. t \<le> u)"
    using Cons by (intro Min_eq_iff) auto
  ultimately show ?thesis by simp
qed (simp add: min_opt_def)

lemma max_opt_spec:
  "max_opt ts = Some t \<longleftrightarrow> t \<in> set ts \<and> (\<forall>u \<in> set ts. u \<le> t)"
proof (cases ts)
  case (Cons x xs)
  then have "max_opt ts = Some (Max (set ts))"
    by (simp add: max_opt_def Max.set_eq_fold del: list.set)
  moreover have "Max (set ts) = t \<longleftrightarrow> t \<in> set ts \<and> (\<forall>u \<in> set ts. u \<le> t)"
    using Cons by (intro Max_eq_iff) auto
  ultimately show ?thesis by simp
qed (simp add: max_opt_def)

definition check_time :: "checks_file \<Rightarrow> string \<Rightarrow> time option" where
  "check_time f slug = parse_opt (dict_get (ck_hosts (load_checks f)) slug)"

text \<open>The oldest check of a list of hosts is the time of one of them that was ever checked, and no other of
  them was checked earlier; there is none exactly when none was ever checked.\<close>
theorem oldest_check_bound:
  "case oldest_host_check slugs f of
     Some t \<Rightarrow> (\<exists>s. s \<in> set slugs \<and> check_time f s = Some t)
        \<and> (\<forall>s u. check_time f s = Some u \<and> s \<in> set slugs \<longrightarrow> t \<le> u)
   | None \<Rightarrow> \<not> (\<exists>s. s \<in> set slugs \<and> check_time f s \<noteq> None)"
proof (cases "oldest_host_check slugs f")
  case None
  then have "List.map_filter (check_time f) slugs = []"
    by (auto simp: oldest_host_check_def check_time_def [abs_def] min_opt_def split: list.splits)
  then have "set (List.map_filter (check_time f) slugs) = {}" by simp
  then show ?thesis using None by (auto simp: set_map_filter) (metis not_None_eq)
next
  case (Some t)
  then have "min_opt (List.map_filter (check_time f) slugs) = Some t"
    by (simp add: oldest_host_check_def check_time_def [abs_def])
  then show ?thesis using Some by (auto simp: min_opt_spec set_map_filter)
qed

lemma load_save_checks [simp]: "load_checks (save_checks c) = c"
  by (simp add: load_checks_def save_checks_def)

lemma record_host_check_time:
  "check_time (record_host_check True now slug f) s = (if s = slug then Some now else check_time f s)"
  by (simp add: check_time_def record_host_check_def record_check_def dict_simps parse_opt_def)

lemma record_container_check_time: "container_check (record_container_check True now f) = Some now"
  by (simp add: container_check_def record_container_check_def record_check_def parse_opt_def)

text \<open>A write that fails leaves the store as it was.\<close>

lemma record_not_writable:
  "record_host_check False now slug f = f" "record_container_check False now f = f"
  by (simp_all add: record_host_check_def record_container_check_def record_check_def)

lemma map_of_update_values:
  "(k, v) \<in> set (dict_set j w d) \<Longrightarrow> (k, v) = (j, w) \<or> (k, v) \<in> set d"
  by (induction d) (auto split: if_splits)

lemma update_member: "(j, w) \<in> set (dict_set j w d)"
  by (induction d) auto

text \<open>Right after a host check is recorded, the last scan of anything is that check, when no recorded time
  lies in the future.\<close>
theorem last_scan_after_check:
  assumes "\<And>t. last_scan f = Some t \<Longrightarrow> t \<le> now"
  shows "last_scan (record_host_check True now slug f) = Some now"
proof -
  let ?c = "load_checks f"
  let ?hs = "List.map_filter (\<lambda>(k, v). parse_stamp v) (ck_hosts ?c)"
  let ?cs = "case parse_opt (ck_containers ?c) of None \<Rightarrow> [] | Some t \<Rightarrow> [t]"
  have old: "u \<le> now" if "u \<in> set (?hs @ ?cs)" for u
  proof (cases "max_opt (?hs @ ?cs)")
    case None
    with that show ?thesis by (cases "?hs @ ?cs") (auto simp: max_opt_def)
  next
    case (Some m)
    then have "last_scan f = Some m" by (simp add: last_scan_def Let_def)
    with assms have "m \<le> now" by blast
    moreover have "u \<le> m" using Some that by (auto simp: max_opt_spec)
    ultimately show ?thesis by simp
  qed
  let ?hs' = "List.map_filter (\<lambda>(k, v). parse_stamp v) (dict_set slug (Aware now) (ck_hosts ?c))"
  have "now \<in> set ?hs'" using update_member by (force simp: set_map_filter)
  moreover have "u \<le> now" if "u \<in> set (?hs' @ ?cs)" for u
  proof -
    have "u \<in> set ?hs' \<Longrightarrow> u = now \<or> u \<in> set ?hs"
      using map_of_update_values by (fastforce simp: set_map_filter)
    with that old show ?thesis by auto
  qed
  ultimately have "max_opt (?hs' @ ?cs) = Some now" by (simp add: max_opt_spec)
  then show ?thesis
    by (simp add: last_scan_def record_host_check_def record_check_def Let_def)
qed

theorem last_scan_after_check_witness:
  "last_scan (record_host_check True 50 ''nas'' (save_checks \<lparr>ck_hosts = [(''pi'', Naive 20)],
     ck_containers = Some (Aware 30)\<rparr>)) = Some 50"
proof (rule last_scan_after_check)
  fix t assume "last_scan (save_checks \<lparr>ck_hosts = [(''pi'', Naive 20)], ck_containers = Some (Aware 30)\<rparr>) = Some t"
  then show "t \<le> 50" by (simp add: last_scan_def max_opt_def parse_opt_def max_def)
qed

text \<open>A refresh is fresh exactly while less than the time to live has passed since the key's last mark;
  a time to live of zero or less switches the cache off, and other keys are not affected.\<close>
theorem refresh_cache_window:
  "is_cache_fresh now key ttl (mark_refreshed t k c) \<longleftrightarrow>
     ttl > 0 \<and> (if key = k then now - t < of_int (ttl * 60) else is_cache_fresh now key ttl c)"
  by (auto simp: is_cache_fresh_def mark_refreshed_def dict_simps)

lemma emit_line_last:
  "length buf \<le> MAX_LINES \<Longrightarrow> emit_line t l m buf = drop (length buf + 1 - MAX_LINES) buf
     @ [\<lparr>ll_ts = t, ll_level = l, ll_msg = m, ll_css = get_or (dict_get LEVEL_CLASS l) ''text-slate-300''\<rparr>]"
  by (simp add: emit_line_def Let_def MAX_LINES_def)

definition as_line :: "time \<times> string \<times> string \<Rightarrow> log_line" where
  "as_line e = (case e of (t, l, m) \<Rightarrow>
     \<lparr>ll_ts = t, ll_level = l, ll_msg = m, ll_css = get_or (dict_get LEVEL_CLASS l) ''text-slate-300''\<rparr>)"

lemma drop_last_snoc: "drop (Suc n - m) (xs @ [x]) = drop (Suc (length ys) - m) (ys @ [x])"
  if "n = length xs" and "ys = drop (n - m) xs" and "0 < m" for xs ys :: "'a list"
  using that by (cases "n \<le> m") (auto simp: Suc_diff_le)

text \<open>After any sequence of records the buffer holds the last five hundred of them, in order.\<close>
theorem log_buffer_tail:
  "fold (\<lambda>(t, l, m). emit_line t l m) es [] = drop (length es - 500) (map as_line es)"
proof (induction es rule: rev_induct)
  case (snoc e es)
  obtain t l m where e: "e = (t, l, m)" by (cases e)
  let ?buf = "drop (length es - 500) (map as_line es)"
  have "emit_line t l m ?buf = drop (Suc (length ?buf) - 500) (?buf @ [as_line e])"
    by (simp add: emit_line_def Let_def MAX_LINES_def as_line_def e)
  also have "\<dots> = drop (Suc (length es) - 500) (map as_line es @ [as_line e])"
    by (rule drop_last_snoc [symmetric]) simp_all
  finally show ?case using snoc e by simp
qed simp

end
