(* ===== verification/SshClient.thy ===== *)
theory SshClient
  imports PackageManagers Timekeeping
begin

section \<open>SSH operations on hosts (app/ssh_client.py)\<close>

text \<open>
  Commands over SSH.  asyncssh is two parameters: \<open>dial\<close> opens a connection (\<open>None\<close>) or raises,
  and \<open>transport\<close> answers a command given the commands already run, so a remote machine with state
  is covered.  Every operation returns its result and the list of commands it ran.  A command
  is what is sent, its standard input and the time budget it is awaited with.
\<close>

subsection \<open>Connections\<close>

record ssh_host =
  sh_name :: "string option"
  sh_host :: string
  sh_user :: "string option"
  sh_port :: "int option"
  sh_key :: "string option"
  sh_slug :: "string option"

record ssh_creds =
  sx_password :: "string option"
  sx_key :: "string option"
  sx_key_path :: "string option"
  sx_sudo :: "string option"

datatype ssh_auth = Password string | PrivateKey string | KeyFile string | NoAuth

record conn_args =
  ca_host :: string
  ca_port :: int
  ca_username :: string
  ca_auth :: ssh_auth

type_synonym dial = "conn_args \<Rightarrow> exn option"

record run_result =
  rr_stdout :: string
  rr_stderr :: string
  rr_returncode :: "int option"
  rr_signal :: "string option"

datatype sh_out = Done run_result | TimedOut | RunExn exn

record sh_call =
  sk_cmd :: string
  sk_input :: "string option"
  sk_timeout :: "int option"

type_synonym transport = "sh_call list \<Rightarrow> sh_call \<Rightarrow> sh_out"

definition CONNECT_TIMEOUT :: int where "CONNECT_TIMEOUT = 15"
definition CHECK_TIMEOUT :: int where "CHECK_TIMEOUT = 60"
definition UPGRADE_TIMEOUT_DEFAULT :: int where "UPGRADE_TIMEOUT_DEFAULT = 3600"

definition needs_sudo_for :: "ssh_host \<Rightarrow> bool" where
  "needs_sudo_for h \<longleftrightarrow> get_or (sh_user h) [] \<noteq> ''root''"

definition connect_auth :: "ssh_host \<Rightarrow> ssh_creds \<Rightarrow> ssh_auth" where
  "connect_auth h c =
     (if truthy_s (sx_password c) then Password (the (sx_password c))
      else if truthy_s (sx_key c) then PrivateKey (the (sx_key c))
      else if truthy_s (sx_key_path c) then KeyFile (the (sx_key_path c))
      else if truthy_s (sh_key h) then KeyFile (the (sh_key h))
      else NoAuth)"

text \<open>\<open>_connect\<close>: the arguments of \<open>asyncssh.connect\<close>, or the error for a host without a user.\<close>

definition connect_args :: "ssh_host \<Rightarrow> ssh_creds \<Rightarrow> conn_args res" where
  "connect_args h c =
     (let user = py_strip (get_or (sh_user h) []) in
      if user = []
      then raise ''ValueError'' (''Host '' @ py_repr (get_or (sh_name h) (sh_host h))
        @ '' has no SSH user configured. Set the SSH user in Admin '' @ [CHR 0xE2, CHR 0x80, CHR 0xBA]
        @ '' Hosts.'')
      else Inr \<lparr>ca_host = sh_host h, ca_port = get_or (sh_port h) 22, ca_username = user,
                ca_auth = connect_auth h c\<rparr>)"

definition connect :: "dial \<Rightarrow> ssh_host \<Rightarrow> ssh_creds \<Rightarrow> unit res" where
  "connect dial h c =
     (case connect_args h c of
        Inl e \<Rightarrow> Inl e
      | Inr a \<Rightarrow> (case dial a of Some e \<Rightarrow> Inl e | None \<Rightarrow> Inr ()))"

subsection \<open>Running a command\<close>

text \<open>\<open>shlex.quote\<close>.\<close>

definition shlex_safe :: "char \<Rightarrow> bool" where
  "shlex_safe c \<longleftrightarrow> is_lower c \<or> is_upper c \<or> is_digit c \<or> c \<in> set ''_@%+=:,./-''"

definition shlex_quote :: "string \<Rightarrow> string" where
  "shlex_quote s =
     (if s = [] then [QUOTE, QUOTE]
      else if list_all shlex_safe s then s
      else QUOTE # concat (map (\<lambda>c. if c = QUOTE then [QUOTE, DQUOTE, QUOTE, DQUOTE, QUOTE] else [c]) s)
           @ [QUOTE])"

definition wrap_command :: "string \<Rightarrow> string option \<Rightarrow> bool \<Rightarrow> string \<times> string option" where
  "wrap_command cmd sudo_password needs_sudo =
     (if needs_sudo
      then let wrapped = ''sh -c '' @ shlex_quote cmd in
        if truthy_s sudo_password then (''sudo -S '' @ wrapped, Some (the sudo_password @ [NL]))
        else (''sudo -n '' @ wrapped, None)
      else (cmd, None))"

definition timeout_exn :: exn where "timeout_exn = Exn ''TimeoutError'' [] []"

definition run_cmd ::
  "transport \<Rightarrow> string \<Rightarrow> string option \<Rightarrow> bool \<Rightarrow> int option \<Rightarrow> sh_call list
     \<Rightarrow> run_result res \<times> sh_call list" where
  "run_cmd tr cmd sudo_password needs_sudo timeout hist =
     (let (full, inp) = wrap_command cmd sudo_password needs_sudo;
          call = \<lparr>sk_cmd = full, sk_input = inp, sk_timeout = timeout\<rparr>
      in (case tr hist call of
            Done r \<Rightarrow> Inr r
          | TimedOut \<Rightarrow> Inl timeout_exn
          | RunExn e \<Rightarrow> Inl e,
          hist @ [call]))"

definition detect_pm ::
  "transport \<Rightarrow> string option \<Rightarrow> bool \<Rightarrow> int option \<Rightarrow> sh_call list \<Rightarrow> pm res \<times> sh_call list" where
  "detect_pm tr sudo_password needs_sudo budget hist =
     (case run_cmd tr DETECT_CMD sudo_password needs_sudo budget hist of
        (Inl e, h) \<Rightarrow> (Inl e, h)
      | (Inr r, h) \<Rightarrow> (Inr (get_package_manager (py_strip (rr_stdout r))), h))"

subsection \<open>Upgrade failures\<close>

definition ERROR_PREFIXES :: "string list" where
  "ERROR_PREFIXES = [''E:'', ''error'', ''Error'', ''ERROR'', ''dpkg:'', ''sudo:'']"

definition show_code :: "int option \<Rightarrow> string" where
  "show_code c = (case c of None \<Rightarrow> ''None'' | Some i \<Rightarrow> show_int i)"

definition how_ended :: "string \<Rightarrow> run_result \<Rightarrow> string" where
  "how_ended tool r =
     (if rr_returncode r = None \<and> truthy_s (rr_signal r)
      then tool @ '' was killed by signal '' @ the (rr_signal r)
      else tool @ '' exited with status '' @ show_code (rr_returncode r))"

definition error_line :: "string \<Rightarrow> bool" where
  "error_line l \<longleftrightarrow> list_ex (starts_with l) ERROR_PREFIXES"

definition full_stop :: "string \<Rightarrow> string" where
  "full_stop message =
     (if list_ex (ends_with message) [''.'', ''?'', ''!''] then message else message @ ''.'')"

definition failure_message :: "string \<Rightarrow> string \<Rightarrow> run_result \<Rightarrow> string list \<Rightarrow> string" where
  "failure_message target tool r out =
     (let ended = how_ended tool r;
          printed = filter (\<lambda>l. l \<noteq> []) (map py_strip out);
          errors = filter error_line printed;
          message =
            (if printed \<noteq> []
             then ''Upgrade failed on '' @ target @ '' ('' @ ended @ ''): ''
                    @ last (if errors \<noteq> [] then errors else printed)
             else ''Upgrade failed on '' @ target @ '': '' @ ended @ '' and printed nothing'')
      in full_stop message)"

definition upgrade_failure :: "string \<Rightarrow> string \<Rightarrow> run_result \<Rightarrow> string list \<Rightarrow> string \<Rightarrow> exn" where
  "upgrade_failure target tool r out hint =
     Exn ''UpgradeFailed'' (failure_message target tool r out @ '' '' @ hint) out"

text \<open>\<open>KEEPUP_UPGRADE_TIMEOUT\<close>.\<close>

definition upgrade_timeout :: "string option \<Rightarrow> int" where
  "upgrade_timeout env =
     (case env of
        None \<Rightarrow> UPGRADE_TIMEOUT_DEFAULT
      | Some s \<Rightarrow>
          (case py_int s of
             Some v \<Rightarrow> if v > 0 then v else UPGRADE_TIMEOUT_DEFAULT
           | None \<Rightarrow> UPGRADE_TIMEOUT_DEFAULT))"

text \<open>The dash of the timeout messages, in UTF-8.\<close>

definition DASH :: string where "DASH = [CHR 0xE2, CHR 0x80, CHR 0x94]"

subsection \<open>Operations\<close>

definition verify_connection ::
  "dial \<Rightarrow> transport \<Rightarrow> ssh_host \<Rightarrow> ssh_creds \<Rightarrow> (bool \<times> string) \<times> sh_call list" where
  "verify_connection dial tr h c =
     (case connect dial h c of
        Inl e \<Rightarrow> ((False, exn_str e), [])
      | Inr _ \<Rightarrow>
          (case run_cmd tr ''echo ok'' None False None [] of
             (Inl e, hs) \<Rightarrow> ((False, exn_str e), hs)
           | (Inr r, hs) \<Rightarrow>
               (if py_strip (rr_stdout r) = ''ok'' then (True, ''Connected successfully.'')
                else (False, ''Connected but command returned unexpected output.''), hs)))"

definition DOCKER_PS :: string where
  "DOCKER_PS = ''docker ps --format '' @ [QUOTE] @ ''{'' @ [DQUOTE] @ ''name'' @ [DQUOTE] @ '':'' @ [DQUOTE]
     @ ''{{.Names}}'' @ [DQUOTE] @ '','' @ [DQUOTE] @ ''image'' @ [DQUOTE] @ '':'' @ [DQUOTE]
     @ ''{{.Image}}'' @ [DQUOTE] @ ''}'' @ [QUOTE]"

text \<open>One line of \<open>docker ps\<close>; a line that is not a JSON object is skipped.\<close>

definition container_line :: "(string \<Rightarrow> json option) \<Rightarrow> string \<Rightarrow> (json \<times> json) option" where
  "container_line loads line0 =
     (let line = py_strip line0 in
      if line = [] then None
      else case loads line of
             Some (JObj d) \<Rightarrow>
               let n = get_or (dict_get d ''name'') (JStr []) in
               if json_truthy n then Some (n, get_or (dict_get d ''image'') (JStr [])) else None
           | _ \<Rightarrow> None)"

definition discover_containers ::
  "(string \<Rightarrow> json option) \<Rightarrow> dial \<Rightarrow> transport \<Rightarrow> ssh_host \<Rightarrow> ssh_creds
     \<Rightarrow> (json \<times> json) list \<times> sh_call list" where
  "discover_containers loads dial tr h c =
     (case connect dial h c of
        Inl e \<Rightarrow> ([], [])
      | Inr _ \<Rightarrow>
          (case run_cmd tr DOCKER_PS (sx_sudo c) (needs_sudo_for h) None [] of
             (Inl e, hs) \<Rightarrow> ([], hs)
           | (Inr r, hs) \<Rightarrow>
               (List.map_filter (container_line loads) (py_lines (py_strip (rr_stdout r))), hs)))"

definition COMPOSE_LS :: string where
  "COMPOSE_LS = ''docker compose ls --all --format json 2>/dev/null || echo '' @ [QUOTE] @ ''[]'' @ [QUOTE]"

definition detect_docker_stacks ::
  "(string \<Rightarrow> json option) \<Rightarrow> dial \<Rightarrow> transport \<Rightarrow> ssh_host \<Rightarrow> ssh_creds \<Rightarrow> int \<times> sh_call list" where
  "detect_docker_stacks loads dial tr h c =
     (case connect dial h c of
        Inl e \<Rightarrow> (- 1, [])
      | Inr _ \<Rightarrow>
          (case run_cmd tr COMPOSE_LS (sx_sudo c) (needs_sudo_for h) None [] of
             (Inl e, hs) \<Rightarrow> (- 1, hs)
           | (Inr r, hs) \<Rightarrow>
               (let out = py_strip (rr_stdout r) in
                case loads (if out \<noteq> [] then out else ''[]'') of
                  None \<Rightarrow> - 1
                | Some (JList l) \<Rightarrow> int (length l)
                | Some _ \<Rightarrow> 0, hs)))"

record host_check =
  hc_packages :: "package list"
  hc_reboot_required :: bool
  hc_package_manager :: string

text \<open>The check reads the clock once for the cache test and once when it marks the refresh.\<close>

definition ssh_cache_key :: "ssh_host \<Rightarrow> string" where
  "ssh_cache_key h = ''ssh:'' @ or_s (sh_slug h) (sh_host h)"

definition check_host_updates ::
  "int \<Rightarrow> time \<Rightarrow> time \<Rightarrow> dial \<Rightarrow> transport \<Rightarrow> ssh_host \<Rightarrow> ssh_creds \<Rightarrow> refreshes
     \<Rightarrow> host_check res \<times> sh_call list \<times> refreshes" where
  "check_host_updates ttl now0 now1 dial tr h c cache =
     (let key = ssh_cache_key h;
          refresh = (\<not> is_cache_fresh now0 key ttl cache)
      in case connect dial h c of
           Inl e \<Rightarrow> (Inl e, [], cache)
         | Inr _ \<Rightarrow>
             (case detect_pm tr (sx_sudo c) (needs_sudo_for h) (Some CHECK_TIMEOUT) [] of
                (Inl e, hs) \<Rightarrow> (Inl e, hs, cache)
              | (Inr p, hs) \<Rightarrow>
                  (case run_cmd tr (list_cmd p refresh) (sx_sudo c) (needs_sudo_for h) (Some CHECK_TIMEOUT) hs of
                     (Inl e, hs2) \<Rightarrow> (Inl e, hs2, cache)
                   | (Inr r, hs2) \<Rightarrow>
                       let (packages, reboot) = pm_parse p (rr_stdout r)
                       in (Inr \<lparr>hc_packages = packages, hc_reboot_required = reboot,
                               hc_package_manager = pm_name p\<rparr>,
                           hs2, if refresh then mark_refreshed now1 key cache else cache))))"

definition REBOOT_CMD :: string where
  "REBOOT_CMD = ''nohup sh -c '' @ [QUOTE] @ ''sleep 2 && reboot'' @ [QUOTE] @ '' >/dev/null 2>&1 &''"

definition reboot_host :: "dial \<Rightarrow> transport \<Rightarrow> ssh_host \<Rightarrow> ssh_creds \<Rightarrow> string list res \<times> sh_call list" where
  "reboot_host dial tr h c =
     (case connect dial h c of
        Inl e \<Rightarrow> (Inl e, [])
      | Inr _ \<Rightarrow>
          (case run_cmd tr REBOOT_CMD (sx_sudo c) (needs_sudo_for h) None [] of
             (Inl e, hs) \<Rightarrow> (Inl e, hs)
           | (Inr _, hs) \<Rightarrow> (Inr [''Reboot initiated '' @ DASH @ '' server will be back in ~30 seconds.''], hs)))"

definition upgrade_timed_out :: "int \<Rightarrow> string \<Rightarrow> string \<Rightarrow> string \<Rightarrow> exn" where
  "upgrade_timed_out timeout prep target hint =
     Exn ''UpgradeTimeout'' (''Upgrade timed out after '' @ show_int timeout @ ''s. The package transaction ''
       @ ''may still be running '' @ prep @ '' '' @ target @ '' '' @ DASH @ '' do not re-run it blindly. '' @ hint) []"

definition upgrade_outcome :: "string \<Rightarrow> pm \<Rightarrow> run_result \<Rightarrow> string list res" where
  "upgrade_outcome target p r =
     (let out = py_lines (rr_stdout r) in
      if (case rr_returncode r of Some code \<Rightarrow> code \<in> set (upgrade_ok_codes p) | None \<Rightarrow> False)
      then Inr out
      else Inl (upgrade_failure target (pm_name p) r
             (if rr_stderr r \<noteq> [] then out @ py_lines (rr_stderr r) else out) (recovery_hint p)))"

definition run_host_update_buffered ::
  "string option \<Rightarrow> dial \<Rightarrow> transport \<Rightarrow> ssh_host \<Rightarrow> ssh_creds \<Rightarrow> string list res \<times> sh_call list" where
  "run_host_update_buffered env dial tr h c =
     (let timeout = upgrade_timeout env in
      case connect dial h c of
        Inl e \<Rightarrow> (Inl e, [])
      | Inr _ \<Rightarrow>
          (case detect_pm tr (sx_sudo c) (needs_sudo_for h) None [] of
             (Inl e, hs) \<Rightarrow> (Inl e, hs)
           | (Inr p, hs) \<Rightarrow>
               (case run_cmd tr (upgrade_cmd p) (sx_sudo c) (needs_sudo_for h) (Some timeout) hs of
                  (Inl e, hs2) \<Rightarrow>
                    (Inl (if exn_class e = ''TimeoutError''
                          then upgrade_timed_out timeout ''on'' (sh_host h) (recovery_hint p) else e), hs2)
                | (Inr r, hs2) \<Rightarrow> (upgrade_outcome (sh_host h) p r, hs2))))"

subsection \<open>The words a shell reads\<close>

text \<open>
  The splitting of a simple command into words by a POSIX shell: blanks separate words, single
  quotes keep everything, double quotes keep what has no special meaning in them.  \<open>None\<close> stands
  for an unclosed quote or a character with a meaning of its own.
\<close>

datatype quoting = Bare | Single | Double

definition close_word :: "string option \<Rightarrow> string list" where
  "close_word w = (case w of None \<Rightarrow> [] | Some x \<Rightarrow> [rev x])"

fun sh_words :: "quoting \<Rightarrow> string option \<Rightarrow> string \<Rightarrow> string list option" where
  "sh_words m w [] = (if m = Bare then Some (close_word w) else None)"
| "sh_words Bare w (c # s) =
     (if c = CHR '' '' \<or> c = TAB then map_option (\<lambda>r. close_word w @ r) (sh_words Bare None s)
      else if c = QUOTE then sh_words Single (Some (get_or w [])) s
      else if c = DQUOTE then sh_words Double (Some (get_or w [])) s
      else if shlex_safe c then sh_words Bare (Some (c # get_or w [])) s
      else None)"
| "sh_words Single w (c # s) =
     (if c = QUOTE then sh_words Bare w s else sh_words Single (Some (c # get_or w [])) s)"
| "sh_words Double w (c # s) =
     (if c = DQUOTE then sh_words Bare w s
      else if c \<in> {CHR ''$'', CHR 0x60, CHR 0x5C, CHR ''!''} then None
      else sh_words Double (Some (c # get_or w [])) s)"

lemma shlex_safe_plain: "shlex_safe c \<Longrightarrow> c \<noteq> CHR '' '' \<and> c \<noteq> TAB \<and> c \<noteq> QUOTE \<and> c \<noteq> DQUOTE"
  by (auto simp: shlex_safe_def is_lower_def is_upper_def is_digit_def TAB_def QUOTE_def DQUOTE_def)

lemma sh_words_safe:
  "list_all shlex_safe s \<Longrightarrow> s \<noteq> [] \<Longrightarrow>
     sh_words Bare w (s @ r) = sh_words Bare (Some (rev s @ get_or w [])) r"
proof (induction s arbitrary: w)
  case (Cons c s)
  then show ?case using shlex_safe_plain [of c] by (cases s) simp_all
qed simp

lemma sh_words_quoted:
  "sh_words Single (Some w)
     (concat (map (\<lambda>c. if c = QUOTE then [QUOTE, DQUOTE, QUOTE, DQUOTE, QUOTE] else [c]) s) @ QUOTE # r) =
   sh_words Bare (Some (rev s @ w)) r"
proof (induction s arbitrary: w)
  case (Cons c s)
  have "QUOTE \<noteq> CHR '' ''" "QUOTE \<noteq> TAB" "DQUOTE \<noteq> CHR '' ''" "DQUOTE \<noteq> TAB" "DQUOTE \<noteq> QUOTE"
    "QUOTE \<notin> {CHR ''$'', CHR 0x60, CHR 0x5C, CHR ''!''}"
    by (simp_all add: QUOTE_def DQUOTE_def TAB_def)
  then show ?case using Cons by auto
qed simp

lemma sh_words_quote: "sh_words Bare None (shlex_quote s) = Some [s]"
proof (cases "s = []")
  case True
  then show ?thesis by (simp add: shlex_quote_def close_word_def QUOTE_def TAB_def)
next
  case False
  show ?thesis
  proof (cases "list_all shlex_safe s")
    case True
    then show ?thesis
      using False sh_words_safe [of s None "[]"] by (simp add: shlex_quote_def close_word_def)
  next
    case nsafe: False
    have "QUOTE \<noteq> CHR '' ''" "QUOTE \<noteq> TAB" by (simp_all add: QUOTE_def TAB_def)
    then show ?thesis
      using False nsafe sh_words_quoted [of "[]" s "[]"] by (simp add: shlex_quote_def close_word_def)
  qed
qed

lemma sh_words_next:
  assumes "list_all shlex_safe a" and "a \<noteq> []"
  shows "sh_words Bare None (a @ CHR '' '' # r) = map_option (\<lambda>ws. a # ws) (sh_words Bare None r)"
  using sh_words_safe [OF assms, of None "CHR '' '' # r"]
  by (cases "sh_words Bare None r") (simp_all add: close_word_def)

text \<open>C25. Under sudo a command, whatever characters it holds, reaches the shell that sudo starts as one argument,
  unchanged; the password goes to standard input only, and without one sudo is told not to ask.\<close>
theorem sudo_command_intact:
  "sh_words Bare None (fst (wrap_command cmd pw True)) =
     Some [''sudo'', if truthy_s pw then ''-S'' else ''-n'', ''sh'', ''-c'', cmd]
   \<and> snd (wrap_command cmd pw True) = (if truthy_s pw then Some (the pw @ [NL]) else None)"
proof -
  have safe: "list_all shlex_safe ''sudo'' \<and> list_all shlex_safe ''-S'' \<and> list_all shlex_safe ''-n''
      \<and> list_all shlex_safe ''sh'' \<and> list_all shlex_safe ''-c''"
    by code_simp
  have "sh_words Bare None (''sudo'' @ CHR '' '' # flag @ CHR '' '' # ''sh'' @ CHR '' '' # ''-c'' @ CHR '' ''
      # shlex_quote cmd) = Some [''sudo'', flag, ''sh'', ''-c'', cmd]"
    if "flag = ''-S'' \<or> flag = ''-n''" for flag
  proof -
    have "list_all shlex_safe flag" "flag \<noteq> []" using that safe by auto
    then show ?thesis using safe by (simp only: sh_words_next sh_words_quote option.map list.distinct simp_thms)
  qed
  from this [of "''-S''"] this [of "''-n''"] show ?thesis
    by (simp add: wrap_command_def Let_def)
qed

subsection \<open>Upgrades that return\<close>

lemma run_cmd_Inr:
  "run_cmd tr cmd pw sudo t hs = (Inr r, hs') \<Longrightarrow>
     hs' = hs @ [\<lparr>sk_cmd = fst (wrap_command cmd pw sudo), sk_input = snd (wrap_command cmd pw sudo), sk_timeout = t\<rparr>]
     \<and> tr hs (last hs') = Done r"
  by (auto simp: run_cmd_def Let_def split: prod.splits sh_out.splits)

text \<open>C26. An upgrade reports success only when the upgrade command itself was the last command run and exited
  with a status its package manager counts as success; the lines returned are that command's output.\<close>
theorem upgrade_success_sound:
  assumes "run_host_update_buffered env dial tr h c = (Inr out, hs)"
  shows "\<exists>p r code. hs \<noteq> [] \<and> sk_cmd (last hs) = fst (wrap_command (upgrade_cmd p) (sx_sudo c) (needs_sudo_for h))
    \<and> tr (butlast hs) (last hs) = Done r \<and> rr_returncode r = Some code
    \<and> code \<in> set (upgrade_ok_codes p) \<and> out = py_lines (rr_stdout r)
    \<and> sk_timeout (last hs) = Some (upgrade_timeout env)"
proof -
  obtain p hs1 where "detect_pm tr (sx_sudo c) (needs_sudo_for h) None [] = (Inr p, hs1)"
    and run: "(case run_cmd tr (upgrade_cmd p) (sx_sudo c) (needs_sudo_for h) (Some (upgrade_timeout env)) hs1 of
        (Inl e, hs2) \<Rightarrow>
          (Inl (if exn_class e = ''TimeoutError''
                then upgrade_timed_out (upgrade_timeout env) ''on'' (sh_host h) (recovery_hint p) else e), hs2)
      | (Inr r, hs2) \<Rightarrow> (upgrade_outcome (sh_host h) p r, hs2)) = (Inr out, hs)"
    using assms by (auto simp: run_host_update_buffered_def Let_def split: prod.splits sum.splits)
  then obtain r where r: "run_cmd tr (upgrade_cmd p) (sx_sudo c) (needs_sudo_for h) (Some (upgrade_timeout env)) hs1 = (Inr r, hs)"
    and out: "upgrade_outcome (sh_host h) p r = Inr out"
    by (auto split: prod.splits sum.splits)
  note call = run_cmd_Inr [OF r]
  have "\<exists>code. rr_returncode r = Some code \<and> code \<in> set (upgrade_ok_codes p) \<and> out = py_lines (rr_stdout r)"
    using out by (auto simp: upgrade_outcome_def Let_def split: if_splits option.splits)
  then show ?thesis using call by (intro exI [of _ p] exI [of _ r]) auto
qed

definition demo_host :: ssh_host where
  "demo_host = \<lparr>sh_name = None, sh_host = ''nas'', sh_user = Some ''root'', sh_port = None, sh_key = None, sh_slug = None\<rparr>"

definition no_creds :: ssh_creds where
  "no_creds = \<lparr>sx_password = None, sx_key = None, sx_key_path = None, sx_sudo = None\<rparr>"

definition demo_remote :: transport where
  "demo_remote hs call =
     (if sk_cmd call = DETECT_CMD then Done \<lparr>rr_stdout = ''zypper'', rr_stderr = [], rr_returncode = Some 0, rr_signal = None\<rparr>
      else Done \<lparr>rr_stdout = ''ok'', rr_stderr = [], rr_returncode = Some 102, rr_signal = None\<rparr>)"

lemma demo_upgrade:
  "run_host_update_buffered None (\<lambda>_. None) demo_remote demo_host no_creds =
     (Inr [''ok''], [\<lparr>sk_cmd = DETECT_CMD, sk_input = None, sk_timeout = None\<rparr>,
        \<lparr>sk_cmd = zypper_upgrade_cmd, sk_input = None, sk_timeout = Some 3600\<rparr>])"
  by code_simp

theorem upgrade_success_sound_witness:
  "\<exists>p r code. demo_remote [\<lparr>sk_cmd = DETECT_CMD, sk_input = None, sk_timeout = None\<rparr>]
       \<lparr>sk_cmd = zypper_upgrade_cmd, sk_input = None, sk_timeout = Some 3600\<rparr> = Done r
     \<and> rr_returncode r = Some code \<and> code \<in> set (upgrade_ok_codes p)"
  using upgrade_success_sound [OF demo_upgrade] by auto

lemma ends_with_last: "ends_with t [d] \<Longrightarrow> t \<noteq> [] \<and> last t = d"
  by (cases t rule: rev_cases) (auto simp: ends_with_def)

lemma full_stop_last: "last (full_stop m) \<in> set ''.?!'' \<and> full_stop m \<noteq> []"
proof (cases "list_ex (ends_with m) [''.'', ''?'', ''!'']")
  case True
  then have "ends_with m ''.'' \<or> ends_with m ''?'' \<or> ends_with m ''!''" by simp
  then show ?thesis using True ends_with_last [of m] by (auto simp: full_stop_def)
qed (simp add: full_stop_def)

text \<open>A command that ends with another status raises \<open>UpgradeFailed\<close>, which keeps everything it printed, and
  whose message ends in the recovery hint.\<close>
theorem upgrade_failure_reported:
  assumes "\<not> (\<exists>code. rr_returncode r = Some code \<and> code \<in> set (upgrade_ok_codes p))"
  shows "\<exists>e. upgrade_outcome target p r = Inl e \<and> exn_class e = ''UpgradeFailed''
    \<and> exn_lines e = py_lines (rr_stdout r) @ py_lines (rr_stderr r)
    \<and> (\<exists>m. exn_str e = m @ '' '' @ recovery_hint p \<and> m \<noteq> [] \<and> last m \<in> set ''.?!'')"
proof -
  let ?out = "py_lines (rr_stdout r) @ py_lines (rr_stderr r)"
  let ?m = "failure_message target (pm_name p) r ?out"
  have cond: "\<not> (case rr_returncode r of Some code \<Rightarrow> code \<in> set (upgrade_ok_codes p) | None \<Rightarrow> False)"
    using assms by (auto split: option.splits)
  have "upgrade_outcome target p r = Inl (upgrade_failure target (pm_name p) r ?out (recovery_hint p))"
    using cond by (simp add: upgrade_outcome_def Let_def)
  moreover have "last ?m \<in> set ''.?!'' \<and> ?m \<noteq> []"
    unfolding failure_message_def Let_def by (rule full_stop_last)
  ultimately show ?thesis unfolding upgrade_failure_def
    by (intro exI [of _ "Exn ''UpgradeFailed'' (?m @ '' '' @ recovery_hint p) ?out"] conjI exI [of _ ?m]) simp_all
qed

theorem upgrade_failure_reported_witness:
  "\<exists>e. upgrade_outcome ''nas'' Apt \<lparr>rr_stdout = ''E: lock'', rr_stderr = [], rr_returncode = Some 100, rr_signal = None\<rparr>
     = Inl e \<and> exn_class e = ''UpgradeFailed'' \<and> exn_lines e = [''E: lock'']"
proof -
  have "py_lines ''E: lock'' = [''E: lock'']" by code_simp
  then show ?thesis
    using upgrade_failure_reported [of "\<lparr>rr_stdout = ''E: lock'', rr_stderr = [], rr_returncode = Some 100, rr_signal = None\<rparr>" Apt "''nas''"]
    by auto
qed

lemma upgrade_timeout_positive: "upgrade_timeout env > 0"
  by (auto simp: upgrade_timeout_def UPGRADE_TIMEOUT_DEFAULT_def split: option.splits)

lemma connect_needs_user: "py_strip (get_or (sh_user h) []) = [] \<Longrightarrow> \<exists>e. connect dial h c = Inl e"
  by (simp add: connect_def connect_args_def Let_def)

end
