(* ===== verification/Proxmox.thy ===== *)
theory Proxmox
  imports SshClient ConfigManager
begin

section \<open>Proxmox nodes and guests (app/proxmox_client.py, app/self_identity.py)\<close>

text \<open>
  Kernel releases, the reboot decision of a node, upgrades of containers through \<open>pct exec\<close>, and
  the calls of the HTTP API.  The API is the parameter \<open>api n method path\<close>, the answer to the
  \<open>n\<close>-th request (the method carries the JSON body of a request that has one): a status, whether \<open>raise_for_status\<close> accepts it and the JSON body, or an exception
  of the client.  Waiting is not modelled, the bounded polling loops are.
\<close>

subsection \<open>Kernel releases\<close>

definition parse_kversion :: "string \<Rightarrow> string" where
  "parse_kversion kversion = (case py_words kversion of _ # r # _ \<Rightarrow> r | _ \<Rightarrow> [])"

fun all_some :: "'a option list \<Rightarrow> 'a list option" where
  "all_some [] = Some []"
| "all_some (None # xs) = None"
| "all_some (Some x # xs) = map_option (\<lambda>ys. x # ys) (all_some xs)"

text \<open>Tuples of integers are lists, compared lexicographically.\<close>

definition kernel_version_tuple :: "string \<Rightarrow> int list" where
  "kernel_version_tuple release =
     (let r = py_replace ''-pve'' [] release;
          (main, rest) = (case split_once ''-'' r of Some (a, b) \<Rightarrow> (a, Some b) | None \<Rightarrow> (r, None))
      in case all_some (map py_int (split_char CHR ''.'' main)) of
           None \<Rightarrow> [0]
         | Some nums \<Rightarrow>
             (case rest of
                None \<Rightarrow> nums @ [0]
              | Some b \<Rightarrow> (case py_int b of Some n \<Rightarrow> nums @ [n] | None \<Rightarrow> [0])))"

record kernel_facts =
  kf_running :: string
  kf_grub_default :: string
  kf_saved_entry :: string
  kf_pin :: string
  kf_kernels :: "string list"

definition no_facts :: kernel_facts where
  "no_facts = \<lparr>kf_running = [], kf_grub_default = [], kf_saved_entry = [], kf_pin = [], kf_kernels = []\<rparr>"

definition probe_line :: "string \<Rightarrow> kernel_facts \<Rightarrow> kernel_facts" where
  "probe_line line f =
     (case split_first_word line of
        [key, v] \<Rightarrow>
          let value = py_strip v in
          if key = ''RUNNING'' then f\<lparr>kf_running := value\<rparr>
          else if key = ''GRUBDEFAULT'' then f\<lparr>kf_grub_default := value\<rparr>
          else if key = ''SAVEDENTRY'' then f\<lparr>kf_saved_entry := value\<rparr>
          else if key = ''PIN'' then f\<lparr>kf_pin := value\<rparr>
          else if key = ''KERNEL'' \<and> value \<noteq> [] then f\<lparr>kf_kernels := kf_kernels f @ [value]\<rparr>
          else f
      | _ \<Rightarrow> f)"

definition parse_kernel_probe :: "string \<Rightarrow> kernel_facts" where
  "parse_kernel_probe out = fold probe_line (py_lines out) no_facts"

text \<open>One match of \<open>\d+\.\d+\.\d+-\d+-pve\<close> at the front: the match and the rest.  Each run of digits ends
  at a character that is no digit, so matching needs no backtracking.\<close>

definition digits_then :: "string \<Rightarrow> string \<Rightarrow> (string \<times> string) option" where
  "digits_then lit s =
     (let ds = takeWhile is_digit s; r = dropWhile is_digit s
      in if ds \<noteq> [] \<and> prefix lit r then Some (ds @ lit, drop (length lit) r) else None)"

fun match_steps :: "string list \<Rightarrow> string \<Rightarrow> (string \<times> string) option" where
  "match_steps [] s = Some ([], s)"
| "match_steps (lit # ls) s =
     (case digits_then lit s of
        None \<Rightarrow> None
      | Some (m, r) \<Rightarrow> (case match_steps ls r of None \<Rightarrow> None | Some (ms, r') \<Rightarrow> Some (m @ ms, r')))"

definition match_release :: "string \<Rightarrow> (string \<times> string) option" where
  "match_release s = match_steps [''.'', ''.'', ''-'', ''-pve''] s"

lemma digits_then_length: "digits_then lit s = Some (m, r) \<Longrightarrow> length r < length s"
proof -
  assume a: "digits_then lit s = Some (m, r)"
  then have "takeWhile is_digit s \<noteq> []" and r: "r = drop (length lit) (dropWhile is_digit s)"
    by (auto simp: digits_then_def Let_def split: if_splits)
  then have "0 < length (takeWhile is_digit s)" by simp
  moreover have "length s = length (takeWhile is_digit s) + length (dropWhile is_digit s)"
    by (metis length_append takeWhile_dropWhile_id)
  moreover have "length r \<le> length (dropWhile is_digit s)" using r by simp
  ultimately show ?thesis by linarith
qed

lemma match_steps_length: "match_steps ls s = Some (m, r) \<Longrightarrow> length r + length ls \<le> length s"
proof (induction ls s arbitrary: m r rule: match_steps.induct)
  case (2 lit ls s)
  then show ?case by (fastforce split: option.splits dest: digits_then_length)
qed simp

lemma match_release_length: "match_release s = Some (m, r) \<Longrightarrow> length r < length s"
  unfolding match_release_def by (drule match_steps_length) simp

function find_releases :: "string \<Rightarrow> string list" where
  "find_releases s =
     (case s of
        [] \<Rightarrow> []
      | c # t \<Rightarrow> (case match_release s of Some (m, r) \<Rightarrow> m # find_releases r | None \<Rightarrow> find_releases t))"
  by pat_completeness auto
termination
  by (relation "measure length") (auto dest!: match_release_length)

declare find_releases.simps [simp del]

text \<open>\<open>max(kernels, key=kernel_version_tuple)\<close>: the first of the greatest.\<close>

fun newest_from :: "string \<Rightarrow> string list \<Rightarrow> string" where
  "newest_from k [] = k"
| "newest_from k (j # js) =
     newest_from (if kernel_version_tuple k < kernel_version_tuple j then j else k) js"

definition resolve_next_boot_kernel :: "kernel_facts \<Rightarrow> string" where
  "resolve_next_boot_kernel f =
     (if kf_pin f \<noteq> [] then kf_pin f
      else let saved = (if kf_grub_default f = ''saved'' \<and> kf_saved_entry f \<noteq> []
                        then find_releases (kf_saved_entry f) else [])
           in if saved \<noteq> [] then last saved
              else case kf_kernels f of k # ks \<Rightarrow> newest_from k ks | [] \<Rightarrow> [])"

text \<open>The probe script is sent as it stands in the source; only its output matters here.\<close>

definition node_reboot_decision :: "string \<Rightarrow> bool res" where
  "node_reboot_decision out =
     (let f = parse_kernel_probe out in
      if kf_running f = [] then raise ''RuntimeError'' ''Node kernel probe returned no running kernel''
      else let next_boot = resolve_next_boot_kernel f
           in Inr (next_boot \<noteq> [] \<and> kernel_version_tuple (kf_running f) < kernel_version_tuple next_boot))"

definition node_reboot_required ::
  "string \<Rightarrow> dial \<Rightarrow> transport \<Rightarrow> ssh_host \<Rightarrow> ssh_creds \<Rightarrow> bool res \<times> sh_call list" where
  "node_reboot_required probe dial tr h c =
     (case connect dial h c of
        Inl e \<Rightarrow> (Inl e, [])
      | Inr _ \<Rightarrow>
          (case run_cmd tr probe (sx_sudo c) (needs_sudo_for h) (Some CHECK_TIMEOUT) [] of
             (Inl e, hs) \<Rightarrow> (Inl e, hs)
           | (Inr r, hs) \<Rightarrow> (node_reboot_decision (rr_stdout r), hs)))"

subsection \<open>Containers through pct exec\<close>

definition NO_PX_CREDS :: exn where
  "NO_PX_CREDS = Exn ''RuntimeError'' (''No SSH credentials configured for Proxmox host. ''
     @ ''Set SSH user and key/password in Admin '' @ [CHR 0xE2, CHR 0x86, CHR 0x92]
     @ '' Integrations '' @ [CHR 0xE2, CHR 0x86, CHR 0x92] @ '' Proxmox VE.'') []"

text \<open>The credentials for a Proxmox host: a user and a port beside the keys \<open>_connect\<close> reads.\<close>

record px_ssh =
  ps_user :: string
  ps_port :: int
  ps_creds :: ssh_creds

definition px_host_entry :: "string \<Rightarrow> px_ssh \<Rightarrow> ssh_host" where
  "px_host_entry ssh_host s =
     \<lparr>sh_name = None, sh_host = ssh_host, sh_user = Some (ps_user s), sh_port = Some (ps_port s),
      sh_key = None, sh_slug = None\<rparr>"

definition px_creds_missing :: "px_ssh \<Rightarrow> bool" where
  "px_creds_missing s \<longleftrightarrow>
     \<not> truthy_s (sx_key_path (ps_creds s)) \<and> \<not> truthy_s (sx_password (ps_creds s))"

definition lxc_list_cmd :: "int \<Rightarrow> bool \<Rightarrow> string" where
  "lxc_list_cmd vmid refresh =
     ''pct exec '' @ show_int vmid @ '' -- sh -c '' @ [QUOTE]
     @ (if refresh then ''apt-get update -qq 2>/dev/null; '' else [])
     @ ''apt list -qq --upgradable 2>/dev/null; ''
     @ ''echo __APPLY__; apt-get -s upgrade 2>/dev/null; ''
     @ ''echo __FULL__; apt-get -s full-upgrade 2>/dev/null'' @ [QUOTE]"

definition lxc_line :: "string list option \<Rightarrow> string list option \<Rightarrow> string \<Rightarrow> package option" where
  "lxc_line plan full line0 =
     (let line = py_strip line0 in
      if line = [] \<or> starts_with line ''Listing'' then None
      else case py_words line of
             w # new_ver # _ \<Rightarrow>
               let n = hd (split_char CHR ''/'' w);
                   old_ver = (if contains line ''upgradable from:''
                              then rstrip_char CHR '']'' (py_strip (last (py_split ''upgradable from:'' line)))
                              else []);
                   held = apt_is_held plan n
               in Some \<lparr>pk_name = n, pk_current = old_ver, pk_available = new_ver,
                        pk_held_back = Some held, pk_held_back_reason = Some (held_reason held full n)\<rparr>
           | _ \<Rightarrow> None)"

definition lxc_parse :: "string \<Rightarrow> package list" where
  "lxc_parse out =
     (let (list_part, plan, full) = apt_sections out
      in List.map_filter (lxc_line plan full) (py_lines list_part))"

definition get_lxc_updates ::
  "int \<Rightarrow> time \<Rightarrow> time \<Rightarrow> dial \<Rightarrow> transport \<Rightarrow> string \<Rightarrow> int \<Rightarrow> string \<Rightarrow> px_ssh \<Rightarrow> refreshes
     \<Rightarrow> package list res \<times> sh_call list \<times> refreshes" where
  "get_lxc_updates ttl now0 now1 dial tr node vmid ssh_host s cache =
     (if px_creds_missing s then (Inl NO_PX_CREDS, [], cache)
      else let key = ''lxc:'' @ node @ CHR '':'' # show_int vmid;
               refresh = (\<not> is_cache_fresh now0 key ttl cache)
           in case connect dial (px_host_entry ssh_host s) (ps_creds s) of
                Inl e \<Rightarrow> (Inl e, [], cache)
              | Inr _ \<Rightarrow>
                  (case run_cmd tr (lxc_list_cmd vmid refresh) None False (Some 90) [] of
                     (Inl e, hs) \<Rightarrow> (Inl e, hs, cache)
                   | (Inr r, hs) \<Rightarrow>
                       (Inr (lxc_parse (rr_stdout r)), hs,
                        if refresh then mark_refreshed now1 key cache else cache)))"

definition lxc_upgrade_cmd :: "int \<Rightarrow> string" where
  "lxc_upgrade_cmd vmid =
     ''pct exec '' @ show_int vmid @ '' -- env DEBIAN_FRONTEND=noninteractive ''
     @ ''apt-get '' @ APT_CONFFILE_OPTS @ '' upgrade -y 2>&1''"

definition lxc_hint :: "string \<Rightarrow> int \<Rightarrow> string" where
  "lxc_hint node vmid =
     ''Run `pct exec '' @ show_int vmid @ '' -- dpkg --configure -a` on '' @ node @ '' to finish ''
     @ ''any interrupted package configuration, then re-run the upgrade.''"

definition lxc_outcome :: "string \<Rightarrow> int \<Rightarrow> run_result \<Rightarrow> string list res" where
  "lxc_outcome node vmid r =
     (let out = filter (\<lambda>l. py_strip l \<noteq> []) (py_lines (rr_stdout r)) in
      if rr_returncode r = Some 0 then Inr out
      else Inl (upgrade_failure (''LXC '' @ show_int vmid) ''apt'' r out (lxc_hint node vmid)))"

definition upgrade_lxc ::
  "string option \<Rightarrow> dial \<Rightarrow> transport \<Rightarrow> string \<Rightarrow> int \<Rightarrow> string \<Rightarrow> px_ssh
     \<Rightarrow> string list res \<times> sh_call list" where
  "upgrade_lxc env dial tr node vmid ssh_host s =
     (if px_creds_missing s then (Inl NO_PX_CREDS, [])
      else let timeout = upgrade_timeout env in
        case connect dial (px_host_entry ssh_host s) (ps_creds s) of
          Inl e \<Rightarrow> (Inl e, [])
        | Inr _ \<Rightarrow>
            (case run_cmd tr (lxc_upgrade_cmd vmid) None False (Some timeout) [] of
               (Inl e, hs) \<Rightarrow>
                 (Inl (if exn_class e = ''TimeoutError''
                       then upgrade_timed_out timeout ''in'' (''LXC '' @ show_int vmid) (lxc_hint node vmid)
                       else e), hs)
             | (Inr r, hs) \<Rightarrow> (lxc_outcome node vmid r, hs)))"

subsection \<open>The HTTP API\<close>

datatype api_out = ApiResp nat bool "json option" | ApiRaise exn

type_synonym api = "nat \<Rightarrow> string \<Rightarrow> string \<Rightarrow> api_out"

definition status_error :: exn where "status_error = Exn ''HTTPStatusError'' ''HTTP status error'' []"

text \<open>A call whose status is checked, and a call whose JSON body is read.\<close>

definition call_checked :: "api_out \<Rightarrow> unit res" where
  "call_checked a =
     (case a of ApiRaise e \<Rightarrow> Inl e | ApiResp st ok body \<Rightarrow> if ok then Inr () else Inl status_error)"

definition body_of :: "api_out \<Rightarrow> json res" where
  "body_of a =
     (case a of
        ApiRaise e \<Rightarrow> Inl e
      | ApiResp st ok body \<Rightarrow>
          if \<not> ok then Inl status_error
          else (case body of Some j \<Rightarrow> Inr j | None \<Rightarrow> raise ''JSONDecodeError'' ''Expecting value''))"

definition field_or :: "json \<Rightarrow> string \<Rightarrow> json \<Rightarrow> json res" where
  "field_or j k d =
     (case j of JObj o1 \<Rightarrow> Inr (get_or (dict_get o1 k) d) | _ \<Rightarrow> raise ''AttributeError'' ''no attribute get'')"

definition node_path :: "string \<Rightarrow> string \<Rightarrow> string" where
  "node_path node rest = ''/api2/json/nodes/'' @ node @ rest"

definition guest_path :: "string \<Rightarrow> string \<Rightarrow> int \<Rightarrow> string \<Rightarrow> string" where
  "guest_path node guest_type vmid rest =
     node_path node (CHR ''/'' # guest_type @ CHR ''/'' # show_int vmid @ rest)"

definition guest_stopped :: "api_out \<Rightarrow> bool res" where
  "guest_stopped a =
     res_bind (body_of a) (\<lambda>j. res_bind (field_or j ''data'' (JObj [])) (\<lambda>d.
       res_bind (field_or d ''status'' JNull) (\<lambda>s. Inr (s = JStr ''stopped''))))"

text \<open>The polling loop of \<open>stop_guest\<close>, from the \<open>n\<close>-th request on.\<close>

function stop_poll :: "api \<Rightarrow> string \<Rightarrow> nat \<Rightarrow> int \<Rightarrow> int \<Rightarrow> string res" where
  "stop_poll api path n elapsed timeout =
     (if elapsed < timeout
      then (case guest_stopped (api n ''GET'' path) of
              Inl e \<Rightarrow> Inl e
            | Inr True \<Rightarrow> Inr ''stopped''
            | Inr False \<Rightarrow> stop_poll api path (n + 1) (elapsed + 2) timeout)
      else Inr ''timed_out'')"
  by pat_completeness auto
termination
  by (relation "measure (\<lambda>(api, path, n, elapsed, timeout). nat (timeout - elapsed))") auto

declare stop_poll.simps [simp del]

definition stop_guest :: "api \<Rightarrow> string \<Rightarrow> int \<Rightarrow> string \<Rightarrow> int \<Rightarrow> string res" where
  "stop_guest api node vmid guest_type timeout =
     (case call_checked (api 0 ''POST'' (guest_path node guest_type vmid ''/status/shutdown'')) of
        Inl e \<Rightarrow> Inl e
      | Inr _ \<Rightarrow> stop_poll api (guest_path node guest_type vmid ''/status/current'') 1 0 timeout)"

definition force_stop_guest :: "api \<Rightarrow> string \<Rightarrow> int \<Rightarrow> string \<Rightarrow> unit res" where
  "force_stop_guest api node vmid guest_type =
     call_checked (api 0 ''POST'' (guest_path node guest_type vmid ''/status/stop''))"

definition reboot_node :: "api \<Rightarrow> string \<Rightarrow> unit res" where
  "reboot_node api node = call_checked (api 0 ''POST command=reboot'' (node_path node ''/status''))"

definition reboot_lxc :: "api \<Rightarrow> string \<Rightarrow> int \<Rightarrow> unit res" where
  "reboot_lxc api node vmid = call_checked (api 0 ''POST'' (guest_path node ''lxc'' vmid ''/status/reboot''))"

text \<open>The polling loop of \<open>wait_for_node\<close>; an exception counts as no answer.\<close>

definition node_up :: "api_out \<Rightarrow> bool" where
  "node_up a = (case a of ApiResp st ok body \<Rightarrow> st = 200 | ApiRaise e \<Rightarrow> False)"

function wait_poll :: "api \<Rightarrow> string \<Rightarrow> nat \<Rightarrow> int \<Rightarrow> int \<Rightarrow> bool" where
  "wait_poll api node n elapsed timeout =
     (if elapsed < timeout
      then node_up (api n ''GET'' (node_path node ''/status'')) \<or> wait_poll api node (n + 1) (elapsed + 5) timeout
      else False)"
  by pat_completeness auto
termination
  by (relation "measure (\<lambda>(api, node, n, elapsed, timeout). nat (timeout - elapsed))") auto

declare wait_poll.simps [simp del]

definition wait_for_node :: "api \<Rightarrow> string \<Rightarrow> int \<Rightarrow> bool" where
  "wait_for_node api node timeout = wait_poll api node 0 0 timeout"

definition kversion_of :: "json \<Rightarrow> string res" where
  "kversion_of j =
     res_bind (field_or j ''data'' (JObj [])) (\<lambda>d.
       res_bind (field_or d ''kversion'' (JStr [])) (\<lambda>v.
         case v of JStr s \<Rightarrow> Inr (parse_kversion s) | _ \<Rightarrow> raise ''AttributeError'' ''no attribute split''))"

definition get_node_kernel :: "api \<Rightarrow> string \<Rightarrow> string res" where
  "get_node_kernel api node =
     res_bind (body_of (api 0 ''GET'' (node_path node ''/status''))) (\<lambda>j.
       res_bind (kversion_of j) (\<lambda>k. Inr (if k \<noteq> [] then k else ''unknown'')))"

text \<open>The kernel of a package \<open>proxmox-kernel-<release>-signed\<close>; entries that are not objects, or
  whose name is not a string, raise.\<close>

definition kernel_package :: "json \<Rightarrow> string list res" where
  "kernel_package pkg =
     res_bind (field_or pkg ''Package'' (JStr [])) (\<lambda>v.
       case v of
         JStr n \<Rightarrow>
           Inr (if starts_with n ''proxmox-kernel-'' \<and> ends_with n ''-pve-signed''
                then [take (length n - 15 - 7) (drop 15 n)] else [])
       | _ \<Rightarrow> raise ''AttributeError'' ''no attribute startswith'')"

fun collect :: "('a \<Rightarrow> 'b list res) \<Rightarrow> 'a list \<Rightarrow> 'b list res" where
  "collect f [] = Inr []"
| "collect f (x # xs) = res_bind (f x) (\<lambda>ys. res_bind (collect f xs) (\<lambda>zs. Inr (ys @ zs)))"

definition as_list :: "json \<Rightarrow> json list res" where
  "as_list j = (case j of JList l \<Rightarrow> Inr l | _ \<Rightarrow> raise ''TypeError'' ''not iterable'')"

definition get_node_reboot_required :: "api \<Rightarrow> string \<Rightarrow> bool res" where
  "get_node_reboot_required api node =
     (case (api 0 ''GET'' (node_path node ''/status''), api 1 ''GET'' (node_path node ''/apt/versions'')) of
        (ApiResp st1 True b1, ApiResp st2 True b2) \<Rightarrow>
          res_bind (body_of (ApiResp st1 True b1)) (\<lambda>j1. res_bind (kversion_of j1) (\<lambda>running.
            if running = [] then Inr False
            else res_bind (body_of (ApiResp st2 True b2)) (\<lambda>j2. res_bind (field_or j2 ''data'' (JList [])) (\<lambda>d.
              res_bind (as_list d) (\<lambda>pkgs. res_bind (collect kernel_package pkgs) (\<lambda>installed.
                Inr (list_ex (\<lambda>k. kernel_version_tuple running < kernel_version_tuple k) installed)))))))
      | _ \<Rightarrow> Inr False)"

definition node_update :: "json \<Rightarrow> (json \<times> json \<times> json) list res" where
  "node_update item =
     res_bind (field_or item ''Package'' (JStr [])) (\<lambda>n.
       res_bind (field_or item ''OldVersion'' (JStr [])) (\<lambda>c.
         res_bind (field_or item ''Version'' (JStr [])) (\<lambda>a. Inr [(n, c, a)])))"

definition get_node_updates :: "api \<Rightarrow> string \<Rightarrow> (json \<times> json \<times> json) list res" where
  "get_node_updates api node =
     res_bind (body_of (api 0 ''GET'' (node_path node ''/apt/update''))) (\<lambda>j.
       res_bind (field_or j ''data'' (JList [])) (\<lambda>d. res_bind (as_list d) (collect node_update)))"

definition online_node :: "json \<Rightarrow> json list res" where
  "online_node n =
     res_bind (field_or n ''status'' JNull) (\<lambda>s.
       if s \<noteq> JStr ''online'' then Inr []
       else case json_item n ''node'' of Some v \<Rightarrow> Inr [v] | None \<Rightarrow> raise ''KeyError'' ''node'')"

definition get_nodes :: "api \<Rightarrow> json list res" where
  "get_nodes api =
     res_bind (body_of (api 0 ''GET'' ''/api2/json/nodes'')) (\<lambda>j.
       res_bind (field_or j ''data'' (JList [])) (\<lambda>d. res_bind (as_list d) (collect online_node)))"

record guest =
  gu_vmid :: json
  gu_name :: "json option"
  gu_type :: string

definition running_guest :: "string \<Rightarrow> json \<Rightarrow> guest list res" where
  "running_guest guest_type item =
     res_bind (field_or item ''status'' JNull) (\<lambda>s.
       if s \<noteq> JStr ''running'' then Inr []
       else case json_item item ''vmid'' of
              None \<Rightarrow> raise ''KeyError'' ''vmid''
            | Some v \<Rightarrow> Inr [\<lparr>gu_vmid = v, gu_name = json_item item ''name'', gu_type = guest_type\<rparr>])"

text \<open>The guests of one kind: a request that raised is skipped, an error status raises.\<close>

definition guests_of :: "string \<Rightarrow> api_out \<Rightarrow> guest list res" where
  "guests_of guest_type a =
     (case a of
        ApiRaise e \<Rightarrow> Inr []
      | ApiResp st ok b \<Rightarrow>
          res_bind (body_of a) (\<lambda>j. res_bind (field_or j ''data'' (JList [])) (\<lambda>d.
            res_bind (as_list d) (collect (running_guest guest_type)))))"

definition get_running_guests :: "api \<Rightarrow> string \<Rightarrow> guest list res" where
  "get_running_guests api node =
     res_bind (guests_of ''qemu'' (api 0 ''GET'' (node_path node ''/qemu''))) (\<lambda>vms.
       res_bind (guests_of ''lxc'' (api 1 ''GET'' (node_path node ''/lxc''))) (\<lambda>cts. Inr (vms @ cts)))"

subsection \<open>Clients\<close>

record px_client =
  pc_base :: string
  pc_token :: string
  pc_pem :: string
  pc_verify :: bool

definition cred_str :: "entry \<Rightarrow> string \<Rightarrow> string \<Rightarrow> string" where
  "cred_str e k d = (case dict_get e k of Some (JStr s) \<Rightarrow> s | _ \<Rightarrow> d)"

definition assemble_token :: "entry \<Rightarrow> string" where
  "assemble_token creds =
     (let token_id = cred_str creds ''token_id'' [] in
      if token_id \<noteq> [] then token_id @ CHR ''='' # cred_str creds ''secret'' []
      else let api_user = cred_str creds ''api_user'' []; api_token = cred_str creds ''api_token'' []
           in if api_user \<noteq> [] then api_user @ CHR ''!'' # api_token else api_token)"

text \<open>What the code sees of the configuration and the credential store: \<open>cx_integration\<close> is the
  answer of \<open>get_integration_credentials\<close>.\<close>

record px_context =
  cx_config :: disk
  cx_integration :: "string \<Rightarrow> entry"

definition server_block :: "string \<Rightarrow> disk \<Rightarrow> service" where
  "server_block sid d =
     (case get_proxmox_server sid d of Some s \<Rightarrow> srv_block s | None \<Rightarrow> empty_service)"

definition client_from_config :: "px_context \<Rightarrow> string option \<Rightarrow> px_client res" where
  "client_from_config cx server_id =
     (let (cfg, creds) =
            (if truthy_s server_id
             then (server_block (the server_id) (cx_config cx), cx_integration cx (''proxmox_'' @ the server_id))
             else (get_proxmox_config (cx_config cx), cx_integration cx ''proxmox''));
          url = get_or (sv_url cfg) []; token = assemble_token creds
      in if url = [] \<or> token = []
         then raise ''RuntimeError''
           (if truthy_s server_id then ''Proxmox server '' @ py_repr (the server_id) @ '' is not configured.''
            else ''Proxmox integration not configured.'')
         else Inr \<lparr>pc_base = rstrip_char CHR ''/'' url, pc_token = token,
                   pc_pem = get_or (sv_pem cfg) [], pc_verify = get_or (sv_verify cfg) True\<rparr>)"

subsection \<open>Self identity\<close>

definition hex_id :: "nat \<Rightarrow> string \<Rightarrow> bool" where
  "hex_id n s \<longleftrightarrow> length s = n \<and> list_all is_hex s"

text \<open>\<open>^[0-9a-f]{12}$\<close>, which also matches before a final line break.\<close>

definition is_short_id :: "string \<Rightarrow> bool" where
  "is_short_id s \<longleftrightarrow> hex_id 12 (if s \<noteq> [] \<and> last s = NL then butlast s else s)"

fun search_long_id :: "string \<Rightarrow> string option" where
  "search_long_id [] = None"
| "search_long_id (c # s) =
     (if hex_id 64 (take 64 (c # s)) then Some (take 64 (c # s)) else search_long_id s)"

definition container_id_from_cgroup :: "string list option \<Rightarrow> string option" where
  "container_id_from_cgroup f =
     (case f of
        None \<Rightarrow> None
      | Some ls \<Rightarrow> (case List.map_filter search_long_id ls of i # _ \<Rightarrow> Some (take 12 i) | [] \<Rightarrow> None))"

definition get_self_container_id :: "string option \<Rightarrow> string list option \<Rightarrow> string option" where
  "get_self_container_id hostname cgroup =
     (let h = get_or hostname [] in if is_short_id h then Some h else container_id_from_cgroup cgroup)"

definition get_self_container_name :: "string option \<Rightarrow> string option" where
  "get_self_container_name env =
     (let n = py_strip (get_or env []) in if n \<noteq> [] then Some n else None)"

definition is_self_on_proxmox_node :: "string option \<Rightarrow> string \<Rightarrow> bool" where
  "is_self_on_proxmox_node env node = (get_or env [] \<noteq> [] \<and> get_or env [] = node)"

end
