(* ===== verification/ProxmoxFacts.thy ===== *)
theory ProxmoxFacts
  imports Proxmox PackageParsing
begin

section \<open>Kernels, polling loops and container listings\<close>

text \<open>
  What a kernel release parses to, which kernel a node boots next, how often the polling loops
  ask, and that the listing of a container is read the way the apt parser reads a host's.
\<close>

subsection \<open>Kernel releases\<close>

definition release_text :: "nat list \<Rightarrow> nat \<Rightarrow> string" where
  "release_text nums build = py_join ''.'' (map show_nat nums) @ CHR ''-'' # show_nat build @ ''-pve''"

lemma show_nat_char: "c \<in> set (show_nat n) \<Longrightarrow> is_digit c"
  using show_nat_digits by blast

lemma numbers_chars: "c \<in> set (py_join ''.'' (map show_nat nums)) \<Longrightarrow> is_digit c \<or> c = CHR ''.''"
  using set_py_join [of "''.''" "map show_nat nums"] show_nat_char by auto

lemma py_int_show_nat [simp]: "py_int (show_nat n) = Some (int n)"
  using py_int_show_int [of "int n"] by (simp add: show_int_def)

lemma all_some_map [simp]: "all_some (map (\<lambda>x. Some (f x)) xs) = Some (map f xs)"
  by (induction xs) simp_all

text \<open>The kernel release of a node is read as its version numbers followed by its build number.\<close>
theorem kernel_version_tuple_print:
  assumes "nums \<noteq> []"
  shows "kernel_version_tuple (release_text nums build) = map int nums @ [int build]"
proof -
  let ?main = "py_join ''.'' (map show_nat nums)"
  let ?a = "?main @ CHR ''-'' # show_nat build"
  have nd: "\<not> is_digit CHR ''p''" "\<not> is_digit CHR ''-''" by (simp_all add: is_digit_def)
  have "CHR ''p'' \<notin> set ?a" using numbers_chars [of "CHR ''p''" nums] show_nat_char [of "CHR ''p''" build] nd by auto
  then have no: "\<not> sublist ''-pve'' ?a" using set_mono_sublist [of "''-pve''" ?a] by auto
  have "is_digit (last (show_nat build))" by (intro show_nat_char [of _ build] last_in_set) simp
  then have "last ?a \<notin> set ''-pve''" by (auto simp: is_digit_def)
  then have "split_once ''-pve'' (?a @ ''-pve'' @ []) = Some (?a, [])" using no by (intro split_once_clean) auto
  moreover have "split_once ''-pve'' [] = None" by simp
  ultimately have "py_replace ''-pve'' [] (release_text nums build) = ?a"
    by (simp add: py_replace_def py_split_Some py_split_None release_text_def)
  moreover have "CHR ''-'' \<notin> set ?main" using numbers_chars [of "CHR ''-''" nums] nd by auto
  then have "split_once ''-'' ?a = Some (?main, show_nat build)" by (rule split_once_char)
  moreover have "\<forall>w \<in> set (map show_nat nums). CHR ''.'' \<notin> set w"
    using show_nat_char by (fastforce simp: is_digit_def)
  then have "split_char CHR ''.'' ?main = map show_nat nums" using assms by (intro split_char_join) simp_all
  ultimately show ?thesis by (simp add: kernel_version_tuple_def comp_def)
qed

theorem kernel_version_tuple_print_witness: "kernel_version_tuple ''6.17.13-3-pve'' = [6, 17, 13, 3]"
proof -
  have "release_text [6, 17, 13] 3 = ''6.17.13-3-pve''"
    by (simp add: release_text_def show_nat.simps digit_chars)
  then show ?thesis using kernel_version_tuple_print [of "[6, 17, 13]" 3] by simp
qed

subsection \<open>The kernel of the next boot\<close>

lemma newest_from_max:
  "newest_from k js \<in> set (k # js) \<and>
     (\<forall>j \<in> set (k # js). kernel_version_tuple j \<le> kernel_version_tuple (newest_from k js))"
proof (induction js arbitrary: k)
  case (Cons j js)
  let ?m = "if kernel_version_tuple k < kernel_version_tuple j then j else k"
  let ?r = "newest_from ?m js"
  have "kernel_version_tuple k \<le> kernel_version_tuple ?m" and "kernel_version_tuple j \<le> kernel_version_tuple ?m"
    by auto
  moreover have "?r \<in> set (?m # js)" and max: "\<And>x. x \<in> set (?m # js) \<Longrightarrow> kernel_version_tuple x \<le> kernel_version_tuple ?r"
    using Cons.IH [of ?m] by blast+
  moreover from max [of ?m] have "kernel_version_tuple ?m \<le> kernel_version_tuple ?r" by simp
  ultimately have "\<forall>x \<in> set (k # j # js). kernel_version_tuple x \<le> kernel_version_tuple ?r"
    by (metis list.set_intros(2) order_trans set_ConsD)
  moreover have "set (?m # js) \<subseteq> set (k # j # js)" by auto
  then have "?r \<in> set (k # j # js)" using \<open>?r \<in> set (?m # js)\<close> by blast
  ultimately show ?case by (simp only: newest_from.simps simp_thms)
qed simp

lemma probe_line_kernels: "\<forall>k \<in> set (kf_kernels f). k \<noteq> [] \<Longrightarrow> \<forall>k \<in> set (kf_kernels (probe_line l f)). k \<noteq> []"
  by (auto simp: probe_line_def Let_def split: list.splits)

lemma probe_kernels_nonempty: "\<forall>k \<in> set (kf_kernels (parse_kernel_probe out)). k \<noteq> []"
proof -
  have "\<forall>k \<in> set (kf_kernels f). k \<noteq> [] \<Longrightarrow> \<forall>k \<in> set (kf_kernels (fold probe_line ls f)). k \<noteq> []" for ls f
  proof (induction ls arbitrary: f)
    case (Cons l ls)
    from Cons.IH [OF probe_line_kernels [OF Cons.prems]] show ?case by simp
  qed simp
  moreover have "\<forall>k \<in> set (kf_kernels no_facts). k \<noteq> []" by (simp add: no_facts_def)
  ultimately show ?thesis unfolding parse_kernel_probe_def by blast
qed

text \<open>A node needs a reboot exactly when the kernel that boots next is newer than the running one: a pinned
  kernel decides alone, and on an unpinned system that boots its default the newest installed
  kernel does; a node pinned to its running kernel never needs one.\<close>
theorem node_reboot_rule:
  assumes "kf_running (parse_kernel_probe out) \<noteq> []"
    and "kf_grub_default (parse_kernel_probe out) \<noteq> ''saved''"
  shows "node_reboot_decision out = Inr
    (let f = parse_kernel_probe out; newer = (\<lambda>k. kernel_version_tuple (kf_running f) < kernel_version_tuple k) in
     if kf_pin f \<noteq> [] then newer (kf_pin f)
     else list_ex newer (kf_kernels f))"
proof -
  let ?f = "parse_kernel_probe out"
  have dec: "node_reboot_decision out = Inr (resolve_next_boot_kernel ?f \<noteq> [] \<and>
      kernel_version_tuple (kf_running ?f) < kernel_version_tuple (resolve_next_boot_kernel ?f))"
    using assms(1) by (simp add: node_reboot_decision_def Let_def)
  show ?thesis
  proof (cases "kf_pin ?f = [] \<and> kf_kernels ?f \<noteq> []")
    case False
    then show ?thesis using assms(2) by (auto simp: dec resolve_next_boot_kernel_def Let_def)
  next
    case True
    then obtain k ks where ks: "kf_kernels ?f = k # ks" by (cases "kf_kernels ?f") auto
    have next_boot: "resolve_next_boot_kernel ?f = newest_from k ks"
      using True assms(2) ks by (simp add: resolve_next_boot_kernel_def)
    have "newest_from k ks \<noteq> []"
      using newest_from_max [of k ks] probe_kernels_nonempty [of out] ks by metis
    moreover have "kernel_version_tuple (kf_running ?f) < kernel_version_tuple (newest_from k ks)
        \<longleftrightarrow> list_ex (\<lambda>j. kernel_version_tuple (kf_running ?f) < kernel_version_tuple j) (k # ks)"
      using newest_from_max [of k ks] unfolding list_ex_iff by (meson less_le_trans)
    ultimately show ?thesis using True ks by (simp only: dec next_boot Let_def if_False simp_thms)
  qed
qed

definition pinned_probe :: string where
  "pinned_probe = unlines [''RUNNING 6.8.12-1-pve'', ''GRUBDEFAULT 0'', ''PIN 6.8.12-1-pve'', ''KERNEL 6.17.13-3-pve'']"

theorem node_reboot_rule_witness: "node_reboot_decision pinned_probe = Inr False"
proof -
  have "parse_kernel_probe pinned_probe = \<lparr>kf_running = ''6.8.12-1-pve'', kf_grub_default = ''0'', kf_saved_entry = [],
      kf_pin = ''6.8.12-1-pve'', kf_kernels = [''6.17.13-3-pve'']\<rparr>"
    by code_simp
  then show ?thesis using node_reboot_rule [of pinned_probe] by simp
qed

subsection \<open>Polling loops\<close>

lemma wait_poll_iff:
  "wait_poll api node n e t \<longleftrightarrow> (\<exists>i. e + 5 * int i < t \<and> node_up (api (n + i) ''GET'' (node_path node ''/status'')))"
proof (induction api node n e t rule: wait_poll.induct)
  case (1 api node n e t)
  let ?up = "\<lambda>i. node_up (api (n + i) ''GET'' (node_path node ''/status''))"
  show ?case
  proof (cases "e < t")
    case True
    have "(\<exists>i. e + 5 * int i < t \<and> ?up i) \<longleftrightarrow> ?up 0 \<or> (\<exists>i. e + 5 * int (Suc i) < t \<and> ?up (Suc i))"
      using True by (metis (no_types, lifting) add.right_neutral mult_zero_right not0_implies_Suc of_nat_0)
    moreover have "(\<exists>i. e + 5 * int (Suc i) < t \<and> ?up (Suc i)) \<longleftrightarrow> wait_poll api node (n + 1) (e + 5) t"
      using "1.IH" [OF True] by (simp add: algebra_simps)
    ultimately show ?thesis using True by (subst wait_poll.simps) simp
  next
    case False
    then show ?thesis by (subst wait_poll.simps) auto
  qed
qed

text \<open>C40. Waiting for a node ends: it asks at most once every five seconds of the budget and answers yes
  exactly when one of these requests is answered with status 200; exceptions do not end the wait.\<close>
theorem wait_for_node_polls:
  "wait_for_node api node timeout \<longleftrightarrow>
     (\<exists>i. 5 * int i < timeout \<and> node_up (api i ''GET'' (node_path node ''/status'')))"
  by (simp add: wait_for_node_def wait_poll_iff)

text \<open>\<open>stop_guest\<close> polls every two seconds; the first poll that says stopped, or raises, ends it.\<close>

lemma stop_poll_result:
  "stop_poll api path n e t =
     (case find (\<lambda>i. guest_stopped (api (n + i) ''GET'' path) \<noteq> Inr False) [0..<nat ((t - e + 1) div 2)] of
        None \<Rightarrow> Inr ''timed_out''
      | Some i \<Rightarrow> (case guest_stopped (api (n + i) ''GET'' path) of Inl err \<Rightarrow> Inl err | Inr _ \<Rightarrow> Inr ''stopped''))"
proof (induction api path n e t rule: stop_poll.induct)
  case (1 api path n e t)
  show ?case
  proof (cases "e < t")
    case False
    then have "nat ((t - e + 1) div 2) = 0" by simp
    then show ?thesis using False by (subst stop_poll.simps) simp
  next
    case True
    let ?k = "nat ((t - (e + 2) + 1) div 2)"
    have k: "nat ((t - e + 1) div 2) = Suc ?k" using True by (simp add: nat_eq_iff)
    have shift: "[0..<Suc ?k] = 0 # map Suc [0..<?k]" by (simp add: map_Suc_upt upt_conv_Cons)
    have upto: "[0..<nat ((t - e + 1) div 2)] = 0 # map Suc [0..<?k]" by (simp only: k shift)
    have find_map: "find P (map Suc xs) = map_option Suc (find (\<lambda>i. P (Suc i)) xs)" for P xs
      by (induction xs) auto
    show ?thesis
    proof (cases "guest_stopped (api n ''GET'' path) = Inr False")
      case False
      then show ?thesis unfolding upto using True
        by (subst stop_poll.simps) (auto split: sum.splits bool.splits)
    next
      case run: True
      have "stop_poll api path n e t = stop_poll api path (n + 1) (e + 2) t"
        using True run by (subst stop_poll.simps) simp
      also have "\<dots> = (case find (\<lambda>i. guest_stopped (api (n + 1 + i) ''GET'' path) \<noteq> Inr False) [0..<?k] of
          None \<Rightarrow> Inr ''timed_out''
        | Some i \<Rightarrow> (case guest_stopped (api (n + 1 + i) ''GET'' path) of Inl err \<Rightarrow> Inl err | Inr _ \<Rightarrow> Inr ''stopped''))"
        by (rule "1.IH" [OF True run]) simp
      finally show ?thesis unfolding upto using run
        by (simp add: find_map option.case_eq_if option.map_sel)
    qed
  qed
qed

subsection \<open>The listing of a container\<close>

definition row_plain :: "apt_row \<Rightarrow> bool" where
  "row_plain r \<longleftrightarrow> apt_row_ok r \<and> \<not> starts_with (ar_name r) ''Listing''
     \<and> list_all (\<lambda>w. \<not> sublist ''from:'' w)
         [ar_name r @ CHR ''/'' # ar_suite r, ar_candidate r, ar_arch r, ar_installed r @ '']'']"

lemma from_in_words:
  assumes "list_all (\<lambda>w. \<not> sublist ''from:'' w) ws" and "ws \<noteq> []"
  shows "\<not> sublist ''upgradable from:'' (py_join '' '' ws)"
proof
  assume "sublist ''upgradable from:'' (py_join '' '' ws)"
  moreover have "sublist ''from:'' ''upgradable from:''" by code_simp
  ultimately have "sublist ''from:'' (py_join '' '' ws)" by (rule sublist_order.order_trans [rotated])
  then have "\<exists>w \<in> set ws. sublist ''from:'' w" using assms(2) by (intro sublist_join) auto
  then show False using assms(1) by (auto simp: list_all_iff)
qed

lemma lxc_old_version:
  assumes "row_plain r"
  shows "py_split ''upgradable from:'' (apt_row_line r) =
    [py_join '' '' [ar_name r @ CHR ''/'' # ar_suite r, ar_candidate r, ar_arch r, ''[''], '' '' @ ar_installed r @ '']'']"
proof -
  let ?a = "py_join '' '' [ar_name r @ CHR ''/'' # ar_suite r, ar_candidate r, ar_arch r, ''['']"
  let ?b = "py_join '' '' [[], ar_installed r @ '']'']"
  have bracket: "\<not> sublist ''from:'' ''[''" "\<not> sublist ''from:'' []" by code_simp+
  have "\<not> sublist ''upgradable from:'' ?a"
    using assms bracket by (intro from_in_words) (simp_all add: row_plain_def)
  moreover have "last ?a = CHR ''[''" by simp
  ultimately have "split_once ''upgradable from:'' (?a @ ''upgradable from:'' @ ?b) = Some (?a, ?b)"
    by (intro split_once_clean) auto
  moreover have "split_once ''upgradable from:'' ?b = None"
    unfolding split_once_None using assms bracket by (intro from_in_words) (simp_all add: row_plain_def)
  moreover have "apt_row_line r = ?a @ ''upgradable from:'' @ ?b"
    by (simp add: apt_row_line_def apt_row_words_def)
  ultimately show ?thesis by (simp add: py_split_Some py_split_None)
qed

lemma strip_lead_space: "is_word w \<Longrightarrow> py_strip (CHR '' '' # w) = w"
proof -
  assume "is_word w"
  then have "py_strip w = w" by (intro py_strip_no_space) (simp add: is_word_def)
  moreover have "is_space CHR '' ''" by (simp add: is_space_def)
  ultimately show ?thesis by (simp add: py_strip_def py_lstrip_def)
qed

lemma lxc_line_row:
  assumes "row_plain r"
  shows "lxc_line (Some plan) (Some full) (apt_row_line r) = Some (apt_row_package plan full r)"
proof -
  have ok: "apt_row_ok r" using assms by (simp add: row_plain_def)
  have strip: "py_strip (apt_row_line r) = apt_row_line r"
    unfolding apt_row_line_def by (rule strip_join_words) (rule apt_row_words_ok [OF ok])
  have words: "py_words (apt_row_line r) = apt_row_words r" by (rule words_apt_row [OF ok])
  have name: "CHR ''/'' \<notin> set (ar_name r)" using ok by (simp add: apt_row_ok_def debian_word_chars)
  have n: "hd (split_char CHR ''/'' (ar_name r @ CHR ''/'' # ar_suite r)) = ar_name r"
    using split_char_sep [OF name] by simp
  have "prefix ''Listing'' (ar_name r)" if "prefix ''Listing'' (apt_row_line r)"
  proof (rule prefix_before)
    show "prefix ''Listing'' (ar_name r @ CHR ''/'' # ar_suite r @ '' '' @ ar_candidate r @ '' '' @ ar_arch r
        @ '' [upgradable from: '' @ ar_installed r @ '']'')"
      using that by (simp add: apt_row_line_def apt_row_words_def)
  qed simp
  then have nolist: "\<not> prefix ''Listing'' (apt_row_line r)" using assms by (auto simp: row_plain_def)
  have iw: "is_word (ar_installed r)" and br: "CHR '']'' \<notin> set (ar_installed r)"
    using ok by (simp_all add: apt_row_ok_def debian_word_chars)
  have "is_word (ar_installed r @ '']'')" using iw is_word_literals by (intro is_word_append) blast+
  then have old: "rstrip_char CHR '']'' (py_strip (last (py_split ''upgradable from:'' (apt_row_line r)))) = ar_installed r"
    using rstrip_char_drop [OF br] strip_lead_space by (simp add: lxc_old_version [OF assms])
  have "contains (apt_row_line r) ''upgradable from:''"
    using contains_append1 [of "py_join '' '' [ar_name r @ CHR ''/'' # ar_suite r, ar_candidate r, ar_arch r, ''['']"
        "''upgradable from:''" "'' '' @ ar_installed r @ '']''"]
    by (simp add: apt_row_line_def apt_row_words_def)
  moreover have "apt_row_line r \<noteq> []" by (simp add: apt_row_line_def apt_row_words_def)
  ultimately show ?thesis
    unfolding lxc_line_def Let_def strip words using nolist old n
    by (simp add: apt_row_words_def apt_row_package_def apt_is_held_def held_reason_def)
qed

text \<open>The listing of a container is read exactly as the apt parser reads a host's: the same packages with
  the same versions, held-back flags and causes.\<close>
theorem lxc_parse_as_apt:
  assumes "apt_printable rows plan full" and "\<forall>r \<in> set rows. row_plain r"
  shows "lxc_parse (unlines (''Listing...'' # map apt_row_line rows) @ ''__APPLY__'' @
      sim_section plan @ ''__FULL__'' @ sim_section full) =
    fst (apt_parse (apt_output rows plan full rb))"
proof -
  have rows: "\<forall>r \<in> set rows. apt_row_ok r" using assms(1) by (simp add: apt_printable_def)
  have "one_line ''Listing...''" by (simp add: one_line_def is_linebreak_def)
  then have ls: "py_lines (unlines (''Listing...'' # map apt_row_line rows)) = ''Listing...'' # map apt_row_line rows"
    using rows by (intro py_lines_unlines) (auto intro: apt_row_one_line)
  have "lxc_line (Some (unpacked plan)) (Some (unpacked full)) ''Listing...'' = None"
  proof -
    have "py_strip ''Listing...'' = ''Listing...''" by code_simp
    then show ?thesis by (simp add: lxc_line_def)
  qed
  moreover have "List.map_filter (lxc_line (Some (unpacked plan)) (Some (unpacked full))) (map apt_row_line rows) =
      map (apt_row_package (unpacked plan) (unpacked full)) rows"
    using assms(2) by (intro map_filter_all) (simp add: lxc_line_row)
  ultimately have "lxc_parse (unlines (''Listing...'' # map apt_row_line rows) @ ''__APPLY__'' @
      sim_section plan @ ''__FULL__'' @ sim_section full) =
      map (apt_row_package (unpacked plan) (unpacked full)) rows"
    unfolding lxc_parse_def apt_output_sections [OF assms(1)] Let_def prod.case ls by simp
  then show ?thesis by (simp add: apt_parse_rows [OF assms(1)])
qed

theorem lxc_parse_as_apt_witness:
  "\<exists>rows plan. rows \<noteq> [] \<and> lxc_parse (unlines (''Listing...'' # map apt_row_line rows) @ ''__APPLY__'' @
      sim_section plan @ ''__FULL__'' @ sim_section []) =
    fst (apt_parse (apt_output rows plan [] True))"
proof -
  let ?rows = "[\<lparr>ar_name = ''bash'', ar_suite = ''stable'', ar_candidate = ''5.2'', ar_arch = ''amd64'',
      ar_installed = ''5.1''\<rparr>]"
  let ?plan = "[Message ''Reading package lists...'', Inst ''bash'' (Some ''5.1'') ''5.2 Debian:12.5/stable [amd64]'']"
  have "\<forall>l \<in> set ?plan. sim_ok l" by code_simp
  then have "apt_printable ?rows ?plan []"
    by (simp add: apt_printable_def apt_row_ok_def debian_word_def is_word_def is_space_def)
  moreover have "\<not> sublist ''from:'' ''bash/stable'' \<and> \<not> sublist ''from:'' ''5.2'' \<and> \<not> sublist ''from:'' ''amd64''
      \<and> \<not> sublist ''from:'' ''5.1]''" by code_simp
  then have "\<forall>r \<in> set ?rows. row_plain r"
    by (simp add: row_plain_def apt_row_ok_def debian_word_def is_word_def is_space_def)
  ultimately have "lxc_parse (unlines (''Listing...'' # map apt_row_line ?rows) @ ''__APPLY__'' @
      sim_section ?plan @ ''__FULL__'' @ sim_section []) =
    fst (apt_parse (apt_output ?rows ?plan [] True))"
    by (rule lxc_parse_as_apt)
  then show ?thesis by blast
qed

end
