(* ===== verification/HostOps.thy ===== *)
theory HostOps
  imports Proxmox
begin

section \<open>Dispatch on the kind of a host (app/host_ops.py)\<close>

text \<open>
  Which mechanism an upgrade, a reboot check and a reboot use.  The parameters are collected in
  \<open>host_env\<close>: the configuration and credentials, SSH, the API per client, the environment and the
  file system's path resolution.  Every operation returns the effects it had, in order.
\<close>

datatype host_kind = Plain | Node | Lxc | Vm

record host_env =
  he_context :: px_context
  he_dial :: dial
  he_transport :: transport
  he_api :: "px_client \<Rightarrow> api"
  he_upgrade_timeout :: "string option"
  he_self_node :: "string option"
  he_probe :: string
  he_keys_dir :: string
  he_resolve :: "string \<Rightarrow> string"

datatype effect = Ssh conn_args "sh_call list" | Api string string

definition classify_host :: "host \<Rightarrow> host_kind" where
  "classify_host h =
     (if \<not> truthy_s (h_proxmox_node h) then Plain
      else if h_proxmox_vmid h = None then Node
      else if or_s (h_proxmox_type h) ''lxc'' = ''vm'' then Vm else Lxc)"

definition server_context :: "px_context \<Rightarrow> host \<Rightarrow> service \<times> entry" where
  "server_context cx h =
     (if truthy_s (h_proxmox_server h)
      then (server_block (the (h_proxmox_server h)) (cx_config cx),
            cx_integration cx (''proxmox_'' @ the (h_proxmox_server h)))
      else (get_proxmox_config (cx_config cx), cx_integration cx ''proxmox''))"

definition resolve_kind :: "px_context \<Rightarrow> host \<Rightarrow> host_kind" where
  "resolve_kind cx h =
     (let kind = classify_host h in
      if kind = Plain then Plain
      else if truthy_s (h_proxmox_server h)
              \<and> get_proxmox_server (the (h_proxmox_server h)) (cx_config cx) = None
      then Plain else kind)"

definition build_proxmox_client :: "px_context \<Rightarrow> host \<Rightarrow> px_client res" where
  "build_proxmox_client cx h = client_from_config cx (h_proxmox_server h)"

definition cred_int :: "entry \<Rightarrow> string \<Rightarrow> int \<Rightarrow> int" where
  "cred_int e k d = (case dict_get e k of Some (JNum n) \<Rightarrow> n | _ \<Rightarrow> d)"

definition key_creds :: "host_env \<Rightarrow> entry \<Rightarrow> ssh_creds res" where
  "key_creds env creds =
     (let base = \<lparr>sx_password = Some (cred_str creds ''ssh_password'' []), sx_key = None, sx_key_path = None,
                  sx_sudo = None\<rparr>;
          ssh_key = cred_str creds ''ssh_key'' []
      in if ssh_key = [] then Inr base
         else res_bind (resolve_key_path (he_keys_dir env) (he_resolve env) ssh_key)
                (\<lambda>p. Inr (base\<lparr>sx_key_path := Some p\<rparr>)))"

definition lxc_ssh_context :: "host_env \<Rightarrow> host \<Rightarrow> (string \<times> px_ssh) res" where
  "lxc_ssh_context env h =
     (let (cfg, creds) = server_context (he_context env) h in
      res_bind (url_hostname (get_or (sv_url cfg) [])) (\<lambda>hn.
        res_bind (key_creds env creds) (\<lambda>c.
          Inr (or_s hn (get_or (h_host h) []),
               \<lparr>ps_user = cred_str creds ''ssh_user'' ''root'', ps_port = cred_int creds ''ssh_port'' 22,
                ps_creds = c\<rparr>))))"

definition node_ssh_context :: "host_env \<Rightarrow> host \<Rightarrow> (ssh_host \<times> ssh_creds) res" where
  "node_ssh_context env h =
     (let (_, creds) = server_context (he_context env) h;
          user = cred_str creds ''ssh_user'' []; port = cred_int creds ''ssh_port'' 0
      in res_bind (key_creds env creds) (\<lambda>c.
           Inr (\<lparr>sh_name = Some (h_name h), sh_host = get_or (h_host h) [],
                 sh_user = Some (if user \<noteq> [] then user else ''root''),
                 sh_port = Some (if port \<noteq> 0 then port else 22), sh_key = None, sh_slug = None\<rparr>, c)))"

text \<open>A configured host as the SSH client sees it.\<close>

definition ssh_view :: "string \<Rightarrow> host \<Rightarrow> ssh_host" where
  "ssh_view slug h =
     \<lparr>sh_name = Some (h_name h), sh_host = get_or (h_host h) [], sh_user = h_user h, sh_port = h_port h,
      sh_key = h_key h, sh_slug = Some slug\<rparr>"

definition cred_field :: "entry \<Rightarrow> string \<Rightarrow> string option" where
  "cred_field e k = (case dict_get e k of Some (JStr s) \<Rightarrow> Some s | _ \<Rightarrow> None)"

text \<open>The stored credentials of a host as the SSH client reads them.\<close>

definition host_creds :: "entry \<Rightarrow> ssh_creds" where
  "host_creds e =
     \<lparr>sx_password = cred_field e ''ssh_password'', sx_key = cred_field e ''ssh_key'',
      sx_key_path = cred_field e ''key_path'', sx_sudo = cred_field e ''sudo_password''\<rparr>"

text \<open>The effects of one SSH session: none when no connection is attempted.\<close>

definition ssh_effect :: "ssh_host \<Rightarrow> ssh_creds \<Rightarrow> sh_call list \<Rightarrow> effect list" where
  "ssh_effect sh c calls = (case connect_args sh c of Inl e \<Rightarrow> [] | Inr a \<Rightarrow> [Ssh a calls])"

definition over_ssh ::
  "ssh_host \<Rightarrow> ssh_creds \<Rightarrow> 'a res \<times> sh_call list \<Rightarrow> 'a res \<times> effect list" where
  "over_ssh sh c r = (fst r, ssh_effect sh c (snd r))"

text \<open>The session for a container: no connection is attempted without credentials.\<close>

definition over_px_ssh :: "string \<Rightarrow> px_ssh \<Rightarrow> 'a res \<times> sh_call list \<Rightarrow> 'a res \<times> effect list" where
  "over_px_ssh ssh_host s r =
     (if px_creds_missing s then (fst r, []) else over_ssh (px_host_entry ssh_host s) (ps_creds s) r)"

definition run_os_update ::
  "host_env \<Rightarrow> string \<Rightarrow> host \<Rightarrow> ssh_creds \<Rightarrow> string list res \<times> effect list" where
  "run_os_update env slug h creds =
     (case resolve_kind (he_context env) h of
        Lxc \<Rightarrow>
          (case build_proxmox_client (he_context env) h of
             Inl e \<Rightarrow> (Inl e, [])
           | Inr client \<Rightarrow>
               (case lxc_ssh_context env h of
                  Inl e \<Rightarrow> (Inl e, [])
                | Inr (ssh_host, s) \<Rightarrow>
                    over_px_ssh ssh_host s
                      (upgrade_lxc (he_upgrade_timeout env) (he_dial env) (he_transport env)
                         (the (h_proxmox_node h)) (the (h_proxmox_vmid h)) ssh_host s)))
      | Node \<Rightarrow>
          (case node_ssh_context env h of
             Inl e \<Rightarrow> (Inl e, [])
           | Inr (sh, c) \<Rightarrow>
               over_ssh sh c (run_host_update_buffered (he_upgrade_timeout env) (he_dial env) (he_transport env) sh c))
      | _ \<Rightarrow> over_ssh (ssh_view slug h) creds
               (run_host_update_buffered (he_upgrade_timeout env) (he_dial env) (he_transport env)
                  (ssh_view slug h) creds))"

definition api_reboot_check :: "host_env \<Rightarrow> host \<Rightarrow> bool res \<times> effect list" where
  "api_reboot_check env h =
     (case build_proxmox_client (he_context env) h of
        Inl e \<Rightarrow> (Inl e, [])
      | Inr client \<Rightarrow>
          (get_node_reboot_required (he_api env client) (the (h_proxmox_node h)),
           [Api ''GET'' (node_path (the (h_proxmox_node h)) ''/status''),
            Api ''GET'' (node_path (the (h_proxmox_node h)) ''/apt/versions'')]))"

definition reboot_required_typed ::
  "host_env \<Rightarrow> int \<Rightarrow> time \<Rightarrow> time \<Rightarrow> string \<Rightarrow> host \<Rightarrow> ssh_creds \<Rightarrow> refreshes
     \<Rightarrow> bool res \<times> effect list \<times> refreshes" where
  "reboot_required_typed env ttl now0 now1 slug h creds cache =
     (case resolve_kind (he_context env) h of
        Node \<Rightarrow>
          (case node_ssh_context env h of
             Inl e \<Rightarrow> (Inl e, [], cache)
           | Inr (sh, c) \<Rightarrow>
               if sh_host sh = []
               then (let (r, effs) = api_reboot_check env h in (r, effs, cache))
               else (case over_ssh sh c (node_reboot_required (he_probe env) (he_dial env) (he_transport env) sh c) of
                       (Inr b, effs) \<Rightarrow> (Inr b, effs, cache)
                     | (Inl _, effs) \<Rightarrow>
                         (let (r, effs2) = api_reboot_check env h in (r, effs @ effs2, cache))))
      | Lxc \<Rightarrow> (Inr False, [], cache)
      | _ \<Rightarrow>
          (let (r, calls, cache') =
                 check_host_updates ttl now0 now1 (he_dial env) (he_transport env) (ssh_view slug h) creds cache
           in (res_bind r (\<lambda>c. Inr (hc_reboot_required c)), ssh_effect (ssh_view slug h) creds calls, cache')))"

definition reboot_host_typed ::
  "host_env \<Rightarrow> string \<Rightarrow> host \<Rightarrow> ssh_creds \<Rightarrow> string list res \<times> effect list" where
  "reboot_host_typed env slug h creds =
     (case resolve_kind (he_context env) h of
        Node \<Rightarrow>
          let node = the (h_proxmox_node h) in
          if is_self_on_proxmox_node (he_self_node env) node
          then (raise ''ValueError'' (''Refusing self-reboot: Keepup runs on Proxmox node '' @ py_repr node), [])
          else (case build_proxmox_client (he_context env) h of
                  Inl e \<Rightarrow> (Inl e, [])
                | Inr client \<Rightarrow>
                    (res_bind (reboot_node (he_api env client) node)
                       (\<lambda>_. Inr [''Reboot initiated via Proxmox API '' @ DASH @ '' guests are stopped first.'']),
                     [Api ''POST command=reboot'' (node_path node ''/status'')]))
      | Lxc \<Rightarrow>
          (case build_proxmox_client (he_context env) h of
             Inl e \<Rightarrow> (Inl e, [])
           | Inr client \<Rightarrow>
               (res_bind (reboot_lxc (he_api env client) (the (h_proxmox_node h)) (the (h_proxmox_vmid h)))
                  (\<lambda>_. Inr [''LXC reboot initiated via Proxmox API.'']),
                [Api ''POST'' (guest_path (the (h_proxmox_node h)) ''lxc'' (the (h_proxmox_vmid h)) ''/status/reboot'')]))
      | _ \<Rightarrow> over_ssh (ssh_view slug h) creds
               (reboot_host (he_dial env) (he_transport env) (ssh_view slug h) creds))"

subsection \<open>What the dispatch guarantees\<close>

text \<open>C2. The Proxmox API is never asked to reboot the node Keepup knows it runs on, whatever host is to be rebooted;
  a host that resolves to that node is refused with nothing sent at all, and a node or a container is never rebooted
  over SSH.  A node entry whose server was deleted resolves to a plain host and is rebooted over SSH without this check.\<close>
theorem no_self_reboot:
  assumes "he_self_node env = Some n" and "n \<noteq> []"
  shows "(\<forall>verb path. Api verb path \<in> set (snd (reboot_host_typed env slug h creds)) \<longrightarrow> path \<noteq> node_path n ''/status'')
    \<and> (resolve_kind (he_context env) h = Node \<and> h_proxmox_node h = Some n \<longrightarrow>
        (\<exists>m. reboot_host_typed env slug h creds = (raise ''ValueError'' m, [])))
    \<and> (\<forall>args calls. Ssh args calls \<in> set (snd (reboot_host_typed env slug h creds)) \<longrightarrow>
        resolve_kind (he_context env) h = Plain \<or> resolve_kind (he_context env) h = Vm)"
proof (intro conjI)
  have guest: "guest_path node t vmid ''/status/reboot'' \<noteq> node_path n ''/status''" for node t vmid
    by (rule notI, drule arg_cong [where f = last]) (simp add: guest_path_def node_path_def)
  have self: "is_self_on_proxmox_node (he_self_node env) n" using assms by (simp add: is_self_on_proxmox_node_def)
  have "path \<noteq> node_path n ''/status''" if "Api verb path \<in> set (snd (reboot_host_typed env slug h creds))" for verb path
  proof (cases "resolve_kind (he_context env) h")
    case Node
    with that self have "path = node_path (the (h_proxmox_node h)) ''/status''" "the (h_proxmox_node h) \<noteq> n"
      by (auto simp: reboot_host_typed_def Let_def split: if_splits sum.splits)
    then show ?thesis by (simp add: node_path_def)
  next
    case Lxc
    with that guest show ?thesis by (auto simp: reboot_host_typed_def split: sum.splits)
  qed (use that in \<open>auto simp: reboot_host_typed_def over_ssh_def ssh_effect_def split: sum.splits\<close>)
  then show "\<forall>verb path. Api verb path \<in> set (snd (reboot_host_typed env slug h creds)) \<longrightarrow> path \<noteq> node_path n ''/status''"
    by blast
  show "resolve_kind (he_context env) h = Node \<and> h_proxmox_node h = Some n \<longrightarrow>
      (\<exists>m. reboot_host_typed env slug h creds = (raise ''ValueError'' m, []))"
    using self by (auto simp: reboot_host_typed_def Let_def)
  show "\<forall>args calls. Ssh args calls \<in> set (snd (reboot_host_typed env slug h creds)) \<longrightarrow>
      resolve_kind (he_context env) h = Plain \<or> resolve_kind (he_context env) h = Vm"
    by (cases "resolve_kind (he_context env) h") (auto simp: reboot_host_typed_def Let_def split: if_splits sum.splits)
qed

definition demo_node :: host where
  "demo_node = (build_host_entry ''pve'' ''10.0.0.2'' None None None None (Some ''pve'') None None None)"

definition demo_env :: host_env where
  "demo_env = \<lparr>he_context = \<lparr>cx_config = None, cx_integration = (\<lambda>_. [])\<rparr>, he_dial = (\<lambda>_. None),
     he_transport = demo_remote, he_api = (\<lambda>_ _ _ _. ApiResp 200 True None), he_upgrade_timeout = None,
     he_self_node = Some ''pve'', he_probe = [], he_keys_dir = ''/app/keys'', he_resolve = id\<rparr>"

theorem no_self_reboot_witness:
  "\<exists>m. reboot_host_typed demo_env ''pve'' demo_node no_creds = (raise ''ValueError'' m, [])"
proof -
  have self: "he_self_node demo_env = Some ''pve''" by (simp add: demo_env_def)
  have "resolve_kind (he_context demo_env) demo_node = Node \<and> h_proxmox_node demo_node = Some ''pve''"
    by (simp add: resolve_kind_def classify_host_def demo_env_def demo_node_def build_host_entry_def nonempty_def Let_def)
  then show ?thesis using no_self_reboot [OF self, of "''pve''" demo_node no_creds] by blast
qed

text \<open>A Proxmox host whose server is gone from the configuration is handled as a plain SSH host: its
  upgrade and its reboot run over SSH to its own address with its own credentials.\<close>
theorem orphaned_host_is_plain:
  assumes "truthy_s (h_proxmox_server h)"
    and "get_proxmox_server (the (h_proxmox_server h)) (cx_config (he_context env)) = None"
  shows "resolve_kind (he_context env) h = Plain
    \<and> run_os_update env slug h creds = over_ssh (ssh_view slug h) creds
        (run_host_update_buffered (he_upgrade_timeout env) (he_dial env) (he_transport env) (ssh_view slug h) creds)
    \<and> reboot_host_typed env slug h creds = over_ssh (ssh_view slug h) creds
        (reboot_host (he_dial env) (he_transport env) (ssh_view slug h) creds)"
proof -
  have "resolve_kind (he_context env) h = Plain" using assms by (simp add: resolve_kind_def Let_def)
  then show ?thesis by (simp add: run_os_update_def reboot_host_typed_def)
qed

theorem orphaned_host_is_plain_witness:
  "resolve_kind (he_context demo_env) (demo_node\<lparr>h_proxmox_server := Some ''gone''\<rparr>) = Plain"
  using orphaned_host_is_plain [of "demo_node\<lparr>h_proxmox_server := Some ''gone''\<rparr>" demo_env]
  by (simp add: demo_env_def get_proxmox_server_def get_proxmox_servers_def load_config_def empty_config_def)

text \<open>A node's upgrade never fails for want of a user: the context fills in \<open>root\<close>.\<close>

lemma node_context_has_user:
  "node_ssh_context env h = Inr (sh, c) \<Longrightarrow> \<exists>u. sh_user sh = Some u \<and> u \<noteq> []"
  by (auto simp: node_ssh_context_def Let_def res_bind_Inr_iff split: prod.splits)

lemma lxc_needs_no_reboot:
  "resolve_kind (he_context env) h = Lxc \<Longrightarrow>
     reboot_required_typed env ttl n0 n1 slug h creds cache = (Inr False, [], cache)"
  by (simp add: reboot_required_typed_def)

end
