(* ===== verification/DockerText.thy ===== *)
theory DockerText
  imports HostOps
begin

section \<open>References and \<open>docker ps\<close> output (app/backends/ssh_docker_backend.py)\<close>

text \<open>
  The texts the SSH Docker backend reads and writes: stack references, labels, the rows of
  \<open>docker ps\<close>, the Compose projects they belong to, and the \<open>docker run\<close> command that recreates a
  container from its \<open>docker inspect\<close> document.  Rows and documents are JSON objects with the types
  of the Docker API; a field that is null or absent is read as the empty value of its type.
\<close>

subsection \<open>References\<close>

definition url_unreserved :: "char \<Rightarrow> bool" where
  "url_unreserved c \<longleftrightarrow> is_lower c \<or> is_upper c \<or> is_digit c \<or> c \<in> set ''_.-~''"

definition hex_upper :: "nat \<Rightarrow> char" where
  "hex_upper n = (if n < 10 then char_of (48 + n) else char_of (55 + n))"

text \<open>\<open>urllib.parse.quote(s, safe="")\<close> and \<open>unquote\<close>, on the bytes of the text.\<close>

definition url_quote :: "string \<Rightarrow> string" where
  "url_quote s = concat (map (\<lambda>c. if url_unreserved c then [c]
     else [CHR ''%'', hex_upper (of_char c div 16), hex_upper (of_char c mod 16)]) s)"

definition hex_value :: "char \<Rightarrow> nat option" where
  "hex_value c =
     (let n = (of_char c :: nat) in
      if 48 \<le> n \<and> n \<le> 57 then Some (n - 48)
      else if 65 \<le> n \<and> n \<le> 70 then Some (n - 55)
      else if 97 \<le> n \<and> n \<le> 102 then Some (n - 87) else None)"

fun url_unquote :: "string \<Rightarrow> string" where
  "url_unquote (c # a # b # s) =
     (if c = CHR ''%''
      then (case (hex_value a, hex_value b) of
              (Some x, Some y) \<Rightarrow> char_of (16 * x + y) # url_unquote s
            | _ \<Rightarrow> c # url_unquote (a # b # s))
      else c # url_unquote (a # b # s))"
| "url_unquote s = s"

definition STANDALONE_PREFIX :: char where "STANDALONE_PREFIX = CHR ''~''"

definition make_compose_ref :: "string \<Rightarrow> string \<Rightarrow> string \<Rightarrow> string" where
  "make_compose_ref slug project container = slug @ ''/'' @ url_quote project @ '':'' @ url_quote container"

definition make_standalone_ref :: "string \<Rightarrow> string \<Rightarrow> string" where
  "make_standalone_ref slug container = slug @ ''/'' @ [STANDALONE_PREFIX] @ url_quote container"

definition parse_ref :: "string \<Rightarrow> (string \<times> string) res" where
  "parse_ref ref =
     (case split_once ''/'' ref of
        None \<Rightarrow> raise ''ValueError'' ''not enough values to unpack (expected 2, got 1)''
      | Some (slug, encoded) \<Rightarrow> Inr (slug, url_unquote encoded))"

datatype ref_target = Standalone string | Project string

definition ref_target_of :: "string \<Rightarrow> ref_target" where
  "ref_target_of rest =
     (if starts_with rest [STANDALONE_PREFIX] then Standalone (drop 1 rest)
      else case split_once '':'' rest of Some (project, _) \<Rightarrow> Project project | None \<Rightarrow> Project rest)"

definition describe_ref :: "string \<Rightarrow> string res" where
  "describe_ref ref =
     res_bind (parse_ref ref) (\<lambda>(slug, rest).
       Inr (case ref_target_of rest of Standalone n \<Rightarrow> n | Project p \<Rightarrow> p))"

subsection \<open>Rows of \<open>docker ps\<close>\<close>

definition row_str :: "json \<Rightarrow> string \<Rightarrow> string" where
  "row_str row key = (case json_get row key of Some (JStr s) \<Rightarrow> s | _ \<Rightarrow> [])"

text \<open>A list of strings or null, as \<open>RepoTags\<close> and \<open>RepoDigests\<close> are.\<close>

definition json_texts :: "json \<Rightarrow> string list option option" where
  "json_texts j =
     (case j of
        JNull \<Rightarrow> Some None
      | JList l \<Rightarrow> Some (Some (map (\<lambda>x. case x of JStr t \<Rightarrow> t | _ \<Rightarrow> []) l))
      | _ \<Rightarrow> None)"

definition label_part :: "string \<Rightarrow> (string \<times> string) list \<Rightarrow> (string \<times> string) list" where
  "label_part part d =
     (case split_once ''='' part of Some (k, v) \<Rightarrow> dict_set (py_strip k) (py_strip v) d | None \<Rightarrow> d)"

definition parse_docker_ps_labels :: "string \<Rightarrow> (string \<times> string) list" where
  "parse_docker_ps_labels s = fold label_part (split_char CHR '','' s) []"

definition row_labels :: "json \<Rightarrow> (string \<times> string) list" where
  "row_labels row = parse_docker_ps_labels (row_str row ''Labels'')"

definition label_or_empty :: "(string \<times> string) list \<Rightarrow> string \<Rightarrow> string" where
  "label_or_empty labels k = get_or (dict_get labels k) []"

definition row_project :: "json \<Rightarrow> string" where
  "row_project row = label_or_empty (row_labels row) ''com.docker.compose.project''"

definition first_of :: "string \<Rightarrow> string" where
  "first_of s = hd (split_char CHR '','' s)"

definition row_name :: "json \<Rightarrow> string" where
  "row_name row = py_strip (lstrip_char CHR ''/'' (first_of (row_str row ''Names'')))"

definition row_config_file :: "json \<Rightarrow> string" where
  "row_config_file row =
     (let labels = row_labels row;
          cf = py_strip (first_of (label_or_empty labels ''com.docker.compose.project.config_files''))
      in if cf \<noteq> [] \<and> \<not> starts_with cf ''/''
         then let wd = rstrip_char CHR ''/''
                         (py_strip (label_or_empty labels ''com.docker.compose.project.working_dir''))
              in if wd \<noteq> [] then wd @ ''/'' @ cf else []
         else cf)"

definition project_row :: "json \<Rightarrow> (string \<times> string) list \<Rightarrow> (string \<times> string) list" where
  "project_row row d =
     (let name = row_project row; cf = row_config_file row in
      if name = [] then d
      else case dict_get d name of
             None \<Rightarrow> dict_set name cf d
           | Some old \<Rightarrow> if cf \<noteq> [] \<and> old = [] then dict_set name cf d else d)"

definition compose_projects_from_ps :: "json list \<Rightarrow> (string \<times> string) list" where
  "compose_projects_from_ps rows = fold project_row rows []"

text \<open>\<open>json.loads\<close> is a parameter, \<open>None\<close> for a \<open>JSONDecodeError\<close>.\<close>

definition parse_json_lines :: "(string \<Rightarrow> json option) \<Rightarrow> string \<Rightarrow> json list" where
  "parse_json_lines loads text =
     List.map_filter (\<lambda>l. if l = [] then None else loads l) (map py_strip (py_lines text))"

definition parse_json_output :: "(string \<Rightarrow> json option) \<Rightarrow> string \<Rightarrow> json list" where
  "parse_json_output loads text0 =
     (let text = py_strip text0 in
      if text = [] then []
      else case loads text of
             Some (JList rows) \<Rightarrow> rows
           | Some (JObj o1) \<Rightarrow> [JObj o1]
           | _ \<Rightarrow> parse_json_lines loads text)"

subsection \<open>Stacks that Portainer manages\<close>

definition stack_index :: "json list \<Rightarrow> (json \<times> string) list" where
  "stack_index stacks = map (\<lambda>s. (get_or (json_get s ''Id'') JNull, py_lower (row_str s ''Name''))) stacks"

text \<open>\<open>re.match("^/data/compose/(digits)/")\<close> and the number it captures.\<close>

definition portainer_stack_id :: "string \<Rightarrow> int option" where
  "portainer_stack_id path =
     (if starts_with path ''/data/compose/''
      then let rest = drop (length ''/data/compose/'') path; digits = takeWhile is_digit rest
           in if digits \<noteq> [] \<and> starts_with (dropWhile is_digit rest) ''/'' then py_int digits else None
      else None)"

definition is_listed_stack :: "string \<Rightarrow> string \<Rightarrow> (json \<times> string) list \<Rightarrow> bool" where
  "is_listed_stack config_files project known =
     (case portainer_stack_id config_files of
        None \<Rightarrow> False | Some n \<Rightarrow> (JNum n, py_lower project) \<in> set known)"

definition row_portainer_project :: "(json \<times> string) list option \<Rightarrow> json \<Rightarrow> string option" where
  "row_portainer_project known row =
     (let project = row_project row;
          config_files = label_or_empty (row_labels row) ''com.docker.compose.project.config_files''
      in if project = [] \<or> \<not> starts_with config_files ''/data/compose/'' then None
         else case known of
                None \<Rightarrow> Some project
              | Some k \<Rightarrow> if is_listed_stack config_files project k then Some project else None)"

definition portainer_managed_projects :: "json list \<Rightarrow> (json \<times> string) list option \<Rightarrow> string list" where
  "portainer_managed_projects rows known =
     (if list_ex (\<lambda>r. contains (py_lower (row_str r ''Image'')) ''portainer/agent'') rows
      then List.map_filter (row_portainer_project known) rows else [])"

subsection \<open>The list for the selection page\<close>

definition lower_alnum :: "char \<Rightarrow> bool" where
  "lower_alnum c \<longleftrightarrow> is_lower c \<or> is_digit c"

text \<open>\<open>re.sub("[^a-z0-9]+", "-", s)\<close>.\<close>

fun dash_runs :: "bool \<Rightarrow> string \<Rightarrow> string" where
  "dash_runs in_run [] = []"
| "dash_runs in_run (c # s) =
     (if lower_alnum c then c # dash_runs False s
      else if in_run then dash_runs True s else CHR ''-'' # dash_runs True s)"

definition css_safe_id :: "string \<Rightarrow> string" where
  "css_safe_id name = or_s (Some (strip_char CHR ''-'' (dash_runs False (py_lower name)))) ''container''"

record shown_container =
  sn_name :: string
  sn_image :: string
  sn_status :: string
  sn_running :: bool
  sn_project :: "string option"
  sn_css_id :: string
  sn_portainer_managed :: bool

definition display_row :: "json list \<Rightarrow> json \<Rightarrow> shown_container option" where
  "display_row rows row =
     (let name = row_name row; status = row_str row ''Status''; project = row_project row in
      if name = [] then None
      else Some \<lparr>sn_name = name, sn_image = row_str row ''Image'', sn_status = status,
             sn_running = starts_with (py_lower status) ''up'',
             sn_project = (if project = [] then None else Some project), sn_css_id = css_safe_id name,
             sn_portainer_managed = (project \<noteq> [] \<and> project \<in> set (portainer_managed_projects rows None))\<rparr>)"

definition containers_for_display :: "json list \<Rightarrow> shown_container list" where
  "containers_for_display rows = List.map_filter (display_row rows) rows"

definition rollup_status :: "string list \<Rightarrow> string" where
  "rollup_status statuses =
     (if statuses = [] then ''unknown''
      else if set statuses = {''update_available''} then ''update_available''
      else if ''update_available'' \<in> set statuses then ''mixed''
      else if set statuses = {''up_to_date''} then ''up_to_date''
      else ''unknown'')"

end
