(* ===== verification/DockerHosts.thy ===== *)
theory DockerHosts
  imports DockerText "HOL-Library.Product_Lexorder"
begin

section \<open>Containers of the Docker hosts (app/backends/ssh_docker_backend.py)\<close>

text \<open>
  Discovery over SSH: which containers a host shows, with their update status.  A \<open>session\<close> is a
  computation on an open connection: it returns a result or an exception and the commands sent so
  far.  The hosts are scanned concurrently by the code; they share the configuration only through
  the one-time migration of a host's own entry, so they are modelled in order.
\<close>

subsection \<open>Sessions\<close>

type_synonym 'a session = "(sh_call, 'a) steps"

definition conn_run :: "transport \<Rightarrow> (string \<Rightarrow> string) \<Rightarrow> string \<Rightarrow> run_result session" where
  "conn_run tr wrap cmd = run_cmd tr (wrap cmd) None False None"

definition exited_zero :: "run_result \<Rightarrow> bool" where
  "exited_zero r \<longleftrightarrow> rr_returncode r = Some 0"

subsection \<open>The environment\<close>

record docker_env =
  de_host :: host_env
  de_creds :: "string \<Rightarrow> entry"
  de_self_id :: "string option"
  de_loads :: "string \<Rightarrow> json option"
  de_stacks :: "json list res option"
  de_http :: http_client
  de_order :: "string list \<Rightarrow> string list"

definition portainer_stacks :: "docker_env \<Rightarrow> (json \<times> string) list option" where
  "portainer_stacks env =
     (case de_stacks env of Some (Inr stacks) \<Rightarrow> Some (stack_index stacks) | _ \<Rightarrow> None)"

definition portainer_integration_active :: "px_context \<Rightarrow> bool" where
  "portainer_integration_active cx \<longleftrightarrow>
     truthy_s (sv_url (get_portainer_config (cx_config cx)))
     \<and> cred_str (cx_integration cx ''portainer'') ''api_key'' [] \<noteq> []"

definition docker_hosts :: "disk \<Rightarrow> (string \<times> host) list" where
  "docker_hosts cfg = filter (\<lambda>(slug, h). truthy_s (h_docker_mode h)) (get_hosts cfg)"

definition connection_badge :: "host \<Rightarrow> string" where
  "connection_badge h =
     (let node = truthy_s (h_proxmox_node h); ptype = or_s (h_proxmox_type h) ''lxc'';
          dot = '' '' @ [CHR 0xC2, CHR 0xB7] @ '' '';
          vmid = (case h_proxmox_vmid h of None \<Rightarrow> ''None'' | Some n \<Rightarrow> show_int n)
      in if node \<and> h_proxmox_vmid h = None then ''Node'' @ dot @ ''Proxmox API''
         else if node \<and> ptype = ''lxc'' then ''LXC '' @ vmid @ dot @ ''pct exec''
         else if node \<and> ptype = ''vm'' then ''VM '' @ vmid @ dot @ ''SSH''
         else ''SSH'')"

definition is_pct_host :: "host \<Rightarrow> bool" where
  "is_pct_host h \<longleftrightarrow>
     truthy_s (h_proxmox_node h) \<and> h_proxmox_vmid h \<noteq> None \<and> or_s (h_proxmox_type h) ''lxc'' = ''lxc''"

definition pct_wrap :: "int \<Rightarrow> string \<Rightarrow> string" where
  "pct_wrap vmid cmd = ''pct exec '' @ show_int vmid @ '' -- sh -c '' @ shlex_quote cmd"

definition ssh_params_for ::
  "docker_env \<Rightarrow> string \<Rightarrow> host \<Rightarrow> (ssh_host \<times> ssh_creds \<times> (string \<Rightarrow> string)) res" where
  "ssh_params_for env slug h =
     (if \<not> is_pct_host h then Inr (ssh_view slug h, host_creds (de_creds env slug), \<lambda>c. c)
      else let (cfg, creds) = server_context (he_context (de_host env)) h;
               ssh_key = cred_str creds ''ssh_key'' []; password = cred_str creds ''ssh_password'' []
           in res_bind (url_hostname (get_or (sv_url cfg) [])) (\<lambda>hn.
                res_bind (if ssh_key = [] then Inr None
                          else res_bind (resolve_key_path (he_keys_dir (de_host env)) (he_resolve (de_host env)) ssh_key)
                                 (\<lambda>p. Inr (Some p))) (\<lambda>key.
                  Inr (\<lparr>sh_name = None, sh_host = or_s hn (get_or (h_host h) []),
                        sh_user = Some (or_s (Some (cred_str creds ''ssh_user'' [])) ''root''),
                        sh_port = Some 22, sh_key = key, sh_slug = None\<rparr>,
                       \<lparr>sx_password = (if ssh_key = [] \<and> password \<noteq> [] then Some password else None),
                        sx_key = None, sx_key_path = None, sx_sudo = None\<rparr>,
                       pct_wrap (the (h_proxmox_vmid h))))))"

text \<open>\<open>async with await _connect(...)\<close>: a session on a fresh connection.\<close>

definition on_host ::
  "docker_env \<Rightarrow> string \<Rightarrow> host \<Rightarrow> ((string \<Rightarrow> string) \<Rightarrow> 'a session) \<Rightarrow> 'a res \<times> sh_call list" where
  "on_host env slug h body =
     (case ssh_params_for env slug h of
        Inl e \<Rightarrow> (Inl e, [])
      | Inr (sh, creds, wrap) \<Rightarrow>
          (case connect (he_dial (de_host env)) sh creds of
             Inl e \<Rightarrow> (Inl e, [])
           | Inr _ \<Rightarrow> body wrap []))"

abbreviation tr_of :: "docker_env \<Rightarrow> transport" where
  "tr_of env \<equiv> he_transport (de_host env)"

definition PS_CMD :: string where
  "PS_CMD = ''docker ps -a --format '' @ [QUOTE] @ ''{{json .}}'' @ [QUOTE]"

definition docker_ps :: "docker_env \<Rightarrow> (string \<Rightarrow> string) \<Rightarrow> run_result session" where
  "docker_ps env wrap = conn_run (tr_of env) wrap PS_CMD"

subsection \<open>Discovery for the administration pages\<close>

definition discover_stacks :: "docker_env \<Rightarrow> string \<Rightarrow> host \<Rightarrow> (string \<times> string) list res" where
  "discover_stacks env slug h =
     (case ssh_params_for env slug h of
        Inl e \<Rightarrow> Inl e
      | Inr _ \<Rightarrow>
          (case fst (on_host env slug h (docker_ps env)) of
             Inl e \<Rightarrow> Inr []
           | Inr r \<Rightarrow>
               Inr (if exited_zero r then compose_projects_from_ps (parse_json_output (de_loads env) (rr_stdout r))
                    else [])))"

definition discover_host_containers :: "docker_env \<Rightarrow> string \<Rightarrow> host \<Rightarrow> shown_container list res" where
  "discover_host_containers env slug h =
     res_bind (fst (on_host env slug h (docker_ps env))) (\<lambda>r.
       Inr (if exited_zero r then containers_for_display (parse_json_output (de_loads env) (rr_stdout r)) else []))"

subsection \<open>The status of an image\<close>

text \<open>A JSON list of strings, or null.\<close>

definition loads_texts :: "(string \<Rightarrow> json option) \<Rightarrow> string \<Rightarrow> string list option option" where
  "loads_texts loads s =
     (if s = [] then Some (Some [])
      else case loads s of Some j \<Rightarrow> json_texts j | None \<Rightarrow> None)"

definition check_failed :: image_check where
  "check_failed = \<lparr>ic_status = ''unknown'', ic_reason = Some REASON_REGISTRY_ERROR\<rparr>"

definition IMAGE_FORMAT :: string where
  "IMAGE_FORMAT = '' --format '' @ [QUOTE] @ ''{{json .RepoDigests}}'' @ [TAB] @ ''{{json .RepoTags}}'' @ [QUOTE]"

definition image_facts :: "(string \<Rightarrow> json option) \<Rightarrow> run_result \<Rightarrow> (string list option \<times> string list option) option" where
  "image_facts loads r =
     (if \<not> exited_zero r then Some (Some [], Some [])
      else let out = py_strip (rr_stdout r);
               (digest_part, tag_part) = (case split_once [TAB] out of Some p \<Rightarrow> p | None \<Rightarrow> (out, []))
           in case (loads_texts loads digest_part, loads_texts loads tag_part) of
                (Some d, Some t) \<Rightarrow> Some (d, t) | _ \<Rightarrow> None)"

definition check_image_status ::
  "docker_env \<Rightarrow> (string \<Rightarrow> string) \<Rightarrow> (string \<times> string) list option \<Rightarrow> string \<Rightarrow> image_check session" where
  "check_image_status env wrap creds img hs =
     (case conn_run (tr_of env) wrap (''docker image inspect '' @ shlex_quote img @ IMAGE_FORMAT) hs of
        (Inl e, h) \<Rightarrow> (Inr check_failed, h)
      | (Inr r, h) \<Rightarrow>
          (Inr (case image_facts (de_loads env) r of
                  Some (Some digests, tags) \<Rightarrow>
                    check_image_update (de_http env) (resolve_image_ref img tags (Some digests))
                      (extract_local_digest digests img) creds
                | _ \<Rightarrow> check_failed), h))"

fun check_images ::
  "docker_env \<Rightarrow> (string \<Rightarrow> string) \<Rightarrow> (string \<times> string) list option \<Rightarrow> string list
     \<Rightarrow> (string \<times> image_check) list session" where
  "check_images env wrap creds [] = ses_return []"
| "check_images env wrap creds (img # imgs) =
     ses_bind (check_image_status env wrap creds img) (\<lambda>c.
       ses_bind (check_images env wrap creds imgs) (\<lambda>rest. ses_return ((img, c) # rest)))"

subsection \<open>The containers of one host\<close>

datatype plan = AllContainers | Only "string list" | Migrate "string list"

definition container_plan :: "host \<Rightarrow> plan" where
  "container_plan h =
     (if h_docker_mode h \<noteq> Some ''selected'' then AllContainers
      else case h_docker_containers h of
             Some cs \<Rightarrow> Only cs
           | None \<Rightarrow> (case h_docker_stacks h of Some ss \<Rightarrow> Migrate ss | None \<Rightarrow> Only []))"

definition is_self_row :: "string option \<Rightarrow> json \<Rightarrow> bool" where
  "is_self_row self_id row \<longleftrightarrow> truthy_s self_id \<and> take 12 (row_str row ''ID'') = the self_id"

definition self_projects :: "string option \<Rightarrow> json list \<Rightarrow> string list" where
  "self_projects self_id rows =
     filter (\<lambda>p. p \<noteq> []) (map row_project (filter (is_self_row self_id) rows))"

type_synonym found = "string \<times> string \<times> string"

definition qualifying ::
  "string option \<Rightarrow> json list \<Rightarrow> string list \<Rightarrow> bool \<Rightarrow> json \<Rightarrow> found option" where
  "qualifying self_id rows portainer_projects portainer_active row =
     (let project = row_project row; name = row_name row; img = row_str row ''Image'' in
      if name = [] \<or> img = [] then None
      else if is_self_row self_id row then None
      else if project \<noteq> [] \<and> project \<in> set (self_projects self_id rows) then None
      else if project \<noteq> [] \<and> project \<in> set portainer_projects \<and> portainer_active then None
      else Some (name, img, project))"

definition chosen :: "plan \<Rightarrow> found list \<Rightarrow> found list" where
  "chosen pl raw_all =
     (case pl of
        AllContainers \<Rightarrow> raw_all
      | Only names \<Rightarrow> filter (\<lambda>(n, img, p). n \<in> set names) raw_all
      | Migrate stacks \<Rightarrow>
          let names = map fst (filter (\<lambda>(n, img, p). p \<in> set stacks) raw_all)
          in filter (\<lambda>(n, img, p). n \<in> set names) raw_all)"

definition migrated_config :: "string \<Rightarrow> plan \<Rightarrow> found list \<Rightarrow> disk \<Rightarrow> disk" where
  "migrated_config slug pl raw_all cfg =
     (case pl of
        Migrate stacks \<Rightarrow>
          set_docker_monitoring slug ''selected'' (Some (map fst (filter (\<lambda>(n, img, p). p \<in> set stacks) raw_all))) cfg
      | _ \<Rightarrow> cfg)"

record ssh_stack = stack +
  ds_id :: string
  ds_endpoint_id :: string
  ds_endpoint_name :: string
  ds_badge :: string
  ds_images :: "(string \<times> string \<times> string option) list"
  ds_project :: string

definition stack_entry :: "string \<Rightarrow> host \<Rightarrow> (string \<times> image_check) list \<Rightarrow> found \<Rightarrow> ssh_stack" where
  "stack_entry slug h checks f =
     (let (name, img, project) = f;
          check = get_or (dict_get checks img) check_failed;
          ref = (if project \<noteq> [] then make_compose_ref slug project name else make_standalone_ref slug name)
      in \<lparr>st_update_path = Some (''ssh/'' @ ref), st_update_status = Some (ic_status check), st_name = Some name,
          st_unknown_reason = ic_reason check, ds_id = ref, ds_endpoint_id = slug, ds_endpoint_name = h_name h,
          ds_badge = connection_badge h, ds_images = [(img, ic_status check, ic_reason check)],
          ds_project = project\<rparr>)"

definition containers_for_host ::
  "docker_env \<Rightarrow> (string \<times> string) list option \<Rightarrow> (json \<times> string) list option \<Rightarrow> string \<Rightarrow> host \<Rightarrow> disk
     \<Rightarrow> (ssh_stack list \<times> disk) res \<times> sh_call list" where
  "containers_for_host env creds known slug h cfg =
     on_host env slug h (\<lambda>wrap.
       ses_bind (docker_ps env wrap) (\<lambda>ps.
         let rows = parse_json_output (de_loads env) (rr_stdout ps);
             pl = container_plan h;
             raw_all = List.map_filter (qualifying (de_self_id env) rows (portainer_managed_projects rows known)
                         (portainer_integration_active (he_context (de_host env)))) rows;
             raw = chosen pl raw_all
         in ses_bind (check_images env wrap creds (de_order env (remdups (map (\<lambda>(n, img, p). img) raw)))) (\<lambda>checks.
              ses_return (map (stack_entry slug h checks) raw, migrated_config slug pl raw_all cfg))))"

fun scan_docker_hosts ::
  "docker_env \<Rightarrow> (string \<times> string) list option \<Rightarrow> (json \<times> string) list option \<Rightarrow> (string \<times> host) list \<Rightarrow> disk
     \<Rightarrow> ssh_stack list \<times> disk" where
  "scan_docker_hosts env creds known [] cfg = ([], cfg)"
| "scan_docker_hosts env creds known ((slug, h) # hs) cfg =
     (case fst (containers_for_host env creds known slug h cfg) of
        Inl e \<Rightarrow> scan_docker_hosts env creds known hs cfg
      | Inr (entries, cfg1) \<Rightarrow>
          (let (rest, cfg2) = scan_docker_hosts env creds known hs cfg1 in (entries @ rest, cfg2)))"

definition ssh_stacks_with_status ::
  "docker_env \<Rightarrow> (string \<times> string) list option \<Rightarrow> disk \<Rightarrow> ssh_stack list \<times> disk" where
  "ssh_stacks_with_status env creds cfg =
     (let (entries, cfg') = scan_docker_hosts env creds (portainer_stacks env) (docker_hosts cfg) cfg
      in (sort_key (\<lambda>s. (ds_endpoint_name s, get_or (st_name s) [])) entries, cfg'))"

subsection \<open>References round-trip\<close>

lemma hex_round: "n < 16 \<Longrightarrow> hex_value (hex_upper n) = Some n"
  by (auto simp: hex_value_def hex_upper_def Let_def)

lemma hex_chars: "n < 16 \<Longrightarrow> is_digit (hex_upper n) \<or> is_upper (hex_upper n)"
  by (auto simp: hex_upper_def is_digit_def is_upper_def)

lemma char_digits: "(of_char c :: nat) div 16 < 16" "(of_char c :: nat) mod 16 < 16"
proof -
  have "(of_char c :: nat) < 16 * 16" using nat_of_char_less_256 [of c] by linarith
  then show "(of_char c :: nat) div 16 < 16" by (rule less_mult_imp_div_less)
  show "(of_char c :: nat) mod 16 < 16" by (rule mod_less_divisor) simp
qed

lemmas hex_digits = hex_chars [OF char_digits(1)] hex_chars [OF char_digits(2)]

lemma url_unquote_plain: "c \<noteq> CHR ''%'' \<Longrightarrow> url_unquote (c # s) = c # url_unquote s"
  by (cases s; cases "tl s") auto

lemma url_unquote_quote: "url_unquote (url_quote s @ r) = s @ url_unquote r"
proof (induction s)
  case (Cons c s)
  have split: "url_quote (c # s) = (if url_unreserved c then [c]
      else [CHR ''%'', hex_upper (of_char c div 16), hex_upper (of_char c mod 16)]) @ url_quote s"
    by (simp add: url_quote_def)
  have "url_unreserved c \<Longrightarrow> c \<noteq> CHR ''%''"
    by (auto simp: url_unreserved_def is_lower_def is_upper_def is_digit_def)
  then show ?case
    using Cons char_digits [of c] by (auto simp: split url_unquote_plain hex_round)
qed (simp add: url_quote_def)

lemma url_quote_chars:
  assumes "c \<in> set (url_quote s)"
  shows "c \<noteq> CHR ''/'' \<and> c \<noteq> CHR '':''"
proof -
  have "url_unreserved c \<or> c = CHR ''%'' \<or> is_digit c \<or> is_upper c"
    using assms hex_digits by (fastforce simp: url_quote_def split: if_splits)
  then show ?thesis by (auto simp: url_unreserved_def is_lower_def is_upper_def is_digit_def)
qed

lemma compose_ref_reads:
  assumes "CHR ''/'' \<notin> set slug" and "CHR '':'' \<notin> set project" and "\<not> starts_with project [STANDALONE_PREFIX]"
  shows "parse_ref (make_compose_ref slug project container) = Inr (slug, project @ '':'' @ container)"
    and "ref_target_of (project @ '':'' @ container) = Project project"
proof -
  have one: "split_once ''/'' (make_compose_ref slug project container) =
      Some (slug, url_quote project @ '':'' @ url_quote container)"
    using assms(1) split_once_char [of "CHR ''/''" slug] by (simp add: make_compose_ref_def)
  have "url_unquote (url_quote project @ '':'' @ url_quote container) = project @ '':'' @ container"
    using url_unquote_quote [of container "[]"] by (simp add: url_unquote_quote url_unquote_plain)
  then show "parse_ref (make_compose_ref slug project container) = Inr (slug, project @ '':'' @ container)"
    by (simp add: parse_ref_def one)
  have "\<not> starts_with (project @ '':'' @ container) [STANDALONE_PREFIX]"
    using assms(3) by (cases project) (auto simp: STANDALONE_PREFIX_def)
  moreover have "split_once '':'' (project @ '':'' @ container) = Some (project, container)"
    using assms(2) split_once_char [of "CHR '':''" project container] by simp
  ultimately show "ref_target_of (project @ '':'' @ container) = Project project" by (simp add: ref_target_of_def)
qed

lemma standalone_ref_reads:
  assumes "CHR ''/'' \<notin> set slug"
  shows "parse_ref (make_standalone_ref slug container) = Inr (slug, STANDALONE_PREFIX # container)"
    and "ref_target_of (STANDALONE_PREFIX # container) = Standalone container"
proof -
  have two: "split_once ''/'' (make_standalone_ref slug container) = Some (slug, STANDALONE_PREFIX # url_quote container)"
    using assms split_once_char [of "CHR ''/''" slug] by (simp add: make_standalone_ref_def)
  have "url_unquote (STANDALONE_PREFIX # url_quote container) = STANDALONE_PREFIX # container"
    using url_unquote_quote [of container "[]"] by (simp add: url_unquote_plain STANDALONE_PREFIX_def)
  then show "parse_ref (make_standalone_ref slug container) = Inr (slug, STANDALONE_PREFIX # container)"
    by (simp add: parse_ref_def two)
  show "ref_target_of (STANDALONE_PREFIX # container) = Standalone container" by (simp add: ref_target_of_def)
qed

text \<open>A container's reference leads \<open>update_stack\<close> back to it: a container of a Compose project to its
  project, whatever the container is called, and a standalone container to itself.\<close>
theorem stack_ref_roundtrip:
  assumes "CHR ''/'' \<notin> set slug" and "CHR '':'' \<notin> set project" and "\<not> starts_with project [STANDALONE_PREFIX]"
  shows "parse_ref (make_compose_ref slug project container) = Inr (slug, project @ '':'' @ container)
    \<and> ref_target_of (project @ '':'' @ container) = Project project
    \<and> parse_ref (make_standalone_ref slug container) = Inr (slug, STANDALONE_PREFIX # container)
    \<and> ref_target_of (STANDALONE_PREFIX # container) = Standalone container"
  using compose_ref_reads [OF assms] standalone_ref_reads [OF assms(1)] by simp

theorem stack_ref_roundtrip_witness:
  "parse_ref (make_compose_ref ''nas'' ''media'' ''media-web-1'') = Inr (''nas'', ''media:media-web-1'')"
  using stack_ref_roundtrip [of "''nas''" "''media''" "''media-web-1''"] by (simp add: STANDALONE_PREFIX_def)

text \<open>A project name that has a colon is cut short.\<close>

lemma colon_project_misread: "ref_target_of (''a:b'' @ '':'' @ ''web'') = Project ''a''"
  by code_simp

lemma url_quote_inj: "url_quote a = url_quote b \<Longrightarrow> a = b"
  using url_unquote_quote [of a "[]"] url_unquote_quote [of b "[]"] by simp

lemma make_compose_ref_inj:
  assumes "make_compose_ref slug p c = make_compose_ref slug p' c'"
  shows "p = p' \<and> c = c'"
proof -
  have sp: "split_once '':'' (url_quote a @ CHR '':'' # b) = Some (url_quote a, b)" for a b
    using url_quote_chars [of "CHR '':''" a] by (intro split_once_char) auto
  have "url_quote p @ CHR '':'' # url_quote c = url_quote p' @ CHR '':'' # url_quote c'"
    using assms by (simp add: make_compose_ref_def)
  then have "split_once '':'' (url_quote p @ CHR '':'' # url_quote c) =
      split_once '':'' (url_quote p' @ CHR '':'' # url_quote c')" by simp
  then have "url_quote p = url_quote p' \<and> url_quote c = url_quote c'" unfolding sp by simp
  then show ?thesis using url_quote_inj by blast
qed

subsection \<open>Which containers a host shows\<close>

lemma on_host_Inr:
  assumes "on_host env slug h body = (Inr y, hs)"
  obtains sh creds wrap where "ssh_params_for env slug h = Inr (sh, creds, wrap)" and "body wrap [] = (Inr y, hs)"
  using assms by (auto simp: on_host_def split: sum.splits)

lemma conn_run_Inr:
  "conn_run tr wrap cmd hs = (Inr r, hs') \<longleftrightarrow>
     (let call = \<lparr>sk_cmd = wrap cmd, sk_input = None, sk_timeout = None\<rparr>
      in tr hs call = Done r \<and> hs' = hs @ [call])"
  by (auto simp: conn_run_def run_cmd_def wrap_command_def Let_def split: sh_out.splits)

lemma qualifying_Some:
  "qualifying self_id rows managed active row = Some (name, img, project) \<longleftrightarrow>
     name = row_name row \<and> img = row_str row ''Image'' \<and> project = row_project row
     \<and> name \<noteq> [] \<and> img \<noteq> [] \<and> \<not> is_self_row self_id row
     \<and> (project = [] \<or> project \<notin> set (self_projects self_id rows) \<and> \<not> (active \<and> project \<in> set managed))"
  by (auto simp: qualifying_def Let_def)

lemma chosen_subset: "f \<in> set (chosen pl raw) \<Longrightarrow> f \<in> set raw"
  by (auto simp: chosen_def Let_def split: plan.splits)

lemma chosen_only: "f \<in> set (chosen (Only names) raw) \<Longrightarrow> fst f \<in> set names"
  by (auto simp: chosen_def)

text \<open>A container that is shown comes from a row of \<open>docker ps\<close>; Keepup's own container, the other
  containers of its project and the projects of a connected Portainer are never shown, and in the
  mode "selected" only selected names are.\<close>
theorem shown_containers_allowed:
  assumes "containers_for_host env creds known slug h cfg = (Inr (entries, cfg'), calls)" and "e \<in> set entries"
  shows "\<exists>wrap r rows row. tr_of env [] \<lparr>sk_cmd = wrap PS_CMD, sk_input = None, sk_timeout = None\<rparr> = Done r
    \<and> rows = parse_json_output (de_loads env) (rr_stdout r) \<and> row \<in> set rows
    \<and> st_name e = Some (row_name row) \<and> ds_project e = row_project row
    \<and> \<not> is_self_row (de_self_id env) row
    \<and> (row_project row = [] \<or> row_project row \<notin> set (self_projects (de_self_id env) rows)
        \<and> \<not> (portainer_integration_active (he_context (de_host env))
               \<and> row_project row \<in> set (portainer_managed_projects rows known)))
    \<and> (\<forall>names. container_plan h = Only names \<longrightarrow> row_name row \<in> set names)"
proof -
  obtain wrap r hs where ps: "docker_ps env wrap [] = (Inr r, hs)"
    and body: "\<exists>checks. entries = map (stack_entry slug h checks) (chosen (container_plan h)
      (List.map_filter (qualifying (de_self_id env) (parse_json_output (de_loads env) (rr_stdout r))
        (portainer_managed_projects (parse_json_output (de_loads env) (rr_stdout r)) known)
        (portainer_integration_active (he_context (de_host env))))
      (parse_json_output (de_loads env) (rr_stdout r))))"
    using assms(1) unfolding containers_for_host_def
    by (elim on_host_Inr) (auto simp: ses_bind_Inr Let_def)
  define rows where "rows = parse_json_output (de_loads env) (rr_stdout r)"
  let ?q = "qualifying (de_self_id env) rows (portainer_managed_projects rows known)
    (portainer_integration_active (he_context (de_host env)))"
  obtain checks f where f: "f \<in> set (chosen (container_plan h) (List.map_filter ?q rows))"
    and e: "e = stack_entry slug h checks f"
    using body assms(2) unfolding rows_def by auto
  then obtain row where row: "row \<in> set rows" "?q row = Some f"
    by (auto dest!: chosen_subset simp: set_map_filter)
  obtain n i pr where fp: "f = (n, i, pr)" by (cases f) auto
  have only: "\<forall>names. container_plan h = Only names \<longrightarrow> n \<in> set names"
    using f fp chosen_only [of f] by auto
  have call: "tr_of env [] \<lparr>sk_cmd = wrap PS_CMD, sk_input = None, sk_timeout = None\<rparr> = Done r"
    using ps by (simp add: docker_ps_def conn_run_Inr Let_def)
  show ?thesis
    using row call only unfolding fp qualifying_Some
    by (intro exI [of _ wrap] exI [of _ r] exI [of _ rows] exI [of _ row])
      (auto simp: e fp stack_entry_def Let_def rows_def)
qed

definition docker_answers :: transport where
  "docker_answers hs call = Done \<lparr>rr_stdout = ''{}'', rr_stderr = [], rr_returncode = Some 0, rr_signal = None\<rparr>"

definition demo_docker :: docker_env where
  "demo_docker =
     \<lparr>de_host = demo_env\<lparr>he_transport := docker_answers\<rparr>, de_creds = (\<lambda>_. []), de_self_id = Some ''0badcafe0000'',
      de_loads = (\<lambda>_. Some (JObj [(''ID'', JStr ''aaaabbbbcccc''), (''Names'', JStr ''web''), (''Image'', JStr ''nginx'')])),
      de_stacks = None, de_http = (\<lambda>_. NetFail), de_order = (\<lambda>xs. xs)\<rparr>"

definition docker_host :: host where
  "docker_host = (build_host_entry ''nas'' ''10.0.0.3'' (Some ''root'') None None None None None None None)
     \<lparr>h_docker_mode := Some ''selected'', h_docker_containers := Some [''web'']\<rparr>"

lemma demo_listing:
  "\<exists>e calls. containers_for_host demo_docker None None ''nas'' docker_host None = (Inr ([e], None), calls)"
  by (rule exI, rule exI, code_simp)

theorem shown_containers_allowed_witness:
  "\<exists>(e :: ssh_stack) row. st_name e = Some (row_name row) \<and> \<not> is_self_row (de_self_id demo_docker) row
     \<and> ds_project e = row_project row"
proof -
  obtain e calls where
    "containers_for_host demo_docker None None ''nas'' docker_host None = (Inr ([e], None), calls)"
    using demo_listing by blast
  from shown_containers_allowed [OF this, of e, simplified] show ?thesis
    by (elim exE conjE) (intro exI conjI, assumption+)
qed

text \<open>The migration of an old selection of stacks takes a failed listing for a host without containers: when
  \<open>docker ps\<close> prints nothing, the selection is replaced by an empty one.\<close>

lemma failed_listing_loses_selection:
  assumes "ssh_params_for env slug h = Inr (sh, creds, wrap)" and "he_dial (de_host env) a = None"
    and "connect_args sh creds = Inr a"
    and "tr_of env [] \<lparr>sk_cmd = wrap PS_CMD, sk_input = None, sk_timeout = None\<rparr> =
      Done \<lparr>rr_stdout = [], rr_stderr = err, rr_returncode = Some 1, rr_signal = None\<rparr>"
    and "container_plan h = Migrate stacks" and "de_order env [] = []"
  shows "fst (containers_for_host env dh known slug h cfg) =
    Inr ([], set_docker_monitoring slug ''selected'' (Some []) cfg)"
  using assms
  by (simp add: containers_for_host_def on_host_def connect_def ses_bind_def docker_ps_def conn_run_def run_cmd_def
      wrap_command_def parse_json_output_def py_strip_def py_lstrip_def py_rstrip_def migrated_config_def chosen_def
      ses_return_def Let_def map_filter_simps)

end
