(* ===== verification/DockerRun.thy ===== *)
theory DockerRun
  imports DockerText
begin

section \<open>Recreating a container (\<open>_build_docker_run_cmd\<close>)\<close>

text \<open>
  The \<open>docker run\<close> command built from an inspect document.  Objects are association lists in
  insertion order; \<open>fields\<close>, \<open>items\<close>, \<open>text_of\<close> and \<open>number_of\<close> read a field as an object, a
  list, a string and a number.  Python's float divisions of nanoseconds are exact here; they are
  exact in the code below 2 to the 52.
\<close>

type_synonym obj = "(string \<times> json) list"

definition fields_of :: "obj \<Rightarrow> string \<Rightarrow> obj" where
  "fields_of j k = (case dict_get j k of Some (JObj d) \<Rightarrow> d | _ \<Rightarrow> [])"

definition items_of :: "obj \<Rightarrow> string \<Rightarrow> json list" where
  "items_of j k = (case dict_get j k of Some (JList l) \<Rightarrow> l | _ \<Rightarrow> [])"

definition text_of :: "obj \<Rightarrow> string \<Rightarrow> string" where
  "text_of j k = (case dict_get j k of Some (JStr s) \<Rightarrow> s | _ \<Rightarrow> [])"

definition number_of :: "obj \<Rightarrow> string \<Rightarrow> int" where
  "number_of j k = (case dict_get j k of Some (JNum n) \<Rightarrow> n | _ \<Rightarrow> 0)"

fun as_text :: "json \<Rightarrow> string" where
  "as_text (JStr s) = s"
| "as_text _ = []"

fun as_obj :: "json \<Rightarrow> obj" where
  "as_obj (JObj d) = d"
| "as_obj _ = []"

definition texts_of :: "obj \<Rightarrow> string \<Rightarrow> string list" where
  "texts_of j k = map as_text (items_of j k)"

definition flag :: "string \<Rightarrow> string \<Rightarrow> string list" where
  "flag name v = (if v \<noteq> [] then [name, v] else [])"

definition flag_each :: "string \<Rightarrow> string list \<Rightarrow> string list" where
  "flag_each name vs = concat (map (\<lambda>v. [name, v]) vs)"

definition flag_number :: "string \<Rightarrow> int \<Rightarrow> string list" where
  "flag_number name n = (if n \<noteq> 0 then [name, show_int n] else [])"

definition ns_to_duration :: "int \<Rightarrow> string" where
  "ns_to_duration ns =
     (if ns \<ge> 1000000000 \<and> ns mod 1000000000 = 0 then show_int (ns div 1000000000) @ ''s''
      else if ns mod 1000000 = 0 then show_int (ns div 1000000) @ ''ms''
      else show_int ns @ ''ns'')"

text \<open>\<open>f"{n / 1e9:.9f}".rstrip("0").rstrip(".")\<close>.\<close>

definition pad9 :: "string \<Rightarrow> string" where
  "pad9 s = replicate (9 - length s) CHR ''0'' @ s"

definition cpus_text :: "int \<Rightarrow> string" where
  "cpus_text n = rstrip_char CHR ''.'' (rstrip_char CHR ''0''
     (show_int (n div 1000000000) @ ''.'' @ pad9 (show_int (n mod 1000000000))))"

definition container_name :: "obj \<Rightarrow> string" where
  "container_name j = lstrip_char CHR ''/'' (text_of j ''Name'')"

definition restart_args :: "obj \<Rightarrow> string list" where
  "restart_args hc =
     (let restart = fields_of hc ''RestartPolicy''; n = text_of restart ''Name'';
          max_retry = number_of restart ''MaximumRetryCount''
      in if n = [] \<or> n = ''no'' then []
         else if n = ''on-failure'' \<and> max_retry \<noteq> 0 then [''--restart'', ''on-failure:'' @ show_int max_retry]
         else [''--restart'', n])"

definition attached_network :: "obj \<Rightarrow> obj \<Rightarrow> string list \<times> string" where
  "attached_network hc networks =
     (let mode = text_of hc ''NetworkMode'' in
      if mode \<noteq> [] \<and> mode \<notin> {''default'', ''bridge''}
      then ([''--network'', mode], if mode \<in> fst ` set networks then mode else [])
      else case find (\<lambda>(n, v). n \<notin> {''bridge'', ''host'', ''none''}) networks of
             Some (n, v) \<Rightarrow> ([''--network'', n], n)
           | None \<Rightarrow> ([], []))"

definition network_args :: "obj \<Rightarrow> obj \<Rightarrow> string list" where
  "network_args hc networks =
     (let (args, attached) = attached_network hc networks;
          ipam = fields_of (fields_of networks attached) ''IPAMConfig''
      in args @ (if attached \<noteq> []
                 then flag ''--ip'' (text_of ipam ''IPv4Address'') @ flag ''--ip6'' (text_of ipam ''IPv6Address'')
                 else []))"

definition hostname_args :: "obj \<Rightarrow> obj \<Rightarrow> string list" where
  "hostname_args j config =
     (let hostname = text_of config ''Hostname''; short_id = take 12 (text_of j ''Id'') in
      if hostname \<noteq> [] \<and> hostname \<noteq> short_id \<and> hostname \<noteq> container_name j
      then [''--hostname'', hostname] else [])"

definition ulimit_text :: "json \<Rightarrow> string" where
  "ulimit_text ul =
     (let u = as_obj ul in text_of u ''Name'' @ ''='' @ show_int (number_of u ''Soft'') @ '':''
        @ show_int (number_of u ''Hard''))"

definition pair_text :: "string \<times> json \<Rightarrow> string" where
  "pair_text kv = fst kv @ ''='' @ as_text (snd kv)"

definition limit_args :: "obj \<Rightarrow> string list" where
  "limit_args hc =
     flag_number ''--memory'' (number_of hc ''Memory'')
     @ (if number_of hc ''NanoCpus'' \<noteq> 0 then [''--cpus'', cpus_text (number_of hc ''NanoCpus'')] else [])
     @ flag_number ''--cpu-shares'' (number_of hc ''CpuShares'')
     @ flag_each ''--ulimit'' (map ulimit_text (items_of hc ''Ulimits''))
     @ flag_each ''--sysctl'' (map pair_text (fields_of hc ''Sysctls''))
     @ flag_each ''--security-opt'' (texts_of hc ''SecurityOpt'')"

definition flag_duration :: "string \<Rightarrow> int \<Rightarrow> string list" where
  "flag_duration name ns = (if ns \<noteq> 0 then [name, ns_to_duration ns] else [])"

definition health_args :: "obj \<Rightarrow> string list" where
  "health_args config =
     (let hc = fields_of config ''Healthcheck''; test = texts_of hc ''Test'' in
      if take 1 test = [''NONE''] then [''--no-healthcheck'']
      else if test \<noteq> [] \<and> hd test \<in> {''CMD'', ''CMD-SHELL''}
      then [''--health-cmd'',
             if hd test = ''CMD-SHELL'' then (if length test > 1 then test ! 1 else [])
             else py_join '' '' (tl test)]
         @ flag_duration ''--health-interval'' (number_of hc ''Interval'')
         @ flag_duration ''--health-timeout'' (number_of hc ''Timeout'')
         @ flag_number ''--health-retries'' (number_of hc ''Retries'')
         @ flag_duration ''--health-start-period'' (number_of hc ''StartPeriod'')
      else [])"

definition ipc_args :: "obj \<Rightarrow> string list" where
  "ipc_args hc =
     (let m = text_of hc ''IpcMode'' in
      if m \<noteq> [] \<and> m \<notin> {''shareable'', ''private''} then [''--ipc'', m] else [])"

definition port_args :: "string \<times> json \<Rightarrow> string list" where
  "port_args pb =
     concat (map (\<lambda>hb. let ip = text_of (as_obj hb) ''HostIp''; port = text_of (as_obj hb) ''HostPort'' in
         [''-p'', if ip \<noteq> [] \<and> ip \<notin> {''0.0.0.0'', ''::''} then ip @ '':'' @ port @ '':'' @ fst pb
                 else if port \<noteq> [] then port @ '':'' @ fst pb
                 else fst pb])
       (case snd pb of JList l \<Rightarrow> l | _ \<Rightarrow> []))"

definition device_args :: "json \<Rightarrow> string list" where
  "device_args dev =
     (let d = as_obj dev; from = text_of d ''PathOnHost''; into = text_of d ''PathInContainer'';
          perms = (if dict_get d ''CgroupPermissions'' = None then ''rwm'' else text_of d ''CgroupPermissions'')
      in if from \<noteq> [] \<and> into \<noteq> [] then [''--device'', from @ '':'' @ into @ '':'' @ perms] else [])"

definition SKIP_PREFIXES :: "string list" where
  "SKIP_PREFIXES = [''com.docker.compose.'', ''org.opencontainers.'', ''desktop.docker.'']"

definition label_args :: "obj \<Rightarrow> string list" where
  "label_args config =
     flag_each ''-l'' (map pair_text
       (filter (\<lambda>kv. \<not> list_ex (\<lambda>p. starts_with (fst kv) p) SKIP_PREFIXES) (fields_of config ''Labels'')))"

definition log_args :: "obj \<Rightarrow> string list" where
  "log_args hc =
     (let lc = fields_of hc ''LogConfig''; driver = text_of lc ''Type'' in
      if driver \<noteq> [] \<and> driver \<noteq> ''json-file''
      then [''--log-driver'', driver] @ flag_each ''--log-opt'' (map pair_text (fields_of lc ''Config''))
      else [])"

definition option_args :: "obj \<Rightarrow> string list" where
  "option_args j =
     (let config = fields_of j ''Config''; hc = fields_of j ''HostConfig'';
          networks = fields_of (fields_of j ''NetworkSettings'') ''Networks''
      in flag ''--name'' (container_name j)
         @ restart_args hc
         @ network_args hc networks
         @ hostname_args j config
         @ (if json_truthy (get_or (dict_get hc ''Privileged'') JNull) then [''--privileged''] else [])
         @ flag ''--user'' (text_of config ''User'')
         @ flag ''--workdir'' (text_of config ''WorkingDir'')
         @ limit_args hc
         @ flag ''--stop-signal'' (text_of config ''StopSignal'')
         @ flag_number ''--stop-timeout'' (number_of config ''StopTimeout'')
         @ health_args config
         @ flag_each ''--cap-add'' (texts_of hc ''CapAdd'')
         @ flag_each ''--cap-drop'' (texts_of hc ''CapDrop'')
         @ flag ''--pid'' (text_of hc ''PidMode'')
         @ ipc_args hc
         @ flag_each ''-e'' (texts_of config ''Env'')
         @ flag_each ''-v'' (texts_of hc ''Binds'')
         @ flag_each ''--tmpfs'' (map fst (fields_of hc ''Tmpfs''))
         @ concat (map port_args (fields_of hc ''PortBindings''))
         @ concat (map device_args (items_of hc ''Devices''))
         @ label_args config
         @ flag_each ''--dns'' (texts_of hc ''Dns'')
         @ flag_each ''--add-host'' (texts_of hc ''ExtraHosts'')
         @ log_args hc)"

definition run_parts :: "obj \<Rightarrow> string list" where
  "run_parts j =
     (let config = fields_of j ''Config''; entrypoint = texts_of config ''Entrypoint'' in
      [''docker'', ''run'', ''-d'']
      @ option_args j
      @ (if entrypoint \<noteq> [] then [''--entrypoint'', hd entrypoint] else [])
      @ [text_of config ''Image'']
      @ tl entrypoint
      @ texts_of config ''Cmd'')"

definition build_docker_run_cmd :: "obj \<Rightarrow> string" where
  "build_docker_run_cmd j = py_join '' '' (map shlex_quote (run_parts j))"

subsection \<open>The shell reads back the arguments\<close>




subsection \<open>The docker client reads back options, image and arguments\<close>

text \<open>How \<open>docker run\<close> reads its arguments: options that stand alone, options with one value, and from
  the first word without a hyphen on the image and the arguments of the container.\<close>

definition LONE_FLAGS :: "string list" where
  "LONE_FLAGS = [''-d'', ''--privileged'', ''--no-healthcheck'']"

fun cli_read :: "string list \<Rightarrow> (string \<times> string option) list \<times> string list" where
  "cli_read [] = ([], [])"
| "cli_read (w # ws) =
     (if w \<in> set LONE_FLAGS then (let (os, r) = cli_read ws in ((w, None) # os, r))
      else if starts_with w ''-''
      then (case ws of [] \<Rightarrow> ([(w, None)], [])
                     | v # vs \<Rightarrow> (let (os, r) = cli_read vs in ((w, Some v) # os, r)))
      else ([], w # ws))"

fun flags_ok :: "string list \<Rightarrow> bool" where
  "flags_ok [] = True"
| "flags_ok (w # ws) =
     (if w \<in> set LONE_FLAGS then flags_ok ws
      else starts_with w ''-'' \<and> (case ws of [] \<Rightarrow> False | v # vs \<Rightarrow> flags_ok vs))"



definition valued :: "string \<Rightarrow> bool" where
  "valued name \<longleftrightarrow> name \<notin> set LONE_FLAGS \<and> starts_with name ''-''"

lemma flags_ok_valued [simp]: "valued name \<Longrightarrow> flags_ok (name # v # r) = flags_ok r"
  by (auto simp: valued_def)

lemma flags_ok_lone: "w \<in> set LONE_FLAGS \<Longrightarrow> flags_ok (w # r) = flags_ok r"
  by simp

declare flags_ok.simps(2) [simp del]


lemma valued_names [simp]:
  "valued ''--name''" "valued ''--restart''" "valued ''--network''" "valued ''--ip''" "valued ''--ip6''"
  "valued ''--hostname''" "valued ''--user''" "valued ''--workdir''" "valued ''--memory''" "valued ''--cpus''"
  "valued ''--cpu-shares''" "valued ''--ulimit''" "valued ''--sysctl''" "valued ''--security-opt''"
  "valued ''--stop-signal''" "valued ''--stop-timeout''" "valued ''--health-cmd''" "valued ''--health-interval''"
  "valued ''--health-timeout''" "valued ''--health-retries''" "valued ''--health-start-period''"
  "valued ''--cap-add''" "valued ''--cap-drop''" "valued ''--pid''" "valued ''--ipc''" "valued ''-e''" "valued ''-v''"
  "valued ''--tmpfs''" "valued ''-p''" "valued ''--device''" "valued ''-l''" "valued ''--dns''" "valued ''--add-host''"
  "valued ''--log-driver''" "valued ''--log-opt''" "valued ''--entrypoint''"
  by (simp_all add: valued_def LONE_FLAGS_def)

lemma lone_flags_ok [simp]: "flags_ok [''--privileged'']" "flags_ok [''--no-healthcheck'']"
  by (simp_all add: flags_ok_lone LONE_FLAGS_def)







subsection \<open>The settings of a container\<close>













definition options_given :: "(string \<times> string option list) list \<Rightarrow> (string \<times> string option) list" where
  "options_given settings = concat (map (\<lambda>(name, vs). map (Pair name) vs) settings)"

lemma options_given_simps [simp]:
  "options_given [] = []" "options_given ((name, vs) # r) = map (Pair name) vs @ options_given r" "options_given (a @ b) = options_given a @ options_given b"
  by (simp_all add: options_given_def)

subsection \<open>Each group of options says its settings\<close>

definition options_in :: "string list \<Rightarrow> (string \<times> string option) list" where
  "options_in ws = fst (cli_read ws)"

lemma options_in_simps [simp]:
  "options_in [] = []"
  "valued name \<Longrightarrow> options_in (name # v # r) = (name, Some v) # options_in r"
  "w \<in> set LONE_FLAGS \<Longrightarrow> options_in (w # r) = (w, None) # options_in r"
  by (auto simp: options_in_def valued_def case_prod_beta)















lemma lone_options [simp]:
  "options_in (''-d'' # r) = (''-d'', None) # options_in r"
  "options_in [''--privileged''] = [(''--privileged'', None)]"
  "options_in [''--no-healthcheck''] = [(''--no-healthcheck'', None)]"
  by (simp_all add: LONE_FLAGS_def)








definition demo_inspect :: obj where
  "demo_inspect = [(''Id'', JStr ''0badcafe''), (''Name'', JStr ''/web''),
     (''Config'', JObj [(''Image'', JStr ''nginx:1''), (''Entrypoint'', JList [JStr ''/entry'', JStr ''x'']),
       (''Cmd'', JList [JStr ''-v'']), (''Env'', JList [JStr ''A=b c''])]),
     (''HostConfig'', JObj [(''Privileged'', JBool True), (''Binds'', JList [JStr ''/srv/www:/data'']),
       (''PortBindings'', JObj [(''80/tcp'', JList [JObj [(''HostIp'', JStr ''0.0.0.0''), (''HostPort'', JStr ''8080'')]])])])]"


lemma demo_inspect_cmd:
  "build_docker_run_cmd demo_inspect =
     ''docker run -d --name web --privileged -e '' @ [QUOTE] @ ''A=b c'' @ [QUOTE]
       @ '' -v /srv/www:/data -p 8080:80/tcp --entrypoint /entry nginx:1 x -v''"
  by code_simp

end
