(* ===== verification/DockerUpdate.thy ===== *)
theory DockerUpdate
  imports DockerHosts DockerRun "HOL-Library.Sublist"
begin

section \<open>Updating containers over SSH (app/backends/ssh_docker_backend.py)\<close>

text \<open>
  The two update procedures as sessions: a Compose project is pulled and brought up as a whole; a
  standalone container is renamed aside, recreated from its inspect document, verified and only
  then removed.  A failure carries the lines captured so far.  The pause before the verification
  takes time only and is left out.
\<close>

definition stack_error :: "string \<Rightarrow> string list \<Rightarrow> exn" where
  "stack_error message lines = Exn ''StackUpdateError'' message lines"

abbreviation runtime_error :: "string \<Rightarrow> exn" where
  "runtime_error message \<equiv> Exn ''RuntimeError'' message []"

definition capture :: "string \<Rightarrow> run_result \<Rightarrow> string list" where
  "capture label r =
     (let text = py_rstrip (rr_stdout r) in
      (''$ '' @ label) # (if text \<noteq> [] then split_char NL text else [])
      @ (case rr_returncode r of
           Some code \<Rightarrow> if code \<noteq> 0 then [''[exit '' @ show_int code @ '']''] else [] | None \<Rightarrow> []))"

definition quoted :: "string \<Rightarrow> string" where
  "quoted s = [QUOTE] @ s @ [QUOTE]"

definition conn_label :: "string \<Rightarrow> host \<Rightarrow> string" where
  "conn_label slug h = get_or (h_host h) slug"

subsection \<open>Compose projects\<close>

definition COMPOSE_PROBE :: string where
  "COMPOSE_PROBE = ''docker compose version >/dev/null 2>&1 && echo v2 ''
     @ ''|| { docker-compose --version >/dev/null 2>&1 && echo v1 || echo none; }''"

definition detect_compose_binary :: "docker_env \<Rightarrow> (string \<Rightarrow> string) \<Rightarrow> string \<Rightarrow> string session" where
  "detect_compose_binary env wrap label =
     ses_bind (conn_run (tr_of env) wrap COMPOSE_PROBE) (\<lambda>r.
       let out = py_lines (py_strip (rr_stdout r)); flavour = (if out = [] then [] else py_strip (last out)) in
       if flavour = ''v2'' then ses_return ''docker compose''
       else if flavour = ''v1'' then ses_return ''docker-compose''
       else ses_fail (runtime_error (''Neither '' @ quoted ''docker compose'' @ '' (v2) nor ''
              @ quoted ''docker-compose'' @ '' (v1) is available on '' @ label)))"

definition get_config_file :: "docker_env \<Rightarrow> (string \<Rightarrow> string) \<Rightarrow> string \<Rightarrow> string session" where
  "get_config_file env wrap project =
     ses_bind (docker_ps env wrap) (\<lambda>r.
       ses_return (get_or (dict_get (compose_projects_from_ps (parse_json_output (de_loads env) (rr_stdout r))) project) []))"

text \<open>Keepup does not update the project it belongs to.\<close>

definition refuse_self_project :: "docker_env \<Rightarrow> (string \<Rightarrow> string) \<Rightarrow> string \<Rightarrow> string \<Rightarrow> unit session" where
  "refuse_self_project env wrap project label =
     (if \<not> truthy_s (de_self_id env) then ses_return ()
      else ses_bind (docker_ps env wrap) (\<lambda>r.
        if list_ex (\<lambda>row. is_self_row (de_self_id env) row \<and> row_project row = project)
             (parse_json_output (de_loads env) (rr_stdout r))
        then ses_fail (Exn ''ValueError'' (''Self-update refused: Keepup is part of compose project ''
               @ py_repr project @ '' on '' @ label) [])
        else ses_return ()))"

definition portainer_owned_error :: "docker_env \<Rightarrow> string \<Rightarrow> string \<Rightarrow> string \<Rightarrow> exn" where
  "portainer_owned_error env project config_file label =
     (let gone = (case portainer_stacks env of
                    Some known \<Rightarrow> \<not> is_listed_stack config_file project known | None \<Rightarrow> False)
      in runtime_error (''Stack '' @ py_repr project @
           (if gone
            then '' can'' @ [QUOTE] @ ''t be updated from Keepup: its compose file '' @ config_file @ '' is not on ''
              @ label @ '', and Portainer no longer lists the stack. Re-create the stack in Portainer, or put its ''
              @ ''compose file on '' @ label @ ''.''
            else if portainer_integration_active (he_context (de_host env))
            then '' was deployed via Portainer; redeploy it from its Portainer entry in the dashboard, not over SSH.''
            else '' was deployed via Portainer (its compose file lives in Portainer'' @ [QUOTE]
              @ ''s data volume, not on '' @ label @ ''). Connect the Portainer integration to redeploy it.'')))"

text \<open>The compose file to use, empty for none, and the line that says so.\<close>

definition usable_config ::
  "docker_env \<Rightarrow> (string \<Rightarrow> string) \<Rightarrow> string \<Rightarrow> string \<Rightarrow> (string \<times> string list) session" where
  "usable_config env wrap project label =
     ses_bind (get_config_file env wrap project) (\<lambda>cf.
       if cf = [] then ses_return ([], [])
       else ses_bind (conn_run (tr_of env) wrap (''test -f '' @ shlex_quote cf @ '' && echo exists'')) (\<lambda>r.
         if contains (rr_stdout r) ''exists'' then ses_return (cf, [''Using compose file: '' @ cf])
         else if starts_with cf ''/data/compose/'' then ses_fail (portainer_owned_error env project cf label)
         else ses_return ([], [''Compose config '' @ py_repr cf @ '' not found on '' @ label @ '' '' @ DASH
                @ '' falling back to project name''])))"

definition compose_args :: "string \<Rightarrow> string \<Rightarrow> string" where
  "compose_args project cf =
     ''-p '' @ shlex_quote project @ (if cf \<noteq> [] then '' -f '' @ shlex_quote cf else [])"

definition pull_and_up ::
  "docker_env \<Rightarrow> (string \<Rightarrow> string) \<Rightarrow> string \<Rightarrow> string \<Rightarrow> string list \<Rightarrow> string list session" where
  "pull_and_up env wrap binary args out =
     ses_bind (conn_run (tr_of env) wrap (binary @ '' '' @ args @ '' pull 2>&1'')) (\<lambda>pull.
       let out1 = out @ capture (binary @ '' '' @ args @ '' pull'') pull in
       if \<not> exited_zero pull
       then ses_fail (stack_error (binary @ '' pull failed:'' @ [NL] @ rr_stdout pull) out1)
       else ses_bind (conn_run (tr_of env) wrap (binary @ '' '' @ args @ '' up -d 2>&1'')) (\<lambda>up.
         let out2 = out1 @ capture (binary @ '' '' @ args @ '' up -d'') up in
         if \<not> exited_zero up
         then ses_fail (stack_error (binary @ '' up -d failed:'' @ [NL] @ rr_stdout up) out2)
         else ses_return (out2 @ [''Compose update complete.''])))"

definition compose_session ::
  "docker_env \<Rightarrow> string \<Rightarrow> string \<Rightarrow> (string \<Rightarrow> string) \<Rightarrow> string list session" where
  "compose_session env project label wrap =
     ses_bind (refuse_self_project env wrap project label) (\<lambda>_.
       ses_bind (detect_compose_binary env wrap label) (\<lambda>binary.
         ses_bind (usable_config env wrap project label) (\<lambda>(cf, said).
           pull_and_up env wrap binary (compose_args project cf)
             ([''Updating compose project '' @ py_repr project @ '' on '' @ label,
               ''Using compose binary: '' @ binary] @ said))))"

definition update_compose_project ::
  "docker_env \<Rightarrow> string \<Rightarrow> host \<Rightarrow> string \<Rightarrow> string list res \<times> sh_call list" where
  "update_compose_project env slug h project =
     on_host env slug h (compose_session env project (conn_label slug h))"

subsection \<open>Standalone containers\<close>

definition inspect_document :: "(string \<Rightarrow> json option) \<Rightarrow> string \<Rightarrow> obj res" where
  "inspect_document loads out =
     (case loads out of
        None \<Rightarrow> raise ''JSONDecodeError'' ''Expecting value''
      | Some (JList (JObj j # _)) \<Rightarrow> Inr j
      | Some (JList []) \<Rightarrow> raise ''IndexError'' ''list index out of range''
      | Some _ \<Rightarrow> raise ''TypeError'' ''unexpected inspect document'')"

definition inspected_image :: "obj \<Rightarrow> string res" where
  "inspected_image j =
     (case dict_get (fields_of j ''Config'') ''Image'' of
        Some (JStr img) \<Rightarrow> Inr img | _ \<Rightarrow> raise ''KeyError'' (py_repr ''Image''))"

definition backup_name :: "string \<Rightarrow> string" where
  "backup_name name = name @ ''__keepup_old''"

definition VERIFY_FORMAT :: string where
  "VERIFY_FORMAT = [QUOTE] @ ''{{.State.Running}} {{.RestartCount}}'' @ [QUOTE]"

definition verify_cmd :: "string \<Rightarrow> string" where
  "verify_cmd name = ''docker inspect -f '' @ VERIFY_FORMAT @ '' '' @ shlex_quote name"

definition verified :: "run_result \<Rightarrow> bool" where
  "verified r \<longleftrightarrow> exited_zero r \<and> py_words (py_strip (rr_stdout r)) = [''true'', ''0'']"

definition verify_line :: "run_result \<Rightarrow> string" where
  "verify_line r =
     (let ws = py_words (py_strip (rr_stdout r)) in
      ''Verified after 3s: running='' @ (if ws \<noteq> [] then hd ws else ''unknown'')
      @ '' restarts='' @ (if length ws = 2 then ws ! 1 else ''unknown''))"

definition roll_back :: "docker_env \<Rightarrow> (string \<Rightarrow> string) \<Rightarrow> string \<Rightarrow> run_result \<Rightarrow> string list \<Rightarrow> string list session" where
  "roll_back env wrap name run out =
     ses_bind (conn_run (tr_of env) wrap (''docker rm -f '' @ shlex_quote name)) (\<lambda>_.
       ses_bind (conn_run (tr_of env) wrap
           (''docker rename '' @ shlex_quote (backup_name name) @ '' '' @ shlex_quote name)) (\<lambda>_.
         ses_bind (conn_run (tr_of env) wrap (''docker start '' @ shlex_quote name)) (\<lambda>_.
           ses_fail (stack_error (''docker run failed; rolled back to previous container:'' @ [NL] @ rr_stdout run)
             (out @ [''Rolled back to the previous container.''])))))"

definition drop_backup :: "docker_env \<Rightarrow> (string \<Rightarrow> string) \<Rightarrow> string \<Rightarrow> string list \<Rightarrow> string list session" where
  "drop_backup env wrap name out =
     ses_bind (conn_run (tr_of env) wrap (''docker rm '' @ shlex_quote (backup_name name))) (\<lambda>_.
       ses_return (out @ [''Replacement is still running with no restarts '' @ DASH @ '' removed backup ''
         @ backup_name name @ ''.'']))"

definition start_replacement ::
  "docker_env \<Rightarrow> (string \<Rightarrow> string) \<Rightarrow> string \<Rightarrow> obj \<Rightarrow> string list \<Rightarrow> string list session" where
  "start_replacement env wrap name j out =
     ses_bind (conn_run (tr_of env) wrap (build_docker_run_cmd j @ '' 2>&1'')) (\<lambda>run.
       let out1 = out @ capture (''docker run (recreating '' @ name @ '')'') run in
       if \<not> exited_zero run then roll_back env wrap name run out1
       else ses_bind (conn_run (tr_of env) wrap (verify_cmd name)) (\<lambda>v.
         let out2 = out1 @ [verify_line v] in
         if verified v then drop_backup env wrap name out2 else roll_back env wrap name run out2))"

definition swap_container ::
  "docker_env \<Rightarrow> (string \<Rightarrow> string) \<Rightarrow> string \<Rightarrow> obj \<Rightarrow> string list \<Rightarrow> string list session" where
  "swap_container env wrap name j out =
     (let backup = backup_name name in
      ses_bind (conn_run (tr_of env) wrap
          (''docker rename '' @ shlex_quote name @ '' '' @ shlex_quote backup @ '' 2>&1'')) (\<lambda>rename.
        let out1 = out @ capture (''docker rename '' @ name @ '' '' @ backup) rename in
        if \<not> exited_zero rename
        then ses_fail (stack_error (''docker rename failed (original left untouched):'' @ [NL] @ rr_stdout rename) out1)
        else ses_bind (conn_run (tr_of env) wrap (''docker stop '' @ shlex_quote backup)) (\<lambda>stop.
          start_replacement env wrap name j (out1 @ capture (''docker stop '' @ backup) stop))))"

definition pull_and_swap ::
  "docker_env \<Rightarrow> (string \<Rightarrow> string) \<Rightarrow> string \<Rightarrow> string \<Rightarrow> obj \<Rightarrow> string \<Rightarrow> string list session" where
  "pull_and_swap env wrap name label j img =
     ses_bind (conn_run (tr_of env) wrap (''docker pull '' @ shlex_quote img @ '' 2>&1'')) (\<lambda>pull.
       let out = [''Updating standalone container '' @ py_repr name @ '' on '' @ label]
                   @ capture (''docker pull '' @ img) pull in
       if \<not> exited_zero pull
       then ses_fail (stack_error (''docker pull failed:'' @ [NL] @ rr_stdout pull) out)
       else swap_container env wrap name j out)"

definition recreate_session ::
  "docker_env \<Rightarrow> (string \<Rightarrow> string) \<Rightarrow> string \<Rightarrow> string \<Rightarrow> obj \<Rightarrow> string list session" where
  "recreate_session env wrap name label j =
     (if truthy_s (de_self_id env) \<and> take 12 (text_of j ''Id'') = the (de_self_id env)
      then ses_fail (Exn ''ValueError'' (''Self-update refused: Keepup is standalone container ''
             @ py_repr name @ '' on '' @ label) [])
      else ses_bind (ses_lift (inspected_image j)) (pull_and_swap env wrap name label j))"

definition standalone_session ::
  "docker_env \<Rightarrow> string \<Rightarrow> string \<Rightarrow> (string \<Rightarrow> string) \<Rightarrow> string list session" where
  "standalone_session env name label wrap =
     ses_bind (conn_run (tr_of env) wrap (''docker inspect '' @ shlex_quote name)) (\<lambda>r.
       if \<not> exited_zero r \<or> py_strip (rr_stdout r) = []
       then ses_fail (runtime_error (''Container '' @ py_repr name @ '' not found''))
       else ses_bind (ses_lift (inspect_document (de_loads env) (rr_stdout r)))
              (recreate_session env wrap name label))"

definition update_standalone_container ::
  "docker_env \<Rightarrow> string \<Rightarrow> host \<Rightarrow> string \<Rightarrow> string list res \<times> sh_call list" where
  "update_standalone_container env slug h name =
     on_host env slug h (standalone_session env name (conn_label slug h))"

definition update_ssh_stack :: "docker_env \<Rightarrow> disk \<Rightarrow> string \<Rightarrow> string list res \<times> sh_call list" where
  "update_ssh_stack env cfg ref =
     (case parse_ref ref of
        Inl e \<Rightarrow> (Inl e, [])
      | Inr (slug, rest) \<Rightarrow>
          (case map_of (docker_hosts cfg) slug of
             None \<Rightarrow> (raise ''ValueError'' (''No Docker-enabled host with slug '' @ py_repr slug), [])
           | Some h \<Rightarrow>
               (case ref_target_of rest of
                  Standalone name \<Rightarrow> update_standalone_container env slug h name
                | Project project \<Rightarrow> update_compose_project env slug h project)))"

subsection \<open>How a session ends\<close>

abbreviation the_call :: "(string \<Rightarrow> string) \<Rightarrow> string \<Rightarrow> sh_call" where
  "the_call wrap cmd \<equiv> \<lparr>sk_cmd = wrap cmd, sk_input = None, sk_timeout = None\<rparr>"

text \<open>The last command was not answered: the connection was lost or the command raised.\<close>

definition unanswered :: "transport \<Rightarrow> sh_call list \<Rightarrow> bool" where
  "unanswered tr calls \<longleftrightarrow> calls \<noteq> [] \<and> \<not> (\<exists>x. tr (butlast calls) (last calls) = Done x)"

lemma conn_run_cases:
  assumes "conn_run tr wrap cmd hs = (r, calls)"
  obtains x where "r = Inr x" "calls = hs @ [the_call wrap cmd]" "tr hs (the_call wrap cmd) = Done x"
  | e where "r = Inl e" "calls = hs @ [the_call wrap cmd]" "unanswered tr calls"
  using assms by (auto simp: conn_run_def run_cmd_def wrap_command_def Let_def unanswered_def split: sh_out.splits)

lemma run_then:
  assumes "ses_bind (conn_run tr wrap cmd) f hs = (r, calls)"
  obtains x where "tr hs (the_call wrap cmd) = Done x" "f x (hs @ [the_call wrap cmd]) = (r, calls)"
  | e where "r = Inl e" "calls = hs @ [the_call wrap cmd]" "unanswered tr calls"
proof -
  obtain a h where c: "conn_run tr wrap cmd hs = (a, h)" by (rule prod.exhaust)
  from c show ?thesis
  proof (cases rule: conn_run_cases)
    case (1 x)
    then show ?thesis using that(1) [of x] assms c by (simp add: ses_bind_def)
  next
    case (2 e)
    then show ?thesis using that(2) [of e] assms c by (simp add: ses_bind_def)
  qed
qed

text \<open>The commands of an update in their order: up to the start of the replacement, to undo it, to drop the old
  container.\<close>

definition opening_cmds :: "string \<Rightarrow> string \<Rightarrow> obj \<Rightarrow> string list" where
  "opening_cmds name img j =
     [''docker inspect '' @ shlex_quote name, ''docker pull '' @ shlex_quote img @ '' 2>&1'',
      ''docker rename '' @ shlex_quote name @ '' '' @ shlex_quote (backup_name name) @ '' 2>&1'',
      ''docker stop '' @ shlex_quote (backup_name name), build_docker_run_cmd j @ '' 2>&1'']"

definition undo_cmds :: "string \<Rightarrow> string list" where
  "undo_cmds name =
     [''docker rm -f '' @ shlex_quote name,
      ''docker rename '' @ shlex_quote (backup_name name) @ '' '' @ shlex_quote name,
      ''docker start '' @ shlex_quote name]"

definition drop_cmds :: "string \<Rightarrow> string list" where
  "drop_cmds name = [''docker rm '' @ shlex_quote (backup_name name)]"

text \<open>Whether the command number k of a session was answered with a result that satisfies P.\<close>

definition answered_with :: "(run_result \<Rightarrow> bool) \<Rightarrow> transport \<Rightarrow> sh_call list \<Rightarrow> nat \<Rightarrow> bool" where
  "answered_with P tr calls k \<longleftrightarrow>
     k < length calls \<and> (case tr (take k calls) (calls ! k) of Done x \<Rightarrow> P x | _ \<Rightarrow> False)"

text \<open>The commands after the old container is stopped, told by the answers to the start and to the verification.\<close>

definition plan_tail :: "transport \<Rightarrow> sh_call list \<Rightarrow> string \<Rightarrow> string list" where
  "plan_tail tr calls name =
     (if \<not> answered_with exited_zero tr calls 4 then undo_cmds name
      else verify_cmd name # (if answered_with verified tr calls 5 then drop_cmds name else undo_cmds name))"

definition replacement_runs :: "transport \<Rightarrow> sh_call list \<Rightarrow> bool" where
  "replacement_runs tr calls \<longleftrightarrow> answered_with exited_zero tr calls 4 \<and> answered_with verified tr calls 5"

text \<open>A session keeps to a list of commands when it sends them all, or ends at one that is not answered.\<close>

definition keeps_to :: "transport \<Rightarrow> sh_call list \<Rightarrow> 'a res \<Rightarrow> sh_call list \<Rightarrow> bool" where
  "keeps_to tr plan r calls \<longleftrightarrow>
     calls = plan \<and> (isl r \<longleftrightarrow> \<not> replacement_runs tr calls) \<or> isl r \<and> unanswered tr calls \<and> prefix calls plan"

lemma answered_prefix:
  "prefix hs calls \<Longrightarrow> k < length hs \<Longrightarrow> answered_with P tr calls k = answered_with P tr hs k"
  by (auto simp: prefix_def answered_with_def nth_append)

lemma answered_last:
  assumes "prefix (hs @ [c]) calls" and "length hs = k" and "tr hs c = Done x"
  shows "answered_with P tr calls k = P x"
  using assms by (subst answered_prefix [of "hs @ [c]"]) (auto simp: answered_with_def nth_append)

lemma not_answered: "unanswered tr (hs @ [c]) \<Longrightarrow> length hs = k \<Longrightarrow> \<not> answered_with P tr (hs @ [c]) k"
  by (auto simp: unanswered_def answered_with_def nth_append split: sh_out.splits)

lemma roll_back_runs:
  assumes "roll_back env wrap name run out hs = (r, calls)"
  shows "isl r \<and> prefix hs calls \<and> (calls = hs @ map (the_call wrap) (undo_cmds name)
    \<or> unanswered (tr_of env) calls \<and> prefix calls (hs @ map (the_call wrap) (undo_cmds name)))"
  using assms unfolding roll_back_def by (elim run_then) (auto simp: ses_fail_def undo_cmds_def)

lemma drop_backup_runs:
  assumes "drop_backup env wrap name out hs = (r, calls)"
  shows "calls = hs @ map (the_call wrap) (drop_cmds name) \<and> (isl r \<longrightarrow> unanswered (tr_of env) calls)"
  using assms unfolding drop_backup_def by (elim run_then) (auto simp: ses_return_def drop_cmds_def)

lemma verify_runs:
  assumes "ses_bind (conn_run (tr_of env) wrap (verify_cmd name))
      (\<lambda>v. if verified v then drop_backup env wrap name (f v) else roll_back env wrap name run (f v)) hs = (r, calls)"
    and "length hs = 5" and "answered_with exited_zero (tr_of env) hs 4"
  shows "prefix hs calls \<and> keeps_to (tr_of env) (hs @ map (the_call wrap) (plan_tail (tr_of env) calls name)) r calls"
  using assms(1)
proof (rule run_then)
  fix e
  assume un: "r = Inl e" "calls = hs @ [the_call wrap (verify_cmd name)]" "unanswered (tr_of env) calls"
  then have "answered_with exited_zero (tr_of env) calls 4"
    using assms(2,3) by (subst answered_prefix [of hs]) simp_all
  then show ?thesis using un by (simp add: keeps_to_def plan_tail_def)
next
  fix v
  let ?v = "the_call wrap (verify_cmd name)"
  assume v: "tr_of env hs ?v = Done v"
    and rest: "(if verified v then drop_backup env wrap name (f v) else roll_back env wrap name run (f v)) (hs @ [?v]) = (r, calls)"
  have p: "prefix (hs @ [?v]) calls"
    using rest drop_backup_runs roll_back_runs by (cases "verified v") fastforce+
  then have ph: "prefix hs calls" by (metis append_prefixD)
  have four: "answered_with exited_zero (tr_of env) calls 4"
    using assms(2,3) ph by (subst answered_prefix [of hs]) simp_all
  have five: "answered_with verified (tr_of env) calls 5 = verified v"
    using answered_last [where tr = "tr_of env", OF p assms(2) v] .
  show ?thesis using rest ph four five
    by (cases "verified v") (auto simp: keeps_to_def plan_tail_def replacement_runs_def dest!: drop_backup_runs roll_back_runs)
qed

lemma start_replacement_runs:
  assumes "start_replacement env wrap name j out hs = (r, calls)" and "length hs = 4"
  shows "prefix hs calls \<and> keeps_to (tr_of env)
    (hs @ map (the_call wrap) ((build_docker_run_cmd j @ '' 2>&1'') # plan_tail (tr_of env) calls name)) r calls"
  using assms(1) unfolding start_replacement_def Let_def
proof (rule run_then)
  fix e
  assume "r = Inl e" "calls = hs @ [the_call wrap (build_docker_run_cmd j @ '' 2>&1'')]" "unanswered (tr_of env) calls"
  then show ?thesis by (simp add: keeps_to_def)
next
  fix run
  let ?run = "the_call wrap (build_docker_run_cmd j @ '' 2>&1'')"
  let ?out = "out @ capture (''docker run (recreating '' @ name @ '')'') run"
  assume run: "tr_of env hs ?run = Done run"
    and rest: "(if \<not> exited_zero run then roll_back env wrap name run ?out
      else ses_bind (conn_run (tr_of env) wrap (verify_cmd name)) (\<lambda>v.
        if verified v then drop_backup env wrap name (?out @ [verify_line v])
        else roll_back env wrap name run (?out @ [verify_line v]))) (hs @ [?run]) = (r, calls)"
  show ?thesis
  proof (cases "exited_zero run")
    case True
    have "answered_with exited_zero (tr_of env) (hs @ [?run]) 4" using answered_last [where tr = "tr_of env", OF _ assms(2) run] True by simp
    then have v: "prefix (hs @ [?run]) calls \<and> keeps_to (tr_of env) ((hs @ [?run]) @ map (the_call wrap) (plan_tail (tr_of env) calls name)) r calls"
      using verify_runs [where hs = "hs @ [?run]" and f = "\<lambda>v. ?out @ [verify_line v]"] rest True assms(2) by simp
    then show ?thesis by (auto dest: append_prefixD)
  next
    case False
    with rest have rb: "isl r \<and> prefix (hs @ [?run]) calls \<and> (calls = (hs @ [?run]) @ map (the_call wrap) (undo_cmds name)
        \<or> unanswered (tr_of env) calls \<and> prefix calls ((hs @ [?run]) @ map (the_call wrap) (undo_cmds name)))"
      by (intro roll_back_runs) simp
    then have "\<not> answered_with exited_zero (tr_of env) calls 4" using answered_last [where tr = "tr_of env", OF _ assms(2) run] False by blast
    then show ?thesis using rb by (auto simp: keeps_to_def plan_tail_def replacement_runs_def dest: append_prefixD)
  qed
qed

text \<open>The whole session: not beyond a rename that failed, or the rename has succeeded and the session keeps to its plan.\<close>

definition opening_ends :: "transport \<Rightarrow> (string \<Rightarrow> string) \<Rightarrow> string \<Rightarrow> string \<Rightarrow> obj \<Rightarrow> string list res \<Rightarrow> sh_call list \<Rightarrow> bool" where
  "opening_ends tr wrap name img j r calls \<longleftrightarrow>
     isl r \<and> \<not> answered_with exited_zero tr calls 2 \<and> prefix calls (map (the_call wrap) (take 3 (opening_cmds name img j)))"

definition swap_ends :: "transport \<Rightarrow> (string \<Rightarrow> string) \<Rightarrow> string \<Rightarrow> string \<Rightarrow> obj \<Rightarrow> string list res \<Rightarrow> sh_call list \<Rightarrow> bool" where
  "swap_ends tr wrap name img j r calls \<longleftrightarrow>
     answered_with exited_zero tr calls 2
     \<and> keeps_to tr (map (the_call wrap) (opening_cmds name img j @ plan_tail tr calls name)) r calls"

lemma swap_container_runs:
  assumes "swap_container env wrap name j out (map (the_call wrap) (take 2 (opening_cmds name img j))) = (r, calls)"
  shows "opening_ends (tr_of env) wrap name img j r calls \<or> swap_ends (tr_of env) wrap name img j r calls"
  using assms unfolding swap_container_def Let_def
proof (rule run_then)
  let ?hs = "map (the_call wrap) (take 2 (opening_cmds name img j))"
  let ?rename = "the_call wrap (''docker rename '' @ shlex_quote name @ '' '' @ shlex_quote (backup_name name) @ '' 2>&1'')"
  have len: "length ?hs = 2" and three: "?hs @ [?rename] = map (the_call wrap) (take 3 (opening_cmds name img j))"
    by (simp_all add: opening_cmds_def)
  {
    fix e
    assume un: "r = Inl e" "calls = ?hs @ [?rename]" "unanswered (tr_of env) calls"
    have "\<not> answered_with exited_zero (tr_of env) calls 2"
      using un(3) unfolding un(2) by (rule not_answered) (rule len)
    then show ?thesis using un(1,2) three by (simp add: opening_ends_def)
  next
    fix x
    let ?out = "out @ capture (''docker rename '' @ name @ '' '' @ backup_name name) x"
    let ?stop = "the_call wrap (''docker stop '' @ shlex_quote (backup_name name))"
    assume x: "tr_of env ?hs ?rename = Done x"
      and rest: "(if \<not> exited_zero x
        then ses_fail (stack_error (''docker rename failed (original left untouched):'' @ [NL] @ rr_stdout x) ?out)
        else ses_bind (conn_run (tr_of env) wrap (''docker stop '' @ shlex_quote (backup_name name))) (\<lambda>stop.
          start_replacement env wrap name j (?out @ capture (''docker stop '' @ backup_name name) stop)))
          (?hs @ [?rename]) = (r, calls)"
    show ?thesis
    proof (cases "exited_zero x")
      case False
      then have c: "isl r" "calls = ?hs @ [?rename]" using rest by (auto simp: ses_fail_eq)
      have "answered_with exited_zero (tr_of env) calls 2 = exited_zero x"
        by (rule answered_last [where tr = "tr_of env", OF _ len x]) (simp add: c(2))
      then show ?thesis using c three False by (simp add: opening_ends_def)
    next
      case True
      with rest have "ses_bind (conn_run (tr_of env) wrap (''docker stop '' @ shlex_quote (backup_name name))) (\<lambda>stop.
          start_replacement env wrap name j (?out @ capture (''docker stop '' @ backup_name name) stop))
          (?hs @ [?rename]) = (r, calls)" by simp
      then have "prefix (?hs @ [?rename]) calls
          \<and> keeps_to (tr_of env) (map (the_call wrap) (opening_cmds name img j @ plan_tail (tr_of env) calls name)) r calls"
      proof (rule run_then)
        fix e
        assume "r = Inl e" "calls = (?hs @ [?rename]) @ [?stop]" "unanswered (tr_of env) calls"
        then show ?thesis by (simp add: keeps_to_def opening_cmds_def)
      next
        fix stop
        let ?rest = "map (the_call wrap) ((build_docker_run_cmd j @ '' 2>&1'') # plan_tail (tr_of env) calls name)"
        assume "start_replacement env wrap name j (?out @ capture (''docker stop '' @ backup_name name) stop)
            ((?hs @ [?rename]) @ [?stop]) = (r, calls)"
        then have st: "prefix ((?hs @ [?rename]) @ [?stop]) calls"
            "keeps_to (tr_of env) (((?hs @ [?rename]) @ [?stop]) @ ?rest) r calls"
          using start_replacement_runs [where hs = "(?hs @ [?rename]) @ [?stop]"] len by simp_all
        have "((?hs @ [?rename]) @ [?stop]) @ ?rest = map (the_call wrap) (opening_cmds name img j @ plan_tail (tr_of env) calls name)"
          by (simp add: opening_cmds_def)
        then show ?thesis using st append_prefixD by metis
      qed
      moreover have "answered_with exited_zero (tr_of env) calls 2 = exited_zero x" if "prefix (?hs @ [?rename]) calls"
        using that by (rule answered_last [where tr = "tr_of env", OF _ len x])
      ultimately show ?thesis using True by (simp add: swap_ends_def)
    qed
  }
qed

lemma pull_and_swap_runs:
  assumes "pull_and_swap env wrap name label j img [the_call wrap (''docker inspect '' @ shlex_quote name)] = (r, calls)"
  shows "opening_ends (tr_of env) wrap name img j r calls \<or> swap_ends (tr_of env) wrap name img j r calls"
  using assms unfolding pull_and_swap_def Let_def
proof (rule run_then)
  fix x
  let ?hs = "[the_call wrap (''docker inspect '' @ shlex_quote name), the_call wrap (''docker pull '' @ shlex_quote img @ '' 2>&1'')]"
  let ?out = "[''Updating standalone container '' @ py_repr name @ '' on '' @ label] @ capture (''docker pull '' @ img) x"
  assume "(if \<not> exited_zero x then ses_fail (stack_error (''docker pull failed:'' @ [NL] @ rr_stdout x) ?out)
      else swap_container env wrap name j ?out)
      ([the_call wrap (''docker inspect '' @ shlex_quote name)] @ [the_call wrap (''docker pull '' @ shlex_quote img @ '' 2>&1'')]) = (r, calls)"
  then have rest: "(if \<not> exited_zero x then ses_fail (stack_error (''docker pull failed:'' @ [NL] @ rr_stdout x) ?out)
      else swap_container env wrap name j ?out) (map (the_call wrap) (take 2 (opening_cmds name img j))) = (r, calls)"
    by (simp add: opening_cmds_def)
  show ?thesis
  proof (cases "exited_zero x")
    case True
    then show ?thesis using rest by (intro swap_container_runs) simp
  next
    case False
    then have "isl r" "calls = map (the_call wrap) (take 2 (opening_cmds name img j))"
      using rest by (auto simp: ses_fail_eq)
    then show ?thesis by (simp add: opening_ends_def answered_with_def opening_cmds_def)
  qed
qed (simp add: opening_ends_def answered_with_def opening_cmds_def)

text \<open>The document and the image the update goes by are those the inspection printed.\<close>

definition inspected :: "docker_env \<Rightarrow> sh_call list \<Rightarrow> string \<Rightarrow> obj \<Rightarrow> bool" where
  "inspected env calls img j \<longleftrightarrow> (\<exists>x. tr_of env [] (hd calls) = Done x \<and> exited_zero x
     \<and> inspect_document (de_loads env) (rr_stdout x) = Inr j \<and> inspected_image j = Inr img)"

lemma swap_first_call: "swap_ends tr wrap name img j r calls \<Longrightarrow> hd calls = the_call wrap (''docker inspect '' @ shlex_quote name)"
  by (cases calls) (auto simp: swap_ends_def keeps_to_def opening_cmds_def answered_with_def)

lemma opening_first_call:
  "opening_ends tr wrap name img j r calls \<Longrightarrow> calls = [] \<or> hd calls = the_call wrap (''docker inspect '' @ shlex_quote name)"
  by (cases calls) (auto simp: opening_ends_def opening_cmds_def)

lemma standalone_session_runs:
  assumes "standalone_session env name label wrap [] = (r, calls)"
  shows "\<exists>img j. (length calls > 1 \<longrightarrow> inspected env calls img j)
    \<and> (opening_ends (tr_of env) wrap name img j r calls \<or> swap_ends (tr_of env) wrap name img j r calls)"
proof -
  let ?c = "the_call wrap (''docker inspect '' @ shlex_quote name)"
  have one: ?thesis if "isl r" "calls = [?c]"
    using that by (auto simp: opening_ends_def answered_with_def opening_cmds_def)
  show ?thesis using assms unfolding standalone_session_def
  proof (rule run_then)
    fix x
    assume x: "tr_of env [] ?c = Done x"
      and rest: "(if \<not> exited_zero x \<or> py_strip (rr_stdout x) = []
        then ses_fail (runtime_error (''Container '' @ py_repr name @ '' not found''))
        else ses_bind (ses_lift (inspect_document (de_loads env) (rr_stdout x)))
               (recreate_session env wrap name label)) ([] @ [?c]) = (r, calls)"
    show ?thesis
    proof (cases "isl r \<and> calls = [?c]")
      case False
      then obtain j where j: "exited_zero x" "inspect_document (de_loads env) (rr_stdout x) = Inr j"
          "recreate_session env wrap name label j [?c] = (r, calls)"
        using rest by (auto simp: ses_fail_eq ses_bind_def ses_lift_def split: if_splits sum.splits)
      then obtain img where img: "inspected_image j = Inr img" "pull_and_swap env wrap name label j img [?c] = (r, calls)"
        using False by (auto simp: recreate_session_def ses_fail_eq ses_bind_def ses_lift_def split: if_splits sum.splits)
      have ends: "opening_ends (tr_of env) wrap name img j r calls \<or> swap_ends (tr_of env) wrap name img j r calls"
        using pull_and_swap_runs [OF img(2)] .
      then have "calls = [] \<or> hd calls = ?c" using opening_first_call swap_first_call by blast
      then have "length calls > 1 \<longrightarrow> inspected env calls img j" using x j img by (auto simp: inspected_def)
      then show ?thesis using ends by blast
    qed (use one in blast)
  qed (use one in simp)
qed

text \<open>C1. A standalone container is never lost.  The commands sent are the inspection, the pull, the renaming aside
  and so on in their order: an update that has not got beyond the renaming has sent nothing after it; after a renaming
  that succeeded, the replacement is started, verified, and the old container is dropped when the replacement was found
  running, else the replacement is removed and the old one renamed back and started.  Only a command that is never
  answered ends this early.\<close>
theorem standalone_update_keeps_container:
  assumes "ssh_params_for env slug h = Inr (sh, creds, wrap)" and "update_standalone_container env slug h name = (r, calls)"
  shows "\<exists>img j. (length calls > 1 \<longrightarrow> inspected env calls img j)
    \<and> (if answered_with exited_zero (tr_of env) calls 2
       then keeps_to (tr_of env) (map (the_call wrap) (opening_cmds name img j @ plan_tail (tr_of env) calls name)) r calls
       else isl r \<and> prefix calls (map (the_call wrap) (take 3 (opening_cmds name img j))))"
proof -
  have "\<exists>img j. (length calls > 1 \<longrightarrow> inspected env calls img j)
    \<and> (opening_ends (tr_of env) wrap name img j r calls \<or> swap_ends (tr_of env) wrap name img j r calls)"
  proof (cases "connect (he_dial (de_host env)) sh creds")
    case (Inl e)
    then show ?thesis using assms by (auto simp: update_standalone_container_def on_host_def opening_ends_def answered_with_def)
  next
    case (Inr u)
    then show ?thesis using assms by (intro standalone_session_runs) (simp add: update_standalone_container_def on_host_def)
  qed
  then show ?thesis by (auto simp: opening_ends_def swap_ends_def)
qed

definition docker_works :: transport where
  "docker_works hs call = Done \<lparr>rr_stdout = (if starts_with (sk_cmd call) ''docker inspect -f'' then ''true 0'' else ''v2''),
     rr_stderr = [], rr_returncode = Some 0, rr_signal = None\<rparr>"

definition working_docker :: docker_env where
  "working_docker = demo_docker\<lparr>de_host := demo_env\<lparr>he_transport := docker_works\<rparr>,
     de_loads := (\<lambda>_. Some (JList [JObj demo_inspect]))\<rparr>"

lemma working_params:
  "ssh_params_for working_docker ''nas'' docker_host = Inr (ssh_view ''nas'' docker_host, host_creds [], \<lambda>c. c)"
  by (simp add: ssh_params_for_def is_pct_host_def docker_host_def build_host_entry_def nonempty_def working_docker_def
      demo_docker_def Let_def)

lemma working_answers:
  "let calls = snd (update_standalone_container working_docker ''nas'' docker_host ''web'') in
     answered_with exited_zero docker_works calls 2 \<and> answered_with exited_zero docker_works calls 4
     \<and> answered_with verified docker_works calls 5
     \<and> \<not> isl (fst (update_standalone_container working_docker ''nas'' docker_host ''web''))"
  by code_simp

theorem standalone_update_keeps_container_witness:
  "\<exists>img j. snd (update_standalone_container working_docker ''nas'' docker_host ''web'') =
     map (the_call (\<lambda>c. c)) (opening_cmds ''web'' img j @ [verify_cmd ''web'', ''docker rm web__keepup_old''])"
proof -
  have tr: "tr_of working_docker = docker_works" by (simp add: working_docker_def)
  have name: "shlex_quote (backup_name ''web'') = ''web__keepup_old''" by code_simp
  obtain r calls where run: "update_standalone_container working_docker ''nas'' docker_host ''web'' = (r, calls)"
    by (rule prod.exhaust)
  note answers = working_answers [unfolded run Let_def snd_conv fst_conv]
  then have "plan_tail docker_works calls ''web'' = [verify_cmd ''web'', ''docker rm web__keepup_old'']"
    by (simp add: plan_tail_def drop_cmds_def name)
  then show ?thesis
    using standalone_update_keeps_container [OF working_params run] answers unfolding tr run snd_conv
    by (auto simp: keeps_to_def)
qed

subsection \<open>Compose updates\<close>

lemma pull_and_up_Inr:
  assumes "pull_and_up env wrap binary args out hs = (Inr lines, calls)"
  shows "\<exists>pull up. calls = hs @ [the_call wrap (binary @ '' '' @ args @ '' pull 2>&1''),
        the_call wrap (binary @ '' '' @ args @ '' up -d 2>&1'')]
    \<and> tr_of env hs (the_call wrap (binary @ '' '' @ args @ '' pull 2>&1'')) = Done pull \<and> exited_zero pull
    \<and> tr_of env (hs @ [the_call wrap (binary @ '' '' @ args @ '' pull 2>&1'')])
        (the_call wrap (binary @ '' '' @ args @ '' up -d 2>&1'')) = Done up \<and> exited_zero up"
  using assms
  by (auto simp: pull_and_up_def ses_bind_Inr conn_run_Inr Let_def ses_fail_eq split: if_splits)

lemma detect_binary_Inr:
  "detect_compose_binary env wrap label hs = (Inr b, hs') \<Longrightarrow> b = ''docker compose'' \<or> b = ''docker-compose''"
  by (auto simp: detect_compose_binary_def ses_bind_Inr Let_def ses_fail_eq split: if_splits)

lemma usable_config_file:
  assumes "usable_config env wrap project label hs = (Inr (cf, said), hs')"
  shows "cf = [] \<or> (\<exists>h r. tr_of env h (the_call wrap (''test -f '' @ shlex_quote cf @ '' && echo exists'')) = Done r
      \<and> contains (rr_stdout r) ''exists'')"
  using assms by (auto simp: usable_config_def ses_bind_Inr conn_run_Inr Let_def ses_fail_eq split: if_splits)

text \<open>A Compose update that succeeds has, as its last two commands, pulled and brought up the project, each
  with status 0, naming the project in both and a compose file only when the host said it is there.\<close>
theorem compose_update_pulls_then_starts:
  assumes "update_compose_project env slug h project = (Inr out, calls)"
  shows "\<exists>wrap binary cf hs pull up. binary \<in> {''docker compose'', ''docker-compose''}
    \<and> calls = hs @ [the_call wrap (binary @ '' '' @ compose_args project cf @ '' pull 2>&1''),
                    the_call wrap (binary @ '' '' @ compose_args project cf @ '' up -d 2>&1'')]
    \<and> tr_of env hs (the_call wrap (binary @ '' '' @ compose_args project cf @ '' pull 2>&1'')) = Done pull
    \<and> exited_zero pull
    \<and> tr_of env (hs @ [the_call wrap (binary @ '' '' @ compose_args project cf @ '' pull 2>&1'')])
        (the_call wrap (binary @ '' '' @ compose_args project cf @ '' up -d 2>&1'')) = Done up
    \<and> exited_zero up
    \<and> (cf = [] \<or> (\<exists>hs' r. tr_of env hs' (the_call wrap (''test -f '' @ shlex_quote cf @ '' && echo exists'')) = Done r
          \<and> contains (rr_stdout r) ''exists''))"
proof -
  obtain wrap where "compose_session env project (conn_label slug h) wrap [] = (Inr out, calls)"
    using assms unfolding update_compose_project_def by (rule on_host_Inr)
  then obtain h1 b h2 cf said h3 ls where
      "detect_compose_binary env wrap (conn_label slug h) h1 = (Inr b, h2)"
      and "usable_config env wrap project (conn_label slug h) h2 = (Inr (cf, said), h3)"
      and pu: "pull_and_up env wrap b (compose_args project cf) ls h3 = (Inr out, calls)"
    unfolding compose_session_def by (auto simp: ses_bind_Inr split: prod.splits)
  then have b: "b \<in> {''docker compose'', ''docker-compose''}"
    and cf: "cf = [] \<or> (\<exists>hs' r. tr_of env hs' (the_call wrap (''test -f '' @ shlex_quote cf @ '' && echo exists'')) = Done r
          \<and> contains (rr_stdout r) ''exists'')"
    using detect_binary_Inr usable_config_file by blast+
  from pull_and_up_Inr [OF pu] b cf show ?thesis by blast
qed

lemma working_compose:
  "\<exists>out calls. update_compose_project working_docker ''nas'' docker_host ''media'' = (Inr out, calls)"
  by (rule exI, rule exI, code_simp)

theorem compose_update_pulls_then_starts_witness:
  "\<exists>wrap binary cf hs up. docker_works hs (the_call wrap (binary @ '' '' @ compose_args ''media'' cf @ '' up -d 2>&1'')) = Done up
     \<and> exited_zero up"
proof -
  obtain out calls where
    "update_compose_project working_docker ''nas'' docker_host ''media'' = (Inr out, calls)"
    using working_compose by blast
  moreover have "tr_of working_docker = docker_works" by (simp add: working_docker_def)
  ultimately show ?thesis using compose_update_pulls_then_starts [of working_docker "''nas''" docker_host "''media''" out calls]
    by (metis (no_types))
qed

text \<open>C3. Keepup never updates itself: when the listing shows its own container in the project, or the inspected
  container is its own, the update is refused after that one command.\<close>
theorem self_update_refused:
  assumes "ssh_params_for env slug h = Inr (sh, creds, wrap)" and "connect (he_dial (de_host env)) sh creds = Inr ()"
    and "truthy_s (de_self_id env)"
  shows "(tr_of env [] (the_call wrap PS_CMD) = Done ps
        \<and> list_ex (\<lambda>row. is_self_row (de_self_id env) row \<and> row_project row = project)
            (parse_json_output (de_loads env) (rr_stdout ps))
      \<longrightarrow> (\<exists>m. update_compose_project env slug h project = (raise ''ValueError'' m, [the_call wrap PS_CMD])))
    \<and> (tr_of env [] (the_call wrap (''docker inspect '' @ shlex_quote name)) = Done r \<and> exited_zero r
        \<and> py_strip (rr_stdout r) \<noteq> [] \<and> de_loads env (rr_stdout r) = Some (JList (JObj j # js))
        \<and> take 12 (text_of j ''Id'') = the (de_self_id env)
      \<longrightarrow> (\<exists>m. update_standalone_container env slug h name =
            (raise ''ValueError'' m, [the_call wrap (''docker inspect '' @ shlex_quote name)])))"
  using assms
  by (auto simp: update_compose_project_def update_standalone_container_def on_host_def compose_session_def
      refuse_self_project_def standalone_session_def recreate_session_def docker_ps_def ses_bind_def conn_run_def
      run_cmd_def wrap_command_def ses_fail_def ses_lift_def ses_return_def inspect_document_def Let_def)

definition self_row :: json where
  "self_row = JObj [(''ID'', JStr ''0badcafe0000''), (''Names'', JStr ''keepup''), (''Image'', JStr ''keepup''),
     (''Labels'', JStr ''com.docker.compose.project=media'')]"

theorem self_update_refused_witness:
  "\<exists>m. update_compose_project (demo_docker\<lparr>de_loads := (\<lambda>_. Some self_row)\<rparr>) ''nas'' docker_host ''media'' =
     (raise ''ValueError'' m, [the_call (\<lambda>c. c) PS_CMD])"
proof -
  let ?env = "demo_docker\<lparr>de_loads := (\<lambda>_. Some self_row)\<rparr>"
  have p: "ssh_params_for ?env ''nas'' docker_host = Inr (ssh_view ''nas'' docker_host, host_creds [], \<lambda>c. c)"
    by (simp add: ssh_params_for_def is_pct_host_def docker_host_def build_host_entry_def nonempty_def demo_docker_def Let_def)
  have c: "connect (he_dial (de_host ?env)) (ssh_view ''nas'' docker_host) (host_creds []) = Inr ()"
    by code_simp
  have i: "truthy_s (de_self_id ?env)" by (simp add: demo_docker_def)
  have r: "tr_of ?env [] (the_call (\<lambda>c. c) PS_CMD) =
      Done \<lparr>rr_stdout = ''{}'', rr_stderr = [], rr_returncode = Some 0, rr_signal = None\<rparr>"
    by (simp add: demo_docker_def docker_answers_def)
  have l: "list_ex (\<lambda>row. is_self_row (de_self_id ?env) row \<and> row_project row = ''media'')
      (parse_json_output (de_loads ?env) ''{}'')"
    by code_simp
  let ?ps = "\<lparr>rr_stdout = ''{}'', rr_stderr = [], rr_returncode = Some 0, rr_signal = None\<rparr>"
  have "list_ex (\<lambda>row. is_self_row (de_self_id ?env) row \<and> row_project row = ''media'')
      (parse_json_output (de_loads ?env) (rr_stdout ?ps))"
    unfolding run_result.select_convs by (rule l)
  with r have both: "tr_of ?env [] (the_call (\<lambda>c. c) PS_CMD) = Done ?ps
    \<and> list_ex (\<lambda>row. is_self_row (de_self_id ?env) row \<and> row_project row = ''media'')
      (parse_json_output (de_loads ?env) (rr_stdout ?ps))" by (rule conjI)
  show ?thesis by (rule self_update_refused [OF p c i, THEN conjunct1, THEN mp, OF both])
qed

end
