(* ===== verification/Portainer.thy ===== *)
theory Portainer
  imports DockerHosts
begin

section \<open>The Portainer client and backend (app/portainer_client.py, app/backends/portainer_backend.py)\<close>

text \<open>
  Stacks of a Portainer server.  The HTTP client is the parameter \<open>papi\<close>, which answers a request
  given the requests sent before; certificate pinning and timeouts are left out.  The image
  checks of one stack are awaited together by the code; they start in the order of the
  containers, and so they are modelled.  JSON values are accessed as the code does, with the
  exceptions of a missing key or a wrong type.
\<close>

datatype p_call = PGet string | PPut string json

type_synonym papi = "p_call list \<Rightarrow> p_call \<Rightarrow> api_out"

definition p_get :: "papi \<Rightarrow> string \<Rightarrow> (p_call, json) steps" where
  "p_get api path hs = (body_of (api hs (PGet path)), hs @ [PGet path])"

definition p_put :: "papi \<Rightarrow> string \<Rightarrow> json \<Rightarrow> (p_call, json) steps" where
  "p_put api path body hs = (body_of (api hs (PPut path body)), hs @ [PPut path body])"

definition key_of :: "json \<Rightarrow> string \<Rightarrow> json res" where
  "key_of j k =
     (case j of
        JObj o1 \<Rightarrow> (case dict_get o1 k of Some v \<Rightarrow> Inr v | None \<Rightarrow> raise ''KeyError'' (py_repr k))
      | _ \<Rightarrow> raise ''TypeError'' ''not subscriptable'')"

definition lower_of :: "json \<Rightarrow> string res" where
  "lower_of j = (case j of JStr s \<Rightarrow> Inr (py_lower s) | _ \<Rightarrow> raise ''AttributeError'' ''no attribute lower'')"

definition DOCKER_TYPES :: "json list" where
  "DOCKER_TYPES = [JNum 1, JNum 2, JNum 4]"

definition get_endpoints :: "papi \<Rightarrow> (p_call, json list) steps" where
  "get_endpoints api =
     ses_bind (p_get api ''/api/endpoints'') (\<lambda>j. ses_lift (res_bind (as_list j)
       (collect (\<lambda>e. res_bind (field_or e ''Type'' JNull) (\<lambda>t. Inr (if t \<in> set DOCKER_TYPES then [e] else []))))))"

definition get_stacks :: "papi \<Rightarrow> (p_call, json) steps" where
  "get_stacks api = p_get api ''/api/stacks''"

definition stack_path :: "int \<Rightarrow> string" where
  "stack_path stack_id = ''/api/stacks/'' @ show_int stack_id"

definition get_stack_file :: "papi \<Rightarrow> int \<Rightarrow> (p_call, json) steps" where
  "get_stack_file api stack_id =
     ses_bind (p_get api (stack_path stack_id @ ''/file'')) (\<lambda>d. ses_lift (field_or d ''StackFileContent'' (JStr [])))"

definition id_text :: "json \<Rightarrow> string" where
  "id_text j = (case j of JNum n \<Rightarrow> show_int n | JStr s \<Rightarrow> s | _ \<Rightarrow> [])"

definition get_containers :: "papi \<Rightarrow> json \<Rightarrow> (p_call, json) steps" where
  "get_containers api endpoint_id =
     p_get api (''/api/endpoints/'' @ id_text endpoint_id @ ''/docker/containers/json?all=1'')"

definition get_image_info :: "papi \<Rightarrow> json \<Rightarrow> string \<Rightarrow> (p_call, json) steps" where
  "get_image_info api endpoint_id image_id =
     p_get api (''/api/endpoints/'' @ id_text endpoint_id @ ''/docker/images/'' @ image_id @ ''/json'')"

subsection \<open>Keepup's own stack\<close>

definition compose_label :: "json \<Rightarrow> string res" where
  "compose_label c =
     res_bind (field_or c ''Labels'' (JObj [])) (\<lambda>l.
       res_bind (field_or l ''com.docker.compose.project'' (JStr [])) lower_of)"

definition members_of :: "string \<Rightarrow> json list \<Rightarrow> json list res" where
  "members_of name_lower = collect (\<lambda>c. res_bind (compose_label c) (\<lambda>l. Inr (if l = name_lower then [c] else [])))"

fun any_res :: "('a \<Rightarrow> bool res) \<Rightarrow> 'a list \<Rightarrow> bool res" where
  "any_res f [] = Inr False"
| "any_res f (x # xs) = res_bind (f x) (\<lambda>b. if b then Inr True else any_res f xs)"

definition named :: "string \<Rightarrow> json \<Rightarrow> bool res" where
  "named self_name c =
     res_bind (field_or c ''Names'' (JList [])) (\<lambda>j. res_bind (as_list j) (\<lambda>ns.
       res_bind (collect (\<lambda>n. case n of JStr s \<Rightarrow> Inr [lstrip_char CHR ''/'' s]
           | _ \<Rightarrow> raise ''AttributeError'' ''no attribute lstrip'') ns)
         (\<lambda>texts. Inr (self_name \<in> set texts))))"

definition holds_self :: "string option \<Rightarrow> string option \<Rightarrow> json list \<Rightarrow> bool res" where
  "holds_self self_id self_name cs =
     (let id_match = (truthy_s self_id \<and> list_ex (\<lambda>c. take 12 (row_str c ''Id'') = the self_id) cs) in
      res_bind (if truthy_s self_name then any_res (named (the self_name)) cs else Inr False) (\<lambda>name_match.
        Inr (id_match \<or> name_match)))"

definition stack_holds_self ::
  "papi \<Rightarrow> string option \<Rightarrow> string option \<Rightarrow> int \<Rightarrow> int \<Rightarrow> (p_call, bool) steps" where
  "stack_holds_self api self_id self_name stack_id endpoint_id =
     ses_bind (get_containers api (JNum endpoint_id)) (\<lambda>j.
       ses_bind (p_get api (stack_path stack_id)) (\<lambda>meta.
         ses_lift (res_bind (field_or meta ''Name'' (JStr [])) (\<lambda>n. res_bind (lower_of n) (\<lambda>name.
           res_bind (as_list j) (\<lambda>cs. res_bind (members_of name cs) (holds_self self_id self_name)))))))"

text \<open>The check refuses, lets pass, or fails; a failure that is not a \<open>ValueError\<close> lets pass.\<close>

definition VALUE_ERRORS :: "string list" where
  "VALUE_ERRORS = [''ValueError'', ''JSONDecodeError'']"

definition refuse_self_stack ::
  "papi \<Rightarrow> string option \<Rightarrow> string option \<Rightarrow> int \<Rightarrow> int \<Rightarrow> (p_call, unit) steps" where
  "refuse_self_stack api self_id self_name stack_id endpoint_id hs =
     (if truthy_s self_id \<or> truthy_s self_name
      then case stack_holds_self api self_id self_name stack_id endpoint_id hs of
             (Inr True, h) \<Rightarrow>
               (raise ''ValueError'' (''Self-update refused: Keepup is in Portainer stack '' @ show_int stack_id), h)
           | (Inr False, h) \<Rightarrow> (Inr (), h)
           | (Inl e, h) \<Rightarrow> (if exn_class e \<in> set VALUE_ERRORS then Inl e else Inr (), h)
      else (Inr (), hs))"

definition redeploy_payload :: "json \<Rightarrow> json \<Rightarrow> json" where
  "redeploy_payload content env1 =
     JObj [(''stackFileContent'', content), (''env'', env1), (''prune'', JBool False), (''pullImage'', JBool True)]"

definition redeploy :: "papi \<Rightarrow> int \<Rightarrow> int \<Rightarrow> (p_call, json) steps" where
  "redeploy api stack_id endpoint_id =
     ses_bind (p_get api (stack_path stack_id)) (\<lambda>stack1.
       ses_bind (ses_lift (field_or stack1 ''Name'' JNull)) (\<lambda>_.
         ses_bind (get_stack_file api stack_id) (\<lambda>content.
           ses_bind (ses_lift (field_or stack1 ''Env'' (JList []))) (\<lambda>env1.
             p_put api (stack_path stack_id @ ''?endpointId='' @ show_int endpoint_id) (redeploy_payload content env1)))))"

definition update_stack ::
  "papi \<Rightarrow> string option \<Rightarrow> string option \<Rightarrow> int \<Rightarrow> int \<Rightarrow> (p_call, json) steps" where
  "update_stack api self_id self_name stack_id endpoint_id =
     ses_bind (refuse_self_stack api self_id self_name stack_id endpoint_id) (\<lambda>_. redeploy api stack_id endpoint_id)"

subsection \<open>The images of a stack\<close>

record image_state =
  im_name :: string
  im_status :: string
  im_reason :: "string option"

definition image_info_check ::
  "http_client \<Rightarrow> (string \<times> string) list option \<Rightarrow> string \<Rightarrow> json \<Rightarrow> image_check" where
  "image_info_check http creds img info =
     (case (field_or info ''RepoDigests'' (JList []), field_or info ''RepoTags'' (JList [])) of
        (Inr d, Inr t) \<Rightarrow>
          (case (json_texts d, json_texts t) of
             (Some (Some digests), Some tags) \<Rightarrow>
               check_image_update http (resolve_image_ref img tags (Some digests))
                 (extract_local_digest digests img) creds
           | _ \<Rightarrow> check_failed)
      | _ \<Rightarrow> check_failed)"

definition image_state_of :: "string \<Rightarrow> image_check \<Rightarrow> image_state" where
  "image_state_of img c =
     \<lparr>im_name = img, im_status = ic_status c, im_reason = (if ic_status c = ''unknown'' then ic_reason c else None)\<rparr>"

definition check_image ::
  "papi \<Rightarrow> http_client \<Rightarrow> (string \<times> string) list option \<Rightarrow> json \<Rightarrow> string \<Rightarrow> string \<Rightarrow> (p_call, image_state) steps" where
  "check_image api http creds endpoint_id img img_id hs =
     (case get_image_info api endpoint_id img_id hs of
        (Inl e, h) \<Rightarrow> (Inr (image_state_of img check_failed), h)
      | (Inr info, h) \<Rightarrow> (Inr (image_state_of img (image_info_check http creds img info)), h))"

fun check_stack_images ::
  "papi \<Rightarrow> http_client \<Rightarrow> (string \<times> string) list option \<Rightarrow> json \<Rightarrow> string list \<Rightarrow> json list
     \<Rightarrow> (p_call, image_state list) steps" where
  "check_stack_images api http creds endpoint_id seen [] = ses_return []"
| "check_stack_images api http creds endpoint_id seen (c # cs) =
     (let img = row_str c ''Image'' in
      if img = [] \<or> img \<in> set seen then check_stack_images api http creds endpoint_id seen cs
      else ses_bind (check_image api http creds endpoint_id img (row_str c ''ImageID'')) (\<lambda>s.
             ses_bind (check_stack_images api http creds endpoint_id (img # seen) cs) (\<lambda>ss. ses_return (s # ss))))"

definition rollup_unknown_reason :: "image_state list \<Rightarrow> string option" where
  "rollup_unknown_reason ss =
     (case remdups (List.map_filter (\<lambda>s. if im_status s = ''unknown'' \<and> truthy_s (im_reason s)
                                         then im_reason s else None) ss) of
        [r] \<Rightarrow> Some r | _ \<Rightarrow> None)"

definition stack_rollup :: "bool \<Rightarrow> image_state list \<Rightarrow> string \<times> string option" where
  "stack_rollup unreachable ss =
     (let statuses = set (map im_status ss) in
      if ss = []
      then (''unknown'', Some (if unreachable then REASON_ENDPOINT_UNREACHABLE else REASON_NO_CONTAINERS))
      else let rollup =
             (if ''update_available'' \<in> statuses \<and> card statuses = 1 then ''update_available''
              else if ''update_available'' \<in> statuses then ''mixed''
              else if statuses = {''up_to_date''} then ''up_to_date''
              else ''unknown'')
           in (rollup, if rollup = ''unknown'' then rollup_unknown_reason ss else None))"

subsection \<open>The stacks with their status\<close>

record p_stack = stack +
  p_id :: json
  p_endpoint_id :: json
  p_endpoint_name :: string
  p_images :: "image_state list"

definition endpoint_entry :: "json \<Rightarrow> (json \<times> string) list res" where
  "endpoint_entry e =
     res_bind (key_of e ''Id'') (\<lambda>i. res_bind (key_of e ''Name'') (\<lambda>n. Inr [(i, id_text n)]))"

definition endpoint_map :: "json list \<Rightarrow> (json \<times> string) list res" where
  "endpoint_map eps = res_bind (collect endpoint_entry eps) (\<lambda>es. Inr (fold (\<lambda>(i, n). dict_set i n) es []))"

fun fetch_containers :: "papi \<Rightarrow> json list \<Rightarrow> (p_call, (json \<times> json option) list) steps" where
  "fetch_containers api [] hs = (Inr [], hs)"
| "fetch_containers api (i # ids) hs =
     (let (r, h1) = get_containers api i hs; (rest, h2) = fetch_containers api ids h1
      in (res_bind rest (\<lambda>xs. Inr ((i, case r of Inl e \<Rightarrow> None | Inr j \<Rightarrow> Some j) # xs)), h2))"

definition containers_at :: "(json \<times> json option) list \<Rightarrow> json \<Rightarrow> json" where
  "containers_at found i = (case dict_get found i of Some (Some j) \<Rightarrow> j | _ \<Rightarrow> JList [])"

definition endpoint_name :: "(json \<times> string) list \<Rightarrow> json \<Rightarrow> string" where
  "endpoint_name names i = get_or (dict_get names i) (''env-'' @ id_text i)"

definition stack_members ::
  "(json \<times> json option) list \<Rightarrow> json \<Rightarrow> (json \<times> json \<times> string \<times> json list) res" where
  "stack_members found s =
     res_bind (key_of s ''Id'') (\<lambda>i. res_bind (field_or s ''EndpointId'' (JNum 0)) (\<lambda>ep.
       res_bind (field_or s ''Name'' (JStr ''unknown'')) (\<lambda>nj. res_bind (lower_of nj) (\<lambda>low.
         res_bind (as_list (containers_at found ep)) (\<lambda>cs. res_bind (members_of low cs) (\<lambda>ms.
           Inr (i, ep, id_text nj, ms)))))))"

definition stack_status ::
  "papi \<Rightarrow> http_client \<Rightarrow> (string \<times> string) list option \<Rightarrow> string option \<Rightarrow> string option \<Rightarrow> (json \<times> string) list
     \<Rightarrow> (json \<times> json option) list \<Rightarrow> json \<Rightarrow> (p_call, p_stack list) steps" where
  "stack_status api http creds self_id self_name names found s =
     ses_bind (ses_lift (stack_members found s)) (\<lambda>(i, ep, name, ms).
       ses_bind (ses_lift (holds_self self_id self_name ms)) (\<lambda>own.
         if own then ses_return []
         else ses_bind (check_stack_images api http creds ep [] ms) (\<lambda>ss.
           let (rollup, reason) = stack_rollup (dict_get found ep = Some None) ss
           in ses_return [\<lparr>st_update_path = None, st_update_status = Some rollup, st_name = Some name,
                st_unknown_reason = reason, p_id = i, p_endpoint_id = ep,
                p_endpoint_name = endpoint_name names ep, p_images = ss\<rparr>])))"

fun stack_statuses ::
  "(json \<Rightarrow> (p_call, p_stack list) steps) \<Rightarrow> json list \<Rightarrow> (p_call, p_stack list) steps" where
  "stack_statuses f [] = ses_return []"
| "stack_statuses f (s # ss) = ses_bind (f s) (\<lambda>x. ses_bind (stack_statuses f ss) (\<lambda>xs. ses_return (x @ xs)))"

definition stacks_with_update_status ::
  "papi \<Rightarrow> http_client \<Rightarrow> string option \<Rightarrow> string option \<Rightarrow> (string \<times> string) list option
     \<Rightarrow> (p_call, p_stack list) steps" where
  "stacks_with_update_status api http self_id self_name creds =
     ses_bind (get_endpoints api) (\<lambda>eps.
       ses_bind (ses_lift (endpoint_map eps)) (\<lambda>names.
         ses_bind (ses_bind (get_stacks api) (\<lambda>j. ses_lift (as_list j))) (\<lambda>stacks.
           ses_bind (ses_bind (ses_lift (collect (\<lambda>e. res_bind (key_of e ''Id'') (\<lambda>i. Inr [i])) eps))
                       (fetch_containers api)) (\<lambda>found.
             ses_bind (stack_statuses (stack_status api http creds self_id self_name names found) stacks) (\<lambda>ss.
               ses_return (sort_key (\<lambda>s. (p_endpoint_name s, get_or (st_name s) [])) ss))))))"

subsection \<open>The backend\<close>

definition portainer_ref :: "string \<Rightarrow> string \<Rightarrow> string" where
  "portainer_ref stack_id endpoint_id = stack_id @ '':'' @ endpoint_id"

definition enriched :: "p_stack \<Rightarrow> p_stack" where
  "enriched s =
     s\<lparr>p_id := JStr (id_text (p_id s)), p_endpoint_id := JStr (id_text (p_endpoint_id s)),
       st_update_path := Some (''portainer/'' @ portainer_ref (id_text (p_id s)) (id_text (p_endpoint_id s)))\<rparr>"

definition backend_stacks ::
  "papi \<Rightarrow> http_client \<Rightarrow> string option \<Rightarrow> string option \<Rightarrow> (string \<times> string) list option
     \<Rightarrow> (p_call, p_stack list) steps" where
  "backend_stacks api http self_id self_name creds =
     ses_bind (stacks_with_update_status api http self_id self_name creds) (\<lambda>ss. ses_return (map enriched ss))"

definition parse_portainer_ref :: "string \<Rightarrow> (int \<times> int) res" where
  "parse_portainer_ref ref =
     (case split_once '':'' ref of
        None \<Rightarrow> raise ''ValueError'' ''not enough values to unpack (expected 2, got 1)''
      | Some (a, b) \<Rightarrow>
          (case (py_int a, py_int b) of
             (Some i, Some e) \<Rightarrow> Inr (i, e)
           | _ \<Rightarrow> raise ''ValueError'' ''invalid literal for int() with base 10''))"

definition describe_portainer_ref :: "papi \<Rightarrow> string \<Rightarrow> (p_call, string) steps" where
  "describe_portainer_ref api ref =
     (let stack_id = (case split_once '':'' ref of Some (a, _) \<Rightarrow> a | None \<Rightarrow> ref) in
      ses_bind (p_get api (''/api/stacks/'' @ stack_id)) (\<lambda>j.
        ses_lift (if \<not> json_truthy j then Inr ref
                  else res_bind (field_or j ''Name'' (JStr [])) (\<lambda>n. Inr (or_s (Some (id_text n)) ref)))))"

definition ELLIPSIS :: string where "ELLIPSIS = [CHR 0xE2, CHR 0x80, CHR 0xA6]"

definition redeploy_lines :: "int \<Rightarrow> int \<Rightarrow> json \<Rightarrow> string list" where
  "redeploy_lines stack_id endpoint_id status =
     [''Redeploying Portainer stack '' @ show_int stack_id @ '' on endpoint '' @ show_int endpoint_id @ ELLIPSIS,
      ''Portainer accepted the redeploy for stack '' @ show_int stack_id @ '' (status '' @ id_text status @ '').'',
      ''Portainer does not return per-container pull output; check the stack'' @ [QUOTE]
        @ ''s container logs for detail.'']"

definition update_portainer_stack ::
  "papi \<Rightarrow> string option \<Rightarrow> string option \<Rightarrow> string \<Rightarrow> (p_call, string list) steps" where
  "update_portainer_stack api self_id self_name ref =
     ses_bind (ses_lift (parse_portainer_ref ref)) (\<lambda>(stack_id, endpoint_id).
       ses_bind (update_stack api self_id self_name stack_id endpoint_id) (\<lambda>result.
         ses_lift (res_bind (if json_truthy result then field_or result ''Status'' (JStr ''unknown'')
                             else Inr (JStr ''unknown''))
                     (\<lambda>st. Inr (redeploy_lines stack_id endpoint_id st)))))"

subsection \<open>The status of a stack\<close>

lemma card_one: "finite A \<Longrightarrow> x \<in> A \<Longrightarrow> card A = 1 \<longleftrightarrow> A = {x}"
  by (auto simp: card_1_singleton_iff)

lemma only_one: "(case xs of [r] \<Rightarrow> Some r | _ \<Rightarrow> None) = Some y \<Longrightarrow> xs = [y]"
  by (cases xs; cases "tl xs") auto

text \<open>The status that Portainer's stacks get is the one that the SSH backend's roll-up gives for the same image
  statuses, and a reason is given only for an unknown status: the common reason of the images, or
  why there are none.\<close>
theorem stack_rollup_as_ssh:
  assumes "ss \<noteq> []"
  shows "fst (stack_rollup unreachable ss) = rollup_status (map im_status ss)
    \<and> (\<forall>r. snd (stack_rollup unreachable ss) = Some r \<longrightarrow> fst (stack_rollup unreachable ss) = ''unknown''
        \<and> (\<exists>s \<in> set ss. im_status s = ''unknown'' \<and> im_reason s = Some r)
        \<and> (\<forall>s \<in> set ss. im_status s = ''unknown'' \<and> truthy_s (im_reason s) \<longrightarrow> im_reason s = Some r))"
proof -
  have ne: "map im_status ss \<noteq> []" using assms by simp
  have c: "''update_available'' \<in> set (map im_status ss) \<Longrightarrow>
      (card (set (map im_status ss)) = 1) = (set (map im_status ss) = {''update_available''})"
    by (intro card_one) simp_all
  have one: "fst (stack_rollup unreachable ss) = rollup_status (map im_status ss)"
    using assms c unfolding stack_rollup_def rollup_status_def Let_def by auto
  have "\<exists>s \<in> set ss. im_status s = ''unknown'' \<and> im_reason s = Some r"
    and "\<forall>s \<in> set ss. im_status s = ''unknown'' \<and> truthy_s (im_reason s) \<longrightarrow> im_reason s = Some r"
    if "rollup_unknown_reason ss = Some r" for r
  proof -
    let ?f = "\<lambda>s. if im_status s = ''unknown'' \<and> truthy_s (im_reason s) then im_reason s else None"
    have "remdups (List.map_filter ?f ss) = [r]"
      using that unfolding rollup_unknown_reason_def by (rule only_one)
    then have "set (remdups (List.map_filter ?f ss)) = set [r]" by (rule arg_cong)
    then have "set (List.map_filter ?f ss) = {r}" unfolding set_remdups list.set by simp
    then have "x \<in> {y. \<exists>s \<in> set ss. ?f s = Some y} \<longleftrightarrow> x \<in> {r}" for x
      by (simp only: set_map_filter)
    then have in_iff: "(\<exists>s \<in> set ss. ?f s = Some x) \<longleftrightarrow> x = r" for x
      by (simp only: mem_Collect_eq singleton_iff)
    show "\<exists>s \<in> set ss. im_status s = ''unknown'' \<and> im_reason s = Some r"
      using in_iff [of r] by (auto split: if_splits)
    show "\<forall>s \<in> set ss. im_status s = ''unknown'' \<and> truthy_s (im_reason s) \<longrightarrow> im_reason s = Some r"
    proof (intro ballI impI)
      fix s assume "s \<in> set ss" and s: "im_status s = ''unknown'' \<and> truthy_s (im_reason s)"
      then obtain x where "im_reason s = Some x" by (auto simp: truthy_s_iff)
      then have "?f s = Some x" using s by simp
      then have "x = r" using in_iff [of x] \<open>s \<in> set ss\<close> by blast
      then show "im_reason s = Some r" using \<open>im_reason s = Some x\<close> by simp
    qed
  qed
  then show ?thesis using one assms by (auto simp: stack_rollup_def Let_def split: if_splits)
qed

theorem stack_rollup_as_ssh_witness:
  "fst (stack_rollup False [\<lparr>im_name = ''nginx'', im_status = ''update_available'', im_reason = None\<rparr>]) =
     rollup_status [''update_available'']"
  using stack_rollup_as_ssh [of "[\<lparr>im_name = ''nginx'', im_status = ''update_available'', im_reason = None\<rparr>]" False]
  by simp

subsection \<open>The redeploy\<close>

lemma p_get_calls: "p_get api path hs = (r, h) \<Longrightarrow> h = hs @ [PGet path]"
  by (simp add: p_get_def)























definition portainer_answers :: papi where
  "portainer_answers hs call = ApiResp 200 True (Some (JObj [(''Name'', JStr ''Media'')]))"



end
