(* ===== verification/Scheduler.thy ===== *)
theory Scheduler
  imports HostOps
begin

section \<open>Automatic updates (app/auto_update_scheduler.py, app/auto_updates_router.py)\<close>

text \<open>
  The jobs that run unattended and the table that schedules them.  APScheduler keeps at most one
  job per id: its table is a dictionary from ids to jobs, \<open>cron_ok\<close> says which expressions
  \<open>CronTrigger.from_crontab\<close> takes.  A job's run is the list of what it does, in order: commands
  and API calls, the run it records in the activity log and the notifications it raises.  The
  three phases of an upgrade (upgrade, reboot check, reboot) each have an environment of their
  own, since the host changes between them.
\<close>

subsection \<open>Job ids\<close>

definition os_job_id :: "string \<Rightarrow> string" where
  "os_job_id slug = ''auto_os_'' @ slug"

definition replace_char :: "char \<Rightarrow> char \<Rightarrow> string \<Rightarrow> string" where
  "replace_char a b s = map (\<lambda>c. if c = a then b else c) s"

definition stack_job_id :: "string \<Rightarrow> string" where
  "stack_job_id update_path =
     ''auto_stack_'' @ replace_char CHR '':'' CHR ''_'' (replace_char CHR ''/'' CHR ''_'' update_path)"

definition UPDATE_CHECK_JOB_ID :: string where "UPDATE_CHECK_JOB_ID = ''update_check''"

subsection \<open>The unattended upgrade of a host\<close>

text \<open>The arguments of a \<open>record_run\<close> call; a missing \<open>started_at\<close> is \<open>BadStamp\<close>.\<close>

record run_entry =
  re_kind :: string
  re_target :: string
  re_target_name :: string
  re_trigger :: string
  re_status :: string
  re_output :: "string list"
  re_started_at :: stamp
  re_error :: string

datatype job_event =
    Upgraded "effect list"
  | Checked "effect list"
  | Rebooted "effect list"
  | Redeployed string
  | Recorded run_entry
  | Notified string string

record job_env =
  je_config :: disk
  je_creds :: "string \<Rightarrow> entry"
  je_upgrade :: host_env
  je_check :: host_env
  je_reboot :: host_env
  je_ttl :: int
  je_cache :: refreshes
  je_check_start :: time
  je_check_end :: time
  je_started :: time
  je_reboot_started :: time

definition ARROW :: string where "ARROW = [CHR 0xE2, CHR 0x86, CHR 0x92]"

definition SUDO_HINT :: string where
  "SUDO_HINT = ''Save it via Admin '' @ ARROW @ '' Hosts '' @ ARROW @ '' Credentials.''"

definition sudo_missing :: "string \<Rightarrow> string \<Rightarrow> job_event list" where
  "sudo_missing slug name =
     [Recorded \<lparr>re_kind = ''os_upgrade'', re_target = slug, re_target_name = name, re_trigger = ''scheduled'',
        re_status = ''skipped'',
        re_output = [''Auto-update skipped: sudo password not stored. '' @ SUDO_HINT],
        re_started_at = BadStamp, re_error = ''sudo password not stored''\<rparr>,
      Notified (''Auto-update skipped: '' @ name) (''sudo password not stored. '' @ SUDO_HINT)]"

definition lines_or_text :: "exn \<Rightarrow> string list" where
  "lines_or_text e = (if exn_lines e \<noteq> [] then exn_lines e else [exc_text e])"

definition os_failed :: "string \<Rightarrow> string \<Rightarrow> time \<Rightarrow> exn \<Rightarrow> job_event list" where
  "os_failed slug name started e =
     [Recorded \<lparr>re_kind = ''os_upgrade'', re_target = slug, re_target_name = name, re_trigger = ''scheduled'',
        re_status = ''error'', re_output = lines_or_text e, re_started_at = Aware started,
        re_error = exc_text e\<rparr>,
      Notified (''Auto OS update failed: '' @ name) (exc_text e)]"

definition os_reboot_phase :: "job_env \<Rightarrow> string \<Rightarrow> host \<Rightarrow> ssh_creds \<Rightarrow> job_event list \<times> exn option" where
  "os_reboot_phase je slug h creds =
     (let (needed, effs, _) = reboot_required_typed (je_check je) (je_ttl je) (je_check_start je) (je_check_end je)
                                slug h creds (je_cache je)
      in case needed of
           Inl e \<Rightarrow> ([Checked effs], Some e)
         | Inr False \<Rightarrow> ([Checked effs], None)
         | Inr True \<Rightarrow>
             (case reboot_host_typed (je_reboot je) slug h creds of
                (Inl e, effs2) \<Rightarrow> ([Checked effs, Rebooted effs2], Some e)
              | (Inr out, effs2) \<Rightarrow>
                  ([Checked effs, Rebooted effs2,
                    Recorded \<lparr>re_kind = ''reboot'', re_target = slug, re_target_name = h_name h,
                      re_trigger = ''scheduled'', re_status = ''success'',
                      re_output = out @ [''Auto-reboot triggered '' @ DASH
                        @ '' reboot-required flag was set after update.''],
                      re_started_at = Aware (je_reboot_started je), re_error = []\<rparr>], None)))"

definition auto_of :: "host \<Rightarrow> host_auto" where
  "auto_of h = get_or (h_auto_update h) \<lparr>au_os_enabled = False, au_os_schedule = [], au_auto_reboot = False\<rparr>"

definition os_attempt :: "job_env \<Rightarrow> string \<Rightarrow> host \<Rightarrow> ssh_creds \<Rightarrow> job_event list" where
  "os_attempt je slug h creds =
     (let name = h_name h in
      case run_os_update (je_upgrade je) slug h creds of
        (Inl e, effs) \<Rightarrow> Upgraded effs # os_failed slug name (je_started je) e
      | (Inr out, effs) \<Rightarrow>
          Upgraded effs
          # Recorded \<lparr>re_kind = ''os_upgrade'', re_target = slug, re_target_name = name,
              re_trigger = ''scheduled'', re_status = ''success'', re_output = out,
              re_started_at = Aware (je_started je), re_error = []\<rparr>
          # (if au_auto_reboot (auto_of h)
             then (case os_reboot_phase je slug h creds of
                     (evs, None) \<Rightarrow> evs
                   | (evs, Some e) \<Rightarrow> evs @ os_failed slug name (je_started je) e)
             else []))"

definition run_os_job :: "job_env \<Rightarrow> string \<Rightarrow> job_event list" where
  "run_os_job je slug =
     (case map_of (get_hosts (je_config je)) slug of
        None \<Rightarrow> []
      | Some h \<Rightarrow>
          if \<not> au_os_enabled (auto_of h) then []
          else let creds = host_creds (je_creds je slug) in
            if needs_sudo_for (ssh_view slug h) \<and> \<not> truthy_s (sx_sudo creds) then sudo_missing slug (h_name h)
            else os_attempt je slug h creds)"

subsection \<open>The unattended redeploy of a stack\<close>

text \<open>A backend is its key and what its \<open>update_stack\<close> does with a reference.\<close>

record redeployer =
  rd_key :: string
  rd_update :: "string \<Rightarrow> string list res"

definition stack_failed :: "string \<Rightarrow> string \<Rightarrow> string list \<Rightarrow> stamp \<Rightarrow> string \<Rightarrow> job_event list" where
  "stack_failed path name out started message =
     [Recorded \<lparr>re_kind = ''container_redeploy'', re_target = path, re_target_name = name,
        re_trigger = ''scheduled'', re_status = ''error'', re_output = out, re_started_at = started,
        re_error = message\<rparr>,
      Notified (''Auto stack update failed: '' @ name) message]"

definition run_stack_job :: "redeployer list \<Rightarrow> time \<Rightarrow> string \<Rightarrow> string \<Rightarrow> job_event list" where
  "run_stack_job backends started path name =
     (case split_once ''/'' path of
        None \<Rightarrow>
          let message = ''Invalid update_path format: '' @ py_repr path
          in stack_failed path name [message] BadStamp message
      | Some (key, ref) \<Rightarrow>
          (case find (\<lambda>b. rd_key b = key) backends of
             None \<Rightarrow>
               let message = ''Backend '' @ py_repr key @ '' is not configured or not running.''
               in stack_failed path name [message] BadStamp message
           | Some b \<Rightarrow>
               Redeployed path #
               (case rd_update b ref of
                  Inr out \<Rightarrow>
                    [Recorded \<lparr>re_kind = ''container_redeploy'', re_target = path, re_target_name = name,
                       re_trigger = ''scheduled'', re_status = ''success'',
                       re_output = (if out \<noteq> [] then out
                         else [''Stack redeployed '' @ DASH @ '' containers restarted with latest images.'']),
                       re_started_at = Aware started, re_error = []\<rparr>]
                | Inl e \<Rightarrow> stack_failed path name (lines_or_text e) (Aware started) (exc_text e))))"

subsection \<open>The job table\<close>

datatype job = OsJob string string | StackJob string string string | CheckJob int time

type_synonym jobs = "(string \<times> job) list"

definition apply_host_schedule :: "(string \<Rightarrow> bool) \<Rightarrow> disk \<Rightarrow> string \<Rightarrow> jobs \<Rightarrow> jobs" where
  "apply_host_schedule cron_ok cfg slug jobs =
     (let job_id = os_job_id slug; jobs1 = dict_pop job_id jobs in
      case map_of (get_hosts cfg) slug of
        None \<Rightarrow> jobs1
      | Some h \<Rightarrow>
          let au = auto_of h in
          if au_os_enabled au \<and> au_os_schedule au \<noteq> [] \<and> cron_ok (au_os_schedule au)
          then dict_set job_id (OsJob (au_os_schedule au) slug) jobs1 else jobs1)"

definition apply_stack_schedule :: "(string \<Rightarrow> bool) \<Rightarrow> disk \<Rightarrow> string \<Rightarrow> jobs \<Rightarrow> jobs" where
  "apply_stack_schedule cron_ok cfg update_path jobs =
     (let job_id = stack_job_id update_path; jobs1 = dict_pop job_id jobs in
      case dict_get (get_all_stack_auto_updates cfg) update_path of
        None \<Rightarrow> jobs1
      | Some sa \<Rightarrow>
          if sa_enabled sa \<and> sa_schedule sa \<noteq> [] \<and> cron_ok (sa_schedule sa)
          then dict_set job_id (StackJob (sa_schedule sa) update_path (sa_name sa)) jobs1 else jobs1)"

definition RESUME_FLOOR :: time where "RESUME_FLOOR = 60"

definition first_check_time :: "time \<Rightarrow> int \<Rightarrow> time option \<Rightarrow> time" where
  "first_check_time now hours last_one =
     (case last_one of
        None \<Rightarrow> now + of_int hours * 3600
      | Some t \<Rightarrow> max (t + of_int hours * 3600) (now + RESUME_FLOOR))"

definition apply_update_check_schedule :: "time \<Rightarrow> checks_file \<Rightarrow> disk \<Rightarrow> jobs \<Rightarrow> disk \<times> jobs" where
  "apply_update_check_schedule now checks cfg jobs =
     (let jobs1 = dict_pop UPDATE_CHECK_JOB_ID jobs;
          (hours, cfg') = get_update_check_interval_hours cfg
      in if hours \<le> 0 then (cfg', jobs1)
         else (cfg', dict_set UPDATE_CHECK_JOB_ID (CheckJob hours (first_check_time now hours (last_scan checks))) jobs1))"

definition apply_all_schedules :: "(string \<Rightarrow> bool) \<Rightarrow> time \<Rightarrow> checks_file \<Rightarrow> disk \<Rightarrow> jobs \<Rightarrow> disk \<times> jobs" where
  "apply_all_schedules cron_ok now checks cfg jobs =
     (let jobs1 = fold (\<lambda>sh. apply_host_schedule cron_ok cfg (fst sh)) (get_hosts cfg) jobs;
          jobs2 = fold (\<lambda>ps. apply_stack_schedule cron_ok cfg (fst ps)) (get_all_stack_auto_updates cfg) jobs1
      in apply_update_check_schedule now checks cfg jobs2)"

subsection \<open>The settings page\<close>

text \<open>The POST handlers of the settings page, on the configuration and the table; what they render is
  left out.\<close>

definition save_host_auto_update ::
  "(string \<Rightarrow> bool) \<Rightarrow> string \<Rightarrow> string \<Rightarrow> string \<Rightarrow> string \<Rightarrow> disk \<times> jobs \<Rightarrow> disk \<times> jobs" where
  "save_host_auto_update cron_ok slug os_enabled os_schedule auto_reboot s =
     (let enabled = (os_enabled = ''on''); reboot = (auto_reboot = ''on'');
          schedule = or_s (Some (py_strip os_schedule)) ''0 3 * * *''
      in if enabled \<and> \<not> cron_ok schedule then s
         else let cfg = set_host_auto_update slug enabled schedule reboot (fst s)
              in (cfg, apply_host_schedule cron_ok cfg slug (snd s)))"

definition save_stack_auto_update ::
  "(string \<Rightarrow> bool) \<Rightarrow> string \<Rightarrow> string \<Rightarrow> string \<Rightarrow> string \<Rightarrow> string \<Rightarrow> disk \<times> jobs \<Rightarrow> disk \<times> jobs" where
  "save_stack_auto_update cron_ok backend_key ref stack_name enabled schedule s =
     (let is_enabled = (enabled = ''on'');
          clean_schedule = or_s (Some (py_strip schedule)) ''0 4 * * *'';
          update_path = backend_key @ ''/'' @ ref
      in if is_enabled \<and> \<not> cron_ok clean_schedule then s
         else let cfg = set_stack_auto_update update_path stack_name is_enabled clean_schedule (fst s)
              in (cfg, apply_stack_schedule cron_ok cfg update_path (snd s)))"

definition save_check_interval ::
  "time \<Rightarrow> checks_file \<Rightarrow> string \<Rightarrow> disk \<times> jobs \<Rightarrow> disk \<times> jobs" where
  "save_check_interval now checks interval_hours s =
     (let (hours, cfg) = (case py_int interval_hours of
                            Some n \<Rightarrow> (n, fst s) | None \<Rightarrow> get_update_check_interval_hours (fst s))
      in apply_update_check_schedule now checks (save_update_check_interval_hours (JNum hours) cfg) (snd s))"

text \<open>What the process does to the configuration and the table: it starts with an empty table, or a form
  of the settings page is saved.  Other parts of the program also change the configuration.\<close>

inductive page_step :: "(string \<Rightarrow> bool) \<Rightarrow> disk \<times> jobs \<Rightarrow> disk \<times> jobs \<Rightarrow> bool" for cron_ok where
  startup: "page_step cron_ok (cfg, jobs) (apply_all_schedules cron_ok now checks cfg [])"
| host_saved: "page_step cron_ok s (save_host_auto_update cron_ok slug e sch r s)"
| stack_saved: "page_step cron_ok s (save_stack_auto_update cron_ok key ref name e sch s)"
| interval_saved: "page_step cron_ok s (save_check_interval now checks h s)"

inductive sched_step :: "(string \<Rightarrow> bool) \<Rightarrow> disk \<times> jobs \<Rightarrow> disk \<times> jobs \<Rightarrow> bool" for cron_ok where
  page: "page_step cron_ok s s' \<Longrightarrow> sched_step cron_ok s s'"
| edited: "sched_step cron_ok (cfg, jobs) (cfg', jobs)"

inductive_cases page_stepE: "page_step cron_ok s s'"
inductive_cases sched_stepE: "sched_step cron_ok s s'"

subsection \<open>Job ids do not clash\<close>

lemma os_job_id_eq [simp]: "os_job_id a = os_job_id b \<longleftrightarrow> a = b"
  by (simp add: os_job_id_def)

lemma job_ids_disjoint [simp]:
  "os_job_id a \<noteq> stack_job_id b" "stack_job_id b \<noteq> os_job_id a"
  "os_job_id a \<noteq> UPDATE_CHECK_JOB_ID" "UPDATE_CHECK_JOB_ID \<noteq> os_job_id a"
  "stack_job_id b \<noteq> UPDATE_CHECK_JOB_ID" "UPDATE_CHECK_JOB_ID \<noteq> stack_job_id b"
  by (simp_all add: os_job_id_def stack_job_id_def UPDATE_CHECK_JOB_ID_def)

text \<open>Two different stacks can have one id: the separators of a path are not told from underscores.\<close>

lemma stack_job_id_clash: "stack_job_id ''ssh/nas/web:app_1'' = stack_job_id ''ssh/nas/web_app:1''"
  by code_simp

subsection \<open>The table follows the configuration\<close>

definition wanted_os :: "(string \<Rightarrow> bool) \<Rightarrow> disk \<Rightarrow> string \<Rightarrow> job option" where
  "wanted_os cron_ok cfg slug =
     (case map_of (get_hosts cfg) slug of
        None \<Rightarrow> None
      | Some h \<Rightarrow>
          if au_os_enabled (auto_of h) \<and> au_os_schedule (auto_of h) \<noteq> [] \<and> cron_ok (au_os_schedule (auto_of h))
          then Some (OsJob (au_os_schedule (auto_of h)) slug) else None)"

definition os_agree :: "(string \<Rightarrow> bool) \<Rightarrow> disk \<times> jobs \<Rightarrow> bool" where
  "os_agree cron_ok s \<longleftrightarrow> (\<forall>slug. dict_get (snd s) (os_job_id slug) = wanted_os cron_ok (fst s) slug)"

lemma apply_host_get:
  "dict_get (apply_host_schedule cron_ok cfg slug jobs) i =
     (if i = os_job_id slug then wanted_os cron_ok cfg slug else dict_get jobs i)"
  by (auto simp: apply_host_schedule_def wanted_os_def Let_def dict_simps split: option.splits)

lemma apply_stack_get_other:
  "i \<noteq> stack_job_id path \<Longrightarrow> dict_get (apply_stack_schedule cron_ok cfg path jobs) i = dict_get jobs i"
  by (auto simp: apply_stack_schedule_def Let_def dict_simps split: option.splits)

lemma apply_check_get_other:
  "i \<noteq> UPDATE_CHECK_JOB_ID \<Longrightarrow>
     dict_get (snd (apply_update_check_schedule now checks cfg jobs)) i = dict_get jobs i"
  by (auto simp: apply_update_check_schedule_def Let_def dict_simps split: prod.splits)

lemma fold_hosts_get:
  "dict_get (fold (\<lambda>sh. apply_host_schedule cron_ok cfg (fst sh)) hs jobs) (os_job_id slug) =
     (if slug \<in> fst ` set hs then wanted_os cron_ok cfg slug else dict_get jobs (os_job_id slug))"
  by (induction hs arbitrary: jobs) (auto simp: apply_host_get)

lemma fold_stacks_get:
  "dict_get (fold (\<lambda>ps. apply_stack_schedule cron_ok cfg (fst ps)) ss jobs) (os_job_id slug) =
     dict_get jobs (os_job_id slug)"
  by (induction ss arbitrary: jobs) (auto simp: apply_stack_get_other)

lemma interval_keeps_hosts [simp]: "get_hosts (snd (get_update_check_interval_hours cfg)) = get_hosts cfg"
  by (auto simp: get_update_check_interval_hours_def get_hosts_def save_config_def load_config_def Let_def
      split: option.splits)

lemma interval_read_keeps_hosts: "get_update_check_interval_hours cfg = (n, cfg') \<Longrightarrow> get_hosts cfg' = get_hosts cfg"
  using interval_keeps_hosts [of cfg] by simp

lemma save_interval_keeps_hosts [simp]: "get_hosts (save_update_check_interval_hours h cfg) = get_hosts cfg"
  by (auto simp: save_update_check_interval_hours_def get_hosts_def save_config_def load_config_def Let_def
      split: option.splits)

lemma stack_save_keeps_hosts [simp]: "get_hosts (set_stack_auto_update p n e s cfg) = get_hosts cfg"
  by (auto simp: set_stack_auto_update_def get_hosts_def save_config_def load_config_def Let_def
      split: option.splits)

lemma apply_check_hosts [simp]:
  "get_hosts (fst (apply_update_check_schedule now checks cfg jobs)) = get_hosts cfg"
  by (auto simp: apply_update_check_schedule_def Let_def interval_read_keeps_hosts split: prod.splits)

lemma wanted_os_hosts: "get_hosts cfg' = get_hosts cfg \<Longrightarrow> wanted_os c cfg' = wanted_os c cfg"
  by (simp add: wanted_os_def fun_eq_iff)

lemma wanted_os_unlisted: "slug \<notin> fst ` set (get_hosts cfg) \<Longrightarrow> wanted_os c cfg slug = None"
  by (simp add: wanted_os_def map_of_eq_None_iff [symmetric])

lemma startup_agrees: "os_agree cron_ok (apply_all_schedules cron_ok now checks cfg [])"
proof -
  have "get_hosts (fst (apply_all_schedules cron_ok now checks cfg [])) = get_hosts cfg"
    by (simp add: apply_all_schedules_def Let_def)
  then have w: "wanted_os cron_ok (fst (apply_all_schedules cron_ok now checks cfg [])) = wanted_os cron_ok cfg"
    by (rule wanted_os_hosts)
  show ?thesis
    unfolding os_agree_def w
    by (auto simp: apply_all_schedules_def Let_def apply_check_get_other fold_stacks_get fold_hosts_get
        wanted_os_unlisted)
qed

lemma updated_other_slug:
  assumes "\<And>h. h_name (f h) = h_name h" and "\<And>h. h_host (f h) = h_host h" and "slug' \<noteq> slug"
  shows "map_of (map (\<lambda>h. (slugify (h_name h), h))
      (filter (\<lambda>h. \<not> contains (get_or (h_host h) []) ''XXX'') (update_first (has_slug slug) f hs))) slug' =
    map_of (map (\<lambda>h. (slugify (h_name h), h)) (filter (\<lambda>h. \<not> contains (get_or (h_host h) []) ''XXX'') hs)) slug'"
  using assms by (induction hs) (auto simp: has_slug_def)

lemma host_save_other_slug:
  "slug' \<noteq> slug \<Longrightarrow>
     map_of (get_hosts (set_host_auto_update slug e sch r cfg)) slug' = map_of (get_hosts cfg) slug'"
  by (cases "c_hosts (load_config cfg)")
    (simp_all add: set_host_auto_update_def change_host_def get_hosts_def save_config_def Let_def
      load_config_def [of "Some _"] updated_other_slug)

lemma host_save_agrees:
  assumes "os_agree cron_ok s"
  shows "os_agree cron_ok (save_host_auto_update cron_ok slug e sch r s)"
  using assms host_save_other_slug
  by (auto simp: os_agree_def save_host_auto_update_def Let_def apply_host_get wanted_os_def)

lemma stack_save_agrees:
  assumes "os_agree cron_ok s"
  shows "os_agree cron_ok (save_stack_auto_update cron_ok key ref name e sch s)"
  using assms wanted_os_hosts [OF stack_save_keeps_hosts]
  by (auto simp: os_agree_def save_stack_auto_update_def Let_def apply_stack_get_other)

lemma interval_save_agrees:
  assumes "os_agree cron_ok s"
  shows "os_agree cron_ok (save_check_interval now checks h s)"
proof -
  have "get_hosts (fst (save_check_interval now checks h s)) = get_hosts (fst s)"
    by (auto simp: save_check_interval_def Let_def interval_read_keeps_hosts split: option.splits prod.splits)
  then have "wanted_os cron_ok (fst (save_check_interval now checks h s)) = wanted_os cron_ok (fst s)"
    by (rule wanted_os_hosts)
  moreover have "dict_get (snd (save_check_interval now checks h s)) (os_job_id slug) = dict_get (snd s) (os_job_id slug)"
    for slug
    by (auto simp: save_check_interval_def Let_def apply_check_get_other split: prod.splits)
  ultimately show ?thesis using assms by (simp add: os_agree_def)
qed

lemma page_step_agrees: "page_step cron_ok s s' \<Longrightarrow> os_agree cron_ok s \<Longrightarrow> os_agree cron_ok s'"
  by (induction rule: page_step.induct)
    (simp_all add: startup_agrees host_save_agrees stack_save_agrees interval_save_agrees)

text \<open>C27. From a start on, through any sequence of saves on the settings page and further starts, every host has
  exactly the upgrade job its settings ask for: the job with its schedule when the host is listed,
  enabled and has a valid expression, and none otherwise.\<close>
theorem schedules_follow_settings:
  assumes "(page_step cron_ok)\<^sup>*\<^sup>* (apply_all_schedules cron_ok now checks cfg []) s"
  shows "dict_get (snd s) (os_job_id slug) = wanted_os cron_ok (fst s) slug"
proof -
  have "os_agree cron_ok s"
    using assms by (induction rule: rtranclp_induct) (auto intro: startup_agrees page_step_agrees)
  then show ?thesis by (simp add: os_agree_def)
qed

definition nas_config :: disk where
  "nas_config = Some (empty_config\<lparr>c_hosts :=
     Some [build_host_entry ''nas'' ''10.0.0.3'' (Some ''root'') None None None None None None None]\<rparr>)"

theorem schedules_follow_settings_witness:
  "dict_get (snd (save_host_auto_update (\<lambda>_. True) ''nas'' ''on'' '' '' []
     (apply_all_schedules (\<lambda>_. True) 0 Missing nas_config []))) (os_job_id ''nas'') =
   Some (OsJob ''0 3 * * *'' ''nas'')"
proof -
  have "(page_step (\<lambda>_. True))\<^sup>*\<^sup>* (apply_all_schedules (\<lambda>_. True) 0 Missing nas_config [])
     (save_host_auto_update (\<lambda>_. True) ''nas'' ''on'' '' '' [] (apply_all_schedules (\<lambda>_. True) 0 Missing nas_config []))"
    by (intro r_into_rtranclp host_saved)
  moreover have "wanted_os (\<lambda>_. True) (fst (save_host_auto_update (\<lambda>_. True) ''nas'' ''on'' '' '' []
     (apply_all_schedules (\<lambda>_. True) 0 Missing nas_config []))) ''nas'' = Some (OsJob ''0 3 * * *'' ''nas'')"
    by code_simp
  ultimately show ?thesis using schedules_follow_settings by metis
qed

subsection \<open>The table is well formed\<close>

fun job_id_of :: "job \<Rightarrow> string" where
  "job_id_of (OsJob c slug) = os_job_id slug"
| "job_id_of (StackJob c path name) = stack_job_id path"
| "job_id_of (CheckJob hours t) = UPDATE_CHECK_JOB_ID"

fun job_valid :: "(string \<Rightarrow> bool) \<Rightarrow> job \<Rightarrow> bool" where
  "job_valid cron_ok (OsJob c slug) = cron_ok c"
| "job_valid cron_ok (StackJob c path name) = cron_ok c"
| "job_valid cron_ok (CheckJob hours t) = (hours > 0)"

definition jobs_ok :: "(string \<Rightarrow> bool) \<Rightarrow> jobs \<Rightarrow> bool" where
  "jobs_ok cron_ok jobs \<longleftrightarrow>
     dict_ok jobs \<and> list_all (\<lambda>(i, j). i = job_id_of j \<and> job_valid cron_ok j) jobs"

lemma dict_pop_member: "x \<in> set (dict_pop k d) \<Longrightarrow> x \<in> set d"
  by (auto simp: AList.delete_eq)

lemma jobs_ok_pop: "jobs_ok cron_ok jobs \<Longrightarrow> jobs_ok cron_ok (dict_pop i jobs)"
  by (auto simp: jobs_ok_def list_all_iff dest!: dict_pop_member)

lemma dict_set_member: "x \<in> set (dict_set k v d) \<Longrightarrow> x = (k, v) \<or> x \<in> set d"
  by (induction d) (auto split: if_splits)

lemma jobs_ok_set:
  "jobs_ok cron_ok jobs \<Longrightarrow> job_valid cron_ok j \<Longrightarrow> i = job_id_of j \<Longrightarrow> jobs_ok cron_ok (dict_set i j jobs)"
  by (auto simp: jobs_ok_def list_all_iff dest!: dict_set_member)

lemma apply_host_ok: "jobs_ok cron_ok jobs \<Longrightarrow> jobs_ok cron_ok (apply_host_schedule cron_ok cfg slug jobs)"
  by (auto simp: apply_host_schedule_def Let_def split: option.splits intro: jobs_ok_pop jobs_ok_set)

lemma apply_stack_ok: "jobs_ok cron_ok jobs \<Longrightarrow> jobs_ok cron_ok (apply_stack_schedule cron_ok cfg path jobs)"
  by (auto simp: apply_stack_schedule_def Let_def split: option.splits intro: jobs_ok_pop jobs_ok_set)

lemma apply_check_ok:
  "jobs_ok cron_ok jobs \<Longrightarrow> jobs_ok cron_ok (snd (apply_update_check_schedule now checks cfg jobs))"
  by (auto simp: apply_update_check_schedule_def Let_def split: prod.splits intro: jobs_ok_pop jobs_ok_set)

lemma fold_ok: "(\<And>x js. P js \<Longrightarrow> P (f x js)) \<Longrightarrow> P js \<Longrightarrow> P (fold f xs js)"
  by (induction xs arbitrary: js) auto

lemma apply_all_ok: "jobs_ok cron_ok (snd (apply_all_schedules cron_ok now checks cfg []))"
proof -
  have "jobs_ok cron_ok []" by (simp add: jobs_ok_def)
  then show ?thesis
    unfolding apply_all_schedules_def Let_def
    by (intro apply_check_ok fold_ok [where P = "jobs_ok cron_ok"] apply_host_ok apply_stack_ok)
qed

lemma page_step_ok: "page_step cron_ok s s' \<Longrightarrow> jobs_ok cron_ok (snd s) \<Longrightarrow> jobs_ok cron_ok (snd s')"
  by (induction rule: page_step.induct)
    (auto simp: apply_all_ok save_host_auto_update_def save_stack_auto_update_def save_check_interval_def Let_def
      split: prod.splits intro: apply_host_ok apply_stack_ok apply_check_ok)

text \<open>C37. Whatever happens to the configuration in between, the table never holds two jobs for one host, one
  stack or the update check, every job stands under its own id, every expression is valid and a
  switched-off check is not scheduled.\<close>
theorem job_table_invariant:
  assumes "(sched_step cron_ok)\<^sup>*\<^sup>* (cfg, []) s"
  shows "jobs_ok cron_ok (snd s)"
  using assms
proof (induction rule: rtranclp_induct)
  case base
  show ?case by (simp add: jobs_ok_def)
next
  case (step s1 s2)
  then show ?case by (auto elim!: sched_stepE dest: page_step_ok)
qed

theorem job_table_invariant_witness:
  "jobs_ok (\<lambda>_. True) (snd (apply_all_schedules (\<lambda>_. True) 0 Missing nas_config []))"
proof (rule job_table_invariant)
  show "(sched_step (\<lambda>_. True))\<^sup>*\<^sup>* (nas_config, []) (apply_all_schedules (\<lambda>_. True) 0 Missing nas_config [])"
    by (intro r_into_rtranclp sched_step.page page_step.startup)
qed

subsection \<open>What an unattended job may do\<close>

lemma os_failed_no_reboot [simp]: "Rebooted effs \<notin> set (os_failed slug name t e)"
  by (simp add: os_failed_def)

lemma reboot_phase_rebooted:
  assumes "Rebooted effs \<in> set (fst (os_reboot_phase je slug h creds))"
  shows "fst (reboot_required_typed (je_check je) (je_ttl je) (je_check_start je) (je_check_end je)
           slug h creds (je_cache je)) = Inr True
       \<and> effs = snd (reboot_host_typed (je_reboot je) slug h creds)"
  using assms by (auto simp: os_reboot_phase_def Let_def split: prod.splits sum.splits bool.splits)

text \<open>C4. A scheduled job reboots a host only when the host is listed and enabled for both, its upgrade has just
  succeeded and been recorded so, and the check after it said that a reboot is needed: a host
  whose upgrade failed is never rebooted.\<close>
theorem reboot_only_after_success:
  assumes "Rebooted effs \<in> set (run_os_job je slug)"
  shows "\<exists>h out ueffs rest. map_of (get_hosts (je_config je)) slug = Some h
    \<and> au_os_enabled (auto_of h) \<and> au_auto_reboot (auto_of h)
    \<and> run_os_update (je_upgrade je) slug h (host_creds (je_creds je slug)) = (Inr out, ueffs)
    \<and> fst (reboot_required_typed (je_check je) (je_ttl je) (je_check_start je) (je_check_end je) slug h
        (host_creds (je_creds je slug)) (je_cache je)) = Inr True
    \<and> effs = snd (reboot_host_typed (je_reboot je) slug h (host_creds (je_creds je slug)))
    \<and> run_os_job je slug = Upgraded ueffs
        # Recorded \<lparr>re_kind = ''os_upgrade'', re_target = slug, re_target_name = h_name h,
            re_trigger = ''scheduled'', re_status = ''success'', re_output = out,
            re_started_at = Aware (je_started je), re_error = []\<rparr> # rest"
proof -
  let ?c = "host_creds (je_creds je slug)"
  obtain h where h: "map_of (get_hosts (je_config je)) slug = Some h" "au_os_enabled (auto_of h)"
    and run: "run_os_job je slug = os_attempt je slug h ?c"
    using assms by (cases "map_of (get_hosts (je_config je)) slug")
      (auto simp: run_os_job_def sudo_missing_def Let_def split: if_splits)
  obtain up ueffs where u: "run_os_update (je_upgrade je) slug h ?c = (up, ueffs)" by (rule prod.exhaust)
  obtain evs oe where ph: "os_reboot_phase je slug h ?c = (evs, oe)" by (rule prod.exhaust)
  have mem: "Rebooted effs \<in> set (os_attempt je slug h ?c)" using assms run by simp
  have "\<exists>out. up = Inr out"
  proof (cases up)
    case (Inl e)
    then show ?thesis using mem by (simp add: os_attempt_def u Let_def)
  qed simp
  then obtain out where out: "up = Inr out" by blast
  have "au_auto_reboot (auto_of h) \<and> Rebooted effs \<in> set evs"
    using mem by (cases oe; cases "au_auto_reboot (auto_of h)")
      (simp_all add: os_attempt_def u out ph Let_def)
  then show ?thesis
    using h u out run ph reboot_phase_rebooted [of effs je slug h ?c] by (auto simp: os_attempt_def Let_def)
qed

definition reboot_remote :: transport where
  "reboot_remote hs call =
     Done \<lparr>rr_stdout = (if sk_cmd call = DETECT_CMD then ''zypper'' else ''__REBOOT__ yes''), rr_stderr = [],
       rr_returncode = Some 0, rr_signal = None\<rparr>"

definition auto_config :: disk where
  "auto_config = set_host_auto_update ''nas'' True ''0 3 * * *'' True nas_config"

definition reboot_env :: host_env where
  "reboot_env = demo_env\<lparr>he_transport := reboot_remote\<rparr>"

definition auto_host :: host where
  "auto_host = (build_host_entry ''nas'' ''10.0.0.3'' (Some ''root'') None None None None None None None)
     \<lparr>h_auto_update := Some \<lparr>au_os_enabled = True, au_os_schedule = ''0 3 * * *'', au_auto_reboot = True\<rparr>\<rparr>"

definition demo_job :: job_env where
  "demo_job =
     \<lparr>je_config = auto_config, je_creds = (\<lambda>_. []), je_upgrade = reboot_env, je_check = reboot_env,
      je_reboot = reboot_env, je_ttl = 60, je_cache = [], je_check_start = 0, je_check_end = 0, je_started = 0,
      je_reboot_started = 0\<rparr>"

lemma demo_job_simps [simp]:
  "je_config demo_job = auto_config" "je_creds demo_job = (\<lambda>_. [])" "je_upgrade demo_job = reboot_env"
  "je_check demo_job = reboot_env" "je_reboot demo_job = reboot_env" "je_ttl demo_job = 60"
  "je_cache demo_job = []" "je_check_start demo_job = 0" "je_check_end demo_job = 0"
  by (simp_all add: demo_job_def)

lemma demo_phases:
  "map_of (get_hosts auto_config) ''nas'' = Some auto_host"
  "needs_sudo_for (ssh_view ''nas'' auto_host) = False"
  "fst (run_os_update reboot_env ''nas'' auto_host (host_creds [])) = Inr [''__REBOOT__ yes'']"
  "fst (reboot_required_typed reboot_env 60 0 0 ''nas'' auto_host (host_creds []) []) = Inr True"
  "snd (reboot_host_typed reboot_env ''nas'' auto_host (host_creds [])) \<noteq> []"
  "auto_of auto_host = \<lparr>au_os_enabled = True, au_os_schedule = ''0 3 * * *'', au_auto_reboot = True\<rparr>"
  by code_simp+

lemma demo_rebooted:
  "Rebooted (snd (reboot_host_typed reboot_env ''nas'' auto_host (host_creds []))) \<in> set (run_os_job demo_job ''nas'')"
proof -
  obtain effs where up: "run_os_update reboot_env ''nas'' auto_host (host_creds []) = (Inr [''__REBOOT__ yes''], effs)"
    using demo_phases(3) by (metis prod.collapse)
  obtain effs1 c where ck: "reboot_required_typed reboot_env 60 0 0 ''nas'' auto_host (host_creds []) [] = (Inr True, effs1, c)"
    using demo_phases(4) by (metis prod.collapse)
  have "Rebooted (snd (reboot_host_typed reboot_env ''nas'' auto_host (host_creds [])))
      \<in> set (fst (os_reboot_phase demo_job ''nas'' auto_host (host_creds [])))"
    by (auto simp: os_reboot_phase_def ck split: prod.split sum.split)
  then have "Rebooted (snd (reboot_host_typed reboot_env ''nas'' auto_host (host_creds [])))
      \<in> set (os_attempt demo_job ''nas'' auto_host (host_creds []))"
    by (cases "os_reboot_phase demo_job ''nas'' auto_host (host_creds [])";
        cases "snd (os_reboot_phase demo_job ''nas'' auto_host (host_creds []))")
      (simp_all add: os_attempt_def up demo_phases(6) Let_def)
  then show ?thesis by (simp add: run_os_job_def demo_phases Let_def)
qed

theorem reboot_only_after_success_witness:
  "\<exists>h. map_of (get_hosts auto_config) ''nas'' = Some h \<and> au_auto_reboot (auto_of h)
    \<and> snd (reboot_host_typed reboot_env ''nas'' h (host_creds [])) =
        snd (reboot_host_typed reboot_env ''nas'' auto_host (host_creds []))"
  using reboot_only_after_success [OF demo_rebooted] by auto

text \<open>No unattended failure is silent.\<close>

definition announced :: "job_event list \<Rightarrow> bool" where
  "announced evs \<longleftrightarrow> (\<forall>r pre post. evs = pre @ Recorded r # post \<longrightarrow> re_status r \<noteq> ''success''
     \<longrightarrow> (\<exists>t m rest. post = Notified t m # rest))"

fun announced_from :: "job_event list \<Rightarrow> bool" where
  "announced_from (Recorded r # evs) \<longleftrightarrow>
     (re_status r = ''success'' \<or> (case evs of Notified t m # rest \<Rightarrow> True | _ \<Rightarrow> False)) \<and> announced_from evs"
| "announced_from (ev # evs) \<longleftrightarrow> announced_from evs"
| "announced_from [] \<longleftrightarrow> True"

lemma announced_from_append:
  "announced_from evs \<Longrightarrow> announced_from evs' \<Longrightarrow> announced_from (evs @ evs')"
  by (induction evs rule: announced_from.induct) (auto split: list.splits job_event.splits)

lemma announced_fromD: "announced_from (pre @ post) \<Longrightarrow> announced_from post"
  by (induction pre rule: announced_from.induct) auto

lemma announced_iff: "announced_from evs \<Longrightarrow> announced evs"
  unfolding announced_def by (auto dest!: announced_fromD split: list.splits job_event.splits)

lemma failure_blocks:
  "announced_from (os_failed slug name t e)" "announced_from (stack_failed path name out st m)"
  "announced_from (sudo_missing slug name)"
  by (simp_all add: os_failed_def stack_failed_def sudo_missing_def)

lemma reboot_phase_announced: "announced_from (fst (os_reboot_phase je slug h creds))"
  by (auto simp: os_reboot_phase_def Let_def split: prod.splits sum.splits bool.splits)

lemma attempt_announced: "announced_from (os_attempt je slug h creds)"
  using reboot_phase_announced [of je slug h creds]
  by (auto simp: os_attempt_def Let_def failure_blocks split: option.split prod.split sum.split
      intro!: announced_from_append)

text \<open>C39. Every run that a scheduled job records with another status than success is followed at once by a
  notification, for hosts and for stacks, whatever fails: the missing password, the upgrade, the
  reboot check, the reboot, the path, the backend or the redeploy.\<close>
theorem job_failures_announced:
  "announced (run_os_job je slug) \<and> announced (run_stack_job backends started path name)"
proof (intro conjI announced_iff)
  show "announced_from (run_os_job je slug)"
    by (auto simp: run_os_job_def Let_def failure_blocks attempt_announced split: option.split)
  show "announced_from (run_stack_job backends started path name)"
    by (auto simp: run_stack_job_def Let_def failure_blocks split: option.split prod.split sum.split)
qed
end
