(* ===== verification/UpdateScan.thy ===== *)
theory UpdateScan
  imports Scheduler
begin

section \<open>Update detection (app/update_scan.py, app/backend_loader.py)\<close>

text \<open>
  One pass over hosts and containers.  The checks of the hosts run concurrently; they share only
  the refresh cache, whose entries belong to one host each, so they are modelled in the order of
  the list.  \<open>sn_wedged\<close> says for which hosts the budget of the whole check ran out.  The results
  are used in the order of the hosts, as \<open>asyncio.gather\<close> returns them.
\<close>

subsection \<open>One host\<close>

datatype scan_pkg = Pkg package | NodePkg json json json

record scan_result =
  sr_packages :: "scan_pkg list"
  sr_reboot_required :: bool
  sr_is_proxmox_node :: bool
  sr_package_manager :: string
  sr_proxmox_node :: "string option"
  sr_proxmox_url :: string

definition MIDDOT :: string where "MIDDOT = [CHR 0xC2, CHR 0xB7]"

definition node_scan :: "scan_pkg list \<Rightarrow> bool \<Rightarrow> bool \<Rightarrow> string \<Rightarrow> string \<Rightarrow> string \<Rightarrow> scan_result" where
  "node_scan packages reboot is_node manager node url =
     \<lparr>sr_packages = packages, sr_reboot_required = reboot, sr_is_proxmox_node = is_node,
      sr_package_manager = ''apt '' @ MIDDOT @ manager, sr_proxmox_node = Some node, sr_proxmox_url = url\<rparr>"

definition scan_lxc ::
  "host_env \<Rightarrow> int \<Rightarrow> time \<Rightarrow> time \<Rightarrow> host \<Rightarrow> refreshes \<Rightarrow> scan_result res \<times> effect list \<times> refreshes" where
  "scan_lxc env ttl now0 now1 h cache =
     (let node = the (h_proxmox_node h); vmid = the (h_proxmox_vmid h) in
      case lxc_ssh_context env h of
        Inl e \<Rightarrow> (Inl e, [], cache)
      | Inr (px_host, s) \<Rightarrow>
          (case client_from_config (he_context env) (h_proxmox_server h) of
             Inl e \<Rightarrow> (Inl e, [], cache)
           | Inr client \<Rightarrow>
               let (r, calls, cache') =
                     get_lxc_updates ttl now0 now1 (he_dial env) (he_transport env) node vmid px_host s cache;
                   (r1, effs) = over_px_ssh px_host s (r, calls)
               in (res_bind r1 (\<lambda>packages. Inr (node_scan (map Pkg packages) False False
                     ('' pct exec ('' @ node @ ''/'' @ show_int vmid @ '')'') node
                     (get_or (sv_url (fst (server_context (he_context env) h))) []))),
                   effs, cache')))"

definition no_creds_given :: ssh_creds where
  "no_creds_given = host_creds []"

definition scan_node ::
  "host_env \<Rightarrow> int \<Rightarrow> time \<Rightarrow> time \<Rightarrow> string \<Rightarrow> host \<Rightarrow> refreshes \<Rightarrow> scan_result res \<times> effect list \<times> refreshes" where
  "scan_node env ttl now0 now1 slug h cache =
     (let node = the (h_proxmox_node h) in
      case client_from_config (he_context env) (h_proxmox_server h) of
        Inl e \<Rightarrow> (Inl e, [], cache)
      | Inr client \<Rightarrow>
          let packages = get_node_updates (he_api env client) node;
              (reboot, effs, cache') = reboot_required_typed env ttl now0 now1 slug h no_creds_given cache
          in (res_bind packages (\<lambda>ps. res_bind reboot (\<lambda>b.
                Inr (node_scan (map (\<lambda>(n, c, a). NodePkg n c a) ps) b True
                  ('' Proxmox API ('' @ node @ '')'') node
                  (get_or (sv_url (get_proxmox_config (cx_config (he_context env)))) [])))),
              Api ''GET'' (node_path node ''/apt/update'') # effs, cache'))"

definition scan_host ::
  "host_env \<Rightarrow> int \<Rightarrow> time \<Rightarrow> time \<Rightarrow> string \<Rightarrow> host \<Rightarrow> ssh_creds \<Rightarrow> refreshes
     \<Rightarrow> scan_result res \<times> effect list \<times> refreshes" where
  "scan_host env ttl now0 now1 slug h creds cache =
     (if truthy_s (h_proxmox_node h) \<and> h_proxmox_vmid h \<noteq> None then scan_lxc env ttl now0 now1 h cache
      else if truthy_s (h_proxmox_node h) then scan_node env ttl now0 now1 slug h cache
      else let (r, calls, cache') =
                 check_host_updates ttl now0 now1 (he_dial env) (he_transport env) (ssh_view slug h) creds cache
           in (res_bind r (\<lambda>c. Inr \<lparr>sr_packages = map Pkg (hc_packages c),
                 sr_reboot_required = hc_reboot_required c, sr_is_proxmox_node = False,
                 sr_package_manager = hc_package_manager c, sr_proxmox_node = None, sr_proxmox_url = []\<rparr>),
               ssh_effect (ssh_view slug h) creds calls, cache'))"

subsection \<open>All hosts\<close>

record scanner =
  sn_env :: "string \<Rightarrow> host_env"
  sn_creds :: "string \<Rightarrow> entry"
  sn_wedged :: "string \<Rightarrow> bool"
  sn_start :: "string \<Rightarrow> time"
  sn_end :: "string \<Rightarrow> time"
  sn_ttl :: int

definition scan_one :: "scanner \<Rightarrow> string \<Rightarrow> host \<Rightarrow> refreshes \<Rightarrow> scan_result res \<times> refreshes" where
  "scan_one sn slug h cache =
     (if sn_wedged sn slug then (Inl timeout_exn, cache)
      else let (r, _, cache') = scan_host (sn_env sn slug) (sn_ttl sn) (sn_start sn slug) (sn_end sn slug)
                                  slug h (host_creds (sn_creds sn slug)) cache
           in (r, cache'))"

fun scan_hosts ::
  "scanner \<Rightarrow> (string \<times> host) list \<Rightarrow> refreshes \<Rightarrow> (string \<times> host \<times> scan_result res) list \<times> refreshes" where
  "scan_hosts sn [] cache = ([], cache)"
| "scan_hosts sn ((slug, h) # hs) cache =
     (let (r, cache1) = scan_one sn slug h cache; (rs, cache2) = scan_hosts sn hs cache1
      in ((slug, h, r) # rs, cache2))"

subsection \<open>Announcing a host\<close>

record scan_state =
  ss_checks :: checks_file
  ss_seen :: nfile
  ss_bell :: notif_state
  ss_cache :: refreshes

text \<open>The clock and the id source of the notifications, and whether the check times can be written.\<close>

record scan_clock =
  sk_now :: time
  sk_ids :: "string \<Rightarrow> string"
  sk_writable :: bool

fun phased :: "scan_pkg \<Rightarrow> bool" where
  "phased (Pkg p) = (pk_held_back_reason p = Some (Some ''phased''))"
| "phased (NodePkg n c a) = False"

definition host_message :: "string \<Rightarrow> nat \<Rightarrow> bool \<Rightarrow> string \<times> string" where
  "host_message name count reboot =
     (if count > 0
      then (''OS updates available: '' @ name,
            show_nat count @ '' package update'' @ (if count \<noteq> 1 then ''s'' else []) @ '' available on '' @ name
              @ ''.'' @ (if reboot then '' A reboot is also required.'' else []))
      else (''Reboot required: '' @ name,
            name @ '' is up to date but needs a reboot to finish applying updates.''))"

definition notify_host :: "scan_clock \<Rightarrow> disk \<Rightarrow> string \<Rightarrow> host \<Rightarrow> scan_result \<Rightarrow> scan_state \<Rightarrow> scan_state" where
  "notify_host ck cfg slug h r st =
     (let packages = filter (\<lambda>p. \<not> phased p) (sr_packages r); reboot = sr_reboot_required r;
          (ask, seen) = should_notify_host slug (packages \<noteq> [] \<or> reboot) (ss_seen st)
      in if \<not> ask then st\<lparr>ss_seen := seen\<rparr>
         else let (title, message) = host_message (h_name h) (length packages) reboot
              in st\<lparr>ss_seen := seen,
                   ss_bell := notify cfg (sk_ids ck slug) (sk_now ck) title
                     (message @ '' Open the dashboard to update.'') ''info'' ''/home'' (ss_bell st)\<rparr>)"

subsection \<open>Containers\<close>

text \<open>A backend as the scan sees it: its key and the outcome of \<open>get_stacks_with_update_status\<close>, where
  \<open>None\<close> is a value that is not a list.\<close>

record 'z probe =
  cb_key :: string
  cb_stacks :: "'z stack_scheme list option res"

fun py_title_from :: "bool \<Rightarrow> string \<Rightarrow> string" where
  "py_title_from inside [] = []"
| "py_title_from inside (c # s) =
     (if is_lower c \<or> is_upper c then (if inside then lower_char c else upper_char c) # py_title_from True s
      else c # py_title_from False s)"

definition BACKEND_LABELS :: "(string \<times> string) list" where
  "BACKEND_LABELS = [(''portainer'', ''Portainer''), (''ssh'', ''SSH'')]"

definition backend_label :: "string \<Rightarrow> string" where
  "backend_label key = get_or (dict_get BACKEND_LABELS key) (py_title_from False key)"

definition active_backends :: "disk \<Rightarrow> 'z probe list \<Rightarrow> 'z probe list" where
  "active_backends cfg backends =
     filter (\<lambda>b. cb_key b \<noteq> ''ssh'' \<or> list_ex (\<lambda>(s, h). truthy_s (h_docker_mode h)) (get_hosts cfg)) backends"

definition probe_stacks :: "'z probe \<Rightarrow> 'z stack_scheme list" where
  "probe_stacks b = (case cb_stacks b of Inr (Some ss) \<Rightarrow> ss | _ \<Rightarrow> [])"

definition probe_failed :: "'z probe \<Rightarrow> bool" where
  "probe_failed b = (case cb_stacks b of Inl e \<Rightarrow> True | Inr _ \<Rightarrow> False)"

record 'z container_scan =
  sc_stacks :: "'z stack_scheme list"
  sc_failed_backends :: "string list"
  sc_backends_configured :: bool

fun announce_all :: "scan_clock \<Rightarrow> disk \<Rightarrow> announcement list \<Rightarrow> notif_state \<Rightarrow> notif_state" where
  "announce_all ck cfg [] bell = bell"
| "announce_all ck cfg ((title, message, level) # ns) bell =
     announce_all ck cfg ns (notify cfg (sk_ids ck title) (sk_now ck) title message level [] bell)"

definition scan_containers ::
  "(string list \<Rightarrow> string list) \<Rightarrow> scan_clock \<Rightarrow> disk \<Rightarrow> 'z probe list \<Rightarrow> scan_state
     \<Rightarrow> 'z container_scan \<times> scan_state" where
  "scan_containers set_order ck cfg backends st =
     (let active = active_backends cfg backends in
      if active = [] then (\<lparr>sc_stacks = [], sc_failed_backends = [], sc_backends_configured = False\<rparr>, st)
      else let stacks = concat (map probe_stacks active);
               (anns, seen) = check_and_notify set_order (sk_now ck) stacks (ss_seen st)
           in (\<lparr>sc_stacks = stacks,
                sc_failed_backends = map (\<lambda>b. backend_label (cb_key b)) (filter probe_failed active),
                sc_backends_configured = True\<rparr>,
               st\<lparr>ss_seen := seen, ss_bell := announce_all ck cfg anns (ss_bell st)\<rparr>))"

subsection \<open>The whole pass\<close>

definition scan_outcome ::
  "scan_clock \<Rightarrow> disk \<Rightarrow> string \<times> host \<times> scan_result res \<Rightarrow> scan_state \<Rightarrow> scan_state" where
  "scan_outcome ck cfg r st =
     (case r of
        (slug, h, Inl e) \<Rightarrow> st
      | (slug, h, Inr res) \<Rightarrow>
          notify_host ck cfg slug h res
            (st\<lparr>ss_checks := record_host_check (sk_writable ck) (sk_now ck) slug (ss_checks st)\<rparr>))"

definition run_scan ::
  "(string list \<Rightarrow> string list) \<Rightarrow> scanner \<Rightarrow> scan_clock \<Rightarrow> disk \<Rightarrow> 'z probe list \<Rightarrow> scan_state \<Rightarrow> scan_state" where
  "run_scan set_order sn ck cfg backends st =
     (let (results, cache) = scan_hosts sn (get_hosts cfg) (ss_cache st);
          st1 = fold (scan_outcome ck cfg) results (st\<lparr>ss_cache := cache\<rparr>);
          st2 = snd (scan_containers set_order ck cfg backends st1)
      in st2\<lparr>ss_checks := record_container_check (sk_writable ck) (sk_now ck) (ss_checks st2)\<rparr>)"

subsection \<open>The configured backends (app/backend_loader.py)\<close>

record portainer_args =
  pa_url :: string
  pa_api_key :: string
  pa_pem :: string

datatype backend_spec = PortainerSpec portainer_args | SshSpec "portainer_args option"

definition portainer_args_of :: "disk \<Rightarrow> (string \<Rightarrow> entry) \<Rightarrow> portainer_args option" where
  "portainer_args_of cfg integration =
     (let sv = get_portainer_config cfg; url = get_or (sv_url sv) [];
          key = cred_str (integration ''portainer'') ''api_key'' []
      in if url \<noteq> [] \<and> key \<noteq> []
         then Some \<lparr>pa_url = url, pa_api_key = key, pa_pem = get_or (sv_pem sv) []\<rparr> else None)"

definition reload_backends :: "disk \<Rightarrow> (string \<Rightarrow> entry) \<Rightarrow> backend_spec list" where
  "reload_backends cfg integration =
     (case portainer_args_of cfg integration of
        None \<Rightarrow> [SshSpec None]
      | Some a \<Rightarrow> [PortainerSpec a, SshSpec (Some a)])"

definition get_dockerhub_creds :: "disk \<Rightarrow> (string \<Rightarrow> entry) \<Rightarrow> (string \<times> string) option" where
  "get_dockerhub_creds cfg integration =
     (let user = get_dockerhub_config cfg; token = cred_str (integration ''dockerhub'') ''token'' []
      in if truthy_s user \<and> token \<noteq> [] then Some (the user, token) else None)"

subsection \<open>What a pass records\<close>

lemma check_time_record:
  "check_time (record_host_check True now s f) slug = (if s = slug then Some now else check_time f slug)"
  by (simp add: check_time_def record_host_check_def record_check_def save_checks_def load_checks_def parse_opt_def
      dict_simps)

lemma check_time_container [simp]: "check_time (record_container_check w now f) slug = check_time f slug"
  by (auto simp: check_time_def record_container_check_def record_check_def save_checks_def load_checks_def
      split: json_file.splits checks_json.splits)

lemma container_check_record [simp]: "container_check (record_container_check True now f) = Some now"
  by (simp add: container_check_def record_container_check_def record_check_def save_checks_def load_checks_def
      parse_opt_def)

lemma notify_host_checks [simp]: "ss_checks (notify_host ck cfg slug h r st) = ss_checks st"
  by (auto simp: notify_host_def Let_def split: prod.splits)

lemma scan_containers_checks [simp]: "ss_checks (snd (scan_containers so ck cfg bs st)) = ss_checks st"
  by (auto simp: scan_containers_def Let_def split: prod.splits)

definition scan_succeeded :: "string \<Rightarrow> (string \<times> host \<times> scan_result res) list \<Rightarrow> bool" where
  "scan_succeeded slug results \<longleftrightarrow> list_ex (\<lambda>(s, h, r). s = slug \<and> (case r of Inl e \<Rightarrow> False | Inr x \<Rightarrow> True)) results"

lemma fold_outcomes_check_time:
  assumes "sk_writable ck"
  shows "check_time (ss_checks (fold (scan_outcome ck cfg) results st)) slug =
    (if scan_succeeded slug results then Some (sk_now ck) else check_time (ss_checks st) slug)"
proof (induction results arbitrary: st)
  case Nil
  show ?case by (simp add: scan_succeeded_def)
next
  case (Cons r rs)
  obtain s h x where r: "r = (s, h, x)" by (cases r) auto
  show ?case using Cons [of "scan_outcome ck cfg r st"] assms
    by (cases x) (auto simp: r scan_outcome_def scan_succeeded_def check_time_record)
qed

text \<open>A pass records a check time for exactly the hosts whose check completed; a host whose check failed
  or ran out of time keeps its old one.  The containers' time is recorded whatever the backends
  answered.\<close>
theorem scan_records_completed_checks:
  assumes "sk_writable ck"
    and "results = fst (scan_hosts sn (get_hosts cfg) (ss_cache st))"
    and "st' = run_scan set_order sn ck cfg backends st"
  shows "check_time (ss_checks st') slug =
      (if scan_succeeded slug results then Some (sk_now ck) else check_time (ss_checks st) slug)
    \<and> container_check (ss_checks st') = Some (sk_now ck)"
  using assms by (simp add: run_scan_def Let_def fold_outcomes_check_time case_prod_beta)

definition first_scan :: scan_state where
  "first_scan = \<lparr>ss_checks = Missing, ss_seen = Missing, ss_bell = \<lparr>ns_file = Missing, ns_pushes = []\<rparr>, ss_cache = []\<rparr>"

definition demo_scanner :: scanner where
  "demo_scanner = \<lparr>sn_env = (\<lambda>_. reboot_env), sn_creds = (\<lambda>_. []), sn_wedged = (\<lambda>s. s = ''pi''),
     sn_start = (\<lambda>_. 0), sn_end = (\<lambda>_. 0), sn_ttl = 60\<rparr>"

theorem scan_records_completed_checks_witness:
  "container_check (ss_checks (run_scan id demo_scanner \<lparr>sk_now = 50, sk_ids = id, sk_writable = True\<rparr> nas_config
     ([] :: unit probe list) first_scan)) = Some 50"
  using scan_records_completed_checks [of "\<lparr>sk_now = 50, sk_ids = id, sk_writable = True\<rparr>" _ demo_scanner
      nas_config first_scan _ id "[] :: unit probe list"]
  by simp

lemma scan_one_nas: "case fst (scan_one demo_scanner ''nas'' auto_host []) of Inl e \<Rightarrow> False | Inr r \<Rightarrow> sr_reboot_required r"
  by code_simp

text \<open>A host with phased packages only counts as up to date: nobody is told, and the next real update is
  announced.\<close>
theorem phased_packages_not_announced:
  assumes "list_all phased (sr_packages r)" and "\<not> sr_reboot_required r"
  shows "ss_bell (notify_host ck cfg slug h r st) = ss_bell st
    \<and> slug \<notin> set (us_notified_hosts (load_state (ss_seen (notify_host ck cfg slug h r st))))"
proof -
  have none: "filter (\<lambda>p. \<not> phased p) (sr_packages r) = []"
    using assms(1) by (simp add: list_all_iff filter_empty_conv)
  show ?thesis
    using assms(2) by (auto simp: notify_host_def none should_notify_host_def Let_def load_save_state
        sort_set_def set_discard_def)
qed

theorem phased_packages_not_announced_witness:
  "ss_bell (notify_host \<lparr>sk_now = 50, sk_ids = id, sk_writable = True\<rparr> nas_config ''nas'' auto_host
     \<lparr>sr_packages = [Pkg \<lparr>pk_name = ''vim'', pk_current = ''1'', pk_available = ''2'', pk_held_back = Some True,
        pk_held_back_reason = Some (Some ''phased'')\<rparr>], sr_reboot_required = False, sr_is_proxmox_node = False,
        sr_package_manager = ''apt'', sr_proxmox_node = None, sr_proxmox_url = []\<rparr> first_scan) = ss_bell first_scan"
  by (rule phased_packages_not_announced [THEN conjunct1]) simp_all

subsection \<open>A check and an upgrade reach the same machine\<close>

lemma over_ssh_target:
  "Ssh a calls \<in> set (snd (over_ssh sh c r)) \<Longrightarrow> connect_args sh c = Inr a"
  by (auto simp: over_ssh_def ssh_effect_def split: sum.splits)

lemma ssh_effect_target: "Ssh a calls \<in> set (ssh_effect sh c cs) \<Longrightarrow> connect_args sh c = Inr a"
  by (auto simp: ssh_effect_def split: sum.splits)

lemma over_px_ssh_target:
  "Ssh a calls \<in> set (snd (over_px_ssh sh s r)) \<Longrightarrow> connect_args (px_host_entry sh s) (ps_creds s) = Inr a"
  by (auto simp: over_px_ssh_def dest: over_ssh_target split: if_splits)

lemma api_check_no_ssh: "Ssh a calls \<notin> set (snd (api_reboot_check env h))"
  by (auto simp: api_reboot_check_def split: sum.splits)

definition machine_of :: "host_env \<Rightarrow> string \<Rightarrow> host \<Rightarrow> ssh_creds \<Rightarrow> conn_args res" where
  "machine_of env slug h creds =
     (case resolve_kind (he_context env) h of
        Lxc \<Rightarrow> res_bind (lxc_ssh_context env h) (\<lambda>(sh, s). connect_args (px_host_entry sh s) (ps_creds s))
      | Node \<Rightarrow> res_bind (node_ssh_context env h) (\<lambda>(sh, c). connect_args sh c)
      | _ \<Rightarrow> connect_args (ssh_view slug h) creds)"

lemma upgrade_machine:
  "Ssh a calls \<in> set (snd (run_os_update env slug h creds)) \<Longrightarrow> machine_of env slug h creds = Inr a"
  by (auto simp: run_os_update_def machine_of_def split: host_kind.splits sum.splits
      dest!: over_ssh_target over_px_ssh_target)

lemma reboot_check_machine:
  assumes "Ssh a calls \<in> set (fst (snd (reboot_required_typed env ttl t0 t1 slug h creds cache)))"
  shows "machine_of env slug h creds = Inr a"
proof (cases "resolve_kind (he_context env) h")
  case Node
  then show ?thesis using assms
    by (auto simp: reboot_required_typed_def machine_of_def api_check_no_ssh case_prod_beta
        dest: over_ssh_target split: sum.splits if_splits)
qed (use assms in \<open>auto simp: reboot_required_typed_def machine_of_def case_prod_beta dest: ssh_effect_target\<close>)

lemma scan_machine:
  assumes "resolve_kind (he_context env) h = classify_host h" and "classify_host h \<noteq> Vm"
    and "Ssh a calls \<in> set (fst (snd (scan_host env ttl t0 t1 slug h creds cache)))"
  shows "machine_of env slug h creds = Inr a"
proof -
  have kinds: "classify_host h = (if \<not> truthy_s (h_proxmox_node h) then Plain
      else if h_proxmox_vmid h = None then Node else Lxc)"
    using assms(2) by (auto simp: classify_host_def split: if_splits)
  consider "\<not> truthy_s (h_proxmox_node h)" | "truthy_s (h_proxmox_node h)" "h_proxmox_vmid h = None"
    | "truthy_s (h_proxmox_node h)" "h_proxmox_vmid h \<noteq> None" by blast
  then show ?thesis
  proof cases
    case 1
    then have "resolve_kind (he_context env) h = Plain" using kinds assms(1) by simp
    then show ?thesis using 1 assms(3)
      by (auto simp: scan_host_def machine_of_def case_prod_beta dest: ssh_effect_target)
  next
    case 2
    then have node: "resolve_kind (he_context env) h = Node" using kinds assms(1) by simp
    have "Ssh a calls \<in> set (fst (snd (reboot_required_typed env ttl t0 t1 slug h no_creds_given cache)))"
      using 2 assms(3)
      by (auto simp: scan_host_def scan_node_def Let_def case_prod_beta split: sum.splits)
    then have "machine_of env slug h no_creds_given = Inr a" by (rule reboot_check_machine)
    then show ?thesis using node by (simp add: machine_of_def)
  next
    case 3
    then have lxc: "resolve_kind (he_context env) h = Lxc" using kinds assms(1) by auto
    show ?thesis
    proof (cases "lxc_ssh_context env h")
      case (Inr p)
      obtain sh s where p: "p = (sh, s)" by (rule prod.exhaust)
      have "connect_args (px_host_entry sh s) (ps_creds s) = Inr a"
        using 3 assms(3)
        by (auto simp: scan_host_def scan_lxc_def Let_def case_prod_beta Inr p dest: over_px_ssh_target
            split: sum.splits)
      then show ?thesis using lxc Inr p by (simp add: machine_of_def)
    qed (use 3 assms(3) in \<open>auto simp: scan_host_def scan_lxc_def Let_def\<close>)
  qed
qed

text \<open>C36. For a host whose server is configured and that is not a VM, whatever the check connects to over SSH is
  what the upgrade connects to: the same machine, port, user and key.\<close>
theorem scan_and_upgrade_same_machine:
  assumes "resolve_kind (he_context env) h = classify_host h" and "classify_host h \<noteq> Vm"
    and "Ssh a calls \<in> set (fst (snd (scan_host env ttl t0 t1 slug h creds cache)))"
    and "Ssh b calls' \<in> set (snd (run_os_update env slug h creds))"
  shows "a = b"
  using scan_machine [OF assms(1-3)] upgrade_machine [OF assms(4)] by simp

definition nas_args :: conn_args where
  "nas_args = \<lparr>ca_host = ''10.0.0.3'', ca_port = 22, ca_username = ''root'', ca_auth = NoAuth\<rparr>"

lemma nas_scan:
  "\<exists>calls. fst (snd (scan_host reboot_env 60 0 0 ''nas'' auto_host (host_creds []) [])) = [Ssh nas_args calls]"
  "\<exists>calls. snd (run_os_update reboot_env ''nas'' auto_host (host_creds [])) = [Ssh nas_args calls]"
  by (rule exI, code_simp)+

theorem scan_and_upgrade_same_machine_witness:
  "\<exists>a b calls calls'. a = b
     \<and> Ssh a calls \<in> set (fst (snd (scan_host reboot_env 60 0 0 ''nas'' auto_host (host_creds []) [])))
     \<and> Ssh b calls' \<in> set (snd (run_os_update reboot_env ''nas'' auto_host (host_creds [])))"
proof -
  obtain c1 c2 where c: "Ssh nas_args c1 \<in> set (fst (snd (scan_host reboot_env 60 0 0 ''nas'' auto_host (host_creds []) [])))"
      "Ssh nas_args c2 \<in> set (snd (run_os_update reboot_env ''nas'' auto_host (host_creds [])))"
    using nas_scan by auto
  have "resolve_kind (he_context reboot_env) auto_host = classify_host auto_host" "classify_host auto_host \<noteq> Vm"
    by code_simp+
  from scan_and_upgrade_same_machine [OF this c] c show ?thesis by blast
qed

end
