(* ===== verification/Backends.thy ===== *)
theory Backends
  imports DockerUpdate Portainer UpdateScan
begin

section \<open>Container backends behind their protocol (app/backends/protocol.py)\<close>

text \<open>
  What the scheduler and the pages rely on when they hand a stored update path to a backend.  The
  locale \<open>stack_references\<close> is that part of the \<open>ContainerBackend\<close> protocol: a backend has a key
  and a printer of references, and reading a printed reference gives the target back.  Its clients
  are proved once and apply to both backends.
\<close>

subsection \<open>The interface\<close>

locale stack_references =
  fixes key :: string
    and ref_of :: "'c \<Rightarrow> string"
    and read_ref :: "string \<Rightarrow> 't option"
    and target :: "'c \<Rightarrow> 't"
    and good :: "'c \<Rightarrow> bool"
  assumes key_plain: "CHR ''/'' \<notin> set key"
    and read_ref_of: "good c \<Longrightarrow> read_ref (ref_of c) = Some (target c)"
begin

lemma path_splits: "split_once ''/'' (key @ ''/'' @ ref_of c) = Some (key, ref_of c)"
  using split_once_char [OF key_plain, of "ref_of c"] by simp

lemma same_path_same_target:
  assumes "good c" and "good d" and "key @ ''/'' @ ref_of c = key @ ''/'' @ ref_of d"
  shows "target c = target d"
proof -
  have "ref_of c = ref_of d" using assms(3) by simp
  then have "Some (target c) = Some (target d)" using read_ref_of assms(1,2) by metis
  then show ?thesis by simp
qed

lemma job_reaches_backend:
  assumes "find (\<lambda>b. rd_key b = key) backends = Some b"
  shows "run_stack_job backends started (key @ ''/'' @ ref_of c) name =
    Redeployed (key @ ''/'' @ ref_of c) # tl (run_stack_job [b] started (key @ ''/'' @ ref_of c) name)"
proof -
  have "rd_key b = key" using assms by (auto simp: find_Some_iff)
  then show ?thesis using assms unfolding run_stack_job_def path_splits option.case prod.case by simp
qed

end

subsection \<open>The SSH backend\<close>

definition ssh_ref :: "string \<times> string \<times> string \<Rightarrow> string" where
  "ssh_ref c = (case c of (slug, project, container) \<Rightarrow>
     if project \<noteq> [] then make_compose_ref slug project container else make_standalone_ref slug container)"

definition ssh_read_ref :: "string \<Rightarrow> (string \<times> ref_target) option" where
  "ssh_read_ref ref = (case parse_ref ref of Inr (slug, rest) \<Rightarrow> Some (slug, ref_target_of rest) | Inl e \<Rightarrow> None)"

definition ssh_target :: "string \<times> string \<times> string \<Rightarrow> string \<times> ref_target" where
  "ssh_target c = (case c of (slug, project, container) \<Rightarrow>
     (slug, if project \<noteq> [] then Project project else Standalone container))"

definition ssh_good :: "string \<times> string \<times> string \<Rightarrow> bool" where
  "ssh_good c = (case c of (slug, project, container) \<Rightarrow>
     CHR ''/'' \<notin> set slug \<and> CHR '':'' \<notin> set project \<and> \<not> starts_with project [STANDALONE_PREFIX])"

interpretation ssh_refs: stack_references "''ssh''" ssh_ref ssh_read_ref ssh_target ssh_good
proof unfold_locales
  show "CHR ''/'' \<notin> set ''ssh''" by simp
next
  fix c assume "ssh_good c"
  then show "ssh_read_ref (ssh_ref c) = Some (ssh_target c)"
    by (cases c) (auto simp: ssh_good_def ssh_ref_def ssh_read_ref_def ssh_target_def
        compose_ref_reads [simplified] standalone_ref_reads)
qed

subsection \<open>The Portainer backend\<close>

definition portainer_ref_of :: "int \<times> int \<Rightarrow> string" where
  "portainer_ref_of c = portainer_ref (show_int (fst c)) (show_int (snd c))"

definition portainer_read_ref :: "string \<Rightarrow> (int \<times> int) option" where
  "portainer_read_ref ref = (case parse_portainer_ref ref of Inr c \<Rightarrow> Some c | Inl e \<Rightarrow> None)"

lemma show_int_no_colon: "CHR '':'' \<notin> set (show_int n)"
proof -
  have "CHR '':'' \<notin> set (show_nat k)" for k using show_nat_digits by (fastforce simp: is_digit_def)
  then show ?thesis by (auto simp: show_int_def)
qed

lemma parse_portainer_ref_print: "parse_portainer_ref (portainer_ref (show_int a) (show_int b)) = Inr (a, b)"
proof -
  have "split_once '':'' (show_int a @ CHR '':'' # show_int b) = Some (show_int a, show_int b)"
    using show_int_no_colon by (rule split_once_char)
  then show ?thesis by (simp add: parse_portainer_ref_def portainer_ref_def py_int_show_int)
qed

interpretation portainer_refs: stack_references "''portainer''" portainer_ref_of portainer_read_ref id "\<lambda>c. True"
  by unfold_locales (simp_all add: portainer_ref_of_def portainer_read_ref_def parse_portainer_ref_print)

subsection \<open>A scheduled redeploy reaches its container\<close>

text \<open>The backends as the scheduler holds them.\<close>

definition ssh_redeployer :: "docker_env \<Rightarrow> disk \<Rightarrow> redeployer" where
  "ssh_redeployer env cfg = \<lparr>rd_key = ''ssh'', rd_update = (\<lambda>ref. fst (update_ssh_stack env cfg ref))\<rparr>"

definition portainer_redeployer :: "papi \<Rightarrow> string option \<Rightarrow> string option \<Rightarrow> redeployer" where
  "portainer_redeployer api self_id self_name =
     \<lparr>rd_key = ''portainer'', rd_update = (\<lambda>ref. fst (update_portainer_stack api self_id self_name ref []))\<rparr>"

definition recorded_redeploy :: "string \<Rightarrow> string \<Rightarrow> time \<Rightarrow> string list res \<Rightarrow> job_event list" where
  "recorded_redeploy path name started r =
     (case r of
        Inr out \<Rightarrow> [Recorded \<lparr>re_kind = ''container_redeploy'', re_target = path, re_target_name = name,
          re_trigger = ''scheduled'', re_status = ''success'',
          re_output = (if out \<noteq> [] then out
            else [''Stack redeployed '' @ DASH @ '' containers restarted with latest images.'']),
          re_started_at = Aware started, re_error = []\<rparr>]
      | Inl e \<Rightarrow> stack_failed path name (lines_or_text e) (Aware started) (exc_text e))"

lemma run_one_backend:
  assumes "split_once ''/'' path = Some (rd_key b, ref)"
  shows "run_stack_job [b] started path name = Redeployed path # recorded_redeploy path name started (rd_update b ref)"
  using assms by (auto simp: run_stack_job_def recorded_redeploy_def split: sum.splits)

text \<open>The job scheduled for a listed container of a Compose project runs the update of that project on that
  host, and records its result; the one scheduled for a Portainer stack runs the update of that
  stack on its endpoint.\<close>
theorem scheduled_redeploy_reaches_target:
  assumes "ssh_good (slug, project, container)" and "project \<noteq> []" and "map_of (docker_hosts cfg) slug = Some h"
    and "path = ''ssh/'' @ make_compose_ref slug project container"
  shows "run_stack_job [portainer_redeployer api self_id self_name, ssh_redeployer env cfg] started path name =
      Redeployed path # recorded_redeploy path name started (fst (update_compose_project env slug h project))
    \<and> run_stack_job [portainer_redeployer api self_id self_name, ssh_redeployer env cfg] started
        (''portainer/'' @ portainer_ref (show_int i) (show_int e)) name =
      Redeployed (''portainer/'' @ portainer_ref (show_int i) (show_int e))
        # recorded_redeploy (''portainer/'' @ portainer_ref (show_int i) (show_int e)) name started
            (fst (update_portainer_stack api self_id self_name (portainer_ref (show_int i) (show_int e)) []))"
proof
  let ?bs = "[portainer_redeployer api self_id self_name, ssh_redeployer env cfg]"
  have f1: "find (\<lambda>b. rd_key b = ''ssh'') ?bs = Some (ssh_redeployer env cfg)"
    and f2: "find (\<lambda>b. rd_key b = ''portainer'') ?bs = Some (portainer_redeployer api self_id self_name)"
    by (simp_all add: ssh_redeployer_def portainer_redeployer_def)
  have path: "path = ''ssh'' @ ''/'' @ ssh_ref (slug, project, container)"
    using assms(2,4) by (simp add: ssh_ref_def)
  have one: "run_stack_job [ssh_redeployer env cfg] started path name = Redeployed path
      # recorded_redeploy path name started (rd_update (ssh_redeployer env cfg) (ssh_ref (slug, project, container)))"
    by (rule run_one_backend) (simp only: path ssh_refs.path_splits ssh_redeployer_def redeployer.select_convs)
  have upd: "rd_update (ssh_redeployer env cfg) (ssh_ref (slug, project, container)) =
      fst (update_compose_project env slug h project)"
  proof -
    have good: "CHR ''/'' \<notin> set slug" "CHR '':'' \<notin> set project" "\<not> starts_with project [STANDALONE_PREFIX]"
      using assms(1) by (simp_all add: ssh_good_def)
    have "update_ssh_stack env cfg (make_compose_ref slug project container) = update_compose_project env slug h project"
      unfolding update_ssh_stack_def compose_ref_reads(1) [OF good, of container]
      by (simp only: sum.case prod.case assms(3) option.case compose_ref_reads(2) [OF good] ref_target.case)
    then show ?thesis using assms(2) by (simp add: ssh_redeployer_def ssh_ref_def)
  qed
  show "run_stack_job ?bs started path name =
      Redeployed path # recorded_redeploy path name started (fst (update_compose_project env slug h project))"
    using ssh_refs.job_reaches_backend [OF f1, of started "(slug, project, container)" name, folded path]
    by (simp add: one upd)
  let ?p = "''portainer'' @ ''/'' @ portainer_ref_of (i, e)"
  have two: "run_stack_job [portainer_redeployer api self_id self_name] started ?p name = Redeployed ?p
      # recorded_redeploy ?p name started (rd_update (portainer_redeployer api self_id self_name) (portainer_ref_of (i, e)))"
    by (rule run_one_backend) (simp only: portainer_refs.path_splits portainer_redeployer_def redeployer.select_convs)
  show "run_stack_job ?bs started (''portainer/'' @ portainer_ref (show_int i) (show_int e)) name =
      Redeployed (''portainer/'' @ portainer_ref (show_int i) (show_int e))
        # recorded_redeploy (''portainer/'' @ portainer_ref (show_int i) (show_int e)) name started
            (fst (update_portainer_stack api self_id self_name (portainer_ref (show_int i) (show_int e)) []))"
    using portainer_refs.job_reaches_backend [OF f2, of started "(i, e)" name] two
    by (simp add: portainer_ref_of_def portainer_redeployer_def)
qed

definition docker_config :: disk where
  "docker_config = Some (empty_config\<lparr>c_hosts := Some [docker_host]\<rparr>)"

lemma docker_config_host: "map_of (docker_hosts docker_config) ''nas'' = Some docker_host"
  by code_simp

theorem scheduled_redeploy_reaches_target_witness:
  "\<exists>out calls. update_compose_project working_docker ''nas'' docker_host ''media'' = (Inr out, calls)
    \<and> run_stack_job [portainer_redeployer portainer_answers None None, ssh_redeployer working_docker docker_config] 0
        (''ssh/'' @ make_compose_ref ''nas'' ''media'' ''media-web-1'') ''media'' =
      Redeployed (''ssh/'' @ make_compose_ref ''nas'' ''media'' ''media-web-1'')
        # recorded_redeploy (''ssh/'' @ make_compose_ref ''nas'' ''media'' ''media-web-1'') ''media'' 0 (Inr out)"
proof -
  obtain out calls where run: "update_compose_project working_docker ''nas'' docker_host ''media'' = (Inr out, calls)"
    using working_compose by blast
  have good: "ssh_good (''nas'', ''media'', ''media-web-1'')" by code_simp
  have named: "''media'' \<noteq> ([] :: string)" by simp
  show ?thesis
    using scheduled_redeploy_reaches_target [OF good named docker_config_host refl, of portainer_answers None None working_docker 0 "''media''"]
      run by auto
qed

end
