(* ===== verification/Auth.thy ===== *)
theory Auth
  imports Credentials
begin

section \<open>The admin account (app/auth.py)\<close>

text \<open>
  The account is the integration entry \<open>admin\<close> of the credential store, and every function here is
  a client of the store interface.  bcrypt, SHA-256 and TOTP are the record \<open>auth_lib\<close>:
  \<open>al_check pw h\<close> is \<open>None\<close> when \<open>checkpw\<close> raises, \<open>al_totp secret code\<close> is \<open>TOTP(secret).verify\<close> at
  the time of the call.  Random tokens are arguments.  The string fields of the entry are
  written as strings only; \<open>str_field\<close> reads them.
\<close>

record auth_lib =
  al_hash :: "string \<Rightarrow> string"
  al_check :: "string \<Rightarrow> string \<Rightarrow> bool option"
  al_sha256 :: "string \<Rightarrow> string"
  al_totp :: "string \<Rightarrow> string \<Rightarrow> bool"

definition MIN_PASSWORD_LEN :: nat where "MIN_PASSWORD_LEN = 12"

definition verify_password_hash :: "auth_lib \<Rightarrow> string \<Rightarrow> string \<Rightarrow> bool" where
  "verify_password_hash lib password hashed = get_or (al_check lib password hashed) False"

definition str_field :: "entry \<Rightarrow> string \<Rightarrow> string" where
  "str_field e k = (case dict_get e k of Some (JStr s) \<Rightarrow> s | _ \<Rightarrow> [])"

abbreviation admin_entry :: "'b crypto \<Rightarrow> 'b cred_disk \<Rightarrow> entry \<times> 'b cred_disk" where
  "admin_entry c d \<equiv> get_integration_credentials c None ''admin'' d"

abbreviation save_admin ::
  "'b crypto \<Rightarrow> (string \<times> json option) list \<Rightarrow> 'b cred_disk \<Rightarrow> unit res \<times> 'b cred_disk" where
  "save_admin c fs d \<equiv> save_integration_credentials c ''admin'' fs d"

subsection \<open>The session secret\<close>

record session_disk =
  sd_env :: "string option"
  sd_file :: "string option"

definition get_session_secret :: "string \<Rightarrow> session_disk \<Rightarrow> string \<times> session_disk" where
  "get_session_secret fresh d =
     (let env_secret = py_strip (get_or (sd_env d) []) in
      if env_secret \<noteq> [] then (env_secret, d)
      else case sd_file d of
             Some s \<Rightarrow> (py_strip s, d)
           | None \<Rightarrow> (py_strip fresh, d\<lparr>sd_file := Some fresh\<rparr>))"

subsection \<open>Session versions\<close>

text \<open>\<open>int(v)\<close> of a stored value; \<open>None\<close> where it raises.\<close>

fun json_int :: "json \<Rightarrow> int option" where
  "json_int (JNum n) = Some n"
| "json_int (JBool b) = Some (if b then 1 else 0)"
| "json_int (JStr s) = py_int s"
| "json_int _ = None"

definition version_of :: "entry \<Rightarrow> int res" where
  "version_of e =
     (case json_int (get_or (dict_get e ''session_version'') (JNum 0)) of
        Some n \<Rightarrow> Inr n
      | None \<Rightarrow> raise ''ValueError'' ''invalid literal for int()'')"

definition get_session_version :: "'b crypto \<Rightarrow> 'b cred_disk \<Rightarrow> int res \<times> 'b cred_disk" where
  "get_session_version c d = (let (e, d') = admin_entry c d in (version_of e, d'))"

text \<open>A save whose \<open>session_version\<close> is the current one plus one.\<close>

definition save_bumped ::
  "'b crypto \<Rightarrow> (string \<times> json option) list \<Rightarrow> 'b cred_disk \<Rightarrow> int res \<times> 'b cred_disk" where
  "save_bumped c fs d =
     (case get_session_version c d of
        (Inl e, d') \<Rightarrow> (Inl e, d')
      | (Inr v, d') \<Rightarrow>
          (case save_admin c (fs @ [(''session_version'', Some (JNum (v + 1)))]) d' of
             (Inl e, d2) \<Rightarrow> (Inl e, d2)
           | (Inr _, d2) \<Rightarrow> (Inr (v + 1), d2)))"

definition bump_session_version :: "'b crypto \<Rightarrow> 'b cred_disk \<Rightarrow> int res \<times> 'b cred_disk" where
  "bump_session_version c d = save_bumped c [] d"

subsection \<open>The account\<close>

definition admin_exists :: "'b crypto \<Rightarrow> 'b cred_disk \<Rightarrow> bool \<times> 'b cred_disk" where
  "admin_exists c d = (let (e, d') = admin_entry c d in (field_truthy e ''password_hash'', d'))"

definition mfa_enrolled :: "'b crypto \<Rightarrow> 'b cred_disk \<Rightarrow> bool \<times> 'b cred_disk" where
  "mfa_enrolled c d = (let (e, d') = admin_entry c d in (field_truthy e ''totp_secret'', d'))"

text \<open>\<open>raw\<close> is the token of \<open>secrets.token_hex(16)\<close>.\<close>

definition generate_backup_key :: "string \<Rightarrow> string" where
  "generate_backup_key hex =
     (let raw = py_upper hex
      in py_join ''-'' [take 8 raw, take 8 (drop 8 raw), take 8 (drop 16 raw), take 8 (drop 24 raw)])"

definition hash_backup_key :: "auth_lib \<Rightarrow> string \<Rightarrow> string" where
  "hash_backup_key lib key = al_sha256 lib (py_upper (py_strip key))"

definition create_admin ::
  "auth_lib \<Rightarrow> 'b crypto \<Rightarrow> string \<Rightarrow> string \<Rightarrow> string \<Rightarrow> string option \<Rightarrow> 'b cred_disk
     \<Rightarrow> string res \<times> 'b cred_disk" where
  "create_admin lib c hex username password totp_secret d =
     (let backup_key = generate_backup_key hex;
          fs = [(''username'', Some (JStr username)),
                (''password_hash'', Some (JStr (al_hash lib password))),
                (''backup_key_hash'', Some (JStr (hash_backup_key lib backup_key))),
                (''password_meets_policy'', Some (JBool (MIN_PASSWORD_LEN \<le> length password)))]
               @ (if truthy_s totp_secret then [(''totp_secret'', map_option JStr totp_secret)] else [])
      in case save_admin c fs d of
           (Inl e, d') \<Rightarrow> (Inl e, d')
         | (Inr _, d') \<Rightarrow> (Inr backup_key, d'))"

definition get_admin_username :: "'b crypto \<Rightarrow> 'b cred_disk \<Rightarrow> string \<times> 'b cred_disk" where
  "get_admin_username c d = (let (e, d') = admin_entry c d in (str_field e ''username'', d'))"

definition entry_login :: "auth_lib \<Rightarrow> string \<Rightarrow> string \<Rightarrow> entry \<Rightarrow> bool" where
  "entry_login lib username password e =
     (let stored_username = str_field e ''username''; h = str_field e ''password_hash'' in
      if stored_username \<noteq> []
         \<and> py_lower (py_strip username) \<noteq> py_lower (py_strip stored_username)
      then False
      else h \<noteq> [] \<and> verify_password_hash lib password h)"

definition verify_login ::
  "auth_lib \<Rightarrow> 'b crypto \<Rightarrow> string \<Rightarrow> string \<Rightarrow> 'b cred_disk \<Rightarrow> bool \<times> 'b cred_disk" where
  "verify_login lib c username password d =
     (let (e, d') = admin_entry c d in (entry_login lib username password e, d'))"

definition delete_admin :: "'b crypto \<Rightarrow> 'b cred_disk \<Rightarrow> unit res \<times> 'b cred_disk" where
  "delete_admin c d = delete_integration_credentials c ''admin'' d"

definition verify_password ::
  "auth_lib \<Rightarrow> 'b crypto \<Rightarrow> string \<Rightarrow> 'b cred_disk \<Rightarrow> bool \<times> 'b cred_disk" where
  "verify_password lib c password d =
     (let (e, d') = admin_entry c d; h = str_field e ''password_hash''
      in (h \<noteq> [] \<and> verify_password_hash lib password h, d'))"

definition verify_totp ::
  "auth_lib \<Rightarrow> 'b crypto \<Rightarrow> string \<Rightarrow> 'b cred_disk \<Rightarrow> bool \<times> 'b cred_disk" where
  "verify_totp lib c code d =
     (let (e, d') = admin_entry c d; secret = str_field e ''totp_secret''
      in (secret \<noteq> [] \<and> al_totp lib secret (py_strip code), d'))"

definition verify_backup_key ::
  "auth_lib \<Rightarrow> 'b crypto \<Rightarrow> string \<Rightarrow> 'b cred_disk \<Rightarrow> bool \<times> 'b cred_disk" where
  "verify_backup_key lib c key d =
     (let (e, d') = admin_entry c d; stored = str_field e ''backup_key_hash''
      in (stored \<noteq> [] \<and> hash_backup_key lib key = stored, d'))"

subsection \<open>Mutations\<close>

definition change_password ::
  "auth_lib \<Rightarrow> 'b crypto \<Rightarrow> string \<Rightarrow> 'b cred_disk \<Rightarrow> int res \<times> 'b cred_disk" where
  "change_password lib c new_password d =
     save_bumped c
       [(''password_hash'', Some (JStr (al_hash lib new_password))),
        (''password_meets_policy'', Some (JBool (MIN_PASSWORD_LEN \<le> length new_password)))] d"

definition enroll_mfa :: "'b crypto \<Rightarrow> string \<Rightarrow> 'b cred_disk \<Rightarrow> int res \<times> 'b cred_disk" where
  "enroll_mfa c totp_secret d = save_bumped c [(''totp_secret'', Some (JStr totp_secret))] d"

text \<open>The entry is read first, and popping from the copy has no effect on the store.\<close>

definition remove_mfa :: "'b crypto \<Rightarrow> 'b cred_disk \<Rightarrow> int res \<times> 'b cred_disk" where
  "remove_mfa c d =
     (let (e, d') = admin_entry c d in save_bumped c [(''totp_secret'', Some (JStr []))] d')"

definition regenerate_backup_key ::
  "auth_lib \<Rightarrow> 'b crypto \<Rightarrow> string \<Rightarrow> 'b cred_disk \<Rightarrow> string res \<times> 'b cred_disk" where
  "regenerate_backup_key lib c hex d =
     (let backup_key = generate_backup_key hex in
      case save_admin c [(''backup_key_hash'', Some (JStr (hash_backup_key lib backup_key)))] d of
        (Inl e, d') \<Rightarrow> (Inl e, d')
      | (Inr _, d') \<Rightarrow> (Inr backup_key, d'))"

definition reset_password_with_backup_key ::
  "auth_lib \<Rightarrow> 'b crypto \<Rightarrow> string \<Rightarrow> string \<Rightarrow> 'b cred_disk \<Rightarrow> bool res \<times> 'b cred_disk" where
  "reset_password_with_backup_key lib c backup_key new_password d =
     (let (ok, d') = verify_backup_key lib c backup_key d in
      if \<not> ok then (Inr False, d')
      else case change_password lib c new_password d' of
             (Inl e, d2) \<Rightarrow> (Inl e, d2)
           | (Inr _, d2) \<Rightarrow> (Inr True, d2))"

subsection \<open>The account as the store holds it\<close>

definition account :: "'b crypto \<Rightarrow> 'b cred_disk \<Rightarrow> entry" where
  "account c d = fst (admin_entry c d)"

lemma admin_read [simp]:
  assumes "ready c d"
  shows "ready c (snd (admin_entry c d))" and "account c (snd (admin_entry c d)) = account c d"
  using cs.get_ready [OF assms] cs.get_after_get [OF assms, of "''admin''"] by (auto simp: account_def)

lemma admin_save:
  assumes "ready c d"
  shows "\<exists>d'. save_admin c fs d = (Inr (), d') \<and> ready c d' \<and> account c d' = put_fields fs (account c d)"
  using cs.put_ok [OF assms, of "''admin''" fs] cs.get_after_put [OF assms, of "''admin''" None "''admin''" fs]
  by (cases "save_admin c fs d") (simp add: account_def)

lemma save_bumped_works:
  assumes "ready c d" and "version_of (account c d) = Inr v"
  shows "\<exists>d'. save_bumped c fs d = (Inr (v + 1), d') \<and> ready c d'
    \<and> account c d' = put_fields (fs @ [(''session_version'', Some (JNum (v + 1)))]) (account c d)"
proof -
  obtain d1 where d1: "admin_entry c d = (account c d, d1)" and r: "ready c d1"
      and acc: "account c d1 = account c d"
    using admin_read [OF assms(1)] by (cases "admin_entry c d") (auto simp: account_def)
  from admin_save [OF r, of "fs @ [(''session_version'', Some (JNum (v + 1)))]"] acc d1 assms(2)
  show ?thesis by (auto simp: save_bumped_def get_session_version_def)
qed

lemma put_fields_append: "put_fields (fs @ gs) e = put_fields gs (put_fields fs e)"
  by (simp add: put_fields_def)

lemma version_after_bump:
  "version_of (put_fields (fs @ [(''session_version'', Some (JNum n))]) e) = Inr n"
  by (simp add: put_fields_append put_fields_def put_field_def version_of_def dict_simps)

lemma save_bumped_version:
  assumes "ready c d" and "version_of (account c d) = Inr v"
  shows "\<exists>d'. save_bumped c fs d = (Inr (v + 1), d') \<and> ready c d' \<and> version_of (account c d') = Inr (v + 1)"
proof -
  obtain d' where "save_bumped c fs d = (Inr (v + 1), d')" and "ready c d'"
    and "account c d' = put_fields (fs @ [(''session_version'', Some (JNum (v + 1)))]) (account c d)"
    using save_bumped_works [OF assms] by blast
  then show ?thesis by (auto simp: version_after_bump)
qed

text \<open>The session check of a request compares the version in its cookie with the stored one.\<close>

definition session_valid :: "'b crypto \<Rightarrow> 'b cred_disk \<Rightarrow> int \<Rightarrow> bool" where
  "session_valid c d v = (fst (get_session_version c d) = Inr v)"

lemma get_session_version_account: "fst (get_session_version c d) = version_of (account c d)"
  by (simp add: get_session_version_def account_def split: prod.splits)

text \<open>Every operation that writes the account.\<close>

datatype account_op =
    ChangePassword string | EnrollMfa string | RemoveMfa | BumpVersion
  | ResetByKey string string | RegenerateKey string | CreateAdmin string string string "string option" | DeleteAdmin

definition run_op :: "auth_lib \<Rightarrow> 'b crypto \<Rightarrow> account_op \<Rightarrow> 'b cred_disk \<Rightarrow> 'b cred_disk" where
  "run_op lib c op d =
     (case op of
        ChangePassword pw \<Rightarrow> snd (change_password lib c pw d)
      | EnrollMfa s \<Rightarrow> snd (enroll_mfa c s d)
      | RemoveMfa \<Rightarrow> snd (remove_mfa c d)
      | BumpVersion \<Rightarrow> snd (bump_session_version c d)
      | ResetByKey key pw \<Rightarrow> snd (reset_password_with_backup_key lib c key pw d)
      | RegenerateKey hex \<Rightarrow> snd (regenerate_backup_key lib c hex d)
      | CreateAdmin hex u pw totp \<Rightarrow> snd (create_admin lib c hex u pw totp d)
      | DeleteAdmin \<Rightarrow> snd (delete_admin c d))"


text \<open>Whether an operation changes the password or the second factor, or signs everybody out.\<close>

definition changes_login :: "auth_lib \<Rightarrow> 'b crypto \<Rightarrow> 'b cred_disk \<Rightarrow> account_op \<Rightarrow> bool" where
  "changes_login lib c d op =
     (case op of
        ChangePassword pw \<Rightarrow> True | EnrollMfa s \<Rightarrow> True | RemoveMfa \<Rightarrow> True | BumpVersion \<Rightarrow> True
      | ResetByKey key pw \<Rightarrow> fst (verify_backup_key lib c key d)
      | _ \<Rightarrow> False)"


lemma save_keeps_version:
  assumes "ready c d" and "version_of (account c d) = Inr v" and "''session_version'' \<notin> fst ` set fs"
  shows "\<exists>d'. save_admin c fs d = (Inr (), d') \<and> ready c d' \<and> version_of (account c d') = Inr v"
proof -
  obtain d' where "save_admin c fs d = (Inr (), d')" "ready c d'" "account c d' = put_fields fs (account c d)"
    using admin_save [OF assms(1)] by blast
  moreover have "dict_get (put_fields fs (account c d)) ''session_version'' = dict_get (account c d) ''session_version''"
    using assms(3) by (intro put_fields_other) auto
  ultimately show ?thesis using assms(2) by (simp add: version_of_def)
qed

lemma delete_admin_account:
  assumes "ready c d"
  shows "\<exists>d'. delete_admin c d = (Inr (), d') \<and> ready c d' \<and> account c d' = []"
proof -
  obtain d' where d': "delete_admin c d = (Inr (), d')" and r: "ready c d'"
    and v: "view c d' = dict_pop (integration_key ''admin'') (view c d)"
    using load_save_ready [OF assms, of "dict_pop (integration_key ''admin'')"]
    unfolding delete_admin_def delete_integration_credentials_def by blast
  have "account c d' = []"
    using get_integration_ready(1) [OF r, of "''admin''" None] v by (simp add: account_def dict_simps)
  then show ?thesis using d' r by blast
qed

lemma run_op_version:
  assumes "ready c d" and "version_of (account c d) = Inr v"
  shows "ready c (run_op lib c op d) \<and> version_of (account c (run_op lib c op d)) =
    Inr (if op = DeleteAdmin then 0 else if changes_login lib c d op then v + 1 else v)"
proof -
  note read = admin_read [OF assms(1)]
  note kept = save_keeps_version [OF assms]
  have bumped: "ready c (snd (save_bumped c fs d)) \<and> version_of (account c (snd (save_bumped c fs d))) = Inr (v + 1)" for fs
    using save_bumped_version [OF assms, of fs] by auto
  show ?thesis
  proof (cases op)
    case RemoveMfa
    obtain d2 where "save_bumped c [(''totp_secret'', Some (JStr []))] (snd (admin_entry c d)) = (Inr (v + 1), d2)"
        "ready c d2" "version_of (account c d2) = Inr (v + 1)"
      using save_bumped_version [OF read(1), of v] assms(2) read(2) by fastforce
    then show ?thesis using RemoveMfa by (simp add: run_op_def changes_login_def remove_mfa_def case_prod_beta)
  next
    case (ResetByKey key pw)
    have d': "snd (verify_backup_key lib c key d) = snd (admin_entry c d)"
      by (simp add: verify_backup_key_def case_prod_beta Let_def)
    show ?thesis
    proof (cases "fst (verify_backup_key lib c key d)")
      case True
      obtain d2 where "change_password lib c pw (snd (admin_entry c d)) = (Inr (v + 1), d2)" "ready c d2"
          "version_of (account c d2) = Inr (v + 1)"
        using save_bumped_version [OF read(1), of v] assms(2) read(2) by (fastforce simp: change_password_def)
      then show ?thesis using ResetByKey True d'
        by (simp add: run_op_def changes_login_def reset_password_with_backup_key_def case_prod_beta)
    next
      case False
      then show ?thesis using ResetByKey d' read assms(2)
        by (simp add: run_op_def changes_login_def reset_password_with_backup_key_def case_prod_beta)
    qed
  next
    case (RegenerateKey hex)
    then show ?thesis using kept [of "[(''backup_key_hash'', Some (JStr (hash_backup_key lib (generate_backup_key hex))))]"]
      by (fastforce simp: run_op_def changes_login_def regenerate_backup_key_def Let_def)
  next
    case (CreateAdmin hex u pw totp)
    let ?fs = "[(''username'', Some (JStr u)), (''password_hash'', Some (JStr (al_hash lib pw))),
        (''backup_key_hash'', Some (JStr (hash_backup_key lib (generate_backup_key hex)))),
        (''password_meets_policy'', Some (JBool (MIN_PASSWORD_LEN \<le> length pw)))]
        @ (if truthy_s totp then [(''totp_secret'', map_option JStr totp)] else [])"
    have "''session_version'' \<notin> fst ` set ?fs" by (cases "truthy_s totp") simp_all
    from kept [OF this] show ?thesis using CreateAdmin
      by (fastforce simp: run_op_def changes_login_def create_admin_def Let_def)
  next
    case DeleteAdmin
    then show ?thesis using delete_admin_account [OF assms(1)] by (fastforce simp: run_op_def version_of_def)
  next
    case (ChangePassword pw)
    then show ?thesis using bumped by (simp add: run_op_def changes_login_def change_password_def)
  next
    case (EnrollMfa s)
    then show ?thesis using bumped by (simp add: run_op_def changes_login_def enroll_mfa_def)
  next
    case BumpVersion
    then show ?thesis using bumped by (simp add: run_op_def changes_login_def bump_session_version_def)
  qed
qed




definition toy_lib :: auth_lib where
  "toy_lib = \<lparr>al_hash = (\<lambda>p. CHR ''h'' # p), al_check = (\<lambda>p h. Some (h = CHR ''h'' # p)),
     al_sha256 = (\<lambda>k. CHR ''s'' # k), al_totp = (\<lambda>s code. code = ''000000'')\<rparr>"


subsection \<open>Logging in\<close>

definition auth_lib_ok :: "auth_lib \<Rightarrow> bool" where
  "auth_lib_ok lib \<longleftrightarrow> (\<forall>p. al_hash lib p \<noteq> [] \<and> al_check lib p (al_hash lib p) = Some True)
     \<and> (\<forall>k. al_sha256 lib k \<noteq> [])"

text \<open>After the account is created, its user name (in any case, with surrounding space) and
  password log in, the backup key it returned is accepted, and another user name is refused.\<close>
theorem create_admin_login:
  assumes "ready c d" and "auth_lib_ok lib" and "username \<noteq> []"
  shows "\<exists>d' key. create_admin lib c hex username password totp d = (Inr key, d') \<and> ready c d'
    \<and> (\<forall>u. fst (verify_login lib c u password d') =
          (py_lower (py_strip u) = py_lower (py_strip username)))
    \<and> fst (verify_backup_key lib c key d') \<and> fst (admin_exists c d')"
proof -
  let ?key = "generate_backup_key hex"
  let ?fs = "[(''username'', Some (JStr username)),
      (''password_hash'', Some (JStr (al_hash lib password))),
      (''backup_key_hash'', Some (JStr (hash_backup_key lib ?key))),
      (''password_meets_policy'', Some (JBool (MIN_PASSWORD_LEN \<le> length password)))]
      @ (if truthy_s totp then [(''totp_secret'', map_option JStr totp)] else [])"
  obtain d' where save: "save_admin c ?fs d = (Inr (), d')" and r: "ready c d'"
    and acc: "account c d' = put_fields ?fs (account c d)"
    using admin_save [OF assms(1)] by blast
  have dist: "distinct (map fst ?fs)" by (cases "truthy_s totp") simp_all
  have h: "al_hash lib password \<noteq> []" "hash_backup_key lib ?key \<noteq> []"
    using assms(2) by (simp_all add: auth_lib_ok_def hash_backup_key_def)
  have user: "str_field (account c d') ''username'' = username"
    using put_fields_get [OF dist, of "''username''" "Some (JStr username)" "account c d"] assms(3)
    by (simp add: acc str_field_def)
  have hash: "dict_get (account c d') ''password_hash'' = Some (JStr (al_hash lib password))"
    using put_fields_get [OF dist, of "''password_hash''" "Some (JStr (al_hash lib password))"
        "account c d"] h by (simp add: acc)
  have bk: "str_field (account c d') ''backup_key_hash'' = hash_backup_key lib ?key"
    using put_fields_get [OF dist, of "''backup_key_hash''" "Some (JStr (hash_backup_key lib ?key))"
        "account c d"] h by (simp add: acc str_field_def)
  have "create_admin lib c hex username password totp d = (Inr ?key, d')"
    using save by (simp add: create_admin_def Let_def)
  moreover have "fst (verify_login lib c u password d') =
      (py_lower (py_strip u) = py_lower (py_strip username))" for u
    using user hash h assms(2,3)
    by (simp add: verify_login_def account_def [symmetric] case_prod_beta entry_login_def
      verify_password_hash_def str_field_def auth_lib_ok_def)
  moreover have "fst (verify_backup_key lib c ?key d')"
    using bk h by (simp add: verify_backup_key_def account_def [symmetric] case_prod_beta)
  moreover have "fst (admin_exists c d')"
    using hash h by (simp add: admin_exists_def account_def [symmetric] case_prod_beta field_truthy_def)
  ultimately show ?thesis using r by blast
qed

theorem create_admin_login_witness:
  "\<exists>d' key. create_admin toy_lib plain_crypto ''00112233445566778899aabbccddeeff'' ''Admin'' ''pw'' None fresh_disk
      = (Inr key, d') \<and> fst (verify_login toy_lib plain_crypto '' ADMIN '' ''pw'' d')"
proof -
  have "auth_lib_ok toy_lib" by (simp add: auth_lib_ok_def toy_lib_def)
  from create_admin_login [OF plain_ready this, of "''Admin''"
      "''00112233445566778899aabbccddeeff''" "''pw''" None]
  obtain d' key where
      run: "create_admin toy_lib plain_crypto ''00112233445566778899aabbccddeeff'' ''Admin'' ''pw'' None fresh_disk
        = (Inr key, d')"
    and login: "fst (verify_login toy_lib plain_crypto '' ADMIN '' ''pw'' d') =
      (py_lower (py_strip '' ADMIN '') = py_lower (py_strip ''Admin''))" by auto
  have "py_lower (py_strip '' ADMIN '') = py_lower (py_strip ''Admin'')" by code_simp
  with run login show ?thesis by auto
qed

subsection \<open>What does not invalidate a session\<close>

text \<open>A new backup key leaves the version as it is, although it is a credential change.\<close>

lemma regenerate_backup_key_keeps_version:
  assumes "ready c d" and "session_valid c d v"
  shows "session_valid c (snd (regenerate_backup_key lib c hex d)) v"
proof -
  let ?fs = "[(''backup_key_hash'', Some (JStr (hash_backup_key lib (generate_backup_key hex))))]"
  obtain d' where "save_admin c ?fs d = (Inr (), d')" and acc: "account c d' = put_fields ?fs (account c d)"
    using admin_save [OF assms(1)] by blast
  moreover have "dict_get (put_fields ?fs (account c d)) ''session_version'' =
      dict_get (account c d) ''session_version''"
    by (rule put_fields_other) simp
  ultimately show ?thesis using assms(2)
    by (simp add: session_valid_def get_session_version_account regenerate_backup_key_def Let_def
      version_of_def)
qed

text \<open>Deleting the account drops its version counter: sessions of version 0 are accepted again,
  before and after a new account is created.\<close>
theorem delete_admin_resets_version:
  assumes "ready c d"
  shows "session_valid c (snd (delete_admin c d)) 0
    \<and> session_valid c (snd (create_admin lib c hex u pw totp (snd (delete_admin c d)))) 0"
proof -
  obtain d1 where d1: "delete_admin c d = (Inr (), d1)" "ready c d1" "account c d1 = []"
    using delete_admin_account [OF assms] by blast
  then have "version_of (account c d1) = Inr 0" by (simp add: version_of_def)
  from run_op_version [OF d1(2) this, of lib "CreateAdmin hex u pw totp"] this d1 show ?thesis
    by (simp add: session_valid_def get_session_version_account run_op_def changes_login_def)
qed

theorem delete_admin_resets_version_witness:
  "session_valid plain_crypto (snd (delete_admin plain_crypto fresh_disk)) 0"
  using delete_admin_resets_version [OF plain_ready] by blast

subsection \<open>Multi-factor state and the backup key\<close>

text \<open>MFA counts as enrolled after an enrolment with a secret and as not enrolled after a removal, and
  the removal leaves the password as it was.\<close>
theorem mfa_enrolment_state:
  assumes "ready c d" and "version_of (account c d) = Inr v" and "secret \<noteq> []"
  shows "fst (mfa_enrolled c (snd (enroll_mfa c secret d)))
    \<and> \<not> fst (mfa_enrolled c (snd (remove_mfa c d)))
    \<and> fst (verify_login lib c u pw (snd (remove_mfa c d))) = fst (verify_login lib c u pw d)"
proof -
  have mfa: "fst (mfa_enrolled c d) = field_truthy (account c d) ''totp_secret''" for d
    by (simp add: mfa_enrolled_def account_def case_prod_beta)
  have login: "fst (verify_login lib c u pw d) = entry_login lib u pw (account c d)" for d
    by (simp add: verify_login_def account_def case_prod_beta)
  have fields: "dict_get (put_fields [(''totp_secret'', Some (JStr s)), (''session_version'', Some (JNum n))] e) k =
      (if k = ''session_version'' then Some (JNum n)
       else if k = ''totp_secret'' then (if s = [] then None else Some (JStr s)) else dict_get e k)" for s n e k
    by (auto simp: put_fields_def put_field_def dict_simps)
  obtain d1 where "enroll_mfa c secret d = (Inr (v + 1), d1)"
    and "account c d1 = put_fields [(''totp_secret'', Some (JStr secret)), (''session_version'', Some (JNum (v + 1)))]
        (account c d)"
    using save_bumped_works [OF assms(1,2), of "[(''totp_secret'', Some (JStr secret))]"]
    by (auto simp: enroll_mfa_def)
  then have enr: "fst (mfa_enrolled c (snd (enroll_mfa c secret d)))"
    using assms(3) by (simp add: mfa field_truthy_def fields)
  let ?d = "snd (admin_entry c d)"
  have "ready c ?d" and "version_of (account c ?d) = Inr v" and acc: "account c ?d = account c d"
    using assms(1,2) by simp_all
  then obtain d2 where "remove_mfa c d = (Inr (v + 1), d2)"
    and "account c d2 = put_fields [(''totp_secret'', Some (JStr [])), (''session_version'', Some (JNum (v + 1)))]
        (account c d)"
    using save_bumped_works [of c ?d v "[(''totp_secret'', Some (JStr []))]"]
    by (auto simp: remove_mfa_def case_prod_beta)
  then show ?thesis
    using enr by (simp add: mfa login field_truthy_def fields entry_login_def str_field_def Let_def)
qed

theorem mfa_enrolment_state_witness:
  "fst (mfa_enrolled plain_crypto (snd (enroll_mfa plain_crypto ''JBSWY3DP'' fresh_disk)))"
proof -
  have "version_of (account plain_crypto fresh_disk) = Inr 0"
    by (simp add: account_def get_integration_credentials_def load_store_def fresh_disk_def version_of_def)
  from mfa_enrolment_state [OF plain_ready this, of "''JBSWY3DP''"] show ?thesis by simp
qed

lemma backup_key_length: "length hex = 32 \<Longrightarrow> length (generate_backup_key hex) = 35"
  by (simp add: generate_backup_key_def Let_def py_upper_def)

end
