(* ===== verification/WebStack.thy ===== *)
theory WebStack
  imports Auth ConfigFacts Notifications
begin

section \<open>The middleware of the web application (app/main.py, app/csrf.py, app/security_headers.py)\<close>

text \<open>
  Every request passes one chain of middlewares before its route.  A handler takes a request and
  the state of the application and returns a response or an exception with the new state; a
  middleware is a function on handlers.  The session is the decoded content of the signed cookie:
  Starlette loads it before and stores it with a response, and an exception is answered outside
  all middlewares, so that the session keeps what it had.  The limits that \<open>slowapi\<close> puts on some
  routes are the library's.
\<close>

subsection \<open>Requests, responses and state\<close>

record web_request =
  wr_method :: string
  wr_scheme :: string
  wr_url :: string
  wr_path :: string
  wr_query :: "(string \<times> string) list"
  wr_headers :: "(string \<times> string) list"
  wr_client :: "string option"
  wr_id :: "string option"

datatype web_body = NoBody | Html string | JsonBody entry | Page string entry

record web_response =
  ws_status :: nat
  ws_headers :: "(string \<times> string) list"
  ws_body :: web_body

record access_line =
  al_method :: string
  al_path :: string
  al_status :: nat
  al_request :: "string option"
  al_headers :: "(string \<times> string) list"

record audit_line =
  au_actor :: string
  au_source :: string
  au_action :: string
  au_target :: string
  au_result :: string

record 'b web =
  wb_session :: entry
  wb_creds :: "'b cred_disk"
  wb_config :: disk
  wb_window :: "(string \<times> time list) list"
  wb_attempts :: "(string \<times> time list) list"
  wb_access :: "access_line list"
  wb_audit :: "audit_line list"

text \<open>What one request draws from outside: the libraries, the clock and fresh random values.\<close>

record 'b web_env =
  we_crypto :: "'b crypto"
  we_lib :: auth_lib
  we_now :: time
  we_token :: string
  we_hex :: string
  we_totp :: string
  we_uuid :: string
  we_error_id :: string

type_synonym 'w handler = "web_request \<Rightarrow> 'w \<Rightarrow> web_response res \<times> 'w"

definition request_header :: "web_request \<Rightarrow> string \<Rightarrow> string option" where
  "request_header rq name = dict_get (map (\<lambda>(k, v). (py_lower k, v)) (wr_headers rq)) (py_lower name)"

definition redirect :: "nat \<Rightarrow> string \<Rightarrow> web_response" where
  "redirect status url = \<lparr>ws_status = status, ws_headers = [(''location'', url)], ws_body = NoBody\<rparr>"

definition page :: "string \<Rightarrow> entry \<Rightarrow> web_response" where
  "page template ctx = \<lparr>ws_status = 200, ws_headers = [], ws_body = Page template ctx\<rparr>"

definition html :: "nat \<Rightarrow> string \<Rightarrow> web_response" where
  "html status s = \<lparr>ws_status = status, ws_headers = [], ws_body = Html s\<rparr>"

subsection \<open>CSRF tokens\<close>

definition SAFE_METHODS :: "string list" where
  "SAFE_METHODS = [''GET'', ''HEAD'', ''OPTIONS'', ''TRACE'']"

definition EXEMPT_PREFIXES :: "string list" where
  "EXEMPT_PREFIXES = [''/setup'']"

definition get_csrf_token :: "string \<Rightarrow> entry \<Rightarrow> entry" where
  "get_csrf_token fresh s = (if dict_get s ''_csrf_token'' = None then dict_set ''_csrf_token'' (JStr fresh) s else s)"

text \<open>\<open>secrets.compare_digest\<close> takes ASCII text only.\<close>

definition csrf_valid :: "web_request \<Rightarrow> entry \<Rightarrow> bool res" where
  "csrf_valid rq s =
     (let session_token = str_field s ''_csrf_token''; submitted = get_or (request_header rq ''X-CSRF-Token'') [] in
      if session_token = [] \<or> submitted = [] then Inr False
      else if list_ex (\<lambda>c. (128::nat) \<le> code_point c) submitted
      then raise ''TypeError'' ''comparing strings with non-ASCII characters is not supported''
      else Inr (submitted = session_token))"

definition csrf_checked :: "web_request \<Rightarrow> bool" where
  "csrf_checked rq \<longleftrightarrow> wr_method rq \<notin> set SAFE_METHODS \<and> truthy_s (request_header rq ''HX-Request'')
     \<and> \<not> list_ex (starts_with (wr_path rq)) EXEMPT_PREFIXES"

definition csrf_gate :: "'b web_env \<Rightarrow> 'b web handler \<Rightarrow> 'b web handler" where
  "csrf_gate env h rq w =
     (let w1 = w\<lparr>wb_session := get_csrf_token (we_token env) (wb_session w)\<rparr> in
      if csrf_checked rq
      then case csrf_valid rq (wb_session w1) of
             Inl e \<Rightarrow> (Inl e, w1)
           | Inr ok \<Rightarrow> if ok then h rq w1 else (Inr (html 403 ''Forbidden''), w1)
      else h rq w1)"

subsection \<open>The authentication gate\<close>

definition PUBLIC_PATHS :: "string list" where
  "PUBLIC_PATHS = [''/'', ''/login'', ''/logout'', ''/setup'', ''/forgot-password'', ''/forgot-password/reset'',
     ''/api/csp-report'']"

definition public_path :: "string \<Rightarrow> bool" where
  "public_path p \<longleftrightarrow> p \<in> set PUBLIC_PATHS \<or> starts_with p ''/setup/''"

definition session_flag :: "entry \<Rightarrow> string \<Rightarrow> bool" where
  "session_flag s k = json_truthy (get_or (dict_get s k) JNull)"

definition login_redirect :: "string \<Rightarrow> web_response" where
  "login_redirect path = redirect 302 (''/login?next='' @ path)"

fun json_number :: "json \<Rightarrow> int option" where
  "json_number (JNum n) = Some n"
| "json_number (JBool b) = Some (if b then 1 else 0)"
| "json_number _ = None"

definition version_gate :: "'b web_env \<Rightarrow> 'b web handler \<Rightarrow> 'b web handler" where
  "version_gate env h rq w =
     (let (v, d) = get_session_version (we_crypto env) (wb_creds w); w1 = w\<lparr>wb_creds := d\<rparr> in
      case v of
        Inl e \<Rightarrow> (Inl e, w1)
      | Inr n \<Rightarrow>
          (if json_number (get_or (dict_get (wb_session w) ''session_version'') JNull) \<noteq> Some n
           then (Inr (login_redirect (wr_path rq)), w1\<lparr>wb_session := []\<rparr>)
           else h rq w1))"

definition auth_gate :: "'b web_env \<Rightarrow> 'b web handler \<Rightarrow> 'b web handler" where
  "auth_gate env h rq w =
     (if public_path (wr_path rq) then h rq w
      else let (exists, d) = admin_exists (we_crypto env) (wb_creds w); w1 = w\<lparr>wb_creds := d\<rparr> in
           if \<not> exists then (Inr (redirect 302 ''/setup''), w1)
           else if \<not> session_flag (wb_session w) ''authenticated'' then (Inr (login_redirect (wr_path rq)), w1)
           else version_gate env h rq w1)"

subsection \<open>The limit on administrative requests\<close>

definition ADMIN_LIMIT :: nat where "ADMIN_LIMIT = 30"
definition ADMIN_PERIOD :: time where "ADMIN_PERIOD = 60"

definition recent :: "time \<Rightarrow> time \<Rightarrow> time list \<Rightarrow> time list" where
  "recent period now ts = filter (\<lambda>t. now - t < period) ts"

definition admin_limited :: "web_request \<Rightarrow> bool" where
  "admin_limited rq \<longleftrightarrow> wr_method rq \<in> {''POST'', ''PUT'', ''DELETE''} \<and> starts_with (wr_path rq) ''/admin/''"

definition client_key :: "web_request \<Rightarrow> string" where
  "client_key rq = or_s (wr_client rq) ''unknown''"

definition admit :: "time \<Rightarrow> time list \<Rightarrow> bool \<times> time list" where
  "admit now ts =
     (let times = recent ADMIN_PERIOD now ts in
      if length times \<ge> ADMIN_LIMIT then (False, ts) else (True, times @ [now]))"

definition too_many_requests :: web_response where
  "too_many_requests = \<lparr>ws_status = 429, ws_headers = [(''Retry-After'', ''60'')],
     ws_body = JsonBody [(''detail'', JStr ''Too Many Requests'')]\<rparr>"

definition admin_limit :: "'b web_env \<Rightarrow> 'b web handler \<Rightarrow> 'b web handler" where
  "admin_limit env h rq w =
     (if admin_limited rq
      then let ip = client_key rq; (ok, times) = admit (we_now env) (get_or (dict_get (wb_window w) ip) []) in
           if ok then h rq (w\<lparr>wb_window := dict_set ip times (wb_window w)\<rparr>)
           else (Inr too_many_requests, w)
      else h rq w)"

subsection \<open>Request ids and the access log\<close>

definition request_id :: "'b web_env \<Rightarrow> 'w handler \<Rightarrow> 'w handler" where
  "request_id env h rq w = h (rq\<lparr>wr_id := Some (we_uuid env)\<rparr>) w"

definition REDACT_HEADERS :: "string list" where
  "REDACT_HEADERS = [''cookie'', ''authorization'', ''x-csrf-token'']"

definition safe_headers :: "(string \<times> string) list \<Rightarrow> (string \<times> string) list" where
  "safe_headers hs = map (\<lambda>(k, v). (k, if py_lower k \<in> set REDACT_HEADERS then ''[redacted]'' else v)) hs"

text \<open>The request id is set on the state that the inner middleware shares.\<close>

definition access_log :: "'b web_env \<Rightarrow> 'b web handler \<Rightarrow> 'b web handler" where
  "access_log env h rq w =
     (case h rq w of
        (Inl e, w1) \<Rightarrow> (Inl e, w1)
      | (Inr r, w1) \<Rightarrow> (Inr r, w1\<lparr>wb_access := wb_access w1 @
          [\<lparr>al_method = wr_method rq, al_path = wr_path rq, al_status = ws_status r,
            al_request = Some (we_uuid env), al_headers = safe_headers (wr_headers rq)\<rparr>]\<rparr>))"

subsection \<open>Security headers and HTTPS\<close>

definition CSP_REPORT_ONLY :: string where
  "CSP_REPORT_ONLY = concat [''default-src '', [QUOTE], ''self'', [QUOTE], ''; '',
     ''script-src '', [QUOTE], ''self'', [QUOTE], '' '', [QUOTE], ''unsafe-inline'', [QUOTE],
       '' https://cdn.tailwindcss.com https://unpkg.com; '',
     ''style-src '', [QUOTE], ''self'', [QUOTE], '' '', [QUOTE], ''unsafe-inline'', [QUOTE],
       '' https://cdn.tailwindcss.com; '',
     ''img-src '', [QUOTE], ''self'', [QUOTE], '' data:; '',
     ''connect-src '', [QUOTE], ''self'', [QUOTE], ''; '', ''font-src '', [QUOTE], ''self'', [QUOTE], ''; '',
     ''object-src '', [QUOTE], ''none'', [QUOTE], ''; '', ''base-uri '', [QUOTE], ''self'', [QUOTE], ''; '',
     ''form-action '', [QUOTE], ''self'', [QUOTE], ''; '', ''report-uri /api/csp-report'']"

definition HSTS_VALUE :: string where "HSTS_VALUE = ''max-age=31536000''"

definition harden :: "bool \<Rightarrow> web_response \<Rightarrow> web_response" where
  "harden tls r =
     (let base = fold (\<lambda>(k, v). dict_set k v)
            [(''X-Content-Type-Options'', ''nosniff''), (''X-Frame-Options'', ''DENY''),
             (''Referrer-Policy'', ''no-referrer''), (''Content-Security-Policy-Report-Only'', CSP_REPORT_ONLY)]
            (ws_headers r)
      in r\<lparr>ws_headers := if tls then dict_set ''Strict-Transport-Security'' HSTS_VALUE base else base\<rparr>)"

definition security_headers :: "bool \<Rightarrow> 'w handler \<Rightarrow> 'w handler" where
  "security_headers tls h rq w =
     (case h rq w of (Inl e, w1) \<Rightarrow> (Inl e, w1) | (Inr r, w1) \<Rightarrow> (Inr (harden tls r), w1))"

definition https_url :: "string \<Rightarrow> string" where
  "https_url u = (case split_once ''http://'' u of Some (a, b) \<Rightarrow> a @ ''https://'' @ b | None \<Rightarrow> u)"

definition https_redirect :: "bool \<Rightarrow> 'w handler \<Rightarrow> 'w handler" where
  "https_redirect tls h rq w =
     (if tls \<and> wr_scheme rq = ''http'' then (Inr (redirect 301 (https_url (wr_url rq))), w) else h rq w)"

subsection \<open>The chain\<close>

definition session_layer :: "'b web handler \<Rightarrow> 'b web handler" where
  "session_layer h rq w =
     (case h rq w of
        (Inl e, w1) \<Rightarrow> (Inl e, w1\<lparr>wb_session := wb_session w\<rparr>)
      | (Inr r, w1) \<Rightarrow> (Inr r, w1))"

definition unhandled_error :: "string \<Rightarrow> web_response" where
  "unhandled_error uuid = \<lparr>ws_status = 500, ws_headers = [],
     ws_body = JsonBody [(''error'', JStr ''Internal error''), (''request_id'', JStr uuid)]\<rparr>"

definition middlewares :: "bool \<Rightarrow> 'b web_env \<Rightarrow> 'b web handler \<Rightarrow> 'b web handler" where
  "middlewares tls env route =
     https_redirect tls (security_headers tls (session_layer (csrf_gate env (auth_gate env
       (admin_limit env (access_log env (request_id env route)))))))"

definition serve :: "bool \<Rightarrow> 'b web_env \<Rightarrow> 'b web handler \<Rightarrow> web_request \<Rightarrow> 'b web \<Rightarrow> web_response \<times> 'b web" where
  "serve tls env route rq w =
     (case middlewares tls env route rq w of
        (Inl e, w1) \<Rightarrow> (unhandled_error (we_error_id env), w1)
      | (Inr r, w1) \<Rightarrow> (r, w1))"

subsection \<open>Who reaches a route\<close>

text \<open>A session of the existing account at its current version.\<close>

definition signed_in :: "'b crypto \<Rightarrow> 'b web \<Rightarrow> bool" where
  "signed_in c w \<longleftrightarrow> field_truthy (account c (wb_creds w)) ''password_hash''
     \<and> session_flag (wb_session w) ''authenticated''
     \<and> (case version_of (account c (wb_creds w)) of
          Inl e \<Rightarrow> False
        | Inr n \<Rightarrow> json_number (get_or (dict_get (wb_session w) ''session_version'') JNull) = Some n)"

lemma admin_exists_account: "fst (admin_exists c d) = field_truthy (account c d) ''password_hash''"
  by (simp add: admin_exists_def account_def split: prod.splits)

lemma admin_exists_read: "snd (admin_exists c d) = snd (admin_entry c d)"
  by (simp add: admin_exists_def split: prod.splits)

lemma version_read: "snd (get_session_version c d) = snd (admin_entry c d)"
  by (simp add: get_session_version_def split: prod.splits)

lemma csrf_token_keeps: "k \<noteq> ''_csrf_token'' \<Longrightarrow> dict_get (get_csrf_token t s) k = dict_get s k"
  by (simp add: get_csrf_token_def dict_simps)

lemma signed_in_csrf [simp]:
  "signed_in c (w\<lparr>wb_session := get_csrf_token t (wb_session w)\<rparr>) = signed_in c w"
  by (cases "version_of (account c (wb_creds w))") (simp_all add: signed_in_def session_flag_def csrf_token_keeps)

lemma auth_gate_refuses:
  assumes "\<not> public_path (wr_path rq)" and "\<not> signed_in (we_crypto env) w" and "ready (we_crypto env) (wb_creds w)"
  shows "\<exists>r w1. (\<forall>h. auth_gate env h rq w = (r, w1)) \<and> (\<forall>a. r = Inr a \<longrightarrow> ws_status a = 302)
    \<and> wb_config w1 = wb_config w \<and> wb_window w1 = wb_window w \<and> wb_attempts w1 = wb_attempts w \<and> wb_audit w1 = wb_audit w
    \<and> account (we_crypto env) (wb_creds w1) = account (we_crypto env) (wb_creds w)"
proof -
  let ?c = "we_crypto env"
  obtain ex d where d: "admin_exists ?c (wb_creds w) = (ex, d)" by fastforce
  then have ex: "ex = field_truthy (account ?c (wb_creds w)) ''password_hash''" and d': "d = snd (admin_entry ?c (wb_creds w))"
    using admin_exists_account [of ?c "wb_creds w"] admin_exists_read [of ?c "wb_creds w"] by simp_all
  have acc: "account ?c d = account ?c (wb_creds w)" and rd: "ready ?c d"
    using admin_read [OF assms(3)] d' by simp_all
  obtain v d2 where v: "get_session_version ?c d = (v, d2)" by fastforce
  then have v': "version_of (account ?c (wb_creds w)) = v" and d2: "account ?c d2 = account ?c (wb_creds w)"
    using get_session_version_account [of ?c d] version_read [of ?c d] admin_read [OF rd] acc by auto
  show ?thesis
  proof (cases "ex \<and> session_flag (wb_session w) ''authenticated''")
    case False
    then show ?thesis using assms(1) d acc by (cases ex) (auto simp: auth_gate_def login_redirect_def redirect_def Let_def)
  next
    case True
    then show ?thesis using assms(1,2) d v v' d2 ex
      by (cases v) (auto simp: auth_gate_def version_gate_def signed_in_def login_redirect_def redirect_def Let_def)
  qed
qed

text \<open>C11. A request for a path that is not public never gets to its route without a session of the
  existing account at its current version: the answer and the state after it are the same for
  every route, a redirect, a refusal or an error, and nothing of the account changes.\<close>
theorem protected_routes_need_login:
  assumes "\<not> public_path (wr_path rq)" and "\<not> signed_in (we_crypto env) w" and "ready (we_crypto env) (wb_creds w)"
  shows "\<exists>r w1. (\<forall>route. serve tls env route rq w = (r, w1)) \<and> ws_status r \<in> {301, 302, 403, 500}
    \<and> wb_config w1 = wb_config w \<and> wb_window w1 = wb_window w \<and> wb_attempts w1 = wb_attempts w \<and> wb_audit w1 = wb_audit w
    \<and> account (we_crypto env) (wb_creds w1) = account (we_crypto env) (wb_creds w)"
proof -
  let ?w1 = "w\<lparr>wb_session := get_csrf_token (we_token env) (wb_session w)\<rparr>"
  have "\<not> signed_in (we_crypto env) ?w1" and "ready (we_crypto env) (wb_creds ?w1)" using assms by simp_all
  from auth_gate_refuses [OF assms(1) this] obtain r w2 where
      gate: "\<And>h. auth_gate env h rq ?w1 = (r, w2)" "\<And>a. r = Inr a \<Longrightarrow> ws_status a = 302"
        "wb_config w2 = wb_config w" "wb_window w2 = wb_window w" "wb_attempts w2 = wb_attempts w" "wb_audit w2 = wb_audit w"
        "account (we_crypto env) (wb_creds w2) = account (we_crypto env) (wb_creds w)"
    by auto
  have csrf: "\<exists>r w1. (\<forall>h. csrf_gate env (auth_gate env h) rq w = (r, w1)) \<and> (\<forall>a. r = Inr a \<longrightarrow> ws_status a \<in> {302, 403})
    \<and> wb_config w1 = wb_config w \<and> wb_window w1 = wb_window w \<and> wb_attempts w1 = wb_attempts w \<and> wb_audit w1 = wb_audit w
    \<and> account (we_crypto env) (wb_creds w1) = account (we_crypto env) (wb_creds w)"
  proof (cases "csrf_checked rq")
    case True
    show ?thesis
    proof (cases "csrf_valid rq (wb_session ?w1) = Inr True")
      case False
      then obtain a where "\<And>h. csrf_gate env (auth_gate env h) rq w = (a, ?w1)" "\<And>b. a = Inr b \<Longrightarrow> ws_status b = 403"
        using True by (cases "csrf_valid rq (wb_session ?w1)") (auto simp: csrf_gate_def html_def Let_def)
      then show ?thesis by auto
    qed (use gate True in \<open>auto simp: csrf_gate_def Let_def\<close>)
  next
    case False
    then show ?thesis using gate by (auto simp: csrf_gate_def Let_def)
  qed
  then obtain r' w1 where csrf: "\<And>h. csrf_gate env (auth_gate env h) rq w = (r', w1)"
      "\<And>a. r' = Inr a \<Longrightarrow> ws_status a \<in> {302, 403}" "wb_config w1 = wb_config w" "wb_window w1 = wb_window w"
      "wb_attempts w1 = wb_attempts w" "wb_audit w1 = wb_audit w"
      "account (we_crypto env) (wb_creds w1) = account (we_crypto env) (wb_creds w)" by blast
  show ?thesis
  proof (cases "tls \<and> wr_scheme rq = ''http''")
    case True
    then show ?thesis by (auto simp: serve_def middlewares_def https_redirect_def redirect_def)
  next
    case False
    then show ?thesis using csrf
      by (cases r') (auto simp: serve_def middlewares_def https_redirect_def security_headers_def session_layer_def
          unhandled_error_def harden_def Let_def)
  qed
qed

definition home_request :: web_request where
  "home_request = \<lparr>wr_method = ''GET'', wr_scheme = ''http'', wr_url = ''http://keepup/home'', wr_path = ''/home'',
     wr_query = [], wr_headers = [], wr_client = Some ''10.0.0.9'', wr_id = None\<rparr>"

definition demo_web :: "(string \<times> store) web" where
  "demo_web = \<lparr>wb_session = [], wb_creds = fresh_disk, wb_config = Some empty_config, wb_window = [], wb_attempts = [], wb_access = [], wb_audit = []\<rparr>"

definition demo_web_env :: "(string \<times> store) web_env" where
  "demo_web_env = \<lparr>we_crypto = plain_crypto, we_lib = toy_lib, we_now = 1000, we_token = ''tok'',
     we_hex = replicate 32 CHR ''0'', we_totp = ''JBSWY3DP'', we_uuid = ''id1'', we_error_id = ''id2''\<rparr>"

theorem protected_routes_need_login_witness:
  "\<exists>r w1. (\<forall>route. serve False demo_web_env route home_request demo_web = (r, w1)) \<and> ws_status r \<in> {301, 302, 403, 500}"
proof -
  have "\<not> public_path (wr_path home_request)" "\<not> signed_in (we_crypto demo_web_env) demo_web"
    by code_simp+
  moreover have "ready (we_crypto demo_web_env) (wb_creds demo_web)"
    using plain_ready by (simp add: demo_web_env_def demo_web_def)
  ultimately show ?thesis using protected_routes_need_login [of home_request demo_web_env demo_web False] by blast
qed

subsection \<open>The wizard's routes are open\<close>

lemma setup_not_admin: "starts_with p ''/setup/'' \<Longrightarrow> \<not> starts_with p ''/admin/''"
  by (auto simp: prefix_def)

text \<open>The paths of the setup wizard pass every gate: whatever the session, the account and the CSRF header
  are, the route runs.  The wizard's routes that test neither are therefore open to everyone also
  after the setup.\<close>
theorem setup_paths_are_open:
  assumes "starts_with (wr_path rq) ''/setup/''" and "\<not> (tls \<and> wr_scheme rq = ''http'')"
    and "route (rq\<lparr>wr_id := Some (we_uuid env)\<rparr>) (w\<lparr>wb_session := get_csrf_token (we_token env) (wb_session w)\<rparr>) = (Inr r, w1)"
  shows "fst (serve tls env route rq w) = harden tls r
    \<and> wb_creds (snd (serve tls env route rq w)) = wb_creds w1 \<and> wb_config (snd (serve tls env route rq w)) = wb_config w1
    \<and> wb_session (snd (serve tls env route rq w)) = wb_session w1"
proof -
  have open1: "public_path (wr_path rq)" "\<not> csrf_checked rq" "\<not> admin_limited rq"
    using assms(1) setup_not_admin
    by (auto simp: public_path_def csrf_checked_def admin_limited_def EXEMPT_PREFIXES_def prefix_def)
  then show ?thesis using assms(2,3)
    by (auto simp: serve_def middlewares_def https_redirect_def security_headers_def session_layer_def
        csrf_gate_def auth_gate_def admin_limit_def access_log_def request_id_def Let_def)
qed

definition ok_route :: "'w handler" where
  "ok_route rq w = (Inr (html 200 []), w)"

definition wizard_request :: web_request where
  "wizard_request = home_request\<lparr>wr_method := ''POST'', wr_path := ''/setup/hosts/nas/remove''\<rparr>"

theorem setup_paths_are_open_witness:
  "fst (serve False demo_web_env ok_route wizard_request demo_web) = harden False (html 200 [])"
  using setup_paths_are_open [of wizard_request False ok_route demo_web_env demo_web "html 200 []"]
  by (simp add: wizard_request_def ok_route_def)

subsection \<open>Sliding windows\<close>

text \<open>
  What the limiter of the administrative routes and the lockout of the login page have in common:
  a list of times per client that is cut to the last \<open>period\<close> seconds, and a limit on its length.
\<close>

fun admitted :: "(time \<Rightarrow> time list \<Rightarrow> bool \<times> time list) \<Rightarrow> time list \<Rightarrow> time list \<Rightarrow> time list" where
  "admitted accept ts [] = []"
| "admitted accept ts (now # later) =
     (let (ok, ts') = accept now ts in (if ok then [now] else []) @ admitted accept ts' later)"

definition counted :: "time \<Rightarrow> time \<Rightarrow> time list \<Rightarrow> nat" where
  "counted period t ts = length (filter (\<lambda>s. t - period < s \<and> s \<le> t) ts)"

lemma recent_append: "recent p n (as @ bs) = recent p n as @ recent p n bs"
  by (simp add: recent_def)

lemma recent_recent: "n \<le> m \<Longrightarrow> recent p m (recent p n ts) = recent p m ts"
  by (auto simp: recent_def intro!: filter_cong)

lemma counted_append: "counted p t (as @ bs) = counted p t as + counted p t bs"
  by (simp add: counted_def)

lemma counted_recent: "\<forall>s\<in>set ts. s \<le> n \<Longrightarrow> n \<le> t \<Longrightarrow> counted p t ts \<le> length (recent p n ts)"
proof (induction ts)
  case Nil
  then show ?case by (simp add: counted_def)
next
  case (Cons s ts)
  then show ?case by (auto simp: counted_def recent_def)
qed

locale sliding_window =
  fixes limit :: nat
    and period :: time
    and accept :: "time \<Rightarrow> time list \<Rightarrow> bool \<times> time list"
  assumes accept_iff: "fst (accept now ts) \<longleftrightarrow> length (recent period now ts) < limit"
    and accepted_window: "fst (accept now ts) \<Longrightarrow> snd (accept now ts) = recent period now ts @ [now]"
    and refused_window: "\<not> fst (accept now ts) \<Longrightarrow> snd (accept now ts) \<in> {ts, recent period now ts}"
begin

text \<open>The window agrees with the history of the admitted times from \<open>n\<close> on.\<close>

definition tracks :: "time \<Rightarrow> time list \<Rightarrow> time list \<Rightarrow> bool" where
  "tracks n history ts \<longleftrightarrow> (\<forall>m\<ge>n. recent period m ts = recent period m history) \<and> (\<forall>s\<in>set history. s \<le> n)"

lemma tracks_accepted:
  assumes "tracks n history ts" and "n \<le> now" and "fst (accept now ts)"
  shows "tracks now (history @ [now]) (snd (accept now ts))"
  using assms by (auto simp: tracks_def accepted_window recent_append recent_recent)

lemma tracks_refused:
  assumes "tracks n history ts" and "n \<le> now" and "\<not> fst (accept now ts)"
  shows "tracks now history (snd (accept now ts))"
  using assms refused_window [of now ts] by (auto simp: tracks_def recent_recent)

lemma accepted_bound:
  assumes "tracks n history ts" and "n \<le> now" and "fst (accept now ts)" and "\<And>t. counted period t history \<le> limit"
  shows "counted period t (history @ [now]) \<le> limit"
proof (cases "now \<le> t")
  case True
  have old: "\<forall>s\<in>set history. s \<le> now" using assms(1,2) by (auto simp: tracks_def)
  have "counted period t history \<le> length (recent period now history)" using counted_recent [OF old True] .
  also have "\<dots> < limit" using assms(1,2,3) accept_iff by (simp add: tracks_def)
  finally show ?thesis by (simp add: counted_append) (simp add: counted_def)
next
  case False
  then show ?thesis using assms(4) [of t] by (simp add: counted_append) (simp add: counted_def)
qed

lemma admitted_bound:
  assumes "tracks n history ts" and "sorted (n # later)" and "\<And>t. counted period t history \<le> limit"
  shows "counted period t (history @ admitted accept ts later) \<le> limit"
  using assms
proof (induction later arbitrary: n history ts)
  case Nil
  then show ?case by simp
next
  case (Cons now later)
  then have le: "n \<le> now" and sorted: "sorted (now # later)" by auto
  obtain ok ts' where a: "accept now ts = (ok, ts')" by fastforce
  show ?case
  proof (cases ok)
    case True
    have "tracks now (history @ [now]) ts'" using tracks_accepted [OF Cons.prems(1) le] a True by simp
    moreover have "\<And>t. counted period t (history @ [now]) \<le> limit"
      using accepted_bound [OF Cons.prems(1) le _ Cons.prems(3)] a True by simp
    ultimately have "counted period t ((history @ [now]) @ admitted accept ts' later) \<le> limit"
      using Cons.IH sorted by blast
    then show ?thesis using a True by simp
  next
    case False
    have "tracks now history ts'" using tracks_refused [OF Cons.prems(1) le] a False by simp
    then show ?thesis using Cons.IH sorted Cons.prems(3) a False by simp
  qed
qed

lemma never_more_than_limit:
  assumes "sorted events"
  shows "counted period t (admitted accept [] events) \<le> limit"
proof (cases events)
  case Nil
  then show ?thesis by (simp add: counted_def)
next
  case (Cons n later)
  have "tracks n [] []" by (simp add: tracks_def)
  then show ?thesis using admitted_bound [of n "[]" "[]" events t] assms Cons by (simp add: counted_def)
qed

end

interpretation admin_window: sliding_window ADMIN_LIMIT ADMIN_PERIOD admit
  by unfold_locales (auto simp: admit_def Let_def)

text \<open>A request reaches its route when what comes of it depends on the route.\<close>

definition reaches :: "bool \<Rightarrow> 'b web_env \<Rightarrow> web_request \<Rightarrow> 'b web \<Rightarrow> bool" where
  "reaches tls env rq w \<longleftrightarrow> (\<exists>route1 route2. serve tls env route1 rq w \<noteq> serve tls env route2 rq w)"

text \<open>The times of the changing requests to administrative paths, from one client, that reach their routes: any requests of any
  clients, each with the session its cookie holds, go through the whole chain.\<close>

fun reached_at ::
  "bool \<Rightarrow> 'b web handler \<Rightarrow> string \<Rightarrow> ('b web_env \<times> entry \<times> web_request) list \<Rightarrow> 'b web \<Rightarrow> time list" where
  "reached_at tls route ip [] w = []"
| "reached_at tls route ip ((env, cookie, rq) # later) w =
     (let w0 = w\<lparr>wb_session := cookie\<rparr> in
      (if client_key rq = ip \<and> admin_limited rq \<and> reaches tls env rq w0 then [we_now env] else [])
        @ reached_at tls route ip later (snd (serve tls env route rq w0)))"

definition close_answer :: "bool \<Rightarrow> 'b web_env \<Rightarrow> entry \<Rightarrow> web_response res \<times> 'b web \<Rightarrow> web_response \<times> 'b web" where
  "close_answer tls env s p =
     (case fst p of Inl e \<Rightarrow> (unhandled_error (we_error_id env), (snd p)\<lparr>wb_session := s\<rparr>)
                  | Inr r \<Rightarrow> (harden tls r, snd p))"

lemma close_answer_window [simp]: "wb_window (snd (close_answer tls env s p)) = wb_window (snd p)"
  by (simp add: close_answer_def split: sum.splits)

lemma csrf_gate_cases:
  obtains (stopped) r w1 where "\<And>h. csrf_gate env h rq w = (r, w1)" "wb_window w1 = wb_window w"
  | (past) w1 where "\<And>h. csrf_gate env h rq w = h rq w1" "wb_window w1 = wb_window w"
proof -
  let ?w1 = "w\<lparr>wb_session := get_csrf_token (we_token env) (wb_session w)\<rparr>"
  show thesis
  proof (cases "csrf_checked rq \<and> csrf_valid rq (wb_session ?w1) \<noteq> Inr True")
    case True
    then obtain r where "\<And>h. csrf_gate env h rq w = (r, ?w1)"
      by (cases "csrf_valid rq (wb_session ?w1)") (auto simp: csrf_gate_def Let_def)
    then show thesis using stopped [of r ?w1] by simp
  next
    case False
    then have "\<And>h. csrf_gate env h rq w = h rq ?w1" by (auto simp: csrf_gate_def Let_def)
    then show thesis using past [of ?w1] by simp
  qed
qed

lemma auth_gate_cases:
  obtains (stopped) r w1 where "\<And>h. auth_gate env h rq w = (r, w1)" "wb_window w1 = wb_window w"
  | (past) w1 where "\<And>h. auth_gate env h rq w = h rq w1" "wb_window w1 = wb_window w"
proof -
  obtain ex d where d: "admin_exists (we_crypto env) (wb_creds w) = (ex, d)" by fastforce
  obtain v d2 where v: "get_session_version (we_crypto env) d = (v, d2)" by fastforce
  let ?w1 = "w\<lparr>wb_creds := d\<rparr>" and ?w2 = "w\<lparr>wb_creds := d2\<rparr>"
  consider (public) "public_path (wr_path rq)"
    | (gone) "\<not> public_path (wr_path rq)" "\<not> ex"
    | (out) "\<not> public_path (wr_path rq)" "ex" "\<not> session_flag (wb_session w) ''authenticated''"
    | (error) e where "\<not> public_path (wr_path rq)" "ex" "session_flag (wb_session w) ''authenticated''" "v = Inl e"
    | (version) n where "\<not> public_path (wr_path rq)" "ex" "session_flag (wb_session w) ''authenticated''" "v = Inr n"
    by (cases v) blast+
  then show thesis
  proof cases
    case public
    then show thesis using past [of w] by (simp add: auth_gate_def)
  next
    case gone
    then show thesis using stopped [of "Inr (redirect 302 ''/setup'')" ?w1] d by (simp add: auth_gate_def)
  next
    case out
    then show thesis using stopped [of "Inr (login_redirect (wr_path rq))" ?w1] d by (simp add: auth_gate_def)
  next
    case error
    then show thesis using stopped [of "Inl e" ?w2] d v by (simp add: auth_gate_def version_gate_def)
  next
    case version
    then show thesis
      using stopped [of "Inr (login_redirect (wr_path rq))" "?w2\<lparr>wb_session := []\<rparr>"] past [of ?w2] d v
      by (cases "json_number (get_or (dict_get (wb_session w) ''session_version'') JNull) = Some n")
        (simp_all add: auth_gate_def version_gate_def)
  qed
qed

lemma serve_cases:
  obtains (stopped) p where "\<And>route. serve tls env route rq w = p" "wb_window (snd p) = wb_window w"
  | (limited) w1 where "wb_window w1 = wb_window w"
      "\<And>route. serve tls env route rq w =
         close_answer tls env (wb_session w) (admin_limit env (access_log env (request_id env route)) rq w1)"
proof (cases "tls \<and> wr_scheme rq = ''http''")
  case True
  then show thesis using stopped [of "(redirect 301 (https_url (wr_url rq)), w)"]
    by (simp add: serve_def middlewares_def https_redirect_def)
next
  case False
  let ?chain = "\<lambda>route. csrf_gate env (auth_gate env (admin_limit env (access_log env (request_id env route)))) rq w"
  have "middlewares tls env route rq w = security_headers tls (session_layer (csrf_gate env (auth_gate env
      (admin_limit env (access_log env (request_id env route)))))) rq w" for route
    using False by (auto simp: middlewares_def https_redirect_def)
  then have serve: "serve tls env route rq w = close_answer tls env (wb_session w) (?chain route)" for route
    by (simp add: serve_def security_headers_def session_layer_def close_answer_def split: sum.splits prod.splits)
  show thesis
  proof (cases rule: csrf_gate_cases [of env rq w])
    case (stopped r w1)
    then show thesis using that(1) serve by simp
  next
    case (past w1)
    note csrf = this
    show thesis
    proof (cases rule: auth_gate_cases [of env rq w1])
      case (stopped r w2)
      then show thesis using that(1) serve csrf by simp
    next
      case (past w2)
      then show thesis using that(2) [of w2] serve csrf by simp
    qed
  qed
qed

lemma serve_window:
  assumes "\<And>rq w. wb_window (snd (route rq w)) = wb_window w"
  shows "wb_window (snd (serve tls env route rq w)) = wb_window w \<and> \<not> (admin_limited rq \<and> reaches tls env rq w)
    \<or> (\<not> admin_limited rq \<and> wb_window (snd (serve tls env route rq w)) = wb_window w)
    \<or> (admin_limited rq \<and> reaches tls env rq w \<and> fst (admit (we_now env) (get_or (dict_get (wb_window w) (client_key rq)) []))
        \<and> wb_window (snd (serve tls env route rq w)) =
           dict_set (client_key rq) (snd (admit (we_now env) (get_or (dict_get (wb_window w) (client_key rq)) []))) (wb_window w))"
proof (cases rule: serve_cases [of tls env rq w])
  case (stopped p)
  then show ?thesis by (auto simp: reaches_def)
next
  case (limited w1)
  let ?inner = "access_log env (request_id env route)"
  have inner: "wb_window (snd (?inner rq v)) = wb_window v" for rq v
    using assms by (auto simp: access_log_def request_id_def split: sum.splits prod.splits) (metis snd_conv)+
  obtain ok ts where a: "admit (we_now env) (get_or (dict_get (wb_window w) (client_key rq)) []) = (ok, ts)" by fastforce
  consider "\<not> admin_limited rq" | "admin_limited rq" "ok" | "admin_limited rq" "\<not> ok" by blast
  then show ?thesis
  proof cases
    case 1
    then show ?thesis using limited inner by (simp add: admin_limit_def)
  next
    case 2
    have "ws_status (fst (serve tls env (\<lambda>rq w. (Inr (html n []), w)) rq w)) = n" for n
      using limited 2 a by (simp add: admin_limit_def access_log_def request_id_def close_answer_def harden_def Let_def html_def)
    then have "reaches tls env rq w" unfolding reaches_def by (metis zero_neq_one)
    then show ?thesis using limited inner a 2 by (simp add: admin_limit_def)
  next
    case 3
    have "serve tls env r rq w = close_answer tls env (wb_session w) (Inr too_many_requests, w1)" for r
      using limited 3 a by (simp add: admin_limit_def)
    then have "\<not> reaches tls env rq w" "wb_window (snd (serve tls env route rq w)) = wb_window w"
      using limited(1) by (simp_all add: reaches_def)
    then show ?thesis by blast
  qed
qed

lemma reached_admitted:
  assumes "\<And>rq w. wb_window (snd (route rq w)) = wb_window w" and "sorted (map (we_now \<circ> fst) reqs)"
  shows "\<exists>events. sorted events \<and> set events \<subseteq> set (map (we_now \<circ> fst) reqs)
    \<and> reached_at tls route ip reqs w = admitted admit (get_or (dict_get (wb_window w) ip) []) events"
  using assms(2)
proof (induction reqs arbitrary: w)
  case Nil
  show ?case by (intro exI [of _ "[]"]) simp
next
  case (Cons x reqs)
  obtain env cookie rq where x: "x = (env, cookie, rq)" by (metis prod.collapse)
  let ?w0 = "w\<lparr>wb_session := cookie\<rparr>"
  let ?w' = "snd (serve tls env route rq ?w0)"
  have "sorted (map (we_now \<circ> fst) reqs)" using Cons.prems by (simp add: comp_def)
  from Cons.IH [OF this, of ?w'] obtain events where ev: "sorted events" "set events \<subseteq> set (map (we_now \<circ> fst) reqs)"
      "reached_at tls route ip reqs ?w' = admitted admit (get_or (dict_get (wb_window ?w') ip) []) events" by blast
  have sorted: "sorted (we_now env # events)" using ev(1,2) Cons.prems x by auto
  consider (same) "wb_window ?w' = wb_window w" "\<not> (client_key rq = ip \<and> admin_limited rq \<and> reaches tls env rq ?w0)"
    | (other) "client_key rq \<noteq> ip" "dict_get (wb_window ?w') ip = dict_get (wb_window w) ip"
    | (counts) ts where "client_key rq = ip" "admin_limited rq" "reaches tls env rq ?w0"
        "admit (we_now env) (get_or (dict_get (wb_window w) ip) []) = (True, ts)" "dict_get (wb_window ?w') ip = Some ts"
    using serve_window [where route = route and tls = tls and env = env and rq = rq and w = "?w0", OF assms(1)]
    by (cases "client_key rq = ip"; cases "admit (we_now env) (get_or (dict_get (wb_window w) (client_key rq)) [])")
      (auto simp: dict_simps)
  then show ?case
  proof cases
    case same
    then show ?thesis using ev x by (intro exI [of _ events]) auto
  next
    case other
    then show ?thesis using ev x by (intro exI [of _ events]) auto
  next
    case counts
    then show ?thesis using ev sorted x by (intro exI [of _ "we_now env # events"]) auto
  qed
qed

text \<open>C31. From one client at most 30 changing requests to administrative paths reach their routes in any 60 seconds, whatever
  it and others send and whatever the routes do.\<close>
theorem admin_requests_limited:
  assumes "\<And>rq w. wb_window (snd (route rq w)) = wb_window w" and "sorted (map (we_now \<circ> fst) reqs)" and "wb_window w = []"
  shows "counted 60 t (reached_at tls route ip reqs w) \<le> 30"
proof -
  obtain events where "sorted events" "reached_at tls route ip reqs w = admitted admit [] events"
    using reached_admitted [where route = route and tls = tls and ip = ip and w = w, OF assms(1,2)] assms(3)
    by auto
  then show ?thesis using admin_window.never_more_than_limit [of events t] by (simp add: ADMIN_LIMIT_def ADMIN_PERIOD_def)
qed

definition save_request :: web_request where
  "save_request = home_request\<lparr>wr_method := ''POST'', wr_path := ''/admin/hosts/add''\<rparr>"

theorem admin_requests_limited_witness:
  "counted 60 1000 (reached_at False ok_route ''10.0.0.9'' (replicate 40 (demo_web_env, [], save_request)) demo_web) \<le> 30"
proof (rule admin_requests_limited)
  show "wb_window (snd (ok_route rq w)) = wb_window w" for rq and w :: "(string \<times> store) web"
    by (simp add: ok_route_def)
  show "sorted (map (we_now \<circ> fst) (replicate 40 (demo_web_env, [] :: entry, save_request)))" by (simp add: map_replicate_const)
  show "wb_window demo_web = []" by (simp add: demo_web_def)
qed

subsection \<open>What leaves the application\<close>

definition hardened :: "bool \<Rightarrow> web_response \<Rightarrow> bool" where
  "hardened tls r \<longleftrightarrow> dict_get (ws_headers r) ''X-Content-Type-Options'' = Some ''nosniff''
     \<and> dict_get (ws_headers r) ''X-Frame-Options'' = Some ''DENY''
     \<and> dict_get (ws_headers r) ''Referrer-Policy'' = Some ''no-referrer''
     \<and> dict_get (ws_headers r) ''Content-Security-Policy-Report-Only'' = Some CSP_REPORT_ONLY
     \<and> (tls \<longrightarrow> dict_get (ws_headers r) ''Strict-Transport-Security'' = Some HSTS_VALUE)"

lemma harden_hardened: "hardened tls (harden tls r)"
  by (simp add: hardened_def harden_def Let_def dict_simps)

text \<open>Every answer of a route or a gate carries the security headers; the only answers without them are the
  redirect to HTTPS and the error of an unhandled exception, which tells its id and nothing else.\<close>
theorem answers_are_hardened:
  "hardened tls (fst (serve tls env route rq w))
    \<or> (tls \<and> wr_scheme rq = ''http'' \<and> serve tls env route rq w = (redirect 301 (https_url (wr_url rq)), w))
    \<or> (fst (serve tls env route rq w) = unhandled_error (we_error_id env)
        \<and> wb_session (snd (serve tls env route rq w)) = wb_session w)"
  by (auto simp: serve_def middlewares_def https_redirect_def security_headers_def session_layer_def harden_hardened
      split: sum.splits prod.splits)

lemma unhandled_error_not_hardened: "\<not> hardened tls (unhandled_error uuid)"
  by (simp add: hardened_def unhandled_error_def)

lemma safe_headers_redacted:
  "(k, v) \<in> set (safe_headers hs) \<Longrightarrow> py_lower k \<in> set REDACT_HEADERS \<Longrightarrow> v = ''[redacted]''"
  by (auto simp: safe_headers_def)

definition log_safe :: "access_line list \<Rightarrow> bool" where
  "log_safe ls \<longleftrightarrow> (\<forall>l\<in>set ls. \<forall>(k, v)\<in>set (al_headers l). py_lower k \<in> set REDACT_HEADERS \<longrightarrow> v = ''[redacted]'')"

lemma access_log_safe:
  assumes "\<And>rq w. log_safe (wb_access w) \<Longrightarrow> log_safe (wb_access (snd (h rq w)))" and "log_safe (wb_access w)"
  shows "log_safe (wb_access (snd (access_log env h rq w)))"
  using assms(1) [OF assms(2), of rq] safe_headers_redacted
  by (fastforce simp: access_log_def log_safe_def split: sum.splits prod.splits)

end
