(* ===== verification/Login.thy ===== *)
theory Login
  imports WebStack PyUrl
begin

section \<open>Sign-in and recovery (app/auth_router.py, app/audit.py)\<close>

text \<open>
  The login page with its lockout, logging out, the reset of a forgotten password by the backup
  key and the steps of the setup wizard that create the account.  A page is its template with the
  values that depend on the request; the audit log gets one line per event, without its time and
  request id.
\<close>

subsection \<open>Where to go after signing in\<close>

definition safe_next_url :: "string \<Rightarrow> string res" where
  "safe_next_url url =
     (if url = [] then Inr ''/home''
      else res_bind (urlsplit url) (\<lambda>p.
        Inr (if su_scheme p \<noteq> [] \<or> su_netloc p \<noteq> [] then ''/home''
             else if \<not> starts_with (su_path p) ''/'' \<or> starts_with (su_path p) ''//'' then ''/home''
             else if CHR 0x5C \<in> set url then ''/home''
             else url)))"

subsection \<open>Client addresses and the audit log\<close>

definition forwarded_for :: "web_request \<Rightarrow> string option" where
  "forwarded_for rq =
     (case request_header rq ''X-Forwarded-For'' of
        Some f \<Rightarrow> if f \<noteq> [] then Some (py_strip (hd (split_char CHR '','' f))) else None
      | None \<Rightarrow> None)"

definition client_ip :: "web_request \<Rightarrow> string res" where
  "client_ip rq =
     (case forwarded_for rq of
        Some ip \<Rightarrow> Inr ip
      | None \<Rightarrow> (case wr_client rq of
                  Some ip \<Rightarrow> Inr ip
                | None \<Rightarrow> raise ''AttributeError'' ''no attribute host''))"

definition source_ip :: "web_request \<Rightarrow> string" where
  "source_ip rq = get_or (forwarded_for rq) (get_or (wr_client rq) ''unknown'')"

definition audit :: "web_request \<Rightarrow> string \<Rightarrow> string \<Rightarrow> string \<Rightarrow> string \<Rightarrow> 'b web \<Rightarrow> 'b web" where
  "audit rq action target result actor w =
     w\<lparr>wb_audit := wb_audit w @ [\<lparr>au_actor = actor, au_source = source_ip rq, au_action = action,
        au_target = target, au_result = result\<rparr>]\<rparr>"

subsection \<open>The lockout\<close>

definition MAX_ATTEMPTS :: nat where "MAX_ATTEMPTS = 5"
definition LOCKOUT_SECONDS :: time where "LOCKOUT_SECONDS = 900"

type_synonym attempts = "(string \<times> time list) list"

definition attempts_of :: "attempts \<Rightarrow> string \<Rightarrow> time list" where
  "attempts_of a ip = get_or (dict_get a ip) []"

definition check_rate_limit :: "time \<Rightarrow> string \<Rightarrow> attempts \<Rightarrow> (bool \<times> int) \<times> attempts" where
  "check_rate_limit now ip a =
     (let ts = recent LOCKOUT_SECONDS now (attempts_of a ip) in
      (if length ts \<ge> MAX_ATTEMPTS then (False, \<lfloor>LOCKOUT_SECONDS - (now - hd ts)\<rfloor>) else (True, 0),
       dict_set ip ts a))"

definition record_failure :: "time \<Rightarrow> string \<Rightarrow> attempts \<Rightarrow> attempts" where
  "record_failure now ip a = dict_set ip (attempts_of a ip @ [now]) a"

definition clear_attempts :: "string \<Rightarrow> attempts \<Rightarrow> attempts" where
  "clear_attempts ip a = dict_pop ip a"

subsection \<open>The login page\<close>

definition read_admin :: "'b web_env \<Rightarrow> 'b web \<Rightarrow> entry \<times> 'b web" where
  "read_admin env w =
     (let (e, d) = get_integration_credentials (we_crypto env) None ''admin'' (wb_creds w) in (e, w\<lparr>wb_creds := d\<rparr>))"

definition login_form :: "'b web_env \<Rightarrow> bool \<Rightarrow> string option \<Rightarrow> 'b web \<Rightarrow> web_response \<times> 'b web" where
  "login_form env needs_username error w =
     (let (mfa, d) = mfa_enrolled (we_crypto env) (wb_creds w) in
      (page ''login.html''
         ([(''needs_mfa'', JBool mfa), (''needs_username'', JBool needs_username)]
           @ (case error of None \<Rightarrow> [] | Some m \<Rightarrow> [(''error'', JStr m)])),
       w\<lparr>wb_creds := d\<rparr>))"

definition login_page :: "'b web_env \<Rightarrow> 'b web handler" where
  "login_page env rq w =
     (let (exists, d) = admin_exists (we_crypto env) (wb_creds w); w1 = w\<lparr>wb_creds := d\<rparr> in
      if \<not> exists then (Inr (redirect 302 ''/setup''), w1)
      else if session_flag (wb_session w1) ''authenticated'' then (Inr (redirect 302 ''/''), w1)
      else let (mfa, d2) = mfa_enrolled (we_crypto env) d; (e, w2) = read_admin env (w1\<lparr>wb_creds := d2\<rparr>) in
           (Inr (page ''login.html'' [(''needs_mfa'', JBool mfa), (''needs_username'', JBool (field_truthy e ''username''))]), w2))"

definition plural :: "int \<Rightarrow> string" where
  "plural n = (if n \<noteq> 1 then ''s'' else [])"

definition locked_message :: "int \<Rightarrow> string" where
  "locked_message remaining =
     (let mins = remaining div 60 + 1
      in ''Too many failed attempts. Try again in '' @ show_int mins @ '' minute'' @ plural mins @ ''.'')"

definition failed_message :: "bool \<Rightarrow> int \<Rightarrow> string" where
  "failed_message allowed left =
     (if \<not> allowed then ''Too many failed attempts. Account locked for 15 minutes.''
      else if left \<le> 2
      then ''Incorrect credentials. '' @ show_int left @ '' attempt'' @ plural left @ '' remaining before lockout.''
      else ''Incorrect username, password, or authenticator code.'')"

record login_data =
  ld_username :: string
  ld_password :: string
  ld_code :: string
  ld_remember :: string

definition credentials_ok :: "'b web_env \<Rightarrow> login_data \<Rightarrow> 'b web \<Rightarrow> bool \<times> 'b web" where
  "credentials_ok env f w =
     (let (ok, d) = verify_login (we_lib env) (we_crypto env) (ld_username f) (ld_password f) (wb_creds w) in
      if ok
      then let (mfa, d2) = mfa_enrolled (we_crypto env) d in
           if mfa then let (ok2, d3) = verify_totp (we_lib env) (we_crypto env) (ld_code f) d2 in (ok2, w\<lparr>wb_creds := d3\<rparr>)
           else (True, w\<lparr>wb_creds := d2\<rparr>)
      else (False, w\<lparr>wb_creds := d\<rparr>))"

definition actor_of :: "string \<Rightarrow> string" where
  "actor_of username = or_s (Some (py_strip username)) ''unknown''"

definition login_failed :: "'b web_env \<Rightarrow> web_request \<Rightarrow> string \<Rightarrow> bool \<Rightarrow> login_data \<Rightarrow> 'b web \<Rightarrow> web_response \<times> 'b web" where
  "login_failed env rq ip needs_username f w =
     (let ((allowed, remaining), a) =
            check_rate_limit (we_now env) ip (record_failure (we_now env) ip (wb_attempts w));
          left = int MAX_ATTEMPTS - int (length (attempts_of a ip))
      in login_form env needs_username (Some (failed_message allowed left))
           (audit rq ''auth.login.failure'' [] ''denied'' (actor_of (ld_username f)) (w\<lparr>wb_attempts := a\<rparr>)))"

text \<open>A missing policy flag is healed while the password is at hand; a short one is noted.\<close>

definition heal_policy :: "'b web_env \<Rightarrow> login_data \<Rightarrow> 'b web \<Rightarrow> unit res \<times> 'b web" where
  "heal_policy env f w =
     (let (e, w1) = read_admin env w in
      if field_truthy e ''password_meets_policy'' then (Inr (), w1)
      else if MIN_PASSWORD_LEN \<le> length (ld_password f)
      then let (r, d) = save_integration_credentials (we_crypto env) ''admin''
                          [(''password_meets_policy'', Some (JBool True))] (wb_creds w1) in
           (r, w1\<lparr>wb_creds := d\<rparr>)
      else (Inr (), w1\<lparr>wb_session := dict_set ''show_password_notice'' (JBool True) (wb_session w1)\<rparr>))"

definition start_session :: "'b web_env \<Rightarrow> login_data \<Rightarrow> 'b web handler" where
  "start_session env f rq w =
     (let (v, d) = get_session_version (we_crypto env) (wb_creds w); w1 = w\<lparr>wb_creds := d\<rparr> in
      case v of
        Inl e \<Rightarrow> (Inl e, w1)
      | Inr n \<Rightarrow>
          (case heal_policy env f (w1\<lparr>wb_session :=
                  [(''authenticated'', JBool True), (''session_version'', JNum n)]
                  @ (if ld_remember f = ''on'' then [(''remember_me'', JBool True)] else [])\<rparr>) of
             (Inl e, w2) \<Rightarrow> (Inl e, w2)
           | (Inr _, w2) \<Rightarrow>
               (res_bind (safe_next_url (get_or (dict_get (wr_query rq) ''next'') ''/home'')) (\<lambda>u. Inr (redirect 303 u)), w2)))"

definition login_submit :: "'b web_env \<Rightarrow> login_data \<Rightarrow> 'b web handler" where
  "login_submit env f rq w =
     (case client_ip rq of
        Inl e \<Rightarrow> (Inl e, w)
      | Inr ip \<Rightarrow>
          let ((allowed, remaining), a) = check_rate_limit (we_now env) ip (wb_attempts w);
              (e, w1) = read_admin env (w\<lparr>wb_attempts := a\<rparr>); needs = field_truthy e ''username''
          in if \<not> allowed
             then let (p, w2) = login_form env needs (Some (locked_message remaining)) w1 in (Inr p, w2)
             else let (ok, w2) = credentials_ok env f w1 in
                  if \<not> ok then let (p, w3) = login_failed env rq ip needs f w2 in (Inr p, w3)
                  else start_session env f rq
                         (audit rq ''auth.login.success'' [] ''ok'' (actor_of (ld_username f))
                           (w2\<lparr>wb_attempts := clear_attempts ip (wb_attempts w2)\<rparr>)))"

definition logout :: "'b web handler" where
  "logout rq w = (Inr (redirect 303 ''/login''), w\<lparr>wb_session := []\<rparr>)"

subsection \<open>A forgotten password\<close>

definition forgot_page :: "string \<Rightarrow> entry \<Rightarrow> web_response" where
  "forgot_page step1 extra = page ''forgot_password.html'' ((''step'', JStr step1) # extra)"

definition forgot_password_page :: "'b web handler" where
  "forgot_password_page rq w = (Inr (forgot_page ''key'' []), w)"

definition forgot_password_submit :: "'b web_env \<Rightarrow> string \<Rightarrow> 'b web handler" where
  "forgot_password_submit env backup_key rq w =
     (let (ok, d) = verify_backup_key (we_lib env) (we_crypto env) backup_key (wb_creds w); w1 = w\<lparr>wb_creds := d\<rparr> in
      if \<not> ok then (Inr (forgot_page ''key'' [(''error'', JStr ''That backup key is not correct.'')]), w1)
      else (Inr (forgot_page ''reset'' []),
            w1\<lparr>wb_session := dict_set ''recovery_verified'' (JBool True) (wb_session w1)\<rparr>))"

definition password_errors :: "string \<Rightarrow> string \<Rightarrow> string list" where
  "password_errors password confirm =
     (if length password < MIN_PASSWORD_LEN
      then [''Password must be at least '' @ show_nat MIN_PASSWORD_LEN @ '' characters.''] else [])
     @ (if password \<noteq> confirm then [''Passwords do not match.''] else [])"

definition forgot_password_reset :: "'b web_env \<Rightarrow> string \<Rightarrow> string \<Rightarrow> 'b web handler" where
  "forgot_password_reset env password confirm rq w =
     (if \<not> session_flag (wb_session w) ''recovery_verified'' then (Inr (redirect 302 ''/forgot-password''), w)
      else let errors = password_errors password confirm in
           if errors \<noteq> [] then (Inr (forgot_page ''reset'' [(''errors'', JList (map JStr errors))]), w)
           else let (r, d) = change_password (we_lib env) (we_crypto env) password (wb_creds w); w1 = w\<lparr>wb_creds := d\<rparr> in
                case r of
                  Inl e \<Rightarrow> (Inl e, w1)
                | Inr _ \<Rightarrow> (Inr (forgot_page ''done'' []),
                    w1\<lparr>wb_session := dict_pop ''show_password_notice'' (dict_pop ''recovery_verified'' (wb_session w1))\<rparr>))"

subsection \<open>The steps of the wizard that create the account\<close>

definition name_char :: "char \<Rightarrow> bool" where
  "name_char c \<longleftrightarrow> is_lower c \<or> is_upper c \<or> is_digit c \<or> c \<in> set ''_-''"

definition account_errors :: "string \<Rightarrow> string \<Rightarrow> string \<Rightarrow> string list" where
  "account_errors username password confirm =
     (if length username < 2 then [''Username must be at least 2 characters.'']
      else if \<not> list_all name_char username
      then [''Username may only contain letters, numbers, hyphens, and underscores.''] else [])
     @ password_errors password confirm"

definition when_no_admin :: "'b web_env \<Rightarrow> 'b web handler \<Rightarrow> 'b web handler" where
  "when_no_admin env h rq w =
     (let (exists, d) = admin_exists (we_crypto env) (wb_creds w); w1 = w\<lparr>wb_creds := d\<rparr> in
      if exists then (Inr (redirect 302 ''/login''), w1) else h rq w1)"

definition setup_account :: "'b web_env \<Rightarrow> 'b web handler" where
  "setup_account env = when_no_admin env (\<lambda>rq w. (Inr (page ''setup_account.html'' []), w))"

definition setup_account_submit :: "'b web_env \<Rightarrow> string \<Rightarrow> string \<Rightarrow> string \<Rightarrow> 'b web handler" where
  "setup_account_submit env username0 password confirm =
     when_no_admin env (\<lambda>rq w.
       let username = py_strip username0; errors = account_errors username password confirm in
       if errors \<noteq> []
       then (Inr (page ''setup_account.html''
               [(''errors'', JList (map JStr errors)), (''username_value'', JStr username)]), w)
       else let (r, d) = create_admin (we_lib env) (we_crypto env) (we_hex env) username password None (wb_creds w);
                w1 = w\<lparr>wb_creds := d\<rparr>
            in case r of
                 Inl e \<Rightarrow> (Inl e, w1)
               | Inr backup_key \<Rightarrow> (Inr (redirect 303 ''/setup/security''),
                   w1\<lparr>wb_session := dict_set ''setup_backup_key'' (JStr backup_key)
                      (dict_set ''setup_account_done'' (JBool True) (wb_session w1))\<rparr>))"

definition setup_security :: "'b web_env \<Rightarrow> 'b web handler" where
  "setup_security env rq w =
     (if \<not> session_flag (wb_session w) ''setup_account_done'' then (Inr (redirect 302 ''/login''), w)
      else (Inr (page ''setup_security.html'' [(''totp_secret'', JStr (we_totp env))]),
            w\<lparr>wb_session := dict_set ''setup_totp_secret'' (JStr (we_totp env)) (wb_session w)\<rparr>))"

definition setup_security_submit :: "'b web_env \<Rightarrow> string \<Rightarrow> string \<Rightarrow> 'b web handler" where
  "setup_security_submit env enable_mfa code rq w =
     (if \<not> session_flag (wb_session w) ''setup_account_done'' then (Inr (redirect 302 ''/login''), w)
      else if enable_mfa = ''on''
      then let session_secret = str_field (wb_session w) ''setup_totp_secret'' in
           if session_secret = [] \<or> \<not> al_totp (we_lib env) session_secret (py_strip code)
           then let secret = or_s (Some session_secret) (we_totp env) in
                (Inr (page ''setup_security.html'' [(''totp_secret'', JStr secret),
                   (''errors'', JList [JStr (''Authenticator code is incorrect. Make sure your phone'' @ [QUOTE]
                      @ ''s time is synced and try again.'')]), (''enable_mfa_checked'', JBool True)]),
                 w\<lparr>wb_session := dict_set ''setup_totp_secret'' (JStr secret) (wb_session w)\<rparr>)
           else let (r, d) = enroll_mfa (we_crypto env) session_secret (wb_creds w); w1 = w\<lparr>wb_creds := d\<rparr> in
                case r of
                  Inl e \<Rightarrow> (Inl e, w1)
                | Inr _ \<Rightarrow> (Inr (redirect 303 ''/setup/recovery-code''),
                    w1\<lparr>wb_session := dict_pop ''setup_totp_secret'' (wb_session w1)\<rparr>)
      else (Inr (redirect 303 ''/setup/recovery-code''), w))"

definition setup_recovery_code :: "'b web handler" where
  "setup_recovery_code rq w =
     (let backup_key = get_or (dict_get (wb_session w) ''setup_backup_key'') JNull in
      if \<not> json_truthy backup_key then (Inr (redirect 302 ''/login''), w)
      else (Inr (page ''setup_recovery.html'' [(''backup_key'', backup_key)]), w))"

definition setup_recovery_code_confirm :: "'b web handler" where
  "setup_recovery_code_confirm rq w =
     (Inr (redirect 303 ''/setup/connect''),
      w\<lparr>wb_session := dict_pop ''setup_account_done'' (dict_pop ''setup_backup_key'' (wb_session w))\<rparr>)"

subsection \<open>Where a sign-in may lead\<close>

lemma cut_at_fst: "fst (cut_at c u) = takeWhile (\<lambda>x. x \<noteq> c) u"
proof (cases "c \<in> set u")
  case True
  then obtain a b where u: "u = a @ c # b" "c \<notin> set a" by (meson split_list_first)
  then have "split_once [c] u = Some (a, b)" using split_once_char [of c a b] by simp
  moreover have "takeWhile (\<lambda>x. x \<noteq> c) u = a" unfolding u(1) using u(2) by (induction a) auto
  ultimately show ?thesis by (simp add: cut_at_def)
next
  case False
  then have "split_once [c] u = None" by (rule split_once_char_None)
  moreover have "takeWhile (\<lambda>x. x \<noteq> c) u = u" using False by (subst takeWhile_eq_all_conv) auto
  ultimately show ?thesis by (simp only: cut_at_def option.case fst_conv)
qed

definition url_path_of :: "string \<Rightarrow> string" where
  "url_path_of u = takeWhile (\<lambda>x. x \<noteq> CHR ''?'') (takeWhile (\<lambda>x. x \<noteq> CHR ''#'') u)"

lemma url_path_of_slashes [simp]:
  "starts_with (url_path_of u) ''/'' \<longleftrightarrow> starts_with u ''/''"
  "starts_with (url_path_of u) ''//'' \<longleftrightarrow> starts_with u ''//''"
  by (cases u; cases "tl u"; auto simp: url_path_of_def)+

lemma split_path:
  assumes "urlsplit url = Inr p" and "su_scheme p = []" and "su_netloc p = []"
  shows "su_path p = url_path_of (if starts_with (url_clean url) ''//'' then drop 2 (url_clean url) else url_clean url)"
proof -
  let ?u = "url_clean url"
  have nl: "py_lower x = [] \<longleftrightarrow> x = []" for x by (simp add: py_lower_def)
  obtain s u1 where s: "url_scheme ?u = (s, u1)" by fastforce
  with assms(1,2) have "s = []" by (auto simp: urlsplit_def Let_def split: prod.splits if_splits)
  with s have u1: "url_scheme ?u = ([], ?u)" by (auto simp: url_scheme_def nl split: option.splits prod.splits if_splits)
  obtain n u2 where n: "url_netloc ?u = (n, u2)" by fastforce
  obtain a fr where a: "cut_at CHR ''#'' u2 = (a, fr)" by fastforce
  obtain b q where b: "cut_at CHR ''?'' a = (b, q)" by fastforce
  have "n = []" and "su_path p = b" using assms u1 n a b by (auto simp: urlsplit_def split: if_splits)
  moreover have "b = url_path_of u2" using cut_at_fst [of "CHR ''#''" u2] cut_at_fst [of "CHR ''?''" a] a b
    by (simp add: url_path_of_def)
  moreover have "u2 = (if starts_with ?u ''//'' then drop 2 ?u else ?u)"
    using n \<open>n = []\<close> by (auto simp: url_netloc_def takeWhile_eq_Nil_iff dropWhile_eq_self_iff split: if_splits)
  ultimately show ?thesis by simp
qed

text \<open>Wherever the address asks to go after a sign-in, the redirect goes to the home page or to an address
  that has neither a scheme nor a backslash and begins, as a browser reads it, with one slash; or with exactly
  three of them, which the check lets through.\<close>
theorem next_url_is_a_path:
  assumes "safe_next_url url = Inr u"
  shows "u = ''/home'' \<or> (CHR 0x5C \<notin> set u \<and> starts_with (url_clean u) ''/''
    \<and> (starts_with (url_clean u) ''//'' \<longrightarrow> starts_with (url_clean u) ''///'' \<and> \<not> starts_with (url_clean u) ''////''))"
proof (cases "u = ''/home''")
  case False
  then obtain p where p: "urlsplit url = Inr p" and u: "u = url" "su_scheme p = []" "su_netloc p = []"
      "starts_with (su_path p) ''/''" "\<not> starts_with (su_path p) ''//''" "CHR 0x5C \<notin> set url"
    using assms by (auto simp: safe_next_url_def res_bind_Inr_iff split: if_splits)
  show ?thesis
  proof (cases "starts_with (url_clean url) ''//''")
    case True
    then obtain v where v: "url_clean url = ''//'' @ v" by (auto simp: prefix_def)
    then have "starts_with v ''/''" "\<not> starts_with v ''//''"
      using split_path [OF p u(2,3)] u(4,5) by simp_all
    then show ?thesis using v u(1,6) by simp
  next
    case False
    then have "su_path p = url_path_of (url_clean url)" using split_path [OF p u(2,3)] by simp
    then have "starts_with (url_clean url) ''/''" using u(4) by simp
    then show ?thesis using False u(1,6) by simp
  qed
qed simp

theorem next_url_is_a_path_witness:
  "safe_next_url ''/home/updates?all=1'' = Inr ''/home/updates?all=1'' \<and> \<not> starts_with (url_clean ''/home/updates?all=1'') ''//''"
proof -
  have "safe_next_url ''/home/updates?all=1'' = Inr ''/home/updates?all=1''" by code_simp
  from this next_url_is_a_path [OF this] show ?thesis by code_simp
qed

lemma three_slashes_pass: "safe_next_url ''///evil.example'' = Inr ''///evil.example''"
  by code_simp

subsection \<open>Reading the account\<close>

definition keeps_account :: "'b crypto \<Rightarrow> 'b cred_disk \<Rightarrow> 'b cred_disk \<Rightarrow> bool" where
  "keeps_account c d d' \<longleftrightarrow> ready c d' \<and> account c d' = account c d"

lemma keeps_trans: "keeps_account c d d1 \<Longrightarrow> keeps_account c d1 d2 \<Longrightarrow> keeps_account c d d2"
  by (simp add: keeps_account_def)

lemma keeps_refl: "ready c d \<Longrightarrow> keeps_account c d d"
  by (simp add: keeps_account_def)

lemma account_reads:
  assumes "ready c d"
  obtains d' where "get_integration_credentials c None ''admin'' d = (account c d, d')" and "keeps_account c d d'"
  using admin_read [OF assms] by (cases "get_integration_credentials c None ''admin'' d")
    (auto simp: account_def keeps_account_def)

lemma reads_keep:
  assumes "ready c d"
  shows "\<exists>d'. mfa_enrolled c d = (field_truthy (account c d) ''totp_secret'', d') \<and> keeps_account c d d'"
    and "\<exists>d'. admin_exists c d = (field_truthy (account c d) ''password_hash'', d') \<and> keeps_account c d d'"
    and "\<exists>d'. get_session_version c d = (version_of (account c d), d') \<and> keeps_account c d d'"
    and "\<exists>d'. verify_login lib c u p d = (entry_login lib u p (account c d), d') \<and> keeps_account c d d'"
  by (rule account_reads [OF assms], simp add: mfa_enrolled_def admin_exists_def get_session_version_def verify_login_def)+

definition code_ok :: "auth_lib \<Rightarrow> string \<Rightarrow> entry \<Rightarrow> bool" where
  "code_ok lib code e \<longleftrightarrow> str_field e ''totp_secret'' \<noteq> [] \<and> al_totp lib (str_field e ''totp_secret'') (py_strip code)"

definition key_ok :: "auth_lib \<Rightarrow> string \<Rightarrow> entry \<Rightarrow> bool" where
  "key_ok lib key e \<longleftrightarrow> str_field e ''backup_key_hash'' \<noteq> [] \<and> hash_backup_key lib key = str_field e ''backup_key_hash''"

lemma checks_keep:
  assumes "ready c d"
  shows "\<exists>d'. verify_totp lib c code d = (code_ok lib code (account c d), d') \<and> keeps_account c d d'"
    and "\<exists>d'. verify_backup_key lib c key d = (key_ok lib key (account c d), d') \<and> keeps_account c d d'"
proof -
  obtain d' where d: "get_integration_credentials c None ''admin'' d = (account c d, d')" and k: "keeps_account c d d'"
    using account_reads [OF assms] by blast
  have "verify_totp lib c code d = (code_ok lib code (account c d), d')"
    unfolding verify_totp_def d code_ok_def Let_def prod.case ..
  moreover have "verify_backup_key lib c key d = (key_ok lib key (account c d), d')"
    unfolding verify_backup_key_def d key_ok_def Let_def prod.case ..
  ultimately show "\<exists>d'. verify_totp lib c code d = (code_ok lib code (account c d), d') \<and> keeps_account c d d'"
    and "\<exists>d'. verify_backup_key lib c key d = (key_ok lib key (account c d), d') \<and> keeps_account c d d'"
    using k by blast+
qed

text \<open>The form has the name and the password of the account, and the code when it has a second factor.\<close>

definition right_form :: "auth_lib \<Rightarrow> login_data \<Rightarrow> entry \<Rightarrow> bool" where
  "right_form lib f e \<longleftrightarrow> entry_login lib (ld_username f) (ld_password f) e
     \<and> (field_truthy e ''totp_secret'' \<longrightarrow> code_ok lib (ld_code f) e)"

lemma credentials_ok_account:
  assumes "ready (we_crypto env) (wb_creds w)"
  shows "\<exists>d. credentials_ok env f w =
      (right_form (we_lib env) f (account (we_crypto env) (wb_creds w)), w\<lparr>wb_creds := d\<rparr>)
    \<and> keeps_account (we_crypto env) (wb_creds w) d"
proof -
  let ?c = "we_crypto env" and ?e = "account (we_crypto env) (wb_creds w)"
  obtain d1 where d1: "verify_login (we_lib env) ?c (ld_username f) (ld_password f) (wb_creds w) =
      (entry_login (we_lib env) (ld_username f) (ld_password f) ?e, d1)" and k1: "keeps_account ?c (wb_creds w) d1"
    using reads_keep(4) [OF assms] by blast
  then have r1: "ready ?c d1" "account ?c d1 = ?e" by (simp_all add: keeps_account_def)
  obtain d2 where d2: "mfa_enrolled ?c d1 = (field_truthy ?e ''totp_secret'', d2)" and k2: "keeps_account ?c (wb_creds w) d2"
    using reads_keep(1) [OF r1(1)] keeps_trans [OF k1] r1(2) by metis
  then have r2: "ready ?c d2" "account ?c d2 = ?e" by (simp_all add: keeps_account_def)
  obtain d3 where d3: "verify_totp (we_lib env) ?c (ld_code f) d2 = (code_ok (we_lib env) (ld_code f) ?e, d3)"
      and k3: "keeps_account ?c (wb_creds w) d3"
    using checks_keep(1) [OF r2(1)] keeps_trans [OF k2] r2(2) by metis
  show ?thesis
  proof (cases "entry_login (we_lib env) (ld_username f) (ld_password f) ?e")
    case True
    then show ?thesis using d1 d2 d3 k2 k3
      by (cases "field_truthy ?e ''totp_secret''") (auto simp: credentials_ok_def right_form_def)
  next
    case False
    then show ?thesis using d1 k1 by (auto simp: credentials_ok_def right_form_def)
  qed
qed

lemma read_admin_account:
  assumes "ready (we_crypto env) (wb_creds w)"
  shows "\<exists>d. read_admin env w = (account (we_crypto env) (wb_creds w), w\<lparr>wb_creds := d\<rparr>)
    \<and> keeps_account (we_crypto env) (wb_creds w) d"
  by (rule account_reads [OF assms]) (auto simp: read_admin_def)

lemma login_form_keeps:
  assumes "ready (we_crypto env) (wb_creds w)"
  shows "\<exists>p d. login_form env needs error w = (p, w\<lparr>wb_creds := d\<rparr>) \<and> ws_status p = 200
    \<and> keeps_account (we_crypto env) (wb_creds w) d"
  using reads_keep(1) [OF assms] by (auto simp: login_form_def page_def)

subsection \<open>The lockout bounds guessing\<close>

text \<open>What a failing login does to the times of its address.\<close>

definition attempt :: "time \<Rightarrow> time list \<Rightarrow> bool \<times> time list" where
  "attempt now ts =
     (let r = recent LOCKOUT_SECONDS now ts in if length r < MAX_ATTEMPTS then (True, r @ [now]) else (False, r))"

interpretation login_window: sliding_window MAX_ATTEMPTS LOCKOUT_SECONDS attempt
  by unfold_locales (auto simp: attempt_def Let_def split: if_splits)

lemma attempts_of_set: "attempts_of (dict_set ip ts a) ip' = (if ip' = ip then ts else attempts_of a ip')"
  by (simp add: attempts_of_def dict_simps)

lemma recent_now: "recent LOCKOUT_SECONDS now (recent LOCKOUT_SECONDS now ts @ [now]) = recent LOCKOUT_SECONDS now ts @ [now]"
  by (simp add: recent_append recent_recent) (simp add: recent_def LOCKOUT_SECONDS_def)

lemma check_rate_limit_stored: "snd (check_rate_limit now ip a) = dict_set ip (recent LOCKOUT_SECONDS now (attempts_of a ip)) a"
  by (simp add: check_rate_limit_def Let_def)

lemma login_failed_keeps:
  assumes "ready (we_crypto env) (wb_creds w)"
  shows "\<exists>p d a au. login_failed env rq ip needs f w = (p, w\<lparr>wb_attempts := a, wb_audit := au, wb_creds := d\<rparr>)
    \<and> keeps_account (we_crypto env) (wb_creds w) d
    \<and> a = snd (check_rate_limit (we_now env) ip (record_failure (we_now env) ip (wb_attempts w)))"
proof -
  obtain al rem a where c: "check_rate_limit (we_now env) ip (record_failure (we_now env) ip (wb_attempts w)) = ((al, rem), a)"
    by (metis prod.collapse)
  let ?w = "audit rq ''auth.login.failure'' [] ''denied'' (actor_of (ld_username f)) (w\<lparr>wb_attempts := a\<rparr>)"
  have "ready (we_crypto env) (wb_creds ?w)" using assms by (simp add: audit_def)
  from login_form_keeps [OF this] c show ?thesis by (fastforce simp: login_failed_def audit_def)
qed

lemma login_submit_wrong:
  assumes "ready (we_crypto env) (wb_creds w)" and "client_ip rq = Inr ip"
    and "\<not> right_form (we_lib env) f (account (we_crypto env) (wb_creds w))"
  shows "\<exists>p d a au. login_submit env f rq w = (Inr p, w\<lparr>wb_attempts := a, wb_audit := au, wb_creds := d\<rparr>)
    \<and> keeps_account (we_crypto env) (wb_creds w) d
    \<and> (\<forall>ip'. attempts_of a ip' =
         (if ip' = ip then snd (attempt (we_now env) (attempts_of (wb_attempts w) ip)) else attempts_of (wb_attempts w) ip'))"
proof -
  let ?c = "we_crypto env" and ?r = "recent LOCKOUT_SECONDS (we_now env) (attempts_of (wb_attempts w) ip)"
  obtain al rem a where c: "check_rate_limit (we_now env) ip (wb_attempts w) = ((al, rem), a)" by (metis prod.collapse)
  then have a: "a = dict_set ip ?r (wb_attempts w)" and al: "al \<longleftrightarrow> length ?r < MAX_ATTEMPTS"
    by (auto simp: check_rate_limit_def Let_def split: if_splits)
  obtain e d1 where d1: "read_admin env (w\<lparr>wb_attempts := a\<rparr>) = (e, w\<lparr>wb_attempts := a, wb_creds := d1\<rparr>)"
      and k1: "keeps_account ?c (wb_creds w) d1"
    using read_admin_account [of env "w\<lparr>wb_attempts := a\<rparr>"] assms(1) by auto
  let ?w1 = "w\<lparr>wb_attempts := a, wb_creds := d1\<rparr>" and ?n = "field_truthy e ''username''"
  have r1: "ready ?c (wb_creds ?w1)" and e1: "account ?c (wb_creds ?w1) = account ?c (wb_creds w)"
    using k1 by (simp_all add: keeps_account_def)
  show ?thesis
  proof (cases al)
    case False
    obtain p d2 where f: "login_form env ?n (Some (locked_message rem)) ?w1 = (p, ?w1\<lparr>wb_creds := d2\<rparr>)"
        and k2: "keeps_account ?c (wb_creds ?w1) d2"
      using login_form_keeps [OF r1] by blast
    have "login_submit env f rq w = (Inr p, w\<lparr>wb_attempts := a, wb_audit := wb_audit w, wb_creds := d2\<rparr>)"
      using assms(2) c d1 f False by (simp add: login_submit_def)
    moreover have "keeps_account ?c (wb_creds w) d2" using keeps_trans [OF k1] k2 by simp
    moreover have "attempts_of a ip' =
         (if ip' = ip then snd (attempt (we_now env) (attempts_of (wb_attempts w) ip)) else attempts_of (wb_attempts w) ip')" for ip'
      using False al a by (simp add: attempts_of_set attempt_def)
    ultimately show ?thesis by blast
  next
    case True
    obtain d2 where d2: "credentials_ok env f ?w1 = (False, ?w1\<lparr>wb_creds := d2\<rparr>)" and k2: "keeps_account ?c (wb_creds ?w1) d2"
      using credentials_ok_account [OF r1, of f] e1 assms(3) by auto
    let ?w2 = "?w1\<lparr>wb_creds := d2\<rparr>"
    have "ready ?c (wb_creds ?w2)" using k2 by (simp add: keeps_account_def)
    from login_failed_keeps [OF this, of rq ip ?n f] obtain p d3 a3 au where
        f: "login_failed env rq ip ?n f ?w2 = (p, ?w2\<lparr>wb_attempts := a3, wb_audit := au, wb_creds := d3\<rparr>)"
        and k3: "keeps_account ?c (wb_creds ?w2) d3"
        and a3: "a3 = snd (check_rate_limit (we_now env) ip (record_failure (we_now env) ip a))" by auto
    have "login_submit env f rq w = (Inr p, w\<lparr>wb_attempts := a3, wb_audit := au, wb_creds := d3\<rparr>)"
      using assms(2) c d1 d2 f True by (simp add: login_submit_def)
    moreover have "keeps_account ?c (wb_creds w) d3" using keeps_trans [OF k1] k2 k3 keeps_trans by fastforce
    moreover have "attempts_of a3 ip' =
         (if ip' = ip then snd (attempt (we_now env) (attempts_of (wb_attempts w) ip)) else attempts_of (wb_attempts w) ip')" for ip'
      using True al a3 a by (simp add: check_rate_limit_stored record_failure_def attempts_of_set recent_now attempt_def)
    ultimately show ?thesis by blast
  qed
qed

text \<open>A login form is judged when what comes of it depends on what the form says.\<close>

definition judged :: "'b web_env \<Rightarrow> web_request \<Rightarrow> 'b web \<Rightarrow> bool" where
  "judged env rq w \<longleftrightarrow> (\<exists>f f'. login_submit env f rq w \<noteq> login_submit env f' rq w)"

text \<open>The times at which the logins of a sequence from one address are judged.\<close>

fun tried :: "string \<Rightarrow> ('b web_env \<times> web_request \<times> login_data) list \<Rightarrow> 'b web \<Rightarrow> time list" where
  "tried ip [] w = []"
| "tried ip ((env, rq, f) # later) w =
     (if client_ip rq = Inr ip \<and> judged env rq w then [we_now env] else [])
       @ tried ip later (snd (login_submit env f rq w))"

lemma locked_not_judged:
  assumes "client_ip rq = Inr ip" and "\<not> fst (attempt (we_now env) (attempts_of (wb_attempts w) ip))"
  shows "\<not> judged env rq w"
proof -
  have "\<not> fst (fst (check_rate_limit (we_now env) ip (wb_attempts w)))"
    using assms(2) by (simp add: attempt_def check_rate_limit_def Let_def split: if_splits)
  then show ?thesis using assms(1) by (auto simp: judged_def login_submit_def split: prod.splits)
qed

definition wrong_forms ::
  "'b crypto \<Rightarrow> auth_lib \<Rightarrow> entry \<Rightarrow> ('b web_env \<times> web_request \<times> login_data) list \<Rightarrow> bool" where
  "wrong_forms c lib e reqs \<longleftrightarrow> (\<forall>(env, rq, f)\<in>set reqs. we_crypto env = c \<and> we_lib env = lib
     \<and> (\<exists>ip. client_ip rq = Inr ip) \<and> \<not> right_form lib f e)"

lemma tried_admitted:
  assumes "ready c (wb_creds w)" and "wrong_forms c lib (account c (wb_creds w)) reqs"
  shows "counted p t (tried ip reqs w) \<le> counted p t (admitted attempt (attempts_of (wb_attempts w) ip)
     (map (we_now \<circ> fst) (filter (\<lambda>(env, rq, f). client_ip rq = Inr ip) reqs)))"
  using assms
proof (induction reqs arbitrary: w)
  case Nil
  then show ?case by simp
next
  case (Cons r reqs)
  obtain env rq f where r: "r = (env, rq, f)" by (metis prod.collapse)
  with Cons.prems(2) obtain ip' where env: "we_crypto env = c" "we_lib env = lib" and ip': "client_ip rq = Inr ip'"
      and wrong: "\<not> right_form lib f (account c (wb_creds w))" and rest: "wrong_forms c lib (account c (wb_creds w)) reqs"
    by (auto simp: wrong_forms_def)
  from login_submit_wrong [of env w rq ip' f] env ip' wrong Cons.prems(1) obtain p1 w' where
      w': "login_submit env f rq w = (Inr p1, w')" "keeps_account c (wb_creds w) (wb_creds w')"
      "\<forall>i. attempts_of (wb_attempts w') i =
         (if i = ip' then snd (attempt (we_now env) (attempts_of (wb_attempts w) ip')) else attempts_of (wb_attempts w) i)"
    by fastforce
  then have "ready c (wb_creds w')" "wrong_forms c lib (account c (wb_creds w')) reqs"
    using rest by (simp_all add: keeps_account_def)
  note ih = Cons.IH [OF this]
  obtain k ts' where a: "attempt (we_now env) (attempts_of (wb_attempts w) ip') = (k, ts')" by fastforce
  have "\<not> k \<Longrightarrow> \<not> judged env rq w" using locked_not_judged [OF ip', of env w] a by simp
  moreover have "counted p t [] = 0" by (simp add: counted_def)
  ultimately show ?case using r w' ih ip' a by (cases "ip = ip'") (auto simp: comp_def counted_append)
qed

text \<open>C12. Guessing is bounded: of any sequence of logins with wrong forms, from any addresses, at most five from one address
  are judged by what they say within any fifteen minutes; the others get the same answer whatever name, password and code
  they carry.\<close>
theorem login_attempts_limited:
  assumes "ready c (wb_creds w)" and "wrong_forms c lib (account c (wb_creds w)) reqs"
    and "sorted (map (we_now \<circ> fst) reqs)" and "wb_attempts w = []"
  shows "counted 900 t (tried ip reqs w) \<le> 5"
proof -
  have "sorted (map (we_now \<circ> fst) (filter (\<lambda>(env, rq, f). client_ip rq = Inr ip) reqs))"
    using assms(3) by (simp add: sorted_filter)
  from login_window.never_more_than_limit [OF this, of t] show ?thesis
    using tried_admitted [where ip = ip and p = 900 and t = t, OF assms(1,2)] assms(4)
    by (simp add: MAX_ATTEMPTS_def LOCKOUT_SECONDS_def attempts_of_def)
qed

text \<open>The address is what the client says it is.\<close>

lemma forwarded_address_chosen:
  "client_ip (rq\<lparr>wr_headers := [(''X-Forwarded-For'', a)]\<rparr>) = Inr (py_strip a)"
  if "a \<noteq> []" and "CHR '','' \<notin> set a"
  using that by (simp add: client_ip_def forwarded_for_def request_header_def py_lower_def dict_simps)

definition guess :: login_data where
  "guess = \<lparr>ld_username = ''admin'', ld_password = ''guess'', ld_code = [], ld_remember = []\<rparr>"

definition login_request :: web_request where
  "login_request = home_request\<lparr>wr_method := ''POST'', wr_path := ''/login''\<rparr>"

theorem login_attempts_limited_witness:
  "counted 900 1000 (tried ''10.0.0.9'' (replicate 8 (demo_web_env, login_request, guess)) demo_web) \<le> 5"
proof (rule login_attempts_limited)
  show "ready plain_crypto (wb_creds demo_web)" using plain_ready by (simp add: demo_web_def)
  have "\<not> right_form toy_lib guess (account plain_crypto (wb_creds demo_web))" and "client_ip login_request = Inr ''10.0.0.9''"
    by code_simp+
  then show "wrong_forms plain_crypto toy_lib (account plain_crypto (wb_creds demo_web))
      (replicate 8 (demo_web_env, login_request, guess))"
    by (simp add: wrong_forms_def demo_web_env_def)
  show "sorted (map (we_now \<circ> fst) (replicate 8 (demo_web_env, login_request, guess)))" by (simp add: map_replicate_const)
  show "wb_attempts demo_web = []" by (simp add: demo_web_def)
qed

subsection \<open>What a session stands for\<close>

lemma heal_policy_session:
  assumes "heal_policy env f w = (r, w')"
  shows "wb_session w' = wb_session w \<or> wb_session w' = dict_set ''show_password_notice'' (JBool True) (wb_session w)"
  using assms by (auto simp: heal_policy_def read_admin_def Let_def split: prod.splits if_splits)

lemma put_policy_keeps:
  "version_of (put_fields [(''password_meets_policy'', v)] e) = version_of e"
  "field_truthy (put_fields [(''password_meets_policy'', v)] e) ''password_hash'' = field_truthy e ''password_hash''"
  by (auto simp: put_fields_def put_field_def version_of_def field_truthy_def dict_simps split: option.splits)

lemma heal_policy_account:
  assumes "heal_policy env f w = (r, w')" and "ready (we_crypto env) (wb_creds w)"
  shows "version_of (account (we_crypto env) (wb_creds w')) = version_of (account (we_crypto env) (wb_creds w))
    \<and> field_truthy (account (we_crypto env) (wb_creds w')) ''password_hash''
        = field_truthy (account (we_crypto env) (wb_creds w)) ''password_hash''"
proof -
  let ?fs = "[(''password_meets_policy'', Some (JBool True))]"
  obtain d1 where d1: "read_admin env w = (account (we_crypto env) (wb_creds w), w\<lparr>wb_creds := d1\<rparr>)"
      and k: "keeps_account (we_crypto env) (wb_creds w) d1"
    using read_admin_account [OF assms(2)] by blast
  then have rd: "ready (we_crypto env) d1" and acc: "account (we_crypto env) d1 = account (we_crypto env) (wb_creds w)"
    by (simp_all add: keeps_account_def)
  obtain d2 where d2: "save_integration_credentials (we_crypto env) ''admin'' ?fs d1 = (Inr (), d2)"
      and acc2: "account (we_crypto env) d2 = put_fields ?fs (account (we_crypto env) d1)"
    using admin_save [OF rd, of ?fs] by blast
  show ?thesis using assms(1) d1 d2 acc acc2
    by (auto simp: heal_policy_def put_policy_keeps split: if_splits)
qed

text \<open>The keys of a session that signing in leaves.\<close>

definition LOGIN_KEYS :: "string list" where
  "LOGIN_KEYS = [''authenticated'', ''session_version'', ''remember_me'', ''show_password_notice'']"

lemma start_session_result:
  assumes "start_session env f rq w = (r, w')" and "ready (we_crypto env) (wb_creds w)"
    and "session_flag (wb_session w') ''authenticated''" and "\<not> session_flag (wb_session w) ''authenticated''"
    and "field_truthy (account (we_crypto env) (wb_creds w)) ''password_hash''"
  shows "signed_in (we_crypto env) w' \<and> fst ` set (wb_session w') \<subseteq> set LOGIN_KEYS"
proof -
  let ?c = "we_crypto env"
  obtain d where d: "get_session_version ?c (wb_creds w) = (version_of (account ?c (wb_creds w)), d)"
      and k: "keeps_account ?c (wb_creds w) d"
    using reads_keep(3) [OF assms(2)] by blast
  obtain n where n: "version_of (account ?c (wb_creds w)) = Inr n"
    using assms(1,3,4) d by (cases "version_of (account ?c (wb_creds w))") (auto simp: start_session_def)
  let ?s = "[(''authenticated'', JBool True), (''session_version'', JNum n)]
      @ (if ld_remember f = ''on'' then [(''remember_me'', JBool True)] else [])"
  let ?w1 = "w\<lparr>wb_creds := d, wb_session := ?s\<rparr>"
  obtain h where h: "heal_policy env f ?w1 = (h, w')"
    using assms(1) d n by (auto simp: start_session_def split: prod.splits sum.splits)
  have rd: "ready ?c (wb_creds ?w1)" and acc: "account ?c (wb_creds ?w1) = account ?c (wb_creds w)"
    using k by (simp_all add: keeps_account_def)
  have s: "wb_session w' = ?s \<or> wb_session w' = dict_set ''show_password_notice'' (JBool True) ?s"
    using heal_policy_session [OF h] by simp
  then have "dict_get (wb_session w') ''authenticated'' = Some (JBool True)"
      and "dict_get (wb_session w') ''session_version'' = Some (JNum n)"
      and "fst ` set (wb_session w') \<subseteq> set LOGIN_KEYS"
    by (auto simp: dict_simps LOGIN_KEYS_def split: if_splits)
  then show ?thesis using heal_policy_account [OF h rd] acc n assms(5)
    by (simp add: signed_in_def session_flag_def)
qed

lemma login_submit_right:
  assumes "ready (we_crypto env) (wb_creds w)" and "login_submit env f rq w = (r, w')"
    and "session_flag (wb_session w') ''authenticated''" and "\<not> session_flag (wb_session w) ''authenticated''"
  shows "right_form (we_lib env) f (account (we_crypto env) (wb_creds w))
    \<and> (\<exists>ip. client_ip rq = Inr ip
        \<and> length (recent LOCKOUT_SECONDS (we_now env) (attempts_of (wb_attempts w) ip)) < MAX_ATTEMPTS)
    \<and> signed_in (we_crypto env) w' \<and> fst ` set (wb_session w') \<subseteq> set LOGIN_KEYS"
proof -
  let ?c = "we_crypto env" and ?e = "account (we_crypto env) (wb_creds w)"
  obtain ip where ip: "client_ip rq = Inr ip" using assms(2,3,4) by (cases "client_ip rq") (auto simp: login_submit_def)
  have right: "right_form (we_lib env) f ?e"
  proof (rule ccontr)
    assume "\<not> right_form (we_lib env) f ?e"
    from login_submit_wrong [OF assms(1) ip this] show False using assms(2,3,4) by auto
  qed
  then have pw: "field_truthy ?e ''password_hash''"
    by (auto simp: right_form_def entry_login_def str_field_def field_truthy_def Let_def split: option.splits json.splits if_splits)
  obtain al rem a where c: "check_rate_limit (we_now env) ip (wb_attempts w) = ((al, rem), a)" by (metis prod.collapse)
  obtain e d1 where d1: "read_admin env (w\<lparr>wb_attempts := a\<rparr>) = (e, w\<lparr>wb_attempts := a, wb_creds := d1\<rparr>)"
      and k1: "keeps_account ?c (wb_creds w) d1"
    using read_admin_account [of env "w\<lparr>wb_attempts := a\<rparr>"] assms(1) by auto
  let ?w1 = "w\<lparr>wb_attempts := a, wb_creds := d1\<rparr>"
  have r1: "ready ?c (wb_creds ?w1)" and e1: "account ?c (wb_creds ?w1) = ?e" using k1 by (simp_all add: keeps_account_def)
  have al: "al"
  proof (rule ccontr)
    assume "\<not> al"
    moreover obtain p d2 where "login_form env (field_truthy e ''username'') (Some (locked_message rem)) ?w1 = (p, ?w1\<lparr>wb_creds := d2\<rparr>)"
      using login_form_keeps [OF r1] by blast
    ultimately show False using assms(2,3,4) ip c d1 by (auto simp: login_submit_def)
  qed
  obtain d2 where d2: "credentials_ok env f ?w1 = (True, ?w1\<lparr>wb_creds := d2\<rparr>)" and k2: "keeps_account ?c (wb_creds ?w1) d2"
    using credentials_ok_account [OF r1, of f] e1 right by auto
  let ?w2 = "audit rq ''auth.login.success'' [] ''ok'' (actor_of (ld_username f))
     (?w1\<lparr>wb_creds := d2, wb_attempts := clear_attempts ip a\<rparr>)"
  have "start_session env f rq ?w2 = (r, w')" using assms(2) ip c d1 d2 al by (simp add: login_submit_def)
  moreover have "ready ?c (wb_creds ?w2)" "account ?c (wb_creds ?w2) = ?e"
    using k2 e1 by (simp_all add: keeps_account_def audit_def)
  moreover have "\<not> session_flag (wb_session ?w2) ''authenticated''" using assms(4) by (simp add: audit_def)
  ultimately have "signed_in ?c w' \<and> fst ` set (wb_session w') \<subseteq> set LOGIN_KEYS"
    using start_session_result [of env f rq ?w2 r w'] assms(3) pw by simp
  then show ?thesis using right ip al c by (auto simp: check_rate_limit_def Let_def split: if_splits)
qed

text \<open>A session becomes authenticated only by a form with the name and password of the account, and the code
  of its second factor when there is one, from an address that is not locked out.  It then passes the gate of
  the middleware, and nothing of the session before is left in it.\<close>
theorem login_needs_credentials:
  assumes "ready (we_crypto env) (wb_creds w)" and "login_submit env f rq w = (r, w')"
    and "session_flag (wb_session w') ''authenticated''" and "\<not> session_flag (wb_session w) ''authenticated''"
  shows "entry_login (we_lib env) (ld_username f) (ld_password f) (account (we_crypto env) (wb_creds w))
    \<and> (field_truthy (account (we_crypto env) (wb_creds w)) ''totp_secret'' \<longrightarrow>
         code_ok (we_lib env) (ld_code f) (account (we_crypto env) (wb_creds w)))
    \<and> (\<exists>ip. client_ip rq = Inr ip
        \<and> length (recent 900 (we_now env) (attempts_of (wb_attempts w) ip)) < 5)
    \<and> signed_in (we_crypto env) w' \<and> fst ` set (wb_session w') \<subseteq> set LOGIN_KEYS"
  using login_submit_right [OF assms] by (simp add: right_form_def LOCKOUT_SECONDS_def MAX_ATTEMPTS_def)

lemma create_admin_ready:
  assumes "ready c d"
  shows "ready c (snd (create_admin lib c hex u p t d))"
proof -
  have saved: "ready c (snd (save_integration_credentials c ''admin'' fs d))" for fs
    using admin_save [OF assms] by (metis snd_conv)
  have "snd (case x of (Inl e, d1) \<Rightarrow> (Inl e, d1) | (Inr y, d1) \<Rightarrow> (Inr k, d1)) = snd x" for x :: "unit res \<times> 'a cred_disk" and k :: string
    by (cases x; cases "fst x") auto
  then show ?thesis using saved by (simp add: create_admin_def Let_def)
qed

definition account_disk :: "(string \<times> store) cred_disk" where
  "account_disk = snd (create_admin toy_lib plain_crypto (replicate 32 CHR ''0'') ''admin'' ''a long password'' None fresh_disk)"

definition right_guess :: login_data where
  "right_guess = guess\<lparr>ld_password := ''a long password''\<rparr>"

theorem login_needs_credentials_witness:
  "signed_in plain_crypto (snd (login_submit demo_web_env right_guess login_request (demo_web\<lparr>wb_creds := account_disk\<rparr>)))"
proof -
  let ?w = "demo_web\<lparr>wb_creds := account_disk\<rparr>"
  have "ready (we_crypto demo_web_env) (wb_creds ?w)"
    using create_admin_ready [OF plain_ready] by (simp add: demo_web_env_def account_disk_def)
  moreover have "session_flag (wb_session (snd (login_submit demo_web_env right_guess login_request ?w))) ''authenticated''"
    by code_simp
  moreover have "\<not> session_flag (wb_session ?w) ''authenticated''" by code_simp
  ultimately have "signed_in (we_crypto demo_web_env) (snd (login_submit demo_web_env right_guess login_request ?w))"
    using login_needs_credentials [of demo_web_env ?w right_guess login_request] by (metis prod.collapse)
  then show ?thesis by (simp add: demo_web_env_def)
qed

subsection \<open>A browser's way through these pages\<close>

datatype visit =
  VLoginPage | VLogin login_data | VLogout | VForgotPage | VForgot string | VReset string string
  | VAccountPage | VAccount string string string | VSecurityPage | VSecurity string string
  | VRecoveryPage | VConfirm

fun visit_page :: "'b web_env \<Rightarrow> visit \<Rightarrow> 'b web handler" where
  "visit_page env VLoginPage = login_page env"
| "visit_page env (VLogin f) = login_submit env f"
| "visit_page env VLogout = logout"
| "visit_page env VForgotPage = forgot_password_page"
| "visit_page env (VForgot key) = forgot_password_submit env key"
| "visit_page env (VReset p q) = forgot_password_reset env p q"
| "visit_page env VAccountPage = setup_account env"
| "visit_page env (VAccount u p q) = setup_account_submit env u p q"
| "visit_page env VSecurityPage = setup_security env"
| "visit_page env (VSecurity m code) = setup_security_submit env m code"
| "visit_page env VRecoveryPage = setup_recovery_code"
| "visit_page env VConfirm = setup_recovery_code_confirm"

type_synonym 'b visits = "('b web_env \<times> web_request \<times> visit) list"

definition do_visit :: "'b web_env \<times> web_request \<times> visit \<Rightarrow> 'b web \<Rightarrow> 'b web" where
  "do_visit v w = (case v of (env, rq, p) \<Rightarrow> snd (session_layer (visit_page env p) rq w))"

definition browse :: "'b visits \<Rightarrow> 'b web \<Rightarrow> 'b web" where
  "browse vs w = fold do_visit vs w"

lemma browse_snoc [simp]: "browse (vs @ [v]) w = do_visit v (browse vs w)"
  by (simp add: browse_def)

lemma browse_Nil [simp]: "browse [] w = w"
  by (simp add: browse_def)

text \<open>A flag of the session was set by a visit that found it unset.\<close>

lemma flag_origin:
  assumes "session_flag (wb_session (browse vs w)) k" and "\<not> session_flag (wb_session w) k"
  shows "\<exists>pre v post. vs = pre @ v # post \<and> \<not> session_flag (wb_session (browse pre w)) k
    \<and> session_flag (wb_session (do_visit v (browse pre w))) k"
  using assms
proof (induction vs rule: rev_induct)
  case Nil
  then show ?case by simp
next
  case (snoc v vs)
  show ?case
  proof (cases "session_flag (wb_session (browse vs w)) k")
    case True
    from snoc.IH [OF this snoc.prems(2)] obtain pre v' post where "vs = pre @ v' # post"
        and at: "\<not> session_flag (wb_session (browse pre w)) k" "session_flag (wb_session (do_visit v' (browse pre w))) k"
      by blast
    then have "vs @ [v] = pre @ v' # (post @ [v])" by simp
    then show ?thesis using at by blast
  next
    case False
    moreover have "session_flag (wb_session (do_visit v (browse vs w))) k" using snoc.prems(1) by simp
    moreover have "vs @ [v] = vs @ v # []" by simp
    ultimately show ?thesis by blast
  qed
qed

lemma session_flag_set: "session_flag (dict_set k v s) k' = (if k' = k then json_truthy v else session_flag s k')"
  by (auto simp: session_flag_def dict_simps)

lemma session_flag_pop: "session_flag (dict_pop k s) k' = (k' \<noteq> k \<and> session_flag s k')"
  by (auto simp: session_flag_def dict_simps)

lemma session_flag_Nil: "\<not> session_flag [] k"
  by (simp add: session_flag_def)

subsubsection \<open>Every visit keeps the store readable\<close>

lemma read_ready:
  assumes "ready c d"
  shows "ready c (snd (get_integration_credentials c None ''admin'' d))"
  using admin_read [OF assms] by simp

lemma save_ready:
  assumes "ready c d"
  shows "ready c (snd (save_integration_credentials c ''admin'' fs d))"
  using admin_save [OF assms, of fs] by (metis snd_conv)

lemma reads_ready:
  assumes "ready c d"
  shows "ready c (snd (mfa_enrolled c d))" and "ready c (snd (admin_exists c d))"
    and "ready c (snd (get_session_version c d))" and "ready c (snd (verify_login lib c u p d))"
    and "ready c (snd (verify_totp lib c code d))" and "ready c (snd (verify_backup_key lib c key d))"
  using read_ready [OF assms]
  by (simp_all add: mfa_enrolled_def admin_exists_def get_session_version_def verify_login_def verify_totp_def
      verify_backup_key_def Let_def case_prod_beta)

lemma bumped_ready:
  assumes "ready c d"
  shows "ready c (snd (save_bumped c fs d))"
proof -
  have v: "ready c (snd (get_session_version c d))" using reads_ready(3) [OF assms] .
  obtain r d1 where d1: "get_session_version c d = (r, d1)" by fastforce
  show ?thesis
  proof (cases r)
    case (Inr v)
    obtain r2 d2 where "save_integration_credentials c ''admin'' (fs @ [(''session_version'', Some (JNum (v + 1)))]) d1 = (r2, d2)"
      by fastforce
    then show ?thesis using save_ready [of c d1 "fs @ [(''session_version'', Some (JNum (v + 1)))]"] v d1 Inr
      by (cases r2) (simp_all add: save_bumped_def)
  qed (use v d1 in \<open>simp add: save_bumped_def\<close>)
qed

lemma login_parts_ready:
  assumes "ready (we_crypto env) (wb_creds w)"
  shows "ready (we_crypto env) (wb_creds (snd (read_admin env w)))"
    and "ready (we_crypto env) (wb_creds (snd (login_form env n err w)))"
    and "ready (we_crypto env) (wb_creds (snd (credentials_ok env f w)))"
    and "ready (we_crypto env) (wb_creds (snd (login_failed env rq ip n f w)))"
proof -
  show "ready (we_crypto env) (wb_creds (snd (read_admin env w)))"
    using read_admin_account [OF assms] by (auto simp: keeps_account_def)
  show "ready (we_crypto env) (wb_creds (snd (login_form env n err w)))"
    using login_form_keeps [OF assms, of n err] by (auto simp: keeps_account_def)
  show "ready (we_crypto env) (wb_creds (snd (credentials_ok env f w)))"
    using credentials_ok_account [OF assms, of f] by (auto simp: keeps_account_def)
  show "ready (we_crypto env) (wb_creds (snd (login_failed env rq ip n f w)))"
    using login_failed_keeps [OF assms, of rq ip n f] by (auto simp: keeps_account_def)
qed

lemma heal_policy_ready:
  assumes "ready (we_crypto env) (wb_creds w)"
  shows "ready (we_crypto env) (wb_creds (snd (heal_policy env f w)))"
  using login_parts_ready(1) [OF assms] save_ready
  by (auto simp: heal_policy_def case_prod_beta Let_def)

lemma start_session_ready:
  assumes "ready (we_crypto env) (wb_creds w)"
  shows "ready (we_crypto env) (wb_creds (snd (start_session env f rq w)))"
proof -
  obtain v d where d: "get_session_version (we_crypto env) (wb_creds w) = (v, d)" by fastforce
  then have rd: "ready (we_crypto env) d" using reads_ready(3) [OF assms] by simp
  show ?thesis
  proof (cases v)
    case (Inr n)
    let ?w = "w\<lparr>wb_creds := d, wb_session := [(''authenticated'', JBool True), (''session_version'', JNum n)]
                  @ (if ld_remember f = ''on'' then [(''remember_me'', JBool True)] else [])\<rparr>"
    obtain r w2 where h: "heal_policy env f ?w = (r, w2)" by fastforce
    moreover have "ready (we_crypto env) (wb_creds ?w)" using rd by simp
    ultimately have "ready (we_crypto env) (wb_creds w2)" using heal_policy_ready by (metis snd_conv)
    then show ?thesis using d Inr h by (cases r) (simp_all add: start_session_def)
  qed (use d rd in \<open>simp add: start_session_def\<close>)
qed

lemma login_submit_ready:
  assumes "ready (we_crypto env) (wb_creds w)"
  shows "ready (we_crypto env) (wb_creds (snd (login_submit env f rq w)))"
proof (cases "client_ip rq")
  case (Inr ip)
  show ?thesis
  proof (cases "right_form (we_lib env) f (account (we_crypto env) (wb_creds w))")
    case False
    from login_submit_wrong [OF assms Inr False] show ?thesis by (auto simp: keeps_account_def)
  next
    case True
    obtain al rem a where c: "check_rate_limit (we_now env) ip (wb_attempts w) = ((al, rem), a)" by (metis prod.collapse)
    obtain e w1 where w1: "read_admin env (w\<lparr>wb_attempts := a\<rparr>) = (e, w1)" by fastforce
    then have r1: "ready (we_crypto env) (wb_creds w1)"
      using login_parts_ready(1) [of env "w\<lparr>wb_attempts := a\<rparr>"] assms by simp
    obtain ok w2 where w2: "credentials_ok env f w1 = (ok, w2)" by fastforce
    then have r2: "ready (we_crypto env) (wb_creds w2)" using login_parts_ready(3) [OF r1, of f] by simp
    obtain p1 v1 where v1: "login_form env (field_truthy e ''username'') (Some (locked_message rem)) w1 = (p1, v1)" by fastforce
    obtain p2 v2 where v2: "login_failed env rq ip (field_truthy e ''username'') f w2 = (p2, v2)" by fastforce
    let ?w3 = "audit rq ''auth.login.success'' [] ''ok'' (actor_of (ld_username f))
                  (w2\<lparr>wb_attempts := clear_attempts ip (wb_attempts w2)\<rparr>)"
    have "ready (we_crypto env) (wb_creds (snd (start_session env f rq ?w3)))"
      using r2 by (intro start_session_ready) (simp add: audit_def)
    then show ?thesis
      using Inr c w1 w2 v1 v2 login_parts_ready(2) [OF r1] login_parts_ready(4) [OF r2]
      by (cases al; cases ok) (simp_all add: login_submit_def, (metis snd_conv)+)
  qed
qed (use assms in \<open>simp add: login_submit_def\<close>)

lemma page_ready:
  assumes "ready (we_crypto env) (wb_creds w)"
  shows "ready (we_crypto env) (wb_creds (snd (visit_page env p rq w)))"
proof (cases p)
  case VLoginPage
  then show ?thesis
    using reads_ready(2) [OF assms] reads_ready(1) [OF reads_ready(2) [OF assms]]
      login_parts_ready(1) [of env "w\<lparr>wb_creds := snd (mfa_enrolled (we_crypto env) (snd (admin_exists (we_crypto env) (wb_creds w))))\<rparr>"]
    by (simp add: login_page_def case_prod_beta Let_def)
next
  case (VLogin f)
  then show ?thesis using login_submit_ready [OF assms] by simp
next
  case (VForgot key)
  then show ?thesis using reads_ready(6) [OF assms] by (simp add: forgot_password_submit_def case_prod_beta Let_def)
next
  case (VReset a b)
  then show ?thesis using bumped_ready [OF assms] assms
    by (auto simp: forgot_password_reset_def change_password_def case_prod_beta Let_def split: sum.splits)
next
  case (VAccount u a b)
  then show ?thesis using reads_ready(2) [OF assms] create_admin_ready
    by (auto simp: setup_account_submit_def when_no_admin_def case_prod_beta Let_def split: sum.splits)
next
  case (VSecurity m code)
  then show ?thesis using bumped_ready [OF assms] assms
    by (auto simp: setup_security_submit_def enroll_mfa_def case_prod_beta Let_def split: sum.splits)
qed (use assms reads_ready(2) [OF assms] in \<open>auto simp: logout_def forgot_password_page_def setup_account_def
    when_no_admin_def setup_security_def setup_recovery_code_def setup_recovery_code_confirm_def case_prod_beta Let_def\<close>)

lemma visit_ready:
  assumes "ready (we_crypto env) (wb_creds w)"
  shows "ready (we_crypto env) (wb_creds (do_visit (env, rq, p) w))"
  using page_ready [OF assms, of p rq] by (auto simp: do_visit_def session_layer_def split: prod.splits sum.splits)

lemma browse_ready:
  assumes "\<forall>(env, rq, p)\<in>set vs. we_crypto env = c" and "ready c (wb_creds w)"
  shows "ready c (wb_creds (browse vs w))"
  using assms
proof (induction vs rule: rev_induct)
  case (snoc v vs)
  then show ?case using visit_ready by (cases v) fastforce
qed simp

subsubsection \<open>Which visit sets which flag\<close>

definition login_keys_only :: "entry \<Rightarrow> bool" where
  "login_keys_only s \<longleftrightarrow> fst ` set s \<subseteq> set LOGIN_KEYS"

lemma login_keys_flag: "login_keys_only s \<Longrightarrow> session_flag s k \<Longrightarrow> k \<in> set LOGIN_KEYS"
  by (cases "dict_get s k") (force simp: login_keys_only_def session_flag_def dest: map_of_SomeD)+

lemma parts_session:
  "wb_session (snd (read_admin env w)) = wb_session w"
  "wb_session (snd (login_form env n err w)) = wb_session w"
  "wb_session (snd (credentials_ok env f w)) = wb_session w"
  "wb_session (snd (login_failed env rq ip n f w)) = wb_session w"
  by (simp_all add: read_admin_def login_form_def credentials_ok_def login_failed_def audit_def case_prod_beta Let_def)

lemma start_session_keys:
  "login_keys_only (wb_session (snd (start_session env f rq w))) \<or> wb_session (snd (start_session env f rq w)) = wb_session w"
proof -
  obtain v d where d: "get_session_version (we_crypto env) (wb_creds w) = (v, d)" by fastforce
  show ?thesis
  proof (cases v)
    case (Inr n)
    let ?s = "[(''authenticated'', JBool True), (''session_version'', JNum n)]
                  @ (if ld_remember f = ''on'' then [(''remember_me'', JBool True)] else [])"
    obtain r w2 where h: "heal_policy env f (w\<lparr>wb_creds := d, wb_session := ?s\<rparr>) = (r, w2)" by fastforce
    then have "wb_session w2 = ?s \<or> wb_session w2 = dict_set ''show_password_notice'' (JBool True) ?s"
      using heal_policy_session [OF h] by simp
    then have "login_keys_only (wb_session w2)"
      by (auto simp: login_keys_only_def LOGIN_KEYS_def dict_simps split: if_splits)
    then show ?thesis using d Inr h by (cases r) (simp_all add: start_session_def)
  qed (use d in \<open>simp add: start_session_def\<close>)
qed

lemma login_submit_keys:
  "login_keys_only (wb_session (snd (login_submit env f rq w))) \<or> wb_session (snd (login_submit env f rq w)) = wb_session w"
proof (cases "client_ip rq")
  case (Inr ip)
  obtain al rem a where c: "check_rate_limit (we_now env) ip (wb_attempts w) = ((al, rem), a)" by (metis prod.collapse)
  obtain e w1 where w1: "read_admin env (w\<lparr>wb_attempts := a\<rparr>) = (e, w1)" by fastforce
  obtain ok w2 where w2: "credentials_ok env f w1 = (ok, w2)" by fastforce
  have s: "wb_session w1 = wb_session w" "wb_session w2 = wb_session w"
    using parts_session(1) [of env "w\<lparr>wb_attempts := a\<rparr>"] parts_session(3) [of env f w1] w1 w2 by simp_all
  show ?thesis
  proof (cases "al \<and> ok")
    case True
    then show ?thesis
      using start_session_keys [of env f rq "audit rq ''auth.login.success'' [] ''ok'' (actor_of (ld_username f))
                  (w2\<lparr>wb_attempts := clear_attempts ip (wb_attempts w2)\<rparr>)"] Inr c w1 w2 s
      by (simp add: login_submit_def audit_def)
  next
    case False
    then show ?thesis using Inr c w1 w2 s
      by (cases al) (simp_all add: login_submit_def case_prod_beta Let_def parts_session)
  qed
qed (simp add: login_submit_def)

lemma other_pages_flags:
  assumes "session_flag (wb_session (snd (visit_page env p rq w))) k" and "\<not> session_flag (wb_session w) k"
    and "\<And>f. p \<noteq> VLogin f"
  shows "(\<exists>key. p = VForgot key \<and> k = ''recovery_verified''
        \<and> fst (verify_backup_key (we_lib env) (we_crypto env) key (wb_creds w)))
    \<or> (\<exists>u a b. p = VAccount u a b \<and> k \<in> {''setup_account_done'', ''setup_backup_key''}
        \<and> \<not> fst (admin_exists (we_crypto env) (wb_creds w)))
    \<or> k = ''setup_totp_secret''"
proof (cases p)
  case (VForgot key)
  then show ?thesis using assms(1,2)
    by (auto simp: forgot_password_submit_def case_prod_beta Let_def session_flag_set split: if_splits)
next
  case (VReset a b)
  then show ?thesis using assms(1,2)
    by (auto simp: forgot_password_reset_def case_prod_beta Let_def session_flag_pop split: if_splits sum.splits)
next
  case (VAccount u a b)
  then show ?thesis using assms(1,2)
    by (auto simp: setup_account_submit_def when_no_admin_def case_prod_beta Let_def session_flag_set
        split: if_splits sum.splits)
next
  case (VSecurity m code)
  then show ?thesis using assms(1,2)
    by (auto simp: setup_security_submit_def case_prod_beta Let_def session_flag_set session_flag_pop
        split: if_splits sum.splits)
qed (use assms in \<open>auto simp: login_page_def logout_def forgot_password_page_def setup_account_def when_no_admin_def
    setup_security_def setup_recovery_code_def setup_recovery_code_confirm_def case_prod_beta Let_def session_flag_set
    session_flag_pop session_flag_Nil parts_session split: if_splits\<close>)

lemma visit_flag:
  assumes "session_flag (wb_session (do_visit (env, rq, p) w)) k" and "\<not> session_flag (wb_session w) k"
  shows "session_flag (wb_session (snd (visit_page env p rq w))) k"
  using assms by (auto simp: do_visit_def session_layer_def split: prod.splits sum.splits)

text \<open>The visit that raised a flag of a session that was empty.\<close>

lemma flag_visit:
  assumes "\<forall>(env, rq, p)\<in>set vs. we_crypto env = c \<and> we_lib env = lib" and "ready c (wb_creds w)" and "wb_session w = []"
    and "session_flag (wb_session (browse vs w)) k"
  obtains pre env rq p post where "vs = pre @ (env, rq, p) # post" and "we_crypto env = c" and "we_lib env = lib"
    and "ready c (wb_creds (browse pre w))" and "\<not> session_flag (wb_session (browse pre w)) k"
    and "session_flag (wb_session (snd (visit_page env p rq (browse pre w)))) k"
proof -
  have "\<not> session_flag (wb_session w) k" using assms(3) session_flag_Nil by simp
  from flag_origin [OF assms(4) this] obtain pre env rq p post where v: "vs = pre @ (env, rq, p) # post"
      "\<not> session_flag (wb_session (browse pre w)) k" "session_flag (wb_session (do_visit (env, rq, p) (browse pre w))) k"
    by (metis prod.collapse)
  moreover have "ready c (wb_creds (browse pre w))" using assms(1,2) v(1) by (intro browse_ready) auto
  moreover have "session_flag (wb_session (snd (visit_page env p rq (browse pre w)))) k" using v(2,3) by (intro visit_flag)
  moreover have "we_crypto env = c" "we_lib env = lib" using assms(1) v(1) by auto
  ultimately show thesis using that by blast
qed

lemma no_login_visit:
  assumes "session_flag (wb_session (snd (visit_page env p rq w1))) k" and "\<not> session_flag (wb_session w1) k" and "k \<notin> set LOGIN_KEYS"
  shows "p \<noteq> VLogin f"
  using assms login_submit_keys login_keys_flag by fastforce

text \<open>C10. What the flags of a session stand for, whatever pages a browser has visited: it is authenticated only after a
  login with the right form, it may reset the password only after a visit with the backup key of the account, and
  it may enroll a second factor in the wizard only after creating the account when there was none.\<close>
theorem session_flags_have_evidence:
  assumes "\<forall>(env, rq, p)\<in>set vs. we_crypto env = c \<and> we_lib env = lib" and "ready c (wb_creds w)" and "wb_session w = []"
  shows "(session_flag (wb_session (browse vs w)) ''authenticated'' \<longrightarrow>
        (\<exists>pre env rq f post. vs = pre @ (env, rq, VLogin f) # post \<and> right_form lib f (account c (wb_creds (browse pre w)))))
    \<and> (session_flag (wb_session (browse vs w)) ''recovery_verified'' \<longrightarrow>
        (\<exists>pre env rq key post. vs = pre @ (env, rq, VForgot key) # post \<and> key_ok lib key (account c (wb_creds (browse pre w)))))
    \<and> (session_flag (wb_session (browse vs w)) ''setup_account_done'' \<longrightarrow>
        (\<exists>pre env rq u a b post. vs = pre @ (env, rq, VAccount u a b) # post
          \<and> \<not> field_truthy (account c (wb_creds (browse pre w))) ''password_hash''))"
proof (intro conjI impI)
  assume "session_flag (wb_session (browse vs w)) ''authenticated''"
  from flag_visit [OF assms this] obtain pre env rq p post where v: "vs = pre @ (env, rq, p) # post" "we_crypto env = c" "we_lib env = lib"
      "ready c (wb_creds (browse pre w))" "\<not> session_flag (wb_session (browse pre w)) ''authenticated''"
      "session_flag (wb_session (snd (visit_page env p rq (browse pre w)))) ''authenticated''" .
  then obtain f where f: "p = VLogin f" using other_pages_flags [OF v(6,5)] by auto
  have "right_form lib f (account c (wb_creds (browse pre w)))"
    using login_submit_right [of env "browse pre w" f rq] v f by (metis prod.collapse visit_page.simps(2))
  then show "\<exists>pre env rq f post. vs = pre @ (env, rq, VLogin f) # post \<and> right_form lib f (account c (wb_creds (browse pre w)))"
    using v(1) f by blast
next
  assume "session_flag (wb_session (browse vs w)) ''recovery_verified''"
  from flag_visit [OF assms this] obtain pre env rq p post where v: "vs = pre @ (env, rq, p) # post" "we_crypto env = c" "we_lib env = lib"
      "ready c (wb_creds (browse pre w))" "\<not> session_flag (wb_session (browse pre w)) ''recovery_verified''"
      "session_flag (wb_session (snd (visit_page env p rq (browse pre w)))) ''recovery_verified''" .
  have "\<And>f. p \<noteq> VLogin f" using no_login_visit [OF v(6,5)] by (simp add: LOGIN_KEYS_def)
  from other_pages_flags [OF v(6,5) this] obtain key where p: "p = VForgot key"
      "fst (verify_backup_key lib c key (wb_creds (browse pre w)))" using v(2,3) by auto
  then have "key_ok lib key (account c (wb_creds (browse pre w)))" using checks_keep(2) [OF v(4), of lib key] by auto
  then show "\<exists>pre env rq key post. vs = pre @ (env, rq, VForgot key) # post \<and> key_ok lib key (account c (wb_creds (browse pre w)))"
    using v(1) p(1) by blast
next
  assume "session_flag (wb_session (browse vs w)) ''setup_account_done''"
  from flag_visit [OF assms this] obtain pre env rq p post where v: "vs = pre @ (env, rq, p) # post" "we_crypto env = c" "we_lib env = lib"
      "ready c (wb_creds (browse pre w))" "\<not> session_flag (wb_session (browse pre w)) ''setup_account_done''"
      "session_flag (wb_session (snd (visit_page env p rq (browse pre w)))) ''setup_account_done''" .
  have "\<And>f. p \<noteq> VLogin f" using no_login_visit [OF v(6,5)] by (simp add: LOGIN_KEYS_def)
  from other_pages_flags [OF v(6,5) this] obtain u a b where p: "p = VAccount u a b"
      "\<not> fst (admin_exists c (wb_creds (browse pre w)))" using v(2,3) by auto
  then have "\<not> field_truthy (account c (wb_creds (browse pre w))) ''password_hash''" using admin_exists_account by metis
  then show "\<exists>pre env rq u a b post. vs = pre @ (env, rq, VAccount u a b) # post
      \<and> \<not> field_truthy (account c (wb_creds (browse pre w))) ''password_hash''" using v(1) p(1) by blast
qed

theorem session_flags_have_evidence_witness:
  "\<exists>pre env rq f post. [(demo_web_env, login_request, VLogin right_guess)] = pre @ (env, rq, VLogin f) # post
    \<and> right_form toy_lib f (account plain_crypto (wb_creds (browse pre (demo_web\<lparr>wb_creds := account_disk\<rparr>))))"
proof -
  let ?w = "demo_web\<lparr>wb_creds := account_disk\<rparr>" and ?vs = "[(demo_web_env, login_request, VLogin right_guess)]"
  have "\<forall>(env, rq, p)\<in>set ?vs. we_crypto env = plain_crypto \<and> we_lib env = toy_lib" by (simp add: demo_web_env_def)
  moreover have "ready plain_crypto (wb_creds ?w)" using create_admin_ready [OF plain_ready] by (simp add: account_disk_def)
  moreover have "wb_session ?w = []" by (simp add: demo_web_def)
  moreover have "session_flag (wb_session (browse ?vs ?w)) ''authenticated''" by code_simp
  ultimately show ?thesis using session_flags_have_evidence [of ?vs plain_crypto toy_lib ?w] by blast
qed

end
