(* ===== verification/Jobs.thy ===== *)
theory Jobs
  imports Backends Login
begin

section \<open>Jobs of the dashboard (app/main.py)\<close>

text \<open>
  The upgrades, reboots and redeploys that a user starts.  A route looks the host or the backend up,
  asks for a sudo password where one is needed, creates a job and queues a task; the tasks
  run after the answer, in any order among each other, and end their jobs.  The state \<open>dash\<close> is the one of the
  web application with the jobs, the queue and the activity log.  Times are numbers, and what
  \<open>run_os_update\<close> and \<open>reboot_host_typed\<close> do is HostOps' model over the configuration and credentials of
  the moment the task runs.
\<close>

subsection \<open>Jobs, tasks and state\<close>

record run_job =
  rj_done :: bool
  rj_status :: string
  rj_error :: "string option"
  rj_lines :: "string list"
  rj_type :: string
  rj_label :: string
  rj_target :: string
  rj_sub :: string
  rj_started_at :: time
  rj_activity_id :: string
  rj_slug :: "string option"

datatype task =
  HostUpdate string string host entry
| NodeUpgrade string string
| LxcUpgrade string string host
| HostRestart string string host entry
| NodeRestart string string string host
| StackUpdate string string string

fun task_job :: "task \<Rightarrow> string" where
  "task_job (HostUpdate i slug h creds) = i"
| "task_job (NodeUpgrade i slug) = i"
| "task_job (LxcUpgrade i slug h) = i"
| "task_job (HostRestart i slug h creds) = i"
| "task_job (NodeRestart i slug node h) = i"
| "task_job (StackUpdate i key ref) = i"

record 'b dash =
  ds_web :: "'b web"
  ds_jobs :: "(string \<times> run_job) list"
  ds_queue :: "task list"
  ds_log :: log_state

text \<open>What a request draws from outside besides the environment of the middlewares: a fresh job id, the node that
  Keepup runs on, and the keys of the configured backends.\<close>

record 'b dash_env =
  de_web :: "'b web_env"
  de_job_id :: string
  de_self_node :: "string option"
  de_backends :: "string list"

type_synonym 'b dash_handler = "web_request \<Rightarrow> 'b dash \<Rightarrow> web_response res \<times> 'b dash"

definition JOB_KINDS :: "(string \<times> string) list" where
  "JOB_KINDS = [(''os_upgrade'', ''os_upgrade''), (''os_restart'', ''reboot''),
     (''container_redeploy'', ''container_redeploy'')]"

definition new_job :: "'b dash_env \<Rightarrow> string \<Rightarrow> string \<Rightarrow> string \<Rightarrow> string \<Rightarrow> 'b dash \<Rightarrow> 'b dash" where
  "new_job env job_type label target sub ds =
     ds\<lparr>ds_jobs := dict_set (de_job_id env)
         \<lparr>rj_done = False, rj_status = ''running'', rj_error = None, rj_lines = [], rj_type = job_type, rj_label = label,
          rj_target = target, rj_sub = sub, rj_started_at = we_now (de_web env), rj_activity_id = [],
          rj_slug = None\<rparr> (ds_jobs ds)\<rparr>"

definition queue_task :: "task \<Rightarrow> 'b dash \<Rightarrow> 'b dash" where
  "queue_task t ds = ds\<lparr>ds_queue := ds_queue ds @ [t]\<rparr>"

subsection \<open>The runners\<close>

text \<open>What a run draws from outside.  \<open>rv_api\<close> numbers the calls of a node restart: the reboot, the wait and
  the reading of the kernel.\<close>

record job_backend =
  jb_key :: string
  jb_describe :: "string \<Rightarrow> string res"
  jb_update :: "string \<Rightarrow> string list res"

record 'b run_env =
  rv_crypto :: "'b crypto"
  rv_hosts :: host_env
  rv_api :: "nat \<Rightarrow> px_client \<Rightarrow> api"
  rv_backends :: "job_backend list"
  rv_now :: time
  rv_run_id :: string
  rv_ids :: "nat \<Rightarrow> string"

definition job_context :: "'b crypto \<Rightarrow> 'b web \<Rightarrow> px_context" where
  "job_context c w =
     \<lparr>cx_config = wb_config w,
      cx_integration = (\<lambda>key. fst (get_integration_credentials c
         (case get_proxmox_servers (wb_config w) of [] \<Rightarrow> None | s # _ \<Rightarrow> Some (srv_id s)) key (wb_creds w)))\<rparr>"

definition hosts_now :: "'b run_env \<Rightarrow> 'b dash \<Rightarrow> host_env" where
  "hosts_now e ds = (rv_hosts e)\<lparr>he_context := job_context (rv_crypto e) (ds_web ds)\<rparr>"

definition change_job :: "string \<Rightarrow> (run_job \<Rightarrow> run_job) \<Rightarrow> 'b dash \<Rightarrow> 'b dash" where
  "change_job i f ds =
     (case dict_get (ds_jobs ds) i of None \<Rightarrow> ds | Some j \<Rightarrow> ds\<lparr>ds_jobs := dict_set i (f j) (ds_jobs ds)\<rparr>)"

definition job_record :: "'b run_env \<Rightarrow> string list \<Rightarrow> run_job \<Rightarrow> log_state \<Rightarrow> string \<times> log_state" where
  "job_record e secrets j lg =
     record_run (rv_now e) secrets (rv_ids e) (rv_run_id e) (get_or (dict_get JOB_KINDS (rj_type j)) ''os_upgrade'')
       (if rj_target j \<noteq> [] then rj_target j else rj_label j) (rj_label j) ''manual''
       (if rj_status j = ''done'' then ''success'' else ''error'') (rj_lines j) (Aware (rj_started_at j))
       (get_or (rj_error j) []) lg"

definition record_job :: "'b run_env \<Rightarrow> string \<Rightarrow> 'b dash \<Rightarrow> 'b dash" where
  "record_job e i ds =
     (case dict_get (ds_jobs ds) i of
        None \<Rightarrow> ds
      | Some j \<Rightarrow>
          let (st, d) = load_store (rv_crypto e) (wb_creds (ds_web ds));
              (aid, lg) = job_record e (secret_values st) j (ds_log ds)
          in ds\<lparr>ds_web := (ds_web ds)\<lparr>wb_creds := d\<rparr>, ds_log := lg,
                ds_jobs := dict_set i (j\<lparr>rj_activity_id := aid\<rparr>) (ds_jobs ds)\<rparr>)"

text \<open>The \<open>finally\<close> block of every runner.\<close>

definition finish_job :: "'b run_env \<Rightarrow> string \<Rightarrow> (run_job \<Rightarrow> run_job) \<Rightarrow> 'b dash \<Rightarrow> 'b dash" where
  "finish_job e i ended ds = record_job e i (change_job i (\<lambda>j. (ended j)\<lparr>rj_done := True\<rparr>) ds)"

definition ended_with :: "string list res \<Rightarrow> run_job \<Rightarrow> run_job" where
  "ended_with r j =
     (case r of
        Inr ls \<Rightarrow> j\<lparr>rj_lines := ls, rj_status := ''done''\<rparr>
      | Inl x \<Rightarrow> j\<lparr>rj_lines := lines_or_text x, rj_status := ''error'', rj_error := Some (exc_text x)\<rparr>)"

text \<open>A failed restart keeps the lines that it had.\<close>

definition restart_ended :: "string list res \<Rightarrow> run_job \<Rightarrow> run_job" where
  "restart_ended r j =
     (case r of
        Inr ls \<Rightarrow> j\<lparr>rj_lines := ls, rj_status := ''done''\<rparr>
      | Inl x \<Rightarrow> j\<lparr>rj_status := ''error'', rj_error := Some (exc_text x)\<rparr>)"

definition get_host :: "string \<Rightarrow> disk \<Rightarrow> host res" where
  "get_host slug d =
     (case map_of (get_hosts d) slug of
        Some h \<Rightarrow> Inr h
      | None \<Rightarrow> raise ''KeyError'' (py_repr (''Host '' @ py_repr slug @ '' not in config'')))"

definition run_host_update :: "'b run_env \<Rightarrow> string \<Rightarrow> string \<Rightarrow> host \<Rightarrow> entry \<Rightarrow> 'b dash \<Rightarrow> effect list \<times> 'b dash" where
  "run_host_update e i slug h creds ds =
     (let (r, effs) = run_os_update (hosts_now e ds) slug h (host_creds creds) in (effs, finish_job e i (ended_with r) ds))"

definition run_node_upgrade :: "'b run_env \<Rightarrow> string \<Rightarrow> string \<Rightarrow> 'b dash \<Rightarrow> effect list \<times> 'b dash" where
  "run_node_upgrade e i slug ds =
     (case get_host slug (wb_config (ds_web ds)) of
        Inl x \<Rightarrow> ([], finish_job e i (ended_with (Inl x)) ds)
      | Inr h \<Rightarrow>
          let (creds, d) = get_credentials (rv_crypto e) slug (wb_creds (ds_web ds))
          in run_host_update e i slug h creds (ds\<lparr>ds_web := (ds_web ds)\<lparr>wb_creds := d\<rparr>\<rparr>))"

definition run_lxc_upgrade :: "'b run_env \<Rightarrow> string \<Rightarrow> string \<Rightarrow> host \<Rightarrow> 'b dash \<Rightarrow> effect list \<times> 'b dash" where
  "run_lxc_upgrade e i slug h ds = run_host_update e i slug h [] ds"

definition run_host_restart :: "'b run_env \<Rightarrow> string \<Rightarrow> string \<Rightarrow> host \<Rightarrow> entry \<Rightarrow> 'b dash \<Rightarrow> effect list \<times> 'b dash" where
  "run_host_restart e i slug h creds ds =
     (let (r, effs) = reboot_host_typed (hosts_now e ds) slug h (host_creds creds)
      in (effs, finish_job e i (restart_ended r) ds))"

definition self_reboot_refused :: "string \<Rightarrow> string" where
  "self_reboot_refused node =
     ''Refusing to reboot Proxmox node '' @ py_repr node @ '': Keepup is running on it.''"

definition add_line :: "string \<Rightarrow> run_job \<Rightarrow> run_job" where
  "add_line s j = j\<lparr>rj_lines := rj_lines j @ [s]\<rparr>"

definition failed_job :: "string \<Rightarrow> run_job \<Rightarrow> run_job" where
  "failed_job message j = j\<lparr>rj_status := ''error'', rj_error := Some message\<rparr>"

text \<open>What the restart of a node does to its job, and the requests it makes.\<close>

definition node_restart_steps :: "'b run_env \<Rightarrow> px_context \<Rightarrow> string \<Rightarrow> host \<Rightarrow> effect list \<times> (run_job \<Rightarrow> run_job)" where
  "node_restart_steps e cx node h =
     (if is_self_on_proxmox_node (he_self_node (rv_hosts e)) node
      then ([], failed_job (self_reboot_refused node) \<circ> add_line (self_reboot_refused node))
      else case client_from_config cx (h_proxmox_server h) of
             Inl x \<Rightarrow> ([], failed_job (exc_text x))
           | Inr client \<Rightarrow>
               let issuing = add_line (''Issuing reboot to node '' @ node @ ELLIPSIS);
                   post = Api ''POST command=reboot'' (node_path node ''/status'')
               in case reboot_node (rv_api e 0 client) node of
                    Inl x \<Rightarrow> ([post], failed_job (exc_text x) \<circ> issuing)
                  | Inr _ \<Rightarrow>
                      let waiting = add_line (''Waiting for node to return'' @ ELLIPSIS) \<circ> issuing in
                      if \<not> wait_for_node (rv_api e 1 client) node 600
                      then ([post], failed_job ''Node did not come back within 10 minutes''
                              \<circ> add_line ''Node did not come back within 10 minutes.'' \<circ> waiting)
                      else case get_node_kernel (rv_api e 2 client) node of
                             Inl x \<Rightarrow> ([post], failed_job (exc_text x) \<circ> waiting)
                           | Inr kver \<Rightarrow>
                               ([post], (\<lambda>j. j\<lparr>rj_status := ''done''\<rparr>)
                                  \<circ> add_line (''Node up '' @ DASH @ '' kernel now '' @ kver) \<circ> waiting))"

definition run_node_restart :: "'b run_env \<Rightarrow> string \<Rightarrow> string \<Rightarrow> string \<Rightarrow> host \<Rightarrow> 'b dash \<Rightarrow> effect list \<times> 'b dash" where
  "run_node_restart e i slug node h ds =
     (let (effs, ended) = node_restart_steps e (job_context (rv_crypto e) (ds_web ds)) node h
      in (effs, finish_job e i ended ds))"

text \<open>The label is the readable name of the reference, when the backend gives one.\<close>

definition run_stack_update :: "'b run_env \<Rightarrow> string \<Rightarrow> string \<Rightarrow> string \<Rightarrow> 'b dash \<Rightarrow> effect list \<times> 'b dash" where
  "run_stack_update e i key ref ds =
     (case find (\<lambda>b. jb_key b = key) (rv_backends e) of
        None \<Rightarrow> ([], finish_job e i (ended_with (raise ''ValueError'' (''Backend '' @ py_repr key @ '' not available''))) ds)
      | Some b \<Rightarrow>
          let named = (\<lambda>j. case jb_describe b ref of Inr n \<Rightarrow> if n \<noteq> [] then j\<lparr>rj_label := n\<rparr> else j | Inl _ \<Rightarrow> j);
              r = res_bind (jb_update b ref) (\<lambda>ls. Inr (if ls \<noteq> [] then ls
                    else [''Stack updated '' @ DASH @ '' containers restarted with new images.'']))
          in ([], finish_job e i (ended_with r \<circ> named) ds))"

fun run_task :: "'b run_env \<Rightarrow> task \<Rightarrow> 'b dash \<Rightarrow> effect list \<times> 'b dash" where
  "run_task e (HostUpdate i slug h creds) ds = run_host_update e i slug h creds ds"
| "run_task e (NodeUpgrade i slug) ds = run_node_upgrade e i slug ds"
| "run_task e (LxcUpgrade i slug h) ds = run_lxc_upgrade e i slug h ds"
| "run_task e (HostRestart i slug h creds) ds = run_host_restart e i slug h creds ds"
| "run_task e (NodeRestart i slug node h) ds = run_node_restart e i slug node h ds"
| "run_task e (StackUpdate i key ref) ds = run_stack_update e i key ref ds"

subsection \<open>The routes that start jobs\<close>

definition error_page :: "string \<Rightarrow> web_response" where
  "error_page text = page ''partials/error.html'' [(''message'', JStr text)]"

definition job_page :: "string \<Rightarrow> 'b dash \<Rightarrow> web_response" where
  "job_page i ds = page ''partials/job_poll.html''
     [(''job_id'', JStr i), (''status'', JStr (case dict_get (ds_jobs ds) i of Some j \<Rightarrow> rj_status j | None \<Rightarrow> []))]"

text \<open>An audit line by the signed-in administrator; its details, which hold no secrets, are left out.\<close>

definition audit_admin :: "'b web_env \<Rightarrow> web_request \<Rightarrow> string \<Rightarrow> string \<Rightarrow> 'b web \<Rightarrow> 'b web" where
  "audit_admin env rq action target w =
     (let (u, d) = get_admin_username (we_crypto env) (wb_creds w)
      in audit rq action target ''ok'' (if u \<noteq> [] then u else ''unknown'') (w\<lparr>wb_creds := d\<rparr>))"

definition on_web :: "('b web \<Rightarrow> 'b web) \<Rightarrow> 'b dash \<Rightarrow> 'b dash" where
  "on_web f ds = ds\<lparr>ds_web := f (ds_web ds)\<rparr>"

definition start_job ::
  "'b dash_env \<Rightarrow> string \<Rightarrow> string \<Rightarrow> string \<Rightarrow> string \<Rightarrow> task \<Rightarrow> string \<Rightarrow> 'b dash_handler" where
  "start_job env job_type label target sub t action rq ds =
     (let ds1 = on_web (audit_admin (de_web env) rq action target) (queue_task t (new_job env job_type label target sub ds))
      in (Inr (job_page (de_job_id env) ds1), ds1))"

text \<open>The password that the task will use: the typed one, or the stored one, or none, and then the user is asked.\<close>

definition with_sudo ::
  "'b dash_env \<Rightarrow> string \<Rightarrow> host \<Rightarrow> string \<Rightarrow> string \<Rightarrow> string \<Rightarrow> entry \<Rightarrow> 'b dash \<Rightarrow> (web_response + entry) res \<times> 'b dash" where
  "with_sudo env slug h typed save action creds ds =
     (if \<not> needs_sudo_for (ssh_view slug h) then (Inr (Inr creds), ds)
      else let sudo = (if py_strip typed \<noteq> [] then py_strip typed else str_field creds ''sudo_password'');
               ready = Inr (Inr (dict_set ''sudo_password'' (JStr sudo) creds))
           in if sudo = []
              then (Inr (Inl (page ''partials/sudo_modal.html'' [(''slug'', JStr slug), (''action'', JStr action)])), ds)
              else if py_strip typed \<noteq> [] \<and> save = ''save''
              then (case save_sudo_password (we_crypto (de_web env)) slug (py_strip typed) (wb_creds (ds_web ds)) of
                      (Inl x, d) \<Rightarrow> (Inl x, on_web (\<lambda>w. w\<lparr>wb_creds := d\<rparr>) ds)
                    | (Inr _, d) \<Rightarrow> (ready, on_web (\<lambda>w. w\<lparr>wb_creds := d\<rparr>) ds))
              else (ready, ds))"

text \<open>The common end of the two routes for a host that is reached over SSH.\<close>

definition start_over_ssh ::
  "'b dash_env \<Rightarrow> string \<Rightarrow> host \<Rightarrow> string \<Rightarrow> string \<Rightarrow> string \<Rightarrow> string \<Rightarrow> (entry \<Rightarrow> task) \<Rightarrow> string \<Rightarrow> 'b dash_handler" where
  "start_over_ssh env slug h typed save what job_type task_of action rq ds =
     (let (creds, d) = get_credentials (we_crypto (de_web env)) slug (wb_creds (ds_web ds))
      in case with_sudo env slug h typed save what creds (on_web (\<lambda>w. w\<lparr>wb_creds := d\<rparr>) ds) of
           (Inl x, ds1) \<Rightarrow> (Inr (error_page (exn_str x)), ds1)
         | (Inr (Inl ask), ds1) \<Rightarrow> (Inr ask, ds1)
         | (Inr (Inr creds1), ds1) \<Rightarrow>
             start_job env job_type (h_name h) slug (get_or (h_host h) []) (task_of creds1) action rq ds1)"

definition host_update :: "'b dash_env \<Rightarrow> string \<Rightarrow> string \<Rightarrow> string \<Rightarrow> 'b dash_handler" where
  "host_update env slug typed save rq ds =
     (case get_host slug (wb_config (ds_web ds)) of
        Inl x \<Rightarrow> (Inr (error_page (exn_str x)), ds)
      | Inr h \<Rightarrow>
          let i = de_job_id env; node = get_or (h_proxmox_node h) [] in
          (case h_proxmox_vmid h of
             None \<Rightarrow>
               if node \<noteq> [] then start_job env ''os_upgrade'' (h_name h) slug node (NodeUpgrade i slug) ''host.upgrade.trigger'' rq ds
               else start_over_ssh env slug h typed save ''update'' ''os_upgrade'' (HostUpdate i slug h) ''host.upgrade.trigger'' rq ds
           | Some vmid \<Rightarrow>
               if node \<noteq> [] then start_job env ''os_upgrade'' (h_name h) slug (node @ CHR ''/'' # show_int vmid)
                 (LxcUpgrade i slug h) ''host.upgrade.trigger'' rq ds
               else start_over_ssh env slug h typed save ''update'' ''os_upgrade'' (HostUpdate i slug h) ''host.upgrade.trigger'' rq ds))"

definition host_restart :: "'b dash_env \<Rightarrow> string \<Rightarrow> string \<Rightarrow> string \<Rightarrow> 'b dash_handler" where
  "host_restart env slug typed save rq ds =
     (case get_host slug (wb_config (ds_web ds)) of
        Inl x \<Rightarrow> (Inr (error_page (exn_str x)), ds)
      | Inr h \<Rightarrow>
          let i = de_job_id env; node = get_or (h_proxmox_node h) [] in
          if node \<noteq> [] \<and> h_proxmox_vmid h = None
          then if is_self_on_proxmox_node (de_self_node env) node
               then (Inr (error_page (self_reboot_refused node)),
                     on_web (audit_admin (de_web env) rq ''host.reboot.refused_self'' slug) ds)
               else (let (r, ds1) = start_job env ''os_restart'' (h_name h) slug node (NodeRestart i slug node h)
                                      ''host.reboot.trigger'' rq ds
                     in (r, change_job i (\<lambda>j. j\<lparr>rj_slug := Some slug\<rparr>) ds1))
          else start_over_ssh env slug h typed save ''restart'' ''os_restart'' (HostRestart i slug h) ''host.reboot.trigger'' rq ds)"

definition stack_update :: "'b dash_env \<Rightarrow> string \<Rightarrow> string \<Rightarrow> 'b dash_handler" where
  "stack_update env key ref rq ds =
     (if key \<notin> set (de_backends env)
      then (Inr (error_page (''Backend '' @ py_repr key @ '' not configured.'')), ds)
      else let stack_name = (case rsplit_once CHR ''/'' ref of Some (_, n) \<Rightarrow> n | None \<Rightarrow> ref); path = key @ CHR ''/'' # ref
           in start_job env ''container_redeploy'' stack_name path key (StackUpdate (de_job_id env) key ref)
                ''docker.stack.update'' rq ds)"

subsection \<open>Requests and tasks interleaved\<close>

datatype dash_request =
  UpdateHost string string string
| RestartHost string string string
| RedeployStack string string

fun dash_handler :: "'b dash_env \<Rightarrow> dash_request \<Rightarrow> 'b dash_handler" where
  "dash_handler env (UpdateHost slug typed save) = host_update env slug typed save"
| "dash_handler env (RestartHost slug typed save) = host_restart env slug typed save"
| "dash_handler env (RedeployStack key ref) = stack_update env key ref"

text \<open>A request starts with an id that no job has; a task of the queue runs whenever it is its turn.\<close>

inductive dash_step :: "'b dash \<Rightarrow> 'b dash \<Rightarrow> bool" where
  request: "dict_get (ds_jobs ds) (de_job_id env) = None \<Longrightarrow> dash_handler env r rq ds = (Inr a, ds') \<Longrightarrow> dash_step ds ds'"
| run: "t \<in> set (ds_queue ds) \<Longrightarrow> run_task e t (ds\<lparr>ds_queue := remove1 t (ds_queue ds)\<rparr>) = (effs, ds') \<Longrightarrow> dash_step ds ds'"

inductive dash_reached :: "'b dash \<Rightarrow> bool" where
  start: "ds_jobs ds = [] \<Longrightarrow> ds_queue ds = [] \<Longrightarrow> dash_reached ds"
| step: "dash_reached ds \<Longrightarrow> dash_step ds ds' \<Longrightarrow> dash_reached ds'"

definition unfinished :: "'b dash \<Rightarrow> string set" where
  "unfinished ds = {i. \<exists>j. dict_get (ds_jobs ds) i = Some j \<and> \<not> rj_done j}"

text \<open>The password that a task over SSH needs is there; only guests of a Proxmox node are upgraded without credentials.\<close>

fun task_ready :: "task \<Rightarrow> bool" where
  "task_ready (HostUpdate i slug h creds) = (\<not> truthy_s (h_proxmox_node h)
     \<and> (needs_sudo_for (ssh_view slug h) \<longrightarrow> str_field creds ''sudo_password'' \<noteq> []))"
| "task_ready (HostRestart i slug h creds) = (needs_sudo_for (ssh_view slug h) \<longrightarrow> str_field creds ''sudo_password'' \<noteq> [])"
| "task_ready (LxcUpgrade i slug h) = (truthy_s (h_proxmox_node h) \<and> h_proxmox_vmid h \<noteq> None)"
| "task_ready _ = True"

definition jobs_sound :: "'b dash \<Rightarrow> bool" where
  "jobs_sound ds \<longleftrightarrow> distinct (map task_job (ds_queue ds)) \<and> task_job ` set (ds_queue ds) = unfinished ds
     \<and> list_all task_ready (ds_queue ds)
     \<and> (\<forall>i j. dict_get (ds_jobs ds) i = Some j \<longrightarrow> rj_done j \<longrightarrow> rj_status j = ''done'' \<or> rj_status j = ''error'' \<and> rj_error j \<noteq> None)"

subsection \<open>Every job ends, once\<close>

definition ended_status :: "run_job \<Rightarrow> bool" where
  "ended_status j \<longleftrightarrow> rj_status j = ''done'' \<or> rj_status j = ''error'' \<and> rj_error j \<noteq> None"

definition ends_well :: "(run_job \<Rightarrow> run_job) \<Rightarrow> bool" where
  "ends_well f \<longleftrightarrow> (\<forall>j. ended_status (f j))"

lemma ends_well_intros [intro]:
  "ends_well (ended_with r)" "ends_well (restart_ended r)" "ends_well (failed_job m)"
  "ends_well (\<lambda>j. j\<lparr>rj_status := ''done''\<rparr>)" "ends_well f \<Longrightarrow> ends_well (f \<circ> g)"
  by (auto simp: ends_well_def ended_status_def ended_with_def restart_ended_def failed_job_def split: sum.splits)

text \<open>What a finished run did to the jobs: its own has ended, the others are as they were.\<close>

definition only_ended :: "string \<Rightarrow> 'b dash \<Rightarrow> 'b dash \<Rightarrow> bool" where
  "only_ended i ds ds' \<longleftrightarrow> ds_queue ds' = ds_queue ds
     \<and> (\<forall>k. k \<noteq> i \<longrightarrow> dict_get (ds_jobs ds') k = dict_get (ds_jobs ds) k)
     \<and> (case dict_get (ds_jobs ds) i of None \<Rightarrow> dict_get (ds_jobs ds') i = None
        | Some _ \<Rightarrow> \<exists>j. dict_get (ds_jobs ds') i = Some j \<and> rj_done j \<and> ended_status j)"

lemma finish_job_only:
  assumes "ends_well f"
  shows "only_ended i ds (finish_job e i f ds)"
proof (cases "dict_get (ds_jobs ds) i")
  case None
  then show ?thesis by (simp add: only_ended_def finish_job_def change_job_def record_job_def)
next
  case (Some j)
  have "ended_status (f j)" using assms by (simp add: ends_well_def)
  then show ?thesis using Some
    by (auto simp: only_ended_def finish_job_def change_job_def record_job_def dict_simps ended_status_def case_prod_beta Let_def)
qed

lemma only_ended_web: "only_ended i (on_web f ds) ds' = only_ended i ds ds'"
  by (simp add: only_ended_def on_web_def)

lemma node_restart_ends: "ends_well (snd (node_restart_steps e cx node h))"
  by (auto simp: node_restart_steps_def Let_def split: sum.splits)

lemma run_task_only: "only_ended (task_job t) ds (snd (run_task e t ds))"
proof (cases t)
  case (NodeUpgrade i slug)
  have eq: "ds\<lparr>ds_web := w\<rparr> = on_web (\<lambda>_. w) ds" for w by (simp add: on_web_def)
  show ?thesis unfolding NodeUpgrade
    by (auto simp: run_node_upgrade_def run_host_update_def eq case_prod_beta only_ended_web split: sum.splits
        intro!: finish_job_only [THEN only_ended_web [THEN iffD1]] finish_job_only)
next
  case (StackUpdate i key ref)
  then show ?thesis by (auto simp: run_stack_update_def Let_def split: option.splits intro!: finish_job_only)
qed (auto simp: run_host_update_def run_lxc_upgrade_def run_host_restart_def run_node_restart_def case_prod_beta
      intro!: finish_job_only node_restart_ends)

text \<open>What a request did: nothing to the jobs, or a new one with its task.\<close>

definition one_started :: "string \<Rightarrow> 'b dash \<Rightarrow> 'b dash \<Rightarrow> bool" where
  "one_started i ds ds' \<longleftrightarrow> (\<exists>t j. ds_queue ds' = ds_queue ds @ [t] \<and> task_job t = i \<and> task_ready t
     \<and> dict_get (ds_jobs ds') i = Some j \<and> \<not> rj_done j
     \<and> (\<forall>k. k \<noteq> i \<longrightarrow> dict_get (ds_jobs ds') k = dict_get (ds_jobs ds) k))"

definition same_jobs :: "'b dash \<Rightarrow> 'b dash \<Rightarrow> bool" where
  "same_jobs ds ds' \<longleftrightarrow> ds_jobs ds' = ds_jobs ds \<and> ds_queue ds' = ds_queue ds"

lemma same_jobs_web [simp]: "same_jobs ds (on_web f ds)"
  by (simp add: same_jobs_def on_web_def)

lemma start_job_starts:
  assumes "start_job env job_type label target sub t action rq ds = (r, ds')" and "task_job t = de_job_id env" and "task_ready t"
    and "same_jobs ds0 ds"
  shows "one_started (de_job_id env) ds0 ds'"
  using assms by (auto simp: start_job_def Let_def one_started_def on_web_def queue_task_def new_job_def same_jobs_def dict_simps)

lemma with_sudo_effect:
  assumes "with_sudo env slug h typed save action creds ds = (r, ds')"
  shows "same_jobs ds ds'"
    and "r = Inr (Inr creds') \<Longrightarrow> needs_sudo_for (ssh_view slug h) \<Longrightarrow> str_field creds' ''sudo_password'' \<noteq> []"
  using assms by (auto simp: with_sudo_def Let_def same_jobs_def on_web_def str_field_def dict_simps split: if_splits sum.splits prod.splits)

lemma start_over_ssh_effect:
  assumes "start_over_ssh env slug h typed save what job_type task_of action rq ds = (r, ds')"
    and "\<And>c. task_job (task_of c) = de_job_id env"
    and "\<And>c. (needs_sudo_for (ssh_view slug h) \<longrightarrow> str_field c ''sudo_password'' \<noteq> []) \<Longrightarrow> task_ready (task_of c)"
  shows "same_jobs ds ds' \<or> one_started (de_job_id env) ds ds'"
proof -
  obtain creds d where cd: "get_credentials (we_crypto (de_web env)) slug (wb_creds (ds_web ds)) = (creds, d)" by fastforce
  obtain q ds1 where q: "with_sudo env slug h typed save what creds (on_web (\<lambda>w. w\<lparr>wb_creds := d\<rparr>) ds) = (q, ds1)" by fastforce
  have same: "same_jobs ds ds1" using with_sudo_effect(1) [OF q] by (simp add: same_jobs_def on_web_def)
  show ?thesis
  proof (cases "\<exists>c. q = Inr (Inr c)")
    case True
    then obtain c where c: "q = Inr (Inr c)" by blast
    have "task_ready (task_of c)" using with_sudo_effect(2) [OF q c] assms(3) by blast
    moreover have "start_job env job_type (h_name h) slug (get_or (h_host h) []) (task_of c) action rq ds1 = (r, ds')"
      using assms(1) by (simp add: start_over_ssh_def cd q c)
    ultimately show ?thesis using start_job_starts assms(2) same by blast
  next
    case False
    then have "ds' = ds1" using assms(1) by (auto simp: start_over_ssh_def cd q split: sum.splits)
    then show ?thesis using same by simp
  qed
qed

lemma host_update_effect:
  assumes "host_update env slug typed save rq ds = (r, ds')"
  shows "same_jobs ds ds' \<or> one_started (de_job_id env) ds ds'"
proof (cases "get_host slug (wb_config (ds_web ds))")
  case (Inl x)
  then show ?thesis using assms by (simp add: host_update_def same_jobs_def)
next
  case (Inr h)
  let ?i = "de_job_id env" and ?node = "get_or (h_proxmox_node h) []"
  let ?ssh = "start_over_ssh env slug h typed save ''update'' ''os_upgrade'' (HostUpdate ?i slug h) ''host.upgrade.trigger'' rq ds"
  show ?thesis
  proof (cases "?node = []")
    case True
    then have "\<not> truthy_s (h_proxmox_node h)" by (cases "h_proxmox_node h") simp_all
    then have "?ssh = (r, ds') \<Longrightarrow> ?thesis" by (intro start_over_ssh_effect) auto
    then show ?thesis using assms Inr True by (simp add: host_update_def Let_def split: option.splits)
  next
    case False
    then obtain sub t where "start_job env ''os_upgrade'' (h_name h) slug sub t ''host.upgrade.trigger'' rq ds = (r, ds')"
        and "t = NodeUpgrade ?i slug \<or> (t = LxcUpgrade ?i slug h \<and> h_proxmox_vmid h \<noteq> None)"
      using assms Inr by (auto simp: host_update_def Let_def split: option.splits)
    moreover have "truthy_s (h_proxmox_node h)" using False by (cases "h_proxmox_node h") simp_all
    ultimately show ?thesis using start_job_starts [where ds0 = ds] by (fastforce simp: same_jobs_def)
  qed
qed

lemma one_started_change:
  assumes "one_started i ds ds'" and "\<And>j. rj_done (f j) = rj_done j"
  shows "one_started i ds (change_job i f ds')"
  using assms by (fastforce simp: one_started_def change_job_def dict_simps)

lemma host_restart_effect:
  assumes "host_restart env slug typed save rq ds = (r, ds')"
  shows "same_jobs ds ds' \<or> one_started (de_job_id env) ds ds'"
proof (cases "get_host slug (wb_config (ds_web ds))")
  case (Inl x)
  then show ?thesis using assms by (simp add: host_restart_def same_jobs_def)
next
  case (Inr h)
  let ?i = "de_job_id env" and ?node = "get_or (h_proxmox_node h) []"
  have ssh: "start_over_ssh env slug h typed save ''restart'' ''os_restart'' (HostRestart ?i slug h) ''host.reboot.trigger'' rq ds = (r, ds')
      \<Longrightarrow> ?thesis" by (rule start_over_ssh_effect) auto
  show ?thesis
  proof (cases "?node \<noteq> [] \<and> h_proxmox_vmid h = None")
    case False
    then show ?thesis using assms Inr ssh by (auto simp: host_restart_def Let_def)
  next
    case True
    obtain a ds1 where st: "start_job env ''os_restart'' (h_name h) slug ?node (NodeRestart ?i slug ?node h) ''host.reboot.trigger'' rq ds
        = (a, ds1)" by fastforce
    have "one_started ?i ds ds1" by (rule start_job_starts [OF st]) (simp_all add: same_jobs_def)
    then have started: "one_started ?i ds (change_job ?i (\<lambda>j. j\<lparr>rj_slug := Some slug\<rparr>) ds1)" by (rule one_started_change) simp
    show ?thesis using assms Inr True st started by (auto simp: host_restart_def Let_def split: if_splits)
  qed
qed

lemma dash_handler_effect:
  assumes "dash_handler env req rq ds = (r, ds')"
  shows "same_jobs ds ds' \<or> one_started (de_job_id env) ds ds'"
proof (cases req)
  case (RedeployStack key ref)
  show ?thesis
  proof (cases "key \<in> set (de_backends env)")
    case True
    then obtain a b c where "start_job env a b c key (StackUpdate (de_job_id env) key ref) ''docker.stack.update'' rq ds = (r, ds')"
      using assms RedeployStack by (auto simp: stack_update_def Let_def)
    then have "one_started (de_job_id env) ds ds'" by (rule start_job_starts) (simp_all add: same_jobs_def)
    then show ?thesis by blast
  next
    case False
    then show ?thesis using assms RedeployStack by (simp add: stack_update_def same_jobs_def)
  qed
next
  case (UpdateHost slug typed save)
  then show ?thesis using assms host_update_effect [of env slug typed save rq ds r ds'] by simp
next
  case (RestartHost slug typed save)
  then show ?thesis using assms host_restart_effect [of env slug typed save rq ds r ds'] by simp
qed

lemma jobs_sound_started:
  assumes "jobs_sound ds" and "one_started i ds ds'" and "dict_get (ds_jobs ds) i = None"
  shows "jobs_sound ds'"
proof -
  obtain t j where q: "ds_queue ds' = ds_queue ds @ [t]" and t: "task_job t = i" "task_ready t"
      and j: "dict_get (ds_jobs ds') i = Some j" "\<not> rj_done j"
      and others: "\<And>k. k \<noteq> i \<Longrightarrow> dict_get (ds_jobs ds') k = dict_get (ds_jobs ds) k"
    using assms(2) by (auto simp: one_started_def)
  have new: "i \<notin> unfinished ds" using assms(3) by (simp add: unfinished_def)
  have unf: "unfinished ds' = insert i (unfinished ds)"
  proof -
    have "k \<in> unfinished ds' \<longleftrightarrow> k = i \<or> k \<in> unfinished ds" for k
      using j others [of k] assms(3) by (cases "k = i") (auto simp: unfinished_def)
    then show ?thesis by blast
  qed
  have "rj_status j' = ''done'' \<or> rj_status j' = ''error'' \<and> rj_error j' \<noteq> None"
    if "dict_get (ds_jobs ds') k = Some j'" "rj_done j'" for k j'
    using that assms(1) j others [of k] by (cases "k = i") (auto simp: jobs_sound_def)
  then show ?thesis using assms(1) q t unf new by (auto simp: jobs_sound_def)
qed

lemma jobs_sound_run:
  assumes "jobs_sound ds" and "t \<in> set (ds_queue ds)"
    and "only_ended (task_job t) (ds\<lparr>ds_queue := remove1 t (ds_queue ds)\<rparr>) ds'"
  shows "jobs_sound ds'"
proof -
  let ?i = "task_job t"
  have dist: "distinct (map task_job (ds_queue ds))" and img: "task_job ` set (ds_queue ds) = unfinished ds"
    using assms(1) by (simp_all add: jobs_sound_def)
  have q: "ds_queue ds' = remove1 t (ds_queue ds)" using assms(3) by (simp add: only_ended_def)
  have others: "\<And>k. k \<noteq> ?i \<Longrightarrow> dict_get (ds_jobs ds') k = dict_get (ds_jobs ds) k" using assms(3) by (simp add: only_ended_def)
  have "?i \<in> unfinished ds" using img assms(2) by blast
  then obtain j where j: "dict_get (ds_jobs ds') ?i = Some j" "rj_done j" "ended_status j"
    using assms(3) by (auto simp: only_ended_def unfinished_def)
  have set_q: "set (remove1 t (ds_queue ds)) = set (ds_queue ds) - {t}"
    using dist by (simp add: distinct_map set_remove1_eq)
  have "task_job ` (set (ds_queue ds) - {t}) = task_job ` set (ds_queue ds) - {?i}"
    using dist assms(2) by (auto simp: distinct_map inj_on_def)
  moreover have "unfinished ds' = unfinished ds - {?i}"
  proof -
    have "k \<in> unfinished ds' \<longleftrightarrow> k \<noteq> ?i \<and> k \<in> unfinished ds" for k
      using j others [of k] by (cases "k = ?i") (auto simp: unfinished_def)
    then show ?thesis by blast
  qed
  moreover have "distinct (map task_job (remove1 t (ds_queue ds)))"
    using dist by (metis distinct_map distinct_remove1 inj_on_subset set_remove1_subset)
  moreover have "list_all task_ready (remove1 t (ds_queue ds))"
    using assms(1) set_q by (auto simp: jobs_sound_def list_all_iff)
  moreover have "rj_status j' = ''done'' \<or> rj_status j' = ''error'' \<and> rj_error j' \<noteq> None"
    if "dict_get (ds_jobs ds') k = Some j'" "rj_done j'" for k j'
    using that assms(1) j others [of k] by (cases "k = ?i") (auto simp: jobs_sound_def ended_status_def)
  ultimately show ?thesis using img q set_q by (auto simp: jobs_sound_def)
qed

lemma jobs_sound_same: "jobs_sound ds \<Longrightarrow> same_jobs ds ds' \<Longrightarrow> jobs_sound ds'"
  by (simp add: jobs_sound_def same_jobs_def unfinished_def)

lemma jobs_sound_step:
  assumes "jobs_sound ds" and "dash_step ds ds'"
  shows "jobs_sound ds'"
  using assms(2)
proof cases
  case (request env r rq a)
  then show ?thesis using assms(1) dash_handler_effect jobs_sound_started jobs_sound_same by blast
next
  case (run t e effs)
  then show ?thesis using assms(1) run_task_only [of t "ds\<lparr>ds_queue := remove1 t (ds_queue ds)\<rparr>" e] jobs_sound_run
    by fastforce
qed

lemma reached_sound: "dash_reached ds \<Longrightarrow> jobs_sound ds"
proof (induction rule: dash_reached.induct)
  case (start ds)
  then show ?case by (simp add: jobs_sound_def unfinished_def)
qed (rule jobs_sound_step)

text \<open>C14. Whatever the requests and however the queued tasks run between them: the jobs that are shown as running are
  exactly those of the queued tasks, one task each, and every other job has ended with success or with an error text.\<close>
theorem running_jobs_are_queued:
  assumes "dash_reached ds"
  shows "distinct (map task_job (ds_queue ds))
    \<and> task_job ` set (ds_queue ds) = {i. \<exists>j. dict_get (ds_jobs ds) i = Some j \<and> \<not> rj_done j}
    \<and> (\<forall>i j. dict_get (ds_jobs ds) i = Some j \<longrightarrow> rj_done j \<longrightarrow> rj_status j = ''done'' \<or> rj_status j = ''error'' \<and> rj_error j \<noteq> None)"
  using reached_sound [OF assms] by (simp add: jobs_sound_def unfinished_def)

text \<open>C15. In every state the dashboard reaches, a queued upgrade under a host's own login belongs to a host without a Proxmox
  node and has a sudo password whenever the login needs one, and so has a queued restart.  The upgrade of a guest is queued
  without credentials, and only for an entry with a node and a guest id; that of a node reads them when it runs.\<close>
theorem queued_tasks_have_sudo:
  assumes "dash_reached ds" and "t \<in> set (ds_queue ds)"
  shows "case t of
      HostUpdate i slug h creds \<Rightarrow> \<not> truthy_s (h_proxmox_node h)
        \<and> (needs_sudo_for (ssh_view slug h) \<longrightarrow> str_field creds ''sudo_password'' \<noteq> [])
    | HostRestart i slug h creds \<Rightarrow> (needs_sudo_for (ssh_view slug h) \<longrightarrow> str_field creds ''sudo_password'' \<noteq> [])
    | LxcUpgrade i slug h \<Rightarrow> truthy_s (h_proxmox_node h) \<and> h_proxmox_vmid h \<noteq> None
    | _ \<Rightarrow> True"
proof -
  have "task_ready t" using reached_sound [OF assms(1)] assms(2) by (simp add: jobs_sound_def list_all_iff)
  then show ?thesis by (cases t) simp_all
qed

text \<open>The queue worked off from its front.\<close>

fun drain :: "'b run_env \<Rightarrow> task list \<Rightarrow> 'b dash \<Rightarrow> 'b dash" where
  "drain e [] ds = ds"
| "drain e (t # ts) ds = drain e ts (snd (run_task e t (ds\<lparr>ds_queue := ts\<rparr>)))"

lemma drain_reached: "dash_reached ds \<Longrightarrow> dash_reached (drain e (ds_queue ds) ds) \<and> ds_queue (drain e (ds_queue ds) ds) = []"
proof (induction "ds_queue ds" arbitrary: ds)
  case Nil
  then show ?case by (metis drain.simps(1))
next
  case (Cons t ts)
  let ?ds = "ds\<lparr>ds_queue := ts\<rparr>" and ?ds' = "snd (run_task e t (ds\<lparr>ds_queue := ts\<rparr>))"
  have q: "ds_queue ds = t # ts" using Cons.hyps(2) by simp
  have "dash_step ds ?ds'"
    by (rule dash_step.run [where t = t and e = e and effs = "fst (run_task e t ?ds)"]) (simp_all add: q)
  then have "dash_reached ?ds'" using Cons.prems dash_reached.step by blast
  moreover have "ds_queue ?ds' = ts" using run_task_only [of t ?ds e] by (simp add: only_ended_def)
  ultimately show ?case using Cons.hyps(1) [of ?ds'] q by simp
qed

text \<open>C13. Every job ends: when the queue of any reachable state is worked off, no job is running any more and each has its outcome.\<close>
theorem every_job_ends:
  assumes "dash_reached ds" and "dict_get (ds_jobs (drain e (ds_queue ds) ds)) i = Some j"
  shows "rj_done j \<and> (rj_status j = ''done'' \<or> rj_status j = ''error'' \<and> rj_error j \<noteq> None)"
proof -
  have sound: "jobs_sound (drain e (ds_queue ds) ds)" and "ds_queue (drain e (ds_queue ds) ds) = []"
    using drain_reached [OF assms(1), of e] reached_sound by blast+
  then have "i \<notin> unfinished (drain e (ds_queue ds) ds)" by (auto simp: jobs_sound_def)
  then have "rj_done j" using assms(2) by (simp add: unfinished_def)
  then show ?thesis using sound assms(2) by (simp add: jobs_sound_def)
qed

subsection \<open>What is recorded of a job\<close>

definition recorded :: "'b run_env \<Rightarrow> store \<Rightarrow> string \<Rightarrow> log_state \<Rightarrow> 'b dash \<Rightarrow> bool" where
  "recorded e st i lg ds' \<longleftrightarrow> (\<exists>j. dict_get (ds_jobs ds') i = Some j
     \<and> job_record e (secret_values st) (j\<lparr>rj_activity_id := []\<rparr>) lg = (rj_activity_id j, ds_log ds'))"

lemma job_record_same: "job_record e secrets (j\<lparr>rj_activity_id := a\<rparr>) lg = job_record e secrets j lg"
  by (simp add: job_record_def)

lemma finish_job_recorded:
  assumes "dict_get (ds_jobs ds) i = Some j0"
  shows "recorded e (view (rv_crypto e) (wb_creds (ds_web ds))) i (ds_log ds) (finish_job e i f ds)"
  using assms
  by (auto simp: recorded_def finish_job_def change_job_def record_job_def dict_simps case_prod_beta view_def job_record_same)

lemma run_host_update_recorded:
  assumes "dict_get (ds_jobs ds) i = Some j0"
  shows "recorded e (view (rv_crypto e) (wb_creds (ds_web ds))) i (ds_log ds) (snd (run_host_update e i slug h creds ds))"
  using finish_job_recorded [OF assms] by (simp add: run_host_update_def case_prod_beta)

lemma run_node_upgrade_recorded:
  assumes "dict_get (ds_jobs ds) i = Some j0" and "ready (rv_crypto e) (wb_creds (ds_web ds))"
  shows "recorded e (view (rv_crypto e) (wb_creds (ds_web ds))) i (ds_log ds) (snd (run_node_upgrade e i slug ds))"
proof (cases "get_host slug (wb_config (ds_web ds))")
  case (Inl x)
  then show ?thesis using finish_job_recorded [OF assms(1)] by (simp add: run_node_upgrade_def)
next
  case (Inr h)
  obtain creds d where cd: "get_credentials (rv_crypto e) slug (wb_creds (ds_web ds)) = (creds, d)" by fastforce
  have "d = snd (load_store (rv_crypto e) (wb_creds (ds_web ds)))" using cd by (simp add: get_credentials_def case_prod_beta)
  then have view: "view (rv_crypto e) d = view (rv_crypto e) (wb_creds (ds_web ds))" using load_store_ready(2) [OF assms(2)] by simp
  let ?ds = "ds\<lparr>ds_web := (ds_web ds)\<lparr>wb_creds := d\<rparr>\<rparr>"
  have "dict_get (ds_jobs ?ds) i = Some j0" using assms(1) by simp
  then have "recorded e (view (rv_crypto e) d) i (ds_log ds) (snd (run_host_update e i slug h creds ?ds))"
    using run_host_update_recorded [where ds = ?ds] by fastforce
  then show ?thesis using view by (simp add: run_node_upgrade_def Inr cd)
qed

text \<open>The run of a task leaves one record in the activity log: what the job shows at its end, its lines redacted with
  the secrets stored at that time, as a success exactly when the job is done, and the job names the record.\<close>
theorem finished_job_recorded:
  assumes "dict_get (ds_jobs ds) (task_job t) = Some j0" and "ready (rv_crypto e) (wb_creds (ds_web ds))"
  shows "\<exists>j. dict_get (ds_jobs (snd (run_task e t ds))) (task_job t) = Some j
    \<and> record_run (rv_now e) (secret_values (view (rv_crypto e) (wb_creds (ds_web ds)))) (rv_ids e) (rv_run_id e)
        (get_or (dict_get JOB_KINDS (rj_type j)) ''os_upgrade'') (if rj_target j \<noteq> [] then rj_target j else rj_label j)
        (rj_label j) ''manual'' (if rj_status j = ''done'' then ''success'' else ''error'') (rj_lines j)
        (Aware (rj_started_at j)) (get_or (rj_error j) []) (ds_log ds)
      = (rj_activity_id j, ds_log (snd (run_task e t ds)))"
proof -
  have "recorded e (view (rv_crypto e) (wb_creds (ds_web ds))) (task_job t) (ds_log ds) (snd (run_task e t ds))"
  proof (cases t)
    case (NodeUpgrade i slug)
    then show ?thesis using run_node_upgrade_recorded assms by simp
  next
    case (StackUpdate i key ref)
    then show ?thesis using finish_job_recorded assms(1) by (auto simp: run_stack_update_def Let_def split: option.splits)
  qed (use finish_job_recorded run_host_update_recorded assms(1) in
      \<open>auto simp: run_lxc_upgrade_def run_host_restart_def run_node_restart_def case_prod_beta\<close>)
  then show ?thesis unfolding recorded_def job_record_same unfolding job_record_def .
qed

subsection \<open>What the tasks do\<close>

text \<open>C23. The node that Keepup runs on is not restarted from the dashboard: the route starts no job for it, and a task that is
  already queued for it makes no request.\<close>
theorem no_self_restart_from_dashboard:
  assumes "he_self_node (rv_hosts e) = Some node" and "de_self_node env = Some node" and "node \<noteq> []"
    and "get_host slug (wb_config (ds_web ds)) = Inr h" and "h_proxmox_node h = Some node" and "h_proxmox_vmid h = None"
  shows "fst (run_task e (NodeRestart i slug node h) ds) = []
    \<and> ds_jobs (snd (dash_handler env (RestartHost slug typed save) rq ds)) = ds_jobs ds
    \<and> ds_queue (snd (dash_handler env (RestartHost slug typed save) rq ds)) = ds_queue ds"
proof -
  have self: "is_self_on_proxmox_node (Some node) node" using assms(3) by (simp add: is_self_on_proxmox_node_def)
  have "fst (run_task e (NodeRestart i slug node h) ds) = []"
    using self assms(1) by (simp add: run_node_restart_def node_restart_steps_def)
  moreover have "same_jobs ds (snd (host_restart env slug typed save rq ds))"
    using self assms(2-6) by (simp add: host_restart_def Let_def)
  ultimately show ?thesis by (simp add: same_jobs_def)
qed

lemma lxc_update_ignores_creds:
  "resolve_kind (he_context env) h = Lxc \<Longrightarrow> run_os_update env slug h c = run_os_update env slug h c'"
  by (simp add: run_os_update_def)

lemma node_update_ignores_creds:
  "resolve_kind (he_context env) h = Node \<Longrightarrow> run_os_update env slug h c = run_os_update env slug h c'"
  by (simp add: run_os_update_def)

text \<open>Reading credentials leaves what the next reads give.\<close>

lemma context_after_read:
  assumes "ready c (wb_creds w)"
  shows "job_context c (w\<lparr>wb_creds := snd (get_credentials c slug (wb_creds w))\<rparr>) = job_context c w"
proof -
  have "fst (load_store c (snd (load_store c (wb_creds w)))) = fst (load_store c (wb_creds w))"
    using load_store_ready(2) [OF assms] unfolding view_def .
  then have "fst (get_integration_credentials c fs key (snd (load_store c (wb_creds w))))
      = fst (get_integration_credentials c fs key (wb_creds w))" for fs key
    by (simp add: get_integration_credentials_def case_prod_beta cong: option.case_cong)
  then show ?thesis by (simp add: job_context_def get_credentials_def case_prod_beta)
qed

text \<open>The task that the dashboard queues for the upgrade of a host, once its credentials are known.\<close>

definition upgrade_task :: "string \<Rightarrow> string \<Rightarrow> host \<Rightarrow> entry \<Rightarrow> task" where
  "upgrade_task i slug h creds =
     (if \<not> truthy_s (h_proxmox_node h) then HostUpdate i slug h creds
      else if h_proxmox_vmid h = None then NodeUpgrade i slug else LxcUpgrade i slug h)"

lemma upgrade_task_as_scheduled:
  assumes "get_host slug (wb_config (ds_web ds)) = Inr h" and "je_config je = wb_config (ds_web ds)"
    and "je_upgrade je = hosts_now e ds" and "host_creds (je_creds je slug) = host_creds creds" and "au_os_enabled (auto_of h)"
    and "needs_sudo_for (ssh_view slug h) \<longrightarrow> truthy_s (sx_sudo (host_creds creds))"
    and "h_proxmox_vmid h \<noteq> None \<and> truthy_s (h_proxmox_node h) \<longrightarrow> resolve_kind (job_context (rv_crypto e) (ds_web ds)) h = Lxc"
    and "h_proxmox_vmid h = None \<and> truthy_s (h_proxmox_node h) \<longrightarrow> resolve_kind (job_context (rv_crypto e) (ds_web ds)) h = Node"
    and "ready (rv_crypto e) (wb_creds (ds_web ds))"
  shows "\<exists>evs. run_os_job je slug = Upgraded (fst (run_task e (upgrade_task i slug h creds) ds)) # evs"
proof -
  have h: "map_of (get_hosts (je_config je)) slug = Some h"
    using assms(1,2) by (simp add: get_host_def split: option.splits)
  have job: "run_os_job je slug = os_attempt je slug h (host_creds creds)"
    using h assms(4,5,6) by (auto simp: run_os_job_def Let_def)
  have "\<exists>evs. os_attempt je slug h (host_creds creds) = Upgraded (snd (run_os_update (hosts_now e ds) slug h (host_creds creds))) # evs"
    using assms(3) by (cases "run_os_update (hosts_now e ds) slug h (host_creds creds)")
      (auto simp: os_attempt_def Let_def split: sum.splits)
  moreover have "fst (run_task e (upgrade_task i slug h creds) ds) = snd (run_os_update (hosts_now e ds) slug h (host_creds creds))"
  proof (cases "truthy_s (h_proxmox_node h)")
    case False
    then show ?thesis by (simp add: upgrade_task_def run_host_update_def case_prod_beta)
  next
    case node: True
    have cx: "he_context (hosts_now e w) = job_context (rv_crypto e) (ds_web w)" for w by (simp add: hosts_now_def)
    show ?thesis
    proof (cases "h_proxmox_vmid h")
      case None
      obtain c d where cd: "get_credentials (rv_crypto e) slug (wb_creds (ds_web ds)) = (c, d)" by fastforce
      have same: "hosts_now e (ds\<lparr>ds_web := (ds_web ds)\<lparr>wb_creds := d\<rparr>\<rparr>) = hosts_now e ds"
        using context_after_read [OF assms(9), of slug] cd by (simp add: hosts_now_def)
      show ?thesis using node None assms(1,8) cd node_update_ignores_creds [of "hosts_now e ds" h slug "host_creds c" "host_creds creds"]
        by (simp add: upgrade_task_def run_node_upgrade_def run_host_update_def case_prod_beta same cx)
    next
      case (Some vmid)
      then show ?thesis using node assms(7) lxc_update_ignores_creds [of "hosts_now e ds" h slug "host_creds []" "host_creds creds"]
        by (simp add: upgrade_task_def run_lxc_upgrade_def run_host_update_def case_prod_beta cx)
    qed
  qed
  ultimately show ?thesis using job by simp
qed

lemma with_stored_sudo:
  assumes "with_sudo env slug h [] save what stored ds = (Inr (Inr creds), ds1)"
  shows "host_creds creds = host_creds stored"
proof -
  let ?s = "str_field stored ''sudo_password''"
  have strip: "py_strip [] = []" by code_simp
  have "creds = stored \<or> ?s \<noteq> [] \<and> creds = dict_set ''sudo_password'' (JStr ?s) stored"
  proof (cases "needs_sudo_for (ssh_view slug h) \<and> ?s \<noteq> []")
    case True
    then show ?thesis using assms by (simp add: with_sudo_def strip Let_def)
  next
    case False
    then show ?thesis using assms by (cases "needs_sudo_for (ssh_view slug h)") (simp_all add: with_sudo_def strip Let_def)
  qed
  then consider "creds = stored" | "?s \<noteq> []" "creds = dict_set ''sudo_password'' (JStr ?s) stored" by blast
  then show ?thesis
  proof cases
    case 2
    then have "cred_field stored ''sudo_password'' = Some ?s"
      by (simp add: cred_field_def str_field_def split: option.splits json.splits)
    then show ?thesis using 2 by (simp add: host_creds_def) (simp add: cred_field_def dict_simps)
  qed simp
qed

text \<open>What the request queues when no password is typed: the task of the host's entry, with its stored credentials.\<close>

lemma host_update_queues:
  assumes "get_host slug (wb_config (ds_web ds)) = Inr h" and "host_update env slug [] save rq ds = (r, ds1)"
    and "ds_queue ds1 = ds_queue ds @ [t]"
  shows "\<exists>creds. t = upgrade_task (de_job_id env) slug h creds
    \<and> host_creds creds = host_creds (fst (get_credentials (we_crypto (de_web env)) slug (wb_creds (ds_web ds))))"
proof -
  let ?i = "de_job_id env"
  obtain stored d where cd: "get_credentials (we_crypto (de_web env)) slug (wb_creds (ds_web ds)) = (stored, d)" by fastforce
  show ?thesis
  proof (cases "truthy_s (h_proxmox_node h)")
    case True
    then have "get_or (h_proxmox_node h) [] \<noteq> []" by (auto simp: truthy_s_iff)
    then have "t = (if h_proxmox_vmid h = None then NodeUpgrade ?i slug else LxcUpgrade ?i slug h)"
      using assms by (auto simp: host_update_def start_job_def queue_task_def new_job_def on_web_def Let_def split: option.splits)
    then show ?thesis using True cd by (auto simp: upgrade_task_def)
  next
    case False
    then have "get_or (h_proxmox_node h) [] = []" by (cases "h_proxmox_node h") simp_all
    then have ssh: "start_over_ssh env slug h [] save ''update'' ''os_upgrade'' (HostUpdate ?i slug h) ''host.upgrade.trigger'' rq ds = (r, ds1)"
      using assms(1,2) by (simp add: host_update_def Let_def split: option.splits)
    let ?ds = "on_web (\<lambda>w. w\<lparr>wb_creds := d\<rparr>) ds"
    obtain q ds0 where q: "with_sudo env slug h [] save ''update'' stored ?ds = (q, ds0)" by fastforce
    then have ds0: "ds_queue ds0 = ds_queue ds" using with_sudo_effect(1) [OF q] by (simp add: same_jobs_def on_web_def)
    obtain creds where c: "q = Inr (Inr creds)" using ssh assms(3) ds0 by (auto simp: start_over_ssh_def cd q split: sum.splits)
    have "start_job env ''os_upgrade'' (h_name h) slug (get_or (h_host h) []) (HostUpdate ?i slug h creds) ''host.upgrade.trigger'' rq ds0
        = (r, ds1)" using ssh by (simp add: start_over_ssh_def cd q c)
    then have "t = HostUpdate ?i slug h creds"
      using assms(3) ds0 by (auto simp: start_job_def queue_task_def new_job_def on_web_def Let_def)
    moreover have "host_creds creds = host_creds stored" using with_stored_sudo q c by blast
    ultimately show ?thesis using False cd by (auto simp: upgrade_task_def)
  qed
qed

text \<open>C22. For a host whose server is configured and that is not a VM, and whose sudo password is stored when its login needs one,
  the task that the dashboard's update request queues does to the machine, whenever it runs with the entry unchanged, what the
  scheduled upgrade of the host does.  A VM, a host whose server was deleted, and a password that is only typed are left out.\<close>
theorem manual_upgrade_as_scheduled:
  assumes "get_host slug (wb_config (ds_web ds)) = Inr h" and "host_update env slug [] save rq ds = (r, ds1)"
    and "ds_queue ds1 = ds_queue ds @ [t]"
    and "get_host slug (wb_config (ds_web ds2)) = Inr h" and "ready (rv_crypto e) (wb_creds (ds_web ds2))"
    and "resolve_kind (job_context (rv_crypto e) (ds_web ds2)) h = classify_host h" and "classify_host h \<noteq> Vm"
    and "je_config je = wb_config (ds_web ds2)" and "je_upgrade je = hosts_now e ds2" and "au_os_enabled (auto_of h)"
    and "je_creds je slug = fst (get_credentials (we_crypto (de_web env)) slug (wb_creds (ds_web ds)))"
    and "needs_sudo_for (ssh_view slug h) \<longrightarrow> truthy_s (sx_sudo (host_creds (je_creds je slug)))"
  shows "\<exists>evs. run_os_job je slug = Upgraded (fst (run_task e t ds2)) # evs"
proof -
  obtain creds where t: "t = upgrade_task (de_job_id env) slug h creds" and c: "host_creds creds = host_creds (je_creds je slug)"
    using host_update_queues [OF assms(1-3)] assms(11) by auto
  have kinds: "truthy_s (h_proxmox_node h) \<Longrightarrow> classify_host h = (if h_proxmox_vmid h = None then Node else Lxc)"
    using assms(7) by (auto simp: classify_host_def split: if_splits)
  show ?thesis unfolding t
    by (rule upgrade_task_as_scheduled [OF assms(4,8,9)]) (use c assms(5,6,10,12) kinds in auto)
qed

subsection \<open>Concrete runs\<close>

definition demo_dash_env :: "(string \<times> store) dash_env" where
  "demo_dash_env = \<lparr>de_web = demo_web_env, de_job_id = ''job00001'', de_self_node = Some ''pve'', de_backends = []\<rparr>"

definition demo_run :: "(string \<times> store) run_env" where
  "demo_run = \<lparr>rv_crypto = plain_crypto, rv_hosts = demo_env, rv_api = (\<lambda>_ _ _ _ _. ApiResp 200 True None),
     rv_backends = [], rv_now = 1060, rv_run_id = ''0badcafe'', rv_ids = (\<lambda>_. [])\<rparr>"

definition demo_hosts :: disk where
  "demo_hosts = Some (empty_config\<lparr>c_hosts := Some
     [build_host_entry ''nas'' ''10.0.0.3'' (Some ''root'') None None None None None None None,
      build_host_entry ''pi'' ''10.0.0.4'' (Some ''pi'') None None None None None None None, demo_node]\<rparr>)"

definition demo_dash :: "(string \<times> store) dash" where
  "demo_dash = \<lparr>ds_web = demo_web\<lparr>wb_config := demo_hosts\<rparr>, ds_jobs = [], ds_queue = [], ds_log = empty_log\<rparr>"

definition asked :: "dash_request \<Rightarrow> (string \<times> store) dash" where
  "asked r = snd (dash_handler demo_dash_env r home_request demo_dash)"

lemma handler_reached:
  assumes "dash_reached ds" and "dict_get (ds_jobs ds) (de_job_id env) = None"
    and "fst (dash_handler env r rq ds) = Inr a"
  shows "dash_reached (snd (dash_handler env r rq ds))"
  using assms dash_step.request [of ds env r rq a] by (metis dash_reached.step prod.collapse)

lemma asked_reached:
  assumes "fst (dash_handler demo_dash_env r home_request demo_dash) = Inr a"
  shows "dash_reached (asked r)"
  unfolding asked_def using assms by (intro handler_reached) (auto intro!: dash_reached.start simp: demo_dash_def)

lemma handler_answers: "\<exists>a. fst (dash_handler env r rq ds) = Inr a"
  by (cases r) (auto simp: host_update_def host_restart_def stack_update_def start_over_ssh_def start_job_def Let_def
      split: sum.splits prod.splits option.splits)

lemma demo_reached: "dash_reached (asked r)"
  using handler_answers asked_reached by blast

theorem running_jobs_are_queued_witness:
  "task_job ` set (ds_queue (asked (UpdateHost ''nas'' [] []))) = {''job00001''}
    \<and> {i. \<exists>j. dict_get (ds_jobs (asked (UpdateHost ''nas'' [] []))) i = Some j \<and> \<not> rj_done j} = {''job00001''}"
proof -
  have "map task_job (ds_queue (asked (UpdateHost ''nas'' [] []))) = [''job00001'']" by code_simp
  then have "task_job ` set (ds_queue (asked (UpdateHost ''nas'' [] []))) = {''job00001''}" by (metis list.set(1,2) list.set_map)
  then show ?thesis using running_jobs_are_queued [OF demo_reached, of "UpdateHost ''nas'' [] []"] by simp
qed

theorem queued_tasks_have_sudo_witness:
  "\<exists>h creds. ds_queue (asked (UpdateHost ''pi'' ''raspberry'' [])) = [HostUpdate ''job00001'' ''pi'' h creds]
    \<and> needs_sudo_for (ssh_view ''pi'' h) \<and> str_field creds ''sudo_password'' \<noteq> []"
proof -
  let ?h = "build_host_entry ''pi'' ''10.0.0.4'' (Some ''pi'') None None None None None None None"
  have q: "ds_queue (asked (UpdateHost ''pi'' ''raspberry'' [])) = [HostUpdate ''job00001'' ''pi'' ?h [(''sudo_password'', JStr ''raspberry'')]]"
    by code_simp
  moreover have "needs_sudo_for (ssh_view ''pi'' ?h)" by code_simp
  moreover from this have "str_field [(''sudo_password'', JStr ''raspberry'')] ''sudo_password'' \<noteq> []"
    using queued_tasks_have_sudo [OF demo_reached, of "HostUpdate ''job00001'' ''pi'' ?h [(''sudo_password'', JStr ''raspberry'')]"
          "UpdateHost ''pi'' ''raspberry'' []"] by (simp add: q)
  ultimately show ?thesis by blast
qed

lemma handled_queue_keeps: "only_ended i ds ds' \<Longrightarrow> dict_get (ds_jobs ds) k \<noteq> None \<Longrightarrow> dict_get (ds_jobs ds') k \<noteq> None"
  by (cases "k = i") (auto simp: only_ended_def split: option.splits)

lemma drain_keeps: "dict_get (ds_jobs ds) k \<noteq> None \<Longrightarrow> dict_get (ds_jobs (drain e ts ds)) k \<noteq> None"
proof (induction ts arbitrary: ds)
  case (Cons t ts)
  have "dict_get (ds_jobs (snd (run_task e t (ds\<lparr>ds_queue := ts\<rparr>)))) k \<noteq> None"
    using handled_queue_keeps [OF run_task_only [of t "ds\<lparr>ds_queue := ts\<rparr>" e]] Cons.prems by simp
  then show ?case using Cons.IH by simp
qed simp

theorem every_job_ends_witness:
  "\<exists>j. dict_get (ds_jobs (drain demo_run (ds_queue (asked (UpdateHost ''nas'' [] []))) (asked (UpdateHost ''nas'' [] [])))) ''job00001'' = Some j
    \<and> rj_done j"
proof -
  let ?ds = "asked (UpdateHost ''nas'' [] [])"
  have "dict_get (ds_jobs ?ds) ''job00001'' \<noteq> None" by code_simp
  then obtain j where j: "dict_get (ds_jobs (drain demo_run (ds_queue ?ds) ?ds)) ''job00001'' = Some j" using drain_keeps by blast
  then show ?thesis using every_job_ends [OF demo_reached j] by blast
qed

theorem no_self_restart_from_dashboard_witness:
  "fst (run_task demo_run (NodeRestart ''job00001'' ''pve'' ''pve'' demo_node) demo_dash) = []
    \<and> ds_jobs (snd (dash_handler demo_dash_env (RestartHost ''pve'' [] []) home_request demo_dash)) = []"
proof -
  have "get_host ''pve'' (wb_config (ds_web demo_dash)) = Inr demo_node" by code_simp
  moreover have "h_proxmox_node demo_node = Some ''pve''" "h_proxmox_vmid demo_node = None" by code_simp+
  moreover have "he_self_node (rv_hosts demo_run) = Some ''pve''" "de_self_node demo_dash_env = Some ''pve''"
    by (simp_all add: demo_run_def demo_env_def demo_dash_env_def)
  moreover have "ds_jobs demo_dash = []" by (simp add: demo_dash_def)
  ultimately show ?thesis using no_self_restart_from_dashboard [of demo_run "''pve''" demo_dash_env "''pve''" demo_dash demo_node] by simp
qed

theorem manual_upgrade_as_scheduled_witness:
  "\<exists>evs. run_os_job (demo_job\<lparr>je_upgrade := hosts_now (demo_run\<lparr>rv_hosts := reboot_env\<rparr>) (demo_dash\<lparr>ds_web := demo_web\<lparr>wb_config := auto_config\<rparr>\<rparr>)\<rparr>) ''nas''
    = Upgraded (fst (run_task (demo_run\<lparr>rv_hosts := reboot_env\<rparr>) (HostUpdate ''job00001'' ''nas'' auto_host [])
        (demo_dash\<lparr>ds_web := demo_web\<lparr>wb_config := auto_config\<rparr>\<rparr>))) # evs"
proof -
  let ?ds = "demo_dash\<lparr>ds_web := demo_web\<lparr>wb_config := auto_config\<rparr>\<rparr>" and ?e = "demo_run\<lparr>rv_hosts := reboot_env\<rparr>"
  let ?je = "demo_job\<lparr>je_upgrade := hosts_now ?e ?ds\<rparr>"
  obtain r ds1 where run: "host_update demo_dash_env ''nas'' [] [] home_request ?ds = (r, ds1)" by fastforce
  have "ds_queue (snd (host_update demo_dash_env ''nas'' [] [] home_request ?ds)) = [HostUpdate ''job00001'' ''nas'' auto_host []]"
    by code_simp
  then have queue: "ds_queue ds1 = ds_queue ?ds @ [HostUpdate ''job00001'' ''nas'' auto_host []]"
    using run by (simp add: demo_dash_def)
  have host: "get_host ''nas'' (wb_config (ds_web ?ds)) = Inr auto_host" using demo_phases(1) by (simp add: get_host_def)
  have ready: "ready (rv_crypto ?e) (wb_creds (ds_web ?ds))" using plain_ready by (simp add: demo_run_def demo_web_def)
  have "\<not> truthy_s (h_proxmox_node auto_host)" by code_simp
  then have kind: "classify_host auto_host = Plain" "resolve_kind cx auto_host = Plain" for cx
    by (simp_all add: resolve_kind_def classify_host_def Let_def)
  have enabled: "au_os_enabled (auto_of auto_host)" using demo_phases(6) by simp
  have stored: "je_creds ?je ''nas'' = fst (get_credentials (we_crypto (de_web demo_dash_env)) ''nas'' (wb_creds (ds_web ?ds)))"
  proof -
    have "fst (get_credentials plain_crypto ''nas'' fresh_disk) = []" by code_simp
    then show ?thesis by (simp add: demo_dash_env_def demo_web_env_def demo_web_def)
  qed
  show ?thesis
    by (rule manual_upgrade_as_scheduled [OF host run queue host ready _ _ _ _ enabled stored])
      (use demo_phases(2) in \<open>simp_all add: kind\<close>)
qed

theorem finished_job_recorded_witness:
  "\<exists>j. dict_get (ds_jobs (snd (run_task demo_run (HostUpdate ''job00001'' ''nas'' auto_host []) (asked (UpdateHost ''nas'' [] []))))) ''job00001'' = Some j"
proof -
  let ?ds = "asked (UpdateHost ''nas'' [] [])"
  obtain j0 where j0: "dict_get (ds_jobs ?ds) (task_job (HostUpdate ''job00001'' ''nas'' auto_host [])) = Some j0"
  proof -
    have "dict_get (ds_jobs ?ds) ''job00001'' \<noteq> None" by code_simp
    then show thesis using that by auto
  qed
  have "wb_creds (ds_web ?ds) = fresh_disk" by code_simp
  then have "ready (rv_crypto demo_run) (wb_creds (ds_web ?ds))" using plain_ready by (simp add: demo_run_def)
  then show ?thesis using finished_job_recorded [OF j0] by fastforce
qed

end
