(* ===== verification/Discovery.thy ===== *)
theory Discovery
  imports ProxmoxFacts "HOL-Library.Product_Lexorder"
begin

section \<open>Discovery of guests (app/proxmox_client.py)\<close>

text \<open>
  The listing of all containers and machines of a cluster for the pages that add hosts.  Two sources are
  merged by (type, node, id), and a failing source keeps what it gave before.  The addresses are
  asked for together by the code; here in the order of the list.
\<close>

definition get_version :: "api \<Rightarrow> json res" where
  "get_version api =
     res_bind (body_of (api 0 ''GET'' ''/api2/json/version'')) (\<lambda>j.
       case json_item j ''data'' of None \<Rightarrow> raise ''KeyError'' (py_repr ''data'') | Some d \<Rightarrow> Inr d)"

text \<open>A JSON value in an f-string.\<close>

definition json_text :: "json \<Rightarrow> string" where
  "json_text j = (case j of JStr s \<Rightarrow> s | JNum n \<Rightarrow> show_int n | JNull \<Rightarrow> ''None'' | _ \<Rightarrow> [])"

subsection \<open>Addresses\<close>

definition usable_ip :: "string \<Rightarrow> bool" where
  "usable_ip ip \<longleftrightarrow> ip \<noteq> [] \<and> \<not> starts_with ip ''127.''"

fun first_found :: "('a \<Rightarrow> 'b option res) \<Rightarrow> 'a list \<Rightarrow> 'b option res" where
  "first_found f [] = Inr None"
| "first_found f (x # xs) = res_bind (f x) (\<lambda>r. case r of Some y \<Rightarrow> Inr (Some y) | None \<Rightarrow> first_found f xs)"

definition lxc_iface_ip :: "json \<Rightarrow> string option res" where
  "lxc_iface_ip iface =
     res_bind (field_or iface ''name'' (JStr [])) (\<lambda>n.
       if n = JStr ''lo'' then Inr None
       else res_bind (field_or iface ''inet'' (JStr [])) (\<lambda>i.
         case i of
           JStr s \<Rightarrow> Inr (find usable_ip (map (\<lambda>a. hd (split_char CHR ''/'' (py_strip a))) (split_char CHR '','' s)))
         | _ \<Rightarrow> raise ''AttributeError'' ''no attribute split''))"

definition ip_or_empty :: "string option res \<Rightarrow> string" where
  "ip_or_empty r = (case r of Inr (Some ip) \<Rightarrow> ip | _ \<Rightarrow> [])"

definition get_lxc_ip :: "api \<Rightarrow> nat \<Rightarrow> string \<Rightarrow> string \<Rightarrow> string" where
  "get_lxc_ip api n node vmid =
     ip_or_empty (res_bind (body_of (api n ''GET'' (''/api2/json/nodes/'' @ node @ ''/lxc/'' @ vmid @ ''/interfaces''))) (\<lambda>j.
       res_bind (field_or j ''data'' (JList [])) (\<lambda>d. res_bind (as_list d) (first_found lxc_iface_ip))))"

definition vm_addr_ip :: "json \<Rightarrow> string option res" where
  "vm_addr_ip a =
     res_bind (field_or a ''ip-address-type'' JNull) (\<lambda>t.
       if t \<noteq> JStr ''ipv4'' then Inr None
       else res_bind (field_or a ''ip-address'' (JStr [])) (\<lambda>i.
         case i of
           JStr s \<Rightarrow> Inr (if usable_ip s then Some s else None)
         | _ \<Rightarrow> if json_truthy i then raise ''AttributeError'' ''no attribute startswith'' else Inr None))"

definition vm_iface_ip :: "json \<Rightarrow> string option res" where
  "vm_iface_ip iface =
     res_bind (field_or iface ''name'' (JStr [])) (\<lambda>n.
       if n = JStr ''lo'' then Inr None
       else res_bind (field_or iface ''ip-addresses'' (JList [])) (\<lambda>as. res_bind (as_list as) (first_found vm_addr_ip)))"

definition get_vm_ip :: "api \<Rightarrow> nat \<Rightarrow> string \<Rightarrow> string \<Rightarrow> string" where
  "get_vm_ip api n node vmid =
     ip_or_empty (res_bind (body_of (api n ''GET''
         (''/api2/json/nodes/'' @ node @ ''/qemu/'' @ vmid @ ''/agent/network-get-interfaces''))) (\<lambda>j.
       res_bind (field_or j ''data'' (JObj [])) (\<lambda>d. res_bind (field_or d ''result'' (JList [])) (\<lambda>r.
         res_bind (as_list r) (first_found vm_iface_ip)))))"

subsection \<open>The merged listing\<close>

record px_resource =
  px_type :: string
  px_node :: json
  px_vmid :: json
  px_name :: json
  px_status :: json
  px_ip :: string

type_synonym found_resources = "((string \<times> json \<times> json) \<times> px_resource) list"

definition listed_resource :: "string \<Rightarrow> json \<Rightarrow> json \<Rightarrow> json \<Rightarrow> px_resource res" where
  "listed_resource rtype node vmid item =
     res_bind (field_or item ''name'' (JStr (rtype @ CHR ''-'' # json_text vmid))) (\<lambda>n.
       res_bind (field_or item ''status'' (JStr ''unknown'')) (\<lambda>s.
         Inr \<lparr>px_type = rtype, px_node = node, px_vmid = vmid, px_name = n, px_status = s, px_ip = []\<rparr>))"

definition cluster_item :: "json \<Rightarrow> found_resources \<Rightarrow> found_resources res" where
  "cluster_item item seen =
     res_bind (field_or item ''type'' JNull) (\<lambda>t.
       case t of
         JStr rtype \<Rightarrow>
           if rtype \<notin> {''qemu'', ''lxc''} then Inr seen
           else res_bind (field_or item ''vmid'' JNull) (\<lambda>vmid. res_bind (field_or item ''node'' (JStr [])) (\<lambda>node.
             res_bind (listed_resource rtype node vmid item) (\<lambda>r. Inr (dict_set (rtype, node, vmid) r seen))))
       | _ \<Rightarrow> Inr seen)"

definition container_item :: "json \<Rightarrow> json \<Rightarrow> found_resources \<Rightarrow> found_resources res" where
  "container_item node item seen =
     (case json_item item ''vmid'' of
        None \<Rightarrow> raise ''KeyError'' (py_repr ''vmid'')
      | Some vmid \<Rightarrow>
          if dict_get seen (''lxc'', node, vmid) \<noteq> None then Inr seen
          else res_bind (listed_resource ''lxc'' node vmid item) (\<lambda>r. Inr (dict_set (''lxc'', node, vmid) r seen)))"

text \<open>A loop under \<open>try\<close>: what was found before an exception stays.\<close>

fun until_error :: "('a \<Rightarrow> 's \<Rightarrow> 's res) \<Rightarrow> 'a list \<Rightarrow> 's \<Rightarrow> 's" where
  "until_error f [] s = s"
| "until_error f (x # xs) s = (case f x s of Inl e \<Rightarrow> s | Inr s' \<Rightarrow> until_error f xs s')"

definition data_items :: "api_out \<Rightarrow> json list" where
  "data_items a =
     (case res_bind (body_of a) (\<lambda>j. res_bind (field_or j ''data'' (JList [])) as_list) of Inl e \<Rightarrow> [] | Inr xs \<Rightarrow> xs)"

definition from_cluster :: "api \<Rightarrow> found_resources" where
  "from_cluster api = until_error cluster_item (data_items (api 0 ''GET'' ''/api2/json/cluster/resources'')) []"

fun from_nodes :: "api \<Rightarrow> nat \<Rightarrow> json list \<Rightarrow> found_resources \<Rightarrow> found_resources" where
  "from_nodes api n [] seen = seen"
| "from_nodes api n (node # later) seen =
     (case json_item node ''node'' of
        None \<Rightarrow> seen
      | Some name \<Rightarrow>
          from_nodes api (n + 1) later
            (until_error (container_item name)
               (data_items (api n ''GET'' (''/api2/json/nodes/'' @ json_text name @ ''/lxc''))) seen))"

definition guest_ip :: "api \<Rightarrow> nat \<Rightarrow> px_resource \<Rightarrow> string" where
  "guest_ip api n r =
     (if px_type r = ''lxc'' then get_lxc_ip api n (json_text (px_node r)) (json_text (px_vmid r))
      else get_vm_ip api n (json_text (px_node r)) (json_text (px_vmid r)))"

fun fill_ips :: "api \<Rightarrow> nat \<Rightarrow> px_resource list \<Rightarrow> px_resource list" where
  "fill_ips api n [] = []"
| "fill_ips api n (r # rs) = r\<lparr>px_ip := guest_ip api n r\<rparr> # fill_ips api (n + 1) rs"

text \<open>Nodes are texts and ids numbers, as the API documents.\<close>

definition resource_key :: "px_resource \<Rightarrow> string \<times> int" where
  "resource_key r = (json_text (px_node r), case px_vmid r of JNum n \<Rightarrow> n | _ \<Rightarrow> 0)"

definition discover_resources :: "api \<Rightarrow> px_resource list" where
  "discover_resources api =
     (let nodes = data_items (api 1 ''GET'' ''/api2/json/nodes'');
          seen = from_nodes api 2 nodes (from_cluster api)
      in sort_key resource_key (fill_ips api (2 + length nodes) (map snd seen)))"

subsection \<open>Every guest once, and no loopback address\<close>

definition resource_id :: "px_resource \<Rightarrow> string \<times> json \<times> json" where
  "resource_id r = (px_type r, px_node r, px_vmid r)"

definition seen_ok :: "found_resources \<Rightarrow> bool" where
  "seen_ok seen \<longleftrightarrow> dict_ok seen \<and> (\<forall>(k, r)\<in>set seen. k = resource_id r \<and> px_type r \<in> {''lxc'', ''qemu''})"

lemma dict_set_members: "(k', v') \<in> set (dict_set k v d) \<Longrightarrow> (k', v') = (k, v) \<or> (k', v') \<in> set d"
  by (induction d) (auto split: if_splits)

lemma seen_ok_set: "seen_ok seen \<Longrightarrow> px_type r \<in> {''lxc'', ''qemu''} \<Longrightarrow> seen_ok (dict_set (resource_id r) r seen)"
  by (auto simp: seen_ok_def dict_ok_set dest!: dict_set_members)

lemma listed_resource_id: "listed_resource t node vmid item = Inr r \<Longrightarrow> resource_id r = (t, node, vmid) \<and> px_type r = t"
  by (auto simp: listed_resource_def res_bind_Inr_iff resource_id_def)

lemma listed_set_ok:
  assumes "seen_ok seen" and "listed_resource t node vmid item = Inr r" and "t \<in> {''lxc'', ''qemu''}"
  shows "seen_ok (dict_set (t, node, vmid) r seen)"
  using listed_resource_id [OF assms(2)] seen_ok_set [OF assms(1), of r] assms(3) by simp

lemma cluster_item_ok:
  assumes "seen_ok seen" and "cluster_item item seen = Inr seen'"
  shows "seen_ok seen'"
proof -
  obtain t where t: "field_or item ''type'' JNull = Inr t" using assms(2) by (auto simp: cluster_item_def res_bind_Inr_iff)
  show ?thesis
  proof (cases "t \<in> {JStr ''lxc'', JStr ''qemu''}")
    case True
    then obtain rtype where "t = JStr rtype" "rtype \<in> {''lxc'', ''qemu''}" by blast
    moreover from this obtain vmid node r where "listed_resource rtype node vmid item = Inr r"
        "seen' = dict_set (rtype, node, vmid) r seen"
      using assms(2) t by (auto simp: cluster_item_def res_bind_Inr_iff)
    ultimately show ?thesis using listed_set_ok [OF assms(1)] by simp
  next
    case False
    then have "seen' = seen" using assms(2) t by (cases t) (auto simp: cluster_item_def split: if_split_asm)
    then show ?thesis using assms(1) by simp
  qed
qed

lemma container_item_ok:
  assumes "seen_ok seen" and "container_item node item seen = Inr seen'"
  shows "seen_ok seen'"
proof -
  obtain vmid where v: "json_item item ''vmid'' = Some vmid"
    using assms(2) by (cases "json_item item ''vmid''") (simp_all add: container_item_def)
  show ?thesis
  proof (cases "dict_get seen (''lxc'', node, vmid) = None")
    case True
    then obtain r where "listed_resource ''lxc'' node vmid item = Inr r" "seen' = dict_set (''lxc'', node, vmid) r seen"
      using assms(2) v by (auto simp: container_item_def res_bind_Inr_iff)
    then show ?thesis using listed_set_ok [OF assms(1)] by simp
  qed (use assms v in \<open>auto simp: container_item_def\<close>)
qed

lemma until_error_ok:
  assumes "\<And>x s s'. P s \<Longrightarrow> f x s = Inr s' \<Longrightarrow> P s'" and "P s"
  shows "P (until_error f xs s)"
  using assms(2) by (induction xs arbitrary: s) (auto split: sum.splits dest: assms(1))

lemma from_nodes_ok: "seen_ok seen \<Longrightarrow> seen_ok (from_nodes api n nodes seen)"
proof (induction nodes arbitrary: n seen)
  case (Cons node nodes)
  show ?case
  proof (cases "json_item node ''node''")
    case (Some name)
    have "seen_ok (until_error (container_item name) items seen)" for items
      using until_error_ok [where P = seen_ok and f = "container_item name", OF container_item_ok Cons.prems] .
    then show ?thesis using Cons.IH Some by simp
  qed (use Cons.prems in simp)
qed simp

lemma found_ok: "seen_ok (from_nodes api n nodes (from_cluster api))"
proof (rule from_nodes_ok)
  have "seen_ok []" by (simp add: seen_ok_def)
  from until_error_ok [where P = seen_ok and f = cluster_item, OF cluster_item_ok this]
  show "seen_ok (from_cluster api)" unfolding from_cluster_def .
qed

lemma first_found_Some: "first_found f xs = Inr (Some y) \<Longrightarrow> \<exists>x\<in>set xs. f x = Inr (Some y)"
  by (induction xs) (auto simp: res_bind_Inr_iff split: option.splits)

lemma find_true: "find P xs = Some x \<Longrightarrow> P x"
  by (auto simp: find_Some_iff)

lemma lxc_iface_usable: "lxc_iface_ip i = Inr (Some ip) \<Longrightarrow> usable_ip ip"
proof -
  assume a: "lxc_iface_ip i = Inr (Some ip)"
  then obtain n where n: "field_or i ''name'' (JStr []) = Inr n" "n \<noteq> JStr ''lo''"
    by (auto simp: lxc_iface_ip_def res_bind_Inr_iff split: if_split_asm)
  then obtain v where v: "field_or i ''inet'' (JStr []) = Inr v" using a by (auto simp: lxc_iface_ip_def res_bind_Inr_iff)
  show "usable_ip ip" using a n v by (cases v) (auto simp: lxc_iface_ip_def dest: find_true)
qed

lemma vm_addr_usable: "vm_addr_ip a = Inr (Some ip) \<Longrightarrow> usable_ip ip"
  by (auto simp: vm_addr_ip_def res_bind_Inr_iff split: if_split_asm json.split_asm)

lemma vm_iface_usable: "vm_iface_ip i = Inr (Some ip) \<Longrightarrow> usable_ip ip"
  by (auto simp: vm_iface_ip_def res_bind_Inr_iff split: if_splits dest!: first_found_Some vm_addr_usable)

lemma ip_or_empty_usable: "(\<And>ip. r = Inr (Some ip) \<Longrightarrow> usable_ip ip) \<Longrightarrow> ip_or_empty r = [] \<or> usable_ip (ip_or_empty r)"
  by (auto simp: ip_or_empty_def split: sum.splits option.splits)

lemma guest_ip_usable: "guest_ip api n r = [] \<or> usable_ip (guest_ip api n r)"
  unfolding guest_ip_def get_lxc_ip_def get_vm_ip_def
  by (auto split: if_splits intro!: ip_or_empty_usable
      simp: res_bind_Inr_iff dest!: first_found_Some lxc_iface_usable vm_iface_usable)

lemma fill_ips_ids: "map resource_id (fill_ips api n rs) = map resource_id rs"
  by (induction rs arbitrary: n) (simp_all add: resource_id_def)

lemma fill_ips_usable: "r \<in> set (fill_ips api n rs) \<Longrightarrow> px_ip r = [] \<or> usable_ip (px_ip r)"
proof (induction rs arbitrary: n)
  case (Cons a rs)
  then show ?case using guest_ip_usable [of api n a] by auto
qed simp

text \<open>The listing names every container and machine once, whatever the two sources repeat, in the order of
  node and id, and no address of it is a loopback address.\<close>
theorem discovered_once:
  "distinct (map resource_id (discover_resources api)) \<and> sorted (map resource_key (discover_resources api))
    \<and> list_all (\<lambda>r. \<not> starts_with (px_ip r) ''127.'') (discover_resources api)"
proof -
  let ?nodes = "data_items (api 1 ''GET'' ''/api2/json/nodes'')"
  let ?seen = "from_nodes api 2 ?nodes (from_cluster api)"
  let ?rs = "fill_ips api (2 + length ?nodes) (map snd ?seen)"
  have ok: "seen_ok ?seen" by (rule found_ok)
  have "map resource_id (map snd ?seen) = map fst ?seen"
    unfolding map_map by (rule map_cong [OF refl]) (use ok in \<open>auto simp: seen_ok_def\<close>)
  moreover have "dict_ok ?seen" using ok unfolding seen_ok_def by (rule conjunct1)
  ultimately have "distinct (map resource_id ?rs)" unfolding fill_ips_ids by (rule ssubst)
  then have "distinct (map resource_id (sort_key resource_key ?rs))"
    by (simp add: distinct_map del: map_map)
  moreover have "list_all (\<lambda>r. \<not> starts_with (px_ip r) ''127.'') (sort_key resource_key ?rs)"
    using fill_ips_usable by (fastforce simp: list_all_iff usable_ip_def)
  ultimately show ?thesis by (simp add: discover_resources_def Let_def)
qed

end
