(* ===== verification/Connect.thy ===== *)
theory Connect
  imports Login Portainer Discovery
begin

section \<open>Connecting integrations (app/auth_router.py, app/cert_utils.py)\<close>

text \<open>
  The routes that test a server, ask for trust in its certificate and save it.  The TLS and HTTP
  libraries are the parameter \<open>wizard_net\<close>: an answer per request with the trust it is made with, the
  certificate a server shows, and what the certificate library reads from it.  Computations on
  the state of the application stop at the first exception.
\<close>

subsection \<open>Computations on the state\<close>

type_synonym ('w, 'a) web_steps = "'w \<Rightarrow> 'a res \<times> 'w"

definition w_return :: "'a \<Rightarrow> ('w, 'a) web_steps" where "w_return x w = (Inr x, w)"

definition w_lift :: "'a res \<Rightarrow> ('w, 'a) web_steps" where "w_lift r w = (r, w)"

definition w_bind :: "('w, 'a) web_steps \<Rightarrow> ('a \<Rightarrow> ('w, 'b) web_steps) \<Rightarrow> ('w, 'b) web_steps" where
  "w_bind m k w = (case m w of (Inl e, w1) \<Rightarrow> (Inl e, w1) | (Inr x, w1) \<Rightarrow> k x w1)"

definition w_state :: "('w \<Rightarrow> ('w, 'a) web_steps) \<Rightarrow> ('w, 'a) web_steps" where "w_state f w = f w w"

definition w_creds :: "('b cred_disk \<Rightarrow> 'a res \<times> 'b cred_disk) \<Rightarrow> ('b web, 'a) web_steps" where
  "w_creds f w = (let (r, d) = f (wb_creds w) in (r, w\<lparr>wb_creds := d\<rparr>))"

definition w_config :: "(disk \<Rightarrow> disk) \<Rightarrow> ('b web, unit) web_steps" where
  "w_config f w = (Inr (), w\<lparr>wb_config := f (wb_config w)\<rparr>)"

definition w_session :: "(entry \<Rightarrow> entry) \<Rightarrow> ('b web, unit) web_steps" where
  "w_session f w = (Inr (), w\<lparr>wb_session := f (wb_session w)\<rparr>)"

definition w_both ::
  "(disk \<times> 'b cred_disk \<Rightarrow> 'a res \<times> (disk \<times> 'b cred_disk)) \<Rightarrow> ('b web, 'a) web_steps" where
  "w_both f w = (let (r, (d, c)) = f (wb_config w, wb_creds w) in (r, w\<lparr>wb_config := d, wb_creds := c\<rparr>))"

definition first_server_id :: "disk \<Rightarrow> string option" where
  "first_server_id d = (case get_proxmox_servers d of [] \<Rightarrow> None | s # _ \<Rightarrow> Some (srv_id s))"

definition w_integration :: "'b web_env \<Rightarrow> string \<Rightarrow> ('b web, entry) web_steps" where
  "w_integration env key w =
     (let (e, d) = get_integration_credentials (we_crypto env) (first_server_id (wb_config w)) key (wb_creds w)
      in (Inr e, w\<lparr>wb_creds := d\<rparr>))"

definition w_save_integration :: "'b web_env \<Rightarrow> string \<Rightarrow> (string \<times> json option) list \<Rightarrow> ('b web, unit) web_steps" where
  "w_save_integration env key fs = w_creds (save_integration_credentials (we_crypto env) key fs)"

definition text_field :: "string \<Rightarrow> string \<Rightarrow> string \<times> json option" where
  "text_field k v = (k, Some (JStr v))"

text \<open>\<open>v or None\<close>.\<close>

definition given_field :: "string \<Rightarrow> string \<Rightarrow> string \<times> json option" where
  "given_field k v = (k, if v = [] then None else Some (JStr v))"

definition clean_url :: "string \<Rightarrow> string" where
  "clean_url u = rstrip_char CHR ''/'' (py_strip u)"

definition message :: "string \<Rightarrow> string \<Rightarrow> web_response" where
  "message colour s = html 200 (''<span class='' @ [DQUOTE] @ ''text-'' @ colour @ ''-400 text-sm'' @ [DQUOTE] @ ''>'' @ s @ ''</span>'')"

definition good_message :: "string \<Rightarrow> web_response" where
  "good_message s = message ''green'' (''&#10003; '' @ s)"

definition bad_message :: "string \<Rightarrow> web_response" where
  "bad_message s = message ''red'' (''&#10007; '' @ s)"

subsection \<open>Certificates\<close>

record http_probe =
  pb_url :: string
  pb_auth :: string
  pb_pem :: string
  pb_verify :: bool

record wizard_net =
  wn_get :: "http_probe \<Rightarrow> api_out"
  wn_px :: "px_client \<Rightarrow> api"
  wn_portainer :: "string \<Rightarrow> string \<Rightarrow> string \<Rightarrow> papi"
  wn_causes :: "exn \<Rightarrow> exn list"
  wn_shown_cert :: "string \<Rightarrow> int \<Rightarrow> string res"
  wn_to_pem :: "string \<Rightarrow> string res"
  wn_digest :: "string \<Rightarrow> string res"
  wn_names :: "string \<Rightarrow> entry res"
  wn_context :: "string \<Rightarrow> unit res"

text \<open>The port of a network location; one that is not a number up to 65535 is a \<open>ValueError\<close>.\<close>

definition netloc_port :: "string \<Rightarrow> int option res" where
  "netloc_port netloc =
     (let hostinfo = (case rsplit_once CHR ''@'' netloc of Some (_, h) \<Rightarrow> h | None \<Rightarrow> netloc);
          rest = (case split_once ''['' hostinfo of
                    Some (_, br) \<Rightarrow> snd (cut_at CHR '']'' br) | None \<Rightarrow> hostinfo);
          port = snd (cut_at CHR '':'' rest)
      in if port = [] then Inr None
         else if list_all is_digit port
         then (case py_int port of
                 Some n \<Rightarrow> if n \<le> 65535 then Inr (Some n) else raise ''ValueError'' ''Port out of range 0-65535''
               | None \<Rightarrow> raise ''ValueError'' ''Port could not be cast to integer value'')
         else raise ''ValueError'' ''Port could not be cast to integer value'')"

definition fetch_server_cert :: "wizard_net \<Rightarrow> string \<Rightarrow> string res" where
  "fetch_server_cert net url =
     res_bind (urlsplit url) (\<lambda>u. res_bind (netloc_port (su_netloc u)) (\<lambda>port.
       res_bind (wn_shown_cert net (get_or (netloc_host (su_netloc u)) [])
                   (case port of Some n \<Rightarrow> if n \<noteq> 0 then n else 443 | None \<Rightarrow> 443)) (wn_to_pem net)))"

fun pairs_of :: "string \<Rightarrow> string list" where
  "pairs_of (a # b # s) = [a, b] # pairs_of s"
| "pairs_of [a] = [[a]]"
| "pairs_of [] = []"

definition fingerprint :: "wizard_net \<Rightarrow> string \<Rightarrow> string res" where
  "fingerprint net pem = res_bind (wn_digest net pem) (\<lambda>hex. Inr (py_join '':'' (pairs_of (py_upper hex))))"

definition cert_info :: "wizard_net \<Rightarrow> string \<Rightarrow> entry res" where
  "cert_info net pem =
     res_bind (fingerprint net pem) (\<lambda>fp. res_bind (wn_names net pem) (\<lambda>ns. Inr ((''fingerprint'', JStr fp) # ns)))"

definition cert_error_text :: "string \<Rightarrow> bool" where
  "cert_error_text msg \<longleftrightarrow> contains msg ''CERTIFICATE_VERIFY_FAILED'' \<or> contains (py_lower msg) ''certificate verify failed''"

text \<open>The exception or one that it wraps.\<close>

definition is_ssl_cert_error :: "wizard_net \<Rightarrow> exn \<Rightarrow> bool" where
  "is_ssl_cert_error net e \<longleftrightarrow> list_ex (\<lambda>x. cert_error_text (exn_str x)) (e # wn_causes net e)"

subsection \<open>A connection test\<close>

text \<open>
  The five test routes have one shape.  \<open>tt_probe\<close> makes the request with a pinned certificate (none is the
  system's trust) and gives the text of success; \<open>tt_unverified\<close> makes it without verification.  \<open>tt_context\<close> is the
  building of the TLS context where the route does it before its \<open>try\<close>, so that its exception leaves the route; the routes
  whose client builds the context have none, and its exception is one of the probe.
\<close>

record cert_test =
  tt_key :: string
  tt_context :: "string \<Rightarrow> unit res"
  tt_probe :: "string \<Rightarrow> string res"
  tt_unverified :: "string res"
  tt_stored :: string
  tt_hint :: "string \<Rightarrow> string"
  tt_url :: string
  tt_path :: string
  tt_include :: string
  tt_target :: string
  tt_next :: string

definition pending_key :: "string \<Rightarrow> string" where "pending_key key = ''pending_cert_'' @ key"
definition confirmed_key :: "string \<Rightarrow> string" where "confirmed_key key = ''confirmed_cert_'' @ key"

definition test_unverified :: "cert_test \<Rightarrow> web_response" where
  "test_unverified t =
     (case tt_unverified t of
        Inr ok \<Rightarrow> good_message (ok @ '' Click Save to '' @ tt_next t)
      | Inl e \<Rightarrow> bad_message (take 120 (exn_str e)))"

definition ask_trust :: "wizard_net \<Rightarrow> cert_test \<Rightarrow> bool \<Rightarrow> 'b web handler" where
  "ask_trust net t changed rq w =
     (case res_bind (fetch_server_cert net (tt_url t)) (\<lambda>pem. res_bind (cert_info net pem) (\<lambda>i. Inr (pem, i))) of
        Inl e \<Rightarrow> (Inr (bad_message (''SSL certificate error '' @ DASH @ '' could not fetch certificate details.'')), w)
      | Inr (new_pem, info) \<Rightarrow>
          (Inr (page ''partials/cert_trust_prompt.html''
             [(''info'', JObj info), (''test_url'', JStr (tt_path t)), (''include_ids'', JStr (tt_include t)),
              (''target_id'', JStr (tt_target t)), (''changed'', JBool changed)]),
           w\<lparr>wb_session := dict_set (pending_key (tt_key t)) (JStr new_pem) (wb_session w)\<rparr>))"

definition test_with :: "wizard_net \<Rightarrow> cert_test \<Rightarrow> bool \<Rightarrow> string \<Rightarrow> 'b web handler" where
  "test_with net t trust pem rq w =
     (case (if pem = [] then Inr () else tt_context t pem) of
        Inl e \<Rightarrow> (Inl e, w)
      | Inr _ \<Rightarrow>
          (case res_bind (tt_probe t pem) (\<lambda>ok. if trust then res_bind (fingerprint net pem) (\<lambda>fp. Inr (ok, fp)) else Inr (ok, [])) of
             Inr (ok, fp) \<Rightarrow>
               (if trust
                then (Inr (good_message (ok @ '' Certificate pinned. Click Save to '' @ tt_next t)),
                      w\<lparr>wb_session := dict_pop (pending_key (tt_key t))
                          (dict_set (confirmed_key (tt_key t)) (JObj [(''pem'', JStr pem), (''fingerprint'', JStr fp)])
                            (wb_session w))\<rparr>)
                else (Inr (good_message (ok @ '' Click Save to '' @ tt_next t)), w))
           | Inl e \<Rightarrow>
               (if is_ssl_cert_error net e then ask_trust net t (pem \<noteq> []) rq w
                else (Inr (bad_message (tt_hint t (exn_str e))), w))))"

definition run_cert_test :: "wizard_net \<Rightarrow> cert_test \<Rightarrow> string \<Rightarrow> string \<Rightarrow> 'b web handler" where
  "run_cert_test net t skip_ssl_verify trust_accepted rq w =
     (if skip_ssl_verify = ''1'' then (Inr (test_unverified t), w)
      else if trust_accepted = ''1''
      then let pem = str_field (wb_session w) (pending_key (tt_key t)) in
           if pem = [] then (Inr (bad_message (''Session expired '' @ DASH @ '' re-test to try again.'')), w)
           else test_with net t True pem rq w
      else test_with net t False (tt_stored t) rq w)"

subsection \<open>The five tests\<close>

definition NEW_SERVER :: string where "NEW_SERVER = ''__new__''"

definition amber :: "string \<Rightarrow> web_response" where
  "amber s = message ''amber'' s"

definition refused_text :: "string \<Rightarrow> bool" where
  "refused_text msg \<longleftrightarrow> contains msg ''401'' \<or> contains msg ''403''"

definition token_hint :: "string \<Rightarrow> string" where
  "token_hint msg =
     (if refused_text msg then ''Invalid API token.''
      else if contains (py_lower msg) ''connect'' \<or> contains msg ''Name or service''
      then ''Can&#39;t reach that address '' @ DASH @ '' check the URL.''
      else take 120 msg)"

definition short_hint :: "string \<Rightarrow> string \<Rightarrow> string" where
  "short_hint refused msg = (if refused_text msg then refused else take 120 msg)"

definition px_version_text :: "wizard_net \<Rightarrow> px_client \<Rightarrow> string res" where
  "px_version_text net c =
     res_bind (get_version (wn_px net c)) (\<lambda>v. res_bind (field_or v ''version'' (JStr [])) (\<lambda>ver.
       Inr (''Connected '' @ DASH @ '' Proxmox VE '' @ json_text ver @ ''.'')))"

definition proxmox_cfg_for :: "string \<Rightarrow> disk \<Rightarrow> service" where
  "proxmox_cfg_for server_id d =
     (if server_id \<noteq> [] \<and> server_id \<noteq> NEW_SERVER then server_block server_id d else get_proxmox_config d)"

definition px_ids :: "string \<Rightarrow> string \<times> string" where
  "px_ids server_id =
     (if server_id \<noteq> []
      then let pid = (if server_id = NEW_SERVER then ''new'' else server_id); f = (\<lambda>x. ''#px-'' @ pid @ ''-'' @ x) in
           (py_join '','' (map f [''server-id'', ''url'', ''api-user'', ''token-id'', ''secret'']), f ''test-result'')
      else (py_join '','' (map (\<lambda>x. ''[name='' @ [QUOTE] @ x @ [QUOTE] @ '']'')
              [''proxmox_url'', ''proxmox_token_id'', ''proxmox_secret'']), ''#proxmox-test-result''))"

definition setup_test_proxmox ::
  "wizard_net \<Rightarrow> string \<Rightarrow> string \<Rightarrow> string \<Rightarrow> string \<Rightarrow> string \<Rightarrow> string \<Rightarrow> 'b web handler" where
  "setup_test_proxmox net url0 token0 secret0 trust skip server_id rq w =
     (let url = clean_url url0; token_id = py_strip token0; secret = py_strip secret0 in
      if url = [] \<or> token_id = [] \<or> secret = []
      then (Inr (amber ''Enter a URL, Token ID, and Secret first.''), w)
      else let token = assemble_token [(''token_id'', JStr token_id), (''secret'', JStr secret)];
               client = (\<lambda>pem verify. \<lparr>pc_base = rstrip_char CHR ''/'' url, pc_token = token, pc_pem = pem, pc_verify = verify\<rparr>);
               (ids, target) = px_ids server_id
           in run_cert_test net
                \<lparr>tt_key = ''proxmox'', tt_context = (\<lambda>_. Inr ()), tt_probe = (\<lambda>pem. px_version_text net (client pem True)),
                 tt_unverified = px_version_text net (client [] False),
                 tt_stored = get_or (sv_pem (proxmox_cfg_for server_id (wb_config w))) [], tt_hint = token_hint,
                 tt_url = url, tt_path = ''/setup/connect/proxmox/test'', tt_include = ids, tt_target = target,
                 tt_next = ''continue.''\<rparr> skip trust rq w)"

definition http_version_text :: "wizard_net \<Rightarrow> http_probe \<Rightarrow> string res" where
  "http_version_text net p =
     res_bind (body_of (wn_get net p)) (\<lambda>j. res_bind (field_or j ''data'' (JObj [])) (\<lambda>d.
       res_bind (field_or d ''version'' (JStr [])) (\<lambda>ver.
         Inr (''Connected '' @ DASH @ '' Proxmox Backup Server '' @ json_text ver @ ''.''))))"

definition setup_test_pbs ::
  "wizard_net \<Rightarrow> string \<Rightarrow> string \<Rightarrow> string \<Rightarrow> string \<Rightarrow> string \<Rightarrow> 'b web handler" where
  "setup_test_pbs net url0 token0 secret0 trust skip rq w =
     (let url = clean_url url0; token_id = py_strip token0; secret = py_strip secret0 in
      if url = [] \<or> token_id = [] \<or> secret = []
      then (Inr (amber ''Enter a URL, Token ID, and Secret first.''), w)
      else let ask = (\<lambda>pem verify. http_version_text net
                 \<lparr>pb_url = url @ ''/api2/json/version'', pb_auth = ''PBSAPIToken='' @ token_id @ '':'' @ secret,
                  pb_pem = pem, pb_verify = verify\<rparr>)
           in run_cert_test net
                \<lparr>tt_key = ''pbs'', tt_context = wn_context net, tt_probe = (\<lambda>pem. ask pem True), tt_unverified = ask [] False,
                 tt_stored = get_or (sv_pem (get_pbs_config (wb_config w))) [],
                 tt_hint = short_hint ''Invalid Token ID or Secret.'', tt_url = url,
                 tt_path = ''/setup/connect/pbs/test'', tt_include = ''#pbs-url,#pbs-user,#pbs-token-id,#pbs-secret'',
                 tt_target = ''#pbs-test-result'', tt_next = ''continue.''\<rparr> skip trust rq w)"

text \<open>OPNsense takes key and secret as basic authentication, here in one text.\<close>

definition plain_answer :: "wizard_net \<Rightarrow> http_probe \<Rightarrow> string res" where
  "plain_answer net p = res_bind (call_checked (wn_get net p)) (\<lambda>_. Inr ''Connected.'')"

definition setup_test_opnsense ::
  "wizard_net \<Rightarrow> string \<Rightarrow> string \<Rightarrow> string \<Rightarrow> string \<Rightarrow> string \<Rightarrow> 'b web handler" where
  "setup_test_opnsense net url0 key0 secret0 trust skip rq w =
     (let url = clean_url url0; key = py_strip key0; secret = py_strip secret0 in
      if url = [] \<or> key = [] \<or> secret = []
      then (Inr (amber ''Enter URL, API key, and API secret first.''), w)
      else let ask = (\<lambda>pem verify. plain_answer net
                 \<lparr>pb_url = url @ ''/api/core/firmware/info'', pb_auth = key @ '':'' @ secret, pb_pem = pem, pb_verify = verify\<rparr>)
           in run_cert_test net
                \<lparr>tt_key = ''opnsense'', tt_context = wn_context net, tt_probe = (\<lambda>pem. ask pem True), tt_unverified = ask [] False,
                 tt_stored = get_or (sv_pem (get_opnsense_config (wb_config w))) [],
                 tt_hint = short_hint ''Invalid API key or secret.'', tt_url = url,
                 tt_path = ''/setup/connect/opnsense/test'', tt_include = ''#opn-url,#opn-key,#opn-secret'',
                 tt_target = ''#opnsense-test-result'', tt_next = ''continue.''\<rparr> skip trust rq w)"

definition setup_test_pfsense ::
  "wizard_net \<Rightarrow> string \<Rightarrow> string \<Rightarrow> string \<Rightarrow> string \<Rightarrow> 'b web handler" where
  "setup_test_pfsense net url0 key0 trust skip rq w =
     (let url = clean_url url0; key = py_strip key0 in
      if url = [] \<or> key = [] then (Inr (amber ''Enter a URL and API key first.''), w)
      else let ask = (\<lambda>pem verify. plain_answer net
                 \<lparr>pb_url = url @ ''/api/v1/system/version'', pb_auth = key, pb_pem = pem, pb_verify = verify\<rparr>)
           in run_cert_test net
                \<lparr>tt_key = ''pfsense'', tt_context = wn_context net, tt_probe = (\<lambda>pem. ask pem True), tt_unverified = ask [] False,
                 tt_stored = get_or (sv_pem (get_pfsense_config (wb_config w))) [],
                 tt_hint = short_hint ''Invalid API key.'', tt_url = url,
                 tt_path = ''/setup/connect/pfsense/test'', tt_include = ''#pf-url,#pf-key'',
                 tt_target = ''#pfsense-test-result'', tt_next = ''continue.''\<rparr> skip trust rq w)"

definition environments_text :: "papi \<Rightarrow> string res" where
  "environments_text api =
     res_bind (fst (get_endpoints api [])) (\<lambda>es.
       Inr (''Connected '' @ DASH @ '' '' @ show_nat (length es) @ '' environment'' @ plural (int (length es)) @ '' found.''))"

definition setup_test_portainer :: "wizard_net \<Rightarrow> string \<Rightarrow> string \<Rightarrow> string \<Rightarrow> 'b web handler" where
  "setup_test_portainer net url0 key0 trust rq w =
     (let url = clean_url url0; key = py_strip key0 in
      if url = [] \<or> key = [] then (Inr (amber ''Enter a URL and API token first.''), w)
      else let ask = (\<lambda>pem. environments_text (wn_portainer net url key pem)) in
           run_cert_test net
             \<lparr>tt_key = ''portainer'', tt_context = (\<lambda>_. Inr ()), tt_probe = ask, tt_unverified = ask [],
              tt_stored = get_or (sv_pem (get_portainer_config (wb_config w))) [], tt_hint = token_hint, tt_url = url,
              tt_path = ''/setup/portainer/test'',
              tt_include = py_join '','' (map (\<lambda>x. ''[name='' @ [QUOTE] @ x @ [QUOTE] @ '']'') [''portainer_url'', ''portainer_api_key'']),
              tt_target = ''#portainer-test-result'', tt_next = ''apply.''\<rparr> [] trust rq w)"

definition setup_test_homeassistant :: "wizard_net \<Rightarrow> string \<Rightarrow> string \<Rightarrow> 'b web handler" where
  "setup_test_homeassistant net url0 token0 rq w =
     (let url = clean_url url0; token = py_strip token0 in
      if url = [] \<or> token = [] then (Inr (amber ''Enter a URL and access token first.''), w)
      else case res_bind (body_of (wn_get net \<lparr>pb_url = url @ ''/api/'', pb_auth = ''Bearer '' @ token, pb_pem = [],
                                               pb_verify = False\<rparr>)) (\<lambda>j. field_or j ''version'' (JStr [])) of
             Inr ver \<Rightarrow>
               (Inr (good_message ((if json_truthy ver then ''Connected '' @ DASH @ '' Home Assistant '' @ json_text ver @ ''.''
                                    else ''Connected.'') @ '' Click Save to continue.'')), w)
           | Inl e \<Rightarrow> (Inr (bad_message (short_hint ''Invalid access token.'' (exn_str e))), w))"

subsection \<open>Saving\<close>

definition session_list :: "entry \<Rightarrow> string \<Rightarrow> json list" where
  "session_list s k = (case dict_get s k of Some (JList xs) \<Rightarrow> xs | _ \<Rightarrow> [])"

definition not_integration :: "string \<Rightarrow> json \<Rightarrow> bool" where
  "not_integration key h \<longleftrightarrow> json_get h ''integration'' \<noteq> Some (JStr key)"

definition queue_integration_host :: "string \<Rightarrow> string \<Rightarrow> string \<Rightarrow> ('b web, unit) web_steps" where
  "queue_integration_host key name url =
     w_bind (w_lift (if url \<noteq> [] then res_bind (url_hostname url) (\<lambda>h. Inr (get_or h [])) else Inr [])) (\<lambda>hostname.
       w_session (\<lambda>s.
         dict_set ''setup_integration_pending''
           (JList (filter (not_integration key) (session_list s ''setup_integration_pending'')
              @ (if url \<noteq> [] \<and> hostname \<noteq> []
                 then [JObj [(''name'', JStr name), (''ip'', JStr hostname), (''type'', JStr ''integration''),
                             (''node'', JStr []), (''integration'', JStr key)]] else []))) s))"

text \<open>The confirmed certificate and its fingerprint, taken out of the session.\<close>

definition take_confirmed :: "string \<Rightarrow> ('b web, string \<times> string) web_steps" where
  "take_confirmed key w =
     (let c = (case dict_get (wb_session w) (confirmed_key key) of Some (JObj o1) \<Rightarrow> o1 | _ \<Rightarrow> []) in
      (Inr (str_field c ''pem'', str_field c ''fingerprint''),
       w\<lparr>wb_session := dict_pop (confirmed_key key) (wb_session w)\<rparr>))"

definition saved_text :: "string \<Rightarrow> web_response" where
  "saved_text s = html 200 (''<p class='' @ [DQUOTE] @ ''text-sm text-green-400'' @ [DQUOTE] @ ''>&#10003; '' @ s @ ''</p>'')"

definition setup_save_pbs ::
  "'b web_env \<Rightarrow> string \<Rightarrow> string \<Rightarrow> string \<Rightarrow> string \<Rightarrow> string \<Rightarrow> 'b web handler" where
  "setup_save_pbs env url0 user0 token0 secret0 skip rq =
     (let url = clean_url url0; api_user = py_strip user0; token_id = py_strip token0; secret = py_strip secret0 in
      w_bind (take_confirmed ''pbs'') (\<lambda>(pem, fp).
        w_bind (w_config (save_pbs_config url pem fp (skip \<noteq> ''1''))) (\<lambda>_.
          w_bind (if api_user \<noteq> [] \<or> token_id \<noteq> [] \<or> secret \<noteq> []
                  then w_save_integration env ''proxmox_backup''
                         [given_field ''api_user'' api_user, given_field ''token_id'' token_id, given_field ''secret'' secret]
                  else w_return ()) (\<lambda>_.
            w_bind (queue_integration_host ''proxmox_backup'' ''Proxmox Backup Server'' url) (\<lambda>_.
              w_return (saved_text ''Proxmox Backup Server saved.''))))))"

definition setup_save_opnsense ::
  "'b web_env \<Rightarrow> string \<Rightarrow> string \<Rightarrow> string \<Rightarrow> string \<Rightarrow> 'b web handler" where
  "setup_save_opnsense env url0 key0 secret0 skip rq =
     (let url = clean_url url0; key = py_strip key0; secret = py_strip secret0 in
      w_bind (take_confirmed ''opnsense'') (\<lambda>(pem, fp).
        w_bind (w_config (save_opnsense_config url pem fp (skip \<noteq> ''1''))) (\<lambda>_.
          w_bind (if key \<noteq> [] \<and> secret \<noteq> []
                  then w_save_integration env ''opnsense'' [text_field ''api_key'' key, text_field ''api_secret'' secret]
                  else w_return ()) (\<lambda>_.
            w_bind (queue_integration_host ''opnsense'' ''OPNsense'' url) (\<lambda>_.
              w_return (saved_text ''OPNsense saved.''))))))"

definition setup_save_pfsense :: "'b web_env \<Rightarrow> string \<Rightarrow> string \<Rightarrow> string \<Rightarrow> 'b web handler" where
  "setup_save_pfsense env url0 key0 skip rq =
     (let url = clean_url url0; key = py_strip key0 in
      w_bind (take_confirmed ''pfsense'') (\<lambda>(pem, fp).
        w_bind (w_config (save_pfsense_config url pem fp (skip \<noteq> ''1''))) (\<lambda>_.
          w_bind (if key \<noteq> [] then w_save_integration env ''pfsense'' [text_field ''api_key'' key] else w_return ()) (\<lambda>_.
            w_bind (queue_integration_host ''pfsense'' ''pfSense'' url) (\<lambda>_. w_return (saved_text ''pfSense saved.''))))))"

definition setup_save_homeassistant :: "'b web_env \<Rightarrow> string \<Rightarrow> string \<Rightarrow> string \<Rightarrow> 'b web handler" where
  "setup_save_homeassistant env url0 token0 skip rq =
     (let url = clean_url url0; token = py_strip token0 in
      w_bind (w_config (save_homeassistant_config url (skip \<noteq> ''1''))) (\<lambda>_.
        w_bind (if token \<noteq> [] then w_save_integration env ''homeassistant'' [text_field ''token'' token] else w_return ()) (\<lambda>_.
          w_bind (queue_integration_host ''homeassistant'' ''Home Assistant'' url) (\<lambda>_.
            w_return (saved_text (''Home Assistant saved. <span class='' @ [DQUOTE] @ ''text-slate-400'' @ [DQUOTE]
              @ ''>Note: Keepup can alert you to updates but cannot install them automatically.</span>''))))))"

text \<open>\<open>reload_backends\<close> follows; it is a function of the saved configuration and credentials.\<close>

definition setup_save_portainer :: "'b web_env \<Rightarrow> string \<Rightarrow> string \<Rightarrow> 'b web handler" where
  "setup_save_portainer env url0 key0 rq =
     (let url = clean_url url0; key = py_strip key0 in
      w_bind (take_confirmed ''portainer'') (\<lambda>(pem, fp).
        w_bind (w_config (save_portainer_config url pem fp)) (\<lambda>_.
          w_bind (if key \<noteq> [] then w_save_integration env ''portainer'' [text_field ''api_key'' key] else w_return ()) (\<lambda>_.
            w_bind (w_integration env ''portainer'') (\<lambda>creds.
              w_state (\<lambda>w. let u = get_or (sv_url (get_portainer_config (wb_config w))) [] in
                w_return (page ''partials/setup_portainer_section.html''
                  [(''portainer_url'', JStr u), (''portainer_connected'', JBool (u \<noteq> [] \<and> field_truthy creds ''api_key'')),
                   (''portainer_saved'', JBool True)])))))))"

definition setup_save_dockerhub :: "'b web_env \<Rightarrow> string \<Rightarrow> string \<Rightarrow> 'b web handler" where
  "setup_save_dockerhub env user0 token0 rq =
     (let token = py_strip token0 in
      w_bind (w_config (save_dockerhub_config (py_strip user0))) (\<lambda>_.
        w_bind (if token \<noteq> [] then w_save_integration env ''dockerhub'' [text_field ''token'' token] else w_return ()) (\<lambda>_.
          w_return (saved_text ''DockerHub credentials saved.''))))"

subsection \<open>A certificate is pinned only after it was shown and accepted\<close>

text \<open>The requests of the wizard about the backup server, and the state they lead to.\<close>

datatype 'b pbs_request =
  TestPbs wizard_net string string string string string
| SavePbs "'b web_env" string string string string string

fun pbs_handler :: "'b pbs_request \<Rightarrow> 'b web handler" where
  "pbs_handler (TestPbs net url token secret trust skip) = setup_test_pbs net url token secret trust skip"
| "pbs_handler (SavePbs env url user token secret skip) = setup_save_pbs env url user token secret skip"

text \<open>A trace holds the requests with their answers.\<close>

type_synonym 'b pbs_trace = "('b pbs_request \<times> web_response res) list"

inductive pbs_reached :: "'b web \<Rightarrow> 'b pbs_trace \<Rightarrow> 'b web \<Rightarrow> bool" for w0 :: "'b web" where
  start: "pbs_reached w0 [] w0"
| request: "pbs_reached w0 tr w \<Longrightarrow> session_layer (pbs_handler r) rq w = (a, w') \<Longrightarrow> pbs_reached w0 (tr @ [(r, a)]) w'"

definition pbs_probe :: "string \<Rightarrow> string \<Rightarrow> string \<Rightarrow> string \<Rightarrow> http_probe" where
  "pbs_probe url token secret pem =
     \<lparr>pb_url = clean_url url @ ''/api2/json/version'',
      pb_auth = ''PBSAPIToken='' @ py_strip token @ '':'' @ py_strip secret, pb_pem = pem, pb_verify = True\<rparr>"

text \<open>The answer is the page that asks whether to trust a certificate; it is the one that the tested server shows, by its
  fingerprint and names.\<close>

definition PROMPT :: string where "PROMPT = ''partials/cert_trust_prompt.html''"

definition is_prompt :: "web_response res \<Rightarrow> bool" where
  "is_prompt a \<longleftrightarrow> (case a of Inr r \<Rightarrow> (case ws_body r of Page template ctx \<Rightarrow> template = PROMPT | _ \<Rightarrow> False) | Inl e \<Rightarrow> False)"

definition prompts :: "'b pbs_request \<times> web_response res \<Rightarrow> string \<Rightarrow> bool" where
  "prompts x p \<longleftrightarrow> (\<exists>net url token secret trust skip info ctx.
     x = (TestPbs net url token secret trust skip, Inr (page PROMPT ((''info'', JObj info) # ctx)))
     \<and> fetch_server_cert net (clean_url url) = Inr p \<and> cert_info net p = Inr info)"

text \<open>A test with the user's acceptance that reached the server over the certificate and said so.\<close>

definition accepts :: "'b pbs_request \<times> web_response res \<Rightarrow> string \<Rightarrow> bool" where
  "accepts x p \<longleftrightarrow> (\<exists>net url token secret skip ok.
     x = (TestPbs net url token secret ''1'' skip, Inr (good_message (ok @ '' Certificate pinned. Click Save to continue.'')))
     \<and> skip \<noteq> ''1'' \<and> http_version_text net (pbs_probe url token secret p) = Inr ok)"

text \<open>The last page that asked was about the certificate; then it was accepted; then it was saved.\<close>

definition last_prompt :: "'b pbs_trace \<Rightarrow> string \<Rightarrow> bool" where
  "last_prompt tr p \<longleftrightarrow> (\<exists>pre x post. tr = pre @ x # post \<and> prompts x p \<and> (\<forall>z\<in>set post. \<not> is_prompt (snd z)))"

definition cert_accepted :: "'b pbs_trace \<Rightarrow> string \<Rightarrow> bool" where
  "cert_accepted tr p \<longleftrightarrow> (\<exists>pre x post. tr = pre @ x # post \<and> last_prompt pre p \<and> accepts x p)"

definition cert_saved :: "'b pbs_trace \<Rightarrow> string \<Rightarrow> bool" where
  "cert_saved tr p \<longleftrightarrow> (\<exists>pre env url user token secret skip a post.
     tr = pre @ (SavePbs env url user token secret skip, a) # post \<and> cert_accepted pre p)"

definition pending_pem :: "'b web \<Rightarrow> string" where
  "pending_pem w = str_field (wb_session w) (pending_key ''pbs'')"

definition confirmed_pem :: "'b web \<Rightarrow> string" where
  "confirmed_pem w = (case dict_get (wb_session w) (confirmed_key ''pbs'') of Some (JObj c) \<Rightarrow> str_field c ''pem'' | _ \<Rightarrow> [])"

definition stored_pem :: "'b web \<Rightarrow> string" where
  "stored_pem w = get_or (sv_pem (get_pbs_config (wb_config w))) []"

definition pins_ok :: "'b pbs_trace \<Rightarrow> 'b web \<Rightarrow> bool" where
  "pins_ok tr w \<longleftrightarrow> (pending_pem w \<noteq> [] \<longrightarrow> last_prompt tr (pending_pem w))
     \<and> (confirmed_pem w \<noteq> [] \<longrightarrow> cert_accepted tr (confirmed_pem w))
     \<and> (stored_pem w \<noteq> [] \<longrightarrow> cert_saved tr (stored_pem w))"

lemma prompt_more: "last_prompt tr p \<Longrightarrow> \<not> is_prompt a \<Longrightarrow> last_prompt (tr @ [(r, a)]) p"
  unfolding last_prompt_def
proof (elim exE conjE, goal_cases)
  case (1 pre x post)
  then show ?case by (intro exI [of _ pre] exI [of _ x] exI [of _ "post @ [(r, a)]"]) auto
qed

lemma accepted_more: "cert_accepted tr p \<Longrightarrow> cert_accepted (tr @ qs) p"
  unfolding cert_accepted_def by (metis append.assoc append_Cons)

lemma saved_more: "cert_saved tr p \<Longrightarrow> cert_saved (tr @ qs) p"
  unfolding cert_saved_def by (metis append.assoc append_Cons)

lemma prompts_last: "prompts x p \<Longrightarrow> last_prompt (tr @ [x]) p"
  unfolding last_prompt_def by (metis empty_iff list.set(1))

lemma accepts_last: "last_prompt tr p \<Longrightarrow> accepts x p \<Longrightarrow> cert_accepted (tr @ [x]) p"
  unfolding cert_accepted_def by blast

lemma saves_last: "cert_accepted tr p \<Longrightarrow> cert_saved (tr @ [(SavePbs env url user token secret skip, a)]) p"
  unfolding cert_saved_def by blast

lemma pins_ok_quiet:
  assumes "pins_ok tr w" and "\<not> is_prompt a"
  shows "pins_ok (tr @ [(r, a)]) w"
  using assms by (simp add: pins_ok_def prompt_more accepted_more saved_more)

lemma key_names: "pending_key ''pbs'' \<noteq> confirmed_key ''pbs''" "confirmed_key ''pbs'' \<noteq> ''setup_integration_pending''"
    "pending_key ''pbs'' \<noteq> ''setup_integration_pending''"
  by (simp_all add: pending_key_def confirmed_key_def)

text \<open>A test leaves the state alone, or shows a certificate, or moves the shown one to the confirmed ones.\<close>

lemma message_no_prompt: "\<not> is_prompt (Inr (html n s))" "\<not> is_prompt (Inr (message colour s))" "\<not> is_prompt (Inr (good_message s))"
    "\<not> is_prompt (Inr (bad_message s))" "\<not> is_prompt (Inr (amber s))" "\<not> is_prompt (Inl e)"
  by (simp_all add: is_prompt_def html_def message_def good_message_def bad_message_def amber_def)

lemma ask_trust_cases:
  obtains (quiet) a where "ask_trust net t c rq w = (a, w)" "\<not> is_prompt a"
  | (shown) p info ctx where "ask_trust net t c rq w = (Inr (page PROMPT ((''info'', JObj info) # ctx)),
        w\<lparr>wb_session := dict_set (pending_key (tt_key t)) (JStr p) (wb_session w)\<rparr>)"
      and "fetch_server_cert net (tt_url t) = Inr p" and "cert_info net p = Inr info"
proof (cases "fetch_server_cert net (tt_url t)")
  case (Inl e)
  then show thesis using quiet message_no_prompt by (simp add: ask_trust_def)
next
  case (Inr p)
  then show thesis using quiet shown message_no_prompt by (cases "cert_info net p") (simp_all add: ask_trust_def PROMPT_def)
qed

lemma run_cert_test_cases:
  obtains (quiet) a where "run_cert_test net t skip trust rq w = (a, w)" "\<not> is_prompt a"
  | (shown) p info ctx where "run_cert_test net t skip trust rq w = (Inr (page PROMPT ((''info'', JObj info) # ctx)),
        w\<lparr>wb_session := dict_set (pending_key (tt_key t)) (JStr p) (wb_session w)\<rparr>)"
      and "fetch_server_cert net (tt_url t) = Inr p" and "cert_info net p = Inr info"
  | (accepted) p ok fp where "run_cert_test net t skip trust rq w = (Inr (good_message (ok @ '' Certificate pinned. Click Save to '' @ tt_next t)),
        w\<lparr>wb_session := dict_pop (pending_key (tt_key t))
        (dict_set (confirmed_key (tt_key t)) (JObj [(''pem'', JStr p), (''fingerprint'', JStr fp)]) (wb_session w))\<rparr>)"
      and "trust = ''1''" and "skip \<noteq> ''1''" and "p = str_field (wb_session w) (pending_key (tt_key t))" and "p \<noteq> []"
      and "tt_probe t p = Inr ok"
proof (cases "skip = ''1'' \<or> trust = ''1'' \<and> str_field (wb_session w) (pending_key (tt_key t)) = []")
  case True
  then show thesis using quiet message_no_prompt
    by (cases "skip = ''1''") (auto simp: run_cert_test_def test_unverified_def Let_def split: sum.splits)
next
  case False
  let ?pem = "if trust = ''1'' then str_field (wb_session w) (pending_key (tt_key t)) else tt_stored t"
  have run: "run_cert_test net t skip trust rq w = test_with net t (trust = ''1'') ?pem rq w"
    using False by (simp add: run_cert_test_def Let_def)
  show thesis
  proof (cases "if ?pem = [] then Inr () else tt_context t ?pem")
    case (Inl e)
    then show thesis using message_no_prompt by (intro quiet [of "Inl e"]) (simp_all only: run test_with_def sum.case not_False_eq_True)
  next
    case ctx: (Inr u)
    show thesis
    proof (cases "res_bind (tt_probe t ?pem) (\<lambda>ok. if trust = ''1'' then res_bind (fingerprint net ?pem) (\<lambda>fp. Inr (ok, fp)) else Inr (ok, []))")
      case (Inl e)
      then have r: "run_cert_test net t skip trust rq w = (if is_ssl_cert_error net e then ask_trust net t (?pem \<noteq> []) rq w
           else (Inr (bad_message (tt_hint t (exn_str e))), w))"
        unfolding run test_with_def ctx by simp
      show thesis
      proof (cases "is_ssl_cert_error net e")
        case True
        then have "run_cert_test net t skip trust rq w = ask_trust net t (?pem \<noteq> []) rq w" using r by simp
        then show thesis using quiet shown by (cases rule: ask_trust_cases [of net t "?pem \<noteq> []" rq w]) simp_all
      qed (use r quiet message_no_prompt in simp)
    next
      case (Inr r)
      obtain ok fp where r: "r = (ok, fp)" by (cases r)
      have probe: "tt_probe t ?pem = Inr ok" using Inr unfolding r
        by (cases "tt_probe t ?pem"; cases "fingerprint net ?pem") (auto split: if_splits)
      have res: "run_cert_test net t skip trust rq w = (if trust = ''1'' then (Inr (good_message (ok @ '' Certificate pinned. Click Save to '' @ tt_next t)),
            w\<lparr>wb_session := dict_pop (pending_key (tt_key t))
              (dict_set (confirmed_key (tt_key t)) (JObj [(''pem'', JStr ?pem), (''fingerprint'', JStr fp)]) (wb_session w))\<rparr>)
          else (Inr (good_message (ok @ '' Click Save to '' @ tt_next t)), w))"
        unfolding run test_with_def ctx Inr r by (simp del: append_assoc)
      show thesis
      proof (cases "trust = ''1''")
        case True
        then show thesis using False probe res by (intro accepted [of ok ?pem fp]) simp_all
      qed (use res quiet message_no_prompt in simp)
    qed
  qed
qed

lemma pins_ok_test:
  assumes "pins_ok tr w" and "session_layer (setup_test_pbs net url token secret trust skip) rq w = (a, w')"
  shows "pins_ok (tr @ [(TestPbs net url token secret trust skip, a)]) w'"
proof (cases "clean_url url = [] \<or> py_strip token = [] \<or> py_strip secret = []")
  case True
  then have "setup_test_pbs net url token secret trust skip rq w = (Inr (amber ''Enter a URL, Token ID, and Secret first.''), w)"
    by (simp only: setup_test_pbs_def Let_def if_True)
  then have "a = Inr (amber ''Enter a URL, Token ID, and Secret first.'')" "w' = w"
    using assms(2) by (auto simp: session_layer_def)
  then show ?thesis using pins_ok_quiet [OF assms(1)] message_no_prompt(5) by blast
next
  case False
  define t where "t = \<lparr>tt_key = ''pbs'', tt_context = wn_context net, tt_probe = (\<lambda>pem. http_version_text net (pbs_probe url token secret pem)),
      tt_unverified = http_version_text net (pbs_probe url token secret [] \<lparr>pb_verify := False\<rparr>),
      tt_stored = get_or (sv_pem (get_pbs_config (wb_config w))) [],
      tt_hint = short_hint ''Invalid Token ID or Secret.'', tt_url = clean_url url,
      tt_path = ''/setup/connect/pbs/test'', tt_include = ''#pbs-url,#pbs-user,#pbs-token-id,#pbs-secret'',
      tt_target = ''#pbs-test-result'', tt_next = ''continue.''\<rparr>"
  have t: "tt_key t = ''pbs''" "tt_url t = clean_url url" "tt_probe t = (\<lambda>pem. http_version_text net (pbs_probe url token secret pem))"
      "tt_next t = ''continue.''"
    by (simp_all add: t_def)
  have run: "setup_test_pbs net url token secret trust skip rq w = run_cert_test net t skip trust rq w"
    using False by (simp add: setup_test_pbs_def Let_def t_def pbs_probe_def)
  show ?thesis
  proof (cases rule: run_cert_test_cases [of net t skip trust rq w])
    case (quiet b)
    then have "a = b \<and> w' = w" using assms(2) by (auto simp: session_layer_def run split: sum.splits)
    then show ?thesis using assms(1) quiet(2) pins_ok_quiet by blast
  next
    case (shown p info ctx)
    then have a: "a = Inr (page PROMPT ((''info'', JObj info) # ctx))"
      and w': "w' = w\<lparr>wb_session := dict_set (pending_key ''pbs'') (JStr p) (wb_session w)\<rparr>"
      using assms(2) by (auto simp: session_layer_def run t)
    have "prompts (TestPbs net url token secret trust skip, a) p" using shown(2,3) t(2) by (auto simp: prompts_def a)
    then have "last_prompt (tr @ [(TestPbs net url token secret trust skip, a)]) p" by (rule prompts_last)
    then show ?thesis using assms(1) key_names(1)
      by (simp add: pins_ok_def w' pending_pem_def confirmed_pem_def stored_pem_def str_field_def dict_simps accepted_more saved_more)
  next
    case (accepted p ok fp)
    have res: "session_layer (setup_test_pbs net url token secret trust skip) rq w
        = (Inr (good_message (ok @ '' Certificate pinned. Click Save to '' @ tt_next t)),
           w\<lparr>wb_session := dict_pop (pending_key (tt_key t))
             (dict_set (confirmed_key (tt_key t)) (JObj [(''pem'', JStr p), (''fingerprint'', JStr fp)]) (wb_session w))\<rparr>)"
      unfolding session_layer_def run accepted(1) by simp
    then have a: "a = Inr (good_message (ok @ '' Certificate pinned. Click Save to continue.''))"
      and w': "w' = w\<lparr>wb_session := dict_pop (pending_key ''pbs'')
        (dict_set (confirmed_key ''pbs'') (JObj [(''pem'', JStr p), (''fingerprint'', JStr fp)]) (wb_session w))\<rparr>"
      using assms(2) res by (auto simp: t)
    have "last_prompt tr p" using assms(1) accepted(4,5) t(1) by (simp add: pins_ok_def pending_pem_def)
    moreover have "accepts (TestPbs net url token secret trust skip, a) p"
      using accepted(2,3,6) t(3) by (auto simp: accepts_def a)
    ultimately have "cert_accepted (tr @ [(TestPbs net url token secret trust skip, a)]) p" by (rule accepts_last)
    then show ?thesis using assms(1) key_names(1)
      by (simp add: pins_ok_def w' pending_pem_def confirmed_pem_def stored_pem_def str_field_def dict_simps saved_more)
  qed
qed

text \<open>A save takes the confirmed certificate into the configuration; an exception afterwards leaves the session as it was.\<close>

lemma creds_step_keeps:
  "wb_config (snd (w_creds f w)) = wb_config w" "wb_session (snd (w_creds f w)) = wb_session w"
  by (simp_all add: w_creds_def case_prod_beta)

lemma queue_keeps_config: "wb_config (snd (queue_integration_host key name url w)) = wb_config w"
  by (auto simp: queue_integration_host_def w_bind_def w_lift_def w_session_def split: sum.splits)

lemma queue_changes_session:
  "fst (queue_integration_host key name url w) = Inr u \<Longrightarrow>
   \<exists>v. wb_session (snd (queue_integration_host key name url w)) = dict_set ''setup_integration_pending'' v (wb_session w)"
  by (auto simp: queue_integration_host_def w_bind_def w_lift_def w_session_def split: sum.splits)

lemma save_pbs_effect:
  fixes w :: "'b web"
  defines "c \<equiv> (case dict_get (wb_session w) (confirmed_key ''pbs'') of Some (JObj o1) \<Rightarrow> o1 | _ \<Rightarrow> [])"
  shows "wb_config (snd (session_layer (setup_save_pbs env url user token secret skip) rq w))
      = save_pbs_config (clean_url url) (str_field c ''pem'') (str_field c ''fingerprint'') (skip \<noteq> ''1'') (wb_config w) \<and>
    (wb_session (snd (session_layer (setup_save_pbs env url user token secret skip) rq w)) = wb_session w \<or>
     (\<exists>v. wb_session (snd (session_layer (setup_save_pbs env url user token secret skip) rq w))
        = dict_set ''setup_integration_pending'' v (dict_pop (confirmed_key ''pbs'') (wb_session w)))) \<and>
    \<not> is_prompt (fst (session_layer (setup_save_pbs env url user token secret skip) rq w))"
proof -
  define step :: "('b web, unit) web_steps" where "step = (if py_strip user \<noteq> [] \<or> py_strip token \<noteq> [] \<or> py_strip secret \<noteq> []
      then w_save_integration env ''proxmox_backup''
             [given_field ''api_user'' (py_strip user), given_field ''token_id'' (py_strip token), given_field ''secret'' (py_strip secret)]
      else w_return ())"
  define w1 where "w1 = w\<lparr>wb_session := dict_pop (confirmed_key ''pbs'') (wb_session w),
      wb_config := save_pbs_config (clean_url url) (str_field c ''pem'') (str_field c ''fingerprint'') (skip \<noteq> ''1'') (wb_config w)\<rparr>"
  have w1: "wb_config w1 = save_pbs_config (clean_url url) (str_field c ''pem'') (str_field c ''fingerprint'') (skip \<noteq> ''1'') (wb_config w)"
      "wb_session w1 = dict_pop (confirmed_key ''pbs'') (wb_session w)"
    by (simp_all add: w1_def)
  have step: "wb_config (snd (step w1)) = wb_config w1" "wb_session (snd (step w1)) = wb_session w1"
    unfolding step_def by (simp_all add: w_return_def w_save_integration_def creds_step_keeps)
  have run: "setup_save_pbs env url user token secret skip rq w = w_bind step (\<lambda>_.
      w_bind (queue_integration_host ''proxmox_backup'' ''Proxmox Backup Server'' (clean_url url)) (\<lambda>_.
        w_return (saved_text ''Proxmox Backup Server saved.''))) w1"
    unfolding setup_save_pbs_def Let_def w_bind_def take_confirmed_def w_config_def w1_def step_def c_def by simp
  obtain r2 w2 where s2: "step w1 = (r2, w2)" by fastforce
  obtain r3 w3 where s3: "queue_integration_host ''proxmox_backup'' ''Proxmox Backup Server'' (clean_url url) w2 = (r3, w3)" by fastforce
  have c2: "wb_config w2 = wb_config w1" "wb_session w2 = wb_session w1" using step s2 by simp_all
  have c3: "wb_config w3 = wb_config w2" using queue_keeps_config s3 by (metis snd_conv)
  have v3: "\<exists>v. wb_session w3 = dict_set ''setup_integration_pending'' v (wb_session w2)" if "r3 = Inr ()"
    using queue_changes_session [of _ _ _ w2 "()"] s3 that by (metis fst_conv snd_conv)
  show ?thesis
    by (cases r2; cases r3) (use c2 c3 v3 w1 in \<open>auto simp: session_layer_def run w_bind_def w_return_def s2 s3 saved_text_def message_no_prompt\<close>)
qed

lemma pins_ok_save:
  fixes w :: "'b web"
  assumes "pins_ok tr w" and "session_layer (setup_save_pbs env url user token secret skip) rq w = (a, w')"
  shows "pins_ok (tr @ [(SavePbs env url user token secret skip, a)]) w'"
proof -
  define c where "c = (case dict_get (wb_session w) (confirmed_key ''pbs'') of Some (JObj o1) \<Rightarrow> o1 | _ \<Rightarrow> [])"
  have c: "str_field c ''pem'' = confirmed_pem w"
    by (simp add: c_def confirmed_pem_def str_field_def split: option.splits json.splits)
  have config: "wb_config w' = save_pbs_config (clean_url url) (str_field c ''pem'') (str_field c ''fingerprint'') (skip \<noteq> ''1'') (wb_config w)"
    and session: "wb_session w' = wb_session w \<or>
      (\<exists>v. wb_session w' = dict_set ''setup_integration_pending'' v (dict_pop (confirmed_key ''pbs'') (wb_session w)))"
    and quiet: "\<not> is_prompt a"
    using save_pbs_effect [where w = w] assms(2) unfolding c_def by (metis fst_conv snd_conv)+
  have "stored_pem w' \<in> {[], confirmed_pem w, stored_pem w}"
    using pbs_setting.pin_source unfolding stored_pem_def get_pbs_config_def config save_pbs_config_def c by blast
  moreover have "pending_pem w' = pending_pem w"
    using session key_names by (auto simp: pending_pem_def str_field_def dict_simps)
  moreover have "confirmed_pem w' \<in> {[], confirmed_pem w}"
    using session key_names by (auto simp: confirmed_pem_def dict_simps)
  moreover have "stored_pem w' = confirmed_pem w \<Longrightarrow> confirmed_pem w \<noteq> []
      \<Longrightarrow> cert_saved (tr @ [(SavePbs env url user token secret skip, a)]) (stored_pem w')"
    using assms(1) saves_last [of tr "confirmed_pem w"] by (simp add: pins_ok_def)
  ultimately show ?thesis using assms(1) quiet by (auto simp: pins_ok_def prompt_more accepted_more saved_more)
qed

lemma pins_ok_request:
  "pins_ok tr w \<Longrightarrow> session_layer (pbs_handler r) rq w = (a, w') \<Longrightarrow> pins_ok (tr @ [(r, a)]) w'"
  by (cases r) (simp_all add: pins_ok_test pins_ok_save)

text \<open>C29. Over any sequence of test and save requests of a fresh session, the certificate pinned for the backup server is one that
  the page asked the user about, showing the fingerprint of what the tested server presented; after that, with no other
  certificate asked about in between, a test with the user's acceptance reached the server over it; and after that a save
  stored it.\<close>
theorem pbs_pin_needs_acceptance:
  assumes "pbs_reached w0 tr w" and "wb_session w0 = []" and "stored_pem w0 = []" and "stored_pem w \<noteq> []"
  shows "cert_saved tr (stored_pem w)"
proof -
  have "pins_ok tr w" using assms(1)
  proof induction
    case start
    then show ?case using assms(2,3) by (simp add: pins_ok_def pending_pem_def confirmed_pem_def str_field_def)
  qed (rule pins_ok_request)
  then show ?thesis using assms(4) by (simp add: pins_ok_def)
qed

fun pbs_run :: "web_request \<Rightarrow> 'b pbs_request list \<Rightarrow> 'b web \<Rightarrow> 'b pbs_trace \<times> 'b web" where
  "pbs_run rq [] w = ([], w)"
| "pbs_run rq (r # rs) w =
     (let (a, w1) = session_layer (pbs_handler r) rq w; (tr, w2) = pbs_run rq rs w1 in ((r, a) # tr, w2))"

lemma pbs_run_reached: "pbs_reached w0 tr w \<Longrightarrow> pbs_reached w0 (tr @ fst (pbs_run rq rs w)) (snd (pbs_run rq rs w))"
proof (induction rs arbitrary: tr w)
  case (Cons r rs)
  obtain a w1 where a: "session_layer (pbs_handler r) rq w = (a, w1)" by fastforce
  from Cons.IH [OF pbs_reached.request [OF Cons.prems a]] a show ?case by (simp add: case_prod_beta)
qed simp

text \<open>A server with a certificate of its own: only a request that pins it succeeds.\<close>

definition demo_net :: wizard_net where
  "demo_net = \<lparr>wn_get = (\<lambda>p. if pb_pem p = ''PEM'' then ApiResp 200 True (Some (JObj [(''data'', JObj [(''version'', JStr ''3.1'')])]))
        else ApiRaise (Exn ''ConnectError'' ''CERTIFICATE_VERIFY_FAILED'' [])),
     wn_px = (\<lambda>_ _ _ _. ApiRaise (Exn ''ConnectError'' ''no'' [])), wn_portainer = (\<lambda>_ _ _ _ _. ApiRaise (Exn ''ConnectError'' ''no'' [])),
     wn_causes = (\<lambda>_. []), wn_shown_cert = (\<lambda>_ _. Inr ''DER''), wn_to_pem = (\<lambda>_. Inr ''PEM''),
     wn_digest = (\<lambda>_. Inr ''abcd''), wn_names = (\<lambda>_. Inr []), wn_context = (\<lambda>_. Inr ())\<rparr>"

definition pin_requests :: "(string \<times> store) pbs_request list" where
  "pin_requests = [TestPbs demo_net ''https://pbs.lan:8007'' ''root@pam!k'' ''s'' [] [],
     TestPbs demo_net ''https://pbs.lan:8007'' ''root@pam!k'' ''s'' ''1'' [],
     SavePbs demo_web_env ''https://pbs.lan:8007'' [] ''root@pam!k'' ''s'' []]"

theorem pbs_pin_needs_acceptance_witness: "cert_saved (fst (pbs_run home_request pin_requests demo_web)) ''PEM''"
proof -
  have pem: "stored_pem (snd (pbs_run home_request pin_requests demo_web)) = ''PEM''" by code_simp
  have "stored_pem demo_web = []" by code_simp
  moreover have "wb_session demo_web = []" by (simp add: demo_web_def)
  moreover have "pbs_reached demo_web (fst (pbs_run home_request pin_requests demo_web)) (snd (pbs_run home_request pin_requests demo_web))"
    using pbs_run_reached [OF pbs_reached.start, of demo_web home_request pin_requests] by simp
  ultimately have "cert_saved (fst (pbs_run home_request pin_requests demo_web)) (stored_pem (snd (pbs_run home_request pin_requests demo_web)))"
    by (intro pbs_pin_needs_acceptance) (simp_all add: pem)
  then show ?thesis unfolding pem .
qed

end
