(* ===== verification/Dashboard.thy ===== *)
theory Dashboard
  imports Jobs Connect "HOL-Library.Multiset"
begin

section \<open>The dashboard and the start of the application (app/main.py)\<close>

text \<open>
  Grouping of the hosts, the version check, the log view of a job, the checks started from the page,
  the bell, and what the application does when it starts.  Pages are their names with the values the
  code computes for them; the version request, the TLS library and the clock are parameters.
\<close>

subsection \<open>The version check\<close>

definition APP_VERSION :: string where "APP_VERSION = ''0.40.4''"

definition VERSION_CACHE_TTL :: time where "VERSION_CACHE_TTL = 3600"

record version_cache =
  vc_ts :: time
  vc_latest :: "string option"
  vc_url :: "string option"

text \<open>The answer of the release page: status and body, or an exception; without a tag there is no version.\<close>

definition fetch_latest_version :: "api_out \<Rightarrow> string option \<times> string option" where
  "fetch_latest_version answer =
     (case answer of
        ApiResp status ok body \<Rightarrow>
          if status \<noteq> 200 then (None, None)
          else (case res_bind (case body of None \<Rightarrow> raise ''JSONDecodeError'' [] | Some j \<Rightarrow> Inr j) (\<lambda>j.
                  res_bind (field_or j ''tag_name'' (JStr [])) (\<lambda>tag. res_bind (field_or j ''html_url'' (JStr [])) (\<lambda>url.
                    case tag of
                      JStr t \<Rightarrow> Inr (nonempty (Some (lstrip_char CHR ''v'' t)), nonempty (case url of JStr u \<Rightarrow> Some u | _ \<Rightarrow> None))
                    | _ \<Rightarrow> raise ''AttributeError'' ''no attribute lstrip''))) of
                  Inl e \<Rightarrow> (None, None) | Inr r \<Rightarrow> r)
      | ApiRaise e \<Rightarrow> (None, None))"

definition get_latest_version :: "time \<Rightarrow> api_out \<Rightarrow> version_cache \<Rightarrow> (string option \<times> string option) \<times> version_cache" where
  "get_latest_version now answer vc =
     (let vc' = (if VERSION_CACHE_TTL < now - vc_ts vc
                 then (case fetch_latest_version answer of (tag, url) \<Rightarrow> \<lparr>vc_ts = now, vc_latest = tag, vc_url = url\<rparr>)
                 else vc)
      in ((vc_latest vc', vc_url vc'), vc'))"

definition version_parts :: "string \<Rightarrow> int list option" where
  "version_parts v = all_some (map py_int (split_char CHR ''.'' v))"

text \<open>A part that is not a number is an exception, which counts as not newer.\<close>

definition newer_version :: "string option \<Rightarrow> bool" where
  "newer_version latest =
     (if \<not> truthy_s latest then False
      else case (version_parts (the latest), version_parts APP_VERSION) of
             (Some l, Some a) \<Rightarrow> a < l
           | _ \<Rightarrow> False)"

subsection \<open>Hosts by node\<close>

type_synonym listed_host = "string \<times> host"

record host_group =
  hg_name :: string
  hg_node_host :: "listed_host option"
  hg_lxcs :: "listed_host list"
  hg_vms :: "listed_host list"

definition placed :: "listed_host \<Rightarrow> host_group \<Rightarrow> host_group" where
  "placed sh g =
     (if h_proxmox_vmid (snd sh) = None then g\<lparr>hg_node_host := Some sh\<rparr>
      else if or_s (h_proxmox_type (snd sh)) ''lxc'' = ''vm'' then g\<lparr>hg_vms := hg_vms g @ [sh]\<rparr>
      else g\<lparr>hg_lxcs := hg_lxcs g @ [sh]\<rparr>)"

definition group_host ::
  "listed_host \<Rightarrow> (string \<times> host_group) list \<times> listed_host list \<Rightarrow> (string \<times> host_group) list \<times> listed_host list" where
  "group_host sh st =
     (let (nodes, alone) = st; node = get_or (h_proxmox_node (snd sh)) [] in
      if node = [] then (nodes, alone @ [sh])
      else (dict_set node (placed sh (get_or (dict_get nodes node)
              \<lparr>hg_name = node, hg_node_host = None, hg_lxcs = [], hg_vms = []\<rparr>)) nodes, alone))"

definition group_hosts :: "listed_host list \<Rightarrow> host_group list \<times> listed_host list" where
  "group_hosts hosts = (let (nodes, alone) = fold group_host hosts ([], []) in (map snd nodes, alone))"

subsection \<open>The log view\<close>

definition classify_log_line :: "string \<Rightarrow> string" where
  "classify_log_line line =
     (let lowered = py_lower line in
      if list_ex (contains lowered) [''error'', ''fail'', ''e:''] then ''log-line-red''
      else if list_ex (contains lowered) [''warn'', ''reboot''] then ''log-line-yellow''
      else if list_ex (starts_with line) [''Get:'', ''Unpacking'', ''Setting up'', ''Processing''] then ''log-line-dim''
      else if list_ex (contains lowered) [''upgraded'', ''installed'', ''done''] then ''log-line-ok''
      else ''log-line-white'')"

text \<open>\<open>html.escape\<close>.\<close>

definition escape_char :: "char \<Rightarrow> string" where
  "escape_char c =
     (if c = CHR ''&'' then ''&amp;'' else if c = CHR ''<'' then ''&lt;'' else if c = CHR ''>'' then ''&gt;''
      else if c = DQUOTE then ''&quot;'' else if c = QUOTE then ''&#x27;'' else [c])"

definition html_escape :: "string \<Rightarrow> string" where
  "html_escape s = concat (map escape_char s)"

definition log_line_html :: "string \<Rightarrow> string" where
  "log_line_html line = ''<div class='' @ [DQUOTE] @ classify_log_line line @ [DQUOTE] @ ''>'' @ html_escape line @ ''</div>''"

definition format_log_lines :: "string list \<Rightarrow> string" where
  "format_log_lines ls = py_join [NL] (map log_line_html ls)"

definition log_line_items :: "string list \<Rightarrow> json list" where
  "log_line_items ls = map (\<lambda>line. JObj [(''cls'', JStr (classify_log_line line)), (''text'', JStr line)]) ls"

subsection \<open>The routes of a job\<close>

definition job_json :: "run_job \<Rightarrow> json" where
  "job_json j = JObj
     [(''done'', JBool (rj_done j)), (''status'', JStr (rj_status j)),
      (''error'', case rj_error j of None \<Rightarrow> JNull | Some e \<Rightarrow> JStr e), (''lines'', JList (map JStr (rj_lines j))),
      (''type'', JStr (rj_type j)), (''label'', JStr (rj_label j)), (''target'', JStr (rj_target j)),
      (''sub'', JStr (rj_sub j)), (''activity_id'', JStr (rj_activity_id j))]"

definition job_status :: "string \<Rightarrow> 'b dash_handler" where
  "job_status i rq ds =
     (Inr (case dict_get (ds_jobs ds) i of
             None \<Rightarrow> html 200 (''<span class='' @ [QUOTE] @ ''text-red-400'' @ [QUOTE] @ ''>Job not found</span>'')
           | Some j \<Rightarrow> page ''partials/job_status.html'' [(''job_id'', JStr i), (''job'', job_json j)]), ds)"

definition job_modal :: "string \<Rightarrow> 'b dash_handler" where
  "job_modal i rq ds =
     (Inr (case dict_get (ds_jobs ds) i of
             None \<Rightarrow> html 200 []
           | Some j \<Rightarrow> page ''partials/upgrade_modal.html''
               [(''job_id'', JStr i), (''job'', job_json j), (''log_lines'', JList (log_line_items (rj_lines j)))]), ds)"

definition job_modal_body :: "string \<Rightarrow> 'b dash_handler" where
  "job_modal_body i rq ds =
     (Inr (case dict_get (ds_jobs ds) i of None \<Rightarrow> html 200 [] | Some j \<Rightarrow> html 200 (format_log_lines (rj_lines j))), ds)"

subsection \<open>Pages and status cards\<close>

definition home :: "'b web handler" where
  "home rq w =
     (Inr (if session_flag (wb_session w) ''authenticated'' then redirect 302 ''/home'' else page ''home.html'' []), w)"

definition dashboard_redirect :: "'b web handler" where
  "dashboard_redirect rq w = (Inr (redirect 301 ''/home''), w)"

definition listed_json :: "listed_host list \<Rightarrow> json" where
  "listed_json hs = JList (map (JStr \<circ> fst) hs)"

definition group_json :: "host_group \<Rightarrow> json" where
  "group_json g = JObj
     [(''name'', JStr (hg_name g)), (''node_host'', case hg_node_host g of None \<Rightarrow> JNull | Some sh \<Rightarrow> JStr (fst sh)),
      (''lxcs'', listed_json (hg_lxcs g)), (''vms'', listed_json (hg_vms g))]"

definition text_or_null :: "string option \<Rightarrow> json" where
  "text_or_null t = (case t of None \<Rightarrow> JNull | Some s \<Rightarrow> JStr s)"

definition main_home ::
  "'b web_env \<Rightarrow> string list \<Rightarrow> api_out \<Rightarrow> checks_file \<Rightarrow> version_cache \<Rightarrow> web_request \<Rightarrow> 'b web
     \<Rightarrow> (web_response res \<times> 'b web) \<times> version_cache" where
  "main_home env backend_keys release checks vc rq w =
     (let hosts = get_hosts (wb_config w);
          docker_configured = (''portainer'' \<in> set backend_keys \<or> list_ex (\<lambda>(s, h). truthy_s (h_docker_mode h)) hosts);
          (r, w1) = w_integration env ''proxmox_backup'' w;
          pbs_creds = (case r of Inr e \<Rightarrow> e | Inl _ \<Rightarrow> []);
          pbs_configured = (truthy_s (sv_url (get_pbs_config (wb_config w)))
            \<and> (field_truthy pbs_creds ''secret'' \<or> field_truthy pbs_creds ''api_token''));
          ((latest, url), vc') = get_latest_version (we_now env) release vc;
          show_update = newer_version latest;
          (groups, alone) = group_hosts hosts
      in ((Inr (page ''index.html''
            [(''hosts'', listed_json hosts),
             (''os_checked_label'', JStr (relative (we_now env) (oldest_host_check (map fst hosts) checks))),
             (''containers_checked_label'', JStr (relative (we_now env) (container_check checks))),
             (''last_scan_label'', JStr (case last_scan checks of None \<Rightarrow> [] | Some t \<Rightarrow> relative (we_now env) (Some t))),
             (''host_groups'', JList (map group_json groups)), (''standalone_hosts'', listed_json alone),
             (''docker_configured'', JBool docker_configured), (''pbs_configured'', JBool pbs_configured),
             (''app_version'', JStr APP_VERSION),
             (''latest_version'', if show_update then text_or_null latest else JNull),
             (''latest_release_url'', if show_update then text_or_null url else JNull),
             (''show_password_notice'', get_or (dict_get (wb_session w1) ''show_password_notice'') (JBool False))]), w1), vc'))"

text \<open>A card with the version of the backup server; without an address or a token there is none.\<close>

definition pbs_status :: "'b web_env \<Rightarrow> wizard_net \<Rightarrow> 'b web handler" where
  "pbs_status env net rq w =
     (let cfg = get_pbs_config (wb_config w); (r, w1) = w_integration env ''proxmox_backup'' w;
          creds = (case r of Inr e \<Rightarrow> e | Inl _ \<Rightarrow> []);
          url = get_or (sv_url cfg) []; verify = get_or (sv_verify cfg) True; pem = get_or (sv_pem cfg) [];
          token_id = str_field creds ''token_id''; api_user = str_field creds ''api_user''; api_token = str_field creds ''api_token'';
          auth = (if token_id = []
                  then if api_user \<noteq> [] then ''PBSAPIToken='' @ api_user @ CHR ''!'' # api_token else ''PBSAPIToken='' @ api_token
                  else ''PBSAPIToken='' @ token_id @ CHR '':'' # str_field creds ''secret'');
          card = (\<lambda>ver ok. page ''partials/integration_status_card.html''
            [(''name'', JStr ''Proxmox Backup Server''), (''version'', ver), (''ok'', JBool ok)])
      in if url = [] \<or> token_id = [] \<and> api_token = [] then (Inr (html 200 []), w1)
         else case res_bind (body_of (wn_get net \<lparr>pb_url = url @ ''/api2/json/version'', pb_auth = auth,
                       pb_pem = (if verify then pem else []), pb_verify = verify\<rparr>)) (\<lambda>j.
                     res_bind (field_or j ''data'' (JObj [])) (\<lambda>d. field_or d ''version'' (JStr ''unknown''))) of
                Inr ver \<Rightarrow> (Inr (card ver True), w1)
              | Inl e \<Rightarrow> (Inr (card JNull False), w1))"

subsection \<open>Checks from the page\<close>

text \<open>The state of the checks together with the credentials and the configuration.\<close>

record 'b check_page =
  cg_web :: "'b web"
  cg_scan :: scan_state

type_synonym 'b check_handler = "web_request \<Rightarrow> 'b check_page \<Rightarrow> web_response res \<times> 'b check_page"

fun scanned_json :: "scan_pkg \<Rightarrow> json" where
  "scanned_json (Pkg p) = JObj ([(''name'', JStr (pk_name p)), (''current'', JStr (pk_current p)), (''available'', JStr (pk_available p))]
     @ (case pk_held_back p of None \<Rightarrow> [] | Some b \<Rightarrow> [(''held_back'', JBool b)])
     @ (case pk_held_back_reason p of None \<Rightarrow> [] | Some r \<Rightarrow> [(''held_back_reason'', text_or_null r)]))"
| "scanned_json (NodePkg n c a) = JObj [(''name'', n), (''current'', c), (''available'', a)]"

definition scan_json :: "scan_result \<Rightarrow> entry" where
  "scan_json r =
     [(''packages'', JList (map scanned_json (sr_packages r))), (''reboot_required'', JBool (sr_reboot_required r)),
      (''is_proxmox_node'', JBool (sr_is_proxmox_node r)), (''package_manager'', JStr (sr_package_manager r)),
      (''proxmox_node'', text_or_null (sr_proxmox_node r)), (''proxmox_url'', JStr (sr_proxmox_url r))]"

definition host_check_page :: "'b web_env \<Rightarrow> host_env \<Rightarrow> scan_clock \<Rightarrow> time \<Rightarrow> string \<Rightarrow> 'b check_handler" where
  "host_check_page env hosts ck finish slug rq cs =
     (let w = cg_web cs; st = cg_scan cs in
      case get_host slug (wb_config w) of
        Inl e \<Rightarrow> (Inr (error_page (exn_str e)), cs)
      | Inr h \<Rightarrow>
          let (creds, d) = get_credentials (we_crypto env) slug (wb_creds w);
              w1 = w\<lparr>wb_creds := d\<rparr>;
              (r, _, cache) = scan_host (hosts\<lparr>he_context := job_context (we_crypto env) w1\<rparr>)
                 (get_update_check_ttl_minutes (wb_config w)) (sk_now ck) finish slug h (host_creds creds) (ss_cache st);
              st1 = st\<lparr>ss_cache := cache\<rparr>
          in case r of
               Inl e \<Rightarrow> (Inr (error_page (exn_str e)), cs\<lparr>cg_web := w1, cg_scan := st1\<rparr>)
             | Inr res \<Rightarrow>
                 (Inr (page ''partials/host_status.html'' ((''slug'', JStr slug) # scan_json res)),
                  cs\<lparr>cg_web := w1,
                     cg_scan := st1\<lparr>ss_checks := record_host_check (sk_writable ck) finish slug (ss_checks st1)\<rparr>\<rparr>))"

definition docker_check ::
  "(string list \<Rightarrow> string list) \<Rightarrow> scan_clock \<Rightarrow> 'z probe list \<Rightarrow> ('z stack_scheme \<Rightarrow> json) \<Rightarrow> 'b check_handler" where
  "docker_check set_order ck probes stack_json rq cs =
     (let (res, st) = scan_containers set_order ck (wb_config (cg_web cs)) probes (cg_scan cs) in
      if \<not> sc_backends_configured res
      then (Inr (error_page ''No container backends configured.''), cs\<lparr>cg_scan := st\<rparr>)
      else (Inr (page ''partials/docker_status.html''
              [(''stacks'', JList (map stack_json (sc_stacks res))), (''failed_backends'', JList (map JStr (sc_failed_backends res)))]),
            cs\<lparr>cg_scan := st\<lparr>ss_checks := record_container_check (sk_writable ck) (sk_now ck) (ss_checks st)\<rparr>\<rparr>))"

text \<open>The question before a reboot: for a Proxmox node, the guests that will stop with it.\<close>

definition guest_json :: "guest \<Rightarrow> json" where
  "guest_json g = JObj [(''vmid'', gu_vmid g),
     (''name'', get_or (gu_name g) (JStr (gu_type g @ ''-'' @ json_text (gu_vmid g)))), (''type'', JStr (gu_type g))]"

definition host_reboot_preview ::
  "'b crypto \<Rightarrow> (px_client \<Rightarrow> api) \<Rightarrow> string option \<Rightarrow> string \<Rightarrow> 'b web handler" where
  "host_reboot_preview c api self_node slug rq w =
     (let shown = (\<lambda>node guests self. page ''partials/proxmox_reboot_preview.html''
            [(''slug'', JStr slug), (''proxmox_node'', node), (''guests'', JList (map guest_json guests)), (''self_on_node'', JBool self)]) in
      (Inr (case get_host slug (wb_config w) of
         Inl e \<Rightarrow> error_page (exn_str e)
       | Inr h \<Rightarrow>
           if truthy_s (h_proxmox_node h) \<and> h_proxmox_vmid h = None
           then (let node = the (h_proxmox_node h) in
                 case res_bind (client_from_config (job_context c w) (h_proxmox_server h)) (\<lambda>client. get_running_guests (api client) node) of
                   Inl e \<Rightarrow> error_page (exn_str e)
                 | Inr guests \<Rightarrow> shown (JStr node) guests (is_self_on_proxmox_node self_node node))
           else shown JNull [] False), w))"

subsection \<open>The bell\<close>

definition badge :: "string \<Rightarrow> web_response" where
  "badge inner = html 200 (''<span id='' @ [DQUOTE] @ ''notif-badge'' @ [DQUOTE] @ '' hx-get='' @ [DQUOTE]
     @ ''/api/notifications/badge'' @ [DQUOTE] @ '' hx-trigger='' @ [DQUOTE] @ ''every 60s'' @ [DQUOTE]
     @ '' hx-swap='' @ [DQUOTE] @ ''outerHTML'' @ [DQUOTE] @ inner @ ''</span>'')"

definition BADGE_CLASS :: string where
  "BADGE_CLASS = ''absolute -top-1 -right-1 w-4 h-4 rounded-full bg-red-500 text-xs flex items-center justify-center '' @
     ''text-white font-bold pointer-events-none''"

definition notifications_badge :: "web_request \<Rightarrow> notif_state \<Rightarrow> web_response res \<times> notif_state" where
  "notifications_badge rq bell =
     (let count = get_unread_count bell in
      (Inr (if count = 0 then badge ''>''
            else badge ('' class='' @ [DQUOTE] @ BADGE_CLASS @ [DQUOTE] @ ''>'' @ (if count < 10 then show_nat count else ''9+''))), bell))"

definition notif_json :: "notif \<Rightarrow> json" where
  "notif_json n = JObj [(''id'', JStr (nt_id n)), (''title'', JStr (nt_title n)), (''message'', JStr (nt_message n)),
     (''level'', JStr (nt_level n)), (''read'', JBool (nt_read n)), (''url'', text_or_null (nt_url n))]"

definition notifications_panel :: "web_request \<Rightarrow> notif_state \<Rightarrow> web_response res \<times> notif_state" where
  "notifications_panel rq bell =
     (Inr (page ''partials/notification_panel.html'' [(''entries'', JList (map notif_json (get_notifications 20 bell)))]), bell)"

definition notifications_read :: "web_request \<Rightarrow> notif_state \<Rightarrow> web_response res \<times> notif_state" where
  "notifications_read rq bell = (Inr (badge ''>''), mark_all_read bell)"

subsection \<open>Every host is shown once\<close>

definition group_members :: "host_group \<Rightarrow> listed_host list" where
  "group_members g = (case hg_node_host g of None \<Rightarrow> [] | Some sh \<Rightarrow> [sh]) @ hg_lxcs g @ hg_vms g"

definition shown_hosts :: "host_group list \<times> listed_host list \<Rightarrow> listed_host list" where
  "shown_hosts r = concat (map group_members (fst r)) @ snd r"

text \<open>The node an entry stands for, if it stands for one.\<close>

definition node_of_entry :: "listed_host \<Rightarrow> string option" where
  "node_of_entry sh = (if truthy_s (h_proxmox_node (snd sh)) \<and> h_proxmox_vmid (snd sh) = None then h_proxmox_node (snd sh) else None)"

definition grouped_ok :: "listed_host list \<Rightarrow> (string \<times> host_group) list \<times> listed_host list \<Rightarrow> bool" where
  "grouped_ok hs st \<longleftrightarrow> dict_ok (fst st)
     \<and> mset (concat (map (group_members \<circ> snd) (fst st))) + mset (snd st) = mset hs
     \<and> (\<forall>n g. dict_get (fst st) n = Some g \<longrightarrow> hg_node_host g \<noteq> None \<longrightarrow> n \<in> set (List.map_filter node_of_entry hs))"

lemma members_dict_set:
  "dict_ok d \<Longrightarrow> mset (concat (map (group_members \<circ> snd) (dict_set k g d)))
      + mset (case dict_get d k of None \<Rightarrow> [] | Some g0 \<Rightarrow> group_members g0)
    = mset (concat (map (group_members \<circ> snd) d)) + mset (group_members g)"
proof (induction d)
  case (Cons kv d)
  obtain k' g' where kv: "kv = (k', g')" by fastforce
  have "dict_ok d" using Cons.prems by simp
  then show ?case using Cons.IH by (auto simp: kv ac_simps)
qed simp

lemma members_placed:
  assumes "h_proxmox_vmid (snd sh) = None \<longrightarrow> hg_node_host g = None"
  shows "mset (group_members (placed sh g)) = add_mset sh (mset (group_members g))"
  using assms by (auto simp: placed_def group_members_def split: option.splits)

lemma node_entry_added:
  assumes "hg_node_host (placed sh g) \<noteq> None" and "get_or (h_proxmox_node (snd sh)) [] = node" and "node \<noteq> []"
  shows "hg_node_host g \<noteq> None \<or> node_of_entry sh = Some node"
  using assms by (cases "h_proxmox_node (snd sh)") (auto simp: placed_def node_of_entry_def split: if_splits)

lemma group_host_ok:
  assumes ok: "grouped_ok hs st" and new: "distinct (List.map_filter node_of_entry (hs @ [sh]))"
  shows "grouped_ok (hs @ [sh]) (group_host sh st)"
proof -
  obtain nodes alone where st: "st = (nodes, alone)" by fastforce
  define node where "node = get_or (h_proxmox_node (snd sh)) []"
  show ?thesis
  proof (cases "node = []")
    case True
    then show ?thesis using ok by (auto simp: group_host_def st grouped_ok_def node_def map_filter_simps List.map_filter_def)
  next
    case False
    define g where "g = get_or (dict_get nodes node) \<lparr>hg_name = node, hg_node_host = None, hg_lxcs = [], hg_vms = []\<rparr>"
    have truthy: "truthy_s (h_proxmox_node (snd sh))" "h_proxmox_node (snd sh) = Some node"
      using False by (cases "h_proxmox_node (snd sh)"; simp add: node_def)+
    have free: "h_proxmox_vmid (snd sh) = None \<longrightarrow> hg_node_host g = None"
    proof
      assume "h_proxmox_vmid (snd sh) = None"
      then have "node_of_entry sh = Some node" using truthy by (simp add: node_of_entry_def)
      then have "node \<notin> set (List.map_filter node_of_entry hs)" using new by (auto simp: List.map_filter_def)
      moreover have "dict_get nodes node = Some g" if "hg_node_host g \<noteq> None"
        using that by (cases "dict_get nodes node") (simp_all add: g_def)
      ultimately show "hg_node_host g = None" using ok unfolding grouped_ok_def st fst_conv by blast
    qed
    have old: "mset (case dict_get nodes node of None \<Rightarrow> [] | Some g0 \<Rightarrow> group_members g0) = mset (group_members g)"
      by (cases "dict_get nodes node") (simp_all add: g_def group_members_def)
    have dok: "dict_ok nodes" and total: "mset (concat (map (group_members \<circ> snd) nodes)) + mset alone = mset hs"
      using ok by (simp_all add: grouped_ok_def st)
    have "mset (concat (map (group_members \<circ> snd) (dict_set node (placed sh g) nodes))) + mset alone = add_mset sh (mset hs)"
      using members_dict_set [OF dok, of node "placed sh g"] members_placed [OF free] old total by simp
    moreover have "n \<in> set (List.map_filter node_of_entry (hs @ [sh]))"
      if "dict_get (dict_set node (placed sh g) nodes) n = Some g'" and "hg_node_host g' \<noteq> None" for n g'
    proof (cases "n = node")
      case True
      then have "hg_node_host g \<noteq> None \<or> node_of_entry sh = Some node"
        using that node_entry_added [of sh g node] False by (simp add: dict_simps node_def)
      then show ?thesis using ok True
        by (cases "dict_get nodes node") (auto simp: grouped_ok_def st g_def List.map_filter_def)
    next
      case False
      then show ?thesis using that ok by (auto simp: dict_simps grouped_ok_def st List.map_filter_def)
    qed
    ultimately show ?thesis using False dok by (simp add: group_host_def st grouped_ok_def node_def [symmetric] g_def [symmetric])
  qed
qed

text \<open>The dashboard shows every configured host exactly once, in the group of its node or among the other hosts, when no two
  entries stand for nodes of one name.\<close>
theorem hosts_shown_once:
  assumes "distinct (List.map_filter node_of_entry hosts)"
  shows "mset (shown_hosts (group_hosts hosts)) = mset hosts"
proof -
  have "grouped_ok hosts (fold group_host hosts ([], []))" using assms
  proof (induction hosts rule: rev_induct)
    case Nil
    then show ?case by (simp add: grouped_ok_def)
  next
    case (snoc sh hs)
    then have "grouped_ok hs (fold group_host hs ([], []))" by (auto simp: List.map_filter_def)
    then show ?case using group_host_ok snoc.prems by simp
  qed
  then show ?thesis by (simp add: grouped_ok_def group_hosts_def shown_hosts_def case_prod_beta comp_def)
qed

definition two_guests :: "listed_host list" where
  "two_guests =
     [(''nas'', build_host_entry ''nas'' ''10.0.0.3'' (Some ''root'') None None None None None None None), (''pve'', demo_node),
      (''web'', build_host_entry ''web'' ''10.0.0.5'' None None None None (Some ''pve'') (Some 101) None None),
      (''win'', (build_host_entry ''win'' ''10.0.0.6'' None None None None (Some ''pve'') (Some 102) None None)
          \<lparr>h_proxmox_type := Some ''vm''\<rparr>)]"

theorem hosts_shown_once_witness: "mset (shown_hosts (group_hosts two_guests)) = mset two_guests \<and> length (fst (group_hosts two_guests)) = 1"
proof -
  have "List.map_filter node_of_entry two_guests = [''pve'']" by code_simp
  then have "distinct (List.map_filter node_of_entry two_guests)" by simp
  moreover have "length (fst (group_hosts two_guests)) = 1" by code_simp
  ultimately show ?thesis using hosts_shown_once by blast
qed

text \<open>Nodes are told apart by their name only: of two nodes of that name on different servers one is not shown.\<close>

lemma same_name_hides_node:
  "let other = demo_node\<lparr>h_name := ''other'', h_host := Some ''10.9.0.2'', h_proxmox_server := Some ''site-b''\<rparr>
   in shown_hosts (group_hosts [(''pve'', demo_node), (''other'', other)]) = [(''other'', other)]"
  by code_simp

subsection \<open>The log view adds no markup of its own lines\<close>

lemma no_angle_in_escape: "x = CHR ''<'' \<or> x = CHR ''>'' \<Longrightarrow> count_list (html_escape s) x = 0"
proof -
  have "x \<notin> set (escape_char c)" if "x = CHR ''<'' \<or> x = CHR ''>''" for c
    using that by (auto simp: escape_char_def)
  then show "x = CHR ''<'' \<or> x = CHR ''>'' \<Longrightarrow> count_list (html_escape s) x = 0"
    by (simp add: html_escape_def count_list_0_iff)
qed

lemma chain_of_five: "(if a then p1 else if b then p2 else if c then p3 else if d then p4 else p5) \<in> {p1, p2, p3, p4, p5}"
  by simp

lemma line_classes:
  "classify_log_line s \<in> {''log-line-red'', ''log-line-yellow'', ''log-line-dim'', ''log-line-ok'', ''log-line-white''}"
  unfolding classify_log_line_def Let_def by (rule chain_of_five)

lemma no_angle_in_class: "x = CHR ''<'' \<or> x = CHR ''>'' \<Longrightarrow> count_list (classify_log_line s) x = 0"
  using line_classes [of s] by (elim disjE insertE emptyE; simp only: count_list.simps; simp)

lemma angles_of_line: "x = CHR ''<'' \<or> x = CHR ''>'' \<Longrightarrow> count_list (log_line_html s) x = 2"
  by (auto simp: log_line_html_def no_angle_in_escape no_angle_in_class DQUOTE_def)

text \<open>How a browser reads a list of elements: the text of an element is between the end of its opening tag and the next tag, with
  the character references decoded.\<close>

definition ENTITIES :: "(string \<times> char) list" where
  "ENTITIES = [(''&amp;'', CHR ''&''), (''&lt;'', CHR ''<''), (''&gt;'', CHR ''>''), (''&quot;'', DQUOTE), (''&#x27;'', QUOTE)]"

function html_unescape :: "string \<Rightarrow> string" where
  "html_unescape [] = []"
| "html_unescape (c # cs) =
     (case find (\<lambda>(e, x). starts_with (c # cs) e) ENTITIES of
        Some (e, x) \<Rightarrow> x # html_unescape (drop (length e - 1) cs)
      | None \<Rightarrow> c # html_unescape cs)"
  by pat_completeness auto
termination by (relation "measure length") auto

function element_texts :: "string \<Rightarrow> string list" where
  "element_texts s =
     (if CHR ''>'' \<notin> set s then []
      else let body = tl (dropWhile (\<lambda>c. c \<noteq> CHR ''>'') s) in
           html_unescape (takeWhile (\<lambda>c. c \<noteq> CHR ''<'') body)
             # element_texts (tl (dropWhile (\<lambda>c. c \<noteq> CHR ''>'') (dropWhile (\<lambda>c. c \<noteq> CHR ''<'') body))))"
  by pat_completeness auto
termination
proof (relation "measure length", goal_cases)
  case (2 s body)
  have "length (tl (dropWhile P xs)) \<le> length xs" for P and xs :: string
    using length_dropWhile_le [of P xs] by simp
  then have "length (tl (dropWhile (\<lambda>c. c \<noteq> CHR ''>'') (dropWhile (\<lambda>c. c \<noteq> CHR ''<'') body))) \<le> length body"
    using length_dropWhile_le le_trans by blast
  moreover have "length body < length s"
  proof -
    have "dropWhile (\<lambda>c. c \<noteq> CHR ''>'') s \<noteq> []" using 2 by simp
    then show ?thesis using 2(2) length_dropWhile_le [of "\<lambda>c. c \<noteq> CHR ''>''" s] by (cases "dropWhile (\<lambda>c. c \<noteq> CHR ''>'') s") auto
  qed
  ultimately show ?case by simp
qed simp

declare element_texts.simps [simp del]

lemma unescape_char: "html_unescape (escape_char c @ s) = c # html_unescape s"
  by (auto simp: escape_char_def ENTITIES_def DQUOTE_def QUOTE_def)

lemma unescape_escape: "html_unescape (html_escape s) = s"
  by (induction s) (simp_all add: html_escape_def unescape_char del: html_unescape.simps(2))

lemma text_of_line:
  assumes "CHR ''>'' \<notin> set pre"
  shows "element_texts (pre @ log_line_html l @ rest) = l # element_texts rest"
proof -
  let ?open = "''<div class='' @ [DQUOTE] @ classify_log_line l @ [DQUOTE]"
  have cls: "CHR ''>'' \<notin> set ?open" using no_angle_in_class [of "CHR ''>''" l] by (auto simp: count_list_0_iff DQUOTE_def)
  have esc: "CHR ''<'' \<notin> set (html_escape l)" using no_angle_in_escape [of "CHR ''<''" l] by (simp add: count_list_0_iff)
  let ?s = "(pre @ ?open) @ CHR ''>'' # html_escape l @ CHR ''<'' # ''/div'' @ CHR ''>'' # rest"
  have s: "pre @ log_line_html l @ rest = ?s" by (simp add: log_line_html_def)
  have first_tag: "dropWhile (\<lambda>c. c \<noteq> CHR ''>'') ?s = CHR ''>'' # html_escape l @ CHR ''<'' # ''/div'' @ CHR ''>'' # rest"
    by (subst dropWhile_append2) (use assms cls in auto)
  have text_part: "takeWhile (\<lambda>c. c \<noteq> CHR ''<'') (html_escape l @ CHR ''<'' # ''/div'' @ CHR ''>'' # rest) = html_escape l"
    by (subst takeWhile_append2) (use esc in auto)
  have last_tag: "dropWhile (\<lambda>c. c \<noteq> CHR ''<'') (html_escape l @ CHR ''<'' # ''/div'' @ CHR ''>'' # rest)
      = CHR ''<'' # ''/div'' @ CHR ''>'' # rest"
    by (subst dropWhile_append2) (use esc in auto)
  show ?thesis unfolding s by (subst element_texts.simps) (simp only: Let_def first_tag list.sel text_part last_tag unescape_escape, simp)
qed

text \<open>C24. The log view of a job has one element for each line and no other markup, whatever a host printed: two opening and two
  closing brackets for each line; and a browser that reads the view finds the lines as they were printed, in their order.\<close>
theorem log_view_escaped:
  "count_list (format_log_lines ls) (CHR ''<'') = 2 * length ls \<and> count_list (format_log_lines ls) (CHR ''>'') = 2 * length ls
    \<and> element_texts (format_log_lines ls) = ls"
proof -
  have "count_list (py_join [NL] (map log_line_html ls)) x = 2 * length ls" if x: "x = CHR ''<'' \<or> x = CHR ''>''" for x
  proof (induction ls)
    case (Cons l ls)
    then show ?case using angles_of_line [OF x] x by (cases ls) (auto simp: NL_def)
  qed simp
  moreover have "element_texts (pre @ py_join [NL] (map log_line_html ls)) = ls" if "CHR ''>'' \<notin> set pre" for pre
    using that
  proof (induction ls arbitrary: pre)
    case Nil
    then show ?case by (subst element_texts.simps) simp
  next
    case (Cons l ls)
    show ?case
    proof (cases ls)
      case Nil
      then show ?thesis using text_of_line [OF Cons.prems, of l "[]"] by (subst (asm) (2) element_texts.simps) simp
    next
      case (Cons l' ls')
      then show ?thesis using text_of_line [OF Cons.prems, of l "[NL] @ py_join [NL] (map log_line_html ls)"] Cons.IH [of "[NL]"]
        by (simp add: NL_def)
    qed
  qed
  from this [of "[]"] have "element_texts (format_log_lines ls) = ls" by (simp add: format_log_lines_def)
  ultimately show ?thesis by (simp add: format_log_lines_def)
qed

subsection \<open>Newer versions\<close>

definition version_text :: "nat list \<Rightarrow> string" where
  "version_text ns = py_join ''.'' (map show_nat ns)"

text \<open>A release is announced exactly when its number, read part by part, is greater than that of the running version.\<close>
theorem newer_version_as_numbers:
  assumes "ns \<noteq> []"
  shows "newer_version (Some (version_text ns)) \<longleftrightarrow> [0, 40, 4] < map int ns"
proof -
  have "version_parts APP_VERSION = Some [0, 40, 4]" by code_simp
  moreover have "version_parts (version_text ns) = Some (map int ns)"
  proof -
    have "split_char CHR ''.'' (py_join ''.'' (map show_nat ns)) = map show_nat ns"
      using assms show_nat_digits by (intro split_char_join) (fastforce simp: is_digit_def)+
    then show ?thesis by (simp add: version_parts_def version_text_def comp_def)
  qed
  moreover have "version_text ns \<noteq> []"
    using assms by (cases ns; cases "tl ns") (auto simp: version_text_def py_join_Cons)
  ultimately show ?thesis by (simp add: newer_version_def)
qed

theorem newer_version_as_numbers_witness: "newer_version (Some (version_text [0, 41, 0])) \<and> \<not> newer_version (Some (version_text [0, 9, 99]))"
  using newer_version_as_numbers [of "[0, 41, 0]"] newer_version_as_numbers [of "[0, 9, 99]"] by simp

end
