(* ===== verification/Startup.thy ===== *)
theory Startup
  imports Dashboard
begin

section \<open>The start of the application (app/main.py)\<close>

text \<open>
  What runs when Keepup starts: the note about a new version, the migrations of the configuration, the
  pinning of certificates for integrations that had verification off, and the schedules.  The state
  is what these steps read and write; the version file holds its text, and \<open>be_writable\<close> says whether
  it can be written.
\<close>

record 'b boot =
  bt_config :: disk
  bt_creds :: "'b cred_disk"
  bt_bell :: notif_state
  bt_version :: "string option"
  bt_jobs :: jobs
  bt_backends :: "backend_spec list"

record 'b boot_env =
  be_crypto :: "'b crypto"
  be_net :: wizard_net
  be_now :: time
  be_id :: string
  be_writable :: bool
  be_cron_ok :: "string \<Rightarrow> bool"
  be_checks :: checks_file

definition check_version_notification :: "'b boot_env \<Rightarrow> 'b boot \<Rightarrow> 'b boot" where
  "check_version_notification env bt =
     (let stored = py_strip (get_or (bt_version bt) []) in
      if stored = APP_VERSION then bt
      else let bt1 = (if stored \<noteq> []
                      then bt\<lparr>bt_bell := notify (bt_config bt) (be_id env) (be_now env) (''Updated to v'' @ APP_VERSION)
                             (''Keepup was upgraded from v'' @ stored @ '' to v'' @ APP_VERSION @ ''.'') ''info''
                             (''https://github.com/d4vastu/Keepup/releases/tag/v'' @ APP_VERSION) (bt_bell bt)\<rparr>
                      else bt)
           in if be_writable env then bt1\<lparr>bt_version := Some APP_VERSION\<rparr> else bt1)"

subsection \<open>Pinning the certificates of unverified integrations\<close>

type_synonym 'b both = "disk \<times> 'b cred_disk"

record 'b pinnable =
  pn_name :: string
  pn_get :: "disk \<Rightarrow> service"
  pn_save :: "string \<Rightarrow> string \<Rightarrow> string \<Rightarrow> 'b both \<Rightarrow> unit res \<times> 'b both"

definition on_config :: "(disk \<Rightarrow> disk) \<Rightarrow> 'b both \<Rightarrow> unit res \<times> 'b both" where
  "on_config f w = (Inr (), (f (fst w), snd w))"

definition tofu_integrations :: "'b crypto \<Rightarrow> 'b pinnable list" where
  "tofu_integrations c =
     [\<lparr>pn_name = ''proxmox'', pn_get = get_proxmox_config, pn_save = (\<lambda>url pem fp. save_proxmox_config c url pem fp True)\<rparr>,
      \<lparr>pn_name = ''proxmox_backup'', pn_get = get_pbs_config, pn_save = (\<lambda>url pem fp. on_config (save_pbs_config url pem fp True))\<rparr>,
      \<lparr>pn_name = ''opnsense'', pn_get = get_opnsense_config, pn_save = (\<lambda>url pem fp. on_config (save_opnsense_config url pem fp True))\<rparr>,
      \<lparr>pn_name = ''pfsense'', pn_get = get_pfsense_config, pn_save = (\<lambda>url pem fp. on_config (save_pfsense_config url pem fp True))\<rparr>,
      \<lparr>pn_name = ''portainer'', pn_get = get_portainer_config, pn_save = (\<lambda>url pem fp. on_config (save_portainer_config url pem fp))\<rparr>]"

definition wants_pin :: "service \<Rightarrow> bool" where
  "wants_pin cfg \<longleftrightarrow> sv_verify cfg = Some False \<and> \<not> truthy_s (sv_pem cfg) \<and> truthy_s (sv_url cfg)"

definition fetched_pin :: "wizard_net \<Rightarrow> string \<Rightarrow> (string \<times> string) res" where
  "fetched_pin net url =
     res_bind (fetch_server_cert net url) (\<lambda>pem. res_bind (cert_info net pem) (\<lambda>info. Inr (pem, str_field info ''fingerprint'')))"

definition pin_one :: "wizard_net \<Rightarrow> 'b pinnable \<Rightarrow> 'b both \<times> string list \<Rightarrow> 'b both \<times> string list" where
  "pin_one net p st =
     (let (w, pinned) = st; cfg = pn_get p (fst w); url = get_or (sv_url cfg) [] in
      if \<not> wants_pin cfg then st
      else case fetched_pin net url of
             Inl e \<Rightarrow> st
           | Inr (pem, fp) \<Rightarrow>
               (case pn_save p url pem fp w of
                  (Inl e, w') \<Rightarrow> (w', pinned)
                | (Inr _, w') \<Rightarrow> (w', pinned @ [pn_name p])))"

definition migrate_tofu_certs :: "'b boot_env \<Rightarrow> 'b boot \<Rightarrow> 'b boot" where
  "migrate_tofu_certs env bt =
     (if get_tofu_migrated (bt_config bt) then bt
      else let ((d, c), pinned) = fold (pin_one (be_net env)) (tofu_integrations (be_crypto env)) ((bt_config bt, bt_creds bt), []);
               d' = mark_tofu_migrated d
           in bt\<lparr>bt_config := d', bt_creds := c,
                 bt_bell := (if pinned = [] then bt_bell bt
                   else notify d' (be_id env) (be_now env) ''TLS certificates auto-pinned''
                          (''Keepup upgraded to certificate pinning (TOFU). Certificates were automatically captured for: ''
                            @ py_join '', '' pinned @ ''. Re-test each integration if connections fail.'') ''info'' [] (bt_bell bt))\<rparr>)"

subsection \<open>The start\<close>

text \<open>A failing migration of the Proxmox block stops the start.\<close>

definition startup :: "'b boot_env \<Rightarrow> 'b boot \<Rightarrow> unit res \<times> 'b boot" where
  "startup env bt =
     (let bt1 = check_version_notification env bt;
          (missing, d2) = migrate_ssh_config (bt_config bt1);
          (r, (d3, c3)) = migrate_proxmox_servers (be_crypto env) (d2, bt_creds bt1);
          bt3 = bt1\<lparr>bt_config := d3, bt_creds := c3\<rparr>
      in case r of
           Inl e \<Rightarrow> (Inl e, bt3)
         | Inr _ \<Rightarrow>
             let bt4 = migrate_tofu_certs env bt3;
                 specs = reload_backends (bt_config bt4) (\<lambda>key. fst (get_integration_credentials (be_crypto env)
                   (case get_proxmox_servers (bt_config bt4) of [] \<Rightarrow> None | s # _ \<Rightarrow> Some (srv_id s)) key (bt_creds bt4)));
                 (d5, js) = apply_all_schedules (be_cron_ok env) (be_now env) (be_checks env) (bt_config bt4) (bt_jobs bt4)
             in (Inr (), bt4\<lparr>bt_config := d5, bt_jobs := js, bt_backends := specs\<rparr>))"

text \<open>The backends are read again after a change of the connections.\<close>

definition reload_connections :: "'b boot_env \<Rightarrow> web_request \<Rightarrow> 'b boot \<Rightarrow> web_response res \<times> 'b boot" where
  "reload_connections env rq bt =
     (Inr (html 200 []), bt\<lparr>bt_backends := reload_backends (bt_config bt) (\<lambda>key. fst (get_integration_credentials (be_crypto env)
        (case get_proxmox_servers (bt_config bt) of [] \<Rightarrow> None | s # _ \<Rightarrow> Some (srv_id s)) key (bt_creds bt)))\<rparr>)"

subsection \<open>A second start is quiet\<close>

lemma version_quiet: "bt_version bt = Some APP_VERSION \<Longrightarrow> check_version_notification env bt = bt"
proof -
  have "py_strip APP_VERSION = APP_VERSION" by code_simp
  then show "bt_version bt = Some APP_VERSION \<Longrightarrow> check_version_notification env bt = bt"
    by (simp add: check_version_notification_def)
qed

lemma version_written: "be_writable env \<Longrightarrow> bt_version (check_version_notification env bt) = Some APP_VERSION \<or>
    check_version_notification env bt = bt \<and> py_strip (get_or (bt_version bt) []) = APP_VERSION"
  by (simp add: check_version_notification_def Let_def)

lemma version_checked_twice:
  assumes "be_writable env" and "bt_version bt' = bt_version (check_version_notification env bt)"
  shows "check_version_notification env' bt' = bt'"
proof (cases "bt_version bt' = Some APP_VERSION")
  case True
  then show ?thesis by (rule version_quiet)
next
  case False
  then have "py_strip (get_or (bt_version bt') []) = APP_VERSION" using version_written [OF assms(1), of bt] assms(2) by simp
  then show ?thesis by (simp add: check_version_notification_def)
qed

lemma tofu_flag_kept:
  "get_tofu_migrated d \<Longrightarrow> get_tofu_migrated (snd (migrate_ssh_config d))"
  "get_tofu_migrated d \<Longrightarrow> get_tofu_migrated (fst (snd (migrate_proxmox_servers c (d, creds))))"
  "get_tofu_migrated d \<Longrightarrow> get_tofu_migrated (snd (get_update_check_interval_hours d))"
  by (auto simp: get_tofu_migrated_def migrate_ssh_config_def migrate_proxmox_servers_def get_update_check_interval_hours_def
      Let_def case_prod_beta split: option.splits sum.splits)

lemma schedules_config: "fst (apply_all_schedules ok now checks d js) = snd (get_update_check_interval_hours d)"
  by (simp add: apply_all_schedules_def apply_update_check_schedule_def case_prod_beta Let_def)

lemma tofu_done: "get_tofu_migrated (bt_config (migrate_tofu_certs env bt))"
  by (simp add: migrate_tofu_certs_def get_tofu_migrated_def mark_tofu_migrated_def case_prod_beta Let_def)

lemma startup_flags:
  assumes "startup env bt = (Inr (), bt')"
  shows "get_tofu_migrated (bt_config bt') \<and> bt_version bt' = bt_version (check_version_notification env bt)"
proof -
  let ?b1 = "check_version_notification env bt"
  obtain m d2 where m: "migrate_ssh_config (bt_config ?b1) = (m, d2)" by fastforce
  obtain r d3 c3 where p: "migrate_proxmox_servers (be_crypto env) (d2, bt_creds ?b1) = (r, (d3, c3))" using prod_cases3 by blast
  let ?b3 = "?b1\<lparr>bt_config := d3, bt_creds := c3\<rparr>"
  obtain sid where r: "r = Inr sid" using assms by (cases r) (simp_all add: startup_def m p)
  have "bt_config bt' = fst (apply_all_schedules (be_cron_ok env) (be_now env) (be_checks env)
      (bt_config (migrate_tofu_certs env ?b3)) (bt_jobs (migrate_tofu_certs env ?b3)))"
    and "bt_version bt' = bt_version (migrate_tofu_certs env ?b3)"
    using assms by (auto simp: startup_def m p r Let_def case_prod_beta)
  moreover have "bt_version (migrate_tofu_certs env ?b3) = bt_version ?b1"
    by (simp add: migrate_tofu_certs_def case_prod_beta Let_def)
  moreover have "get_tofu_migrated (snd (get_update_check_interval_hours (bt_config (migrate_tofu_certs env ?b3))))"
    by (rule tofu_flag_kept(3) [OF tofu_done])
  ultimately show ?thesis by (simp add: schedules_config)
qed

text \<open>Only the first start after an upgrade announces anything: a start that follows a completed one of the same version, with the
  state that it left, leaves the notifications as they are.\<close>
theorem second_start_quiet:
  assumes "startup env bt = (Inr (), bt1)" and "be_writable env"
  shows "bt_bell (snd (startup env' bt1)) = bt_bell bt1"
proof -
  have flags: "get_tofu_migrated (bt_config bt1)" "bt_version bt1 = bt_version (check_version_notification env bt)"
    using startup_flags [OF assms(1)] by simp_all
  have ver: "check_version_notification env' bt1 = bt1" using version_checked_twice [OF assms(2) flags(2)] .
  obtain m d2 where m: "migrate_ssh_config (bt_config bt1) = (m, d2)" by fastforce
  obtain r d3 c3 where p: "migrate_proxmox_servers (be_crypto env') (d2, bt_creds bt1) = (r, (d3, c3))" using prod_cases3 by blast
  have "get_tofu_migrated d2" using tofu_flag_kept(1) [OF flags(1)] m by simp
  then have "get_tofu_migrated d3" using tofu_flag_kept(2) [of d2 "be_crypto env'" "bt_creds bt1"] p by simp
  then have "migrate_tofu_certs env' (bt1\<lparr>bt_config := d3, bt_creds := c3\<rparr>) = bt1\<lparr>bt_config := d3, bt_creds := c3\<rparr>"
    by (simp add: migrate_tofu_certs_def)
  then show ?thesis by (cases r) (simp_all add: startup_def ver m p Let_def case_prod_beta)
qed

text \<open>Whether the start completes is decided by the migration of the Proxmox block.\<close>

lemma startup_result:
  "fst (startup env bt) = map_sum id (\<lambda>_. ()) (fst (migrate_proxmox_servers (be_crypto env)
     (snd (migrate_ssh_config (bt_config bt)), bt_creds bt)))"
proof -
  have "bt_config (check_version_notification env bt) = bt_config bt" "bt_creds (check_version_notification env bt) = bt_creds bt"
    by (simp_all add: check_version_notification_def Let_def)
  then show ?thesis by (simp add: startup_def case_prod_beta Let_def split: sum.splits)
qed

definition old_boot :: "(string \<times> store) boot" where
  "old_boot = \<lparr>bt_config = Some (empty_config\<lparr>c_update_checks := Some (JNum 0), c_proxmox_backup := Some (empty_service\<lparr>sv_url := Some ''https://pbs.lan:8007'', sv_verify := Some False\<rparr>)\<rparr>),
     bt_creds = fresh_disk, bt_bell = \<lparr>ns_file = Missing, ns_pushes = []\<rparr>, bt_version = Some ''0.1.0'', bt_jobs = [], bt_backends = []\<rparr>"

definition old_boot_env :: "(string \<times> store) boot_env" where
  "old_boot_env = \<lparr>be_crypto = plain_crypto, be_net = demo_net, be_now = 1000, be_id = ''n1'', be_writable = True,
     be_cron_ok = (\<lambda>_. True), be_checks = Missing\<rparr>"

theorem second_start_quiet_witness:
  "bt_bell (snd (startup old_boot_env (snd (startup old_boot_env old_boot)))) = bt_bell (snd (startup old_boot_env old_boot))"
proof -
  have "fst (migrate_proxmox_servers plain_crypto (snd (migrate_ssh_config (bt_config old_boot)), fresh_disk)) = Inr []" by code_simp
  then have "fst (startup old_boot_env old_boot) = Inr ()" by (simp add: startup_result old_boot_env_def old_boot_def)
  then have "startup old_boot_env old_boot = (Inr (), snd (startup old_boot_env old_boot))" by (metis prod.collapse)
  then show "bt_bell (snd (startup old_boot_env (snd (startup old_boot_env old_boot)))) = bt_bell (snd (startup old_boot_env old_boot))"
    by (rule second_start_quiet) (simp add: old_boot_env_def)
qed

end
