(* ===== verification/ProxmoxWizard.thy ===== *)
theory ProxmoxWizard
  imports Startup
begin

section \<open>The wizard's guided Proxmox flow (app/auth_router.py)\<close>

text \<open>
  Saving a server, adding another one, discovering its guests and turning them into hosts.  Resources are kept in the
  session as the dictionaries that the discovery returns.  \<open>wz_keys\<close> are the key files on offer, \<open>wz_dial\<close> and
  \<open>wz_remote\<close> the SSH connection, \<open>wz_loads\<close> the JSON parser and \<open>wz_post\<close> a POST with a form.
\<close>

record 'b wizard_env =
  wz_web :: "'b web_env"
  wz_net :: wizard_net
  wz_keys :: "string list"
  wz_dial :: dial
  wz_remote :: transport
  wz_loads :: "string \<Rightarrow> json option"
  wz_post :: "string \<Rightarrow> (string \<times> string) list \<Rightarrow> api_out"
  wz_mail :: "email \<Rightarrow> string \<Rightarrow> unit res"

definition wz_crypto :: "'b wizard_env \<Rightarrow> 'b crypto" where "wz_crypto env = we_crypto (wz_web env)"

subsection \<open>Servers\<close>

text \<open>The key of a server's credentials.\<close>

definition server_key :: "string \<Rightarrow> string" where
  "server_key server_id = (if server_id \<noteq> [] then ''proxmox_'' @ server_id else ''proxmox'')"

definition setup_proxmox_client_parts :: "'b wizard_env \<Rightarrow> string \<Rightarrow> ('b web, string \<times> string \<times> string) web_steps" where
  "setup_proxmox_client_parts env server_id =
     w_state (\<lambda>w. let cfg = proxmox_cfg_for server_id (wb_config w) in
       w_bind (w_integration (wz_web env) (if server_id \<noteq> [] \<and> server_id \<noteq> NEW_SERVER then ''proxmox_'' @ server_id else ''proxmox''))
         (\<lambda>creds. w_return (get_or (sv_url cfg) [], assemble_token creds, get_or (sv_pem cfg) [])))"

definition server_json :: "string \<Rightarrow> string \<Rightarrow> json" where
  "server_json server_id url = JObj [(''id'', JStr server_id), (''url'', JStr url)]"

definition wizard_proxmox_servers :: "disk \<Rightarrow> json list" where
  "wizard_proxmox_servers d =
     (case get_proxmox_servers d of
        [] \<Rightarrow> (let url = get_or (sv_url (get_proxmox_config d)) [] in if url \<noteq> [] then [server_json [] url] else [])
      | s # ss \<Rightarrow> map (\<lambda>s. server_json (srv_id s) (get_or (sv_url (srv_block s)) [])) (s # ss))"

definition proxmox_ssh_cred_kwargs :: "string \<Rightarrow> string \<Rightarrow> string \<Rightarrow> string \<Rightarrow> (string \<times> json option) list" where
  "proxmox_ssh_cred_kwargs ssh_user ssh_auth ssh_key ssh_password =
     (let user = py_strip ssh_user; key = py_strip ssh_key; password = py_strip ssh_password in
      (if user \<noteq> [] then [text_field ''ssh_user'' user] else [])
      @ (if ssh_auth = ''key'' \<and> key \<noteq> [] then [text_field ''ssh_key'' key, text_field ''ssh_password'' []]
         else if ssh_auth = ''password'' \<and> password \<noteq> []
         then [text_field ''ssh_password'' password, text_field ''ssh_key'' []] else []))"

text \<open>\<open>v or None\<close>.\<close>

definition or_none :: "string \<Rightarrow> string option" where
  "or_none v = (if v = [] then None else Some v)"

definition persist_proxmox_server ::
  "'b crypto \<Rightarrow> string \<Rightarrow> string \<Rightarrow> string \<Rightarrow> string \<Rightarrow> bool \<Rightarrow> ('b web, string) web_steps" where
  "persist_proxmox_server c server_id url pem fp verify =
     w_state (\<lambda>w.
       if server_id = NEW_SERVER
       then (if url = [] then w_return []
             else w_both (\<lambda>(d, cr). let (r, d') = add_proxmox_server url verify pem fp d in (r, (d', cr))))
       else if server_id \<noteq> [] \<and> get_proxmox_server server_id (wb_config w) \<noteq> None
       then w_bind (w_config (update_proxmox_server server_id (or_none url) (Some verify) (or_none pem) (or_none fp)))
              (\<lambda>_. w_return server_id)
       else w_bind (w_both (save_proxmox_config c url pem fp verify)) (\<lambda>_. w_return []))"

subsection \<open>The steps of the page\<close>

definition resource_json :: "px_resource \<Rightarrow> json" where
  "resource_json r = JObj [(''type'', JStr (px_type r)), (''node'', px_node r), (''vmid'', px_vmid r), (''name'', px_name r),
     (''status'', px_status r), (''ip'', JStr (px_ip r))]"

definition of_type :: "string \<Rightarrow> json \<Rightarrow> bool" where
  "of_type t r \<longleftrightarrow> json_item r ''type'' = Some (JStr t)"

definition section_page :: "entry \<Rightarrow> web_response" where
  "section_page ctx = page ''partials/setup_proxmox_section.html'' ctx"

definition proxmox_done_step :: "string \<Rightarrow> string option \<Rightarrow> ('b web, web_response) web_steps" where
  "proxmox_done_step server_id summary =
     w_state (\<lambda>w. w_return (section_page
       [(''proxmox_connected'', JBool True), (''proxmox_step'', JStr ''done''), (''proxmox_server_id'', JStr server_id),
        (''proxmox_servers'', JList (wizard_proxmox_servers (wb_config w))), (''proxmox_added_summary'', text_or_null summary)]))"

definition proxmox_vm_step :: "json list \<Rightarrow> string \<Rightarrow> ('b web, web_response) web_steps" where
  "proxmox_vm_step resources server_id =
     (if filter (of_type ''qemu'') resources \<noteq> []
      then w_return (section_page
        [(''proxmox_connected'', JBool True), (''proxmox_step'', JStr ''vms''), (''proxmox_resources'', JList resources),
         (''proxmox_server_id'', JStr server_id)])
      else proxmox_done_step server_id None)"

definition proxmox_lxc_step :: "string list \<Rightarrow> json list \<Rightarrow> string \<Rightarrow> ('b web, web_response) web_steps" where
  "proxmox_lxc_step keys resources server_id =
     (if filter (of_type ''lxc'') resources \<noteq> []
      then w_return (section_page
        [(''proxmox_connected'', JBool True), (''proxmox_step'', JStr ''lxcs''), (''proxmox_resources'', JList resources),
         (''proxmox_server_id'', JStr server_id), (''available_keys'', JList (map JStr keys))])
      else proxmox_vm_step resources server_id)"

definition proxmox_docker_step :: "json list \<Rightarrow> string \<Rightarrow> ('b web, web_response) web_steps" where
  "proxmox_docker_step lxcs server_id =
     w_bind (w_session (dict_set ''setup_proxmox_docker_lxcs'' (JList lxcs))) (\<lambda>_.
       w_return (section_page
         [(''proxmox_connected'', JBool True), (''proxmox_step'', JStr ''docker''), (''proxmox_lxcs'', JList lxcs),
          (''proxmox_server_id'', JStr server_id)]))"

subsection \<open>Nodes and guests become hosts\<close>

definition w_add_host ::
  "string \<Rightarrow> string \<Rightarrow> string option \<Rightarrow> int option \<Rightarrow> string option \<Rightarrow> string option \<Rightarrow> string option \<Rightarrow> int option
     \<Rightarrow> string option \<Rightarrow> ('b web, string) web_steps" where
  "w_add_host name hst user port key_path docker_mode node vmid server w =
     (let (slug, d) = add_host name hst user port key_path docker_mode node vmid None server (wb_config w)
      in (Inr slug, w\<lparr>wb_config := d\<rparr>))"

definition known_addresses :: "disk \<Rightarrow> string list res" where
  "known_addresses d =
     collect (\<lambda>(s, h). case h_host h of Some a \<Rightarrow> Inr [a] | None \<Rightarrow> raise ''KeyError'' (py_repr ''host'')) (get_hosts d)"

fun add_nodes :: "string \<Rightarrow> string \<Rightarrow> json list \<Rightarrow> string list \<Rightarrow> ('b web, unit) web_steps" where
  "add_nodes server_id addr [] known = w_return ()"
| "add_nodes server_id addr (n # ns) known =
     (if addr \<noteq> [] \<and> addr \<notin> set known
      then w_bind (w_add_host (''Proxmox VE ('' @ json_text n @ '')'') addr None None None None (Some (json_text n)) None
             (or_none server_id)) (\<lambda>_. add_nodes server_id addr ns (addr # known))
      else add_nodes server_id addr ns known)"

definition add_found_nodes :: "string \<Rightarrow> string \<Rightarrow> json list \<Rightarrow> ('b web, unit) web_steps" where
  "add_found_nodes server_id url nodes =
     w_bind (w_lift (url_hostname url)) (\<lambda>addr.
       w_state (\<lambda>w. w_bind (w_lift (known_addresses (wb_config w))) (\<lambda>known.
         w_bind (add_nodes server_id (get_or addr []) nodes known) (\<lambda>_.
           w_session (\<lambda>s. dict_set ''setup_integration_pending''
             (JList (filter (not_integration ''proxmox'') (session_list s ''setup_integration_pending''))) s)))))"

definition found_on_server :: "wizard_net \<Rightarrow> px_client \<Rightarrow> (json list \<times> json list) res" where
  "found_on_server net client =
     res_bind (get_nodes (wn_px net client)) (\<lambda>nodes.
       Inr (nodes, map resource_json (discover_resources (wn_px net client))))"

definition keep_resources :: "json list \<Rightarrow> ('b web, unit) web_steps" where
  "keep_resources rs = w_session (dict_set ''setup_proxmox_resources'' (JList rs))"

text \<open>A block under \<open>try: ... except Exception: pass\<close>.\<close>

definition w_try :: "('b web, unit) web_steps \<Rightarrow> ('b web, unit) web_steps" where
  "w_try m w = (Inr (), snd (m w))"

subsection \<open>The requests\<close>

definition server_client :: "string \<Rightarrow> string \<Rightarrow> service \<Rightarrow> px_client" where
  "server_client url token cfg =
     \<lparr>pc_base = rstrip_char CHR ''/'' url, pc_token = token, pc_pem = get_or (sv_pem cfg) [], pc_verify = get_or (sv_verify cfg) True\<rparr>"

text \<open>The discovery that follows a save; the nodes it adds are left when a later step fails.\<close>

definition discover_after_save :: "'b wizard_env \<Rightarrow> string \<Rightarrow> string \<Rightarrow> string \<Rightarrow> ('b web, json list) web_steps" where
  "discover_after_save env server_id url token =
     w_state (\<lambda>w. case found_on_server (wz_net env) (server_client url token (proxmox_cfg_for server_id (wb_config w))) of
         Inl e \<Rightarrow> w_return []
       | Inr (nodes, rs) \<Rightarrow>
           w_bind (keep_resources rs) (\<lambda>_. w_bind (w_try (add_found_nodes server_id url nodes)) (\<lambda>_. w_return rs)))"

definition proxmox_cred_fields :: "string \<Rightarrow> string \<Rightarrow> (string \<times> json option) list" where
  "proxmox_cred_fields token_id secret =
     (if token_id \<noteq> [] then [text_field ''token_id'' token_id, text_field ''api_user'' (derive_api_user token_id)] else [])
     @ (if secret \<noteq> [] then [text_field ''secret'' secret] else [])"

record proxmox_form =
  pf_url :: string
  pf_token :: string
  pf_secret :: string
  pf_skip :: string
  pf_server :: string
  pf_user :: string
  pf_auth :: string
  pf_key :: string
  pf_password :: string

definition setup_save_proxmox :: "'b wizard_env \<Rightarrow> proxmox_form \<Rightarrow> 'b web handler" where
  "setup_save_proxmox env f rq =
     (let url = clean_url (pf_url f); token_id = py_strip (pf_token f); secret = py_strip (pf_secret f);
          fields = proxmox_cred_fields token_id secret
            @ proxmox_ssh_cred_kwargs (pf_user f) (pf_auth f) (pf_key f) (pf_password f) in
      w_bind (take_confirmed ''proxmox'') (\<lambda>(pem, fp).
        w_bind (persist_proxmox_server (wz_crypto env) (pf_server f) url pem fp (pf_skip f \<noteq> ''1'')) (\<lambda>server_id.
          w_bind (if fields \<noteq> [] then w_save_integration (wz_web env) (server_key server_id) fields else w_return ()) (\<lambda>_.
            w_bind (queue_integration_host ''proxmox'' ''Proxmox VE'' url) (\<lambda>_.
              w_bind (if url \<noteq> [] \<and> token_id \<noteq> [] \<and> secret \<noteq> []
                      then discover_after_save env server_id url
                             (assemble_token [(''token_id'', JStr token_id), (''secret'', JStr secret)])
                      else w_return []) (\<lambda>resources.
                proxmox_lxc_step (wz_keys env) resources server_id))))))"

definition setup_proxmox_add_another :: "'b wizard_env \<Rightarrow> 'b web handler" where
  "setup_proxmox_add_another env rq =
     w_bind (w_both (migrate_proxmox_servers (wz_crypto env))) (\<lambda>_. w_state (\<lambda>w.
       w_return (section_page
         [(''proxmox_connected'', JBool False), (''proxmox_step'', JStr []), (''proxmox_server_id'', JStr NEW_SERVER),
          (''proxmox_servers'', JList (wizard_proxmox_servers (wb_config w)))])))"

definition w_except :: "(exn \<Rightarrow> 'a) \<Rightarrow> ('w, 'a) web_steps \<Rightarrow> ('w, 'a) web_steps" where
  "w_except f m w = (case m w of (Inl e, w1) \<Rightarrow> (Inr (f e), w1) | (Inr x, w1) \<Rightarrow> (Inr x, w1))"

definition red_text :: "string \<Rightarrow> web_response" where
  "red_text s = html 200 (''<p class='' @ [DQUOTE] @ ''text-sm text-red-400'' @ [DQUOTE] @ ''>'' @ s @ ''</p>'')"

definition setup_proxmox_discover :: "'b wizard_env \<Rightarrow> string \<Rightarrow> 'b web handler" where
  "setup_proxmox_discover env server_id rq =
     w_bind (setup_proxmox_client_parts env server_id) (\<lambda>(url, token, pem).
       if url = [] \<or> token = [] then w_return (red_text ''Proxmox not configured.'')
       else w_except (\<lambda>e. red_text (''Discovery failed: '' @ exn_str e)) (w_state (\<lambda>w.
         w_bind (w_lift (found_on_server (wz_net env)
             (server_client url token ((proxmox_cfg_for server_id (wb_config w))\<lparr>sv_pem := Some pem\<rparr>)))) (\<lambda>(nodes, rs).
           w_bind (keep_resources rs) (\<lambda>_. w_bind (add_found_nodes server_id url nodes) (\<lambda>_.
             proxmox_lxc_step (wz_keys env) rs server_id))))))"

definition small_message :: "string \<Rightarrow> string \<Rightarrow> web_response" where
  "small_message colour s = html 200 (''<span class='' @ [DQUOTE] @ ''text-'' @ colour @ ''-400 text-xs'' @ [DQUOTE] @ ''>'' @ s @ ''</span>'')"

definition setup_proxmox_test_ssh :: "'b wizard_env \<Rightarrow> string \<Rightarrow> string \<Rightarrow> string \<Rightarrow> string \<Rightarrow> string \<Rightarrow> 'b web handler" where
  "setup_proxmox_test_ssh env user0 auth key0 password0 server_id rq =
     w_state (\<lambda>w. w_bind (w_lift (url_hostname (get_or (sv_url (proxmox_cfg_for server_id (wb_config w))) []))) (\<lambda>addr.
       let host = get_or addr []; user = or_s (Some (py_strip user0)) ''root'';
           key_path = (if auth = ''key'' \<and> py_strip key0 \<noteq> [] then Some (''/app/keys/'' @ py_strip key0) else None);
           password = (if auth = ''password'' then py_strip password0 else []) in
       w_return
        (if host = [] then small_message ''red'' ''Proxmox not configured.''
         else if auth = ''key'' \<and> key_path = None then small_message ''amber'' ''Select a key file first.''
         else if auth = ''password'' \<and> password = [] then small_message ''amber'' ''Enter a password first.''
         else (case fst (verify_connection (wz_dial env) (wz_remote env)
                 \<lparr>sh_name = Some ''Proxmox VE'', sh_host = host, sh_user = Some user, sh_port = None, sh_key = key_path, sh_slug = None\<rparr>
                 \<lparr>sx_password = or_none password, sx_key = None, sx_key_path = None, sx_sudo = None\<rparr>) of
                 (True, _) \<Rightarrow> html 200 (''<span class='' @ [DQUOTE] @ ''text-green-400 text-xs'' @ [DQUOTE] @ ''>&#10003; Connected to ''
                   @ host @ ''</span><script>proxmoxSshTestPassed();</script>'')
               | (False, msg) \<Rightarrow> small_message ''red'' (''&#10007; '' @ msg)))))"

subsection \<open>The guests that were chosen\<close>

text \<open>\<open>s.split(sep, n)\<close>.\<close>

fun split_max :: "nat \<Rightarrow> string \<Rightarrow> string \<Rightarrow> string list" where
  "split_max 0 sep s = [s]"
| "split_max (Suc n) sep s = (case split_once sep s of None \<Rightarrow> [s] | Some (a, b) \<Rightarrow> a # split_max n sep b)"

definition all_digits :: "string \<Rightarrow> bool" where
  "all_digits s \<longleftrightarrow> s \<noteq> [] \<and> list_all is_digit s"

definition chosen_lxc :: "string \<Rightarrow> (string \<times> int \<times> string \<times> string) option" where
  "chosen_lxc entry =
     (case split_max 3 '':'' entry of
        node # vmid # name # more_parts \<Rightarrow>
          (case (more_parts, if all_digits vmid then py_int vmid else None) of
             (ip # _, Some v) \<Rightarrow> if ip = [] then None else Some (node, v, name, ip)
           | _ \<Rightarrow> None)
      | _ \<Rightarrow> None)"

fun add_lxcs :: "string \<Rightarrow> string list \<Rightarrow> string list \<Rightarrow> json list \<Rightarrow> ('b web, json list) web_steps" where
  "add_lxcs server_id [] known added = w_return added"
| "add_lxcs server_id (e # es) known added =
     (case chosen_lxc e of
        None \<Rightarrow> add_lxcs server_id es known added
      | Some (node, vmid, name, ip) \<Rightarrow>
          if ip \<in> set known then add_lxcs server_id es known added
          else w_bind (w_add_host name ip None None None (Some ''all'') (Some node) (Some vmid) (or_none server_id)) (\<lambda>_.
            add_lxcs server_id es (ip # known) (added @ [JObj [(''name'', JStr name), (''slug'', JStr (slugify name))]])))"

definition lxc_ssh_fields :: "string \<Rightarrow> string \<Rightarrow> string \<Rightarrow> string \<Rightarrow> (string \<times> json option) list" where
  "lxc_ssh_fields user0 auth key0 password0 =
     (let user = or_s (Some (py_strip user0)) ''root''; key = (if auth = ''key'' then py_strip key0 else []);
          password = (if auth = ''password'' then py_strip password0 else []) in
      [text_field ''ssh_user'' user]
      @ (if key \<noteq> [] then [text_field ''ssh_key'' key, (''ssh_password'', None)] else [])
      @ (if password \<noteq> [] then [text_field ''ssh_password'' password, (''ssh_key'', None)] else []))"

definition setup_proxmox_save_lxcs ::
  "'b wizard_env \<Rightarrow> string list \<Rightarrow> string \<Rightarrow> string \<Rightarrow> string \<Rightarrow> string \<Rightarrow> string \<Rightarrow> 'b web handler" where
  "setup_proxmox_save_lxcs env selected user0 auth key0 password0 server_id rq =
     w_bind (w_save_integration (wz_web env) (server_key server_id) (lxc_ssh_fields user0 auth key0 password0)) (\<lambda>_.
       w_state (\<lambda>w. w_bind (w_lift (known_addresses (wb_config w))) (\<lambda>known.
         w_bind (add_lxcs server_id selected known []) (\<lambda>added. w_state (\<lambda>w1.
           let resources = session_list (wb_session w1) ''setup_proxmox_resources'' in
           if added \<noteq> [] then proxmox_docker_step added server_id else proxmox_vm_step resources server_id)))))"

definition setup_proxmox_skip_lxcs :: "string \<Rightarrow> 'b web handler" where
  "setup_proxmox_skip_lxcs server_id rq =
     w_state (\<lambda>w. proxmox_vm_step (session_list (wb_session w) ''setup_proxmox_resources'') server_id)"

definition setup_proxmox_skip_docker :: "string \<Rightarrow> 'b web handler" where
  "setup_proxmox_skip_docker server_id rq =
     w_state (\<lambda>w. proxmox_vm_step (session_list (wb_session w) ''setup_proxmox_resources'') server_id)"

definition setup_proxmox_skip_vms :: "string \<Rightarrow> 'b web handler" where
  "setup_proxmox_skip_vms server_id rq = proxmox_done_step server_id None"

definition lxc_slug :: "json \<Rightarrow> string" where
  "lxc_slug j = (case json_get j ''slug'' of Some (JStr s) \<Rightarrow> s | _ \<Rightarrow> [])"

definition unmonitored :: "string list \<Rightarrow> json list \<Rightarrow> disk \<Rightarrow> disk" where
  "unmonitored checked lxcs d =
     fold (\<lambda>l d. if lxc_slug l \<in> set checked then d else set_docker_monitoring (lxc_slug l) ''none'' None d) lxcs d"

definition setup_proxmox_save_docker :: "string list \<Rightarrow> string \<Rightarrow> 'b web handler" where
  "setup_proxmox_save_docker checked server_id rq =
     w_state (\<lambda>w. let lxcs = session_list (wb_session w) ''setup_proxmox_docker_lxcs'' in
       w_bind (w_config (unmonitored checked lxcs)) (\<lambda>_.
         proxmox_vm_step (session_list (wb_session w) ''setup_proxmox_resources'') server_id))"

definition chosen_vm :: "(string \<times> string) list \<Rightarrow> string \<Rightarrow> (string \<times> string \<times> string \<times> string) option" where
  "chosen_vm form entry =
     (case split_max 2 '':'' entry of
        [node, vmid, name] \<Rightarrow>
          (let ip = py_strip (get_or (dict_get form (''vm_ip_'' @ vmid)) []) in
           if ip = [] then None else Some (node, vmid, name, ip))
      | _ \<Rightarrow> None)"

fun add_vms :: "(string \<times> string) list \<Rightarrow> string list \<Rightarrow> string list \<Rightarrow> json list \<Rightarrow> ('b web, json list) web_steps" where
  "add_vms form [] known added = w_return added"
| "add_vms form (e # es) known added =
     (case chosen_vm form e of
        None \<Rightarrow> add_vms form es known added
      | Some (node, vmid, name, ip) \<Rightarrow>
          if ip \<in> set known then add_vms form es known added
          else w_bind (w_add_host name ip None None None None None None None) (\<lambda>_.
            add_vms form es (ip # known) (added @
              [JObj [(''node'', JStr node), (''vmid'', JStr vmid), (''name'', JStr name), (''ip'', JStr ip), (''type'', JStr ''qemu'')]])))"

definition CRUMB :: string where "CRUMB = [CHR 0xE2, CHR 0x80, CHR 0xBA]"

definition vms_summary :: "string \<Rightarrow> nat \<Rightarrow> string" where
  "vms_summary action n =
     show_nat n @ '' VM'' @ (if n \<noteq> 1 then ''s'' else []) @ '' added '' @ DASH @ '' ''
     @ (if action = ''now'' then ''continue to set up logins'' else ''finish login setup from Admin '' @ CRUMB @ '' Hosts'')"

definition setup_proxmox_save_vms :: "(string \<times> string) list \<Rightarrow> string list \<Rightarrow> string \<Rightarrow> string \<Rightarrow> 'b web handler" where
  "setup_proxmox_save_vms form selected action server_id rq =
     w_state (\<lambda>w. w_bind (w_lift (known_addresses (wb_config w))) (\<lambda>known.
       w_bind (add_vms form selected known []) (\<lambda>added.
         w_bind (if action = ''now'' \<and> added \<noteq> []
                 then w_session (\<lambda>s. dict_set ''setup_proxmox_pending'' (JList (session_list s ''setup_proxmox_pending'' @ added)) s)
                 else w_return ()) (\<lambda>_.
           proxmox_done_step server_id (if added \<noteq> [] then Some (vms_summary action (length added)) else None)))))"

subsection \<open>What a computation leaves alone\<close>

text \<open>\<open>w_keeps P m\<close>: whatever \<open>m\<close> answers, it preserves \<open>P\<close>.\<close>

definition w_keeps :: "('w \<Rightarrow> bool) \<Rightarrow> ('w, 'a) web_steps \<Rightarrow> bool" where
  "w_keeps P m \<longleftrightarrow> (\<forall>w. P w \<longrightarrow> P (snd (m w)))"

lemma keepsD: "w_keeps P m \<Longrightarrow> P w \<Longrightarrow> P (snd (m w))"
  by (simp add: w_keeps_def)

named_theorems w_keep

lemma keeps_return [w_keep]: "w_keeps P (w_return x)"
  and keeps_lift [w_keep]: "w_keeps P (w_lift r)"
  by (simp_all add: w_keeps_def w_return_def w_lift_def)

lemma keeps_bind [w_keep]: "w_keeps P m \<Longrightarrow> (\<And>x. w_keeps P (k x)) \<Longrightarrow> w_keeps P (w_bind m k)"
  by (force simp: w_keeps_def w_bind_def split: sum.splits prod.splits)

lemma keeps_state [w_keep]: "(\<And>w. w_keeps P (f w)) \<Longrightarrow> w_keeps P (w_state f)"
  by (simp add: w_keeps_def w_state_def)

lemma keeps_if [w_keep]: "w_keeps P m \<Longrightarrow> w_keeps P n \<Longrightarrow> w_keeps P (if b then m else n)" by simp

lemma keeps_res [w_keep]: "(\<And>e. w_keeps P (f e)) \<Longrightarrow> (\<And>x. w_keeps P (g x)) \<Longrightarrow> w_keeps P (case r of Inl e \<Rightarrow> f e | Inr x \<Rightarrow> g x)"
  by (simp split: sum.splits)

lemma keeps_pair [w_keep]: "(\<And>a b. w_keeps P (f a b)) \<Longrightarrow> w_keeps P (case p of (a, b) \<Rightarrow> f a b)"
  by (simp split: prod.splits)

lemma keeps_try [w_keep]: "w_keeps P m \<Longrightarrow> w_keeps P (w_try m)"
  by (simp add: w_keeps_def w_try_def)

lemma keeps_except [w_keep]: "w_keeps P m \<Longrightarrow> w_keeps P (w_except f m)"
  by (force simp: w_keeps_def w_except_def split: sum.splits prod.splits)

text \<open>What speaks of the configuration only is kept by sessions and credentials.\<close>

lemma keeps_session [w_keep]: "w_keeps (\<lambda>w. Q (wb_config w)) (w_session f)"
  and keeps_creds [w_keep]: "w_keeps (\<lambda>w. Q (wb_config w)) (w_creds g)"
  and keeps_integration [w_keep]: "w_keeps (\<lambda>w. Q (wb_config w)) (w_integration env key)"
  and keeps_confirmed [w_keep]: "w_keeps (\<lambda>w. Q (wb_config w)) (take_confirmed key)"
  by (simp_all add: w_keeps_def w_session_def w_creds_def w_integration_def take_confirmed_def case_prod_beta Let_def)

lemma keeps_save_integration [w_keep]: "w_keeps (\<lambda>w. Q (wb_config w)) (w_save_integration env key fs)"
  unfolding w_save_integration_def by (rule keeps_creds)

lemma keeps_config: "(\<And>d. Q d \<Longrightarrow> Q (f d)) \<Longrightarrow> w_keeps (\<lambda>w. Q (wb_config w)) (w_config f)"
  by (simp add: w_keeps_def w_config_def)

lemma keeps_queue [w_keep]: "w_keeps (\<lambda>w. Q (wb_config w)) (queue_integration_host key name url)"
  unfolding queue_integration_host_def by (intro w_keep)

lemma keeps_done [w_keep]: "w_keeps P (proxmox_done_step sid summary)"
  unfolding proxmox_done_step_def by (intro w_keep)

lemma keeps_vm_step [w_keep]: "w_keeps P (proxmox_vm_step rs sid)"
  unfolding proxmox_vm_step_def by (intro w_keep)

lemma keeps_lxc_step [w_keep]: "w_keeps P (proxmox_lxc_step keys rs sid)"
  unfolding proxmox_lxc_step_def by (intro w_keep)

lemma keeps_docker_step [w_keep]: "w_keeps (\<lambda>w. Q (wb_config w)) (proxmox_docker_step ls sid)"
  unfolding proxmox_docker_step_def by (intro w_keep)

lemma keeps_resources [w_keep]: "w_keeps (\<lambda>w. Q (wb_config w)) (keep_resources rs)"
  unfolding keep_resources_def by (intro w_keep)

subsection \<open>Servers are added beside each other\<close>

lemma keeps_add_host_servers [w_keep]:
  "w_keeps (\<lambda>w. Q (get_proxmox_servers (wb_config w))) (w_add_host name hst u p k dm node vmid sv)"
  by (simp add: w_keeps_def w_add_host_def add_host_def get_proxmox_servers_def Let_def)

lemma keeps_add_nodes_servers [w_keep]: "w_keeps (\<lambda>w. Q (get_proxmox_servers (wb_config w))) (add_nodes sid addr ns known)"
  by (induction ns arbitrary: known) (simp_all add: w_keep)

lemma keeps_found_nodes_servers [w_keep]: "w_keeps (\<lambda>w. Q (get_proxmox_servers (wb_config w))) (add_found_nodes sid url ns)"
  unfolding add_found_nodes_def
  by (intro w_keep keeps_session [where Q = "\<lambda>d. Q (get_proxmox_servers d)"])

lemma keeps_discovery_servers [w_keep]: "w_keeps (\<lambda>w. Q (get_proxmox_servers (wb_config w))) (discover_after_save env sid url token)"
  unfolding discover_after_save_def
  by (intro w_keep keeps_resources [where Q = "\<lambda>d. Q (get_proxmox_servers d)"])

text \<open>What follows the saving of a server.\<close>

definition after_persist :: "'b wizard_env \<Rightarrow> proxmox_form \<Rightarrow> string \<Rightarrow> ('b web, web_response) web_steps" where
  "after_persist env f server_id =
     (let url = clean_url (pf_url f); token_id = py_strip (pf_token f); secret = py_strip (pf_secret f);
          fields = proxmox_cred_fields token_id secret
            @ proxmox_ssh_cred_kwargs (pf_user f) (pf_auth f) (pf_key f) (pf_password f) in
      w_bind (if fields \<noteq> [] then w_save_integration (wz_web env) (server_key server_id) fields else w_return ()) (\<lambda>_.
        w_bind (queue_integration_host ''proxmox'' ''Proxmox VE'' url) (\<lambda>_.
          w_bind (if url \<noteq> [] \<and> token_id \<noteq> [] \<and> secret \<noteq> []
                  then discover_after_save env server_id url
                         (assemble_token [(''token_id'', JStr token_id), (''secret'', JStr secret)])
                  else w_return []) (\<lambda>resources.
            proxmox_lxc_step (wz_keys env) resources server_id))))"

definition confirmed_pair :: "'b web \<Rightarrow> string \<Rightarrow> string \<times> string" where
  "confirmed_pair w key =
     (let c = (case dict_get (wb_session w) (confirmed_key key) of Some (JObj o1) \<Rightarrow> o1 | _ \<Rightarrow> []) in (str_field c ''pem'', str_field c ''fingerprint''))"

definition without_confirmed :: "string \<Rightarrow> 'b web \<Rightarrow> 'b web" where
  "without_confirmed key w = w\<lparr>wb_session := dict_pop (confirmed_key key) (wb_session w)\<rparr>"

lemma take_confirmed_result: "take_confirmed key w = (Inr (confirmed_pair w key), without_confirmed key w)"
  by (simp add: take_confirmed_def confirmed_pair_def without_confirmed_def Let_def)

lemma without_confirmed_config [simp]: "wb_config (without_confirmed key w) = wb_config w"
  "wb_creds (without_confirmed key w) = wb_creds w"
  by (simp_all add: without_confirmed_def)

lemma save_proxmox_split:
  "setup_save_proxmox env f rq w =
     w_bind (persist_proxmox_server (wz_crypto env) (pf_server f) (clean_url (pf_url f)) (fst (confirmed_pair w ''proxmox''))
        (snd (confirmed_pair w ''proxmox'')) (pf_skip f \<noteq> ''1'')) (after_persist env f) (without_confirmed ''proxmox'' w)"
  unfolding setup_save_proxmox_def after_persist_def Let_def
  by (subst w_bind_def) (simp add: take_confirmed_result case_prod_beta)

lemma keeps_after_persist: "w_keeps (\<lambda>w. Q (get_proxmox_servers (wb_config w))) (after_persist env f sid)"
  unfolding after_persist_def Let_def
  by (intro w_keep keeps_save_integration [where Q = "\<lambda>d. Q (get_proxmox_servers d)"]
      keeps_queue [where Q = "\<lambda>d. Q (get_proxmox_servers d)"])

text \<open>The servers after a save are those that the writing of the server leaves.\<close>

lemma save_proxmox_servers:
  "get_proxmox_servers (wb_config (snd (setup_save_proxmox env f rq w))) =
     get_proxmox_servers (wb_config (snd (persist_proxmox_server (wz_crypto env) (pf_server f) (clean_url (pf_url f))
       (fst (confirmed_pair w ''proxmox'')) (snd (confirmed_pair w ''proxmox'')) (pf_skip f \<noteq> ''1'') (without_confirmed ''proxmox'' w))))"
proof -
  obtain r w1 where p: "persist_proxmox_server (wz_crypto env) (pf_server f) (clean_url (pf_url f))
       (fst (confirmed_pair w ''proxmox'')) (snd (confirmed_pair w ''proxmox'')) (pf_skip f \<noteq> ''1'') (without_confirmed ''proxmox'' w) = (r, w1)"
    by fastforce
  have "get_proxmox_servers (wb_config (snd (after_persist env f sid w1))) = get_proxmox_servers (wb_config w1)" for sid
    by (rule keepsD [OF keeps_after_persist [where Q = "\<lambda>ss. ss = get_proxmox_servers (wb_config w1)"]]) simp
  then show ?thesis by (cases r) (simp_all add: save_proxmox_split w_bind_def p)
qed

definition saved_server :: "proxmox_form \<Rightarrow> string \<times> string \<Rightarrow> string \<Rightarrow> server" where
  "saved_server f pin sid =
     \<lparr>srv_id = sid, srv_block = \<lparr>sv_url = Some (clean_url (pf_url f)), sv_verify = Some (pf_skip f \<noteq> ''1''),
        sv_pem = or_none (fst pin), sv_fp = (if fst pin \<noteq> [] then Some (snd pin) else None)\<rparr>\<rparr>"

lemma clean_url_rstrip: "rstrip_char CHR ''/'' (clean_url u) = clean_url u"
  by (simp add: clean_url_def rstrip_char_def)

lemma blank_card_servers:
  assumes "pf_server f = NEW_SERVER" and "clean_url (pf_url f) \<noteq> []" and "slugify_server_id (clean_url (pf_url f)) = Inr base"
  shows "get_proxmox_servers (wb_config (snd (setup_save_proxmox env f rq w))) = get_proxmox_servers (wb_config w)
    @ [saved_server f (confirmed_pair w ''proxmox'') (unique_server_id base (map srv_id (get_proxmox_servers (wb_config w))))]"
  unfolding save_proxmox_servers using assms
  by (simp add: persist_proxmox_server_def w_state_def w_both_def add_proxmox_server_def get_proxmox_servers_def
      saved_server_def clean_url_rstrip or_none_def Let_def)

text \<open>The blank card adds one server after the ones that are there, leaves those as they are, gives the new one an id
  that none of them has and pins the certificate that was accepted for it, if any.\<close>
theorem blank_card_appends_server:
  assumes "pf_server f = NEW_SERVER" and "clean_url (pf_url f) \<noteq> []" and "url_hostname (clean_url (pf_url f)) = Inr h"
  shows "\<exists>sid. get_proxmox_servers (wb_config (snd (setup_save_proxmox env f rq w)))
      = get_proxmox_servers (wb_config w) @ [saved_server f (confirmed_pair w ''proxmox'') sid]
    \<and> sid \<notin> set (map srv_id (get_proxmox_servers (wb_config w)))"
proof -
  obtain base where base: "slugify_server_id (clean_url (pf_url f)) = Inr base" using assms(3) by (simp add: slugify_server_id_def Let_def)
  show ?thesis using blank_card_servers [OF assms(1,2) base] unique_server_id_new by blast
qed

lemma migrate_legacy:
  assumes "c_proxmox (load_config d) = Some legacy" and "service_truthy (Some legacy)" and "servers_of (load_config d) = []"
    and "migrate_proxmox_servers c (d, cr) = (Inr sid, (d', cr'))"
  shows "\<exists>first. get_proxmox_servers d' = [first] \<and> srv_id first = sid \<and> sv_url (srv_block first) = Some (get_or (sv_url legacy) [])
    \<and> c_proxmox (load_config d') = None
    \<and> (\<forall>(s, h) \<in> set (get_hosts d'). truthy_s (h_proxmox_node h) \<longrightarrow> h_proxmox_server h = Some sid)"
proof -
  let ?url = "get_or (sv_url legacy) []"
  let ?stamp = "\<lambda>sid h. if truthy_s (h_proxmox_node h) then h\<lparr>h_proxmox_server := Some sid\<rparr> else h"
  let ?first = "\<lambda>sid. \<lparr>srv_id = sid, srv_block = \<lparr>sv_url = Some ?url, sv_verify = Some (get_or (sv_verify legacy) True),
      sv_pem = nonempty (sv_pem legacy), sv_fp = (if truthy_s (sv_pem legacy) then Some (get_or (sv_fp legacy) []) else None)\<rparr>\<rparr>"
  obtain s0 where s0: "slugify_server_id ?url = Inr s0"
    using assms by (cases "slugify_server_id ?url") (simp_all add: migrate_proxmox_servers_def)
  obtain r cr1 where ren: "rename_integration_credentials c ''proxmox'' (''proxmox_'' @ s0) cr = (r, cr1)" by fastforce
  define d2 where "d2 = save_config ((load_config d)\<lparr>c_proxmox_servers := Some [?first s0],
        c_hosts := map_option (map (?stamp s0)) (c_hosts (load_config d)), c_proxmox := None\<rparr>) d"
  have "migrate_proxmox_servers c (d, cr) = (case r of Inl e \<Rightarrow> (Inl e, (d2, cr1)) | Inr _ \<Rightarrow> (Inr s0, (d2, cr1)))"
    unfolding d2_def migrate_proxmox_servers_def Let_def prod.case using assms(1-3) s0 ren by (cases r) simp_all
  then have sid: "s0 = sid" and d': "d' = d2" using assms(4) by (cases r; simp)+
  have "truthy_s (h_proxmox_node h) \<longrightarrow> h_proxmox_server h = Some sid"
    if "(s, h) \<in> set (get_hosts d')" for s h
    using that by (auto simp: d' d2_def sid get_hosts_def get_or_def split: option.splits if_splits)
  then show ?thesis by (auto simp: d' d2_def sid get_proxmox_servers_def get_or_def)
qed

text \<open>Adding another server never loses the first: a server that the wizard saved in the old single block becomes an entry
  of its own, its hosts refer to it, and the server of the blank card comes after it under another id.\<close>
theorem add_another_keeps_first:
  assumes "c_proxmox (load_config (wb_config w)) = Some legacy" and "service_truthy (Some legacy)"
    and "servers_of (load_config (wb_config w)) = []" and "setup_proxmox_add_another env rq w = (Inr a, w1)"
    and "pf_server f = NEW_SERVER" and "clean_url (pf_url f) \<noteq> []" and "url_hostname (clean_url (pf_url f)) = Inr h"
  shows "\<exists>first second. get_proxmox_servers (wb_config (snd (setup_save_proxmox env f rq' w1))) = [first, second]
    \<and> srv_id first \<noteq> srv_id second \<and> sv_url (srv_block first) = Some (get_or (sv_url legacy) [])
    \<and> sv_url (srv_block second) = Some (clean_url (pf_url f))
    \<and> (\<forall>(s, h) \<in> set (get_hosts (wb_config w1)). truthy_s (h_proxmox_node h) \<longrightarrow> h_proxmox_server h = Some (srv_id first))"
proof -
  obtain r d' cr' where m: "migrate_proxmox_servers (wz_crypto env) (wb_config w, wb_creds w) = (r, (d', cr'))" using prod_cases3 by blast
  then obtain sid where r: "r = Inr sid" and w1: "w1 = w\<lparr>wb_config := d', wb_creds := cr'\<rparr>"
    using assms(4) by (cases r) (auto simp: setup_proxmox_add_another_def w_bind_def w_both_def w_state_def w_return_def)
  obtain first where first: "get_proxmox_servers d' = [first]" "srv_id first = sid" "sv_url (srv_block first) = Some (get_or (sv_url legacy) [])"
    "\<forall>(s, h) \<in> set (get_hosts d'). truthy_s (h_proxmox_node h) \<longrightarrow> h_proxmox_server h = Some sid"
    using migrate_legacy [OF assms(1-3) m [unfolded r]] by blast
  obtain base where base: "slugify_server_id (clean_url (pf_url f)) = Inr base" using assms(7) by (simp add: slugify_server_id_def Let_def)
  let ?sid2 = "unique_server_id base (map srv_id (get_proxmox_servers (wb_config w1)))"
  have second: "get_proxmox_servers (wb_config (snd (setup_save_proxmox env f rq' w1)))
      = get_proxmox_servers (wb_config w1) @ [saved_server f (confirmed_pair w1 ''proxmox'') ?sid2]"
    using blank_card_servers [OF assms(5,6) base] .
  have "?sid2 \<noteq> sid" using unique_server_id_new [of base "map srv_id (get_proxmox_servers (wb_config w1))"] first(1,2) w1 by auto
  then show ?thesis using first second w1 by (auto simp: saved_server_def)
qed

subsection \<open>A pinned certificate stays, and the chosen login is the one used\<close>

lemma find_update_first: "(\<And>x. P (f x) = P x) \<Longrightarrow> find P (update_first P f xs) = map_option f (find P xs)"
  by (induction xs) auto

lemma persist_known:
  assumes "sid \<noteq> NEW_SERVER" and "sid \<noteq> []" and "get_proxmox_server sid (wb_config w) = Some s"
  shows "persist_proxmox_server c sid url pem fp verify w =
    (Inr sid, w\<lparr>wb_config := update_proxmox_server sid (or_none url) (Some verify) (or_none pem) (or_none fp) (wb_config w)\<rparr>)"
  using assms by (simp add: persist_proxmox_server_def w_state_def w_bind_def w_config_def w_return_def)

lemma update_known:
  assumes "get_proxmox_server sid d = Some s"
  shows "get_proxmox_server sid (update_proxmox_server sid url verify pem fp d) = Some (updated_server url verify pem fp s)"
proof -
  have "sid \<in> set (map srv_id (servers_of (load_config d)))"
    using assms by (auto simp: get_proxmox_server_def get_proxmox_servers_def find_Some_iff)
  then show ?thesis using assms
    by (simp add: update_proxmox_server_def get_proxmox_server_def get_proxmox_servers_def get_or_def find_update_first split: option.splits)
qed

text \<open>Saving the card of a known server pins the certificate that was accepted since, and without one leaves the
  pinned certificate as it is, whatever else the card changes.\<close>
theorem saving_a_card_keeps_its_pin:
  assumes "pf_server f \<noteq> NEW_SERVER" and "pf_server f \<noteq> []" and "get_proxmox_server (pf_server f) (wb_config w) = Some s"
  shows "\<exists>s'. get_proxmox_server (pf_server f) (wb_config (snd (setup_save_proxmox env f rq w))) = Some s'
    \<and> sv_pem (srv_block s') = (if fst (confirmed_pair w ''proxmox'') \<noteq> [] then Some (fst (confirmed_pair w ''proxmox'')) else sv_pem (srv_block s))"
proof -
  let ?url = "clean_url (pf_url f)" and ?pem = "fst (confirmed_pair w ''proxmox'')" and ?fp = "snd (confirmed_pair w ''proxmox'')"
    and ?verify = "pf_skip f \<noteq> ''1''"
  let ?s = "updated_server (or_none ?url) (Some ?verify) (or_none ?pem) (or_none ?fp) s"
  have "get_proxmox_servers (wb_config (snd (setup_save_proxmox env f rq w)))
      = get_proxmox_servers (update_proxmox_server (pf_server f) (or_none ?url) (Some ?verify) (or_none ?pem) (or_none ?fp) (wb_config w))"
    unfolding save_proxmox_servers using assms by (simp add: persist_known)
  then have "get_proxmox_server (pf_server f) (wb_config (snd (setup_save_proxmox env f rq w))) = Some ?s"
    using update_known [OF assms(3)] by (simp add: get_proxmox_server_def)
  moreover have "sv_pem (srv_block ?s) = (if ?pem \<noteq> [] then Some ?pem else sv_pem (srv_block s))"
    by (simp add: updated_server_def or_none_def or_old_def)
  ultimately show ?thesis by blast
qed

named_theorems w_keep_creds

lemma keeps_creds_basic [w_keep_creds]:
  "w_keeps (\<lambda>w. Q (wb_creds w)) (w_session g)" "w_keeps (\<lambda>w. Q (wb_creds w)) (w_config h)"
  "w_keeps (\<lambda>w. Q (wb_creds w)) (w_add_host name hst u p k dm node vmid sv)"
  by (simp_all add: w_keeps_def w_session_def w_config_def w_add_host_def case_prod_beta Let_def)

lemma keeps_creds_add_nodes [w_keep_creds]: "w_keeps (\<lambda>w. Q (wb_creds w)) (add_nodes sid addr ns known)"
  by (induction ns arbitrary: known) (simp_all add: keeps_return keeps_bind w_keep_creds)

lemma keeps_creds_discovery [w_keep_creds]: "w_keeps (\<lambda>w. Q (wb_creds w)) (discover_after_save env sid url token)"
  unfolding discover_after_save_def add_found_nodes_def keep_resources_def
  by (intro keeps_state keeps_res keeps_pair keeps_bind keeps_try keeps_return keeps_lift w_keep_creds)

lemma keeps_creds_queue [w_keep_creds]: "w_keeps (\<lambda>w. Q (wb_creds w)) (queue_integration_host key name url)"
  unfolding queue_integration_host_def by (intro keeps_bind keeps_lift w_keep_creds)

definition after_credentials :: "'b wizard_env \<Rightarrow> proxmox_form \<Rightarrow> string \<Rightarrow> ('b web, web_response) web_steps" where
  "after_credentials env f server_id =
     (let url = clean_url (pf_url f); token_id = py_strip (pf_token f); secret = py_strip (pf_secret f) in
        w_bind (queue_integration_host ''proxmox'' ''Proxmox VE'' url) (\<lambda>_.
          w_bind (if url \<noteq> [] \<and> token_id \<noteq> [] \<and> secret \<noteq> []
                  then discover_after_save env server_id url
                         (assemble_token [(''token_id'', JStr token_id), (''secret'', JStr secret)])
                  else w_return []) (\<lambda>resources.
            proxmox_lxc_step (wz_keys env) resources server_id)))"

lemma keeps_after_credentials: "w_keeps (\<lambda>w. Q (wb_creds w)) (after_credentials env f sid)"
  unfolding after_credentials_def Let_def
  by (intro keeps_bind keeps_if keeps_return keeps_lxc_step w_keep_creds)

definition card_fields :: "proxmox_form \<Rightarrow> (string \<times> json option) list" where
  "card_fields f = proxmox_cred_fields (py_strip (pf_token f)) (py_strip (pf_secret f))
     @ proxmox_ssh_cred_kwargs (pf_user f) (pf_auth f) (pf_key f) (pf_password f)"

lemma after_persist_fields:
  "card_fields f \<noteq> [] \<Longrightarrow> after_persist env f sid =
     w_bind (w_save_integration (wz_web env) (server_key sid) (card_fields f)) (\<lambda>_. after_credentials env f sid)"
  by (simp add: after_persist_def after_credentials_def card_fields_def Let_def)

lemma card_fields_last:
  "put_fields (card_fields f) e = put_fields (proxmox_ssh_cred_kwargs (pf_user f) (pf_auth f) (pf_key f) (pf_password f))
     (put_fields (proxmox_cred_fields (py_strip (pf_token f)) (py_strip (pf_secret f))) e)"
  by (simp add: card_fields_def put_fields_def)

definition server_login :: "'b crypto \<Rightarrow> host_env \<Rightarrow> string \<Rightarrow> 'b web \<Rightarrow> ssh_creds res" where
  "server_login c henv sid w = key_creds henv (fst (get_integration_credentials c (first_server_id (wb_config w)) (server_key sid) (wb_creds w)))"

lemma integration_after_save:
  assumes "ready c d" and "key \<noteq> ''proxmox''"
  shows "\<exists>d'. save_integration_credentials c key fs d = (Inr (), d')
    \<and> fst (get_integration_credentials c srv key d') = put_fields fs (get_or (dict_get (view c d) (integration_key key)) [])"
proof -
  obtain d' where d': "save_integration_credentials c key fs d = (Inr (), d')" "ready c d'"
      "view c d' = put_entry (integration_key key) fs (view c d)"
    using save_integration_ready [OF assms(1), of key fs] by blast
  then show ?thesis using get_integration_ready(1) [OF d'(2) assms(2)] by (simp add: put_entry_get)
qed

lemma ssh_choice_fields:
  assumes "auth = ''key'' \<and> py_strip key \<noteq> [] \<or> auth = ''password'' \<and> py_strip pw \<noteq> []"
  shows "key_creds henv (put_fields (proxmox_ssh_cred_kwargs user auth key pw) e) =
    (if auth = ''key''
     then res_bind (resolve_key_path (he_keys_dir henv) (he_resolve henv) (py_strip key))
            (\<lambda>p. Inr \<lparr>sx_password = Some [], sx_key = None, sx_key_path = Some p, sx_sudo = None\<rparr>)
     else Inr \<lparr>sx_password = Some (py_strip pw), sx_key = None, sx_key_path = None, sx_sudo = None\<rparr>)"
  using assms
  by (auto simp: key_creds_def cred_str_def proxmox_ssh_cred_kwargs_def put_fields_def put_field_def text_field_def dict_simps Let_def)

text \<open>C16. The login method chosen on a server's card is the one that its guests and nodes are then reached with: a key file
  without a password, or the password without a key, whatever was stored before.\<close>
theorem chosen_login_used:
  assumes "ready (wz_crypto env) (wb_creds w)" and "pf_server f \<noteq> NEW_SERVER" and "pf_server f \<noteq> []"
    and "get_proxmox_server (pf_server f) (wb_config w) = Some s"
    and "pf_auth f = ''key'' \<and> py_strip (pf_key f) \<noteq> [] \<or> pf_auth f = ''password'' \<and> py_strip (pf_password f) \<noteq> []"
  shows "server_login (wz_crypto env) henv (pf_server f) (snd (setup_save_proxmox env f rq w)) =
    (if pf_auth f = ''key''
     then res_bind (resolve_key_path (he_keys_dir henv) (he_resolve henv) (py_strip (pf_key f)))
            (\<lambda>p. Inr \<lparr>sx_password = Some [], sx_key = None, sx_key_path = Some p, sx_sudo = None\<rparr>)
     else Inr \<lparr>sx_password = Some (py_strip (pf_password f)), sx_key = None, sx_key_path = None, sx_sudo = None\<rparr>)"
proof -
  let ?c = "wz_crypto env" and ?sid = "pf_server f" and ?pin = "confirmed_pair w ''proxmox''"
  let ?w1 = "(without_confirmed ''proxmox'' w)\<lparr>wb_config := update_proxmox_server ?sid (or_none (clean_url (pf_url f)))
      (Some (pf_skip f \<noteq> ''1'')) (or_none (fst ?pin)) (or_none (snd ?pin)) (wb_config w)\<rparr>"
  let ?old = "get_or (dict_get (view ?c (wb_creds w)) (integration_key (server_key ?sid))) []"
  have key: "server_key ?sid \<noteq> ''proxmox''" using assms(3) by (simp add: server_key_def)
  have fields: "card_fields f \<noteq> []"
    using assms(5) by (auto simp: card_fields_def proxmox_ssh_cred_kwargs_def Let_def)
  obtain d' where d': "save_integration_credentials ?c (server_key ?sid) (card_fields f) (wb_creds w) = (Inr (), d')"
    "\<And>srv. fst (get_integration_credentials ?c srv (server_key ?sid) d') = put_fields (card_fields f) ?old"
    using integration_after_save [OF assms(1) key, of "card_fields f"] by (metis prod.inject)
  have "setup_save_proxmox env f rq w = after_persist env f ?sid ?w1"
    using persist_known [of ?sid "without_confirmed ''proxmox'' w" s] assms(2-4) by (simp add: save_proxmox_split w_bind_def)
  also have "\<dots> = after_credentials env f ?sid (?w1\<lparr>wb_creds := d'\<rparr>)"
    using d'(1) by (simp add: after_persist_fields [OF fields] w_bind_def w_save_integration_def w_creds_def wz_crypto_def)
  finally have "wb_creds (snd (setup_save_proxmox env f rq w)) = d'"
    using keepsD [OF keeps_after_credentials [where Q = "\<lambda>c. c = d'"], of "?w1\<lparr>wb_creds := d'\<rparr>"] by simp
  then show ?thesis by (simp add: server_login_def d'(2) card_fields_last ssh_choice_fields [OF assms(5)])
qed

text \<open>The step for the containers offers the same choice but passes \<open>None\<close>, which leaves a stored password in place.\<close>

lemma wizard_key_shadowed:
  assumes "dict_get e ''ssh_password'' = Some (JStr old)" and "py_strip key \<noteq> []"
  shows "cred_str (put_fields (lxc_ssh_fields user ''key'' key []) e) ''ssh_password'' [] = old"
  using assms by (simp add: lxc_ssh_fields_def put_fields_def put_field_def text_field_def cred_str_def dict_simps Let_def)

subsection \<open>No address is added twice\<close>

definition addresses :: "disk \<Rightarrow> string option list" where
  "addresses d = map (\<lambda>(s, h). h_host h) (get_hosts d)"

definition addresses_ok :: "disk \<Rightarrow> bool" where
  "addresses_ok d \<longleftrightarrow> distinct (addresses d)"

lemma known_addresses_ok: "known_addresses d = Inr known \<Longrightarrow> addresses d = map Some known"
proof -
  have "collect (\<lambda>(s, h). case h_host h of Some a \<Rightarrow> Inr [a] | None \<Rightarrow> raise ''KeyError'' e) hs = Inr ks
      \<Longrightarrow> map (\<lambda>(s, h). h_host h) hs = map Some ks" for hs :: "(string \<times> host) list" and ks e
    by (induction hs arbitrary: ks) (auto simp: res_bind_def split: sum.splits option.splits)
  then show "known_addresses d = Inr known \<Longrightarrow> addresses d = map Some known" by (simp add: known_addresses_def addresses_def)
qed

lemma addresses_add:
  "addresses (snd (add_host name hst u p k dm node vmid pt sv d)) = addresses d @ (if contains hst ''XXX'' then [] else [Some hst])"
  by (simp add: addresses_def add_host_def get_hosts_def build_host_entry_def get_or_def Let_def)

definition known_all :: "string list \<Rightarrow> 'b web \<Rightarrow> bool" where
  "known_all known w \<longleftrightarrow> addresses_ok (wb_config w) \<and> set (addresses (wb_config w)) \<subseteq> Some ` set known"

lemma known_all_add:
  assumes "known_all known w" and "a \<notin> set known"
  shows "known_all (a # known) (snd (w_add_host name a u p k dm node vmid sv w))"
proof -
  have "Some a \<notin> set (addresses (wb_config w))" using assms by (auto simp: known_all_def)
  then show ?thesis using assms(1) by (auto simp: known_all_def addresses_ok_def w_add_host_def addresses_add case_prod_beta Let_def)
qed

lemma w_add_host_answers: "\<exists>slug. w_add_host name a u p k dm node vmid sv w = (Inr slug, snd (w_add_host name a u p k dm node vmid sv w))"
  by (simp add: w_add_host_def case_prod_beta Let_def)

lemma add_then:
  assumes "known_all known w" and "a \<notin> set known" and "\<And>w'. known_all (a # known) w' \<Longrightarrow> addresses_ok (wb_config (snd (m w')))"
  shows "addresses_ok (wb_config (snd (w_bind (w_add_host name a u p k dm node vmid sv) (\<lambda>_. m) w)))"
proof -
  obtain slug where "w_add_host name a u p k dm node vmid sv w = (Inr slug, snd (w_add_host name a u p k dm node vmid sv w))"
    using w_add_host_answers by blast
  then have "w_bind (w_add_host name a u p k dm node vmid sv) (\<lambda>_. m) w = m (snd (w_add_host name a u p k dm node vmid sv w))"
    unfolding w_bind_def by (metis (no_types, lifting) prod.case sum.case(2))
  then show ?thesis using assms(3) [OF known_all_add [OF assms(1,2)]] by simp
qed

lemma known_all_ok: "known_all known w \<Longrightarrow> addresses_ok (wb_config w)" by (simp add: known_all_def)

lemma add_nodes_ok: "known_all known w \<Longrightarrow> addresses_ok (wb_config (snd (add_nodes sid a ns known w)))"
  by (induction ns arbitrary: known w) (auto simp: w_return_def known_all_ok intro!: add_then)

lemma add_lxcs_ok: "known_all known w \<Longrightarrow> addresses_ok (wb_config (snd (add_lxcs sid es known added w)))"
  by (induction es arbitrary: known added w) (auto simp: w_return_def known_all_ok intro!: add_then split: option.splits)

lemma add_vms_ok: "known_all known w \<Longrightarrow> addresses_ok (wb_config (snd (add_vms form es known added w)))"
  by (induction es arbitrary: known added w) (auto simp: w_return_def known_all_ok intro!: add_then split: option.splits)

lemma known_start: "known_addresses (wb_config w) = Inr known \<Longrightarrow> addresses_ok (wb_config w) \<Longrightarrow> known_all known w"
  using known_addresses_ok by (fastforce simp: known_all_def)

lemma with_known:
  assumes "\<And>known w. known_all known w \<Longrightarrow> addresses_ok (wb_config (snd (k known w)))"
  shows "w_keeps (\<lambda>w. addresses_ok (wb_config w)) (w_state (\<lambda>w. w_bind (w_lift (known_addresses (wb_config w))) k))"
  using assms known_start by (force simp: w_keeps_def w_state_def w_bind_def w_lift_def split: sum.splits)

lemma then_keeps:
  assumes "addresses_ok (wb_config (snd (m w)))" and "\<And>x. w_keeps (\<lambda>w. addresses_ok (wb_config w)) (k x)"
  shows "addresses_ok (wb_config (snd (w_bind m k w)))"
  using assms by (cases "m w"; cases "fst (m w)") (auto simp: w_bind_def dest: keepsD)

lemma found_nodes_ok: "w_keeps (\<lambda>w. addresses_ok (wb_config w)) (add_found_nodes sid url ns)"
  unfolding add_found_nodes_def by (intro keeps_bind keeps_lift with_known then_keeps add_nodes_ok keeps_session)

lemma discovery_ok: "w_keeps (\<lambda>w. addresses_ok (wb_config w)) (discover_after_save env sid url token)"
  unfolding discover_after_save_def
  by (intro keeps_state keeps_res keeps_pair keeps_bind keeps_return keeps_try found_nodes_ok keeps_resources)

lemma same_hosts_ok: "c_hosts (load_config d') = c_hosts (load_config d) \<Longrightarrow> addresses_ok d' = addresses_ok d"
  by (simp add: addresses_ok_def addresses_def get_hosts_def)

lemma kept_addresses:
  assumes "distinct (map h_host (filter P hs))" and "\<And>h h'. k h = Some h' \<Longrightarrow> h_host h' = h_host h \<and> P h' = P h"
  shows "distinct (map h_host (filter P (List.map_filter k hs)))"
proof -
  have "subseq (map h_host (filter P (List.map_filter k hs))) (map h_host (filter P hs))"
    by (induction hs) (auto simp: List.map_filter_simps assms(2) split: option.splits)
  then show ?thesis using assms(1) subseqs_distinctD by (metis mem_Collect_eq set_subseqs_eq)
qed

lemma kept_host_address: "kept_host sid h = Some h' \<Longrightarrow> h_host h' = h_host h"
  by (auto simp: kept_host_def strip_proxmox_def split: if_splits)

lemma addresses_of_hosts: "addresses d = map h_host (filter (\<lambda>h. \<not> contains (get_or (h_host h) []) ''XXX'') (hosts_of (load_config d)))"
  by (simp add: addresses_def get_hosts_def comp_def)

lemma delete_server_ok: "addresses_ok d \<Longrightarrow> addresses_ok (fst (snd (delete_proxmox_server c sid (d, cr))))"
proof -
  assume ok: "addresses_ok d"
  have "addresses_ok (save_config ((load_config d)\<lparr>c_proxmox_servers := ss, c_hosts := Some (List.map_filter (kept_host sid) (hosts_of (load_config d)))\<rparr>) d)" for ss
    using ok kept_addresses [where k = "kept_host sid" and P = "\<lambda>h. \<not> contains (get_or (h_host h) []) ''XXX''" and hs = "hosts_of (load_config d)"]
    by (simp add: addresses_ok_def addresses_of_hosts get_or_def kept_host_address)
  then show ?thesis using ok by (simp add: delete_proxmox_server_def Let_def split: sum.splits prod.splits)
qed

lemma add_server_ok: "addresses_ok d \<Longrightarrow> addresses_ok (snd (add_proxmox_server url verify pem fp d))"
  by (cases "slugify_server_id url") (auto simp: add_proxmox_server_def Let_def elim!: same_hosts_ok [THEN iffD2, rotated])

lemma update_server_ok: "addresses_ok d \<Longrightarrow> addresses_ok (update_proxmox_server sid url verify pem fp d)"
  by (auto simp: update_proxmox_server_def Let_def elim!: same_hosts_ok [THEN iffD2, rotated])

lemma save_server_ok:
  assumes "addresses_ok d"
  shows "addresses_ok (fst (snd (save_proxmox_config c url pem fp verify (d, cr))))"
proof -
  have "addresses_ok (fst (snd (save_first_server c url pem fp verify (d, cr))))"
    using assms delete_server_ok [OF assms] add_server_ok [OF assms, of url verify pem fp] update_server_ok [OF assms]
    by (auto simp: save_first_server_def split: list.splits sum.splits prod.splits)
  moreover have "addresses_ok (save_service c_proxmox put_proxmox url pem fp (Some verify) d)"
    using assms same_hosts_ok [of "save_service c_proxmox put_proxmox url pem fp (Some verify) d" d]
    by (simp add: save_service_def put_proxmox_def Let_def)
  ultimately show ?thesis by (simp add: save_proxmox_config_def Let_def)
qed

lemma persist_ok: "w_keeps (\<lambda>w. addresses_ok (wb_config w)) (persist_proxmox_server c sid url pem fp verify)"
proof -
  have "w_keeps (\<lambda>w. addresses_ok (wb_config w)) (w_both (\<lambda>(d, cr). let (r, d') = add_proxmox_server url verify pem fp d in (r, (d', cr))))"
    by (simp add: w_keeps_def w_both_def case_prod_beta Let_def add_server_ok)
  moreover have "w_keeps (\<lambda>w. addresses_ok (wb_config w)) (w_both (save_proxmox_config c url pem fp verify))"
    by (simp add: w_keeps_def w_both_def case_prod_beta Let_def save_server_ok)
  ultimately show ?thesis unfolding persist_proxmox_server_def
    by (intro keeps_state keeps_if keeps_return keeps_bind keeps_config update_server_ok)
qed

datatype guest_request =
  SaveCard proxmox_form
| DiscoverGuests string
| SaveLxcs "string list" string string string string string
| SaveVms "(string \<times> string) list" "string list" string string

fun guest_handler :: "'b wizard_env \<Rightarrow> guest_request \<Rightarrow> 'b web handler" where
  "guest_handler env (SaveCard f) = setup_save_proxmox env f"
| "guest_handler env (DiscoverGuests sid) = setup_proxmox_discover env sid"
| "guest_handler env (SaveLxcs es user auth key pw sid) = setup_proxmox_save_lxcs env es user auth key pw sid"
| "guest_handler env (SaveVms form es action sid) = setup_proxmox_save_vms form es action sid"

lemmas address_keeps = keeps_creds keeps_session keeps_integration keeps_save_integration keeps_queue keeps_confirmed keeps_resources keeps_docker_step

lemma guest_request_ok: "w_keeps (\<lambda>w. addresses_ok (wb_config w)) (guest_handler env r rq)"
proof (cases r)
  case (SaveCard f)
  have "w_keeps (\<lambda>w. addresses_ok (wb_config w)) (setup_save_proxmox env f rq)"
    unfolding setup_save_proxmox_def Let_def
    by (intro keeps_bind keeps_pair keeps_if keeps_return keeps_lxc_step address_keeps persist_ok discovery_ok)
  then show ?thesis by (simp add: SaveCard)
next
  case (DiscoverGuests sid)
  have "w_keeps (\<lambda>w. addresses_ok (wb_config w)) (setup_proxmox_discover env sid rq)"
    unfolding setup_proxmox_discover_def setup_proxmox_client_parts_def Let_def
    by (intro keeps_bind keeps_pair keeps_if keeps_return keeps_state keeps_except keeps_lift keeps_lxc_step address_keeps found_nodes_ok)
  then show ?thesis by (simp add: DiscoverGuests)
next
  case (SaveLxcs es user auth key pw sid)
  have "w_keeps (\<lambda>w. addresses_ok (wb_config w)) (setup_proxmox_save_lxcs env es user auth key pw sid rq)"
    unfolding setup_proxmox_save_lxcs_def Let_def
    by (intro keeps_bind address_keeps with_known then_keeps add_lxcs_ok keeps_state keeps_if keeps_vm_step)
  then show ?thesis by (simp add: SaveLxcs)
next
  case (SaveVms form es action sid)
  have "w_keeps (\<lambda>w. addresses_ok (wb_config w)) (setup_proxmox_save_vms form es action sid rq)"
    unfolding setup_proxmox_save_vms_def
    by (intro with_known then_keeps add_vms_ok keeps_bind keeps_if keeps_return keeps_done address_keeps)
  then show ?thesis by (simp add: SaveVms)
qed

definition after_guests :: "'b wizard_env \<Rightarrow> web_request \<Rightarrow> guest_request list \<Rightarrow> 'b web \<Rightarrow> 'b web" where
  "after_guests env rq rs w = foldl (\<lambda>w r. snd (guest_handler env r rq w)) w rs"

lemma after_guests_ok: "addresses_ok (wb_config w) \<Longrightarrow> addresses_ok (wb_config (after_guests env rq rs w))"
proof (induction rs arbitrary: w)
  case (Cons r rs)
  have "addresses_ok (wb_config (snd (guest_handler env r rq w)))" using keepsD [OF guest_request_ok] Cons.prems by blast
  then show ?case using Cons.IH by (simp add: after_guests_def)
qed (simp add: after_guests_def)

text \<open>C19. However often and in whatever order the cards are saved, guests discovered and chosen: when the hosts had different
  addresses before, they still have.  What was added once is not added again.\<close>
theorem guests_added_once:
  assumes "distinct (addresses (wb_config w))"
  shows "distinct (addresses (wb_config (after_guests env rq rs w)))"
  using after_guests_ok [of w env rq rs] assms by (simp add: addresses_ok_def)

subsection \<open>Concrete runs\<close>

definition demo_wizard :: "(string \<times> store) wizard_env" where
  "demo_wizard = \<lparr>wz_web = demo_web_env, wz_net = demo_net, wz_keys = [''id''], wz_dial = (\<lambda>_. None), wz_remote = demo_remote,
     wz_loads = (\<lambda>_. None), wz_post = (\<lambda>_ _. ApiResp 200 True None), wz_mail = (\<lambda>_ _. Inr ())\<rparr>"

definition blank_form :: proxmox_form where
  "blank_form = \<lparr>pf_url = ''https://pve2.lan:8006/'', pf_token = [], pf_secret = [], pf_skip = [], pf_server = NEW_SERVER,
     pf_user = [], pf_auth = ''key'', pf_key = ''id'', pf_password = []\<rparr>"

lemma blank_form_url: "clean_url (pf_url blank_form) = ''https://pve2.lan:8006''" "url_hostname ''https://pve2.lan:8006'' = Inr (Some ''pve2.lan'')"
  by code_simp+

theorem blank_card_appends_server_witness:
  "\<exists>sid. get_proxmox_servers (wb_config (snd (setup_save_proxmox demo_wizard blank_form home_request demo_web)))
     = [saved_server blank_form ([], []) sid]"
proof -
  have "get_proxmox_servers (wb_config demo_web) = []" "confirmed_pair demo_web ''proxmox'' = ([], [])" by code_simp+
  moreover have "pf_server blank_form = NEW_SERVER" by (simp add: blank_form_def)
  ultimately show ?thesis
    using blank_card_appends_server [of blank_form "Some ''pve2.lan''" demo_wizard home_request demo_web] blank_form_url by simp
qed

definition legacy_web :: "(string \<times> store) web" where
  "legacy_web = demo_web\<lparr>wb_config := Some (empty_config\<lparr>c_proxmox := Some (empty_service\<lparr>sv_url := Some ''https://pve.lan:8006''\<rparr>)\<rparr>)\<rparr>"

theorem add_another_keeps_first_witness:
  "\<exists>first second. get_proxmox_servers (wb_config (snd (setup_save_proxmox demo_wizard blank_form home_request
       (snd (setup_proxmox_add_another demo_wizard home_request legacy_web))))) = [first, second]
     \<and> srv_id first \<noteq> srv_id second \<and> sv_url (srv_block first) = Some ''https://pve.lan:8006''"
proof -
  let ?legacy = "empty_service\<lparr>sv_url := Some ''https://pve.lan:8006''\<rparr>"
  have legacy: "c_proxmox (load_config (wb_config legacy_web)) = Some ?legacy" "service_truthy (Some ?legacy)"
      "servers_of (load_config (wb_config legacy_web)) = []"
    by (simp_all add: legacy_web_def load_config_def service_truthy_def empty_service_def empty_config_def)
  have "fst (migrate_proxmox_servers plain_crypto (wb_config legacy_web, wb_creds legacy_web)) = Inr ''pve-lan''" by code_simp
  then obtain a w1 where a: "setup_proxmox_add_another demo_wizard home_request legacy_web = (Inr a, w1)"
    by (cases "migrate_proxmox_servers plain_crypto (wb_config legacy_web, wb_creds legacy_web)")
      (auto simp: setup_proxmox_add_another_def w_bind_def w_both_def w_state_def w_return_def wz_crypto_def demo_wizard_def
        demo_web_env_def split: prod.splits)
  have "pf_server blank_form = NEW_SERVER" by (simp add: blank_form_def)
  then show ?thesis using add_another_keeps_first [OF legacy a, of blank_form "Some ''pve2.lan''" home_request] blank_form_url
    by (auto simp: a get_or_def)
qed

definition two_server_web :: "(string \<times> store) web" where
  "two_server_web = demo_web\<lparr>wb_config := Some (empty_config\<lparr>c_proxmox_servers := Some [\<lparr>srv_id = ''pve-lan'',
     srv_block = empty_service\<lparr>sv_url := Some ''https://pve.lan:8006'', sv_pem := Some ''PEM''\<rparr>\<rparr>]\<rparr>)\<rparr>"

definition card_form :: proxmox_form where
  "card_form = blank_form\<lparr>pf_server := ''pve-lan'', pf_url := ''https://10.0.0.2:8006''\<rparr>"

lemma card_server: "pf_server card_form \<noteq> NEW_SERVER" "pf_server card_form \<noteq> []"
  "get_proxmox_server (pf_server card_form) (wb_config two_server_web) = Some \<lparr>srv_id = ''pve-lan'',
     srv_block = empty_service\<lparr>sv_url := Some ''https://pve.lan:8006'', sv_pem := Some ''PEM''\<rparr>\<rparr>"
  by code_simp+

theorem saving_a_card_keeps_its_pin_witness:
  "\<exists>s'. get_proxmox_server ''pve-lan'' (wb_config (snd (setup_save_proxmox demo_wizard card_form home_request two_server_web))) = Some s'
    \<and> sv_pem (srv_block s') = Some ''PEM''"
proof -
  have "confirmed_pair two_server_web ''proxmox'' = ([], [])" by code_simp
  moreover have "pf_server card_form = ''pve-lan''" by (simp add: card_form_def)
  ultimately show ?thesis using saving_a_card_keeps_its_pin [OF card_server, of demo_wizard home_request] by simp
qed

theorem chosen_login_used_witness:
  "server_login plain_crypto demo_env ''pve-lan'' (snd (setup_save_proxmox demo_wizard card_form home_request two_server_web))
     = res_bind (resolve_key_path (he_keys_dir demo_env) (he_resolve demo_env) ''id'')
            (\<lambda>p. Inr \<lparr>sx_password = Some [], sx_key = None, sx_key_path = Some p, sx_sudo = None\<rparr>)"
proof -
  have "ready (wz_crypto demo_wizard) (wb_creds two_server_web)"
    using plain_ready by (simp add: wz_crypto_def demo_wizard_def demo_web_env_def two_server_web_def demo_web_def)
  moreover have "pf_auth card_form = ''key''" "py_strip (pf_key card_form) = ''id''" by code_simp+
  ultimately show ?thesis
    using chosen_login_used [of demo_wizard two_server_web card_form, OF _ card_server, of demo_env home_request]
    by (simp add: wz_crypto_def demo_wizard_def demo_web_env_def card_form_def)
qed

theorem guests_added_once_witness:
  "distinct (addresses (wb_config (after_guests demo_wizard home_request
     [SaveLxcs [''pve:101:web:10.0.0.5'', ''pve:102:db:10.0.0.6''] ''root'' ''key'' ''id'' [] [],
      SaveLxcs [''pve:101:web:10.0.0.5'', ''pve:103:mail:10.0.0.7''] ''root'' ''key'' ''id'' [] [],
      SaveVms [(''vm_ip_104'', ''10.0.0.6'')] [''pve:104:win''] ''later'' []] demo_web)))"
proof -
  have "addresses (wb_config demo_web) = []" by code_simp
  then show ?thesis using guests_added_once [of demo_web] by simp
qed

end
