(* ===== verification/SetupHosts.thy ===== *)
theory SetupHosts
  imports ProxmoxWizard
begin

section \<open>The wizard's pages, SSH hosts and notifications (app/auth_router.py)\<close>

text \<open>
  The first and the last screens of the setup, the hosts that are added over SSH with the connection that is tried first, the
  choice of containers, and the settings of the notifications.
\<close>

subsection \<open>Welcome\<close>

definition w_admin_exists :: "'b wizard_env \<Rightarrow> ('b web, bool) web_steps" where
  "w_admin_exists env = w_creds (\<lambda>d. let (b, d') = admin_exists (wz_crypto env) d in (Inr b, d'))"

definition with_admin :: "'b wizard_env \<Rightarrow> ('b web, web_response) web_steps \<Rightarrow> ('b web, web_response) web_steps" where
  "with_admin env m = w_bind (w_admin_exists env) (\<lambda>b. if b then m else w_return (redirect 302 ''/setup''))"

definition group_zone :: "string \<Rightarrow> (string \<times> string list) list \<Rightarrow> (string \<times> string list) list" where
  "group_zone zone groups =
     (let region = hd (split_char CHR ''/'' zone) in dict_set region (get_or (dict_get groups region) [] @ [zone]) groups)"

definition timezone_groups :: "string list \<Rightarrow> (string \<times> string list) list" where
  "timezone_groups zones = sort_key fst (fold group_zone (sort zones) [])"

definition zones_json :: "(string \<times> string list) list \<Rightarrow> json" where
  "zones_json gs = JList (map (\<lambda>(r, zs). JList [JStr r, JList (map JStr zs)]) gs)"

definition setup_welcome :: "'b wizard_env \<Rightarrow> string list \<Rightarrow> 'b web handler" where
  "setup_welcome env zones = when_no_admin (wz_web env) (\<lambda>rq w.
     (Inr (page ''setup_welcome.html''
       [(''timezone_groups'', zones_json (timezone_groups zones)), (''current_tz'', JStr (get_timezone (wb_config w)))]), w))"

definition setup_welcome_submit :: "'b wizard_env \<Rightarrow> string \<Rightarrow> 'b web handler" where
  "setup_welcome_submit env timezone = when_no_admin (wz_web env) (\<lambda>rq.
     w_bind (w_config (save_timezone timezone)) (\<lambda>_. w_return (redirect 303 ''/setup/account'')))"

subsection \<open>The integrations that are connected\<close>

definition url_of :: "service \<Rightarrow> string" where "url_of cfg = get_or (sv_url cfg) []"

definition any_field :: "entry \<Rightarrow> string list \<Rightarrow> bool" where "any_field e ks = list_ex (field_truthy e) ks"

definition service_shown :: "string \<Rightarrow> service \<Rightarrow> entry \<Rightarrow> string list \<Rightarrow> entry" where
  "service_shown name cfg creds ks =
     [(name @ ''_url'', JStr (url_of cfg)), (name @ ''_connected'', JBool (url_of cfg \<noteq> [] \<and> any_field creds ks))]"

definition setup_connect :: "'b wizard_env \<Rightarrow> 'b web handler" where
  "setup_connect env rq =
     (let creds = w_integration (wz_web env) in
      with_admin env (w_state (\<lambda>w. let d = wb_config w in
        w_bind (creds ''proxmox'') (\<lambda>px. w_bind (creds ''proxmox_backup'') (\<lambda>pbs. w_bind (creds ''opnsense'') (\<lambda>opn.
        w_bind (creds ''pfsense'') (\<lambda>pf. w_bind (creds ''homeassistant'') (\<lambda>ha. w_bind (creds ''portainer'') (\<lambda>po.
        w_bind (creds ''dockerhub'') (\<lambda>dh.
          w_return (page ''setup_connect.html''
            (service_shown ''proxmox'' (get_proxmox_config d) px [''secret'', ''api_token'']
             @ service_shown ''pbs'' (get_pbs_config d) pbs [''secret'', ''api_token'']
             @ service_shown ''opnsense'' (get_opnsense_config d) opn [''api_key'']
             @ service_shown ''pfsense'' (get_pfsense_config d) pf [''api_key'']
             @ service_shown ''homeassistant'' (get_homeassistant_config d) ha [''token'']
             @ service_shown ''portainer'' (get_portainer_config d) po [''api_key'']
             @ [(''dockerhub_connected'', JBool (field_truthy dh ''token''))]))))))))))))"

subsection \<open>Hosts over SSH\<close>

definition pending_hosts :: "entry \<Rightarrow> json" where
  "pending_hosts s = JList (session_list s ''setup_integration_pending'' @ session_list s ''setup_proxmox_pending'')"

definition ssh_section :: "'b wizard_env \<Rightarrow> entry \<Rightarrow> ('b web, web_response) web_steps" where
  "ssh_section env extra =
     w_state (\<lambda>w. w_return (page ''partials/setup_ssh_section.html''
       ([(''hosts'', listed_json (get_hosts (wb_config w))), (''available_keys'', JList (map JStr (wz_keys env))),
         (''proxmox_pending'', pending_hosts (wb_session w))] @ extra)))"

definition setup_hosts_page :: "'b wizard_env \<Rightarrow> 'b web handler" where
  "setup_hosts_page env rq =
     with_admin env (w_state (\<lambda>w. w_return (page ''setup_hosts.html''
       [(''hosts'', listed_json (get_hosts (wb_config w))), (''available_keys'', JList (map JStr (wz_keys env))),
        (''proxmox_pending'', pending_hosts (wb_session w))])))"

record ssh_form =
  sf_name :: string
  sf_host :: string
  sf_user :: string
  sf_port :: string
  sf_auth :: string
  sf_password :: string
  sf_key :: string
  sf_auto :: string

definition form_port :: "string \<Rightarrow> int option" where
  "form_port p = (if all_digits (py_strip p) then py_int (py_strip p) else None)"

definition form_key :: "string \<Rightarrow> string \<Rightarrow> string option" where
  "form_key auth key = (if auth = ''key'' \<and> key \<noteq> [] then Some (''/app/keys/'' @ key) else None)"

definition missing_fields :: "ssh_form \<Rightarrow> string list" where
  "missing_fields f =
     (if py_strip (sf_name f) = [] \<or> py_strip (sf_host f) = [] then [''name and host/IP''] else [])
     @ (if py_strip (sf_user f) = [] then [''SSH user''] else [])
     @ (if sf_auth f = ''password'' \<and> py_strip (sf_password f) = [] then [''password'']
        else if sf_auth f = ''key'' \<and> sf_key f = [] then [''SSH key file''] else [])"

definition form_host :: "ssh_form \<Rightarrow> ssh_host" where
  "form_host f =
     \<lparr>sh_name = Some (py_strip (sf_name f)), sh_host = py_strip (sf_host f), sh_user = or_none (py_strip (sf_user f)),
      sh_port = (if form_port (sf_port f) = Some 0 then None else form_port (sf_port f)),
      sh_key = form_key (sf_auth f) (sf_key f), sh_slug = None\<rparr>"

definition password_given :: "ssh_form \<Rightarrow> bool" where
  "password_given f \<longleftrightarrow> sf_auth f = ''password'' \<and> py_strip (sf_password f) \<noteq> []"

definition form_creds :: "ssh_form \<Rightarrow> ssh_creds" where
  "form_creds f =
     (let pw = (if password_given f then Some (py_strip (sf_password f)) else None)
      in \<lparr>sx_password = pw, sx_key = None, sx_key_path = None, sx_sudo = pw\<rparr>)"

definition form_json :: "ssh_form \<Rightarrow> json" where
  "form_json f = JObj [(''name'', JStr (py_strip (sf_name f))), (''host'', JStr (py_strip (sf_host f))),
     (''user'', JStr (py_strip (sf_user f))), (''port'', JStr (sf_port f)), (''auth_method'', JStr (sf_auth f)),
     (''key_file'', JStr (sf_key f))]"

definition w_save_password :: "'b wizard_env \<Rightarrow> string \<Rightarrow> string \<Rightarrow> ('b web, unit) web_steps" where
  "w_save_password env slug pw = w_creds (save_credentials (wz_crypto env) slug (Some pw) None None)"

text \<open>The host as it is stored, with its password and the weekly updates if they were asked for.\<close>

definition store_host ::
  "'b wizard_env \<Rightarrow> string \<Rightarrow> string \<Rightarrow> string option \<Rightarrow> int option \<Rightarrow> string option \<Rightarrow> string option \<Rightarrow> string option \<Rightarrow> bool
     \<Rightarrow> ('b web, unit) web_steps" where
  "store_host env name addr user port key docker_mode password auto_update =
     w_bind (w_add_host name addr user port key docker_mode None None None) (\<lambda>slug.
       w_bind (case password of Some pw \<Rightarrow> w_save_password env slug pw | None \<Rightarrow> w_return ()) (\<lambda>_.
         if auto_update then w_config (set_host_auto_update slug True ''weekly'' False) else w_return ()))"

definition container_label :: "nat \<Rightarrow> string" where
  "container_label n = show_nat n @ '' container'' @ (if n \<noteq> 1 then ''s'' else [])"

definition pending_json :: "ssh_form \<Rightarrow> json" where
  "pending_json f = JObj [(''name'', JStr (py_strip (sf_name f))), (''host'', JStr (py_strip (sf_host f))),
     (''user'', JStr (py_strip (sf_user f))), (''port'', JStr (sf_port f)), (''auth_method'', JStr (sf_auth f)),
     (''ssh_password'', JStr (if password_given f then py_strip (sf_password f) else [])), (''key_file'', JStr (sf_key f)),
     (''auto_update'', JBool (sf_auto f = ''on''))]"

definition setup_add_host :: "'b wizard_env \<Rightarrow> ssh_form \<Rightarrow> 'b web handler" where
  "setup_add_host env f rq =
     (let name = py_strip (sf_name f); missing = missing_fields f; again = (\<lambda>e. ssh_section env [(''add_error'', JStr e), (''form'', form_json f)]) in
      if missing \<noteq> [] then again (''Required: '' @ py_join '', '' missing @ ''.'')
      else case fst (verify_connection (wz_dial env) (wz_remote env) (form_host f) (form_creds f)) of
             (False, msg) \<Rightarrow> again (''Could not connect: '' @ msg)
           | (True, _) \<Rightarrow>
               (let found = fst (discover_containers (wz_loads env) (wz_dial env) (wz_remote env) (form_host f) (form_creds f)) in
                if found \<noteq> []
                then w_bind (w_session (dict_set ''pending_ssh_host'' (pending_json f))) (\<lambda>_.
                       ssh_section env [(''docker_prompt'', JObj [(''name'', JStr name),
                         (''container_label'', JStr (container_label (length found)))])])
                else w_bind (store_host env name (py_strip (sf_host f)) (or_none (py_strip (sf_user f))) (form_port (sf_port f))
                         (form_key (sf_auth f) (sf_key f)) None
                         (if password_given f then Some (py_strip (sf_password f)) else None) (sf_auto f = ''on'')) (\<lambda>_.
                       ssh_section env [(''add_success'', JStr (name @ '' added successfully.''))])))"

definition setup_confirm_add_host :: "'b wizard_env \<Rightarrow> string \<Rightarrow> 'b web handler" where
  "setup_confirm_add_host env enable_docker rq =
     w_state (\<lambda>w. w_bind (w_session (dict_pop ''pending_ssh_host'')) (\<lambda>_.
       case dict_get (wb_session w) ''pending_ssh_host'' of
         Some (JObj p) \<Rightarrow>
           (let name = str_field p ''name''; auth = str_field p ''auth_method''; pw = str_field p ''ssh_password'';
                docker = enable_docker = ''yes'' in
            w_bind (store_host env name (str_field p ''host'') (or_none (str_field p ''user'')) (form_port (str_field p ''port''))
                (form_key auth (str_field p ''key_file'')) (if docker then Some ''all'' else None)
                (if auth = ''password'' \<and> pw \<noteq> [] then Some pw else None) (field_truthy p ''auto_update'')) (\<lambda>_.
              ssh_section env [(''add_success'', JStr (name @ '' added'' @ (if docker then '' with container monitoring'' else []) @ '' successfully.''))]))
       | _ \<Rightarrow> ssh_section env [(''add_error'', JStr (''Session expired '' @ DASH @ '' please add the host again.''))]))"

definition setup_remove_host :: "'b wizard_env \<Rightarrow> string \<Rightarrow> 'b web handler" where
  "setup_remove_host env slug rq =
     w_bind (w_config (delete_host slug)) (\<lambda>_. w_bind (w_creds (delete_credentials (wz_crypto env) slug)) (\<lambda>_. ssh_section env []))"

text \<open>The cards of the pending hosts.  Their test has its own colours and its own \<open>try\<close>, which \<open>verify_connection\<close> never
  leaves with an exception.\<close>

definition card_number :: "string \<Rightarrow> int" where
  "card_number s = get_or (py_int s) 1"

definition dot :: "string \<Rightarrow> string \<Rightarrow> string \<Rightarrow> web_response" where
  "dot colour idx title =
     html 200 (''<span class='' @ [DQUOTE] @ ''w-1.5 h-1.5 rounded-full bg-'' @ colour @ ''-400 flex-shrink-0'' @ [DQUOTE]
       @ '' id='' @ [DQUOTE] @ ''dot-'' @ idx @ [DQUOTE] @ title @ ''></span>'')"

definition card_host :: "ssh_form \<Rightarrow> ssh_host" where
  "card_host f =
     \<lparr>sh_name = Some (or_s (Some (py_strip (sf_name f))) ''test''), sh_host = py_strip (sf_host f),
      sh_user = or_none (py_strip (sf_user f)), sh_port = form_port (sf_port f), sh_key = None, sh_slug = None\<rparr>"

definition setup_card_test :: "'b wizard_env \<Rightarrow> ssh_form \<Rightarrow> string \<Rightarrow> 'b web handler" where
  "setup_card_test env f card_index rq =
     (let idx = show_int (card_number card_index);
          creds = \<lparr>sx_password = (if password_given f then Some (py_strip (sf_password f)) else None), sx_key = None,
            sx_key_path = None, sx_sudo = None\<rparr> in
      w_return (if fst (fst (verify_connection (wz_dial env) (wz_remote env) (card_host f) creds))
        then dot ''green'' idx [] else dot ''red'' idx ('' title='' @ [DQUOTE] @ ''Failed'' @ [DQUOTE])))"

definition card_error :: "ssh_form \<Rightarrow> string option" where
  "card_error f =
     (if py_strip (sf_name f) = [] \<or> py_strip (sf_host f) = [] then Some ''Display name and IP address are required.''
      else if py_strip (sf_user f) = [] then Some ''SSH user is required.''
      else if sf_auth f = ''password'' \<and> py_strip (sf_password f) = [] then Some ''Password is required when using password auth.''
      else None)"

definition setup_card_add :: "'b wizard_env \<Rightarrow> ssh_form \<Rightarrow> string \<Rightarrow> string \<Rightarrow> string \<Rightarrow> 'b web handler" where
  "setup_card_add env f card_index node host_type rq =
     (let name = py_strip (sf_name f); err = card_error f;
          shown = page ''partials/setup_host_card_confirmed.html''
            [(''card_index'', JNum (card_number card_index)),
             (''name'', JStr (if name = [] then ''(unnamed)'' else name)),
             (''host_addr'', JStr (py_strip (sf_host f))), (''node'', JStr node), (''host_type'', JStr host_type),
             (''error'', text_or_null err)] in
      if err \<noteq> None then w_return shown
      else w_bind (store_host env name (py_strip (sf_host f)) (or_none (py_strip (sf_user f))) (form_port (sf_port f)) None None
               (if password_given f then Some (py_strip (sf_password f)) else None) False) (\<lambda>_. w_return shown))"

subsection \<open>Containers\<close>

text \<open>What the page shows of one host: nothing for a node, a count or a name for a guest, and for the others the containers.\<close>

datatype containers_of = Node_skipped | Guest_exec | Guest_docker string string | Listed string string string "(json \<times> json) list"

definition containers_entry :: "'b wizard_env \<Rightarrow> string \<times> host \<Rightarrow> ('b web, containers_of) web_steps" where
  "containers_entry env sh =
     (let (slug, h) = sh in
      if truthy_s (h_proxmox_node h) \<and> h_proxmox_vmid h = None then w_return Node_skipped
      else if h_proxmox_vmid h \<noteq> None
      then w_return (if truthy_s (h_docker_mode h) then Guest_docker (h_name h) (get_or (h_host h) []) else Guest_exec)
      else w_bind (w_creds (\<lambda>d. let (e, d') = get_credentials (wz_crypto env) slug d in (Inr e, d'))) (\<lambda>creds.
        w_return (Listed slug (h_name h) (get_or (h_host h) [])
          (fst (discover_containers (wz_loads env) (wz_dial env) (wz_remote env) (ssh_view slug h) (host_creds creds))))))"

fun w_map :: "('a \<Rightarrow> ('w, 'c) web_steps) \<Rightarrow> 'a list \<Rightarrow> ('w, 'c list) web_steps" where
  "w_map f [] = w_return []"
| "w_map f (x # xs) = w_bind (f x) (\<lambda>y. w_bind (w_map f xs) (\<lambda>ys. w_return (y # ys)))"

definition listed_hosts_json :: "containers_of list \<Rightarrow> json" where
  "listed_hosts_json es = JList (List.map_filter (\<lambda>e. case e of
     Listed slug name ip cs \<Rightarrow> Some (JObj [(''id'', JStr slug), (''name'', JStr name), (''ip'', JStr ip),
       (''containers'', JList (map (\<lambda>(n, i). JObj [(''id'', n), (''name'', n), (''image'', i)]) cs))])
   | _ \<Rightarrow> None) es)"

definition docker_guests_json :: "containers_of list \<Rightarrow> json" where
  "docker_guests_json es = JList (List.map_filter (\<lambda>e. case e of
     Guest_docker name ip \<Rightarrow> Some (JObj [(''name'', JStr name), (''ip'', JStr ip)]) | _ \<Rightarrow> None) es)"

definition setup_containers_page :: "'b wizard_env \<Rightarrow> 'b web handler" where
  "setup_containers_page env rq =
     with_admin env (w_state (\<lambda>w. w_bind (w_map (containers_entry env) (get_hosts (wb_config w))) (\<lambda>es.
       w_return (page ''setup_containers.html''
         [(''hosts'', listed_hosts_json es), (''pct_exec_count'', JNum (int (length (filter (\<lambda>e. e = Guest_exec) es)))),
          (''proxmox_docker_hosts'', docker_guests_json es)]))))"

definition setup_containers_save :: "string list \<Rightarrow> 'b web handler" where
  "setup_containers_save containers rq =
     w_bind (w_config (save_wizard_container_selection containers)) (\<lambda>_. w_return (redirect 303 ''/setup/notifications''))"

subsection \<open>Notifications\<close>

definition email_json :: "email option \<Rightarrow> entry" where
  "email_json m =
     (case m of
        None \<Rightarrow> [(''email_configured'', JBool False), (''email_sender'', JStr []), (''email_recipient'', JStr []),
          (''email_smtp_host'', JStr []), (''email_smtp_port'', JNum 587), (''email_tls'', JBool True), (''email_sender_name'', JStr [])]
      | Some e \<Rightarrow> [(''email_configured'', JBool (em_smtp_host e \<noteq> [])), (''email_sender'', JStr (em_sender_address e)),
          (''email_recipient'', JStr (em_recipient_address e)), (''email_smtp_host'', JStr (em_smtp_host e)),
          (''email_smtp_port'', JNum (em_smtp_port e)), (''email_tls'', JBool (em_tls e)), (''email_sender_name'', JStr (em_sender_name e))])"

definition w_schedule :: "('b web, string) web_steps" where
  "w_schedule w = (let (k, d) = get_update_check_schedule (wb_config w) in (Inr k, w\<lparr>wb_config := d\<rparr>))"

definition setup_notifications_page :: "'b wizard_env \<Rightarrow> 'b web handler" where
  "setup_notifications_page env rq =
     with_admin env (w_bind (w_integration (wz_web env) ''pushover'') (\<lambda>po. w_bind (w_integration (wz_web env) ''email'') (\<lambda>em.
       w_bind w_schedule (\<lambda>sched. w_state (\<lambda>w. w_return (page ''setup_notifications.html''
         ([(''pushover_token_set'', JBool (field_truthy po ''api_token'')), (''pushover_user_set'', JBool (field_truthy po ''user_key'')),
           (''pushover_enabled'', JBool (get_or (get_pushover_config (wb_config w)) False))]
          @ email_json (get_email_config (wb_config w))
          @ [(''email_password_set'', JBool (field_truthy em ''smtp_password'')), (''update_schedule'', JStr sched)])))))))"

definition string_list :: "json \<Rightarrow> string list res" where
  "string_list j =
     (case j of
        JList xs \<Rightarrow> (if list_all (\<lambda>x. case x of JStr _ \<Rightarrow> True | _ \<Rightarrow> False) xs then Inr (map json_text xs)
                     else raise ''TypeError'' ''sequence item 0: expected str instance'')
      | _ \<Rightarrow> raise ''TypeError'' ''can only join an iterable'')"

text \<open>A 200 is success without reading the body; otherwise the errors of the answer, or its status.\<close>

definition pushover_errors :: "api_out \<Rightarrow> string res" where
  "pushover_errors a =
     (case a of
        ApiRaise e \<Rightarrow> Inl e
      | ApiResp st ok (Some (JObj b)) \<Rightarrow>
          (case dict_get b ''errors'' of None \<Rightarrow> Inr (show_nat st)
           | Some j \<Rightarrow> res_bind (string_list j) (\<lambda>es. Inr (py_join '', '' es)))
      | ApiResp st ok None \<Rightarrow> raise ''JSONDecodeError'' ''Expecting value''
      | _ \<Rightarrow> raise ''AttributeError'' ''object has no attribute get'')"

definition setup_test_pushover :: "'b wizard_env \<Rightarrow> string \<Rightarrow> string \<Rightarrow> 'b web handler" where
  "setup_test_pushover env token0 user0 rq =
     (let token = py_strip token0; user_key = py_strip user0 in
      if token = [] \<or> user_key = [] then w_return (amber ''Enter an app token and user key first.'')
      else let a = wz_post env PUSHOVER_API [(''token'', token), (''user'', user_key), (''title'', ''Keepup test''),
                 (''message'', ''Keepup setup '' @ DASH @ '' Pushover is connected.'')] in
           w_return (if (case a of ApiResp st _ _ \<Rightarrow> st = 200 | _ \<Rightarrow> False) then good_message ''Test notification sent.''
             else case pushover_errors a of Inl e \<Rightarrow> bad_message (take 120 (exn_str e)) | Inr errors \<Rightarrow> bad_message errors))"

definition setup_save_pushover :: "'b wizard_env \<Rightarrow> string \<Rightarrow> string \<Rightarrow> string \<Rightarrow> 'b web handler" where
  "setup_save_pushover env token0 user0 enabled rq =
     (let token = py_strip token0; user_key = py_strip user0 in
      w_bind (if token \<noteq> [] then w_save_integration (wz_web env) ''pushover'' [text_field ''api_token'' token, text_field ''user_key'' user_key]
              else w_return ()) (\<lambda>_.
        w_bind (w_config (save_pushover_config (enabled = ''on''))) (\<lambda>_. w_return (good_message ''Pushover settings saved.''))))"

definition SCHEDULE_LABELS :: "(string \<times> string) list" where
  "SCHEDULE_LABELS = [(''6h'', ''every 6 hours''), (''12h'', ''every 12 hours''), (''24h'', ''daily''), (''manual'', ''manual only'')]"

definition setup_save_schedule :: "string \<Rightarrow> 'b web handler" where
  "setup_save_schedule key rq =
     w_bind (w_config (save_update_check_schedule key)) (\<lambda>_.
       w_return (good_message (''Update checks set to '' @ get_or (dict_get SCHEDULE_LABELS key) ''manual only'' @ ''.'')))"

record mail_form =
  mf_name :: string
  mf_sender :: string
  mf_recipient :: string
  mf_host :: string
  mf_port :: int
  mf_password :: string
  mf_tls :: string

definition form_email :: "mail_form \<Rightarrow> email" where
  "form_email f = \<lparr>em_sender_name = py_strip (mf_name f), em_sender_address = py_strip (mf_sender f),
     em_recipient_address = py_strip (mf_recipient f), em_smtp_host = py_strip (mf_host f), em_smtp_port = mf_port f,
     em_tls = (mf_tls f = ''on'')\<rparr>"

definition setup_save_email :: "'b wizard_env \<Rightarrow> mail_form \<Rightarrow> 'b web handler" where
  "setup_save_email env f rq =
     (let e = form_email f in
      if em_smtp_host e = [] then w_return (amber ''SMTP host is required.'')
      else w_bind (w_config (save_email_config (em_sender_name e) (em_sender_address e) (em_recipient_address e) (em_smtp_host e)
               (em_smtp_port e) (em_tls e))) (\<lambda>_.
             w_bind (if py_strip (mf_password f) \<noteq> []
                     then w_save_integration (wz_web env) ''email'' [text_field ''smtp_password'' (py_strip (mf_password f))]
                     else w_return ()) (\<lambda>_. w_return (good_message ''Email settings saved.''))))"

text \<open>The mail is sent by \<open>wz_mail\<close>, which logs in with the password when there is one.\<close>

definition setup_test_email :: "'b wizard_env \<Rightarrow> mail_form \<Rightarrow> 'b web handler" where
  "setup_test_email env f rq =
     (let e = form_email f in
      if em_smtp_host e = [] \<or> em_sender_address e = [] \<or> em_recipient_address e = []
      then w_return (amber ''Fill in SMTP host, sender and recipient first.'')
      else w_bind (if py_strip (mf_password f) = []
                   then w_bind (w_integration (wz_web env) ''email'') (\<lambda>creds. w_return (str_field creds ''smtp_password''))
                   else w_return (mf_password f)) (\<lambda>pw.
             w_return (case wz_mail env e pw of Inr _ \<Rightarrow> good_message ''Test email sent.''
               | Inl x \<Rightarrow> bad_message (take 160 (exn_str x)))))"

definition setup_delete_email :: "'b wizard_env \<Rightarrow> 'b web handler" where
  "setup_delete_email env rq =
     w_bind (w_config (\<lambda>d. save_config ((load_config d)\<lparr>c_email := None\<rparr>) d)) (\<lambda>_.
       w_bind (w_try (w_creds (delete_credentials (wz_crypto env) ''email''))) (\<lambda>_.
         w_return (html 200 (''<div class='' @ [DQUOTE] @ ''config-section'' @ [DQUOTE] @ '' id='' @ [DQUOTE] @ ''config-email''
           @ [DQUOTE] @ ''></div>''))))"

subsection \<open>Summary\<close>

definition setup_finish :: "'b web handler" where
  "setup_finish rq = w_return (redirect 303 ''/login'')"

definition all_fields :: "entry \<Rightarrow> string list \<Rightarrow> bool" where "all_fields e ks = list_all (field_truthy e) ks"

definition summary_item :: "string \<times> string \<times> bool \<Rightarrow> json list" where
  "summary_item i = (case i of (name, url, cred) \<Rightarrow> if url \<noteq> [] then [JList [JStr name, JBool (url \<noteq> [] \<or> cred)]] else [])"

definition setup_summary_page :: "'b wizard_env \<Rightarrow> 'b web handler" where
  "setup_summary_page env rq =
     (let creds = w_integration (wz_web env) in
      with_admin env (w_state (\<lambda>w. let d = wb_config w; hub = get_or (get_dockerhub_config d) [] in
        w_bind (creds ''proxmox'') (\<lambda>px. w_bind (creds ''proxmox_backup'') (\<lambda>pbs. w_bind (creds ''opnsense'') (\<lambda>opn.
        w_bind (creds ''pfsense'') (\<lambda>pf. w_bind (creds ''homeassistant'') (\<lambda>ha. w_bind (creds ''portainer'') (\<lambda>po.
        w_bind (creds ''pushover'') (\<lambda>push. w_bind (w_creds (\<lambda>c. let (b, c') = mfa_enrolled (wz_crypto env) c in (Inr b, c'))) (\<lambda>mfa.
        w_bind w_schedule (\<lambda>sched.
          w_return (page ''setup_summary.html''
            [(''timezone'', JStr (get_timezone d)), (''mfa_enabled'', JBool mfa), (''hosts'', listed_json (get_hosts d)),
             (''configured_integrations'', JList (concat (map summary_item
                [(''Proxmox VE'', url_of (get_proxmox_config d), all_fields px [''secret'']),
                 (''Proxmox Backup'', url_of (get_pbs_config d), all_fields pbs [''secret'']),
                 (''OPNsense'', url_of (get_opnsense_config d), all_fields opn [''api_key'', ''api_secret'']),
                 (''pfSense'', url_of (get_pfsense_config d), all_fields pf [''api_key'']),
                 (''Home Assistant'', url_of (get_homeassistant_config d), all_fields ha [''api_token'']),
                 (''Portainer'', url_of (get_portainer_config d), all_fields po [''api_key'']),
                 (''DockerHub'', hub, False)])
                @ (if hub \<noteq> [] then [JList [JStr ''DockerHub'', JBool True]] else []))),
             (''pushover_enabled'', JBool (get_or (get_pushover_config d) False \<and> field_truthy push ''api_token'')),
             (''update_schedule_label'', JStr (get_or (dict_get SCHEDULE_LABELS sched) ''manual only''))])))))))))))))"

subsection \<open>Only hosts that answered are added\<close>

datatype 'b ssh_request = AddHost "'b wizard_env" ssh_form | ConfirmAdd "'b wizard_env" string | RemoveHost "'b wizard_env" string

fun ssh_handler :: "'b ssh_request \<Rightarrow> 'b web handler" where
  "ssh_handler (AddHost env f) = setup_add_host env f"
| "ssh_handler (ConfirmAdd env docker) = setup_confirm_add_host env docker"
| "ssh_handler (RemoveHost env slug) = setup_remove_host env slug"

definition after_ssh :: "web_request \<Rightarrow> 'b ssh_request list \<Rightarrow> 'b web \<Rightarrow> 'b web" where
  "after_ssh rq rs w = foldl (\<lambda>w r. snd (ssh_handler r rq w)) w rs"

definition connected :: "'b wizard_env \<Rightarrow> ssh_form \<Rightarrow> bool" where
  "connected env f \<longleftrightarrow> fst (fst (verify_connection (wz_dial env) (wz_remote env) (form_host f) (form_creds f)))"

text \<open>The addresses that answered to one of the requests.\<close>

definition answered :: "'b ssh_request list \<Rightarrow> string set" where
  "answered rs = {py_strip (sf_host f) | env f. AddHost env f \<in> set rs \<and> connected env f}"

definition ssh_ok :: "'b ssh_request list \<Rightarrow> string option set \<Rightarrow> 'b web \<Rightarrow> bool" where
  "ssh_ok rs old w \<longleftrightarrow> set (addresses (wb_config w)) \<subseteq> old \<union> Some ` answered rs
     \<and> (\<forall>p. dict_get (wb_session w) ''pending_ssh_host'' = Some (JObj p) \<longrightarrow> str_field p ''host'' \<in> answered rs)"

lemma addresses_change_host:
  assumes "\<And>h. h_host (f h) = h_host h"
  shows "addresses (change_host slug f d) = addresses d"
proof -
  have "map h_host (filter (\<lambda>h. \<not> contains (get_or (h_host h) []) ''XXX'') (update_first P f hs))
      = map h_host (filter (\<lambda>h. \<not> contains (get_or (h_host h) []) ''XXX'') hs)" for P hs
    by (induction hs) (simp_all add: assms)
  then show ?thesis by (simp add: addresses_of_hosts change_host_def get_or_def split: option.splits)
qed

lemma addresses_delete_host: "set (addresses (delete_host slug d)) \<subseteq> set (addresses d)"
  by (auto simp: addresses_of_hosts delete_host_def get_or_def Let_def)

lemma keeps_add_address:
  "Some addr \<in> A \<Longrightarrow> w_keeps (\<lambda>w. set (addresses (wb_config w)) \<subseteq> A) (w_add_host name addr u p k dm node vmid sv)"
  by (auto simp: w_keeps_def w_add_host_def addresses_add case_prod_beta Let_def split: if_splits)

lemma keeps_password [w_keep]: "w_keeps (\<lambda>w. Q (wb_config w)) (w_save_password env slug pw)"
  unfolding w_save_password_def by (rule keeps_creds)

lemma keeps_auto: "w_keeps (\<lambda>w. set (addresses (wb_config w)) \<subseteq> A) (w_config (set_host_auto_update slug b sched r))"
  by (simp add: w_keeps_def w_config_def set_host_auto_update_def addresses_change_host)

lemma keeps_option: "(\<And>x. w_keeps P (f x)) \<Longrightarrow> w_keeps P m \<Longrightarrow> w_keeps P (case v of None \<Rightarrow> m | Some x \<Rightarrow> f x)"
  by (simp split: option.splits)

lemma store_host_addresses:
  "Some addr \<in> A \<Longrightarrow> w_keeps (\<lambda>w. set (addresses (wb_config w)) \<subseteq> A) (store_host env name addr user port key dm pw auto)"
  unfolding store_host_def
  by (intro keeps_bind keeps_add_address keeps_option keeps_if keeps_return keeps_auto keeps_password)

lemma keeps_session_basic:
  "w_keeps (\<lambda>w. Q (wb_session w)) (w_config h)" "w_keeps (\<lambda>w. Q (wb_session w)) (w_creds g)"
  "w_keeps (\<lambda>w. Q (wb_session w)) (w_add_host name addr u p k dm node vmid sv)"
  by (simp_all add: w_keeps_def w_config_def w_creds_def w_add_host_def case_prod_beta Let_def)

lemma store_host_session: "w_keeps (\<lambda>w. Q (wb_session w)) (store_host env name addr user port key dm pw auto)"
  unfolding store_host_def w_save_password_def by (intro keeps_bind keeps_option keeps_if keeps_return keeps_session_basic)

lemma keeps_section: "w_keeps P (ssh_section env extra)"
  unfolding ssh_section_def by (intro keeps_state keeps_return)

lemma stored_then_section:
  assumes "Some addr \<in> A" and "set (addresses (wb_config w)) \<subseteq> A"
  shows "set (addresses (wb_config (snd (w_bind (store_host env name addr user port key dm pw auto) (\<lambda>_. ssh_section env extra) w)))) \<subseteq> A
    \<and> wb_session (snd (w_bind (store_host env name addr user port key dm pw auto) (\<lambda>_. ssh_section env extra) w)) = wb_session w"
proof
  have "w_keeps (\<lambda>w. set (addresses (wb_config w)) \<subseteq> A) (w_bind (store_host env name addr user port key dm pw auto) (\<lambda>_. ssh_section env extra))"
    by (intro keeps_bind store_host_addresses keeps_section assms)
  then show "set (addresses (wb_config (snd (w_bind (store_host env name addr user port key dm pw auto) (\<lambda>_. ssh_section env extra) w)))) \<subseteq> A"
    by (rule keepsD [where P = "\<lambda>w. set (addresses (wb_config w)) \<subseteq> A"]) (rule assms(2))
  have "w_keeps (\<lambda>w'. wb_session w' = wb_session w) (w_bind (store_host env name addr user port key dm pw auto) (\<lambda>_. ssh_section env extra))"
    by (intro keeps_bind keeps_section store_host_session [where Q = "\<lambda>s. s = wb_session w"])
  then show "wb_session (snd (w_bind (store_host env name addr user port key dm pw auto) (\<lambda>_. ssh_section env extra) w)) = wb_session w"
    by (rule keepsD [where P = "\<lambda>w'. wb_session w' = wb_session w"]) (rule refl)
qed

lemma answered_more: "answered rs \<subseteq> answered (rs @ qs)"
  by (auto simp: answered_def)

lemma ssh_ok_more: "ssh_ok rs old w \<Longrightarrow> ssh_ok (rs @ qs) old w"
  using answered_more [of rs qs] unfolding ssh_ok_def by blast

lemma ssh_ok_section: "ssh_ok rs old (snd (ssh_section env extra w)) = ssh_ok rs old w"
  by (simp add: ssh_section_def w_state_def w_return_def)

lemma ssh_ok_add:
  assumes "ssh_ok rs old w"
  shows "ssh_ok (rs @ [AddHost env f]) old (snd (setup_add_host env f rq w))"
proof (cases "missing_fields f = [] \<and> connected env f")
  case False
  have "snd (setup_add_host env f rq w) = snd (ssh_section env [] w)"
  proof (cases "missing_fields f = []")
    case True
    then obtain msg where "fst (verify_connection (wz_dial env) (wz_remote env) (form_host f) (form_creds f)) = (False, msg)"
      using False by (metis (full_types) connected_def prod.collapse)
    then show ?thesis using True by (simp add: setup_add_host_def ssh_section_def w_state_def w_return_def Let_def)
  qed (simp add: setup_add_host_def ssh_section_def w_state_def w_return_def Let_def)
  then show ?thesis using ssh_ok_more [OF assms] by (simp add: ssh_ok_section)
next
  case True
  let ?rs = "rs @ [AddHost env f]" and ?a = "py_strip (sf_host f)"
  obtain msg where v: "fst (verify_connection (wz_dial env) (wz_remote env) (form_host f) (form_creds f)) = (True, msg)"
    using True by (metis connected_def prod.collapse)
  have a: "?a \<in> answered ?rs" using True by (auto simp: answered_def)
  show ?thesis
  proof (cases "fst (discover_containers (wz_loads env) (wz_dial env) (wz_remote env) (form_host f) (form_creds f)) = []")
    case True
    have "set (addresses (wb_config w)) \<subseteq> old \<union> Some ` answered ?rs" using ssh_ok_more [OF assms] by (simp add: ssh_ok_def)
    then show ?thesis using stored_then_section [of ?a "old \<union> Some ` answered ?rs" w] a v True
        \<open>missing_fields f = [] \<and> connected env f\<close> ssh_ok_more [OF assms, of "[AddHost env f]"]
      by (simp add: setup_add_host_def ssh_ok_def Let_def)
  next
    case found: False
    have p: "str_field p ''host'' = ?a" if "JObj p = pending_json f" for p
      using that by (simp add: pending_json_def str_field_def)
    have "snd (setup_add_host env f rq w) = w\<lparr>wb_session := dict_set ''pending_ssh_host'' (pending_json f) (wb_session w)\<rparr>"
      using True v found by (simp add: setup_add_host_def w_bind_def w_session_def ssh_section_def w_state_def w_return_def Let_def)
    then show ?thesis using ssh_ok_more [OF assms, of "[AddHost env f]"] a p by (auto simp: ssh_ok_def dict_simps)
  qed
qed

lemma ssh_ok_confirm:
  assumes "ssh_ok rs old w"
  shows "ssh_ok rs old (snd (setup_confirm_add_host env docker rq w))"
proof -
  let ?w = "w\<lparr>wb_session := dict_pop ''pending_ssh_host'' (wb_session w)\<rparr>"
  have popped: "ssh_ok rs old ?w" using assms by (auto simp: ssh_ok_def dict_simps)
  show ?thesis
  proof (cases "\<exists>p. dict_get (wb_session w) ''pending_ssh_host'' = Some (JObj p)")
    case True
    then obtain p where p: "dict_get (wb_session w) ''pending_ssh_host'' = Some (JObj p)" by blast
    have a: "Some (str_field p ''host'') \<in> old \<union> Some ` answered rs" using assms p by (auto simp: ssh_ok_def)
    have "set (addresses (wb_config ?w)) \<subseteq> old \<union> Some ` answered rs" using popped by (simp add: ssh_ok_def)
    note stored = stored_then_section [OF a this]
    show ?thesis using stored popped
      by (simp add: setup_confirm_add_host_def w_state_def p w_bind_def [of "w_session g" for g] w_session_def ssh_ok_def Let_def)
  next
    case False
    then have "snd (setup_confirm_add_host env docker rq w) = snd (ssh_section env [] ?w)"
      by (auto simp: setup_confirm_add_host_def w_state_def w_bind_def w_session_def ssh_section_def w_return_def
          split: option.splits json.splits)
    then show ?thesis using popped by (simp add: ssh_ok_section)
  qed
qed

lemma ssh_ok_remove:
  assumes "ssh_ok rs old w"
  shows "ssh_ok rs old (snd (setup_remove_host env slug rq w))"
proof -
  have "w_keeps (\<lambda>w. ssh_ok rs old w) (setup_remove_host env slug rq)"
    unfolding setup_remove_host_def
  proof (intro keeps_bind keeps_section)
    show "w_keeps (\<lambda>w. ssh_ok rs old w) (w_config (delete_host slug))"
      using addresses_delete_host by (fastforce simp: w_keeps_def w_config_def ssh_ok_def)
    show "w_keeps (\<lambda>w. ssh_ok rs old w) (w_creds (delete_credentials (wz_crypto env) slug))"
      by (simp add: w_keeps_def w_creds_def ssh_ok_def case_prod_beta Let_def)
  qed
  then show ?thesis using assms by (rule keepsD)
qed

lemma after_ssh_ok:
  assumes "set (addresses (wb_config w0)) \<subseteq> old" and "dict_get (wb_session w0) ''pending_ssh_host'' = None"
  shows "ssh_ok rs old (after_ssh rq rs w0)"
proof (induction rs rule: rev_induct)
  case Nil
  then show ?case using assms by (auto simp: after_ssh_def ssh_ok_def)
next
  case (snoc r rs)
  then show ?case by (cases r) (simp_all add: after_ssh_def ssh_ok_add ssh_ok_more ssh_ok_confirm ssh_ok_remove)
qed

text \<open>After any sequence of adding, confirming and removing hosts every address in the configuration either was there before or
  belongs to a host that Keepup logged in to with the data of the form, also when the host was added
  by confirming the question about its containers.\<close>
theorem only_hosts_that_answered:
  assumes "dict_get (wb_session w0) ''pending_ssh_host'' = None" and "(slug, h) \<in> set (get_hosts (wb_config (after_ssh rq rs w0)))"
  shows "h_host h \<in> set (addresses (wb_config w0)) \<or> (\<exists>env f. AddHost env f \<in> set rs \<and> connected env f \<and> h_host h = Some (py_strip (sf_host f)))"
proof -
  have "h_host h \<in> set (addresses (wb_config (after_ssh rq rs w0)))" using assms(2) by (force simp: addresses_def)
  then have "h_host h \<in> set (addresses (wb_config w0)) \<union> Some ` answered rs"
    using after_ssh_ok [OF order_refl assms(1), of rs rq] by (auto simp: ssh_ok_def)
  then show ?thesis by (auto simp: answered_def)
qed

definition nas_form :: ssh_form where
  "nas_form = \<lparr>sf_name = ''nas'', sf_host = ''10.0.0.3'', sf_user = ''root'', sf_port = ''22'', sf_auth = ''password'', sf_password = ''pw'',
     sf_key = [], sf_auto = ''on''\<rparr>"

definition silent :: "(string \<times> store) wizard_env" where
  "silent = demo_wizard\<lparr>wz_dial := (\<lambda>_. Some (Exn ''OSError'' ''unreachable'' []))\<rparr>"

lemma single_key: "map fst xs = [a] \<Longrightarrow> \<exists>b. (a, b) \<in> set xs"
  by (cases xs) auto

theorem only_hosts_that_answered_witness:
  "\<exists>h. (''nas'', h) \<in> set (get_hosts (wb_config (after_ssh home_request [AddHost silent nas_form, AddHost demo_wizard nas_form] demo_web)))
     \<and> (\<exists>env f. AddHost env f \<in> {AddHost silent nas_form, AddHost demo_wizard nas_form} \<and> connected env f \<and> h_host h = Some (py_strip (sf_host f)))"
proof -
  let ?rs = "[AddHost silent nas_form, AddHost demo_wizard nas_form]"
  have "map fst (get_hosts (wb_config (after_ssh home_request ?rs demo_web))) = [''nas'']" by code_simp
  from single_key [OF this]
  obtain h where h: "(''nas'', h) \<in> set (get_hosts (wb_config (after_ssh home_request ?rs demo_web)))" by blast
  have "dict_get (wb_session demo_web) ''pending_ssh_host'' = None" by (simp add: demo_web_def)
  moreover have "addresses (wb_config demo_web) = []" by code_simp
  ultimately have "\<exists>env f. AddHost env f \<in> set ?rs \<and> connected env f \<and> h_host h = Some (py_strip (sf_host f))"
    using only_hosts_that_answered [OF _ h] by simp
  then show ?thesis using h by auto
qed

subsection \<open>Every time zone is offered once\<close>

definition zones_of :: "(string \<times> string list) list \<Rightarrow> string multiset" where
  "zones_of gs = mset (concat (map snd gs))"

definition zone_region :: "string \<Rightarrow> string" where "zone_region z = hd (split_char CHR ''/'' z)"

definition zone_groups_ok :: "(string \<times> string list) list \<Rightarrow> bool" where
  "zone_groups_ok gs \<longleftrightarrow> dict_ok gs \<and> (\<forall>r zs. (r, zs) \<in> set gs \<longrightarrow> (\<forall>z \<in> set zs. zone_region z = r))"

lemma zones_of_set: "dict_ok gs \<Longrightarrow> zones_of (dict_set r zs gs) + mset (get_or (dict_get gs r) []) = zones_of gs + mset zs"
  by (induction gs) (auto simp: zones_of_def get_or_def dict_simps split: option.splits)

lemma group_zone_ok:
  assumes "zone_groups_ok gs"
  shows "zone_groups_ok (group_zone z gs) \<and> zones_of (group_zone z gs) = zones_of gs + {#z#}"
proof -
  have ok: "dict_ok gs" and regions: "\<And>r zs z. (r, zs) \<in> set gs \<Longrightarrow> z \<in> set zs \<Longrightarrow> zone_region z = r"
    using assms by (auto simp: zone_groups_ok_def)
  let ?r = "zone_region z" and ?zs = "get_or (dict_get gs (zone_region z)) [] @ [z]"
  have g: "group_zone z gs = dict_set ?r ?zs gs" by (simp add: group_zone_def zone_region_def Let_def)
  have old: "zone_region y = ?r" if "y \<in> set (get_or (dict_get gs ?r) [])" for y
    using that regions [of ?r _ y] map_of_SomeD [of gs ?r] by (cases "dict_get gs ?r") (auto simp: get_or_def)
  have "zone_region y = r" if "(r, zs) \<in> set (dict_set ?r ?zs gs)" and "y \<in> set zs" for r zs y
  proof -
    have "dict_get (dict_set ?r ?zs gs) r = Some zs" by (rule map_of_is_SomeI) (simp_all add: ok distinct_update that(1))
    then have e: "(if ?r = r then Some ?zs else dict_get gs r) = Some zs" by (auto simp: update_conv' split: if_splits)
    show ?thesis
    proof (cases "?r = r")
      case True
      then show ?thesis using e that(2) old by auto
    next
      case False
      then have "(r, zs) \<in> set gs" using e by (simp add: map_of_SomeD)
      then show ?thesis using regions that(2) by blast
    qed
  qed
  moreover have "dict_ok (dict_set ?r ?zs gs)" using ok by (simp add: distinct_update)
  ultimately have "zone_groups_ok (group_zone z gs)" unfolding zone_groups_ok_def g by blast
  moreover have "zones_of (group_zone z gs) = zones_of gs + {#z#}" using zones_of_set [OF ok, of ?r ?zs] by (simp add: g)
  ultimately show ?thesis by blast
qed

lemma grouped_zones: "zone_groups_ok gs \<Longrightarrow> zone_groups_ok (fold group_zone zs gs) \<and> zones_of (fold group_zone zs gs) = zones_of gs + mset zs"
  by (induction zs arbitrary: gs) (simp_all add: group_zone_ok)

text \<open>The welcome screen offers every time zone exactly once, in the group of its region, and the regions in order.\<close>
theorem every_zone_offered_once:
  "mset (concat (map snd (timezone_groups zones))) = mset zones \<and> sorted (map fst (timezone_groups zones))
   \<and> distinct (map fst (timezone_groups zones))
   \<and> list_all (\<lambda>(r, zs). list_all (\<lambda>z. hd (split_char CHR ''/'' z) = r) zs) (timezone_groups zones)"
proof -
  let ?gs = "fold group_zone (sort zones) []"
  have "zone_groups_ok []" by (simp add: zone_groups_ok_def)
  then have ok: "zone_groups_ok ?gs" and zs: "zones_of ?gs = mset zones"
    using grouped_zones [of "[]" "sort zones"] by (simp_all add: zones_of_def)
  have "mset (concat (map snd gs)) = sum_mset (image_mset (mset \<circ> snd) (mset gs))" for gs :: "(string \<times> string list) list"
    by (induction gs) simp_all
  then have "mset (concat (map snd (timezone_groups zones))) = mset zones" using zs by (simp add: timezone_groups_def zones_of_def)
  moreover have "distinct (map fst (timezone_groups zones))"
    using ok by (simp add: timezone_groups_def zone_groups_ok_def distinct_map)
  moreover have "list_all (\<lambda>(r, zs). list_all (\<lambda>z. hd (split_char CHR ''/'' z) = r) zs) (timezone_groups zones)"
    using ok by (auto simp: timezone_groups_def zone_groups_ok_def zone_region_def list_all_iff)
  ultimately show ?thesis by (simp add: timezone_groups_def)
qed

subsection \<open>What the wizard's last screens do not do\<close>

text \<open>The weekly updates of a host that the wizard added are never scheduled: \<open>weekly\<close> is no crontab.\<close>

lemma weekly_not_scheduled:
  assumes "map_of (get_hosts cfg) slug = Some h" and "au_os_schedule (auto_of h) = ''weekly''" and "\<not> cron_ok ''weekly''"
  shows "dict_get (apply_host_schedule cron_ok cfg slug jobs) (os_job_id slug) = None"
  using assms by (simp add: apply_host_schedule_def dict_simps Let_def)

text \<open>The test mail goes to the server that the request names, with the stored password when the request has none.\<close>

lemma stored_password_sent:
  assumes "ready (wz_crypto env) (wb_creds w)" and "py_strip (mf_password f) = []"
    and "em_smtp_host (form_email f) \<noteq> []" and "em_sender_address (form_email f) \<noteq> []" and "em_recipient_address (form_email f) \<noteq> []"
  shows "fst (setup_test_email env f rq w) =
    (case wz_mail env (form_email f) (str_field (get_or (dict_get (view (wz_crypto env) (wb_creds w)) (integration_key ''email'')) []) ''smtp_password'') of
       Inr _ \<Rightarrow> Inr (good_message ''Test email sent.'') | Inl x \<Rightarrow> Inr (bad_message (take 160 (exn_str x))))"
  using assms get_integration_ready(1) [OF assms(1), of "''email''"]
  by (auto simp: setup_test_email_def w_bind_def w_integration_def w_return_def wz_crypto_def Let_def case_prod_beta split: sum.splits)

text \<open>Deleting the mail settings removes the credentials of a host that is called \<open>email\<close>, and leaves those of the integration.\<close>

lemma mail_password_kept:
  assumes "ready (wz_crypto env) (wb_creds w)"
  shows "dict_get (view (wz_crypto env) (wb_creds (snd (setup_delete_email env rq w)))) (integration_key ''email'')
    = dict_get (view (wz_crypto env) (wb_creds w)) (integration_key ''email'')"
proof -
  obtain d' where "delete_credentials (wz_crypto env) ''email'' (wb_creds w) = (Inr (), d')"
    "view (wz_crypto env) d' = dict_pop ''email'' (view (wz_crypto env) (wb_creds w))"
    using load_save_ready [OF assms, of "dict_pop ''email''"] unfolding delete_credentials_def by blast
  moreover have "integration_key ''email'' \<noteq> ''email''" by (simp add: integration_key_def)
  ultimately show ?thesis
    by (simp add: setup_delete_email_def w_bind_def w_config_def w_try_def w_creds_def w_return_def dict_simps)
qed

end
