(* ===== verification/AdminIntegrations.thy ===== *)
theory AdminIntegrations
  imports SetupHosts
begin

section \<open>The administration of integrations and connections (app/admin.py)\<close>

text \<open>
  The pages that show the integrations with their state, the tests and saves of Portainer and Docker Hub, the Proxmox servers:
  discovery, selection of guests, nodes, and the removal of a server with its prompt; Pushover.  The environment is the wizard's.
\<close>

definition w_audit :: "'b wizard_env \<Rightarrow> web_request \<Rightarrow> string \<Rightarrow> string \<Rightarrow> ('b web, unit) web_steps" where
  "w_audit env rq action target w = (Inr (), audit_admin (wz_web env) rq action target w)"

text \<open>A short answer in one of three colours.\<close>

definition styled :: "string \<Rightarrow> string \<Rightarrow> web_response" where
  "styled colour s = html 200 (''<span style='' @ [DQUOTE] @ ''font-size:12px;color:#'' @ colour @ [DQUOTE] @ ''>'' @ s @ ''</span>'')"

definition styled_good :: "string \<Rightarrow> web_response" where "styled_good s = styled ''3fb950'' (''&#10003; '' @ s)"
definition styled_bad :: "string \<Rightarrow> web_response" where "styled_bad s = styled ''f85149'' s"
definition styled_grey :: "string \<Rightarrow> web_response" where "styled_grey s = styled ''8b949e'' s"

subsection \<open>What the pages show\<close>

definition connection_status :: "'b wizard_env \<Rightarrow> ('b web, entry) web_steps" where
  "connection_status env =
     w_bind (w_integration (wz_web env) ''pushover'') (\<lambda>po. w_bind (w_integration (wz_web env) ''email'') (\<lambda>em.
       w_state (\<lambda>w. w_return
         ([(''pushover_token_set'', JBool (field_truthy po ''api_token'')), (''pushover_user_set'', JBool (field_truthy po ''user_key'')),
           (''pushover_enabled'', JBool (get_or (get_pushover_config (wb_config w)) False))]
          @ email_json (get_email_config (wb_config w))
          @ [(''email_password_set'', JBool (field_truthy em ''smtp_password''))]))))"

definition ssh_state :: "entry \<Rightarrow> string" where
  "ssh_state creds =
     (if field_truthy creds ''ssh_password'' then ''password'' else if field_truthy creds ''ssh_key'' then ''key'' else ''none'')"

definition secret_set :: "entry \<Rightarrow> bool" where
  "secret_set creds \<longleftrightarrow> field_truthy creds ''secret'' \<or> field_truthy creds ''api_token''"

definition fp_of :: "service \<Rightarrow> string" where "fp_of cfg = get_or (sv_fp cfg) []"

definition proxmox_card :: "'b wizard_env \<Rightarrow> server \<Rightarrow> ('b web, json) web_steps" where
  "proxmox_card env s =
     (let sid = srv_id s; cfg = srv_block s; url = url_of cfg in
      w_bind (if sid \<noteq> [] then w_integration (wz_web env) (''proxmox_'' @ sid) else w_return []) (\<lambda>creds.
        w_bind (w_lift (url_hostname url)) (\<lambda>h. w_return (JObj
          [(''id'', JStr sid), (''is_new'', JBool False), (''url'', JStr url), (''host_label'', JStr (or_s h url)),
           (''api_user'', JStr (str_field creds ''api_user'')), (''token_id'', JStr (str_field creds ''token_id'')),
           (''secret_set'', JBool (secret_set creds)), (''configured'', JBool (url \<noteq> [] \<and> secret_set creds)),
           (''pinned'', JBool (fp_of cfg \<noteq> [])), (''cert_fingerprint'', JStr (fp_of cfg)),
           (''verify_ssl'', JBool (get_or (sv_verify cfg) True)), (''ssh_user'', JStr (str_field creds ''ssh_user'')),
           (''ssh_key'', JStr (str_field creds ''ssh_key'')), (''ssh_password_set'', JBool (field_truthy creds ''ssh_password'')),
           (''ssh_state'', JStr (ssh_state creds))]))))"

definition proxmox_blank_card :: json where
  "proxmox_blank_card = JObj
     [(''id'', JStr []), (''is_new'', JBool True), (''url'', JStr []), (''host_label'', JStr []), (''api_user'', JStr []),
      (''token_id'', JStr []), (''secret_set'', JBool False), (''configured'', JBool False), (''pinned'', JBool False),
      (''cert_fingerprint'', JStr []), (''verify_ssl'', JBool True), (''ssh_user'', JStr []), (''ssh_key'', JStr []),
      (''ssh_password_set'', JBool False), (''ssh_state'', JStr ''none'')]"

definition resolve_proxmox_server :: "'b wizard_env \<Rightarrow> string \<Rightarrow> ('b web, string \<times> service \<times> entry) web_steps" where
  "resolve_proxmox_server env server_id =
     w_state (\<lambda>w. let d = wb_config w; answer = (\<lambda>sid. w_bind (w_integration (wz_web env) (''proxmox_'' @ sid)) (\<lambda>creds.
                  w_return (sid, server_block sid d, creds))) in
       if server_id \<noteq> [] then answer server_id
       else (case get_proxmox_servers d of
               s # _ \<Rightarrow> answer (srv_id s)
             | [] \<Rightarrow> w_bind (w_integration (wz_web env) ''proxmox'') (\<lambda>creds. w_return ([], get_proxmox_config d, creds))))"

definition pinned_fields :: "string \<Rightarrow> service \<Rightarrow> entry" where
  "pinned_fields name cfg = [(name @ ''_pinned'', JBool (fp_of cfg \<noteq> [])), (name @ ''_cert_fingerprint'', JStr (fp_of cfg))]"

definition verify_field :: "string \<Rightarrow> service \<Rightarrow> entry" where
  "verify_field name cfg = [(name @ ''_verify_ssl'', JBool (get_or (sv_verify cfg) True))]"

definition token_fields :: "string \<Rightarrow> service \<Rightarrow> entry \<Rightarrow> entry" where
  "token_fields name cfg creds =
     [(name @ ''_url'', JStr (url_of cfg)), (name @ ''_api_user'', JStr (str_field creds ''api_user'')),
      (name @ ''_token_id'', JStr (str_field creds ''token_id'')), (name @ ''_secret_set'', JBool (secret_set creds)),
      (name @ ''_configured'', JBool (url_of cfg \<noteq> [] \<and> secret_set creds))] @ pinned_fields name cfg @ verify_field name cfg"

definition key_fields :: "string \<Rightarrow> service \<Rightarrow> entry \<Rightarrow> string \<Rightarrow> entry" where
  "key_fields name cfg creds key =
     [(name @ ''_url'', JStr (url_of cfg)), (name @ ''_configured'', JBool (url_of cfg \<noteq> [] \<and> field_truthy creds key))]"

definition integration_status :: "'b wizard_env \<Rightarrow> ('b web, entry) web_steps" where
  "integration_status env =
     (let creds = w_integration (wz_web env) in
      w_state (\<lambda>w. let d = wb_config w; hub = get_or (get_dockerhub_config d) [] in
        w_bind (creds ''proxmox'') (\<lambda>px. w_bind (creds ''proxmox_backup'') (\<lambda>pbs. w_bind (creds ''opnsense'') (\<lambda>opn.
        w_bind (creds ''pfsense'') (\<lambda>pf. w_bind (creds ''homeassistant'') (\<lambda>ha. w_bind (creds ''portainer'') (\<lambda>po.
        w_bind (creds ''dockerhub'') (\<lambda>dh. w_bind (w_map (proxmox_card env) (get_proxmox_servers d)) (\<lambda>cards.
          w_return
            ([(''proxmox_servers'', JList cards), (''proxmox_blank'', proxmox_blank_card)]
             @ token_fields ''proxmox'' (get_proxmox_config d) px
             @ [(''proxmox_ssh_user'', JStr (str_field px ''ssh_user'')), (''proxmox_ssh_key'', JStr (str_field px ''ssh_key'')),
                (''proxmox_ssh_password_set'', JBool (field_truthy px ''ssh_password''))]
             @ token_fields ''pbs'' (get_pbs_config d) pbs
             @ key_fields ''opnsense'' (get_opnsense_config d) opn ''api_key'' @ pinned_fields ''opnsense'' (get_opnsense_config d)
             @ verify_field ''opnsense'' (get_opnsense_config d)
             @ key_fields ''pfsense'' (get_pfsense_config d) pf ''api_key'' @ pinned_fields ''pfsense'' (get_pfsense_config d)
             @ verify_field ''pfsense'' (get_pfsense_config d)
             @ key_fields ''ha'' (get_homeassistant_config d) ha ''token'' @ verify_field ''ha'' (get_homeassistant_config d)
             @ key_fields ''portainer'' (get_portainer_config d) po ''api_key''
             @ [(''portainer_key_set'', JBool (field_truthy po ''api_key''))] @ pinned_fields ''portainer'' (get_portainer_config d)
             @ [(''dockerhub_user'', JStr hub), (''dockerhub_token_set'', JBool (field_truthy dh ''token'')),
                (''dockerhub_configured'', JBool (hub \<noteq> [] \<and> field_truthy dh ''token''))])))))))))))"

definition admin_page :: "'b web handler" where
  "admin_page rq = w_return (redirect 302 ''/admin/connections'')"

definition keys_json :: "'b wizard_env \<Rightarrow> json" where "keys_json env = JList (map JStr (wz_keys env))"

definition admin_integrations :: "'b wizard_env \<Rightarrow> 'b web handler" where
  "admin_integrations env rq =
     w_bind (integration_status env) (\<lambda>st. w_return (page ''admin_integrations.html''
       [(''integ'', JObj st), (''available_keys'', keys_json env), (''app_version'', JStr APP_VERSION)]))"

definition admin_connections :: "'b wizard_env \<Rightarrow> 'b web handler" where
  "admin_connections env rq =
     w_bind (connection_status env) (\<lambda>st. w_return (page ''admin.html'' [(''conn'', JObj st), (''app_version'', JStr APP_VERSION)]))"

definition not_found :: web_response where
  "not_found = \<lparr>ws_status = 404, ws_headers = [], ws_body = JsonBody [(''detail'', JStr ''Not Found'')]\<rparr>"

definition admin_ssh_page :: "'b web handler" where "admin_ssh_page rq = w_return not_found"
definition admin_update_ssh :: "'b web handler" where "admin_update_ssh rq = w_return not_found"

subsection \<open>Portainer and Docker Hub\<close>

definition admin_hint :: "string \<Rightarrow> string" where
  "admin_hint msg =
     (if refused_text msg then ''Invalid API token '' @ DASH @ '' check you copied it correctly.''
      else if contains msg ''Name or service not known'' \<or> contains (py_lower msg) ''connect''
      then ''Can'' @ [QUOTE] @ ''t reach that address '' @ DASH @ '' check the URL and that Portainer is running.''
      else msg)"

definition portainer_test :: "wizard_net \<Rightarrow> string \<Rightarrow> string \<Rightarrow> string \<Rightarrow> string \<Rightarrow> 'b web handler" where
  "portainer_test net path url0 key0 trust rq w =
     (let url = clean_url url0; key = py_strip key0 in
      if url = [] \<or> key = [] then (Inr (amber ''Enter a URL and API token first.''), w)
      else let ask = (\<lambda>pem. environments_text (wn_portainer net url key pem)) in
           run_cert_test net
             \<lparr>tt_key = ''portainer'', tt_context = (\<lambda>_. Inr ()), tt_probe = ask, tt_unverified = ask [],
              tt_stored = get_or (sv_pem (get_portainer_config (wb_config w))) [], tt_hint = admin_hint, tt_url = url,
              tt_path = path, tt_include = ''#port-url,#port-key'', tt_target = ''#portainer-test-result'',
              tt_next = ''apply.''\<rparr> [] trust rq w)"

definition admin_integrations_test_portainer :: "'b wizard_env \<Rightarrow> string \<Rightarrow> string \<Rightarrow> string \<Rightarrow> 'b web handler" where
  "admin_integrations_test_portainer env = portainer_test (wz_net env) ''/admin/integrations/portainer/test''"

definition admin_test_portainer :: "'b wizard_env \<Rightarrow> string \<Rightarrow> string \<Rightarrow> string \<Rightarrow> 'b web handler" where
  "admin_test_portainer env = portainer_test (wz_net env) ''/admin/connections/portainer/test''"

text \<open>\<open>reload_backends\<close> follows the saves; it is a function of what they leave.\<close>

definition admin_integrations_save_portainer :: "'b wizard_env \<Rightarrow> string \<Rightarrow> string \<Rightarrow> 'b web handler" where
  "admin_integrations_save_portainer env url0 key0 rq =
     (let key = py_strip key0 in
      w_bind (take_confirmed ''portainer'') (\<lambda>(pem, fp).
        w_bind (w_config (save_portainer_config (clean_url url0) pem fp)) (\<lambda>_.
          w_bind (if key \<noteq> []
                  then w_bind (w_save_integration (wz_web env) ''portainer'' [text_field ''api_key'' key]) (\<lambda>_.
                         w_audit env rq ''credential.save'' ''portainer'')
                  else w_return ()) (\<lambda>_. w_return (styled_good ''Portainer saved.'')))))"

definition save_hub :: "'b wizard_env \<Rightarrow> string \<Rightarrow> string \<Rightarrow> ('b web, unit) web_steps" where
  "save_hub env user0 token0 =
     (let user = py_strip user0; token = py_strip token0 in
      w_bind (w_config (save_dockerhub_config user)) (\<lambda>_.
        if token \<noteq> [] then w_save_integration (wz_web env) ''dockerhub'' [text_field ''token'' token]
        else if user = [] then w_save_integration (wz_web env) ''dockerhub'' [text_field ''token'' []]
        else w_return ()))"

definition admin_integrations_save_dockerhub :: "'b wizard_env \<Rightarrow> string \<Rightarrow> string \<Rightarrow> 'b web handler" where
  "admin_integrations_save_dockerhub env user token rq =
     w_bind (save_hub env user token) (\<lambda>_. w_return (styled_good ''Docker Hub saved.''))"

definition connections_page :: "'b wizard_env \<Rightarrow> string \<Rightarrow> ('b web, web_response) web_steps" where
  "connections_page env fl =
     w_bind (connection_status env) (\<lambda>st. w_return (page ''partials/admin_connections.html'' [(''conn'', JObj st), (fl, JBool True)]))"

definition admin_save_portainer :: "'b wizard_env \<Rightarrow> string \<Rightarrow> string \<Rightarrow> 'b web handler" where
  "admin_save_portainer env url0 key0 rq =
     (let key = py_strip key0 in
      w_bind (take_confirmed ''portainer'') (\<lambda>(pem, fp).
        w_bind (w_config (save_portainer_config (clean_url url0) pem fp)) (\<lambda>_.
          w_bind (if key \<noteq> [] then w_save_integration (wz_web env) ''portainer'' [text_field ''api_key'' key] else w_return ()) (\<lambda>_.
            connections_page env ''portainer_saved''))))"

definition admin_save_dockerhub :: "'b wizard_env \<Rightarrow> string \<Rightarrow> string \<Rightarrow> 'b web handler" where
  "admin_save_dockerhub env user token rq =
     w_bind (save_hub env user token) (\<lambda>_. connections_page env ''dockerhub_saved'')"

definition admin_test_pushover :: "'b wizard_env \<Rightarrow> 'b web handler" where
  "admin_test_pushover env rq =
     w_bind (w_integration (wz_web env) ''pushover'') (\<lambda>creds. w_return
       (if send_pushover (\<lambda>url form. case wz_post env url form of ApiResp st _ _ \<Rightarrow> Some st | ApiRaise _ \<Rightarrow> None) creds
             ''Test'' ''Keepup test notification''
        then good_message ''Test notification sent successfully.''
        else bad_message (''Failed '' @ DASH @ '' check your API token and user key.'')))"

definition admin_save_pushover :: "'b wizard_env \<Rightarrow> string \<Rightarrow> string \<Rightarrow> string \<Rightarrow> 'b web handler" where
  "admin_save_pushover env token0 user0 enabled rq =
     (let token = py_strip token0; user_key = py_strip user0; save = (\<lambda>k v. if v \<noteq> []
            then w_save_integration (wz_web env) ''pushover'' [text_field k v] else w_return ()) in
      w_bind (w_config (save_pushover_config (enabled = ''on''))) (\<lambda>_. w_bind (save ''api_token'' token) (\<lambda>_.
        w_bind (save ''user_key'' user_key) (\<lambda>_. connections_page env ''pushover_saved''))))"

subsection \<open>Proxmox servers\<close>

definition admin_client :: "string \<Rightarrow> service \<Rightarrow> entry \<Rightarrow> px_client" where
  "admin_client url cfg creds = server_client url (assemble_token creds) cfg"

definition admin_proxmox_discover :: "'b wizard_env \<Rightarrow> string \<Rightarrow> 'b web handler" where
  "admin_proxmox_discover env server0 rq =
     w_bind (resolve_proxmox_server env server0) (\<lambda>(server_id, cfg, creds). w_return
       (if url_of cfg = [] \<or> assemble_token creds = [] then styled_bad ''Proxmox not configured.''
        else page ''partials/admin_proxmox_discover.html''
          [(''resources'', JList (map resource_json (discover_resources (wn_px (wz_net env) (admin_client (url_of cfg) cfg creds))))),
           (''server_id'', JStr server_id)]))"

text \<open>What becomes of one choice: nothing, a skipped name, or a guest.\<close>

datatype choice = Ignored | Skipped string | Guest bool string "int option" string string

definition chosen_guest :: "string list \<Rightarrow> string \<Rightarrow> choice" where
  "chosen_guest known entry =
     (case split_max 4 '':'' entry of
        node # vmid # rtype # name # more_parts \<Rightarrow>
          (case more_parts of
             ip # _ \<Rightarrow> if ip = [] \<or> ip \<in> set known then Skipped name
                       else Guest (rtype = ''lxc'') node (if all_digits vmid then py_int vmid else None) name ip
           | [] \<Rightarrow> Skipped name)
      | _ \<Rightarrow> Ignored)"

record selection =
  se_lxcs :: "string list"
  se_vms :: "string list"
  se_skipped :: "string list"

text \<open>\<open>add_host\<close> with a type, which the wizard never gives.\<close>

definition w_add_guest :: "bool \<Rightarrow> string \<Rightarrow> string \<Rightarrow> string \<Rightarrow> int option \<Rightarrow> string \<Rightarrow> ('b web, string) web_steps" where
  "w_add_guest is_lxc name ip node vmid server_id w =
     (let (slug, d) = add_host name ip None None None (if is_lxc then Some ''all'' else None) (Some node) vmid
            (Some (if is_lxc then ''lxc'' else ''vm'')) (or_none server_id) (wb_config w)
      in (Inr slug, w\<lparr>wb_config := d\<rparr>))"

fun add_selected :: "string \<Rightarrow> string list \<Rightarrow> string list \<Rightarrow> selection \<Rightarrow> ('b web, selection) web_steps" where
  "add_selected server_id [] known sel = w_return sel"
| "add_selected server_id (e # es) known sel =
     (case chosen_guest known e of
        Ignored \<Rightarrow> add_selected server_id es known sel
      | Skipped name \<Rightarrow> add_selected server_id es known (sel\<lparr>se_skipped := se_skipped sel @ [name]\<rparr>)
      | Guest is_lxc node vmid name ip \<Rightarrow>
          w_bind (w_add_guest is_lxc name ip node vmid server_id) (\<lambda>_. add_selected server_id es (ip # known)
            (if is_lxc then sel\<lparr>se_lxcs := se_lxcs sel @ [name]\<rparr> else sel\<lparr>se_vms := se_vms sel @ [name]\<rparr>)))"

definition counted_as :: "nat \<Rightarrow> string \<Rightarrow> string" where
  "counted_as n what = show_nat n @ '' '' @ what @ (if n \<noteq> 1 then ''s'' else [])"

definition hosts_link :: string where
  "hosts_link = ''<a href='' @ [DQUOTE] @ ''/admin/hosts'' @ [DQUOTE] @ '' style='' @ [DQUOTE]
     @ ''color:#388bfd;text-decoration:underline'' @ [DQUOTE] @ ''>Go to Hosts '' @ [CHR 0xE2, CHR 0x86, CHR 0x92] @ ''</a>''"

definition selection_message :: "selection \<Rightarrow> web_response" where
  "selection_message sel =
     (let l = length (se_lxcs sel); v = length (se_vms sel); k = length (se_skipped sel) in
      if l = 0 \<and> v = 0
      then styled_grey (''No hosts added'' @ (if k \<noteq> 0 then '' '' @ DASH @ '' '' @ show_nat k @ '' already exist or have no IP'' else []) @ ''.'')
      else styled_good (py_join ''; ''
        ((if l \<noteq> 0 then [counted_as l ''LXC'' @ '' added (managed via Proxmox API)''] else [])
         @ (if v \<noteq> 0 then [counted_as v ''VM'' @ '' added '' @ DASH @ '' configure SSH from Admin '' @ CRUMB @ '' Hosts''] else [])
         @ (if k \<noteq> 0 then [show_nat k @ '' skipped (no IP or duplicate)''] else [])) @ ''. '' @ hosts_link))"

definition admin_proxmox_select_hosts :: "'b wizard_env \<Rightarrow> string list \<Rightarrow> string \<Rightarrow> 'b web handler" where
  "admin_proxmox_select_hosts env selected server0 rq =
     w_bind (resolve_proxmox_server env server0) (\<lambda>(server_id, cfg, creds). w_state (\<lambda>w.
       w_bind (w_lift (known_addresses (wb_config w))) (\<lambda>known.
         w_bind (add_selected server_id selected known \<lparr>se_lxcs = [], se_vms = [], se_skipped = []\<rparr>) (\<lambda>sel.
           w_return (selection_message sel)))))"

text \<open>The nodes as hosts: unlike in the wizard an address without a name is not left out.\<close>

fun add_node_hosts :: "string \<Rightarrow> string \<Rightarrow> json list \<Rightarrow> string list \<Rightarrow> string list \<Rightarrow> ('b web, string list) web_steps" where
  "add_node_hosts server_id addr [] known added = w_return added"
| "add_node_hosts server_id addr (n # ns) known added =
     (if addr \<in> set known then add_node_hosts server_id addr ns known added
      else w_bind (w_add_host (''Proxmox VE ('' @ json_text n @ '')'') addr None None None None (Some (json_text n)) None
             (or_none server_id)) (\<lambda>_. add_node_hosts server_id addr ns (addr # known) (added @ [json_text n])))"

definition admin_proxmox_add_node_host :: "'b wizard_env \<Rightarrow> string \<Rightarrow> 'b web handler" where
  "admin_proxmox_add_node_host env server0 rq =
     w_bind (resolve_proxmox_server env server0) (\<lambda>(server_id, cfg, creds).
       if url_of cfg = [] \<or> assemble_token creds = [] then w_return (styled_bad ''Proxmox not configured.'')
       else w_bind (w_lift (url_hostname (url_of cfg))) (\<lambda>addr.
         case get_nodes (wn_px (wz_net env) (admin_client (url_of cfg) cfg creds)) of
           Inl e \<Rightarrow> w_return (styled_bad (''Could not reach Proxmox API: '' @ exn_str e))
         | Inr nodes \<Rightarrow> w_state (\<lambda>w. w_bind (w_lift (known_addresses (wb_config w))) (\<lambda>known.
             w_bind (add_node_hosts server_id (get_or addr []) nodes known []) (\<lambda>added. w_return
               (if added = [] then styled_grey ''Proxmox node already added.''
                else styled_good (''Added: '' @ py_join '', '' added @ ''. '' @ hosts_link)))))))"

definition admin_proxmox_add_server :: "'b wizard_env \<Rightarrow> 'b web handler" where
  "admin_proxmox_add_server env rq =
     w_state (\<lambda>w. w_return (page ''partials/admin_proxmox_card.html''
       [(''s'', proxmox_blank_card), (''integ'', JObj [(''proxmox_servers'',
           JList (map (\<lambda>s. server_json (srv_id s) (url_of (srv_block s))) (get_proxmox_servers (wb_config w))))]),
        (''available_keys'', keys_json env)]))"

subsection \<open>Removing a server\<close>

definition hosts_lost_with_server :: "string \<Rightarrow> disk \<Rightarrow> string list \<times> string list" where
  "hosts_lost_with_server server_id d =
     (let mine = filter (\<lambda>h. h_proxmox_server h = Some server_id) (map snd (get_hosts d));
          is_vm = (\<lambda>h. h_proxmox_vmid h \<noteq> None \<and> h_proxmox_type h = Some ''vm'')
      in (map h_name (filter (\<lambda>h. \<not> is_vm h) mine), map h_name (filter is_vm mine)))"

definition prompt_line :: "string \<Rightarrow> string \<Rightarrow> string" where
  "prompt_line style text = ''<div style='' @ [DQUOTE] @ style @ [DQUOTE] @ ''>'' @ text @ ''</div>''"

definition remove_button :: "string \<Rightarrow> string" where
  "remove_button server_id =
     ''<button class='' @ [DQUOTE] @ ''btn-test'' @ [DQUOTE] @ '' hx-post='' @ [DQUOTE] @ ''/admin/integrations/proxmox/remove-server'' @ [DQUOTE]
     @ '' hx-vals='' @ [QUOTE] @ ''{'' @ [DQUOTE] @ ''server_id'' @ [DQUOTE] @ '': '' @ [DQUOTE] @ server_id @ [DQUOTE] @ ''}'' @ [QUOTE]
     @ '' hx-target='' @ [DQUOTE] @ ''#config-proxmox'' @ [DQUOTE] @ '' hx-swap='' @ [DQUOTE] @ ''outerHTML'' @ [DQUOTE]
     @ '' style='' @ [DQUOTE] @ ''color:#f85149;border-color:#5a1e1e;'' @ [DQUOTE] @ ''>Yes, remove it</button>''"

definition removal_prompt :: "string \<Rightarrow> string \<Rightarrow> string list \<times> string list \<Rightarrow> string" where
  "removal_prompt server_id url lost =
     (let (dropped, converted) = lost in
      prompt_line ''font-size:12px;color:#e6edf3;margin-bottom:6px;'' (''Remove <strong>'' @ html_escape url @ ''</strong>?'')
      @ (if dropped \<noteq> [] then prompt_line ''font-size:11px;color:#f85149;margin-bottom:4px;''
           (''These hosts will be deleted: '' @ html_escape (py_join '', '' dropped) @ ''.'') else [])
      @ (if converted \<noteq> [] then prompt_line ''font-size:11px;color:#8b949e;margin-bottom:4px;''
           (''These VMs will be kept as plain SSH hosts: '' @ html_escape (py_join '', '' converted) @ ''.'') else [])
      @ (if dropped = [] \<and> converted = [] then prompt_line ''font-size:11px;color:#8b949e;margin-bottom:4px;''
           ''No hosts reference this server.'' else [])
      @ remove_button server_id)"

definition admin_proxmox_remove_server_confirm :: "string \<Rightarrow> 'b web handler" where
  "admin_proxmox_remove_server_confirm server_id rq =
     w_state (\<lambda>w. w_return (case get_proxmox_server server_id (wb_config w) of
         None \<Rightarrow> styled_bad ''Unknown Proxmox server.''
       | Some s \<Rightarrow> html 200 (removal_prompt server_id (url_of (srv_block s)) (hosts_lost_with_server server_id (wb_config w)))))"

definition admin_proxmox_remove_server :: "'b wizard_env \<Rightarrow> string \<Rightarrow> 'b web handler" where
  "admin_proxmox_remove_server env server_id rq =
     w_state (\<lambda>w. case get_proxmox_server server_id (wb_config w) of
         None \<Rightarrow> w_return (styled_bad ''Unknown Proxmox server.'')
       | Some s \<Rightarrow>
           w_bind (w_both (delete_proxmox_server (wz_crypto env) server_id)) (\<lambda>_.
             w_bind (w_audit env rq ''proxmox.server.remove'' server_id) (\<lambda>_.
               w_bind (integration_status env) (\<lambda>st. w_return (page ''partials/admin_proxmox_section.html''
                 [(''integ'', JObj st), (''available_keys'', keys_json env)])))))"

subsection \<open>The prompt tells what the removal does\<close>

lemma filter_map_filter: "(\<And>h h'. k h = Some h' \<Longrightarrow> P h' = P h) \<Longrightarrow> filter P (List.map_filter k hs) = List.map_filter k (filter P hs)"
  by (induction hs) (auto simp: List.map_filter_simps split: option.splits)

lemma visible_hosts: "map snd (get_hosts d) = filter (\<lambda>h. \<not> contains (get_or (h_host h) []) ''XXX'') (hosts_of (load_config d))"
  by (simp add: get_hosts_def comp_def)

text \<open>C21. The prompt of a removal is accurate: of the hosts that are shown, those that it says will be deleted are the ones that the
  removal drops, those that it says will be kept as plain hosts are the ones it strips of their Proxmox fields, and the hosts shown
  afterwards are the rest, unchanged, with the stripped ones in their places.\<close>
theorem removal_prompt_accurate:
  assumes "server_id \<in> set (map srv_id (get_proxmox_servers d))"
  shows "let shown = map snd (get_hosts d); (dropped, converted) = hosts_lost_with_server server_id d in
    map snd (get_hosts (fst (snd (delete_proxmox_server cr server_id (d, creds))))) = List.map_filter (kept_host server_id) shown
    \<and> dropped = map h_name (filter (\<lambda>h. kept_host server_id h = None) shown)
    \<and> converted = map h_name (filter (\<lambda>h. h_proxmox_server h = Some server_id \<and> kept_host server_id h = Some (strip_proxmox h)) shown)"
proof -
  have mem: "server_id \<in> set (map srv_id (servers_of (load_config d)))" using assms by (simp add: get_proxmox_servers_def)
  then have hosts: "hosts_of (load_config (fst (snd (delete_proxmox_server cr server_id (d, creds)))))
      = List.map_filter (kept_host server_id) (hosts_of (load_config d))"
    unfolding delete_proxmox_server_def by (auto simp: Let_def simp del: set_map split: prod.splits sum.splits)
  have "map snd (get_hosts (fst (snd (delete_proxmox_server cr server_id (d, creds))))) = List.map_filter (kept_host server_id) (map snd (get_hosts d))"
    unfolding visible_hosts hosts by (rule filter_map_filter) (simp add: kept_host_address)
  moreover have "kept_host server_id h = None \<longleftrightarrow> h_proxmox_server h = Some server_id \<and> \<not> is_vm_host h"
    and "h_proxmox_server h = Some server_id \<Longrightarrow> kept_host server_id h = Some (strip_proxmox h) \<longleftrightarrow> is_vm_host h" for h
    by (simp_all add: kept_host_def)
  ultimately show ?thesis
    by (simp add: hosts_lost_with_server_def Let_def is_vm_host_def conj_commute cong: conj_cong)
qed

definition guest_host :: "string \<Rightarrow> string \<Rightarrow> host" where
  "guest_host name ptype = build_host_entry name (''10.0.0.'' @ name) None None None None (Some ''pve'') (Some 101) (Some ptype) (Some ''pve'')"

definition guests_disk :: disk where
  "guests_disk = Some (empty_config\<lparr>c_proxmox_servers := Some [\<lparr>srv_id = ''pve'', srv_block = empty_service\<rparr>],
     c_hosts := Some [guest_host ''5'' ''lxc'', guest_host ''6'' ''vm'']\<rparr>)"

theorem removal_prompt_accurate_witness:
  "hosts_lost_with_server ''pve'' guests_disk = ([''5''], [''6''])
     \<and> map snd (get_hosts (fst (snd (delete_proxmox_server plain_crypto ''pve'' (guests_disk, fresh_disk))))) = [strip_proxmox (guest_host ''6'' ''vm'')]"
proof -
  have "''pve'' \<in> set (map srv_id (get_proxmox_servers guests_disk))" by (simp add: guests_disk_def get_proxmox_servers_def load_config_def)
  moreover have "List.map_filter (kept_host ''pve'') (map snd (get_hosts guests_disk)) = [strip_proxmox (guest_host ''6'' ''vm'')]"
    "hosts_lost_with_server ''pve'' guests_disk = ([''5''], [''6''])" by code_simp+
  ultimately show ?thesis using removal_prompt_accurate [of "''pve''" guests_disk plain_crypto fresh_disk] by (simp add: Let_def)
qed

subsection \<open>Chosen guests carry their server\<close>

definition resolved_id :: "string \<Rightarrow> disk \<Rightarrow> string" where
  "resolved_id server0 d =
     (if server0 \<noteq> [] then server0 else case get_proxmox_servers d of s # _ \<Rightarrow> srv_id s | [] \<Rightarrow> [])"

lemma integration_answers: "\<exists>e w1. w_integration env key w = (Inr e, w1) \<and> wb_config w1 = wb_config w"
  by (simp add: w_integration_def split: prod.splits)

lemma resolve_answers:
  "\<exists>cfg creds w1. resolve_proxmox_server env server0 w = (Inr (resolved_id server0 (wb_config w), cfg, creds), w1) \<and> wb_config w1 = wb_config w"
proof -
  have "\<exists>cfg creds w1. w_bind (w_integration (wz_web env) key) (\<lambda>creds. w_return (sid, c, creds)) w = (Inr (sid, cfg, creds), w1)
      \<and> wb_config w1 = wb_config w" for key sid c
    using integration_answers [of "wz_web env" key w] by (auto simp: w_bind_def w_return_def)
  then show ?thesis
    by (cases "server0 = []"; cases "get_proxmox_servers (wb_config w)")
      (simp_all add: resolve_proxmox_server_def w_state_def resolved_id_def Let_def)
qed

text \<open>A guest as it is added: at an address that is not known, without an SSH user, with the id of its server.\<close>

definition new_guest :: "string \<Rightarrow> string list \<Rightarrow> host \<Rightarrow> bool" where
  "new_guest server_id known h \<longleftrightarrow>
     (\<exists>a. h_host h = Some a \<and> a \<noteq> [] \<and> a \<notin> set known) \<and> h_user h = None \<and> h_proxmox_server h = or_none server_id
     \<and> h_proxmox_type h \<in> {Some ''lxc'', Some ''vm''}"

abbreviation web_hosts :: "'b web \<Rightarrow> host list" where
  "web_hosts w \<equiv> hosts_of (load_config (wb_config w))"

lemma new_guest_less: "new_guest sid (a # known) h \<Longrightarrow> new_guest sid known h"
  by (auto simp: new_guest_def)

lemma chosen_guest_new:
  assumes "chosen_guest known e = Guest is_lxc node vmid name ip"
  shows "ip \<noteq> []" and "ip \<notin> set known"
  using assms by (auto simp: chosen_guest_def split: list.splits if_splits)

lemma add_guest_run:
  assumes "ip \<noteq> []" and "ip \<notin> set known"
  shows "\<exists>slug h w1. w_add_guest is_lxc name ip node vmid sid w = (Inr slug, w1) \<and> web_hosts w1 = web_hosts w @ [h]
    \<and> new_guest sid known h \<and> h_host h = Some ip"
  using assms by (cases "sid = []"; cases is_lxc)
    (simp_all add: w_add_guest_def add_host_def build_host_entry_def new_guest_def nonempty_def or_none_def Let_def)

lemma add_selected_appends:
  "\<exists>sel' w1 new. add_selected sid es known sel w = (Inr sel', w1) \<and> web_hosts w1 = web_hosts w @ new
     \<and> list_all (new_guest sid known) new \<and> distinct (map h_host new)"
proof (induction es arbitrary: known sel w)
  case Nil
  then show ?case by (simp add: w_return_def)
next
  case (Cons e es)
  show ?case
  proof (cases "chosen_guest known e")
    case (Guest is_lxc node vmid name ip)
    obtain slug h w1 where a: "w_add_guest is_lxc name ip node vmid sid w = (Inr slug, w1)" and hs: "web_hosts w1 = web_hosts w @ [h]"
      and h: "new_guest sid known h" "h_host h = Some ip"
      using add_guest_run [OF chosen_guest_new [OF Guest], of is_lxc name node vmid sid w] by blast
    obtain sel' w2 new where b: "add_selected sid es (ip # known)
          (if is_lxc then sel\<lparr>se_lxcs := se_lxcs sel @ [name]\<rparr> else sel\<lparr>se_vms := se_vms sel @ [name]\<rparr>) w1 = (Inr sel', w2)"
      and new: "web_hosts w2 = web_hosts w1 @ new" "list_all (new_guest sid (ip # known)) new" "distinct (map h_host new)"
      using Cons.IH by blast
    have "add_selected sid (e # es) known sel w = (Inr sel', w2)"
      using Guest b by (simp add: w_bind_def a)
    moreover have "h_host h \<notin> h_host ` set new" using new(2) h(2) by (auto simp: list_all_iff new_guest_def)
    moreover have "list_all (new_guest sid known) (h # new)" using new(2) h(1) by (auto simp: list_all_iff dest: new_guest_less)
    ultimately show ?thesis using hs new by (intro exI [of _ sel'] exI [of _ w2] exI [of _ "h # new"]) simp
  qed (use Cons.IH in simp_all)
qed

text \<open>C20. Whatever is chosen on the discovery page, the form only appends hosts: each has an address that no shown host had and no
  other of them has, no SSH user, the type of a guest, and the id of the server the page was about (the first one when none is
  named), through which it will be checked and upgraded.\<close>
theorem chosen_guests_stamped:
  "\<exists>new. web_hosts (snd (admin_proxmox_select_hosts env selected server0 rq w)) = web_hosts w @ new
     \<and> list_all (\<lambda>h. new_guest (resolved_id server0 (wb_config w)) [] h \<and> h_host h \<notin> set (addresses (wb_config w))) new
     \<and> distinct (map h_host new)"
proof -
  obtain cfg creds w1 where r: "resolve_proxmox_server env server0 w = (Inr (resolved_id server0 (wb_config w), cfg, creds), w1)"
    and c: "wb_config w1 = wb_config w" using resolve_answers by blast
  show ?thesis
  proof (cases "known_addresses (wb_config w)")
    case (Inl e)
    then show ?thesis
      using r c by (intro exI [of _ "[]"]) (simp add: admin_proxmox_select_hosts_def w_bind_def w_state_def w_lift_def)
  next
    case (Inr known)
    obtain sel' w2 new where a: "add_selected (resolved_id server0 (wb_config w)) selected known \<lparr>se_lxcs = [], se_vms = [], se_skipped = []\<rparr> w1
        = (Inr sel', w2)" and new: "web_hosts w2 = web_hosts w1 @ new"
      "list_all (new_guest (resolved_id server0 (wb_config w)) known) new" "distinct (map h_host new)"
      using add_selected_appends by blast
    have "snd (admin_proxmox_select_hosts env selected server0 rq w) = w2"
      using r c Inr a by (simp add: admin_proxmox_select_hosts_def w_bind_def w_state_def w_lift_def w_return_def)
    moreover have "list_all (\<lambda>h. new_guest (resolved_id server0 (wb_config w)) [] h \<and> h_host h \<notin> set (addresses (wb_config w))) new"
      using new(2) known_addresses_ok [OF Inr] by (auto simp: list_all_iff new_guest_def)
    ultimately show ?thesis using new c by auto
  qed
qed

text \<open>An empty form of the wizard's Proxmox step, which asks for no login, deletes the first server.\<close>

lemma empty_form_deletes_server:
  "map srv_id (get_proxmox_servers (wb_config two_server_web)) \<noteq> []
     \<and> map srv_id (get_proxmox_servers (wb_config (snd (setup_save_proxmox demo_wizard (blank_form\<lparr>pf_url := [], pf_server := []\<rparr>)
          home_request two_server_web)))) = tl (map srv_id (get_proxmox_servers (wb_config two_server_web)))"
  by code_simp

end
