(* ===== verification/AdminAccount.thy ===== *)
theory AdminAccount
  imports AdminIntegrations
begin

section \<open>The administrator's account (app/admin.py)\<close>

text \<open>
  The forms of the account page: time zone, password, second factor, backup key and factory reset.  The time zone database and
  the provisioning address of a TOTP secret are parameters.
\<close>

subsection \<open>The account page\<close>

definition w_read :: "('b cred_disk \<Rightarrow> 'a \<times> 'b cred_disk) \<Rightarrow> ('b web, 'a) web_steps" where
  "w_read f w = (let (x, d) = f (wb_creds w) in (Inr x, w\<lparr>wb_creds := d\<rparr>))"

definition COMMON_TIMEZONES :: "string list" where
  "COMMON_TIMEZONES =
     [''UTC'', ''America/New_York'', ''America/Chicago'', ''America/Denver'', ''America/Los_Angeles'', ''America/Anchorage'',
      ''America/Honolulu'', ''America/Toronto'', ''America/Vancouver'', ''America/Sao_Paulo'', ''America/Argentina/Buenos_Aires'',
      ''Europe/London'', ''Europe/Paris'', ''Europe/Berlin'', ''Europe/Rome'', ''Europe/Madrid'', ''Europe/Amsterdam'',
      ''Europe/Stockholm'', ''Europe/Warsaw'', ''Europe/Helsinki'', ''Europe/Athens'', ''Europe/Istanbul'', ''Europe/Moscow'',
      ''Asia/Dubai'', ''Asia/Kolkata'', ''Asia/Dhaka'', ''Asia/Bangkok'', ''Asia/Singapore'', ''Asia/Shanghai'', ''Asia/Tokyo'',
      ''Asia/Seoul'', ''Australia/Sydney'', ''Australia/Melbourne'', ''Pacific/Auckland'']"

definition account_context :: "'b wizard_env \<Rightarrow> ('b web, entry) web_steps" where
  "account_context env =
     w_bind (w_read (mfa_enrolled (wz_crypto env))) (\<lambda>mfa. w_bind (w_read (get_admin_username (wz_crypto env))) (\<lambda>user.
       w_state (\<lambda>w. w_return
         [(''mfa_enrolled'', JBool mfa), (''admin_username'', JStr user), (''timezone'', JStr (get_timezone (wb_config w))),
          (''common_timezones'', JList (map JStr COMMON_TIMEZONES))])))"

definition account_page :: "'b wizard_env \<Rightarrow> entry \<Rightarrow> ('b web, web_response) web_steps" where
  "account_page env extra =
     w_bind (account_context env) (\<lambda>ctx. w_return (page ''partials/admin_account.html'' (ctx @ extra)))"

definition admin_account :: "'b wizard_env \<Rightarrow> 'b web handler" where
  "admin_account env rq =
     w_bind (account_context env) (\<lambda>ctx. w_return (page ''admin_account.html'' (ctx @ [(''app_version'', JStr APP_VERSION)])))"

text \<open>\<open>zone_ok\<close> is \<open>ZoneInfo(tz)\<close> not raising.\<close>

definition admin_save_timezone :: "'b wizard_env \<Rightarrow> (string \<Rightarrow> bool) \<Rightarrow> string \<Rightarrow> 'b web handler" where
  "admin_save_timezone env zone_ok timezone rq =
     (let tz = or_s (Some (py_strip timezone)) ''UTC'' in
      if zone_ok tz then w_bind (w_config (save_timezone tz)) (\<lambda>_. account_page env [(''tz_saved'', JBool True)])
      else account_page env [(''tz_error'', JStr (''Unknown timezone: '' @ py_repr tz))])"

definition w_password :: "'b wizard_env \<Rightarrow> string \<Rightarrow> ('b web, bool) web_steps" where
  "w_password env pw = w_read (verify_password (we_lib (wz_web env)) (wz_crypto env) pw)"

definition change_errors :: "bool \<Rightarrow> string \<Rightarrow> string \<Rightarrow> string list" where
  "change_errors ok new confirm =
     (if ok then [] else [''Current password is incorrect.''])
     @ (if length new < MIN_PASSWORD_LEN
        then [''New password must be at least '' @ show_nat MIN_PASSWORD_LEN @ '' characters.''] else [])
     @ (if new \<noteq> confirm then [''New passwords do not match.''] else [])"

definition admin_change_password :: "'b wizard_env \<Rightarrow> string \<Rightarrow> string \<Rightarrow> string \<Rightarrow> 'b web handler" where
  "admin_change_password env current new confirm rq =
     w_bind (w_password env current) (\<lambda>ok. let errors = change_errors ok new confirm in
       if errors \<noteq> [] then account_page env [(''pw_errors'', JList (map JStr errors))]
       else w_bind (w_creds (change_password (we_lib (wz_web env)) (wz_crypto env) new)) (\<lambda>_.
         w_bind (w_audit env rq ''account.password.change'' []) (\<lambda>_.
           w_bind (w_session (dict_pop ''show_password_notice'')) (\<lambda>_. account_page env [(''pw_saved'', JBool True)]))))"

text \<open>The second factor.  \<open>uri\<close> is the provisioning address of a secret.\<close>

definition admin_mfa_setup_page :: "'b wizard_env \<Rightarrow> (string \<Rightarrow> string) \<Rightarrow> 'b web handler" where
  "admin_mfa_setup_page env uri rq =
     (let secret = we_totp (wz_web env) in
      w_bind (w_session (dict_set ''mfa_setup_secret'' (JStr secret))) (\<lambda>_. account_page env
        [(''mfa_setup'', JBool True), (''totp_uri'', JStr (uri secret)), (''totp_secret'', JStr secret)]))"

definition admin_mfa_setup_submit :: "'b wizard_env \<Rightarrow> (string \<Rightarrow> string) \<Rightarrow> string \<Rightarrow> 'b web handler" where
  "admin_mfa_setup_submit env uri totp_code rq =
     w_state (\<lambda>w. let secret = str_field (wb_session w) ''mfa_setup_secret'' in
       if secret = [] \<or> \<not> al_totp (we_lib (wz_web env)) secret (py_strip totp_code)
       then account_page env
         [(''mfa_setup'', JBool True), (''totp_uri'', JStr (if secret \<noteq> [] then uri secret else [])), (''totp_secret'', JStr secret),
          (''mfa_error'', JStr (''Code is incorrect '' @ DASH @ '' make sure your phone'' @ [QUOTE] @ ''s time is synced and try again.''))]
       else w_bind (w_creds (enroll_mfa (wz_crypto env) secret)) (\<lambda>_.
         w_bind (w_audit env rq ''account.mfa.enroll'' []) (\<lambda>_.
           w_bind (w_session (dict_pop ''mfa_setup_secret'')) (\<lambda>_. account_page env [(''mfa_enrolled_now'', JBool True)]))))"

text \<open>The code is looked at only after a right password.\<close>

definition w_code :: "'b wizard_env \<Rightarrow> string \<Rightarrow> ('b web, bool) web_steps" where
  "w_code env code = w_read (verify_totp (we_lib (wz_web env)) (wz_crypto env) code)"

definition admin_mfa_remove :: "'b wizard_env \<Rightarrow> string \<Rightarrow> string \<Rightarrow> 'b web handler" where
  "admin_mfa_remove env current totp_code rq =
     w_bind (w_bind (w_password env current) (\<lambda>ok. if ok then w_code env totp_code else w_return False)) (\<lambda>ok.
       if \<not> ok then account_page env [(''mfa_remove_error'', JStr ''Password or code incorrect.'')]
       else w_bind (w_creds (remove_mfa (wz_crypto env))) (\<lambda>_. w_bind (w_audit env rq ''account.mfa.remove'' []) (\<lambda>_.
         account_page env [(''mfa_removed'', JBool True)])))"

definition admin_regenerate_backup_key :: "'b wizard_env \<Rightarrow> string \<Rightarrow> 'b web handler" where
  "admin_regenerate_backup_key env current rq =
     w_bind (w_password env current) (\<lambda>ok.
       if \<not> ok then account_page env [(''bk_error'', JStr ''Current password is incorrect.'')]
       else w_bind (w_creds (regenerate_backup_key (we_lib (wz_web env)) (wz_crypto env) (we_hex (wz_web env)))) (\<lambda>key.
         w_bind (w_audit env rq ''account.backup_key.regen'' []) (\<lambda>_. account_page env [(''new_backup_key'', JStr key)])))"

definition RESET_ERROR :: string where
  "RESET_ERROR = ''Type '' @ [DQUOTE] @ ''RESET'' @ [DQUOTE] @ '' in the confirmation field.''"

definition reset_done :: web_response where
  "reset_done = \<lparr>ws_status = 200, ws_headers = [(''HX-Redirect'', ''/setup'')], ws_body = NoBody\<rparr>"

definition admin_factory_reset :: "'b wizard_env \<Rightarrow> string \<Rightarrow> string \<Rightarrow> 'b web handler" where
  "admin_factory_reset env current confirm_text rq =
     w_bind (w_password env current) (\<lambda>ok.
       if \<not> ok then account_page env [(''reset_error'', JStr ''Password is incorrect.'')]
       else if py_upper (py_strip confirm_text) \<noteq> ''RESET'' then account_page env [(''reset_error'', JStr RESET_ERROR)]
       else w_bind (w_audit env rq ''account.factory_reset'' []) (\<lambda>_.
         w_bind (w_creds (wipe_credential_store (wz_crypto env))) (\<lambda>_. w_bind (w_config reset_config) (\<lambda>_.
           w_bind (w_session (\<lambda>_. [])) (\<lambda>_. w_return reset_done)))))"

subsection \<open>What the forms of the account may do\<close>

datatype account_form =
    NewPassword string string string
  | EnrolFactor string
  | RemoveFactor string string
  | NewBackupKey string
  | FactoryReset string string

fun account_handler :: "'b wizard_env \<Rightarrow> (string \<Rightarrow> string) \<Rightarrow> account_form \<Rightarrow> 'b web handler" where
  "account_handler env uri (NewPassword current new confirm) = admin_change_password env current new confirm"
| "account_handler env uri (EnrolFactor code) = admin_mfa_setup_submit env uri code"
| "account_handler env uri (RemoveFactor current code) = admin_mfa_remove env current code"
| "account_handler env uri (NewBackupKey current) = admin_regenerate_backup_key env current"
| "account_handler env uri (FactoryReset current confirm) = admin_factory_reset env current confirm"

definition entry_password :: "auth_lib \<Rightarrow> string \<Rightarrow> entry \<Rightarrow> bool" where
  "entry_password lib pw e \<longleftrightarrow> str_field e ''password_hash'' \<noteq> [] \<and> verify_password_hash lib pw (str_field e ''password_hash'')"

text \<open>What each form asks for: the current password, and beside it two equal new ones, a code of the factor in question, or the
  word.\<close>

fun form_allowed :: "auth_lib \<Rightarrow> entry \<Rightarrow> entry \<Rightarrow> account_form \<Rightarrow> bool" where
  "form_allowed lib s e (NewPassword current new confirm) \<longleftrightarrow>
     entry_password lib current e \<and> MIN_PASSWORD_LEN \<le> length new \<and> new = confirm"
| "form_allowed lib s e (EnrolFactor code) \<longleftrightarrow>
     str_field s ''mfa_setup_secret'' \<noteq> [] \<and> al_totp lib (str_field s ''mfa_setup_secret'') (py_strip code)"
| "form_allowed lib s e (RemoveFactor current code) \<longleftrightarrow> entry_password lib current e \<and> code_ok lib code e"
| "form_allowed lib s e (NewBackupKey current) \<longleftrightarrow> entry_password lib current e"
| "form_allowed lib s e (FactoryReset current confirm) \<longleftrightarrow>
     entry_password lib current e \<and> py_upper (py_strip confirm) = ''RESET''"

definition untouched :: "'b crypto \<Rightarrow> 'b web \<Rightarrow> 'b web \<Rightarrow> bool" where
  "untouched c w w' \<longleftrightarrow> ready c (wb_creds w') \<and> view c (wb_creds w') = view c (wb_creds w) \<and> wb_config w' = wb_config w
     \<and> wb_session w' = wb_session w \<and> wb_audit w' = wb_audit w"

lemma account_in_view: "account c d = get_or (dict_get (view c d) (integration_key ''admin'')) []"
  by (simp add: account_def get_integration_credentials_def view_def split: prod.splits option.splits)

lemma untouched_refl: "ready c (wb_creds w) \<Longrightarrow> untouched c w w"
  by (simp add: untouched_def)

lemma untouched_account: "untouched c w w' \<Longrightarrow> account c (wb_creds w') = account c (wb_creds w)"
  by (simp add: untouched_def account_in_view)

lemma untouched_trans: "untouched c w w1 \<Longrightarrow> untouched c w1 w2 \<Longrightarrow> untouched c w w2"
  by (simp add: untouched_def)

lemma read_view:
  assumes "ready c d"
  shows "ready c (snd (admin_entry c d))" and "view c (snd (admin_entry c d)) = view c d"
  using load_store_ready [OF assms] by (simp_all add: get_integration_credentials_def case_prod_beta Let_def)

text \<open>A function of the account entry.\<close>

definition reads_account :: "'b crypto \<Rightarrow> (entry \<Rightarrow> 'a) \<Rightarrow> ('b cred_disk \<Rightarrow> 'a \<times> 'b cred_disk) \<Rightarrow> bool" where
  "reads_account c g f \<longleftrightarrow> (\<forall>d. f d = (g (account c d), snd (admin_entry c d)))"

lemma account_readers:
  "reads_account c (entry_password lib pw) (verify_password lib c pw)" "reads_account c (code_ok lib code) (verify_totp lib c code)"
  "reads_account c (\<lambda>e. field_truthy e ''totp_secret'') (mfa_enrolled c)"
  "reads_account c (\<lambda>e. str_field e ''username'') (get_admin_username c)"
  by (simp_all add: reads_account_def account_def verify_password_def verify_totp_def mfa_enrolled_def get_admin_username_def
    entry_password_def code_ok_def Let_def split: prod.splits)

lemma read_run:
  assumes "reads_account c g f" and "ready c (wb_creds w)"
  shows "\<exists>w1. w_read f w = (Inr (g (account c (wb_creds w))), w1) \<and> untouched c w w1"
  using assms read_view [OF assms(2)] by (simp add: reads_account_def w_read_def untouched_def)

lemma keeps_read [w_keep]: "reads_account c g f \<Longrightarrow> w_keeps (untouched c w0) (w_read f)"
  unfolding w_keeps_def using read_run [of c g f] untouched_trans [of c w0]
  by (metis snd_conv untouched_def)

lemma keeps_context [w_keep]: "w_keeps (untouched (wz_crypto env) w0) (account_context env)"
  unfolding account_context_def by (intro w_keep keeps_read [OF account_readers(3)] keeps_read [OF account_readers(4)])

lemma keeps_account_page [w_keep]: "w_keeps (untouched (wz_crypto env) w0) (account_page env extra)"
  unfolding account_page_def by (intro w_keep)

lemma bind_run: "m w = (Inr x, w1) \<Longrightarrow> w_bind m k w = k x w1"
  by (simp add: w_bind_def)

lemma creds_run: "f (wb_creds w) = (r, d) \<Longrightarrow> w_creds f w = (r, w\<lparr>wb_creds := d\<rparr>)"
  by (simp add: w_creds_def)

lemma config_run: "w_config f w = (Inr (), w\<lparr>wb_config := f (wb_config w)\<rparr>)"
  and session_run: "w_session g w = (Inr (), w\<lparr>wb_session := g (wb_session w)\<rparr>)"
  by (simp_all add: w_config_def w_session_def)

lemma password_run:
  assumes "ready (wz_crypto env) (wb_creds w)"
  obtains w1 where "w_password env pw w = (Inr (entry_password (we_lib (wz_web env)) pw (account (wz_crypto env) (wb_creds w))), w1)"
    and "untouched (wz_crypto env) w w1"
  using read_run [OF account_readers(1) assms] by (auto simp: w_password_def)

lemma code_run:
  assumes "ready (wz_crypto env) (wb_creds w)"
  obtains w1 where "w_code env code w = (Inr (code_ok (we_lib (wz_web env)) code (account (wz_crypto env) (wb_creds w))), w1)"
    and "untouched (wz_crypto env) w w1"
  using read_run [OF account_readers(2) assms] by (auto simp: w_code_def)

lemma change_errors_none: "change_errors ok new confirm = [] \<longleftrightarrow> ok \<and> MIN_PASSWORD_LEN \<le> length new \<and> new = confirm"
  by (auto simp: change_errors_def)

lemma page_untouched: "untouched (wz_crypto env) w w1 \<Longrightarrow> untouched (wz_crypto env) w (snd (account_page env extra w1))"
  by (rule keepsD [OF keeps_account_page])

text \<open>C7. A form of the account page that lacks what it asks for (the current password in every case but the enrolment, with two
  equal new passwords of twelve characters, a right code, or the word RESET) changes nothing: the credential store, the
  configuration, the session and the audit log are as they were.\<close>
theorem refused_forms_change_nothing:
  assumes "ready (wz_crypto env) (wb_creds w)"
    and "\<not> form_allowed (we_lib (wz_web env)) (wb_session w) (account (wz_crypto env) (wb_creds w)) form"
  shows "untouched (wz_crypto env) w (snd (account_handler env uri form rq w))"
proof (cases form)
  case (NewPassword current new confirm)
  obtain w1 where r: "w_password env current w = (Inr (entry_password (we_lib (wz_web env)) current (account (wz_crypto env) (wb_creds w))), w1)"
    and u: "untouched (wz_crypto env) w w1" using password_run [OF assms(1)] .
  have "change_errors (entry_password (we_lib (wz_web env)) current (account (wz_crypto env) (wb_creds w))) new confirm \<noteq> []"
    using assms(2) NewPassword by (simp add: change_errors_none)
  then show ?thesis using NewPassword page_untouched [OF u] by (simp add: admin_change_password_def bind_run r)
next
  case (EnrolFactor code)
  then show ?thesis using assms(2) page_untouched [OF untouched_refl [OF assms(1)]]
    by (auto simp: admin_mfa_setup_submit_def w_state_def Let_def)
next
  case (RemoveFactor current code)
  obtain w1 where r: "w_password env current w = (Inr (entry_password (we_lib (wz_web env)) current (account (wz_crypto env) (wb_creds w))), w1)"
    and u: "untouched (wz_crypto env) w w1" using password_run [OF assms(1)] .
  have ready1: "ready (wz_crypto env) (wb_creds w1)" using u by (simp add: untouched_def)
  obtain w2 where r2: "w_code env code w1 = (Inr (code_ok (we_lib (wz_web env)) code (account (wz_crypto env) (wb_creds w))), w2)"
    and u2: "untouched (wz_crypto env) w1 w2"
    using code_run [OF ready1, of code] untouched_account [OF u] by metis
  let ?m = "w_bind (w_password env current) (\<lambda>ok. if ok then w_code env code else w_return False)"
  have "\<exists>w3. ?m w = (Inr False, w3) \<and> untouched (wz_crypto env) w w3"
    using assms(2) RemoveFactor u untouched_trans [OF u u2] by (auto simp: bind_run r r2 w_return_def)
  then obtain w3 where m: "?m w = (Inr False, w3)" and u3: "untouched (wz_crypto env) w w3" by blast
  have "admin_mfa_remove env current code rq w = account_page env [(''mfa_remove_error'', JStr ''Password or code incorrect.'')] w3"
    unfolding admin_mfa_remove_def bind_run [where m = ?m and w = w, OF m] by simp
  then show ?thesis using RemoveFactor page_untouched [OF u3] by simp
next
  case (NewBackupKey current)
  obtain w1 where r: "w_password env current w = (Inr (entry_password (we_lib (wz_web env)) current (account (wz_crypto env) (wb_creds w))), w1)"
    and u: "untouched (wz_crypto env) w w1" using password_run [OF assms(1)] .
  show ?thesis using assms(2) NewBackupKey page_untouched [OF u] by (simp add: admin_regenerate_backup_key_def bind_run r)
next
  case (FactoryReset current confirm)
  obtain w1 where r: "w_password env current w = (Inr (entry_password (we_lib (wz_web env)) current (account (wz_crypto env) (wb_creds w))), w1)"
    and u: "untouched (wz_crypto env) w w1" using password_run [OF assms(1)] .
  show ?thesis using assms(2) FactoryReset page_untouched [OF u] by (simp add: admin_factory_reset_def bind_run r)
qed

text \<open>An audit line reads the account.\<close>

lemma audit_run:
  assumes "ready (wz_crypto env) (wb_creds w)"
  obtains w1 where "w_audit env rq action target w = (Inr (), w1)" and "ready (wz_crypto env) (wb_creds w1)"
    and "view (wz_crypto env) (wb_creds w1) = view (wz_crypto env) (wb_creds w)" and "wb_config w1 = wb_config w"
    and "wb_session w1 = wb_session w"
    and "map (\<lambda>l. (au_action l, au_target l)) (wb_audit w1) = map (\<lambda>l. (au_action l, au_target l)) (wb_audit w) @ [(action, target)]"
proof -
  have "get_admin_username (wz_crypto env) (wb_creds w)
      = (str_field (account (wz_crypto env) (wb_creds w)) ''username'', snd (admin_entry (wz_crypto env) (wb_creds w)))"
    using account_readers(4) [of "wz_crypto env"] by (simp add: reads_account_def)
  then show thesis using that [of "snd (w_audit env rq action target w)"] read_view [OF assms]
    by (simp add: w_audit_def audit_admin_def audit_def wz_crypto_def Let_def)
qed

lemma account_page_run:
  "\<exists>ctx w'. account_page env extra w = (Inr (page ''partials/admin_account.html'' (ctx @ extra)), w')"
proof -
  have "\<exists>ctx w1. account_context env w = (Inr ctx, w1)"
    by (simp add: account_context_def w_bind_def w_read_def w_state_def w_return_def split: prod.splits)
  then show ?thesis by (auto simp: account_page_def bind_run w_return_def)
qed

lemma map_snoc_last: "map f xs = ys @ [p] \<Longrightarrow> xs \<noteq> [] \<and> f (last xs) = p"
  by (cases xs rule: rev_cases) auto

definition integrations_unset :: "config \<Rightarrow> bool" where
  "integrations_unset c \<longleftrightarrow> c_portainer c = None \<and> c_dockerhub c = None \<and> c_stack_auto_update c = None \<and> c_proxmox c = None
     \<and> c_proxmox_backup c = None \<and> c_opnsense c = None \<and> c_pfsense c = None \<and> c_homeassistant c = None"

text \<open>C9. A factory reset with the password and the word leaves no stored credential, no account, no host and none of the
  settings of the integrations, the registry and the stack updates; it is named in the audit log, this browser's session is
  empty, and no cookie of any browser is signed in after it.  The list of Proxmox servers and the notification settings are not
  among what the reset removes.\<close>
theorem factory_reset_wipes:
  assumes "ready (wz_crypto env) (wb_creds w)"
    and "form_allowed (we_lib (wz_web env)) (wb_session w) (account (wz_crypto env) (wb_creds w)) (FactoryReset current confirm)"
  shows "\<exists>w'. admin_factory_reset env current confirm rq w = (Inr reset_done, w')
    \<and> view (wz_crypto env) (wb_creds w') = [] \<and> \<not> fst (admin_exists (wz_crypto env) (wb_creds w'))
    \<and> wb_session w' = [] \<and> (\<forall>cookie. \<not> signed_in (wz_crypto env) (w'\<lparr>wb_session := cookie\<rparr>))
    \<and> get_hosts (wb_config w') = [] \<and> integrations_unset (load_config (wb_config w'))
    \<and> wb_audit w' \<noteq> [] \<and> au_action (last (wb_audit w')) = ''account.factory_reset''"
proof -
  obtain w1 where r: "w_password env current w = (Inr (entry_password (we_lib (wz_web env)) current (account (wz_crypto env) (wb_creds w))), w1)"
    and u: "untouched (wz_crypto env) w w1" using password_run [OF assms(1)] .
  have ready1: "ready (wz_crypto env) (wb_creds w1)" using u by (simp add: untouched_def)
  obtain w2 where a: "w_audit env rq ''account.factory_reset'' [] w1 = (Inr (), w2)" and ready2: "ready (wz_crypto env) (wb_creds w2)"
    and cfg: "wb_config w2 = wb_config w1"
    and log: "map (\<lambda>l. (au_action l, au_target l)) (wb_audit w2)
       = map (\<lambda>l. (au_action l, au_target l)) (wb_audit w1) @ [(''account.factory_reset'', [])]"
    using audit_run [OF ready1, of rq "''account.factory_reset''" "[]"] .
  obtain d where d: "wipe_credential_store (wz_crypto env) (wb_creds w2) = (Inr (), d)" and v: "view (wz_crypto env) d = []"
    using save_store_ready [OF ready2, of "[]"] by (auto simp: wipe_credential_store_def)
  let ?w = "w2\<lparr>wb_creds := d, wb_config := reset_config (wb_config w2), wb_session := []\<rparr>"
  have run: "admin_factory_reset env current confirm rq w = (Inr reset_done, ?w)"
    using assms(2) by (simp add: admin_factory_reset_def bind_run r a creds_run d config_run session_run w_return_def)
  have "wb_audit w2 \<noteq> []" and "au_action (last (wb_audit w2)) = ''account.factory_reset''"
    using map_snoc_last [OF log] by simp_all
  moreover have "\<not> fst (admin_exists (wz_crypto env) d)"
    by (simp add: admin_exists_account account_in_view v field_truthy_def)
  moreover have "get_hosts (reset_config (wb_config w2)) = []" and "integrations_unset (load_config (reset_config (wb_config w2)))"
    by (simp_all add: reset_config_def get_hosts_def integrations_unset_def save_config_def load_config_def)
  moreover have "\<not> signed_in (wz_crypto env) (?w\<lparr>wb_session := cookie\<rparr>)" for cookie
    by (simp add: signed_in_def account_in_view v field_truthy_def)
  ultimately show ?thesis using run v by simp
qed

text \<open>C8. A change of the password takes effect at once: with the right current password and two equal new ones the form is
  answered by the page that says so, the new password is the one that verifies, and no cookie that was signed in before, the
  one of this browser included, is signed in after it.\<close>
theorem password_change_takes_effect:
  assumes "ready (wz_crypto env) (wb_creds w)" and "auth_lib_ok (we_lib (wz_web env))"
    and "form_allowed (we_lib (wz_web env)) (wb_session w) (account (wz_crypto env) (wb_creds w)) (NewPassword current new confirm)"
    and "version_of (account (wz_crypto env) (wb_creds w)) = Inr v"
  shows "\<exists>ctx w'. admin_change_password env current new confirm rq w
        = (Inr (page ''partials/admin_account.html'' (ctx @ [(''pw_saved'', JBool True)])), w')
    \<and> ready (wz_crypto env) (wb_creds w')
    \<and> fst (verify_password (we_lib (wz_web env)) (wz_crypto env) new (wb_creds w'))
    \<and> (\<forall>s. signed_in (wz_crypto env) (w\<lparr>wb_session := s\<rparr>) \<longrightarrow> \<not> signed_in (wz_crypto env) (w'\<lparr>wb_session := s\<rparr>))"
proof -
  let ?c = "wz_crypto env" and ?lib = "we_lib (wz_web env)"
  obtain w1 where r: "w_password env current w = (Inr (entry_password ?lib current (account ?c (wb_creds w))), w1)"
    and u: "untouched ?c w w1" using password_run [OF assms(1)] .
  have ready1: "ready ?c (wb_creds w1)" and acc1: "account ?c (wb_creds w1) = account ?c (wb_creds w)"
    using u untouched_account [OF u] by (simp_all add: untouched_def)
  let ?fs = "[(''password_hash'', Some (JStr (al_hash ?lib new))),
        (''password_meets_policy'', Some (JBool (MIN_PASSWORD_LEN \<le> length new)))]"
  obtain d where d: "change_password ?lib ?c new (wb_creds w1) = (Inr (v + 1), d)" and ready2: "ready ?c d"
    and acc: "account ?c d = put_fields (?fs @ [(''session_version'', Some (JNum (v + 1)))]) (account ?c (wb_creds w))"
    using save_bumped_works [OF ready1, of v ?fs] assms(4) acc1 by (auto simp: change_password_def)
  let ?w2 = "w1\<lparr>wb_creds := d\<rparr>"
  obtain w3 where a: "w_audit env rq ''account.password.change'' [] ?w2 = (Inr (), w3)" and ready3: "ready ?c (wb_creds w3)"
    and v3: "view ?c (wb_creds w3) = view ?c d"
    using audit_run [of env ?w2 rq "''account.password.change''" "[]"] ready2 by auto
  let ?w4 = "w3\<lparr>wb_session := dict_pop ''show_password_notice'' (wb_session w3)\<rparr>"
  have errs: "change_errors (entry_password ?lib current (account ?c (wb_creds w))) new confirm = []"
    using assms(3) unfolding form_allowed.simps change_errors_none .
  have run: "admin_change_password env current new confirm rq w = account_page env [(''pw_saved'', JBool True)] ?w4"
    by (simp add: admin_change_password_def bind_run r errs creds_run d a session_run)
  have end_state: "untouched ?c ?w4 (snd (account_page env [(''pw_saved'', JBool True)] ?w4))"
    by (rule page_untouched) (simp add: untouched_def ready3)
  let ?w' = "snd (account_page env [(''pw_saved'', JBool True)] ?w4)"
  have acc': "account ?c (wb_creds ?w') = account ?c d"
    using untouched_account [OF end_state] v3 by (simp add: account_in_view)
  have hash: "str_field (account ?c d) ''password_hash'' = al_hash ?lib new"
    by (simp add: acc put_fields_def put_field_def str_field_def dict_simps assms(2) [unfolded auth_lib_ok_def])
  have pw: "fst (verify_password ?lib ?c new (wb_creds ?w'))"
    using account_readers(1) [of ?c ?lib new] hash acc' assms(2)
    by (simp add: reads_account_def entry_password_def verify_password_hash_def auth_lib_ok_def)
  have "version_of (account ?c d) = Inr (v + 1)" unfolding acc by (rule version_after_bump)
  then have out: "signed_in ?c (w\<lparr>wb_session := s\<rparr>) \<Longrightarrow> \<not> signed_in ?c (?w'\<lparr>wb_session := s\<rparr>)" for s
    by (auto simp: signed_in_def acc' assms(4))
  obtain ctx w' where p: "account_page env [(''pw_saved'', JBool True)] ?w4
      = (Inr (page ''partials/admin_account.html'' (ctx @ [(''pw_saved'', JBool True)])), w')"
    using account_page_run by blast
  then have "ready ?c (wb_creds w')" using end_state by (simp add: untouched_def)
  with run p pw out show ?thesis by (intro exI [of _ ctx] exI [of _ w']) simp
qed

subsection \<open>Concrete forms\<close>

definition account_web :: "(string \<times> store) web" where
  "account_web = demo_web\<lparr>wb_creds := account_disk,
     wb_session := [(''authenticated'', JBool True), (''session_version'', JNum 0)]\<rparr>"

lemma account_web_ready: "ready (wz_crypto demo_wizard) (wb_creds account_web)"
  using create_admin_ready [OF plain_ready]
  by (simp add: demo_wizard_def demo_web_env_def wz_crypto_def account_web_def account_disk_def)

theorem refused_forms_change_nothing_witness:
  "untouched plain_crypto account_web
     (snd (account_handler demo_wizard (\<lambda>_. []) (FactoryReset ''a wrong password'' ''RESET'') home_request account_web))"
proof -
  have "\<not> form_allowed (we_lib (wz_web demo_wizard)) (wb_session account_web)
      (account (wz_crypto demo_wizard) (wb_creds account_web)) (FactoryReset ''a wrong password'' ''RESET'')"
    by code_simp
  from refused_forms_change_nothing [OF account_web_ready this] show ?thesis
    by (simp add: demo_wizard_def demo_web_env_def wz_crypto_def)
qed

theorem factory_reset_wipes_witness:
  "\<exists>w'. admin_factory_reset demo_wizard ''a long password'' '' reset '' home_request account_web = (Inr reset_done, w')
     \<and> view plain_crypto (wb_creds w') = []"
proof -
  have "form_allowed (we_lib (wz_web demo_wizard)) (wb_session account_web)
      (account (wz_crypto demo_wizard) (wb_creds account_web)) (FactoryReset ''a long password'' '' reset '')"
    by code_simp
  from factory_reset_wipes [OF account_web_ready this, of home_request] show ?thesis
    by (auto simp: demo_wizard_def demo_web_env_def wz_crypto_def)
qed

theorem password_change_takes_effect_witness:
  "signed_in plain_crypto account_web
     \<and> \<not> signed_in plain_crypto ((snd (admin_change_password demo_wizard ''a long password'' ''another password''
            ''another password'' home_request account_web))\<lparr>wb_session := wb_session account_web\<rparr>)"
proof -
  let ?form = "NewPassword ''a long password'' ''another password'' ''another password''"
  have a: "form_allowed (we_lib (wz_web demo_wizard)) (wb_session account_web) (account (wz_crypto demo_wizard) (wb_creds account_web)) ?form"
    by code_simp
  have l: "auth_lib_ok (we_lib (wz_web demo_wizard))"
    by (simp add: auth_lib_ok_def demo_wizard_def demo_web_env_def toy_lib_def)
  have v: "version_of (account (wz_crypto demo_wizard) (wb_creds account_web)) = Inr 0" by code_simp
  have s: "signed_in plain_crypto account_web" by code_simp
  then have "signed_in (wz_crypto demo_wizard) (account_web\<lparr>wb_session := wb_session account_web\<rparr>)"
    by (simp add: demo_wizard_def demo_web_env_def wz_crypto_def)
  then have "\<not> signed_in (wz_crypto demo_wizard) ((snd (admin_change_password demo_wizard ''a long password'' ''another password''
      ''another password'' home_request account_web))\<lparr>wb_session := wb_session account_web\<rparr>)"
    using password_change_takes_effect [OF account_web_ready l a v, of home_request] by fastforce
  then show ?thesis using s by (simp add: demo_wizard_def demo_web_env_def wz_crypto_def)
qed

end
