(* ===== verification/AdminHttps.thy ===== *)
theory AdminHttps
  imports AdminAccount
begin

section \<open>HTTPS and the log viewer (app/ssl_manager.py, app/admin.py)\<close>

text \<open>
  The certificate that the server itself presents: two files, switched on by a self-signed certificate and off by removing
  them, with a restart of the process after either.  The X.509 library is a record: whether a text is an IP address, the
  certificate and key of a request, and the name and expiry date of a certificate.
\<close>

subsection \<open>The files (app/ssl_manager.py)\<close>

datatype alt_name = IpName string | DnsName string

record cert_request =
  cq_cn :: string
  cq_organization :: string
  cq_names :: "alt_name list"
  cq_days :: nat
  cq_ca :: bool

record x509_lib =
  xl_is_ip :: "string \<Rightarrow> bool"
  xl_sign :: "cert_request \<Rightarrow> (string \<times> string) res"
  xl_read :: "string \<Rightarrow> (string option \<times> string) option"

record ssl_files =
  sf_cert :: "string option"
  sf_key_pem :: "string option"

definition ssl_enabled :: "ssl_files \<Rightarrow> bool" where
  "ssl_enabled f \<longleftrightarrow> sf_cert f \<noteq> None \<and> sf_key_pem f \<noteq> None"

definition get_cert_info :: "x509_lib \<Rightarrow> ssl_files \<Rightarrow> (string \<times> string) option" where
  "get_cert_info lib f =
     (case sf_cert f of
        None \<Rightarrow> None
      | Some pem \<Rightarrow> Some (case xl_read lib pem of
          Some (cn, expires) \<Rightarrow> (get_or cn ''unknown'', expires)
        | None \<Rightarrow> (''unknown'', ''unknown'')))"

definition generate_self_signed_cert :: "x509_lib \<Rightarrow> string \<Rightarrow> (string \<times> string) res" where
  "generate_self_signed_cert lib hostname =
     xl_sign lib \<lparr>cq_cn = hostname, cq_organization = ''Keepup'',
       cq_names = [if xl_is_ip lib hostname then IpName hostname else DnsName hostname, DnsName ''localhost'', IpName ''127.0.0.1''],
       cq_days = 730, cq_ca = False\<rparr>"

definition save_ssl_files :: "string \<Rightarrow> string \<Rightarrow> ssl_files \<Rightarrow> ssl_files" where
  "save_ssl_files cert_pem key_pem f = f\<lparr>sf_cert := Some cert_pem, sf_key_pem := Some key_pem\<rparr>"

definition remove_ssl_files :: "ssl_files \<Rightarrow> ssl_files" where
  "remove_ssl_files f = f\<lparr>sf_cert := None, sf_key_pem := None\<rparr>"

subsection \<open>The pages\<close>

text \<open>\<open>hs_restarts\<close> counts the restarts that are under way: the process gets SIGTERM three seconds after the answer.\<close>

record 'b https_state =
  hs_web :: "'b web"
  hs_files :: ssl_files
  hs_restarts :: nat

type_synonym 'b https_handler = "web_request \<Rightarrow> 'b https_state \<Rightarrow> web_response res \<times> 'b https_state"

definition cert_json :: "(string \<times> string) option \<Rightarrow> json" where
  "cert_json i = (case i of None \<Rightarrow> JNull | Some (cn, expires) \<Rightarrow> JObj [(''cn'', JStr cn), (''expires'', JStr expires)])"

definition ssl_context :: "x509_lib \<Rightarrow> 'b https_state \<Rightarrow> entry" where
  "ssl_context lib hs =
     (let (mode, hostname) = get_or (get_ssl_config (wb_config (hs_web hs))) ([], []) in
      [(''ssl_enabled'', JBool (ssl_enabled (hs_files hs))), (''ssl_mode'', JStr mode), (''ssl_hostname'', JStr hostname),
       (''cert_info'', cert_json (get_cert_info lib (hs_files hs)))])"

definition admin_https :: "x509_lib \<Rightarrow> 'b https_handler" where
  "admin_https lib rq hs = (Inr (page ''admin_https.html'' (ssl_context lib hs @ [(''app_version'', JStr APP_VERSION)])), hs)"

definition restart_after_delay :: "'b https_state \<Rightarrow> 'b https_state" where
  "restart_after_delay hs = hs\<lparr>hs_restarts := hs_restarts hs + 1\<rparr>"

definition on_config_of :: "(disk \<Rightarrow> disk) \<Rightarrow> 'b https_state \<Rightarrow> 'b https_state" where
  "on_config_of f hs = hs\<lparr>hs_web := (hs_web hs)\<lparr>wb_config := f (wb_config (hs_web hs))\<rparr>\<rparr>"

definition restarting_page :: "string \<Rightarrow> string \<Rightarrow> web_response" where
  "restarting_page new_url action = page ''partials/admin_https_restarting.html'' [(''new_url'', JStr new_url), (''action'', JStr action)]"

definition admin_https_self_signed :: "x509_lib \<Rightarrow> string \<Rightarrow> 'b https_handler" where
  "admin_https_self_signed lib hostname0 rq hs =
     (let hostname = py_strip hostname0 in
      if hostname = []
      then (Inr (page ''partials/admin_https.html'' (ssl_context lib hs
              @ [(''error'', JStr (''Enter your server'' @ [QUOTE] @ ''s IP address or hostname.''))])), hs)
      else case generate_self_signed_cert lib hostname of
             Inl e \<Rightarrow> (Inl e, hs)
           | Inr (cert_pem, key_pem) \<Rightarrow>
               (Inr (restarting_page (''https://'' @ hostname @ '':8765'') ''enabling''),
                restart_after_delay (on_config_of (save_ssl_config ''self-signed'' hostname)
                  (hs\<lparr>hs_files := save_ssl_files cert_pem key_pem (hs_files hs)\<rparr>))))"

definition admin_https_disable :: "'b https_handler" where
  "admin_https_disable rq hs =
     (let host = hd (split_char CHR '':'' (get_or (request_header rq ''host'') [])) in
      (Inr (restarting_page (''http://'' @ host @ '':8765'') ''disabling''),
       restart_after_delay (on_config_of clear_ssl_config (hs\<lparr>hs_files := remove_ssl_files (hs_files hs)\<rparr>))))"

subsection \<open>The log viewer\<close>

definition line_json :: "log_line \<Rightarrow> json" where
  "line_json l = JObj [(''level'', JStr (ll_level l)), (''msg'', JStr (ll_msg l)), (''css'', JStr (ll_css l))]"

definition lines_page :: "string \<Rightarrow> log_line list \<Rightarrow> web_response" where
  "lines_page template buf = page template [(''lines'', JList (map line_json (get_log_lines 200 buf)))]"

definition admin_logs :: "web_request \<Rightarrow> log_line list \<Rightarrow> web_response res \<times> log_line list" where
  "admin_logs rq buf = (Inr (lines_page ''admin_logs.html'' buf), buf)"

definition admin_logs_lines :: "web_request \<Rightarrow> log_line list \<Rightarrow> web_response res \<times> log_line list" where
  "admin_logs_lines rq buf = (Inr (lines_page ''partials/admin_log_lines.html'' buf), buf)"

subsection \<open>The files and the settings agree\<close>

datatype https_form = SelfSigned string | Disable

fun https_handler :: "x509_lib \<Rightarrow> https_form \<Rightarrow> 'b https_handler" where
  "https_handler lib (SelfSigned hostname) = admin_https_self_signed lib hostname"
| "https_handler lib Disable = admin_https_disable"

definition https_agree :: "'b https_state \<Rightarrow> bool" where
  "https_agree hs \<longleftrightarrow>
     (ssl_enabled (hs_files hs) \<longleftrightarrow> get_ssl_config (wb_config (hs_web hs)) \<noteq> None)
     \<and> (sf_cert (hs_files hs) = None \<longleftrightarrow> sf_key_pem (hs_files hs) = None)"

definition after_https :: "x509_lib \<Rightarrow> (web_request \<times> https_form) list \<Rightarrow> 'b https_state \<Rightarrow> 'b https_state" where
  "after_https lib rs hs = fold (\<lambda>(rq, f) hs. snd (https_handler lib f rq hs)) rs hs"

lemma https_step: "https_agree hs \<Longrightarrow> https_agree (snd (https_handler lib f rq hs))"
  by (cases f) (auto simp: https_agree_def admin_https_self_signed_def admin_https_disable_def restart_after_delay_def on_config_of_def
    save_ssl_files_def remove_ssl_files_def ssl_enabled_def get_ssl_config_def save_ssl_config_def clear_ssl_config_def save_config_def
    load_config_def Let_def split: sum.splits)

text \<open>Whatever is sent to the HTTPS page, the certificate files and the settings agree: either both files and the settings are
  there or none of them.\<close>
theorem https_files_follow_settings:
  assumes "https_agree hs"
  shows "https_agree (after_https lib rs hs)"
  using assms by (induction rs arbitrary: hs) (auto simp: after_https_def https_step split: prod.splits)

end
