(* ===== verification/AdminHosts.thy ===== *)
theory AdminHosts
  imports AdminHttps
begin

section \<open>The administration of hosts (app/admin.py)\<close>

text \<open>
  The list of hosts with what is stored for each, their forms, credentials and connection test, the monitoring of containers,
  the page about the releases and the activity log.
\<close>

subsection \<open>The list\<close>

definition status_json :: "cred_status \<Rightarrow> entry" where
  "status_json st =
     [(''has_ssh_password'', JBool (has_ssh_password st)), (''has_ssh_key'', JBool (has_ssh_key st)),
      (''has_sudo_password'', JBool (has_sudo_password st))]"

definition w_status :: "'b wizard_env \<Rightarrow> string \<Rightarrow> ('b web, cred_status) web_steps" where
  "w_status env slug = w_read (credential_status (wz_crypto env) slug)"

definition listed_with_status :: "'b wizard_env \<Rightarrow> listed_host \<Rightarrow> ('b web, json) web_steps" where
  "listed_with_status env sh =
     w_bind (w_status env (fst sh)) (\<lambda>st. w_return (JObj
       ([(''slug'', JStr (fst sh))] @ status_json st @ [(''needs_ssh_user'', JBool (\<not> truthy_s (h_user (snd sh))))])))"

definition hosts_with_status :: "'b wizard_env \<Rightarrow> ('b web, json list) web_steps" where
  "hosts_with_status env = w_state (\<lambda>w. w_map (listed_with_status env) (get_hosts (wb_config w)))"

definition admin_hosts_page :: "'b wizard_env \<Rightarrow> 'b web handler" where
  "admin_hosts_page env rq =
     w_bind (hosts_with_status env) (\<lambda>hs. w_return (page ''admin_hosts.html''
       [(''hosts'', JList hs), (''app_version'', JStr APP_VERSION)]))"

definition hosts_partial :: "'b wizard_env \<Rightarrow> entry \<Rightarrow> ('b web, web_response) web_steps" where
  "hosts_partial env extra =
     w_bind (hosts_with_status env) (\<lambda>hs. w_return (page ''partials/admin_hosts.html'' ([(''hosts'', JList hs)] @ extra)))"

text \<open>A block under \<open>try\<close> whose exception is shown on a page.\<close>

definition w_catch :: "('w, 'a) web_steps \<Rightarrow> (exn \<Rightarrow> ('w, 'c) web_steps) \<Rightarrow> ('a \<Rightarrow> ('w, 'c) web_steps) \<Rightarrow> ('w, 'c) web_steps" where
  "w_catch m f k w = (case m w of (Inl e, w1) \<Rightarrow> f e w1 | (Inr x, w1) \<Rightarrow> k x w1)"

definition hosts_error :: "'b wizard_env \<Rightarrow> exn \<Rightarrow> ('b web, web_response) web_steps" where
  "hosts_error env e = hosts_partial env [(''error'', JStr (exn_str e))]"

subsection \<open>Hosts are added, edited and deleted\<close>

definition field_port :: "string \<Rightarrow> int option res" where
  "field_port port =
     (if py_strip port = [] then Inr None
      else case py_int port of
             Some n \<Rightarrow> Inr (Some n)
           | None \<Rightarrow> raise ''ValueError'' (''invalid literal for int() with base 10: '' @ py_repr port))"

definition USER_REQUIRED :: string where
  "USER_REQUIRED = ''SSH user is required. Enter a non-root user account.''"

definition admin_add_host :: "'b wizard_env \<Rightarrow> string \<Rightarrow> string \<Rightarrow> string \<Rightarrow> string \<Rightarrow> 'b web handler" where
  "admin_add_host env name host user port rq =
     w_catch
       (if py_strip name = [] \<or> py_strip host = [] then w_lift (raise ''ValueError'' ''Name and IP / hostname are required.'')
        else if py_strip user = [] then w_lift (raise ''ValueError'' USER_REQUIRED)
        else w_bind (w_lift (field_port port)) (\<lambda>p.
          w_add_host (py_strip name) (py_strip host) (Some (py_strip user)) p None None None None None))
       (hosts_error env) (\<lambda>slug. hosts_partial env [(''open_creds'', JStr slug)])"

definition HOST_NOT_FOUND :: web_response where
  "HOST_NOT_FOUND = html 200 (''<span class='' @ [QUOTE] @ ''text-red-400 text-xs'' @ [QUOTE] @ ''>Host not found</span>'')"

definition with_host :: "string \<Rightarrow> web_response \<Rightarrow> (host \<Rightarrow> ('b web, web_response) web_steps) \<Rightarrow> ('b web, web_response) web_steps" where
  "with_host slug missing k = w_state (\<lambda>w. case map_of (get_hosts (wb_config w)) slug of None \<Rightarrow> w_return missing | Some h \<Rightarrow> k h)"

definition host_json :: "string \<Rightarrow> host \<Rightarrow> json" where
  "host_json slug h = JObj
     [(''slug'', JStr slug), (''name'', JStr (h_name h)), (''host'', text_or_null (h_host h)), (''user'', text_or_null (h_user h)),
      (''port'', case h_port h of None \<Rightarrow> JNull | Some n \<Rightarrow> JNum n)]"

definition admin_edit_host_form :: "string \<Rightarrow> 'b web handler" where
  "admin_edit_host_form slug rq = with_host slug HOST_NOT_FOUND (\<lambda>h. w_return
     (page ''partials/admin_host_edit_form.html'' [(''host'', host_json slug h)]))"

definition w_update_host :: "string \<Rightarrow> string \<Rightarrow> string \<Rightarrow> string \<Rightarrow> int option \<Rightarrow> ('b web, string) web_steps" where
  "w_update_host slug name host user port w =
     (let (new_slug, d) = update_host slug name host (Some user) port (wb_config w) in (Inr new_slug, w\<lparr>wb_config := d\<rparr>))"

definition admin_update_host :: "'b wizard_env \<Rightarrow> string \<Rightarrow> string \<Rightarrow> string \<Rightarrow> string \<Rightarrow> string \<Rightarrow> 'b web handler" where
  "admin_update_host env slug name host user port rq =
     w_catch
       (if py_strip user = [] then w_lift (raise ''ValueError'' USER_REQUIRED)
        else w_bind (w_lift (field_port port)) (\<lambda>p.
          w_bind (w_update_host slug (py_strip name) (py_strip host) (py_strip user) p) (\<lambda>new_slug.
            w_creds (rename_credentials (wz_crypto env) slug new_slug))))
       (hosts_error env) (\<lambda>_. hosts_partial env [(''root_warning'', JBool (py_strip user = ''root''))])"

definition admin_delete_host :: "'b wizard_env \<Rightarrow> string \<Rightarrow> 'b web handler" where
  "admin_delete_host env slug rq =
     w_catch (w_bind (w_config (delete_host slug)) (\<lambda>_. w_creds (delete_credentials (wz_crypto env) slug)))
       (hosts_error env)
       (\<lambda>_. w_bind (w_audit env rq ''host.delete'' slug) (\<lambda>_. hosts_partial env []))"

subsection \<open>Credentials\<close>

definition admin_credentials_form :: "'b wizard_env \<Rightarrow> string \<Rightarrow> 'b web handler" where
  "admin_credentials_form env slug rq = with_host slug HOST_NOT_FOUND (\<lambda>h. w_bind (w_status env slug) (\<lambda>st. w_return
     (page ''partials/admin_host_credentials.html'' [(''host'', host_json slug h), (''status'', JObj (status_json st))])))"

text \<open>The login that was not chosen is cleared by the empty string; an empty field of the chosen one leaves what is stored.\<close>

definition chosen_secret :: "bool \<Rightarrow> string \<Rightarrow> string option" where
  "chosen_secret wanted v = (if wanted then or_none (py_strip v) else Some [])"

definition admin_save_credentials :: "'b wizard_env \<Rightarrow> string \<Rightarrow> string \<Rightarrow> string \<Rightarrow> string \<Rightarrow> string \<Rightarrow> 'b web handler" where
  "admin_save_credentials env slug auth_method ssh_password ssh_key sudo_password rq =
     w_catch
       (w_creds (save_credentials (wz_crypto env) slug (chosen_secret (auth_method = ''password'') ssh_password)
          (chosen_secret (auth_method = ''key'') ssh_key) (or_none (py_strip sudo_password))))
       (\<lambda>e. w_state (\<lambda>w. w_bind (w_status env slug) (\<lambda>st. w_return (page ''partials/admin_host_credentials.html''
          [(''host'', case map_of (get_hosts (wb_config w)) slug of None \<Rightarrow> JObj [] | Some h \<Rightarrow> host_json slug h),
           (''status'', JObj (status_json st)), (''error'', JStr (exn_str e))]))))
       (\<lambda>_. w_bind (w_audit env rq ''credential.save'' slug) (\<lambda>_. hosts_partial env [(''discover_docker'', JStr slug)]))"

definition admin_test_host :: "'b wizard_env \<Rightarrow> string \<Rightarrow> 'b web handler" where
  "admin_test_host env slug rq = with_host slug HOST_NOT_FOUND (\<lambda>h.
     w_bind (w_read (get_credentials (wz_crypto env) slug)) (\<lambda>creds.
       let (ok, msg) = fst (verify_connection (wz_dial env) (wz_remote env) (ssh_view slug h) (host_creds creds)) in
       w_return (page ''partials/admin_host_test_result.html''
         [(''slug'', JStr slug), (''result'', JObj [(''ok'', JBool ok), (''message'', JStr msg)])])))"

subsection \<open>Containers\<close>

definition group_containers ::
  "shown_container list \<Rightarrow> (string \<times> shown_container list) list \<times> shown_container list" where
  "group_containers cs =
     (let (groups, standalone) = fold (\<lambda>c (gs, ss).
            if truthy_s (sn_project c)
            then (dict_set (the (sn_project c)) (get_or (dict_get gs (the (sn_project c))) [] @ [c]) gs, ss)
            else (gs, ss @ [c])) cs ([], [])
      in (sort_key fst groups, standalone))"

definition portainer_dependency :: "px_context \<Rightarrow> shown_container list \<Rightarrow> nat \<times> bool" where
  "portainer_dependency cx cs =
     (let managed_count = length (filter sn_portainer_managed cs)
      in (managed_count, 0 < managed_count \<and> \<not> portainer_integration_active cx))"

text \<open>The container backend looks at the stored configuration and credentials.\<close>

definition docker_now :: "'b wizard_env \<Rightarrow> docker_env \<Rightarrow> 'b web \<Rightarrow> docker_env" where
  "docker_now env de w = de\<lparr>de_host := (de_host de)\<lparr>he_context := job_context (wz_crypto env) w\<rparr>,
     de_creds := (\<lambda>slug. fst (get_credentials (wz_crypto env) slug (wb_creds w)))\<rparr>"

definition container_json :: "shown_container \<Rightarrow> json" where
  "container_json c = JObj
     [(''name'', JStr (sn_name c)), (''image'', JStr (sn_image c)), (''status'', JStr (sn_status c)), (''running'', JBool (sn_running c)),
      (''compose_project'', text_or_null (sn_project c)), (''css_id'', JStr (sn_css_id c)),
      (''portainer_managed'', JBool (sn_portainer_managed c))]"

definition container_fields :: "px_context \<Rightarrow> string \<Rightarrow> host \<Rightarrow> shown_container list \<Rightarrow> entry" where
  "container_fields cx slug h cs =
     (let (groups, standalone) = group_containers cs; (managed_count, required) = portainer_dependency cx cs in
      [(''slug'', JStr slug), (''host'', host_json slug h),
       (''compose_groups'', JObj (map (\<lambda>(p, g). (p, JList (map container_json g))) groups)),
       (''standalone'', JList (map container_json standalone)),
       (''portainer_required'', JBool required), (''portainer_managed_count'', JNum (int managed_count))])"

definition admin_dismiss_docker_prompt :: "string \<Rightarrow> 'b web handler" where
  "admin_dismiss_docker_prompt slug rq = w_return (html 200 [])"

definition admin_docker_discover :: "'b wizard_env \<Rightarrow> docker_env \<Rightarrow> string \<Rightarrow> 'b web handler" where
  "admin_docker_discover env de slug rq = with_host slug (html 200 []) (\<lambda>h. w_state (\<lambda>w. w_return
     (case discover_host_containers (docker_now env de w) slug h of
        Inl e \<Rightarrow> html 200 []
      | Inr cs \<Rightarrow>
          if cs = [] then html 200 []
          else page ''partials/admin_docker_prompt.html''
            (container_fields (job_context (wz_crypto env) w) slug h cs @ [(''container_count'', JNum (int (length cs)))]))))"

definition admin_docker_manage :: "'b wizard_env \<Rightarrow> docker_env \<Rightarrow> string \<Rightarrow> 'b web handler" where
  "admin_docker_manage env de slug rq = with_host slug (html 200 []) (\<lambda>h. w_state (\<lambda>w. w_return
     (let (cs, error) = (case discover_host_containers (docker_now env de w) slug h of
                           Inl e \<Rightarrow> ([], JStr (exn_str e)) | Inr cs \<Rightarrow> (cs, JNull)) in
      page ''partials/admin_docker_manage.html''
        (container_fields (job_context (wz_crypto env) w) slug h cs @ [(''error'', error)]))))"

text \<open>\<open>set_docker_monitoring\<close> does not raise on a configuration that can be read.\<close>

definition admin_save_docker_monitoring :: "'b wizard_env \<Rightarrow> string \<Rightarrow> string \<Rightarrow> string list \<Rightarrow> 'b web handler" where
  "admin_save_docker_monitoring env slug docker_mode containers rq =
     w_bind (w_config (set_docker_monitoring slug docker_mode (if docker_mode = ''selected'' then Some containers else None))) (\<lambda>_.
       hosts_partial env [(''save_success'', JBool True)])"

subsection \<open>About\<close>

definition age_text :: "int \<Rightarrow> string" where
  "age_text days =
     (if days = 0 then ''today'' else if days = 1 then ''yesterday''
      else if days < 30 then show_int days @ '' days ago''
      else if days < 365 then show_int (days div 30) @ '' months ago''
      else show_int (days div 365) @ '' years ago'')"

text \<open>\<open>read_iso\<close> is \<open>datetime.fromisoformat\<close>; a time without a zone cannot be subtracted.\<close>

definition release_age :: "(string \<Rightarrow> stamp) \<Rightarrow> time \<Rightarrow> json \<Rightarrow> json option" where
  "release_age read_iso now r =
     (case (r, json_item r ''published_at'') of
        (JObj fs, Some (JStr p)) \<Rightarrow>
          (case read_iso (py_replace ''Z'' ''+00:00'' p) of
             Aware pub \<Rightarrow> Some (JObj (dict_set ''age'' (JStr (age_text (floor ((now - pub) / 86400)))) fs))
           | _ \<Rightarrow> None)
      | _ \<Rightarrow> None)"

text \<open>The releases before one that cannot be read, and whether all were read.\<close>

fun aged_releases :: "(string \<Rightarrow> stamp) \<Rightarrow> time \<Rightarrow> json list \<Rightarrow> json list \<times> bool" where
  "aged_releases read_iso now [] = ([], True)"
| "aged_releases read_iso now (r # rs) =
     (case release_age read_iso now r of
        None \<Rightarrow> ([], False)
      | Some a \<Rightarrow> let (as, all_read) = aged_releases read_iso now rs in (a # as, all_read))"

definition latest_releases :: "(string \<Rightarrow> stamp) \<Rightarrow> time \<Rightarrow> api_out \<Rightarrow> json list \<times> json" where
  "latest_releases read_iso now answer =
     (case answer of
        ApiResp status ok (Some (JList raw)) \<Rightarrow>
          if status \<noteq> 200 then ([], JNull)
          else let (releases, all_read) = aged_releases read_iso now (take 10 raw)
               in (releases, if all_read \<and> releases \<noteq> [] then get_or (json_item (hd releases) ''tag_name'') JNull else JNull)
      | _ \<Rightarrow> ([], JNull))"

definition admin_about :: "(string \<Rightarrow> stamp) \<Rightarrow> time \<Rightarrow> api_out \<Rightarrow> string option \<Rightarrow> 'b web handler" where
  "admin_about read_iso now answer data_path rq =
     w_state (\<lambda>w. let (releases, latest) = latest_releases read_iso now answer in
       w_return (page ''admin_about.html''
         [(''app_version'', JStr APP_VERSION), (''host_count'', JNum (int (length (get_hosts (wb_config w))))),
          (''data_dir'', JStr (get_or data_path ''/app/data'')), (''timezone'', JStr (get_timezone (wb_config w))),
          (''releases'', JList releases), (''latest_version'', latest),
          (''is_latest'', JBool (json_truthy latest \<and> latest = JStr (''v'' @ APP_VERSION)))]))"

subsection \<open>Activity\<close>

definition ACTIVITY_KINDS :: entry where
  "ACTIVITY_KINDS = [(''os_upgrade'', JStr ''OS''), (''container_redeploy'', JStr ''Container''), (''reboot'', JStr ''Reboot'')]"

definition activity_json :: "activity \<Rightarrow> json" where
  "activity_json a = JObj
     [(''id'', JStr (ac_id a)), (''kind'', JStr (ac_kind a)), (''target'', JStr (ac_target a)), (''target_name'', JStr (ac_target_name a)),
      (''trigger'', JStr (ac_trigger a)), (''status'', JStr (ac_status a)), (''error'', JStr (ac_error a)),
      (''line_count'', JNum (int (ac_line_count a)))]"

text \<open>The stored secrets are read for the redaction of runs imported from the old log.\<close>

definition secrets_now :: "'b run_env \<Rightarrow> 'b dash \<Rightarrow> string list" where
  "secrets_now e ds = secret_values (fst (load_store (rv_crypto e) (wb_creds (ds_web ds))))"

definition admin_activity :: "'b run_env \<Rightarrow> string \<Rightarrow> string \<Rightarrow> string \<Rightarrow> 'b dash_handler" where
  "admin_activity e status trigger kind rq ds =
     (let (entries, lg) = get_recent (rv_now e) (secrets_now e ds) (rv_ids e) 500 status trigger kind (ds_log ds) in
      (Inr (page ''admin_activity.html'' [(''entries'', JList (map activity_json entries)), (''kind_labels'', JObj ACTIVITY_KINDS),
         (''f_status'', JStr status), (''f_trigger'', JStr trigger), (''f_kind'', JStr kind)]), ds\<lparr>ds_log := lg\<rparr>))"

definition admin_activity_output :: "'b run_env \<Rightarrow> string \<Rightarrow> 'b dash_handler" where
  "admin_activity_output e run_id rq ds =
     (let (found, lg) = get_run (rv_now e) (secrets_now e ds) (rv_ids e) run_id (ds_log ds) in
      (Inr (case found of
              None \<Rightarrow> html 200 []
            | Some a \<Rightarrow> page ''partials/activity_output.html''
                [(''entry'', activity_json a), (''log_lines'', JList (log_line_items (get_run_output run_id lg)))]),
       ds\<lparr>ds_log := lg\<rparr>))"

definition admin_auto_update_history :: "'b web handler" where
  "admin_auto_update_history rq = w_return (redirect 302 ''/admin/activity'')"

subsection \<open>What the forms leave\<close>

lemma catch_run: "m w = (Inr x, w1) \<Longrightarrow> w_catch m f k w = k x w1"
  by (simp add: w_catch_def)

text \<open>The list of hosts only reads.\<close>

lemma status_reads:
  assumes "ready c d"
  shows "ready c (snd (credential_status c slug d))" and "view c (snd (credential_status c slug d)) = view c d"
  using load_store_ready [OF assms] by (simp_all add: credential_status_def get_credentials_def case_prod_beta Let_def)

lemma keeps_status [w_keep]: "w_keeps (untouched (wz_crypto env) w0) (w_status env slug)"
  unfolding w_keeps_def w_status_def w_read_def untouched_def
  by (simp add: case_prod_beta Let_def status_reads)

lemma keeps_w_map: "(\<And>x. w_keeps P (f x)) \<Longrightarrow> w_keeps P (w_map f xs)"
  by (induction xs) (auto intro!: w_keep)

lemma keeps_hosts_partial [w_keep]: "w_keeps (untouched (wz_crypto env) w0) (hosts_partial env extra)"
  unfolding hosts_partial_def hosts_with_status_def listed_with_status_def by (intro w_keep keeps_w_map)

lemma partial_untouched: "untouched (wz_crypto env) w w1 \<Longrightarrow> untouched (wz_crypto env) w (snd (hosts_partial env extra w1))"
  by (rule keepsD [OF keeps_hosts_partial])

text \<open>After an audit line and the list: the stored data is what it was.\<close>

lemma audited_list:
  assumes "ready (wz_crypto env) (wb_creds w)"
  obtains w' where "snd (w_bind (w_audit env rq action target) (\<lambda>_. hosts_partial env extra) w) = w'"
    and "view (wz_crypto env) (wb_creds w') = view (wz_crypto env) (wb_creds w)" and "wb_config w' = wb_config w"
    and "wb_audit w' \<noteq> []" and "au_action (last (wb_audit w')) = action" and "au_target (last (wb_audit w')) = target"
proof -
  obtain w1 where a: "w_audit env rq action target w = (Inr (), w1)" and r: "ready (wz_crypto env) (wb_creds w1)"
    and v: "view (wz_crypto env) (wb_creds w1) = view (wz_crypto env) (wb_creds w)" and c: "wb_config w1 = wb_config w"
    and l: "map (\<lambda>l. (au_action l, au_target l)) (wb_audit w1) = map (\<lambda>l. (au_action l, au_target l)) (wb_audit w) @ [(action, target)]"
    using audit_run [OF assms] .
  have u: "untouched (wz_crypto env) w1 (snd (hosts_partial env extra w1))"
    by (rule partial_untouched [OF untouched_refl [OF r]])
  show thesis using that [of "snd (hosts_partial env extra w1)"] u v c map_snoc_last [OF l]
    by (simp add: bind_run a untouched_def)
qed

lemma delete_host_shown: "get_hosts (delete_host slug d) = filter (\<lambda>(s, h). s \<noteq> slug) (get_hosts d)"
  by (auto simp: get_hosts_def delete_host_def has_slug_def load_config_def save_config_def Let_def filter_map comp_def conj_commute
    intro!: filter_cong)

text \<open>C18. Deleting a host takes away every entry with its slug and the credentials stored under it, leaves all other hosts and
  credentials as they are, and is named in the audit log.\<close>
theorem deleted_host_leaves_nothing:
  assumes "ready (wz_crypto env) (wb_creds w)"
  shows "\<exists>w'. snd (admin_delete_host env slug rq w) = w'
    \<and> get_hosts (wb_config w') = filter (\<lambda>(s, h). s \<noteq> slug) (get_hosts (wb_config w))
    \<and> dict_get (view (wz_crypto env) (wb_creds w')) slug = None
    \<and> (\<forall>k. k \<noteq> slug \<longrightarrow> dict_get (view (wz_crypto env) (wb_creds w')) k = dict_get (view (wz_crypto env) (wb_creds w)) k)
    \<and> wb_audit w' \<noteq> [] \<and> au_action (last (wb_audit w')) = ''host.delete'' \<and> au_target (last (wb_audit w')) = slug"
proof -
  let ?c = "wz_crypto env"
  obtain d where d: "delete_credentials ?c slug (wb_creds w) = (Inr (), d)" and r: "ready ?c d"
    and v: "view ?c d = dict_pop slug (view ?c (wb_creds w))"
    using load_save_ready [OF assms, of "dict_pop slug"] by (auto simp: delete_credentials_def)
  let ?w1 = "w\<lparr>wb_config := delete_host slug (wb_config w), wb_creds := d\<rparr>"
  have m: "w_bind (w_config (delete_host slug)) (\<lambda>_. w_creds (delete_credentials ?c slug)) w = (Inr (), ?w1)"
    by (simp add: w_bind_def w_config_def w_creds_def d)
  have run: "admin_delete_host env slug rq w = w_bind (w_audit env rq ''host.delete'' slug) (\<lambda>_. hosts_partial env []) ?w1"
    unfolding admin_delete_host_def
    by (rule catch_run [where m = "w_bind (w_config (delete_host slug)) (\<lambda>_. w_creds (delete_credentials ?c slug))" and w = w, OF m])
  have "ready ?c (wb_creds ?w1)" using r by simp
  from audited_list [OF this, of rq "''host.delete''" slug "[]"] obtain w' where
    "snd (admin_delete_host env slug rq w) = w'" "view ?c (wb_creds w') = view ?c d" "wb_config w' = delete_host slug (wb_config w)"
    "wb_audit w' \<noteq> []" "au_action (last (wb_audit w')) = ''host.delete''" "au_target (last (wb_audit w')) = slug"
    using run by auto
  then show ?thesis by (simp add: delete_host_shown v dict_simps)
qed

text \<open>C17. The credentials form sets the login: with a password the next connection to the host uses that password, with a key that
  key, whatever was stored before; the credentials of other hosts stay.\<close>
theorem credentials_form_sets_login:
  assumes "ready (wz_crypto env) (wb_creds w)"
    and "auth_method = ''password'' \<and> py_strip ssh_password \<noteq> [] \<or> auth_method = ''key'' \<and> py_strip ssh_key \<noteq> []"
  shows "\<exists>w' e. snd (admin_save_credentials env slug auth_method ssh_password ssh_key sudo_password rq w) = w'
    \<and> dict_get (view (wz_crypto env) (wb_creds w')) slug = Some e
    \<and> connect_auth host (host_creds e) = (if auth_method = ''password'' then Password (py_strip ssh_password) else PrivateKey (py_strip ssh_key))
    \<and> (\<forall>k. k \<noteq> slug \<longrightarrow> dict_get (view (wz_crypto env) (wb_creds w')) k = dict_get (view (wz_crypto env) (wb_creds w)) k)"
proof -
  let ?c = "wz_crypto env" and ?pw = "chosen_secret (auth_method = ''password'') ssh_password"
  let ?key = "chosen_secret (auth_method = ''key'') ssh_key" and ?sudo = "or_none (py_strip sudo_password)"
  let ?fs = "[(''ssh_password'', map_option JStr ?pw), (''ssh_key'', map_option JStr ?key), (''sudo_password'', map_option JStr ?sudo)]"
  obtain d where d: "save_credentials ?c slug ?pw ?key ?sudo (wb_creds w) = (Inr (), d)" and r: "ready ?c d"
    and v: "view ?c d = put_entry slug ?fs (view ?c (wb_creds w))"
    using load_save_ready [OF assms(1), of "put_entry slug ?fs"] by (auto simp: save_credentials_def)
  have run: "admin_save_credentials env slug auth_method ssh_password ssh_key sudo_password rq w
      = w_bind (w_audit env rq ''credential.save'' slug) (\<lambda>_. hosts_partial env [(''discover_docker'', JStr slug)]) (w\<lparr>wb_creds := d\<rparr>)"
    unfolding admin_save_credentials_def by (rule catch_run) (simp add: w_creds_def d)
  have "ready ?c (wb_creds (w\<lparr>wb_creds := d\<rparr>))" using r by simp
  from audited_list [OF this, of rq "''credential.save''" slug "[(''discover_docker'', JStr slug)]"] obtain w' where
    w': "snd (admin_save_credentials env slug auth_method ssh_password ssh_key sudo_password rq w) = w'" "view ?c (wb_creds w') = view ?c d"
    using run by auto
  let ?e = "put_fields ?fs (get_or (dict_get (view ?c (wb_creds w)) slug) [])"
  have fields: "dict_get ?e ''ssh_password'' = (if auth_method = ''password'' then Some (JStr (py_strip ssh_password)) else None)"
    "auth_method \<noteq> ''password'' \<Longrightarrow> dict_get ?e ''ssh_key'' = Some (JStr (py_strip ssh_key))"
    using assms(2) by (auto simp: put_fields_def put_field_def chosen_secret_def or_none_def dict_simps split: option.splits if_splits)
  have "connect_auth host (host_creds ?e)
      = (if auth_method = ''password'' then Password (py_strip ssh_password) else PrivateKey (py_strip ssh_key))"
    using fields assms(2) by (auto simp: connect_auth_def host_creds_def cred_field_def)
  then show ?thesis using w' by (auto simp: v put_entry_def dict_simps)
qed

lemma rename_run:
  assumes "ready c d" and "dict_get (view c d) old = Some e"
  obtains d' where "rename_credentials c old new d = (Inr (), d')" and "ready c d'"
    and "view c d' = (if old = new then view c d else move_entry old new (view c d))"
proof (cases "old = new")
  case True
  then show ?thesis using that assms by (simp add: rename_credentials_def)
next
  case False
  obtain s d1 where l: "load_store c d = (s, d1)" by fastforce
  then have s: "s = view c d" and r: "ready c d1" using load_store_ready [OF assms(1)] by auto
  obtain d' where "save_store c (move_entry old new s) d1 = (Inr (), d')" "ready c d'" "view c d' = move_entry old new s"
    using save_store_ready [OF r] by blast
  then show ?thesis using that False l s assms(2) by (simp add: rename_credentials_def rename_key_def)
qed

text \<open>An edited host keeps its login: what was stored under its old slug is stored under the slug of its new name, and nothing
  is left under the old one when the two differ; every other host's credentials stay.  (What was stored under the new slug, by
  another host of that name, is replaced.)\<close>
theorem host_edit_keeps_login:
  assumes "ready (wz_crypto env) (wb_creds w)" and "py_strip user \<noteq> []" and "field_port port = Inr p"
    and "dict_get (view (wz_crypto env) (wb_creds w)) slug = Some e"
  shows "\<exists>w'. snd (admin_update_host env slug name host user port rq w) = w'
    \<and> wb_config w' = snd (update_host slug (py_strip name) (py_strip host) (Some (py_strip user)) p (wb_config w))
    \<and> dict_get (view (wz_crypto env) (wb_creds w')) (slugify (py_strip name)) = Some e
    \<and> (slugify (py_strip name) \<noteq> slug \<longrightarrow> dict_get (view (wz_crypto env) (wb_creds w')) slug = None)
    \<and> (\<forall>k. k \<noteq> slug \<and> k \<noteq> slugify (py_strip name) \<longrightarrow>
         dict_get (view (wz_crypto env) (wb_creds w')) k = dict_get (view (wz_crypto env) (wb_creds w)) k)"
proof -
  let ?c = "wz_crypto env" and ?new = "slugify (py_strip name)"
  let ?d = "snd (update_host slug (py_strip name) (py_strip host) (Some (py_strip user)) p (wb_config w))"
  obtain d where d: "rename_credentials ?c slug ?new (wb_creds w) = (Inr (), d)" and r: "ready ?c d"
    and v: "view ?c d = (if slug = ?new then view ?c (wb_creds w) else move_entry slug ?new (view ?c (wb_creds w)))"
    using rename_run [OF assms(1,4)] .
  let ?m = "w_bind (w_update_host slug (py_strip name) (py_strip host) (py_strip user) p) (\<lambda>new_slug. w_creds (rename_credentials ?c slug new_slug))"
  let ?w1 = "w\<lparr>wb_config := ?d, wb_creds := d\<rparr>"
  have m: "?m w = (Inr (), ?w1)" by (simp add: w_bind_def w_update_host_def update_host_def w_creds_def d)
  have "w_bind (w_lift (field_port port)) (\<lambda>p.
          w_bind (w_update_host slug (py_strip name) (py_strip host) (py_strip user) p) (\<lambda>new_slug.
            w_creds (rename_credentials ?c slug new_slug))) w = ?m w"
    by (rule bind_run) (simp add: w_lift_def assms(3))
  then have "w_catch (w_bind (w_lift (field_port port)) (\<lambda>p.
          w_bind (w_update_host slug (py_strip name) (py_strip host) (py_strip user) p) (\<lambda>new_slug.
            w_creds (rename_credentials ?c slug new_slug)))) f k w = k () ?w1" for f and k :: "unit \<Rightarrow> ('a web, web_response) web_steps"
    using m by (simp add: w_catch_def)
  then have run: "admin_update_host env slug name host user port rq w = hosts_partial env [(''root_warning'', JBool (py_strip user = ''root''))] ?w1"
    using assms(2) by (simp add: admin_update_host_def)
  have "untouched ?c ?w1 (snd (admin_update_host env slug name host user port rq w))"
    unfolding run by (rule partial_untouched [OF untouched_refl]) (simp add: r)
  then show ?thesis using assms(4) v by (auto simp: untouched_def move_entry_def dict_simps)
qed

subsection \<open>Concrete hosts\<close>

definition two_hosts_web :: "(string \<times> store) web" where
  "two_hosts_web = demo_web\<lparr>wb_config := Some (empty_config\<lparr>c_hosts := Some
       [build_host_entry ''NAS'' ''10.0.0.2'' (Some ''me'') None None None None None None None,
        build_host_entry ''Web'' ''10.0.0.3'' (Some ''me'') None None None None None None None]\<rparr>),
     wb_creds := snd (save_credentials plain_crypto ''nas'' (Some ''pw'') None None fresh_disk)\<rparr>"

lemma two_hosts_ready: "ready (wz_crypto demo_wizard) (wb_creds two_hosts_web)"
proof -
  obtain d where "save_credentials plain_crypto ''nas'' (Some ''pw'') None None fresh_disk = (Inr (), d)" and "ready plain_crypto d"
    using load_save_ready [OF plain_ready, of "put_entry ''nas'' [(''ssh_password'', Some (JStr ''pw'')), (''ssh_key'', None), (''sudo_password'', None)]"]
    by (auto simp: save_credentials_def)
  then show ?thesis by (simp add: two_hosts_web_def demo_wizard_def demo_web_env_def wz_crypto_def)
qed

theorem deleted_host_leaves_nothing_witness:
  "map fst (get_hosts (wb_config (snd (admin_delete_host demo_wizard ''nas'' home_request two_hosts_web)))) = [''web'']"
proof -
  have "filter (\<lambda>(s, h). s \<noteq> ''nas'') (get_hosts (wb_config two_hosts_web)) = drop 1 (get_hosts (wb_config two_hosts_web))"
    "map fst (drop 1 (get_hosts (wb_config two_hosts_web))) = [''web'']" by code_simp+
  then show ?thesis using deleted_host_leaves_nothing [OF two_hosts_ready, of "''nas''" home_request] by simp
qed

theorem credentials_form_sets_login_witness:
  "\<exists>e. dict_get (view plain_crypto (wb_creds (snd (admin_save_credentials demo_wizard ''nas'' ''key'' [] '' PEM '' [] home_request two_hosts_web))))
       ''nas'' = Some e \<and> connect_auth demo_host (host_creds e) = PrivateKey ''PEM''"
proof -
  have a: "''key'' = ''password'' \<and> py_strip [] \<noteq> [] \<or> ''key'' = ''key'' \<and> py_strip '' PEM '' \<noteq> []" "py_strip '' PEM '' = ''PEM''" by code_simp+
  show ?thesis using credentials_form_sets_login [OF two_hosts_ready a(1), of "''nas''" "[]" home_request demo_host] a(2)
    by (auto simp: demo_wizard_def demo_web_env_def wz_crypto_def)
qed

theorem host_edit_keeps_login_witness:
  "dict_get (view plain_crypto (wb_creds (snd (admin_update_host demo_wizard ''nas'' '' Big NAS '' ''10.0.0.2'' ''me'' [] home_request two_hosts_web))))
     ''big-nas'' = Some [(''ssh_password'', JStr ''pw'')]"
proof -
  have a: "py_strip ''me'' \<noteq> []" "field_port [] = Inr None" "slugify (py_strip '' Big NAS '') = ''big-nas''"
    "dict_get (view (wz_crypto demo_wizard) (wb_creds two_hosts_web)) ''nas'' = Some [(''ssh_password'', JStr ''pw'')]" by code_simp+
  show ?thesis using host_edit_keeps_login [OF two_hosts_ready a(1,2,4), of "'' Big NAS ''" "''10.0.0.2''" home_request] a(3)
    by (simp add: demo_wizard_def demo_web_env_def wz_crypto_def)
qed

end
