(* ===== verification/AutoUpdatePages.thy ===== *)
theory AutoUpdatePages
  imports AdminHosts
begin

section \<open>The page of the automatic updates (app/auto_updates_router.py)\<close>

text \<open>
  The forms of \<open>Scheduler\<close> with the pages that answer them: the card that tells when the next check is due, the rows of hosts
  and stacks and the listing of stacks.  \<open>cron_error\<close> is what the crontab parser of the scheduler says of an expression.  The
  clock is read once per request.
\<close>

type_synonym sched_handler = "web_request \<Rightarrow> disk \<times> jobs \<Rightarrow> web_response res \<times> (disk \<times> jobs)"

definition INTERVAL_LABELS :: "(int \<times> string) list" where
  "INTERVAL_LABELS = [(0, ''Off''), (1, ''Every hour''), (6, ''Every 6 hours''), (12, ''Every 12 hours''), (24, ''Every 24 hours'')]"

text \<open>\<open>round(x)\<close>, ties to even.\<close>

definition round_even :: "rat \<Rightarrow> int" where
  "round_even x =
     (let f = \<lfloor>x\<rfloor>; r = x - of_int f in if r < 1/2 \<or> (r = 1/2 \<and> even f) then f else f + 1)"

text \<open>\<open>int\<close> drops the fraction; below zero it does not matter, since the number is raised to zero.\<close>

definition in_words :: "time \<Rightarrow> string" where
  "in_words delta =
     (let seconds = max \<lfloor>delta\<rfloor> 0 in
      if seconds < 120 then ''any moment now''
      else if seconds < 5400 then ''in about '' @ show_int (max (seconds div 60) 1) @ '' minutes''
      else ''in about '' @ show_int (round_even (of_int seconds / 3600)) @ '' hours'')"

definition status_line :: "time \<Rightarrow> time option \<Rightarrow> time \<Rightarrow> string" where
  "status_line now last_one first =
     (let due = in_words (first - now) in
      case last_one of
        None \<Rightarrow> ''No check has run yet '' @ MIDDOT @ '' first check '' @ due @ ''.''
      | Some t \<Rightarrow> ''Last checked '' @ relative now (Some t) @ '' '' @ MIDDOT @ '' next check '' @ due @ ''.'')"

record check_card =
  cc_hours :: int
  cc_options :: "(int \<times> string) list"
  cc_line :: string

definition check_card_context :: "time \<Rightarrow> checks_file \<Rightarrow> disk \<Rightarrow> check_card \<times> disk" where
  "check_card_context now checks cfg =
     (let (hours, cfg') = get_update_check_interval_hours cfg;
          options = map (\<lambda>v. (v, get_or (dict_get INTERVAL_LABELS v) [])) UPDATE_CHECK_INTERVALS
      in (\<lparr>cc_hours = hours, cc_options = options,
            cc_line = (if hours = 0 then [] else status_line now (last_scan checks) (first_check_time now hours (last_scan checks)))\<rparr>,
          cfg'))"

definition card_json :: "check_card \<Rightarrow> entry" where
  "card_json cc =
     [(''check_interval_hours'', JNum (cc_hours cc)),
      (''check_interval_options'', JList (map (\<lambda>(v, label). JList [JNum v, JStr label]) (cc_options cc))),
      (''check_status_line'', JStr (cc_line cc))]"

definition auto_updates_page :: "time \<Rightarrow> checks_file \<Rightarrow> sched_handler" where
  "auto_updates_page now checks rq s =
     (let (cc, cfg) = check_card_context now checks (fst s) in
      (Inr (page ''auto_updates.html'' ([(''hosts'', listed_json (get_hosts (fst s)))] @ card_json cc)), (cfg, snd s)))"

definition check_interval_form :: "time \<Rightarrow> checks_file \<Rightarrow> string \<Rightarrow> sched_handler" where
  "check_interval_form now checks interval_hours rq s =
     (let (cfg, jobs) = save_check_interval now checks interval_hours s; (cc, cfg') = check_card_context now checks cfg in
      (Inr (page ''partials/update_check_card.html'' ([(''check_saved'', JBool True)] @ card_json cc)), (cfg', jobs)))"

subsection \<open>Rows\<close>

definition auto_json :: "string \<Rightarrow> host \<Rightarrow> entry" where
  "auto_json slug h =
     [(''slug'', JStr slug), (''name'', JStr (h_name h)), (''os_enabled'', JBool (au_os_enabled (auto_of h))),
      (''os_schedule'', JStr (au_os_schedule (auto_of h))), (''auto_reboot'', JBool (au_auto_reboot (auto_of h)))]"

definition host_row :: "string \<Rightarrow> disk \<Rightarrow> string \<times> json \<Rightarrow> web_response" where
  "host_row slug cfg field = page ''partials/auto_update_host_row.html''
     [(''host'', JObj (case map_of (get_hosts cfg) slug of None \<Rightarrow> [] | Some h \<Rightarrow> auto_json slug h)), field]"

definition host_auto_form :: "(string \<Rightarrow> string option) \<Rightarrow> string \<Rightarrow> string \<Rightarrow> string \<Rightarrow> string \<Rightarrow> sched_handler" where
  "host_auto_form cron_error slug os_enabled os_schedule auto_reboot rq s =
     (let schedule = or_s (Some (py_strip os_schedule)) ''0 3 * * *'';
          s' = save_host_auto_update (\<lambda>e. cron_error e = None) slug os_enabled os_schedule auto_reboot s in
      (Inr (case (if os_enabled = ''on'' then cron_error schedule else None) of
              Some err \<Rightarrow> host_row slug (fst s) (''error'', JStr (''Invalid schedule: '' @ err))
            | None \<Rightarrow> host_row slug (fst s') (''saved'', JBool True)), s'))"

definition stack_auto_form :: "(string \<Rightarrow> string option) \<Rightarrow> string \<Rightarrow> string \<Rightarrow> string \<Rightarrow> string \<Rightarrow> string \<Rightarrow> sched_handler" where
  "stack_auto_form cron_error backend_key ref stack_name enabled schedule rq s =
     (let clean_schedule = or_s (Some (py_strip schedule)) ''0 4 * * *''; update_path = backend_key @ ''/'' @ ref;
          s' = save_stack_auto_update (\<lambda>e. cron_error e = None) backend_key ref stack_name enabled schedule s;
          sa = dict_get (get_all_stack_auto_updates (fst s')) update_path in
      (Inr (case (if enabled = ''on'' then cron_error clean_schedule else None) of
              Some err \<Rightarrow> small_message ''red'' (''Invalid schedule: '' @ err)
            | None \<Rightarrow> page ''partials/auto_update_stack_row.html''
                [(''stack'', JObj [(''update_path'', JStr update_path), (''name'', JStr stack_name), (''backend_key'', JStr backend_key),
                   (''ref'', JStr ref), (''auto_enabled'', JBool (case sa of None \<Rightarrow> False | Some a \<Rightarrow> sa_enabled a)),
                   (''auto_schedule'', JStr (case sa of None \<Rightarrow> clean_schedule | Some a \<Rightarrow> sa_schedule a))]),
                 (''saved'', JBool True)]), s'))"

text \<open>The settings laid over one stack of a backend; a stack without a path raises.\<close>

definition overlay_stack :: "(string \<times> stack_auto) list \<Rightarrow> json \<Rightarrow> json res" where
  "overlay_stack sau s =
     (case (s, json_item s ''update_path'') of
        (JObj fs, Some (JStr p)) \<Rightarrow>
          let sa = dict_get sau p in
          Inr (JObj (dict_set ''auto_schedule'' (JStr (case sa of None \<Rightarrow> ''0 4 * * *'' | Some a \<Rightarrow> sa_schedule a))
            (dict_set ''auto_enabled'' (JBool (case sa of None \<Rightarrow> False | Some a \<Rightarrow> sa_enabled a)) fs)))
      | _ \<Rightarrow> raise ''KeyError'' (py_repr ''update_path''))"

definition auto_update_stacks :: "json list res list \<Rightarrow> sched_handler" where
  "auto_update_stacks backends rq s =
     (Inr (if backends = []
           then page ''partials/auto_update_stacks.html'' [(''stacks'', JList []), (''no_backends'', JBool True)]
           else case collect (\<lambda>x. res_bind (overlay_stack (get_all_stack_auto_updates (fst s)) x) (\<lambda>j. Inr [j]))
                  (concat (map (\<lambda>r. case r of Inl e \<Rightarrow> [] | Inr stacks \<Rightarrow> stacks) backends)) of
                  Inl e \<Rightarrow> error_page (exn_str e)
                | Inr stacks \<Rightarrow> page ''partials/auto_update_stacks.html'' [(''stacks'', JList stacks)]), s)"

subsection \<open>The card tells the truth\<close>

lemma round_even_near: "\<bar>of_int (round_even x) - x\<bar> \<le> 1/2"
proof -
  have "of_int \<lfloor>x\<rfloor> \<le> x" "x < of_int \<lfloor>x\<rfloor> + 1" by linarith+
  then show ?thesis by (auto simp: round_even_def Let_def)
qed

lemma round_even_two: "3/2 \<le> x \<Longrightarrow> 2 \<le> round_even x"
proof (cases "\<lfloor>x\<rfloor> \<ge> 2")
  case True
  then show ?thesis by (simp add: round_even_def Let_def)
next
  case False
  assume x: "3/2 \<le> x"
  have "\<lfloor>x\<rfloor> = 1" using False x by linarith
  then show ?thesis using x by (simp add: round_even_def Let_def)
qed

text \<open>What the card says of the time left is off by at most the unit it speaks in: from an hour and a half on the number of hours
  is within half an hour of the seconds left, from two minutes on the number of minutes is at most one short, and below that it
  says any moment.\<close>
theorem in_words_accurate:
  "if delta < 120 then in_words delta = ''any moment now''
   else if delta < 5400 then (\<exists>m. in_words delta = ''in about '' @ show_int m @ '' minutes''
      \<and> 2 \<le> m \<and> of_int m * 60 \<le> delta \<and> delta < (of_int m + 1) * 60)
   else (\<exists>h. in_words delta = ''in about '' @ show_int h @ '' hours'' \<and> 2 \<le> h \<and> \<bar>h * 3600 - \<lfloor>delta\<rfloor>\<bar> \<le> 1800)"
proof -
  let ?s = "max \<lfloor>delta\<rfloor> 0"
  have small: "\<lfloor>delta\<rfloor> < 120 \<longleftrightarrow> delta < 120" and mid: "\<lfloor>delta\<rfloor> < 5400 \<longleftrightarrow> delta < 5400" by (simp_all add: floor_less_iff)
  show ?thesis
  proof (cases "delta < 120")
    case True
    then show ?thesis using small by (simp add: in_words_def Let_def)
  next
    case large: False
    then have s: "?s = \<lfloor>delta\<rfloor>" "120 \<le> \<lfloor>delta\<rfloor>" using small by auto
    show ?thesis
    proof (cases "delta < 5400")
      case True
      let ?m = "\<lfloor>delta\<rfloor> div 60"
      have m: "2 \<le> ?m" "?m * 60 \<le> \<lfloor>delta\<rfloor>" "\<lfloor>delta\<rfloor> < (?m + 1) * 60" using s(2) by presburger+
      have "of_int (?m * 60) \<le> delta" "delta < of_int ((?m + 1) * 60)"
        using m(2,3) by (simp_all only: le_floor_iff [symmetric] floor_less_iff [symmetric])
      then have "in_words delta = ''in about '' @ show_int ?m @ '' minutes'' \<and> 2 \<le> ?m \<and> of_int ?m * 60 \<le> delta \<and> delta < (of_int ?m + 1) * 60"
        using s m True mid by (simp add: in_words_def Let_def)
      then show ?thesis using large True by auto
    next
      case False
      let ?h = "round_even (of_int \<lfloor>delta\<rfloor> / 3600)"
      have f: "5400 \<le> \<lfloor>delta\<rfloor>" using False mid by simp
      have near: "\<bar>of_int ?h - (of_int \<lfloor>delta\<rfloor> / 3600 :: rat)\<bar> \<le> 1/2" by (rule round_even_near)
      have "\<bar>of_int ?h * 3600 - (of_int \<lfloor>delta\<rfloor> :: rat)\<bar> \<le> 1800" using near by (simp add: abs_if split: if_splits)
      then have "of_int \<bar>?h * 3600 - \<lfloor>delta\<rfloor>\<bar> \<le> (1800 :: rat)" by simp
      then have "\<bar>?h * 3600 - \<lfloor>delta\<rfloor>\<bar> \<le> 1800" by linarith
      moreover have "2 \<le> ?h" using f by (intro round_even_two) simp
      ultimately have "in_words delta = ''in about '' @ show_int ?h @ '' hours'' \<and> 2 \<le> ?h \<and> \<bar>?h * 3600 - \<lfloor>delta\<rfloor>\<bar> \<le> 1800"
        using s f by (simp add: in_words_def Let_def)
      then show ?thesis using large False by auto
    qed
  qed
qed

lemma saved_interval:
  "\<exists>h. h \<in> set UPDATE_CHECK_INTERVALS \<and> get_update_check_interval_hours (save_update_check_interval_hours (JNum n) d)
     = (h, save_update_check_interval_hours (JNum n) d)"
  by (cases "n \<in> set UPDATE_CHECK_INTERVALS")
    (auto simp: save_update_check_interval_hours_def get_update_check_interval_hours_def load_config_def save_config_def
      UPDATE_CHECK_INTERVALS_def DEFAULT_UPDATE_CHECK_HOURS_def Let_def)

lemma interval_nonneg: "h \<in> set UPDATE_CHECK_INTERVALS \<Longrightarrow> h = 0 \<or> 1 \<le> h"
  by (auto simp: UPDATE_CHECK_INTERVALS_def)

lemma first_check_later: "1 \<le> h \<Longrightarrow> now + 60 \<le> first_check_time now h t"
proof -
  assume "1 \<le> h"
  then have "(3600 :: rat) \<le> of_int h * 3600" by simp
  then show ?thesis by (simp add: first_check_time_def RESUME_FLOOR_def split: option.splits)
qed

lemma scheduled_interval:
  "\<exists>cfg h. h \<in> set UPDATE_CHECK_INTERVALS \<and> get_update_check_interval_hours cfg = (h, cfg)
     \<and> save_check_interval now checks interval_hours s =
        (cfg, if h \<le> 0 then dict_pop UPDATE_CHECK_JOB_ID (snd s)
              else dict_set UPDATE_CHECK_JOB_ID (CheckJob h (first_check_time now h (last_scan checks))) (dict_pop UPDATE_CHECK_JOB_ID (snd s)))"
proof -
  obtain n d where "(case py_int interval_hours of Some n \<Rightarrow> (n, fst s) | None \<Rightarrow> get_update_check_interval_hours (fst s)) = (n, d)" by fastforce
  moreover obtain h where "h \<in> set UPDATE_CHECK_INTERVALS" "get_update_check_interval_hours (save_update_check_interval_hours (JNum n) d)
     = (h, save_update_check_interval_hours (JNum n) d)" using saved_interval by blast
  ultimately show ?thesis
    by (intro exI [of _ "save_update_check_interval_hours (JNum n) d"] exI [of _ h])
      (simp add: save_check_interval_def apply_update_check_schedule_def Let_def)
qed

text \<open>C28. The card that answers the form agrees with the scheduler: it shows an interval of zero and no line exactly when no check is
  scheduled, and otherwise the interval of the scheduled job and the time until its first run.\<close>
theorem card_tells_schedule:
  "let (cfg, jobs) = save_check_interval now checks interval_hours s; cc = fst (check_card_context now checks cfg) in
     case dict_get jobs UPDATE_CHECK_JOB_ID of
       None \<Rightarrow> cc_hours cc = 0 \<and> cc_line cc = []
     | Some j \<Rightarrow> \<exists>h first. j = CheckJob h first \<and> cc_hours cc = h \<and> h \<in> set UPDATE_CHECK_INTERVALS \<and> 0 < h
         \<and> cc_line cc = status_line now (last_scan checks) first \<and> first \<ge> now + 60"
proof -
  obtain cfg h where h: "h \<in> set UPDATE_CHECK_INTERVALS" and cfg: "get_update_check_interval_hours cfg = (h, cfg)"
    and saved: "save_check_interval now checks interval_hours s =
        (cfg, if h \<le> 0 then dict_pop UPDATE_CHECK_JOB_ID (snd s)
              else dict_set UPDATE_CHECK_JOB_ID (CheckJob h (first_check_time now h (last_scan checks))) (dict_pop UPDATE_CHECK_JOB_ID (snd s)))"
    using scheduled_interval by blast
  show ?thesis
  proof (cases "h = 0")
    case True
    then show ?thesis using cfg by (simp add: saved check_card_context_def dict_simps)
  next
    case False
    then have "1 \<le> h" using interval_nonneg [OF h] by simp
    then show ?thesis using h cfg first_check_later [of h now "last_scan checks"]
      by (simp add: saved check_card_context_def dict_simps)
  qed
qed

end
