(* ===== verification/Breakers.thy ===== *)
theory Breakers
  imports AutoUpdatePages
begin

section \<open>HTTP clients, template filters and browser reports (app/httpx_client.py, app/cert_utils.py, app/templates_env.py, app/main.py)\<close>

text \<open>
  How a client is made: what it trusts, its time limits and the circuit breaker that all clients of one host share.  The
  breaker itself is a library: \<open>bl_fresh\<close> is a new one with a name, and \<open>bl_call\<close> what a call at a time gets, which may be
  the answer of the server or the breaker's own refusal, with the breaker after it.
\<close>

subsection \<open>Clients\<close>

datatype trust = SystemTrust | PinnedTrust string | NoTrust

text \<open>Connect, read, write and pool, in seconds.\<close>

record time_limits =
  tl_connect :: nat
  tl_read :: nat
  tl_write :: nat
  tl_pool :: nat

definition DEFAULT_TIMEOUT :: time_limits where
  "DEFAULT_TIMEOUT = \<lparr>tl_connect = 5, tl_read = 15, tl_write = 15, tl_pool = 30\<rparr>"

record client_options =
  co_base :: string
  co_headers :: "(string \<times> string) list"
  co_trust :: trust
  co_timeout :: time_limits
  co_redirects :: bool

text \<open>\<open>context\<close> is the certificate of an SSL context, which goes before \<open>verify\<close>.\<close>

definition make_client ::
  "bool \<Rightarrow> string option \<Rightarrow> string \<Rightarrow> (string \<times> string) list \<Rightarrow> time_limits option \<Rightarrow> bool \<Rightarrow> client_options" where
  "make_client verify context base_url headers timeout follow =
     \<lparr>co_base = base_url, co_headers = headers,
      co_trust = (case context of Some pem \<Rightarrow> PinnedTrust pem | None \<Rightarrow> if verify then SystemTrust else NoTrust),
      co_timeout = get_or timeout DEFAULT_TIMEOUT, co_redirects = follow\<rparr>"

text \<open>A context that trusts one certificate, for any host name; \<open>load_verify_locations\<close> may refuse the text.\<close>

definition build_pinned_ssl_ctx :: "(string \<Rightarrow> bool) \<Rightarrow> string \<Rightarrow> string res" where
  "build_pinned_ssl_ctx pem_ok pem = (if pem_ok pem then Inr pem else raise ''ssl.SSLError'' ''not enough data: cadata does not contain a certificate'')"

definition pinned_context :: "(string \<Rightarrow> bool) \<Rightarrow> string \<Rightarrow> string option res" where
  "pinned_context pem_ok pem =
     (if pem \<noteq> [] then res_bind (build_pinned_ssl_ctx pem_ok pem) (\<lambda>p. Inr (Some p)) else Inr None)"

definition px_headers :: "string \<Rightarrow> (string \<times> string) list" where
  "px_headers token = [(''Authorization'', ''PVEAPIToken='' @ token)]"

definition px_options :: "(string \<Rightarrow> bool) \<Rightarrow> px_client \<Rightarrow> client_options res" where
  "px_options pem_ok c =
     (if \<not> pc_verify c then Inr (make_client False None (pc_base c) (px_headers (pc_token c)) None False)
      else res_bind (pinned_context pem_ok (pc_pem c)) (\<lambda>ctx.
        Inr (make_client True ctx (pc_base c) (px_headers (pc_token c)) None False)))"

text \<open>The client of \<open>wait_for_node\<close>, which does not look at \<open>verify_ssl\<close>.\<close>

definition wait_options :: "(string \<Rightarrow> bool) \<Rightarrow> px_client \<Rightarrow> client_options res" where
  "wait_options pem_ok c =
     res_bind (pinned_context pem_ok (pc_pem c)) (\<lambda>ctx.
       Inr (make_client True ctx (pc_base c) (px_headers (pc_token c))
         (Some \<lparr>tl_connect = 5, tl_read = 5, tl_write = 5, tl_pool = 5\<rparr>) False))"

definition portainer_options :: "(string \<Rightarrow> bool) \<Rightarrow> string \<Rightarrow> string \<Rightarrow> string \<Rightarrow> time_limits option \<Rightarrow> client_options res" where
  "portainer_options pem_ok url key pem timeout =
     res_bind (pinned_context pem_ok pem) (\<lambda>ctx.
       Inr (make_client True ctx (rstrip_char CHR ''/'' url) [(''X-API-Key'', key)] timeout False))"

lemma wait_ignores_verify:
  "pc_verify c = False \<Longrightarrow> pc_pem c = [] \<Longrightarrow>
     map_sum id co_trust (px_options pem_ok c) = Inr NoTrust \<and> map_sum id co_trust (wait_options pem_ok c) = Inr SystemTrust"
  by (simp add: px_options_def wait_options_def pinned_context_def make_client_def)

subsection \<open>Circuit breakers\<close>

record 'k breaker_lib =
  bl_fresh :: "string \<Rightarrow> 'k"
  bl_call :: "'k \<Rightarrow> time \<Rightarrow> api_out \<Rightarrow> api_out \<times> 'k"

type_synonym 'k breakers = "(string \<times> 'k) list"

definition get_breaker :: "'k breaker_lib \<Rightarrow> string \<Rightarrow> 'k breakers \<Rightarrow> 'k \<times> 'k breakers" where
  "get_breaker lib host bs =
     (case dict_get bs host of
        Some k \<Rightarrow> (k, bs)
      | None \<Rightarrow> (bl_fresh lib host, dict_set host (bl_fresh lib host) bs))"

definition host_from_url :: "string \<Rightarrow> string res" where
  "host_from_url url = res_bind (url_hostname url) (\<lambda>h. Inr (or_s h url))"

text \<open>One call through the breaker of a host: what the caller gets.\<close>

definition breaker_call :: "'k breaker_lib \<Rightarrow> string \<Rightarrow> time \<Rightarrow> api_out \<Rightarrow> 'k breakers \<Rightarrow> api_out \<times> 'k breakers" where
  "breaker_call lib host now answer bs =
     (let (k, bs1) = get_breaker lib host bs; (out, k') = bl_call lib k now answer in (out, dict_set host k' bs1))"

text \<open>A client made for a base URL, and the calls on it.\<close>

definition make_breaker_client ::
  "'k breaker_lib \<Rightarrow> string \<Rightarrow> (time \<times> api_out) list \<Rightarrow> 'k breakers \<Rightarrow> api_out list res \<times> 'k breakers" where
  "make_breaker_client lib base_url calls bs =
     (case host_from_url base_url of
        Inl e \<Rightarrow> (Inl e, bs)
      | Inr host \<Rightarrow>
          let bs1 = snd (get_breaker lib host bs);
              (outs, bs2) = fold (\<lambda>(now, answer) (os, b). let (out, b') = breaker_call lib host now answer b in (os @ [out], b')) calls ([], bs1)
          in (Inr outs, bs2))"

subsection \<open>Tables with one entry per key\<close>

text \<open>
  The breakers of the hosts, the refresh times of the update checks and the failed logins of the addresses are tables in memory
  that every request shares.  What their users rely on is that an operation on one key looks at and changes only the entry at
  the place of that key; then everything said at one place depends on the operations there alone, in whatever order the others
  come.
\<close>

fun run_keyed :: "('k \<Rightarrow> 'i \<Rightarrow> 't \<Rightarrow> 'o \<times> 't) \<Rightarrow> ('k \<times> 'i) list \<Rightarrow> 't \<Rightarrow> ('k \<times> 'o) list" where
  "run_keyed act [] t = []"
| "run_keyed act ((k, i) # ops) t = (let (out, t') = act k i t in (k, out) # run_keyed act ops t')"

locale keyed_table =
  fixes act :: "'k \<Rightarrow> 'i \<Rightarrow> 't \<Rightarrow> 'o \<times> 't" and place :: "'k \<Rightarrow> 'p" and look :: "'t \<Rightarrow> 'p \<Rightarrow> 'v"
  assumes own_answer: "look t (place k) = look u (place k) \<Longrightarrow> fst (act k i t) = fst (act k i u)"
    and own_entry: "look t (place k) = look u (place k) \<Longrightarrow> look (snd (act k i t)) (place k) = look (snd (act k i u)) (place k)"
    and other_entry: "place k \<noteq> p \<Longrightarrow> look (snd (act k i t)) p = look t p"
begin

lemma run_local:
  "look t p = look u p \<Longrightarrow>
     filter (\<lambda>x. place (fst x) = p) (run_keyed act ops t) = run_keyed act (filter (\<lambda>x. place (fst x) = p) ops) u"
proof (induction ops arbitrary: t u)
  case (Cons op ops)
  obtain l i where op: "op = (l, i)" by (cases op)
  obtain out t1 where t: "act l i t = (out, t1)" by fastforce
  show ?case
  proof (cases "place l = p")
    case True
    obtain out' u1 where u: "act l i u = (out', u1)" by fastforce
    have "out = out'" "look t1 p = look u1 p"
      using own_answer [of t l u i] own_entry [of t l u i] Cons.prems t u True by simp_all
    then show ?thesis using Cons.IH op t u True by simp
  next
    case False
    then have "look t1 p = look u p" using other_entry [of l p i t] Cons.prems t by simp
    then show ?thesis using Cons.IH op t False by simp
  qed
qed simp

lemma isolated:
  "filter (\<lambda>x. place (fst x) = p) (run_keyed act ops t) = run_keyed act (filter (\<lambda>x. place (fst x) = p) ops) t"
  by (rule run_local) simp

end









text \<open>The refresh times: a question with its limit, or a note that the lists were refreshed.\<close>

datatype refresh_op = AskFresh int | NoteFresh

definition refresh_act :: "string \<Rightarrow> time \<times> refresh_op \<Rightarrow> refreshes \<Rightarrow> bool \<times> refreshes" where
  "refresh_act key call c =
     (case snd call of AskFresh ttl \<Rightarrow> (is_cache_fresh (fst call) key ttl c, c) | NoteFresh \<Rightarrow> (True, mark_refreshed (fst call) key c))"

interpretation refresh_table: keyed_table refresh_act "\<lambda>key. key" dict_get
  by unfold_locales (auto simp: refresh_act_def is_cache_fresh_def mark_refreshed_def dict_simps split: refresh_op.splits)

text \<open>Failed logins: the check before a form is looked at, a failure, and a success.\<close>

datatype login_op = MayTry | FailedOnce | Succeeded

definition login_act :: "string \<Rightarrow> time \<times> login_op \<Rightarrow> attempts \<Rightarrow> (bool \<times> int) \<times> attempts" where
  "login_act ip call a =
     (case snd call of
        MayTry \<Rightarrow> check_rate_limit (fst call) ip a
      | FailedOnce \<Rightarrow> ((True, 0), record_failure (fst call) ip a)
      | Succeeded \<Rightarrow> ((True, 0), clear_attempts ip a))"

interpretation login_table: keyed_table login_act "\<lambda>ip. ip" dict_get
  by unfold_locales (auto simp: login_act_def check_rate_limit_def record_failure_def clear_attempts_def attempts_of_def Let_def dict_simps
    split: login_op.splits)

text \<open>What an address is told about its lockout depends on its own attempts alone.\<close>

lemma lockouts_isolated:
  "filter (\<lambda>x. fst x = ip) (run_keyed login_act ops a) = run_keyed login_act (filter (\<lambda>x. fst x = ip) ops) a"
  by (rule login_table.isolated)

lemma refreshes_isolated:
  "filter (\<lambda>x. fst x = key) (run_keyed refresh_act ops c) = run_keyed refresh_act (filter (\<lambda>x. fst x = key) ops) c"
  by (rule refresh_table.isolated)

subsection \<open>Template filters (app/templates_env.py)\<close>

definition css_safe :: "char \<Rightarrow> bool" where
  "css_safe c \<longleftrightarrow> is_lower c \<or> is_upper c \<or> is_digit c \<or> c \<in> set ''_-''"

text \<open>The bytes of a character after its first stand for no character of their own.\<close>

definition later_byte :: "char \<Rightarrow> bool" where "later_byte c \<longleftrightarrow> 128 \<le> code_point c \<and> code_point c < 192"

definition css_id :: "string \<Rightarrow> string" where
  "css_id value = map (\<lambda>c. if css_safe c then c else CHR ''-'') (filter (\<lambda>c. \<not> later_byte c) value)"

text \<open>Two stacks can share an element id, and then htmx replaces the row of the first.\<close>

lemma css_id_clash: "css_id ''ssh/nas/web:app'' = css_id ''ssh/nas/web-app''"
  by code_simp

text \<open>\<open>local_text\<close> is the time in a zone with its abbreviation, \<open>None\<close> when the zone is unknown.\<close>

definition as_local :: "(string \<Rightarrow> stamp) \<Rightarrow> (string \<Rightarrow> time \<Rightarrow> string option) \<Rightarrow> disk \<Rightarrow> string \<Rightarrow> string" where
  "as_local read_iso local_text cfg dt =
     (let fallback = py_replace ''T'' '' '' (take 16 dt) @ '' UTC''; shown = (\<lambda>t. get_or (local_text (get_timezone cfg) t) fallback) in
      case read_iso dt of Aware t \<Rightarrow> shown t | Naive t \<Rightarrow> shown t | BadStamp \<Rightarrow> fallback)"

subsection \<open>Reports of the content security policy\<close>

text \<open>\<open>json_str\<close> is \<open>str\<close> of the report.  A body that is JSON but no object has no \<open>get\<close>.\<close>

definition csp_report :: "(json \<Rightarrow> string) \<Rightarrow> time \<Rightarrow> json option \<Rightarrow> log_line list \<Rightarrow> web_response res \<times> log_line list" where
  "csp_report json_str now body buf =
     (case get_or body (JObj []) of
        JObj fs \<Rightarrow>
          let inner = get_or (dict_get fs ''csp-report'') JNull; report = (if json_truthy inner then inner else JObj fs) in
          (Inr \<lparr>ws_status = 204, ws_headers = [], ws_body = NoBody\<rparr>,
           emit_line now ''WARNING'' (''CSP violation: '' @ json_str report) buf)
      | _ \<Rightarrow> (raise ''AttributeError'' ''no attribute get'', buf))"

text \<open>A browser's report never makes the log grow without bound, and one that is no object is refused without a line.\<close>
lemma csp_report_bounded:
  "length buf \<le> MAX_LINES \<Longrightarrow> length (snd (csp_report json_str now body buf)) \<le> MAX_LINES"
  by (auto simp: csp_report_def emit_line_def Let_def MAX_LINES_def split: json.splits)

end
