(* ===== verification/KeyPair.thy ===== *)
theory KeyPair
  imports Breakers
begin

section \<open>The key pair for a Proxmox node (app/auth_router.py)\<close>

text \<open>
  The route of the wizard that makes an Ed25519 key once and shows the command that authorises it.  \<open>public_of\<close> is the public
  line of a private key in OpenSSH format, which raises for a file that holds no key; a fresh private key is an argument.
\<close>

definition KEY_NAME :: string where "KEY_NAME = ''keepup_proxmox_ed25519''"

definition key_page :: "string \<Rightarrow> web_response" where
  "key_page cmd = html 200 (
     ''<div class='' @ [DQUOTE] @ ''mt-2 space-y-2'' @ [DQUOTE] @ ''><p class='' @ [DQUOTE] @ ''text-xs text-green-400''
     @ [DQUOTE] @ ''>&#10003; Key pair generated &mdash; <code>keepup_proxmox_ed25519</code></p><p class='' @ [DQUOTE]
     @ ''text-xs text-slate-400'' @ [DQUOTE] @ ''>Run this on your Proxmox node to authorise Keepup:</p><div class='' @ [DQUOTE]
     @ ''relative'' @ [DQUOTE] @ ''><textarea readonly rows='' @ [DQUOTE] @ ''2'' @ [DQUOTE] @ '' id='' @ [DQUOTE]
     @ ''proxmox-keygen-cmd'' @ [DQUOTE] @ '' class='' @ [DQUOTE]
     @ ''w-full bg-slate-900 border border-slate-600 rounded-lg px-3 py-2 text-xs text-slate-300 font-mono resize-none focus:outline-none''
     @ [DQUOTE] @ ''>'' @ cmd @ ''</textarea><button type='' @ [DQUOTE] @ ''button'' @ [DQUOTE] @ '' onclick='' @ [DQUOTE]
     @ ''navigator.clipboard.writeText(document.getElementById('' @ [QUOTE] @ ''proxmox-keygen-cmd'' @ [QUOTE] @ '').value)''
     @ [DQUOTE] @ '' class='' @ [DQUOTE]
     @ ''absolute top-2 right-2 px-2 py-0.5 rounded bg-slate-600 hover:bg-slate-500 text-xs text-slate-300 transition-colors''
     @ [DQUOTE] @ ''>Copy</button></div><script>(function(){  var sel = document.getElementById('' @ [DQUOTE]
     @ ''proxmox-lxc-ssh-key'' @ [DQUOTE]
     @ '');  if (sel) { for (var i=0; i<sel.options.length; i++) {    if (sel.options[i].value === '' @ [DQUOTE]
     @ ''keepup_proxmox_ed25519'' @ [DQUOTE] @ '') { sel.selectedIndex = i; break; }  } }})();</script></div>'')"

definition authorise_command :: "string \<Rightarrow> string" where
  "authorise_command pub = ''echo '' @ [DQUOTE] @ pub @ [DQUOTE] @ '' >> ~/.ssh/authorized_keys''"

definition setup_proxmox_generate_ssh_key ::
  "(string \<Rightarrow> string res) \<Rightarrow> string \<Rightarrow> web_request \<Rightarrow> string option \<Rightarrow> web_response res \<times> string option" where
  "setup_proxmox_generate_ssh_key public_of fresh rq file_text =
     (let private_key = get_or file_text fresh in
      (res_bind (public_of private_key) (\<lambda>pub. Inr (key_page (authorise_command pub))), Some private_key))"

text \<open>Asking again, whatever key would be drawn then, gives the same answer and leaves the key that was authorised.\<close>

lemma key_is_made_once:
  assumes "setup_proxmox_generate_ssh_key public_of fresh rq file_text = (r, file1)"
  shows "setup_proxmox_generate_ssh_key public_of fresh2 rq2 file1 = (r, file1)"
  using assms by (auto simp: setup_proxmox_generate_ssh_key_def get_or_def Let_def)

end
