(* ===== verification/Spec2Isabelle.thy ===== *)
theory Spec2Isabelle
  imports PackageParsing ConfigFacts ProxmoxFacts KeyPair
begin

text \<open>
  A model of Keepup (directory app/), the web application that checks Linux hosts, Proxmox nodes and guests and Docker
  stacks for updates and installs them.

  \<^bold>\<open>The program.\<close>  Keepup is one FastAPI process.  Its state is a handful of files in the data directory: the configuration
  config.yml, the encrypted credential store, the index and the outputs of finished runs, the list of notifications, what the
  notifier has already announced and the times of the last checks; beside them the signed session cookie, the table of the
  scheduler, the jobs started from the dashboard and some caches in memory.  Requests pass a chain of middlewares (main.py,
  csrf.py, security_headers.py) and reach the routes of main.py, auth_router.py, admin.py and auto_updates_router.py.  Those call
  config_manager.py and credentials.py, and, to act on a machine, host_ops.py, which decides between SSH (ssh_client.py with
  package_managers.py) and the Proxmox API (proxmox_client.py), or one of two container backends (backends/).  The scheduler
  (auto_update_scheduler.py) runs the same operations unattended, and update_scan.py looks for updates and hands what it finds
  to the notifier.

  \<^bold>\<open>Conventions.\<close>  A \<open>str\<close> is a \<open>string\<close>, read as its UTF-8 bytes; operations on text are exact for ASCII.  A \<open>dict\<close> is
  an association list (\<open>dict_get\<close>, \<open>dict_set\<close>, \<open>dict_pop\<close>), since order and aliasing through \<open>setdefault\<close> show; decoded JSON
  is the datatype \<open>json\<close>.  An exception is a value \<open>Exn class message lines\<close> of type \<open>exn\<close>, and an operation that can raise
  returns \<open>exn + 'a\<close> (written \<open>'a res\<close>), with the state after it beside the result, so that what was written before an
  exception stays.  Clock readings are rational seconds; the clock, fresh identifiers and random tokens are arguments.  A
  handler is a function from a request and the state to a response or exception and the state; a page is the name of its
  template with the values that the code passes to it, without the request object.

  What is not Keepup's code is a parameter.  asyncssh is \<open>dial\<close> and \<open>transport\<close> (what a command answers after the commands
  before it), httpx is a function from requests to outcomes per client (\<open>http\<close>, \<open>api\<close>, \<open>papi\<close>, \<open>wizard_net\<close>), Fernet with the
  JSON of the store is \<open>crypto\<close>, bcrypt, SHA-256 and TOTP are \<open>auth_lib\<close>, and the X.509 library, the circuit breaker, the
  crontab parser, the time zone database and the parsing of ISO times are arguments of the definitions that use them.  Laws
  about them are hypotheses with documented content (\<open>crypto_ok\<close>: what was encrypted under a valid key decrypts to it;
  \<open>auth_lib_ok\<close>: a hash verifies its password), and each theorem that has hypotheses is followed by a witness on concrete
  parameters.

  \<^bold>\<open>Theories.\<close>  Prelude, PyText and PyUrl: Python's text functions, numerals, \<open>urlsplit\<close>, exceptions and JSON.
  PackageManagers and PackageParsing (package_managers.py): the six managers; the parsers read back what the managers print.
  RegistryClient (registry_client.py): image references, digests, the outcome of a check.
  Credentials (credentials.py) and Auth (auth.py): the store, with the interface \<open>integration_store\<close> on which the account rests.
  ConfigManager and ConfigFacts (config_manager.py): every reader and writer of the configuration; slugs, server ids, migrations,
  pinned certificates through the interface \<open>service_setting\<close>.
  Notifications (notifications.py, pushover.py, update_notifier.py), ActivityLog (activity_log.py), Timekeeping (last_check.py,
  update_check_cache.py, log_buffer.py).
  SshClient (ssh_client.py), Proxmox, ProxmoxFacts and Discovery (proxmox_client.py, self_identity.py), HostOps (host_ops.py).
  Scheduler (auto_update_scheduler.py) and UpdateScan (update_scan.py, backend_loader.py).
  DockerText, DockerHosts, DockerRun and DockerUpdate (backends/ssh_docker_backend.py), Portainer (portainer_client.py), and
  Backends (backends/portainer_backend.py), where the references of both backends interpret \<open>stack_references\<close>.
  WebStack (middlewares of main.py), Login and Connect (the login, recovery and wizard routes of auth_router.py, cert_utils.py,
  audit.py), Jobs and Dashboard (the routes of main.py), Startup (its lifespan), ProxmoxWizard and SetupHosts (the rest of the
  wizard), AdminIntegrations, AdminAccount, AdminHttps and AdminHosts (admin.py, ssl_manager.py), AutoUpdatePages
  (auto_updates_router.py), Breakers (httpx_client.py, templates_env.py) and KeyPair (one route of the wizard).

  \<^bold>\<open>State.\<close>  The record \<open>config\<close> has one field per key of config.yml and \<open>disk\<close> is the file or its absence; \<open>cred_disk\<close> holds
  the environment, the key file and the encrypted store; \<open>log_state\<close> the index and the outputs; \<open>notif_state\<close> and \<open>nstored\<close> the
  bell and the notifier's memory; \<open>jobs\<close> the scheduler's table.  \<open>web\<close> joins session, credentials, configuration, the windows
  of the rate limits and the two logs; \<open>dash\<close> adds the jobs of the dashboard with their queue of tasks, \<open>boot\<close> what the start
  reads, \<open>https_state\<close> the certificate files.  The wizard and the administration are written in \<open>web_steps\<close>, a state and
  exception monad over \<open>web\<close>, and the sessions on a machine in \<open>steps\<close>, which collects the commands that were sent.

  \<^bold>\<open>What is proved.\<close>  Safety of actions: the Proxmox API is never asked to reboot the node Keepup knows it runs on, a container or
  stack that a readable listing shows to be Keepup's own is not updated (Portainer's check passes when it fails otherwise); a
  scheduled reboot follows only a successful upgrade; the commands of a container's update are given exactly, so that the old
  container goes only after its replacement was found running and otherwise comes back under its name; a queued upgrade or
  restart under a host's own login has the sudo password it needs.  Accounts and sessions: protected routes need a session of
  the existing account at its current version, each change of the password or the second factor ends the earlier sessions as
  long as the account is not deleted, wrong logins beyond the limit and administrative requests beyond theirs get an answer
  that does not depend on what they hold (\<open>judged\<close>) or on the routes (\<open>reaches\<close>), the flags of a session have their evidence in
  the requests before it, a form of the account page without the password changes nothing, a certificate is pinned only after
  the page asked about it and the user accepted it.  Data: the ids of servers stay distinct under every operation on them, a
  reserved one comes only from the migration of the singleton block, references to a removed server disappear and the prompt
  of the removal names them rightly, guests are added once and with their server, the credentials form decides the login.
  Jobs: each started job ends and is recorded, running jobs are queued, the table of the scheduler follows the settings and the
  page shows what the table holds.  Text: parsers read back what is printed (for apt with all the lines a simulation holds), a
  quoted command is one shell word, the command that recreates a container says every setting of its document
  (\<open>container_settings\<close>), stored values of eight characters and more under the names that the redaction knows do not reach the
  stored output, the log view reads back as the lines that were printed.  Invariants over sequences of operations are proved by
  induction over request lists (\<open>browse\<close>, \<open>after_guests\<close>), over lists of operations (\<open>run_ops\<close>, \<open>run_server_op\<close>) or over the step
  relations \<open>page_step\<close>, \<open>sched_step\<close> and \<open>dash_step\<close>; the two rate limits interpret one interface, \<open>sliding_window\<close>, and the tables
  with one entry per host or address another, \<open>keyed_table\<close>, which makes what is told at one place independent of the others.

  \<^bold>\<open>Bounds.\<close>  No definition uses fuel: loops of the code are recursions over lists, over the attempts that a constant allows
  (polls of a node, retries of a stopped guest, the search for a free id), or over the text.  The bounds of the code are kept
  as they are: 50 notifications, 500 runs and 90 days of the index, 500 log lines, 5 failures in 15 minutes, 30 requests a
  minute, 12 characters of a password.

  \<^bold>\<open>Order.\<close>  Requests are atomic: the interleaving of two requests inside their awaits is not modelled.  Checks that the code runs
  concurrently are taken in list order; they share only caches with one entry per host.  Tasks that a route leaves behind are
  a queue from which any task may run next.

  \<^bold>\<open>Not modelled.\<close>  The templates, styles and scripts; the limits that slowapi puts on some routes; the wiring of routers and of
  the logging library (\<open>setup_audit_log\<close>, \<open>setup_log_buffer\<close>); the details of an audit line, which hold no decision; the making
  of SSH keys and the signing of certificates, which belong to the cryptography library;
  permissions of files; writes to a full disk, except where the code answers them (the index of the runs, the check times).
\<close>

end
